(* ===== verification/Prelude.thy ===== *)
theory Prelude
  imports Main "HOL-Library.Word" "HOL-Library.State_Monad" "HOL-Library.Monad_Syntax"
begin

unbundle bit_operations_syntax

text \<open>
  Shared vocabulary of the development: the fixed-width integer types of the C sources, the
  errno values they return, memory-mapped device registers as an abstract parameter, copies
  between arrays, and the lemmas on words, rings and lists that the component theories share.
\<close>

section \<open>Machine integers and error codes\<close>

type_synonym u8 = "8 word"
type_synonym u16 = "16 word"
type_synonym u32 = "32 word"
type_synonym u64 = "64 word"

text \<open>Linux errno values; the code returns them negated in an \<open>int\<close>.\<close>

abbreviation (input) EIO :: int where "EIO \<equiv> 5"
abbreviation (input) EAGAIN :: int where "EAGAIN \<equiv> 11"
abbreviation (input) ENOMEM :: int where "ENOMEM \<equiv> 12"
abbreviation (input) EBUSY :: int where "EBUSY \<equiv> 16"
abbreviation (input) ENODEV :: int where "ENODEV \<equiv> 19"
abbreviation (input) EINVAL :: int where "EINVAL \<equiv> 22"
abbreviation (input) ENOSPC :: int where "ENOSPC \<equiv> 28"
abbreviation (input) ENODATA :: int where "ENODATA \<equiv> 61"
abbreviation (input) EINPROGRESS :: int where "EINPROGRESS \<equiv> 115"

section \<open>Collections of facts\<close>

named_theorems quiet \<open>monadic operations that leave the owned register bits alone\<close>
named_theorems hal_ops \<open>operations that change nothing above the FIFO layer\<close>
named_theorems field_words \<open>extraction of a bit field after it was inserted\<close>

section \<open>Memory-mapped registers\<close>

text \<open>
  The hardware is not code of the repository. It is a parameter: a state type \<open>'h\<close> and the two
  kernel accessors \<open>readl_relaxed\<close> and \<open>writel_relaxed\<close>. A read may change the device state (the
  device runs on its own), so it returns the value together with the next state.
\<close>

record 'h mmio =
  mm_readl :: "u64 \<Rightarrow> 'h \<Rightarrow> u32 \<times> 'h"
  mm_writel :: "u32 \<Rightarrow> u64 \<Rightarrow> 'h \<Rightarrow> 'h"

definition readl_relaxed :: "'h mmio \<Rightarrow> u64 \<Rightarrow> ('h, u32) state" where
  "readl_relaxed m a = State (mm_readl m a)"

definition writel_relaxed :: "'h mmio \<Rightarrow> u32 \<Rightarrow> u64 \<Rightarrow> ('h, unit) state" where
  "writel_relaxed m v a = State (\<lambda>h. ((), mm_writel m v a h))"

text \<open>The value the driver would read from register \<open>a\<close> now.\<close>

definition peek :: "'h mmio \<Rightarrow> u64 \<Rightarrow> 'h \<Rightarrow> u32" where
  "peek m a h = fst (mm_readl m a h)"

text \<open>
  What the driver relies on. \<open>wm a\<close> is the set of bits of register \<open>a\<close> that belong to the driver:
  a write sets them, and nothing but a write to \<open>a\<close> changes them. The other bits (fill counts,
  full and empty flags, interrupt status) are the device's: they may change at every access.
\<close>

definition mmio_ok :: "'h mmio \<Rightarrow> (u64 \<Rightarrow> u32) \<Rightarrow> bool" where
  "mmio_ok m wm \<longleftrightarrow>
     (\<forall>a v h. peek m a (mm_writel m v a h) AND wm a = v AND wm a) \<and>
     (\<forall>a b v h. a \<noteq> b \<longrightarrow> peek m b (mm_writel m v a h) AND wm b = peek m b h AND wm b) \<and>
     (\<forall>a b h. peek m b (snd (mm_readl m a h)) AND wm b = peek m b h AND wm b)"

text \<open>A register file of plain memory cells: one device that meets the contract, for witnesses.\<close>

definition ram :: "(u64 \<Rightarrow> u32) mmio" where
  "ram = \<lparr>mm_readl = (\<lambda>a h. (h a, h)), mm_writel = (\<lambda>v a h. h(a := v))\<rparr>"

lemma ram_simps [simp]:
  "mm_readl ram a h = (h a, h)" "mm_writel ram v a h = h(a := v)" "peek ram a h = h a"
  by (simp_all add: ram_def peek_def)

lemma mmio_ok_ram: "mmio_ok ram wm"
  by (simp add: mmio_ok_def)

text \<open>The bits of register \<open>a\<close> in the mask \<open>F\<close>; \<open>owned\<close> says the driver owns them.\<close>

abbreviation owned :: "(u64 \<Rightarrow> u32) \<Rightarrow> u64 \<Rightarrow> u32 \<Rightarrow> bool" where
  "owned wm a F \<equiv> wm a AND F = F"

definition fld :: "'h mmio \<Rightarrow> u64 \<Rightarrow> u32 \<Rightarrow> 'h \<Rightarrow> u32" where
  "fld m a F h = peek m a h AND F"

lemma owned_restrict: "t AND w = v AND w \<Longrightarrow> w AND F = F \<Longrightarrow> t AND F = v AND (F::u32)"
  by (metis and.assoc)

lemma fld_write_same: "mmio_ok m wm \<Longrightarrow> owned wm a F \<Longrightarrow> fld m a F (mm_writel m v a h) = v AND F"
  unfolding fld_def mmio_ok_def by (blast intro: owned_restrict)

lemma fld_write_other:
  "mmio_ok m wm \<Longrightarrow> owned wm b F \<Longrightarrow> a \<noteq> b \<Longrightarrow> fld m b F (mm_writel m v a h) = fld m b F h"
  unfolding fld_def mmio_ok_def by (blast intro: owned_restrict)

lemma fld_read: "mmio_ok m wm \<Longrightarrow> owned wm b F \<Longrightarrow> fld m b F (snd (mm_readl m a h)) = fld m b F h"
  unfolding fld_def mmio_ok_def by (blast intro: owned_restrict)

lemma fst_readl_fld: "fst (mm_readl m a h) AND F = fld m a F h"
  by (simp add: fld_def peek_def)

lemma run_readl [simp]: "run_state (readl_relaxed m a) h = mm_readl m a h"
  by (simp add: readl_relaxed_def)

lemma run_writel [simp]: "run_state (writel_relaxed m v a) h = ((), mm_writel m v a h)"
  by (simp add: writel_relaxed_def)

section \<open>Copies between arrays\<close>

text \<open>
  \<open>memcpy dst i src j n\<close>: copy \<open>n\<close> elements from \<open>src[j..]\<close> to \<open>dst[i..]\<close>. \<open>None\<close> when the copy
  touches an element outside one of the arrays, which is undefined in C.
\<close>

definition memcpy :: "'a list \<Rightarrow> nat \<Rightarrow> 'a list \<Rightarrow> nat \<Rightarrow> nat \<Rightarrow> 'a list option" where
  "memcpy dst i src j n =
     (if i + n \<le> length dst \<and> j + n \<le> length src
      then Some (take i dst @ take n (drop j src) @ drop (i + n) dst) else None)"

lemma memcpy_length: "memcpy dst i src j n = Some d \<Longrightarrow> length d = length dst"
  by (auto simp: memcpy_def split: if_splits)

lemma memcpy_nth:
  assumes "memcpy dst i src j n = Some d" "k < length dst"
  shows "d ! k = (if i \<le> k \<and> k < i + n then src ! (j + (k - i)) else dst ! k)"
proof -
  have d: "d = take i dst @ take n (drop j src) @ drop (i + n) dst" and b: "i + n \<le> length dst" "j + n \<le> length src"
    using assms(1) by (auto simp: memcpy_def split: if_splits)
  have k: "k < i \<or> (i \<le> k \<and> k < i + n) \<or> i + n \<le> k" by linarith
  then show ?thesis
  proof (elim disjE)
    assume "i \<le> k \<and> k < i + n"
    then have "k - i < n" by linarith
    with b \<open>i \<le> k \<and> k < i + n\<close> show ?thesis by (simp add: d nth_append)
  next
    assume "i + n \<le> k"
    moreover from this have "\<not> k < i" "\<not> k - i < n" by linarith+
    ultimately show ?thesis using b assms(2) by (simp add: d nth_append)
  qed (use b in \<open>simp add: d nth_append\<close>)
qed

end
