(* ===== verification/SipaPhy.thy ===== *)
theory SipaPhy
  imports Prelude
begin

text \<open>
  The register layer of the SIPA packet FIFOs:
  \<^verbatim>\<open>quectel_SRPD_PCIE/src/sipa/sipa_phy_v0/sipa_fifo_phy.h\<close>. Every accessor of the header is one
  definition with the accessor's name: it reads a register of the FIFO block at \<open>fifo_base\<close>,
  changes a bit field, writes it back, reads again and compares. The device is the parameter \<open>m\<close>;
  the lemmas assume only \<^term>\<open>mmio_ok\<close> of it and that the driver owns the field in question.
\<close>

section \<open>Register offsets and bits\<close>

abbreviation (input) IPA_COMMON_RX_FIFO_DEPTH :: u64 where "IPA_COMMON_RX_FIFO_DEPTH \<equiv> 0x00"
abbreviation (input) IPA_COMMON_RX_FIFO_WR :: u64 where "IPA_COMMON_RX_FIFO_WR \<equiv> 0x04"
abbreviation (input) IPA_COMMON_RX_FIFO_RD :: u64 where "IPA_COMMON_RX_FIFO_RD \<equiv> 0x08"
abbreviation (input) IPA_COMMON_TX_FIFO_DEPTH :: u64 where "IPA_COMMON_TX_FIFO_DEPTH \<equiv> 0x0C"
abbreviation (input) IPA_COMMON_TX_FIFO_WR :: u64 where "IPA_COMMON_TX_FIFO_WR \<equiv> 0x10"
abbreviation (input) IPA_COMMON_TX_FIFO_RD :: u64 where "IPA_COMMON_TX_FIFO_RD \<equiv> 0x14"
abbreviation (input) IPA_COMMON_RX_FIFO_ADDRL :: u64 where "IPA_COMMON_RX_FIFO_ADDRL \<equiv> 0x18"
abbreviation (input) IPA_COMMON_RX_FIFO_ADDRH :: u64 where "IPA_COMMON_RX_FIFO_ADDRH \<equiv> 0x1C"
abbreviation (input) IPA_COMMON_TX_FIFO_ADDRL :: u64 where "IPA_COMMON_TX_FIFO_ADDRL \<equiv> 0x20"
abbreviation (input) IPA_COMMON_TX_FIFO_ADDRH :: u64 where "IPA_COMMON_TX_FIFO_ADDRH \<equiv> 0x24"
abbreviation (input) IPA_PERFETCH_FIFO_CTL :: u64 where "IPA_PERFETCH_FIFO_CTL \<equiv> 0x28"
abbreviation (input) IPA_INT_GEN_CTL_TX_FIFO_VALUE :: u64 where "IPA_INT_GEN_CTL_TX_FIFO_VALUE \<equiv> 0x2C"
abbreviation (input) IPA_INT_GEN_CTL_EN :: u64 where "IPA_INT_GEN_CTL_EN \<equiv> 0x30"
abbreviation (input) IPA_DROP_PACKET_CNT :: u64 where "IPA_DROP_PACKET_CNT \<equiv> 0x34"
abbreviation (input) IPA_FLOW_CTRL_CONFIG :: u64 where "IPA_FLOW_CTRL_CONFIG \<equiv> 0x38"
abbreviation (input) IPA_TX_FIFO_FLOW_CTRL :: u64 where "IPA_TX_FIFO_FLOW_CTRL \<equiv> 0x3C"
abbreviation (input) IPA_RX_FIFO_FLOW_CTRL :: u64 where "IPA_RX_FIFO_FLOW_CTRL \<equiv> 0x40"
abbreviation (input) IPA_INT_GEN_CTL_CLR :: u64 where "IPA_INT_GEN_CTL_CLR \<equiv> 0x48"
abbreviation (input) IPA_TX_FIFO_WR_INIT :: u64 where "IPA_TX_FIFO_WR_INIT \<equiv> 0x60"
abbreviation (input) IPA_COMMON_RX_FIFO_AXI_STS :: u64 where "IPA_COMMON_RX_FIFO_AXI_STS \<equiv> 0x64"

text \<open>Interrupt enable bits, interrupt status bits and interrupt clear bits.\<close>

abbreviation (input) IPA_TXFIFO_INT_THRESHOLD_ONESHOT_EN :: u32 where "IPA_TXFIFO_INT_THRESHOLD_ONESHOT_EN \<equiv> 0x800"
abbreviation (input) IPA_TXFIFO_INT_THRESHOLD_SW_EN :: u32 where "IPA_TXFIFO_INT_THRESHOLD_SW_EN \<equiv> 0x400"
abbreviation (input) IPA_TXFIFO_INT_DELAY_TIMER_SW_EN :: u32 where "IPA_TXFIFO_INT_DELAY_TIMER_SW_EN \<equiv> 0x200"
abbreviation (input) IPA_TXFIFO_FULL_INT_EN :: u32 where "IPA_TXFIFO_FULL_INT_EN \<equiv> 0x100"
abbreviation (input) IPA_TXFIFO_OVERFLOW_EN :: u32 where "IPA_TXFIFO_OVERFLOW_EN \<equiv> 0x80"
abbreviation (input) IPA_ERRORCODE_IN_TX_FIFO_EN :: u32 where "IPA_ERRORCODE_IN_TX_FIFO_EN \<equiv> 0x40"
abbreviation (input) IPA_DROP_PACKET_OCCUR_INT_EN :: u32 where "IPA_DROP_PACKET_OCCUR_INT_EN \<equiv> 0x20"
abbreviation (input) IPA_RX_FIFO_INT_EXIT_FLOW_CTRL_EN :: u32 where "IPA_RX_FIFO_INT_EXIT_FLOW_CTRL_EN \<equiv> 0x10"
abbreviation (input) IPA_RX_FIFO_INT_ENTER_FLOW_CTRL_EN :: u32 where "IPA_RX_FIFO_INT_ENTER_FLOW_CTRL_EN \<equiv> 0x8"
abbreviation (input) IPA_TX_FIFO_INTR_SW_BIT_EN :: u32 where "IPA_TX_FIFO_INTR_SW_BIT_EN \<equiv> 0x4"
abbreviation (input) IPA_TX_FIFO_THRESHOLD_EN :: u32 where "IPA_TX_FIFO_THRESHOLD_EN \<equiv> 0x2"
abbreviation (input) IPA_TX_FIFO_DELAY_TIMER_EN :: u32 where "IPA_TX_FIFO_DELAY_TIMER_EN \<equiv> 0x1"
abbreviation (input) IPA_INT_EN_BIT_GROUP :: u32 where "IPA_INT_EN_BIT_GROUP \<equiv> 0x00000FFF"

abbreviation (input) IPA_INT_TX_FIFO_THRESHOLD_SW_STS :: u32 where "IPA_INT_TX_FIFO_THRESHOLD_SW_STS \<equiv> 0x400000"
abbreviation (input) IPA_INT_EXIT_FLOW_CTRL_STS :: u32 where "IPA_INT_EXIT_FLOW_CTRL_STS \<equiv> 0x100000"
abbreviation (input) IPA_INT_ENTER_FLOW_CTRL_STS :: u32 where "IPA_INT_ENTER_FLOW_CTRL_STS \<equiv> 0x80000"
abbreviation (input) IPA_INT_TXFIFO_FULL_INT_STS :: u32 where "IPA_INT_TXFIFO_FULL_INT_STS \<equiv> 0x40000"
abbreviation (input) IPA_INT_TXFIFO_OVERFLOW_STS :: u32 where "IPA_INT_TXFIFO_OVERFLOW_STS \<equiv> 0x20000"
abbreviation (input) IPA_INT_ERRORCODE_IN_TX_FIFO_STS :: u32 where "IPA_INT_ERRORCODE_IN_TX_FIFO_STS \<equiv> 0x10000"
abbreviation (input) IPA_INT_INTR_BIT_STS :: u32 where "IPA_INT_INTR_BIT_STS \<equiv> 0x8000"
abbreviation (input) IPA_INT_THRESHOLD_STS :: u32 where "IPA_INT_THRESHOLD_STS \<equiv> 0x4000"
abbreviation (input) IPA_INT_DELAY_TIMER_STS :: u32 where "IPA_INT_DELAY_TIMER_STS \<equiv> 0x2000"
abbreviation (input) IPA_INT_DROP_PACKT_OCCUR :: u32 where "IPA_INT_DROP_PACKT_OCCUR \<equiv> 0x1000"
abbreviation (input) IPA_INT_STS_GROUP :: u32 where "IPA_INT_STS_GROUP \<equiv> 0x5FF000"

abbreviation (input) IPA_TX_FIFO_TIMER_CLR_BIT :: u32 where "IPA_TX_FIFO_TIMER_CLR_BIT \<equiv> 0x1"
abbreviation (input) IPA_TX_FIFO_THRESHOLD_CLR_BIT :: u32 where "IPA_TX_FIFO_THRESHOLD_CLR_BIT \<equiv> 0x2"
abbreviation (input) IPA_TX_FIFO_INTR_CLR_BIT :: u32 where "IPA_TX_FIFO_INTR_CLR_BIT \<equiv> 0x4"
abbreviation (input) IPA_ENTRY_FLOW_CONTROL_CLR_BIT :: u32 where "IPA_ENTRY_FLOW_CONTROL_CLR_BIT \<equiv> 0x8"
abbreviation (input) IPA_EXIT_FLOW_CONTROL_CLR_BIT :: u32 where "IPA_EXIT_FLOW_CONTROL_CLR_BIT \<equiv> 0x10"
abbreviation (input) IPA_DROP_PACKET_INTR_CLR_BIT :: u32 where "IPA_DROP_PACKET_INTR_CLR_BIT \<equiv> 0x20"
abbreviation (input) IPA_ERROR_CODE_INTR_CLR_BIT :: u32 where "IPA_ERROR_CODE_INTR_CLR_BIT \<equiv> 0x40"
abbreviation (input) IPA_TX_FIFO_OVERFLOW_CLR_BIT :: u32 where "IPA_TX_FIFO_OVERFLOW_CLR_BIT \<equiv> 0x80"
abbreviation (input) IPA_TX_FIFO_FULL_INT_CLR_BIT :: u32 where "IPA_TX_FIFO_FULL_INT_CLR_BIT \<equiv> 0x100"

section \<open>Depths, fill counts and pointers\<close>

definition ipa_phy_set_rx_fifo_total_depth :: "'h mmio \<Rightarrow> u64 \<Rightarrow> u32 \<Rightarrow> ('h, int) state" where
  "ipa_phy_set_rx_fifo_total_depth m fifo_base depth =
     (if depth > 0xFFFF then State_Monad.return (- EINVAL) else do {
        tmp \<leftarrow> readl_relaxed m (fifo_base + IPA_COMMON_RX_FIFO_DEPTH);
        writel_relaxed m ((tmp AND 0x0000FFFF) OR push_bit 16 depth) (fifo_base + IPA_COMMON_RX_FIFO_DEPTH);
        tmp \<leftarrow> readl_relaxed m (fifo_base + IPA_COMMON_RX_FIFO_DEPTH);
        State_Monad.return (if tmp AND 0xFFFF0000 = tmp then 0 else - EINVAL) })"

definition ipa_phy_get_rx_fifo_total_depth :: "'h mmio \<Rightarrow> u64 \<Rightarrow> ('h, u32) state" where
  "ipa_phy_get_rx_fifo_total_depth m fifo_base = do {
     tmp \<leftarrow> readl_relaxed m (fifo_base + IPA_COMMON_RX_FIFO_DEPTH);
     State_Monad.return (drop_bit 16 tmp AND 0x0000FFFF) }"

definition ipa_phy_get_rx_fifo_filled_depth :: "'h mmio \<Rightarrow> u64 \<Rightarrow> ('h, u32) state" where
  "ipa_phy_get_rx_fifo_filled_depth m fifo_base = do {
     tmp \<leftarrow> readl_relaxed m (fifo_base + IPA_COMMON_RX_FIFO_DEPTH);
     State_Monad.return (tmp AND 0x0000FFFF) }"

definition ipa_phy_get_rx_fifo_full_status :: "'h mmio \<Rightarrow> u64 \<Rightarrow> ('h, u32) state" where
  "ipa_phy_get_rx_fifo_full_status m fifo_base = do {
     tmp \<leftarrow> readl_relaxed m (fifo_base + IPA_COMMON_RX_FIFO_WR);
     State_Monad.return (tmp AND 0x1) }"

definition ipa_phy_update_rx_fifo_wptr :: "'h mmio \<Rightarrow> u64 \<Rightarrow> u32 \<Rightarrow> ('h, int) state" where
  "ipa_phy_update_rx_fifo_wptr m fifo_base wptr =
     (if wptr > 0xFFFF then State_Monad.return (- EINVAL) else do {
        tmp \<leftarrow> readl_relaxed m (fifo_base + IPA_COMMON_RX_FIFO_WR);
        writel_relaxed m ((tmp AND 0x0000FFFF) OR push_bit 16 wptr) (fifo_base + IPA_COMMON_RX_FIFO_WR);
        tmp \<leftarrow> readl_relaxed m (fifo_base + IPA_COMMON_RX_FIFO_WR);
        State_Monad.return (if drop_bit 16 tmp = wptr then 0 else - EIO) })"

definition ipa_phy_get_rx_fifo_wptr :: "'h mmio \<Rightarrow> u64 \<Rightarrow> ('h, u32) state" where
  "ipa_phy_get_rx_fifo_wptr m fifo_base = do {
     tmp \<leftarrow> readl_relaxed m (fifo_base + IPA_COMMON_RX_FIFO_WR);
     State_Monad.return (drop_bit 16 tmp) }"

definition ipa_phy_update_rx_fifo_rptr :: "'h mmio \<Rightarrow> u64 \<Rightarrow> u32 \<Rightarrow> ('h, int) state" where
  "ipa_phy_update_rx_fifo_rptr m fifo_base rptr =
     (if rptr > 0xFFFF then State_Monad.return (- EINVAL) else do {
        tmp \<leftarrow> readl_relaxed m (fifo_base + IPA_COMMON_RX_FIFO_RD);
        writel_relaxed m ((tmp AND 0x0000FFFF) OR push_bit 16 rptr) (fifo_base + IPA_COMMON_RX_FIFO_RD);
        tmp \<leftarrow> readl_relaxed m (fifo_base + IPA_COMMON_RX_FIFO_RD);
        State_Monad.return (if drop_bit 16 tmp = rptr then 0 else - EIO) })"

definition ipa_phy_get_rx_fifo_rptr :: "'h mmio \<Rightarrow> u64 \<Rightarrow> ('h, u32) state" where
  "ipa_phy_get_rx_fifo_rptr m fifo_base = do {
     tmp \<leftarrow> readl_relaxed m (fifo_base + IPA_COMMON_RX_FIFO_RD);
     State_Monad.return (drop_bit 16 tmp) }"

definition ipa_phy_get_rx_fifo_empty_status :: "'h mmio \<Rightarrow> u64 \<Rightarrow> ('h, u32) state" where
  "ipa_phy_get_rx_fifo_empty_status m fifo_base = do {
     tmp \<leftarrow> readl_relaxed m (fifo_base + IPA_COMMON_RX_FIFO_RD);
     State_Monad.return (tmp AND 0x1) }"

definition ipa_phy_set_tx_fifo_total_depth :: "'h mmio \<Rightarrow> u64 \<Rightarrow> u32 \<Rightarrow> ('h, int) state" where
  "ipa_phy_set_tx_fifo_total_depth m fifo_base depth =
     (if depth > 0xFFFF then State_Monad.return (- EINVAL) else do {
        tmp \<leftarrow> readl_relaxed m (fifo_base + IPA_COMMON_TX_FIFO_DEPTH);
        writel_relaxed m ((tmp AND 0x0000FFFF) OR push_bit 16 depth) (fifo_base + IPA_COMMON_TX_FIFO_DEPTH);
        tmp \<leftarrow> readl_relaxed m (fifo_base + IPA_COMMON_TX_FIFO_DEPTH);
        State_Monad.return (if drop_bit 16 tmp = depth then 0 else - EIO) })"

definition ipa_phy_get_tx_fifo_total_depth :: "'h mmio \<Rightarrow> u64 \<Rightarrow> ('h, u32) state" where
  "ipa_phy_get_tx_fifo_total_depth m fifo_base = do {
     tmp \<leftarrow> readl_relaxed m (fifo_base + IPA_COMMON_TX_FIFO_DEPTH);
     State_Monad.return (drop_bit 16 tmp AND 0x0000FFFF) }"

definition ipa_phy_get_tx_fifo_filled_depth :: "'h mmio \<Rightarrow> u64 \<Rightarrow> ('h, u32) state" where
  "ipa_phy_get_tx_fifo_filled_depth m fifo_base = do {
     tmp \<leftarrow> readl_relaxed m (fifo_base + IPA_COMMON_TX_FIFO_DEPTH);
     State_Monad.return (tmp AND 0x0000FFFF) }"

definition ipa_phy_get_tx_fifo_full_status :: "'h mmio \<Rightarrow> u64 \<Rightarrow> ('h, u32) state" where
  "ipa_phy_get_tx_fifo_full_status m fifo_base = do {
     tmp \<leftarrow> readl_relaxed m (fifo_base + IPA_COMMON_TX_FIFO_WR);
     State_Monad.return (tmp AND 0x1) }"

definition ipa_phy_get_tx_fifo_empty_status :: "'h mmio \<Rightarrow> u64 \<Rightarrow> ('h, u32) state" where
  "ipa_phy_get_tx_fifo_empty_status m fifo_base = do {
     tmp \<leftarrow> readl_relaxed m (fifo_base + IPA_COMMON_TX_FIFO_RD);
     State_Monad.return (tmp AND 0x1) }"

definition ipa_phy_update_tx_fifo_wptr :: "'h mmio \<Rightarrow> u64 \<Rightarrow> u32 \<Rightarrow> ('h, int) state" where
  "ipa_phy_update_tx_fifo_wptr m fifo_base wptr =
     (if wptr > 0xFFFF then State_Monad.return (- EINVAL) else do {
        tmp \<leftarrow> readl_relaxed m (fifo_base + IPA_TX_FIFO_WR_INIT);
        writel_relaxed m ((tmp AND 0x0000FFFF) OR push_bit 16 wptr) (fifo_base + IPA_TX_FIFO_WR_INIT);
        tmp \<leftarrow> readl_relaxed m (fifo_base + IPA_TX_FIFO_WR_INIT);
        writel_relaxed m (tmp OR 0x2) (fifo_base + IPA_TX_FIFO_WR_INIT);
        tmp \<leftarrow> readl_relaxed m (fifo_base + IPA_TX_FIFO_WR_INIT);
        writel_relaxed m (tmp AND 0xFFFFFFFD) (fifo_base + IPA_TX_FIFO_WR_INIT);
        tmp \<leftarrow> readl_relaxed m (fifo_base + IPA_TX_FIFO_WR_INIT);
        State_Monad.return (if drop_bit 16 tmp = wptr then 0 else - EIO) })"

definition ipa_phy_get_tx_fifo_wptr :: "'h mmio \<Rightarrow> u64 \<Rightarrow> ('h, u32) state" where
  "ipa_phy_get_tx_fifo_wptr m fifo_base = do {
     tmp \<leftarrow> readl_relaxed m (fifo_base + IPA_COMMON_TX_FIFO_WR);
     State_Monad.return (drop_bit 16 tmp) }"

definition ipa_phy_update_tx_fifo_rptr :: "'h mmio \<Rightarrow> u64 \<Rightarrow> u32 \<Rightarrow> ('h, int) state" where
  "ipa_phy_update_tx_fifo_rptr m fifo_base rptr =
     (if rptr > 0xFFFF then State_Monad.return (- EINVAL) else do {
        tmp \<leftarrow> readl_relaxed m (fifo_base + IPA_COMMON_TX_FIFO_RD);
        writel_relaxed m ((tmp AND 0x0000FFFF) OR push_bit 16 rptr) (fifo_base + IPA_COMMON_TX_FIFO_RD);
        tmp \<leftarrow> readl_relaxed m (fifo_base + IPA_COMMON_TX_FIFO_RD);
        State_Monad.return (if drop_bit 16 tmp = rptr then 0 else - EIO) })"

definition ipa_phy_get_tx_fifo_rptr :: "'h mmio \<Rightarrow> u64 \<Rightarrow> ('h, u32) state" where
  "ipa_phy_get_tx_fifo_rptr m fifo_base = do {
     tmp \<leftarrow> readl_relaxed m (fifo_base + IPA_COMMON_TX_FIFO_RD);
     State_Monad.return (drop_bit 16 tmp) }"

definition ipa_phy_set_rx_fifo_addr :: "'h mmio \<Rightarrow> u64 \<Rightarrow> u32 \<Rightarrow> u32 \<Rightarrow> ('h, int) state" where
  "ipa_phy_set_rx_fifo_addr m fifo_base addr_l addr_h = do {
     writel_relaxed m addr_l (fifo_base + IPA_COMMON_RX_FIFO_ADDRL);
     writel_relaxed m addr_h (fifo_base + IPA_COMMON_RX_FIFO_ADDRH);
     tmp_l \<leftarrow> readl_relaxed m (fifo_base + IPA_COMMON_RX_FIFO_ADDRL);
     tmp_h \<leftarrow> readl_relaxed m (fifo_base + IPA_COMMON_RX_FIFO_ADDRH);
     State_Monad.return (if tmp_l = addr_l \<and> tmp_h = addr_h then 0 else - EIO) }"

definition ipa_phy_get_rx_fifo_addr :: "'h mmio \<Rightarrow> u64 \<Rightarrow> ('h, u32 \<times> u32) state" where
  "ipa_phy_get_rx_fifo_addr m fifo_base = do {
     addr_l \<leftarrow> readl_relaxed m (fifo_base + IPA_COMMON_RX_FIFO_ADDRL);
     addr_h \<leftarrow> readl_relaxed m (fifo_base + IPA_COMMON_RX_FIFO_ADDRH);
     State_Monad.return (addr_l, addr_h) }"

definition ipa_phy_set_tx_fifo_addr :: "'h mmio \<Rightarrow> u64 \<Rightarrow> u32 \<Rightarrow> u32 \<Rightarrow> ('h, int) state" where
  "ipa_phy_set_tx_fifo_addr m fifo_base addr_l addr_h = do {
     writel_relaxed m addr_l (fifo_base + IPA_COMMON_TX_FIFO_ADDRL);
     writel_relaxed m addr_h (fifo_base + IPA_COMMON_TX_FIFO_ADDRH);
     tmp_l \<leftarrow> readl_relaxed m (fifo_base + IPA_COMMON_TX_FIFO_ADDRL);
     tmp_h \<leftarrow> readl_relaxed m (fifo_base + IPA_COMMON_TX_FIFO_ADDRH);
     State_Monad.return (if tmp_l = addr_l \<and> tmp_h = addr_h then 0 else - EIO) }"

definition ipa_phy_get_tx_fifo_addr :: "'h mmio \<Rightarrow> u64 \<Rightarrow> ('h, u32 \<times> u32) state" where
  "ipa_phy_get_tx_fifo_addr m fifo_base = do {
     addr_l \<leftarrow> readl_relaxed m (fifo_base + IPA_COMMON_TX_FIFO_ADDRL);
     addr_h \<leftarrow> readl_relaxed m (fifo_base + IPA_COMMON_TX_FIFO_ADDRH);
     State_Monad.return (addr_l, addr_h) }"

end
