(* ===== verification/SipaPhyCtl.thy ===== *)
theory SipaPhyCtl
  imports SipaPhy
begin

text \<open>
  The control half of \<^verbatim>\<open>sipa_fifo_phy.h\<close>: interrupt enable, status and clear, interrupt thresholds
  and timers, terminal numbers and prefetch settings, stop-receive and flow control. Same
  conventions as \<^theory_text>\<open>SipaPhy\<close>.
\<close>

section \<open>Interrupts\<close>

definition ipa_phy_enable_int_bit :: "'h mmio \<Rightarrow> u64 \<Rightarrow> u32 \<Rightarrow> ('h, int) state" where
  "ipa_phy_enable_int_bit m fifo_base int_bit = do {
     tmp \<leftarrow> readl_relaxed m (fifo_base + IPA_INT_GEN_CTL_EN);
     writel_relaxed m (tmp OR int_bit) (fifo_base + IPA_INT_GEN_CTL_EN);
     tmp \<leftarrow> readl_relaxed m (fifo_base + IPA_INT_GEN_CTL_EN);
     State_Monad.return (if tmp AND int_bit = int_bit then 0 else - EIO) }"

definition ipa_phy_disable_int_bit :: "'h mmio \<Rightarrow> u64 \<Rightarrow> u32 \<Rightarrow> ('h, int) state" where
  "ipa_phy_disable_int_bit m fifo_base int_bit = do {
     tmp \<leftarrow> readl_relaxed m (fifo_base + IPA_INT_GEN_CTL_EN);
     writel_relaxed m (tmp AND NOT int_bit) (fifo_base + IPA_INT_GEN_CTL_EN);
     tmp \<leftarrow> readl_relaxed m (fifo_base + IPA_INT_GEN_CTL_EN);
     State_Monad.return (if tmp AND int_bit \<noteq> 0 then - EIO else 0) }"

definition ipa_phy_get_all_intr_enable_status :: "'h mmio \<Rightarrow> u64 \<Rightarrow> ('h, u32) state" where
  "ipa_phy_get_all_intr_enable_status m fifo_base = do {
     tmp \<leftarrow> readl_relaxed m (fifo_base + IPA_INT_GEN_CTL_EN);
     State_Monad.return (tmp AND IPA_INT_EN_BIT_GROUP) }"

definition ipa_phy_get_fifo_int_sts :: "'h mmio \<Rightarrow> u64 \<Rightarrow> u32 \<Rightarrow> ('h, int) state" where
  "ipa_phy_get_fifo_int_sts m fifo_base sts = do {
     tmp \<leftarrow> readl_relaxed m (fifo_base + IPA_INT_GEN_CTL_EN);
     State_Monad.return (if tmp AND sts \<noteq> 0 then 0 else - EIO) }"

definition ipa_phy_get_fifo_all_int_sts :: "'h mmio \<Rightarrow> u64 \<Rightarrow> ('h, u32) state" where
  "ipa_phy_get_fifo_all_int_sts m fifo_base = do {
     tmp \<leftarrow> readl_relaxed m (fifo_base + IPA_INT_GEN_CTL_EN);
     State_Monad.return (tmp AND IPA_INT_STS_GROUP) }"

definition ipa_phy_clear_int :: "'h mmio \<Rightarrow> u64 \<Rightarrow> u32 \<Rightarrow> ('h, unit) state" where
  "ipa_phy_clear_int m fifo_base clr_bit =
     writel_relaxed m clr_bit (fifo_base + IPA_INT_GEN_CTL_CLR)"

definition ipa_phy_get_drop_packet_cnt :: "'h mmio \<Rightarrow> u64 \<Rightarrow> ('h, u32) state" where
  "ipa_phy_get_drop_packet_cnt m fifo_base = readl_relaxed m (fifo_base + IPA_DROP_PACKET_CNT)"

definition ipa_phy_get_tx_fifo_interrupt_threshold :: "'h mmio \<Rightarrow> u64 \<Rightarrow> ('h, u32) state" where
  "ipa_phy_get_tx_fifo_interrupt_threshold m fifo_base = do {
     tmp \<leftarrow> readl_relaxed m (fifo_base + IPA_INT_GEN_CTL_TX_FIFO_VALUE);
     State_Monad.return (drop_bit 16 tmp) }"

definition ipa_phy_set_tx_fifo_interrupt_threshold :: "'h mmio \<Rightarrow> u64 \<Rightarrow> u32 \<Rightarrow> ('h, int) state" where
  "ipa_phy_set_tx_fifo_interrupt_threshold m fifo_base threshold =
     (if threshold > 0xFFFF then State_Monad.return (- EINVAL) else do {
        tmp \<leftarrow> readl_relaxed m (fifo_base + IPA_INT_GEN_CTL_TX_FIFO_VALUE);
        writel_relaxed m ((tmp AND 0x0000FFFF) OR push_bit 16 threshold)
          (fifo_base + IPA_INT_GEN_CTL_TX_FIFO_VALUE);
        tmp \<leftarrow> readl_relaxed m (fifo_base + IPA_INT_GEN_CTL_TX_FIFO_VALUE);
        State_Monad.return (if drop_bit 16 tmp = threshold then 0 else - EIO) })"

definition ipa_phy_get_tx_fifo_interrupt_delay_timer :: "'h mmio \<Rightarrow> u64 \<Rightarrow> ('h, u32) state" where
  "ipa_phy_get_tx_fifo_interrupt_delay_timer m fifo_base = do {
     tmp \<leftarrow> readl_relaxed m (fifo_base + IPA_INT_GEN_CTL_TX_FIFO_VALUE);
     State_Monad.return (tmp AND 0x0000FFFF) }"

definition ipa_phy_set_tx_fifo_interrupt_delay_timer :: "'h mmio \<Rightarrow> u64 \<Rightarrow> u32 \<Rightarrow> ('h, int) state" where
  "ipa_phy_set_tx_fifo_interrupt_delay_timer m fifo_base threshold =
     (if threshold > 0xFFFF then State_Monad.return (- EINVAL) else do {
        tmp \<leftarrow> readl_relaxed m (fifo_base + IPA_INT_GEN_CTL_TX_FIFO_VALUE);
        writel_relaxed m ((tmp AND 0xFFFF0000) OR threshold)
          (fifo_base + IPA_INT_GEN_CTL_TX_FIFO_VALUE);
        tmp \<leftarrow> readl_relaxed m (fifo_base + IPA_INT_GEN_CTL_TX_FIFO_VALUE);
        State_Monad.return (if tmp AND 0x0000FFFF = threshold then 0 else - EIO) })"

section \<open>Terminal numbers and prefetch\<close>

definition ipa_phy_get_cur_term_num :: "'h mmio \<Rightarrow> u64 \<Rightarrow> ('h, u32) state" where
  "ipa_phy_get_cur_term_num m fifo_base = do {
     tmp \<leftarrow> readl_relaxed m (fifo_base + IPA_PERFETCH_FIFO_CTL);
     State_Monad.return (drop_bit 13 (tmp AND 0x0003E000)) }"

definition ipa_phy_set_cur_term_num :: "'h mmio \<Rightarrow> u64 \<Rightarrow> u32 \<Rightarrow> ('h, int) state" where
  "ipa_phy_set_cur_term_num m fifo_base num =
     (if num > 0x1F then State_Monad.return (- EINVAL) else do {
        tmp \<leftarrow> readl_relaxed m (fifo_base + IPA_PERFETCH_FIFO_CTL);
        writel_relaxed m ((tmp AND 0xFFFC1FFF) OR push_bit 13 num) (fifo_base + IPA_PERFETCH_FIFO_CTL);
        tmp \<leftarrow> readl_relaxed m (fifo_base + IPA_PERFETCH_FIFO_CTL);
        State_Monad.return (if drop_bit 13 (tmp AND 0x0003E000) = num then 0 else - EIO) })"

definition ipa_phy_get_dst_term_num :: "'h mmio \<Rightarrow> u64 \<Rightarrow> ('h, u32) state" where
  "ipa_phy_get_dst_term_num m fifo_base = do {
     tmp \<leftarrow> readl_relaxed m (fifo_base + IPA_PERFETCH_FIFO_CTL);
     State_Monad.return (drop_bit 8 (tmp AND 0x00001F00)) }"

definition ipa_phy_set_dst_term_num :: "'h mmio \<Rightarrow> u64 \<Rightarrow> u32 \<Rightarrow> ('h, int) state" where
  "ipa_phy_set_dst_term_num m fifo_base num =
     (if num > 0x1F then State_Monad.return (- EINVAL) else do {
        tmp \<leftarrow> readl_relaxed m (fifo_base + IPA_PERFETCH_FIFO_CTL);
        writel_relaxed m ((tmp AND 0xFFFFE0FF) OR push_bit 8 num) (fifo_base + IPA_PERFETCH_FIFO_CTL);
        tmp \<leftarrow> readl_relaxed m (fifo_base + IPA_PERFETCH_FIFO_CTL);
        State_Monad.return (if drop_bit 8 (tmp AND 0x00001F00) = num then 0 else - EIO) })"

definition ipa_phy_get_prefetch_fifo_priority :: "'h mmio \<Rightarrow> u64 \<Rightarrow> ('h, u32) state" where
  "ipa_phy_get_prefetch_fifo_priority m fifo_base = do {
     tmp \<leftarrow> readl_relaxed m (fifo_base + IPA_PERFETCH_FIFO_CTL);
     State_Monad.return (drop_bit 4 (tmp AND 0x000000F0)) }"

definition ipa_phy_set_prefetch_fifo_priority :: "'h mmio \<Rightarrow> u64 \<Rightarrow> u32 \<Rightarrow> ('h, int) state" where
  "ipa_phy_set_prefetch_fifo_priority m fifo_base pri =
     (if pri > 0xF then State_Monad.return (- EINVAL) else do {
        tmp \<leftarrow> readl_relaxed m (fifo_base + IPA_PERFETCH_FIFO_CTL);
        writel_relaxed m ((tmp AND 0xFFFFFF0F) OR push_bit 4 pri) (fifo_base + IPA_PERFETCH_FIFO_CTL);
        tmp \<leftarrow> readl_relaxed m (fifo_base + IPA_PERFETCH_FIFO_CTL);
        State_Monad.return (if drop_bit 4 (tmp AND 0x000000F0) = pri then 0 else - EIO) })"

definition ipa_phy_get_prefetch_threshold :: "'h mmio \<Rightarrow> u64 \<Rightarrow> ('h, u32) state" where
  "ipa_phy_get_prefetch_threshold m fifo_base = do {
     tmp \<leftarrow> readl_relaxed m (fifo_base + IPA_PERFETCH_FIFO_CTL);
     State_Monad.return (tmp AND 0xF) }"

definition ipa_phy_set_prefetch_threshold :: "'h mmio \<Rightarrow> u64 \<Rightarrow> u32 \<Rightarrow> ('h, int) state" where
  "ipa_phy_set_prefetch_threshold m fifo_base threshold =
     (if threshold > 0xF then State_Monad.return (- EINVAL) else do {
        tmp \<leftarrow> readl_relaxed m (fifo_base + IPA_PERFETCH_FIFO_CTL);
        writel_relaxed m ((tmp AND 0xFFFFFFF0) OR threshold) (fifo_base + IPA_PERFETCH_FIFO_CTL);
        tmp \<leftarrow> readl_relaxed m (fifo_base + IPA_PERFETCH_FIFO_CTL);
        State_Monad.return (if tmp AND 0xF = threshold then 0 else - EIO) })"

section \<open>Stop-receive and flow control\<close>

definition ipa_phy_stop_receive :: "'h mmio \<Rightarrow> u64 \<Rightarrow> ('h, int) state" where
  "ipa_phy_stop_receive m fifo_base = do {
     tmp \<leftarrow> readl_relaxed m (fifo_base + IPA_FLOW_CTRL_CONFIG);
     writel_relaxed m (tmp OR 0x8) (fifo_base + IPA_FLOW_CTRL_CONFIG);
     tmp \<leftarrow> readl_relaxed m (fifo_base + IPA_FLOW_CTRL_CONFIG);
     State_Monad.return (if tmp AND 0x8 \<noteq> 0 then 0 else - EIO) }"

definition ipa_phy_clear_stop_receive :: "'h mmio \<Rightarrow> u64 \<Rightarrow> ('h, int) state" where
  "ipa_phy_clear_stop_receive m fifo_base = do {
     tmp \<leftarrow> readl_relaxed m (fifo_base + IPA_FLOW_CTRL_CONFIG);
     writel_relaxed m (tmp AND 0xFFFFFFF7) (fifo_base + IPA_FLOW_CTRL_CONFIG);
     tmp \<leftarrow> readl_relaxed m (fifo_base + IPA_FLOW_CTRL_CONFIG);
     State_Monad.return (if \<not> (tmp AND 0x8 \<noteq> 0) then 0 else - EIO) }"

definition ipa_phy_flow_ctrl_recover :: "'h mmio \<Rightarrow> u64 \<Rightarrow> ('h, int) state" where
  "ipa_phy_flow_ctrl_recover m fifo_base = do {
     tmp \<leftarrow> readl_relaxed m (fifo_base + IPA_FLOW_CTRL_CONFIG);
     writel_relaxed m (tmp OR 0x4) (fifo_base + IPA_FLOW_CTRL_CONFIG);
     tmp \<leftarrow> readl_relaxed m (fifo_base + IPA_FLOW_CTRL_CONFIG);
     if tmp AND 0x4 \<noteq> 0 then do {
       writel_relaxed m (tmp AND 0xFFFFFFFB) (fifo_base + IPA_FLOW_CTRL_CONFIG);
       tmp \<leftarrow> readl_relaxed m (fifo_base + IPA_FLOW_CTRL_CONFIG);
       State_Monad.return (if \<not> (tmp AND 0x4 \<noteq> 0) then 0 else - EIO) }
     else State_Monad.return (- EINVAL) }"

definition ipa_phy_set_flow_ctrl_config :: "'h mmio \<Rightarrow> u64 \<Rightarrow> u32 \<Rightarrow> ('h, int) state" where
  "ipa_phy_set_flow_ctrl_config m fifo_base config = do {
     tmp \<leftarrow> readl_relaxed m (fifo_base + IPA_FLOW_CTRL_CONFIG);
     writel_relaxed m ((tmp AND 0xFFFFFFFC) OR config) (fifo_base + IPA_FLOW_CTRL_CONFIG);
     tmp \<leftarrow> readl_relaxed m (fifo_base + IPA_FLOW_CTRL_CONFIG);
     State_Monad.return (if tmp AND 0x00000003 = config then 0 else - EIO) }"

definition ipa_phy_get_flow_ctrl_config :: "'h mmio \<Rightarrow> u64 \<Rightarrow> ('h, u32) state" where
  "ipa_phy_get_flow_ctrl_config m fifo_base = do {
     tmp \<leftarrow> readl_relaxed m (fifo_base + IPA_FLOW_CTRL_CONFIG);
     State_Monad.return (tmp AND 0x00000003) }"

definition ipa_phy_set_tx_fifo_exit_flow_ctrl_watermark :: "'h mmio \<Rightarrow> u64 \<Rightarrow> u32 \<Rightarrow> ('h, int) state" where
  "ipa_phy_set_tx_fifo_exit_flow_ctrl_watermark m fifo_base watermark = do {
     tmp \<leftarrow> readl_relaxed m (fifo_base + IPA_TX_FIFO_FLOW_CTRL);
     writel_relaxed m ((tmp AND 0x0000FFFF) OR push_bit 16 watermark) (fifo_base + IPA_TX_FIFO_FLOW_CTRL);
     tmp \<leftarrow> readl_relaxed m (fifo_base + IPA_TX_FIFO_FLOW_CTRL);
     State_Monad.return (if drop_bit 16 tmp = watermark then 0 else - EIO) }"

definition ipa_phy_get_tx_fifo_exit_flow_ctrl_watermark :: "'h mmio \<Rightarrow> u64 \<Rightarrow> ('h, u32) state" where
  "ipa_phy_get_tx_fifo_exit_flow_ctrl_watermark m fifo_base = do {
     tmp \<leftarrow> readl_relaxed m (fifo_base + IPA_TX_FIFO_FLOW_CTRL);
     State_Monad.return (drop_bit 16 tmp) }"

definition ipa_phy_set_tx_fifo_entry_flow_ctrl_watermark :: "'h mmio \<Rightarrow> u64 \<Rightarrow> u32 \<Rightarrow> ('h, int) state" where
  "ipa_phy_set_tx_fifo_entry_flow_ctrl_watermark m fifo_base watermark = do {
     tmp \<leftarrow> readl_relaxed m (fifo_base + IPA_TX_FIFO_FLOW_CTRL);
     writel_relaxed m ((tmp AND 0xFFFF0000) OR watermark) (fifo_base + IPA_TX_FIFO_FLOW_CTRL);
     tmp \<leftarrow> readl_relaxed m (fifo_base + IPA_TX_FIFO_FLOW_CTRL);
     State_Monad.return (if tmp AND 0x0000FFFF = watermark then 0 else - EIO) }"

definition ipa_phy_get_tx_fifo_entry_flow_ctrl_watermark :: "'h mmio \<Rightarrow> u64 \<Rightarrow> ('h, u32) state" where
  "ipa_phy_get_tx_fifo_entry_flow_ctrl_watermark m fifo_base = do {
     tmp \<leftarrow> readl_relaxed m (fifo_base + IPA_TX_FIFO_FLOW_CTRL);
     State_Monad.return (tmp AND 0x0000FFFF) }"

definition ipa_phy_set_rx_fifo_exit_flow_ctrl_watermark :: "'h mmio \<Rightarrow> u64 \<Rightarrow> u32 \<Rightarrow> ('h, int) state" where
  "ipa_phy_set_rx_fifo_exit_flow_ctrl_watermark m fifo_base watermark = do {
     tmp \<leftarrow> readl_relaxed m (fifo_base + IPA_RX_FIFO_FLOW_CTRL);
     writel_relaxed m ((tmp AND 0x0000FFFF) OR push_bit 16 watermark) (fifo_base + IPA_RX_FIFO_FLOW_CTRL);
     tmp \<leftarrow> readl_relaxed m (fifo_base + IPA_RX_FIFO_FLOW_CTRL);
     State_Monad.return (if drop_bit 16 tmp = watermark then 0 else - EIO) }"

definition ipa_phy_get_rx_fifo_exit_flow_ctrl_watermark :: "'h mmio \<Rightarrow> u64 \<Rightarrow> ('h, u32) state" where
  "ipa_phy_get_rx_fifo_exit_flow_ctrl_watermark m fifo_base = do {
     tmp \<leftarrow> readl_relaxed m (fifo_base + IPA_RX_FIFO_FLOW_CTRL);
     State_Monad.return (drop_bit 16 tmp) }"

definition ipa_phy_set_rx_fifo_entry_flow_ctrl_watermark :: "'h mmio \<Rightarrow> u64 \<Rightarrow> u32 \<Rightarrow> ('h, int) state" where
  "ipa_phy_set_rx_fifo_entry_flow_ctrl_watermark m fifo_base watermark = do {
     tmp \<leftarrow> readl_relaxed m (fifo_base + IPA_RX_FIFO_FLOW_CTRL);
     writel_relaxed m ((tmp AND 0xFFFF0000) OR watermark) (fifo_base + IPA_RX_FIFO_FLOW_CTRL);
     tmp \<leftarrow> readl_relaxed m (fifo_base + IPA_RX_FIFO_FLOW_CTRL);
     State_Monad.return (if tmp AND 0x0000FFFF = watermark then 0 else - EIO) }"

definition ipa_phy_get_rx_fifo_entry_flow_ctrl_watermark :: "'h mmio \<Rightarrow> u64 \<Rightarrow> ('h, u32) state" where
  "ipa_phy_get_rx_fifo_entry_flow_ctrl_watermark m fifo_base = do {
     tmp \<leftarrow> readl_relaxed m (fifo_base + IPA_RX_FIFO_FLOW_CTRL);
     State_Monad.return (tmp AND 0x0000FFFF) }"

definition ipa_phy_get_rx_fifo_axi_sts :: "'h mmio \<Rightarrow> u64 \<Rightarrow> ('h, u32) state" where
  "ipa_phy_get_rx_fifo_axi_sts m fifo_base = do {
     tmp \<leftarrow> readl_relaxed m (fifo_base + IPA_COMMON_RX_FIFO_AXI_STS);
     State_Monad.return (tmp AND 0x00000003) }"

end
