(* ===== verification/SipaRegs.thy ===== *)
theory SipaRegs
  imports SipaPhyCtl
begin

text \<open>
  What the register accessors of \<^theory_text>\<open>SipaPhy\<close> and \<^theory_text>\<open>SipaPhyCtl\<close> guarantee. Every plain setter is a
  checked read-modify-write of one bit field (\<open>rmw\<close>); three lemmas about \<open>rmw\<close> give its result,
  its effect on the field and its frame. The locale \<open>bit_field\<close> is the contract a caller of a
  setter/getter pair relies on; it is interpreted for every field of the FIFO block.
\<close>

section \<open>Checked read-modify-write\<close>

definition rmw :: "'h mmio \<Rightarrow> u64 \<Rightarrow> (u32 \<Rightarrow> u32) \<Rightarrow> (u32 \<Rightarrow> int) \<Rightarrow> ('h, int) state" where
  "rmw m a f chk = do {
     tmp \<leftarrow> readl_relaxed m a;
     writel_relaxed m (f tmp) a;
     tmp \<leftarrow> readl_relaxed m a;
     State_Monad.return (chk tmp) }"

lemma rmw_fld_same:
  assumes "mmio_ok m wm" "owned wm a F" "\<And>t. f t AND F = g (t AND F)"
  shows "fld m a F (snd (run_state (rmw m a f chk) h)) = g (fld m a F h)"
  using assms by (simp add: rmw_def split_beta fld_read fld_write_same fst_readl_fld)

lemma rmw_fld_other:
  assumes "mmio_ok m wm" "owned wm b F" "b \<noteq> a"
  shows "fld m b F (snd (run_state (rmw m a f chk) h)) = fld m b F h"
  using assms by (simp add: rmw_def split_beta fld_read fld_write_other)

lemma rmw_result:
  assumes "mmio_ok m wm" "owned wm a F" "\<And>t. f t AND F = g (t AND F)" "\<And>t. chk t = c (t AND F)"
  shows "fst (run_state (rmw m a f chk) h) = c (g (fld m a F h))"
  using assms by (simp add: rmw_def split_beta fld_read fld_write_same fst_readl_fld)

lemma fld_and: "fld m a F h AND G = fld m a (F AND G) h"
  by (simp add: fld_def and.assoc)

section \<open>Bit fields of a 32-bit register\<close>

lemma fits_bit: "take_bit n v = v \<Longrightarrow> bit (v::u32) k \<Longrightarrow> k < n"
  by (metis bit_take_bit_iff)

lemma fits_le: "v \<le> mask n \<Longrightarrow> n \<le> 32 \<Longrightarrow> take_bit n (v::u32) = v"
proof -
  assume "v \<le> mask n" "n \<le> 32"
  then have "uint v \<le> mask n"
    by (simp add: word_le_def uint_mask_eq min_def)
  then have "uint v < 2 ^ n"
    by (simp add: mask_eq_exp_minus_1)
  then show ?thesis
    by (simp add: take_bit_eq_mask mask_eq_iff)
qed

lemma insert_extract:
  fixes v t :: u32
  assumes "take_bit n v = v"
  shows "((t AND NOT (push_bit s (mask n))) OR push_bit s v) AND push_bit s (mask n) = push_bit s v"
  by (auto simp: bit_eq_iff bit_simps dest: fits_bit[OF assms])

lemma insert_frame:
  fixes v t :: u32
  assumes fits: "take_bit n v = v" and "G AND push_bit s (mask n) = 0"
  shows "((t AND NOT (push_bit s (mask n))) OR push_bit s v) AND G = t AND G"
  using assms(2) by (auto simp: bit_eq_iff bit_simps dest: fits_bit[OF fits])

lemma shift_back:
  fixes v :: u32
  assumes fits: "take_bit n v = v" and "s + n \<le> 32"
  shows "drop_bit s (push_bit s v) = v"
  using assms(2) by (auto simp: bit_eq_iff bit_simps dest: fits_bit[OF fits])

lemma drop_bit_field: "drop_bit s (t::u32) = drop_bit s (t AND push_bit s (mask (32 - s)))"
  by (auto simp: bit_eq_iff bit_simps dest: bit_imp_le_length)

lemma hi_word: "drop_bit 16 (t AND 0xFFFF0000) = drop_bit 16 (t::u32)"
  using drop_bit_field [of 16 t] by (simp add: mask_eq_exp_minus_1)

abbreviation fmask :: "nat \<Rightarrow> nat \<Rightarrow> u32" where
  "fmask s n \<equiv> push_bit s (mask n)"

text \<open>The common body of the setters: insert \<open>v\<close> at bit \<open>s\<close>, width \<open>n\<close>, and check the read-back.\<close>

definition set_field :: "'h mmio \<Rightarrow> u64 \<Rightarrow> nat \<Rightarrow> nat \<Rightarrow> u32 \<Rightarrow> ('h, int) state" where
  "set_field m a s n v =
     rmw m a (\<lambda>t. (t AND NOT (fmask s n)) OR push_bit s v)
       (\<lambda>t. if drop_bit s (t AND fmask s n) = v then 0 else - EIO)"

lemma set_field_ok:
  assumes "mmio_ok m wm" "owned wm a (fmask s n)" "v \<le> mask n" "s + n \<le> 32"
  shows "fst (run_state (set_field m a s n v) h) = 0"
    and "fld m a (fmask s n) (snd (run_state (set_field m a s n v) h)) = push_bit s v"
proof -
  have fits: "take_bit n v = v" using assms by (simp add: fits_le)
  note ins = insert_extract [OF fits]
  show "fst (run_state (set_field m a s n v) h) = 0"
    unfolding set_field_def
    by (subst rmw_result [OF assms(1,2), where g = "\<lambda>_. push_bit s v"
          and c = "\<lambda>t. if drop_bit s t = v then 0 else - EIO"])
       (simp_all add: ins shift_back [OF fits assms(4)])
  show "fld m a (fmask s n) (snd (run_state (set_field m a s n v) h)) = push_bit s v"
    unfolding set_field_def
    by (rule rmw_fld_same [OF assms(1,2), where g = "\<lambda>_. push_bit s v"]) (simp add: ins)
qed

lemma set_field_frame:
  assumes "mmio_ok m wm" "v \<le> mask n" "s + n \<le> 32" "owned wm c G" "c \<noteq> a \<or> G AND fmask s n = 0"
  shows "fld m c G (snd (run_state (set_field m a s n v) h)) = fld m c G h"
proof (cases "c = a")
  case False
  with assms show ?thesis unfolding set_field_def by (intro rmw_fld_other) auto
next
  case True
  have fits: "take_bit n v = v" using assms by (simp add: fits_le)
  from True assms have "G AND fmask s n = 0" by simp
  note fr = insert_frame [OF fits this]
  from True assms show ?thesis
    unfolding set_field_def by (simp add: rmw_fld_same [where g = id] fr)
qed

section \<open>The contract of a register field\<close>

text \<open>
  \<open>bit_field setf getf off s n\<close>: the accessor pair stores and reads an \<open>n\<close>-bit number at bit \<open>s\<close>
  of the register at offset \<open>off\<close> of any FIFO block, on any device.
\<close>

locale bit_field =
  fixes setf :: "'h mmio \<Rightarrow> u64 \<Rightarrow> u32 \<Rightarrow> ('h, int) state"
    and getf :: "'h mmio \<Rightarrow> u64 \<Rightarrow> ('h, u32) state"
    and off :: u64 and s n :: nat
  assumes setf: "v \<le> mask n \<Longrightarrow> setf m b v = set_field m (b + off) s n v"
    and getf: "getf m b = do { t \<leftarrow> readl_relaxed m (b + off); State_Monad.return (drop_bit s (t AND fmask s n)) }"
    and width: "s + n \<le> 32"
begin

abbreviation field_owned :: "(u64 \<Rightarrow> u32) \<Rightarrow> u64 \<Rightarrow> bool" where
  "field_owned wm b \<equiv> owned wm (b + off) (fmask s n)"

lemma getf_val: "fst (run_state (getf m b) h) = drop_bit s (fld m (b + off) (fmask s n) h)"
  by (simp add: getf split_beta fld_def peek_def)

lemma set_succeeds:
  "mmio_ok m wm \<Longrightarrow> field_owned wm b \<Longrightarrow> v \<le> mask n \<Longrightarrow> fst (run_state (setf m b v) h) = 0"
  by (simp add: setf set_field_ok(1) width)

lemma get_after_set:
  assumes "mmio_ok m wm" "field_owned wm b" "v \<le> mask n"
  shows "fst (run_state (getf m b) (snd (run_state (setf m b v) h))) = v"
proof -
  have "drop_bit s (push_bit s v) = v"
    using assms(3) width by (intro shift_back [of n]) (simp_all add: fits_le)
  with assms show ?thesis by (simp add: getf_val setf set_field_ok(2) width)
qed

lemma fld_after_set:
  "mmio_ok m wm \<Longrightarrow> field_owned wm b \<Longrightarrow> v \<le> mask n \<Longrightarrow>
   drop_bit s (fld m (b + off) (fmask s n) (snd (run_state (setf m b v) h))) = v"
  using get_after_set [of m wm b v h] by (simp add: getf_val)

lemma set_frame:
  assumes "mmio_ok m wm" "v \<le> mask n" "owned wm c G" "c \<noteq> b + off \<or> G AND fmask s n = 0"
  shows "fld m c G (snd (run_state (setf m b v) h)) = fld m c G h"
  using assms by (simp add: setf set_field_frame width)

lemma get_frame:
  "mmio_ok m wm \<Longrightarrow> owned wm c G \<Longrightarrow> fld m c G (snd (run_state (getf m b) h)) = fld m c G h"
  by (simp add: getf split_beta fld_read)

lemma last_set_wins:
  assumes "mmio_ok m wm" "field_owned wm b" "v \<le> mask n"
  shows "fst (run_state (getf m b) (snd (run_state (setf m b v)
           (snd (run_state (setf m b u) h))))) = v"
  using assms by (rule get_after_set)

end

text \<open>A field whose setter refuses a value that does not fit, before it touches the device.\<close>

locale checked_field = bit_field +
  assumes reject: "v > mask n \<Longrightarrow> setf m b v = State_Monad.return (- EINVAL)"
begin

lemma set_total:
  assumes "mmio_ok m wm" "field_owned wm b"
  shows "run_state (setf m b v) h = (if v \<le> mask n then (0, snd (run_state (setf m b v) h)) else (- EINVAL, h))"
  using set_succeeds [OF assms, of v h] reject [of v m b]
  by (auto simp: not_le prod_eq_iff)

end

text \<open>Two fields that do not overlap: setting one leaves the other's value.\<close>

locale disjoint_fields =
  A: bit_field setA getA offA sA nA + B: bit_field setB getB offB sB nB
  for setA :: "'h mmio \<Rightarrow> u64 \<Rightarrow> u32 \<Rightarrow> ('h, int) state" and getA offA sA nA
    and setB :: "'h mmio \<Rightarrow> u64 \<Rightarrow> u32 \<Rightarrow> ('h, int) state" and getB offB sB nB +
  assumes disjoint: "offA \<noteq> offB \<or> fmask sA nA AND fmask sB nB = 0"
begin

lemma keeps_A:
  assumes "mmio_ok m wm" "A.field_owned wm b" "v \<le> mask nB"
  shows "fst (run_state (getA m b) (snd (run_state (setB m b v) h))) = fst (run_state (getA m b) h)"
  using assms disjoint by (auto simp: A.getf_val B.set_frame)

lemma keeps_B:
  assumes "mmio_ok m wm" "B.field_owned wm b" "v \<le> mask nA"
  shows "fst (run_state (getB m b) (snd (run_state (setA m b v) h))) = fst (run_state (getB m b) h)"
  using assms disjoint by (auto simp: B.getf_val A.set_frame and.commute)

lemma set_both:
  assumes "mmio_ok m wm" "A.field_owned wm b" "B.field_owned wm b" "u \<le> mask nA" "v \<le> mask nB"
  shows "let h' = snd (run_state (setB m b v) (snd (run_state (setA m b u) h)))
         in fst (run_state (getA m b) h') = u \<and> fst (run_state (getB m b) h') = v"
  using assms by (simp add: Let_def keeps_A A.get_after_set B.get_after_set)

end


section \<open>The fields of a FIFO block\<close>

text \<open>One interpretation per field: the accessor pairs of the code meet the contract.\<close>

text \<open>The complements of the masks, as the code writes them.\<close>

lemma mask_words [field_words]:
  "(- 4294901761::u32) = 0x0000FFFF" "(- 65536::u32) = 0xFFFF0000" "(- 253953::u32) = 0xFFFC1FFF"
  "(- 7937::u32) = 0xFFFFE0FF" "(- 241::u32) = 0xFFFFFF0F" "(- 16::u32) = 0xFFFFFFF0"
  "(- 4::u32) = 0xFFFFFFFC"
  by simp_all

lemma hi_word_mask [field_words]: "drop_bit 16 (t::u32) AND 0xFFFF = drop_bit 16 t"
  using hi_word [of t] by simp

lemmas field_eval = set_field_def rmw_def mask_eq_exp_minus_1 field_words not_le [symmetric]

interpretation rx_wptr: checked_field
  ipa_phy_update_rx_fifo_wptr ipa_phy_get_rx_fifo_wptr IPA_COMMON_RX_FIFO_WR 16 16
  by unfold_locales (simp_all add: ipa_phy_update_rx_fifo_wptr_def ipa_phy_get_rx_fifo_wptr_def field_eval)

interpretation rx_rptr: checked_field
  ipa_phy_update_rx_fifo_rptr ipa_phy_get_rx_fifo_rptr IPA_COMMON_RX_FIFO_RD 16 16
  by unfold_locales (simp_all add: ipa_phy_update_rx_fifo_rptr_def ipa_phy_get_rx_fifo_rptr_def field_eval)

interpretation tx_depth: checked_field
  ipa_phy_set_tx_fifo_total_depth ipa_phy_get_tx_fifo_total_depth IPA_COMMON_TX_FIFO_DEPTH 16 16
  by unfold_locales (simp_all add: ipa_phy_set_tx_fifo_total_depth_def ipa_phy_get_tx_fifo_total_depth_def field_eval)

interpretation tx_rptr: checked_field
  ipa_phy_update_tx_fifo_rptr ipa_phy_get_tx_fifo_rptr IPA_COMMON_TX_FIFO_RD 16 16
  by unfold_locales (simp_all add: ipa_phy_update_tx_fifo_rptr_def ipa_phy_get_tx_fifo_rptr_def field_eval)

interpretation threshold: checked_field
  ipa_phy_set_tx_fifo_interrupt_threshold ipa_phy_get_tx_fifo_interrupt_threshold IPA_INT_GEN_CTL_TX_FIFO_VALUE 16 16
  by unfold_locales (simp_all add: ipa_phy_set_tx_fifo_interrupt_threshold_def ipa_phy_get_tx_fifo_interrupt_threshold_def field_eval)

interpretation delay_timer: checked_field
  ipa_phy_set_tx_fifo_interrupt_delay_timer ipa_phy_get_tx_fifo_interrupt_delay_timer IPA_INT_GEN_CTL_TX_FIFO_VALUE 0 16
  by unfold_locales (simp_all add: ipa_phy_set_tx_fifo_interrupt_delay_timer_def ipa_phy_get_tx_fifo_interrupt_delay_timer_def field_eval)

interpretation cur_term: checked_field
  ipa_phy_set_cur_term_num ipa_phy_get_cur_term_num IPA_PERFETCH_FIFO_CTL 13 5
  by unfold_locales (simp_all add: ipa_phy_set_cur_term_num_def ipa_phy_get_cur_term_num_def field_eval)

interpretation dst_term: checked_field
  ipa_phy_set_dst_term_num ipa_phy_get_dst_term_num IPA_PERFETCH_FIFO_CTL 8 5
  by unfold_locales (simp_all add: ipa_phy_set_dst_term_num_def ipa_phy_get_dst_term_num_def field_eval)

interpretation priority: checked_field
  ipa_phy_set_prefetch_fifo_priority ipa_phy_get_prefetch_fifo_priority IPA_PERFETCH_FIFO_CTL 4 4
  by unfold_locales (simp_all add: ipa_phy_set_prefetch_fifo_priority_def ipa_phy_get_prefetch_fifo_priority_def field_eval)

interpretation prefetch: checked_field
  ipa_phy_set_prefetch_threshold ipa_phy_get_prefetch_threshold IPA_PERFETCH_FIFO_CTL 0 4
  by unfold_locales (simp_all add: ipa_phy_set_prefetch_threshold_def ipa_phy_get_prefetch_threshold_def field_eval)

interpretation flow_cfg: bit_field
  ipa_phy_set_flow_ctrl_config ipa_phy_get_flow_ctrl_config IPA_FLOW_CTRL_CONFIG 0 2
  by unfold_locales (simp_all add: ipa_phy_set_flow_ctrl_config_def ipa_phy_get_flow_ctrl_config_def field_eval)

interpretation tx_exit: bit_field
  ipa_phy_set_tx_fifo_exit_flow_ctrl_watermark ipa_phy_get_tx_fifo_exit_flow_ctrl_watermark IPA_TX_FIFO_FLOW_CTRL 16 16
  by unfold_locales (simp_all add: ipa_phy_set_tx_fifo_exit_flow_ctrl_watermark_def ipa_phy_get_tx_fifo_exit_flow_ctrl_watermark_def field_eval)

interpretation tx_entry: bit_field
  ipa_phy_set_tx_fifo_entry_flow_ctrl_watermark ipa_phy_get_tx_fifo_entry_flow_ctrl_watermark IPA_TX_FIFO_FLOW_CTRL 0 16
  by unfold_locales (simp_all add: ipa_phy_set_tx_fifo_entry_flow_ctrl_watermark_def ipa_phy_get_tx_fifo_entry_flow_ctrl_watermark_def field_eval)

interpretation rx_exit: bit_field
  ipa_phy_set_rx_fifo_exit_flow_ctrl_watermark ipa_phy_get_rx_fifo_exit_flow_ctrl_watermark IPA_RX_FIFO_FLOW_CTRL 16 16
  by unfold_locales (simp_all add: ipa_phy_set_rx_fifo_exit_flow_ctrl_watermark_def ipa_phy_get_rx_fifo_exit_flow_ctrl_watermark_def field_eval)

interpretation rx_entry: bit_field
  ipa_phy_set_rx_fifo_entry_flow_ctrl_watermark ipa_phy_get_rx_fifo_entry_flow_ctrl_watermark IPA_RX_FIFO_FLOW_CTRL 0 16
  by unfold_locales (simp_all add: ipa_phy_set_rx_fifo_entry_flow_ctrl_watermark_def ipa_phy_get_rx_fifo_entry_flow_ctrl_watermark_def field_eval)

text \<open>The fields that share a register do not overlap.\<close>

interpretation cur_term_dst_term: disjoint_fields
  ipa_phy_set_cur_term_num ipa_phy_get_cur_term_num IPA_PERFETCH_FIFO_CTL 13 5
  ipa_phy_set_dst_term_num ipa_phy_get_dst_term_num IPA_PERFETCH_FIFO_CTL 8 5
  by unfold_locales (simp add: mask_eq_exp_minus_1)

interpretation cur_term_priority: disjoint_fields
  ipa_phy_set_cur_term_num ipa_phy_get_cur_term_num IPA_PERFETCH_FIFO_CTL 13 5
  ipa_phy_set_prefetch_fifo_priority ipa_phy_get_prefetch_fifo_priority IPA_PERFETCH_FIFO_CTL 4 4
  by unfold_locales (simp add: mask_eq_exp_minus_1)

interpretation cur_term_prefetch: disjoint_fields
  ipa_phy_set_cur_term_num ipa_phy_get_cur_term_num IPA_PERFETCH_FIFO_CTL 13 5
  ipa_phy_set_prefetch_threshold ipa_phy_get_prefetch_threshold IPA_PERFETCH_FIFO_CTL 0 4
  by unfold_locales (simp add: mask_eq_exp_minus_1)

interpretation dst_term_priority: disjoint_fields
  ipa_phy_set_dst_term_num ipa_phy_get_dst_term_num IPA_PERFETCH_FIFO_CTL 8 5
  ipa_phy_set_prefetch_fifo_priority ipa_phy_get_prefetch_fifo_priority IPA_PERFETCH_FIFO_CTL 4 4
  by unfold_locales (simp add: mask_eq_exp_minus_1)

interpretation dst_term_prefetch: disjoint_fields
  ipa_phy_set_dst_term_num ipa_phy_get_dst_term_num IPA_PERFETCH_FIFO_CTL 8 5
  ipa_phy_set_prefetch_threshold ipa_phy_get_prefetch_threshold IPA_PERFETCH_FIFO_CTL 0 4
  by unfold_locales (simp add: mask_eq_exp_minus_1)

interpretation priority_prefetch: disjoint_fields
  ipa_phy_set_prefetch_fifo_priority ipa_phy_get_prefetch_fifo_priority IPA_PERFETCH_FIFO_CTL 4 4
  ipa_phy_set_prefetch_threshold ipa_phy_get_prefetch_threshold IPA_PERFETCH_FIFO_CTL 0 4
  by unfold_locales (simp add: mask_eq_exp_minus_1)

interpretation threshold_delay_timer: disjoint_fields
  ipa_phy_set_tx_fifo_interrupt_threshold ipa_phy_get_tx_fifo_interrupt_threshold IPA_INT_GEN_CTL_TX_FIFO_VALUE 16 16
  ipa_phy_set_tx_fifo_interrupt_delay_timer ipa_phy_get_tx_fifo_interrupt_delay_timer IPA_INT_GEN_CTL_TX_FIFO_VALUE 0 16
  by unfold_locales (simp add: mask_eq_exp_minus_1)

interpretation tx_exit_tx_entry: disjoint_fields
  ipa_phy_set_tx_fifo_exit_flow_ctrl_watermark ipa_phy_get_tx_fifo_exit_flow_ctrl_watermark IPA_TX_FIFO_FLOW_CTRL 16 16
  ipa_phy_set_tx_fifo_entry_flow_ctrl_watermark ipa_phy_get_tx_fifo_entry_flow_ctrl_watermark IPA_TX_FIFO_FLOW_CTRL 0 16
  by unfold_locales (simp add: mask_eq_exp_minus_1)

interpretation rx_exit_rx_entry: disjoint_fields
  ipa_phy_set_rx_fifo_exit_flow_ctrl_watermark ipa_phy_get_rx_fifo_exit_flow_ctrl_watermark IPA_RX_FIFO_FLOW_CTRL 16 16
  ipa_phy_set_rx_fifo_entry_flow_ctrl_watermark ipa_phy_get_rx_fifo_entry_flow_ctrl_watermark IPA_RX_FIFO_FLOW_CTRL 0 16
  by unfold_locales (simp add: mask_eq_exp_minus_1)

end
