(* ===== verification/SipaCore.thy ===== *)
theory SipaCore
  imports SipaRegs
begin

text \<open>
  The data of the SIPA driver that the FIFO layer shares:
  \<^verbatim>\<open>quectel_SRPD_PCIE/src/sipa/sipa_core.h\<close>. A bit-field of width \<open>w\<close> is a \<open>w word\<close>, so a store into
  it truncates as in C. The descriptor arrays in DMA memory are lists; a \<open>NULL\<close> array is \<open>None\<close>.
\<close>

abbreviation (input) SIPA_FIFO_PCIE_DL :: nat where "SIPA_FIFO_PCIE_DL \<equiv> 0"
abbreviation (input) SIPA_FIFO_PCIE_UL :: nat where "SIPA_FIFO_PCIE_UL \<equiv> 1"
abbreviation (input) SIPA_FIFO_MAX :: nat where "SIPA_FIFO_MAX \<equiv> 2"

abbreviation (input) SIPA_IRQ_EXIT_FLOW_CTRL :: u32 where "SIPA_IRQ_EXIT_FLOW_CTRL \<equiv> 0x100000"
abbreviation (input) SIPA_IRQ_ENTER_FLOW_CTRL :: u32 where "SIPA_IRQ_ENTER_FLOW_CTRL \<equiv> 0x80000"
abbreviation (input) SIPA_IRQ_TXFIFO_FULL_INT :: u32 where "SIPA_IRQ_TXFIFO_FULL_INT \<equiv> 0x40000"
abbreviation (input) SIPA_IRQ_TXFIFO_OVERFLOW :: u32 where "SIPA_IRQ_TXFIFO_OVERFLOW \<equiv> 0x20000"
abbreviation (input) SIPA_FIFO_THRESHOLD_IRQ_EN :: u32 where "SIPA_FIFO_THRESHOLD_IRQ_EN \<equiv> 0x2"
abbreviation (input) SIPA_FIFO_DELAY_TIMER_IRQ_EN :: u32 where "SIPA_FIFO_DELAY_TIMER_IRQ_EN \<equiv> 0x1"

definition SIPA_RECV_WARN_EVT :: u32 where
  "SIPA_RECV_WARN_EVT = SIPA_IRQ_TXFIFO_FULL_INT OR SIPA_IRQ_TXFIFO_OVERFLOW"

record sipa_node_description_tag =
  nd_address :: "40 word"
  nd_length :: "20 word"
  nd_offset :: "12 word"
  nd_net_id :: "8 word"
  nd_src :: "5 word"
  nd_dst :: "5 word"
  nd_prio :: "3 word"
  nd_bear_id :: "7 word"
  nd_intr :: "1 word"
  nd_indx :: "1 word"
  nd_err_code :: "4 word"
  nd_reserved :: "22 word"

text \<open>A descriptor of zeroed DMA memory.\<close>

definition zero_desc :: sipa_node_description_tag where
  "zero_desc = \<lparr>nd_address = 0, nd_length = 0, nd_offset = 0, nd_net_id = 0, nd_src = 0, nd_dst = 0, nd_prio = 0,
     nd_bear_id = 0, nd_intr = 0, nd_indx = 0, nd_err_code = 0, nd_reserved = 0\<rparr>"

record sipa_cmn_fifo_tag =
  ff_depth :: u32
  ff_wr :: u32
  ff_rd :: u32
  ff_base_addr_l :: u32
  ff_base_addr_h :: u32
  ff_dma_ptr :: u64
  ff_virtual_addr :: "sipa_node_description_tag list option"

text \<open>
  The two functions the driver ever stores in \<open>irq_cb\<close> are \<open>sipa_sender_notify_cb\<close> and
  \<open>sipa_receiver_notify_cb\<close>; \<open>No_cb\<close> is the null pointer.
\<close>

datatype irq_notify_cb = No_cb | Sender_notify_cb | Receiver_notify_cb

record sipa_cmn_fifo_cfg_tag =
  fifo_name :: u64
  fifo_id :: nat
  fifo_state :: bool
  fifo_dst :: u32
  fifo_cur :: u32
  fifo_reg_base :: u64
  rx_fifo :: sipa_cmn_fifo_tag
  tx_fifo :: sipa_cmn_fifo_tag
  enter_flow_ctrl_cnt :: u32
  exit_flow_ctrl_cnt :: u32
  irq_cb :: irq_notify_cb

text \<open>
  The state the FIFO operations work on: the device and the array \<open>cmn_fifo_cfg[SIPA_FIFO_MAX]\<close>.
  The record is extensible, so the layers above run the same operations on their larger states.
\<close>

record 'h hal =
  hw :: 'h
  cmn_fifo_cfg :: "nat \<Rightarrow> sipa_cmn_fifo_cfg_tag"

text \<open>A register access from the FIFO layer.\<close>

definition phy :: "('h, 'a) state \<Rightarrow> (('h, 'z) hal_scheme, 'a) state" where
  "phy f = State (\<lambda>s. case run_state f (hw s) of (r, h) \<Rightarrow> (r, s\<lparr>hw := h\<rparr>))"

definition get_cfg :: "nat \<Rightarrow> (('h, 'z) hal_scheme, sipa_cmn_fifo_cfg_tag) state" where
  "get_cfg fid = State (\<lambda>s. (cmn_fifo_cfg s fid, s))"

definition mod_cfg :: "nat \<Rightarrow> (sipa_cmn_fifo_cfg_tag \<Rightarrow> sipa_cmn_fifo_cfg_tag) \<Rightarrow> (('h, 'z) hal_scheme, unit) state" where
  "mod_cfg fid f = State (\<lambda>s. ((), s\<lparr>cmn_fifo_cfg := (cmn_fifo_cfg s)(fid := f (cmn_fifo_cfg s fid))\<rparr>))"

abbreviation mod_rx :: "nat \<Rightarrow> (sipa_cmn_fifo_tag \<Rightarrow> sipa_cmn_fifo_tag) \<Rightarrow> (('h, 'z) hal_scheme, unit) state" where
  "mod_rx fid f \<equiv> mod_cfg fid (\<lambda>c. c\<lparr>rx_fifo := f (rx_fifo c)\<rparr>)"

abbreviation mod_tx :: "nat \<Rightarrow> (sipa_cmn_fifo_tag \<Rightarrow> sipa_cmn_fifo_tag) \<Rightarrow> (('h, 'z) hal_scheme, unit) state" where
  "mod_tx fid f \<equiv> mod_cfg fid (\<lambda>c. c\<lparr>tx_fifo := f (tx_fifo c)\<rparr>)"

lemma run_phy [simp]:
  "run_state (phy f) s = (fst (run_state f (hw s)), s\<lparr>hw := snd (run_state f (hw s))\<rparr>)"
  by (simp add: phy_def split_beta)

lemma run_get_cfg [simp]: "run_state (get_cfg fid) s = (cmn_fifo_cfg s fid, s)"
  by (simp add: get_cfg_def)

lemma run_mod_cfg [simp]:
  "run_state (mod_cfg fid f) s = ((), s\<lparr>cmn_fifo_cfg := (cmn_fifo_cfg s)(fid := f (cmn_fifo_cfg s fid))\<rparr>)"
  by (simp add: mod_cfg_def)

end
