(* ===== verification/SipaFifoHal.thy ===== *)
theory SipaFifoHal
  imports SipaCore
begin

text \<open>
  The FIFO operations of the SIPA driver:
  \<^verbatim>\<open>quectel_SRPD_PCIE/src/sipa/sipa_phy_v0/sipa_common_fifo_hal.c\<close>, one definition per function, with the
  function's name. A FIFO block is named by its index \<open>fid\<close> in \<open>cmn_fifo_cfg\<close>; every operation
  refuses an index that is not below \<open>SIPA_FIFO_MAX\<close> in the way its source does. Log output is left
  out. C treats the accessors' \<open>int\<close> results as truth values, hence the tests \<open>= 0\<close> and \<open>\<noteq> 0\<close>.
\<close>

definition PTR_MASK :: "u32 \<Rightarrow> u32" where
  "PTR_MASK depth = depth OR (depth - 1)"

abbreviation (input) invalid_id :: "nat \<Rightarrow> bool" where
  "invalid_id fid \<equiv> \<not> fid < SIPA_FIFO_MAX"

section \<open>Opening and closing a FIFO\<close>

definition ipa_common_fifo_hal_open :: "'h mmio \<Rightarrow> nat \<Rightarrow> u64 \<Rightarrow> (('h, 'z) hal_scheme, int) state" where
  "ipa_common_fifo_hal_open m fid cookie =
     (if invalid_id fid then State_Monad.return (- EINVAL) else do {
        c \<leftarrow> get_cfg fid;
        if fifo_state c then State_Monad.return (- EBUSY) else do {
          let b = fifo_reg_base c;
          phy (ipa_phy_set_rx_fifo_total_depth m b (ff_depth (rx_fifo c)));
          phy (ipa_phy_set_rx_fifo_addr m b (ff_base_addr_l (rx_fifo c)) (ff_base_addr_h (rx_fifo c)));
          phy (ipa_phy_set_tx_fifo_total_depth m b (ff_depth (tx_fifo c)));
          phy (ipa_phy_set_tx_fifo_addr m b (ff_base_addr_l (tx_fifo c)) (ff_base_addr_h (tx_fifo c)));
          phy (ipa_phy_set_cur_term_num m b (fifo_cur c));
          phy (ipa_phy_set_dst_term_num m b (fifo_dst c));
          phy (ipa_phy_update_rx_fifo_rptr m b 0);
          phy (ipa_phy_update_rx_fifo_wptr m b 0);
          phy (ipa_phy_update_tx_fifo_rptr m b 0);
          phy (ipa_phy_update_tx_fifo_wptr m b 0);
          phy (ipa_phy_clear_stop_receive m b);
          mod_rx fid (\<lambda>f. f\<lparr>ff_rd := 0, ff_wr := 0\<rparr>);
          mod_tx fid (\<lambda>f. f\<lparr>ff_rd := 0, ff_wr := 0\<rparr>);
          mod_cfg fid (\<lambda>c. c\<lparr>fifo_name := cookie, fifo_state := True\<rparr>);
          State_Monad.return 0 } })"

definition ipa_common_fifo_hal_close :: "'h mmio \<Rightarrow> nat \<Rightarrow> (('h, 'z) hal_scheme, int) state" where
  "ipa_common_fifo_hal_close m fid =
     (if invalid_id fid then State_Monad.return (- EINVAL) else do {
        c \<leftarrow> get_cfg fid;
        let b = fifo_reg_base c;
        phy (ipa_phy_set_rx_fifo_total_depth m b 0);
        phy (ipa_phy_set_tx_fifo_total_depth m b 0);
        phy (ipa_phy_update_rx_fifo_rptr m b 0);
        phy (ipa_phy_update_rx_fifo_wptr m b 0);
        phy (ipa_phy_update_tx_fifo_rptr m b 0);
        phy (ipa_phy_update_tx_fifo_wptr m b 0);
        mod_rx fid (\<lambda>f. f\<lparr>ff_rd := 0, ff_wr := 0\<rparr>);
        mod_tx fid (\<lambda>f. f\<lparr>ff_rd := 0, ff_wr := 0\<rparr>);
        mod_cfg fid (\<lambda>c. c\<lparr>fifo_state := False\<rparr>);
        State_Monad.return 0 })"

section \<open>Depths\<close>

definition ipa_common_fifo_hal_set_rx_depth :: "'h mmio \<Rightarrow> nat \<Rightarrow> u32 \<Rightarrow> (('h, 'z) hal_scheme, int) state" where
  "ipa_common_fifo_hal_set_rx_depth m fid depth =
     (if invalid_id fid then State_Monad.return (- EINVAL) else do {
        c \<leftarrow> get_cfg fid;
        phy (ipa_phy_set_rx_fifo_total_depth m (fifo_reg_base c) depth) })"

definition ipa_common_fifo_hal_get_rx_depth :: "'h mmio \<Rightarrow> nat \<Rightarrow> (('h, 'z) hal_scheme, u32) state" where
  "ipa_common_fifo_hal_get_rx_depth m fid =
     (if invalid_id fid then State_Monad.return 0 else do {
        c \<leftarrow> get_cfg fid;
        phy (ipa_phy_get_rx_fifo_total_depth m (fifo_reg_base c)) })"

definition ipa_common_fifo_hal_set_tx_depth :: "'h mmio \<Rightarrow> nat \<Rightarrow> u32 \<Rightarrow> (('h, 'z) hal_scheme, int) state" where
  "ipa_common_fifo_hal_set_tx_depth m fid depth =
     (if invalid_id fid then State_Monad.return 0 else do {
        c \<leftarrow> get_cfg fid;
        phy (ipa_phy_set_tx_fifo_total_depth m (fifo_reg_base c) depth) })"

definition ipa_common_fifo_hal_get_tx_depth :: "'h mmio \<Rightarrow> nat \<Rightarrow> (('h, 'z) hal_scheme, u32) state" where
  "ipa_common_fifo_hal_get_tx_depth m fid =
     (if invalid_id fid then State_Monad.return 0 else do {
        c \<leftarrow> get_cfg fid;
        phy (ipa_phy_get_tx_fifo_total_depth m (fifo_reg_base c)) })"

section \<open>Interrupt configuration\<close>

definition ipa_common_fifo_hal_set_intr_drop_packet :: "'h mmio \<Rightarrow> nat \<Rightarrow> u32 \<Rightarrow> (('h, 'z) hal_scheme, int) state" where
  "ipa_common_fifo_hal_set_intr_drop_packet m fid enable =
     (if invalid_id fid then State_Monad.return (- EINVAL) else do {
        c \<leftarrow> get_cfg fid;
        if enable \<noteq> 0 then phy (ipa_phy_enable_int_bit m (fifo_reg_base c) IPA_DROP_PACKET_OCCUR_INT_EN)
        else phy (ipa_phy_disable_int_bit m (fifo_reg_base c) IPA_DROP_PACKET_OCCUR_INT_EN) })"

definition ipa_common_fifo_hal_set_intr_error_code :: "'h mmio \<Rightarrow> nat \<Rightarrow> u32 \<Rightarrow> (('h, 'z) hal_scheme, int) state" where
  "ipa_common_fifo_hal_set_intr_error_code m fid enable =
     (if invalid_id fid then State_Monad.return (- EINVAL) else do {
        c \<leftarrow> get_cfg fid;
        if enable \<noteq> 0 then phy (ipa_phy_enable_int_bit m (fifo_reg_base c) IPA_ERRORCODE_IN_TX_FIFO_EN)
        else phy (ipa_phy_disable_int_bit m (fifo_reg_base c) IPA_ERRORCODE_IN_TX_FIFO_EN) })"

definition ipa_common_fifo_hal_set_intr_timeout :: "'h mmio \<Rightarrow> nat \<Rightarrow> u32 \<Rightarrow> u32 \<Rightarrow> (('h, 'z) hal_scheme, int) state" where
  "ipa_common_fifo_hal_set_intr_timeout m fid enable time =
     (if invalid_id fid then State_Monad.return (- EINVAL) else do {
        c \<leftarrow> get_cfg fid;
        if enable \<noteq> 0 then do {
          ret \<leftarrow> phy (ipa_phy_set_tx_fifo_interrupt_delay_timer m (fifo_reg_base c) time);
          if ret \<noteq> 0 then phy (ipa_phy_enable_int_bit m (fifo_reg_base c) IPA_TXFIFO_INT_DELAY_TIMER_SW_EN)
          else State_Monad.return ret }
        else phy (ipa_phy_disable_int_bit m (fifo_reg_base c) IPA_TXFIFO_INT_DELAY_TIMER_SW_EN) })"

definition ipa_common_fifo_hal_set_hw_intr_timeout :: "'h mmio \<Rightarrow> nat \<Rightarrow> u32 \<Rightarrow> u32 \<Rightarrow> (('h, 'z) hal_scheme, int) state" where
  "ipa_common_fifo_hal_set_hw_intr_timeout m fid enable time =
     (if invalid_id fid then State_Monad.return (- EINVAL) else do {
        c \<leftarrow> get_cfg fid;
        if enable \<noteq> 0 then do {
          ret \<leftarrow> phy (ipa_phy_set_tx_fifo_interrupt_delay_timer m (fifo_reg_base c) time);
          if ret = 0 then phy (ipa_phy_enable_int_bit m (fifo_reg_base c) IPA_TX_FIFO_DELAY_TIMER_EN)
          else State_Monad.return ret }
        else phy (ipa_phy_disable_int_bit m (fifo_reg_base c) IPA_TX_FIFO_DELAY_TIMER_EN) })"

definition ipa_common_fifo_hal_set_intr_threshold :: "'h mmio \<Rightarrow> nat \<Rightarrow> u32 \<Rightarrow> u32 \<Rightarrow> (('h, 'z) hal_scheme, int) state" where
  "ipa_common_fifo_hal_set_intr_threshold m fid enable cnt =
     (if invalid_id fid then State_Monad.return (- EINVAL) else do {
        c \<leftarrow> get_cfg fid;
        if enable \<noteq> 0 then do {
          ret \<leftarrow> phy (ipa_phy_set_tx_fifo_interrupt_threshold m (fifo_reg_base c) cnt);
          if ret = 0 then phy (ipa_phy_enable_int_bit m (fifo_reg_base c) IPA_TXFIFO_INT_THRESHOLD_ONESHOT_EN)
          else State_Monad.return ret }
        else phy (ipa_phy_disable_int_bit m (fifo_reg_base c) IPA_TXFIFO_INT_THRESHOLD_ONESHOT_EN) })"

definition ipa_common_fifo_hal_set_hw_intr_thres :: "'h mmio \<Rightarrow> nat \<Rightarrow> u32 \<Rightarrow> u32 \<Rightarrow> (('h, 'z) hal_scheme, int) state" where
  "ipa_common_fifo_hal_set_hw_intr_thres m fid enable cnt =
     (if invalid_id fid then State_Monad.return (- EINVAL) else do {
        c \<leftarrow> get_cfg fid;
        if enable \<noteq> 0 then do {
          ret \<leftarrow> phy (ipa_phy_set_tx_fifo_interrupt_threshold m (fifo_reg_base c) cnt);
          if ret = 0 then phy (ipa_phy_enable_int_bit m (fifo_reg_base c) IPA_TX_FIFO_THRESHOLD_EN)
          else State_Monad.return ret }
        else phy (ipa_phy_disable_int_bit m (fifo_reg_base c) IPA_TX_FIFO_THRESHOLD_EN) })"

definition ipa_common_fifo_hal_set_src_dst_term :: "'h mmio \<Rightarrow> nat \<Rightarrow> u32 \<Rightarrow> u32 \<Rightarrow> (('h, 'z) hal_scheme, int) state" where
  "ipa_common_fifo_hal_set_src_dst_term m fid src dst =
     (if invalid_id fid then State_Monad.return (- EINVAL) else do {
        c \<leftarrow> get_cfg fid;
        ret \<leftarrow> phy (ipa_phy_set_cur_term_num m (fifo_reg_base c) src);
        if ret \<noteq> 0 then State_Monad.return ret else do {
          ret \<leftarrow> phy (ipa_phy_set_dst_term_num m (fifo_reg_base c) dst);
          if ret \<noteq> 0 then State_Monad.return ret else State_Monad.return 0 } })"

definition ipa_common_fifo_hal_enable_local_flowctrl_intr ::
    "'h mmio \<Rightarrow> nat \<Rightarrow> u32 \<Rightarrow> u32 \<Rightarrow> (('h, 'z) hal_scheme, int) state" where
  "ipa_common_fifo_hal_enable_local_flowctrl_intr m fid enable irq_mode =
     (if invalid_id fid then State_Monad.return (- EINVAL) else do {
        c \<leftarrow> get_cfg fid;
        case (if irq_mode = 0 then Some IPA_RX_FIFO_INT_EXIT_FLOW_CTRL_EN
              else if irq_mode = 1 then Some IPA_RX_FIFO_INT_ENTER_FLOW_CTRL_EN
              else if irq_mode = 2 then
                Some (IPA_RX_FIFO_INT_EXIT_FLOW_CTRL_EN OR IPA_RX_FIFO_INT_ENTER_FLOW_CTRL_EN)
              else None) of
          None \<Rightarrow> State_Monad.return (- EINVAL)
        | Some irq \<Rightarrow>
            if enable \<noteq> 0 then do {
              ret \<leftarrow> phy (ipa_phy_enable_int_bit m (fifo_reg_base c) irq);
              if ret \<noteq> 0 then State_Monad.return ret else State_Monad.return ret }
            else phy (ipa_phy_disable_int_bit m (fifo_reg_base c) irq) })"

definition ipa_common_fifo_hal_enable_remote_flowctrl_intr ::
    "'h mmio \<Rightarrow> nat \<Rightarrow> u32 \<Rightarrow> u32 \<Rightarrow> u32 \<Rightarrow> u32 \<Rightarrow> u32 \<Rightarrow> (('h, 'z) hal_scheme, int) state" where
  "ipa_common_fifo_hal_enable_remote_flowctrl_intr m fid work_mode
       tx_entry_watermark tx_exit_watermark rx_entry_watermark rx_exit_watermark =
     (if invalid_id fid then State_Monad.return (- EINVAL) else do {
        c \<leftarrow> get_cfg fid;
        let b = fifo_reg_base c;
        ret \<leftarrow> phy (ipa_phy_set_tx_fifo_exit_flow_ctrl_watermark m b tx_exit_watermark);
        if ret = 0 then State_Monad.return ret else do {
        ret \<leftarrow> phy (ipa_phy_set_tx_fifo_entry_flow_ctrl_watermark m b tx_entry_watermark);
        if ret = 0 then State_Monad.return ret else do {
        ret \<leftarrow> phy (ipa_phy_set_rx_fifo_exit_flow_ctrl_watermark m b rx_exit_watermark);
        if ret = 0 then State_Monad.return ret else do {
        ret \<leftarrow> phy (ipa_phy_set_rx_fifo_entry_flow_ctrl_watermark m b rx_entry_watermark);
        if ret = 0 then State_Monad.return ret else
        phy (ipa_phy_set_flow_ctrl_config m b work_mode) } } } })"

definition ipa_common_fifo_hal_set_interrupt_intr :: "'h mmio \<Rightarrow> nat \<Rightarrow> u32 \<Rightarrow> (('h, 'z) hal_scheme, int) state" where
  "ipa_common_fifo_hal_set_interrupt_intr m fid enable =
     (if invalid_id fid then State_Monad.return (- EINVAL) else do {
        c \<leftarrow> get_cfg fid;
        if enable \<noteq> 0 then phy (ipa_phy_enable_int_bit m (fifo_reg_base c) IPA_TX_FIFO_INTR_SW_BIT_EN)
        else phy (ipa_phy_disable_int_bit m (fifo_reg_base c) IPA_TX_FIFO_INTR_SW_BIT_EN) })"

definition ipa_common_fifo_hal_set_intr_txfifo_overflow :: "'h mmio \<Rightarrow> nat \<Rightarrow> u32 \<Rightarrow> (('h, 'z) hal_scheme, int) state" where
  "ipa_common_fifo_hal_set_intr_txfifo_overflow m fid enable =
     (if invalid_id fid then State_Monad.return (- EINVAL) else do {
        c \<leftarrow> get_cfg fid;
        if enable \<noteq> 0 then phy (ipa_phy_enable_int_bit m (fifo_reg_base c) IPA_TXFIFO_OVERFLOW_EN)
        else phy (ipa_phy_disable_int_bit m (fifo_reg_base c) IPA_TXFIFO_OVERFLOW_EN) })"

definition ipa_common_fifo_hal_set_intr_txfifo_full :: "'h mmio \<Rightarrow> nat \<Rightarrow> u32 \<Rightarrow> (('h, 'z) hal_scheme, int) state" where
  "ipa_common_fifo_hal_set_intr_txfifo_full m fid enable =
     (if invalid_id fid then State_Monad.return (- EINVAL) else do {
        c \<leftarrow> get_cfg fid;
        if enable \<noteq> 0 then phy (ipa_phy_enable_int_bit m (fifo_reg_base c) IPA_TXFIFO_FULL_INT_EN)
        else phy (ipa_phy_disable_int_bit m (fifo_reg_base c) IPA_TXFIFO_FULL_INT_EN) })"

definition ipa_common_fifo_set_intr_eb :: "'h mmio \<Rightarrow> nat \<Rightarrow> bool \<Rightarrow> u32 \<Rightarrow> (('h, 'z) hal_scheme, int) state" where
  "ipa_common_fifo_set_intr_eb m fid eb typ =
     (if invalid_id fid then State_Monad.return (- EINVAL) else do {
        c \<leftarrow> get_cfg fid;
        if eb then phy (ipa_phy_enable_int_bit m (fifo_reg_base c) typ)
        else phy (ipa_phy_disable_int_bit m (fifo_reg_base c) typ) })"

definition ipa_common_fifo_clr_tout_th_intr :: "'h mmio \<Rightarrow> nat \<Rightarrow> (('h, 'z) hal_scheme, unit) state" where
  "ipa_common_fifo_clr_tout_th_intr m fid =
     (if invalid_id fid then State_Monad.return () else do {
        c \<leftarrow> get_cfg fid;
        phy (ipa_phy_clear_int m (fifo_reg_base c)
               (IPA_TX_FIFO_TIMER_CLR_BIT OR IPA_TX_FIFO_THRESHOLD_CLR_BIT)) })"

end
