(* ===== verification/SipaFifoRing.thy ===== *)
theory SipaFifoRing
  imports SipaFifoHal
begin

text \<open>
  The data path of \<^verbatim>\<open>sipa_common_fifo_hal.c\<close>: the descriptor rings, their read and write pointers and
  fill counts. A ring of depth \<open>d\<close> (a power of two) is addressed by free-running pointers masked with
  \<open>PTR_MASK d\<close>, so that a full and an empty ring differ. A result \<open>None\<close> of
  \<open>ipa_put_pkt_to_cache_rx_fifo\<close> stands for a copy outside the ring or the source (undefined in C).
  The \<open>dma_sync_single_for_device\<close> calls of \<open>set_rx_fifo_wr\<close> do not touch the driver's state; which
  byte ranges they are given is what \<open>sync_ranges\<close> computes.
\<close>

section \<open>Putting descriptors into the receive FIFO\<close>

definition put_copy :: "sipa_node_description_tag list \<Rightarrow> u32 \<Rightarrow> sipa_node_description_tag list \<Rightarrow> u32 \<Rightarrow> u32 \<Rightarrow>
    sipa_node_description_tag list option" where
  "put_copy node depth desc index num =
     (if index + num \<le> depth then memcpy node (unat index) desc 0 (unat num)
      else let tmp = depth - index in
        case memcpy node (unat index) desc 0 (unat tmp) of
          None \<Rightarrow> None
        | Some node' \<Rightarrow> memcpy node' 0 desc (unat tmp) (unat (num - tmp)))"

definition ipa_put_pkt_to_cache_rx_fifo ::
    "'h mmio \<Rightarrow> nat \<Rightarrow> sipa_node_description_tag list \<Rightarrow> u32 \<Rightarrow> (('h, 'z) hal_scheme, int option) state" where
  "ipa_put_pkt_to_cache_rx_fifo m fid desc num = do {
     c \<leftarrow> get_cfg fid;
     let depth = ff_depth (rx_fifo c);
     filled \<leftarrow> phy (ipa_phy_get_rx_fifo_filled_depth m (fifo_reg_base c));
     let left_cnt = depth - filled;
     if left_cnt = 0 then State_Monad.return (Some (- ENOSPC)) else do {
       let num = (if left_cnt < num then left_cnt else num);
       let index = ff_wr (rx_fifo c) AND (depth - 1);
       case Option.bind (ff_virtual_addr (rx_fifo c)) (\<lambda>node. put_copy node depth desc index num) of
         None \<Rightarrow> State_Monad.return None
       | Some node \<Rightarrow> do {
           let wr = (ff_wr (rx_fifo c) + num) AND PTR_MASK depth;
           mod_rx fid (\<lambda>f. f\<lparr>ff_virtual_addr := Some node, ff_wr := wr\<rparr>);
           phy (ipa_phy_update_rx_fifo_wptr m (fifo_reg_base c) wr);
           State_Monad.return (Some (sint num)) } } }"

definition ipa_common_fifo_hal_put_node_to_rx_fifo ::
    "'h mmio \<Rightarrow> nat \<Rightarrow> sipa_node_description_tag list \<Rightarrow> u32 \<Rightarrow> (('h, 'z) hal_scheme, int option) state" where
  "ipa_common_fifo_hal_put_node_to_rx_fifo m fid node num =
     (if invalid_id fid then State_Monad.return (Some (- EINVAL))
      else ipa_put_pkt_to_cache_rx_fifo m fid node num)"

section \<open>Fill counts, pointers and status\<close>

definition ipa_recv_pkts_from_tx_fifo :: "'h mmio \<Rightarrow> nat \<Rightarrow> (('h, 'z) hal_scheme, u32) state" where
  "ipa_recv_pkts_from_tx_fifo m fid = do {
     c \<leftarrow> get_cfg fid;
     phy (ipa_phy_get_tx_fifo_filled_depth m (fifo_reg_base c)) }"

definition ipa_common_fifo_hal_recv_node_from_tx_fifo :: "'h mmio \<Rightarrow> nat \<Rightarrow> (('h, 'z) hal_scheme, u32) state" where
  "ipa_common_fifo_hal_recv_node_from_tx_fifo m fid =
     (if invalid_id fid then State_Monad.return 0 else ipa_recv_pkts_from_tx_fifo m fid)"

definition ipa_common_fifo_hal_get_left_cnt :: "'h mmio \<Rightarrow> nat \<Rightarrow> (('h, 'z) hal_scheme, u32) state" where
  "ipa_common_fifo_hal_get_left_cnt m fid =
     (if invalid_id fid then State_Monad.return 0 else do {
        c \<leftarrow> get_cfg fid;
        total \<leftarrow> phy (ipa_phy_get_tx_fifo_total_depth m (fifo_reg_base c));
        filled \<leftarrow> phy (ipa_phy_get_tx_fifo_filled_depth m (fifo_reg_base c));
        State_Monad.return (total - filled) })"

text \<open>The two out-parameters are written only when they are not \<open>NULL\<close> (\<open>want_wr\<close>, \<open>want_rd\<close>).\<close>

definition opt_read :: "bool \<Rightarrow> ('s, u32) state \<Rightarrow> ('s, u32 option) state" where
  "opt_read want f = (if want then do { v \<leftarrow> f; State_Monad.return (Some v) } else State_Monad.return None)"

definition ipa_common_fifo_hal_get_rx_ptr ::
    "'h mmio \<Rightarrow> nat \<Rightarrow> bool \<Rightarrow> bool \<Rightarrow> (('h, 'z) hal_scheme, u32 option \<times> u32 option) state" where
  "ipa_common_fifo_hal_get_rx_ptr m fid want_wr want_rd =
     (if invalid_id fid then State_Monad.return (None, None) else do {
        c \<leftarrow> get_cfg fid;
        rd \<leftarrow> opt_read want_rd (phy (ipa_phy_get_rx_fifo_rptr m (fifo_reg_base c)));
        wr \<leftarrow> opt_read want_wr (phy (ipa_phy_get_rx_fifo_wptr m (fifo_reg_base c)));
        State_Monad.return (wr, rd) })"

definition ipa_common_fifo_hal_get_tx_ptr ::
    "'h mmio \<Rightarrow> nat \<Rightarrow> bool \<Rightarrow> bool \<Rightarrow> (('h, 'z) hal_scheme, u32 option \<times> u32 option) state" where
  "ipa_common_fifo_hal_get_tx_ptr m fid want_wr want_rd =
     (if invalid_id fid then State_Monad.return (None, None) else do {
        c \<leftarrow> get_cfg fid;
        rd \<leftarrow> opt_read want_rd (phy (ipa_phy_get_tx_fifo_rptr m (fifo_reg_base c)));
        wr \<leftarrow> opt_read want_wr (phy (ipa_phy_get_tx_fifo_wptr m (fifo_reg_base c)));
        State_Monad.return (wr, rd) })"

definition ipa_common_fifo_hal_get_filled_depth ::
    "'h mmio \<Rightarrow> nat \<Rightarrow> bool \<Rightarrow> bool \<Rightarrow> (('h, 'z) hal_scheme, u32 option \<times> u32 option) state" where
  "ipa_common_fifo_hal_get_filled_depth m fid want_rx want_tx =
     (if invalid_id fid then State_Monad.return (None, None) else do {
        c \<leftarrow> get_cfg fid;
        tx \<leftarrow> opt_read want_tx (phy (ipa_phy_get_tx_fifo_filled_depth m (fifo_reg_base c)));
        rx \<leftarrow> opt_read want_rx (phy (ipa_phy_get_rx_fifo_filled_depth m (fifo_reg_base c)));
        State_Monad.return (rx, tx) })"

definition ipa_common_fifo_hal_get_tx_full_status :: "'h mmio \<Rightarrow> nat \<Rightarrow> (('h, 'z) hal_scheme, u32) state" where
  "ipa_common_fifo_hal_get_tx_full_status m fid =
     (if invalid_id fid then State_Monad.return 0 else do {
        c \<leftarrow> get_cfg fid; phy (ipa_phy_get_tx_fifo_full_status m (fifo_reg_base c)) })"

definition ipa_common_fifo_hal_get_tx_empty_status :: "'h mmio \<Rightarrow> nat \<Rightarrow> (('h, 'z) hal_scheme, u32) state" where
  "ipa_common_fifo_hal_get_tx_empty_status m fid =
     (if invalid_id fid then State_Monad.return 0 else do {
        c \<leftarrow> get_cfg fid; phy (ipa_phy_get_tx_fifo_empty_status m (fifo_reg_base c)) })"

definition ipa_common_fifo_hal_get_rx_full_status :: "'h mmio \<Rightarrow> nat \<Rightarrow> (('h, 'z) hal_scheme, u32) state" where
  "ipa_common_fifo_hal_get_rx_full_status m fid =
     (if invalid_id fid then State_Monad.return 0 else do {
        c \<leftarrow> get_cfg fid; phy (ipa_phy_get_rx_fifo_full_status m (fifo_reg_base c)) })"

definition ipa_common_fifo_hal_get_rx_empty_status :: "'h mmio \<Rightarrow> nat \<Rightarrow> (('h, 'z) hal_scheme, u32) state" where
  "ipa_common_fifo_hal_get_rx_empty_status m fid =
     (if invalid_id fid then State_Monad.return 0 else do {
        c \<leftarrow> get_cfg fid; phy (ipa_phy_get_rx_fifo_empty_status m (fifo_reg_base c)) })"

section \<open>Setting the pointers\<close>

definition ipa_common_fifo_hal_set_rx_fifo_wptr :: "'h mmio \<Rightarrow> nat \<Rightarrow> u32 \<Rightarrow> (('h, 'z) hal_scheme, bool) state" where
  "ipa_common_fifo_hal_set_rx_fifo_wptr m fid wptr =
     (if invalid_id fid then State_Monad.return False else do {
        c \<leftarrow> get_cfg fid;
        rx_wptr \<leftarrow> phy (ipa_phy_get_rx_fifo_wptr m (fifo_reg_base c));
        if wptr \<noteq> rx_wptr then do {
          let wptr = wptr AND PTR_MASK (ff_depth (rx_fifo c));
          mod_rx fid (\<lambda>f. f\<lparr>ff_wr := wptr\<rparr>);
          ret \<leftarrow> phy (ipa_phy_update_rx_fifo_wptr m (fifo_reg_base c) wptr);
          State_Monad.return (if ret = 0 then False else True) }
        else State_Monad.return True })"

definition ipa_common_fifo_hal_set_tx_fifo_wptr :: "'h mmio \<Rightarrow> nat \<Rightarrow> u32 \<Rightarrow> (('h, 'z) hal_scheme, bool) state" where
  "ipa_common_fifo_hal_set_tx_fifo_wptr m fid wptr =
     (if invalid_id fid then State_Monad.return False else do {
        c \<leftarrow> get_cfg fid;
        tx_wptr \<leftarrow> phy (ipa_phy_get_tx_fifo_wptr m (fifo_reg_base c));
        if wptr \<noteq> tx_wptr then do {
          let wptr = wptr AND PTR_MASK (ff_depth (rx_fifo c));
          mod_tx fid (\<lambda>f. f\<lparr>ff_wr := wptr\<rparr>);
          ret \<leftarrow> phy (ipa_phy_update_tx_fifo_wptr m (fifo_reg_base c) wptr);
          State_Monad.return (if ret = 0 then False else True) }
        else State_Monad.return True })"

definition ipa_common_fifo_hal_set_rx_tx_fifo_ptr ::
    "'h mmio \<Rightarrow> nat \<Rightarrow> u32 \<Rightarrow> u32 \<Rightarrow> u32 \<Rightarrow> u32 \<Rightarrow> (('h, 'z) hal_scheme, int) state" where
  "ipa_common_fifo_hal_set_rx_tx_fifo_ptr m fid rx_rd rx_wr tx_rd tx_wr =
     (if invalid_id fid then State_Monad.return (- EINVAL) else do {
        c \<leftarrow> get_cfg fid;
        let b = fifo_reg_base c;
        let pm = PTR_MASK (ff_depth (rx_fifo c));
        tx_wptr \<leftarrow> phy (ipa_phy_get_tx_fifo_wptr m b);
        tx_rptr \<leftarrow> phy (ipa_phy_get_tx_fifo_rptr m b);
        rx_wptr \<leftarrow> phy (ipa_phy_get_rx_fifo_wptr m b);
        rx_rptr \<leftarrow> phy (ipa_phy_get_rx_fifo_rptr m b);
        ret1 \<leftarrow> (if rx_rd \<noteq> rx_rptr then do {
            mod_rx fid (\<lambda>f. f\<lparr>ff_rd := rx_rd AND pm\<rparr>);
            ret \<leftarrow> phy (ipa_phy_update_rx_fifo_rptr m b (rx_rd AND pm));
            State_Monad.return (if ret = 0 then - EIO else 0) }
          else State_Monad.return 0);
        ret1 \<leftarrow> (if rx_wr \<noteq> rx_wptr then do {
            mod_rx fid (\<lambda>f. f\<lparr>ff_wr := rx_wr AND pm\<rparr>);
            ret \<leftarrow> phy (ipa_phy_update_rx_fifo_wptr m b (rx_wr AND pm));
            State_Monad.return (if ret = 0 then - EIO else ret1) }
          else State_Monad.return ret1);
        ret1 \<leftarrow> (if tx_rd \<noteq> tx_rptr then do {
            mod_tx fid (\<lambda>f. f\<lparr>ff_rd := tx_rd AND pm\<rparr>);
            ret \<leftarrow> phy (ipa_phy_update_tx_fifo_rptr m b (tx_rd AND pm));
            State_Monad.return (if ret = 0 then - EIO else ret1) }
          else State_Monad.return ret1);
        (if tx_wr \<noteq> tx_wptr then do {
            mod_tx fid (\<lambda>f. f\<lparr>ff_wr := tx_wr AND pm\<rparr>);
            ret \<leftarrow> phy (ipa_phy_update_tx_fifo_wptr m b (tx_wr AND pm));
            State_Monad.return (if ret = 0 then - EIO else ret1) }
          else State_Monad.return ret1) })"

definition ipa_common_fifo_hal_ctrl_receive :: "'h mmio \<Rightarrow> nat \<Rightarrow> bool \<Rightarrow> (('h, 'z) hal_scheme, int) state" where
  "ipa_common_fifo_hal_ctrl_receive m fid stop =
     (if invalid_id fid then State_Monad.return (- EINVAL) else do {
        c \<leftarrow> get_cfg fid;
        if stop then phy (ipa_phy_stop_receive m (fifo_reg_base c))
        else phy (ipa_phy_clear_stop_receive m (fifo_reg_base c)) })"

section \<open>Descriptors in place\<close>

text \<open>A pointer to the descriptor at ring index \<open>i\<close> is \<open>Some i\<close>, the null pointer is \<open>None\<close>.\<close>

definition ipa_common_fifo_hal_get_tx_fifo_rp :: "nat \<Rightarrow> u32 \<Rightarrow> (('h, 'z) hal_scheme, u32 option) state" where
  "ipa_common_fifo_hal_get_tx_fifo_rp fid index =
     (if fid \<ge> SIPA_FIFO_MAX then State_Monad.return None else do {
        c \<leftarrow> get_cfg fid;
        State_Monad.return
          (if ff_virtual_addr (tx_fifo c) = None then None
           else Some ((ff_rd (tx_fifo c) + index) AND (ff_depth (tx_fifo c) - 1))) })"

definition ipa_common_fifo_hal_get_rx_fifo_wr :: "nat \<Rightarrow> u32 \<Rightarrow> (('h, 'z) hal_scheme, u32 option) state" where
  "ipa_common_fifo_hal_get_rx_fifo_wr fid index =
     (if fid \<ge> SIPA_FIFO_MAX then State_Monad.return None else do {
        c \<leftarrow> get_cfg fid;
        State_Monad.return
          (if ff_virtual_addr (rx_fifo c) = None then None
           else if index \<ge> ff_depth (rx_fifo c) then None
           else Some ((ff_wr (rx_fifo c) + index) AND (ff_depth (rx_fifo c) - 1))) })"

definition ipa_common_fifo_hal_set_tx_fifo_rp :: "'h mmio \<Rightarrow> nat \<Rightarrow> u32 \<Rightarrow> (('h, 'z) hal_scheme, int) state" where
  "ipa_common_fifo_hal_set_tx_fifo_rp m fid tx_rd =
     (if fid \<ge> SIPA_FIFO_MAX then State_Monad.return (- EINVAL) else do {
        c \<leftarrow> get_cfg fid;
        let rd = (ff_rd (tx_fifo c) + tx_rd) AND PTR_MASK (ff_depth (tx_fifo c));
        mod_tx fid (\<lambda>f. f\<lparr>ff_rd := rd\<rparr>);
        ret \<leftarrow> phy (ipa_phy_update_tx_fifo_rptr m (fifo_reg_base c) rd);
        State_Monad.return (if ret \<noteq> 0 then - EINVAL else 0) })"

text \<open>The ring indices and lengths that are handed to \<open>dma_sync_single_for_device\<close>, in call order.\<close>

definition sync_ranges :: "u32 \<Rightarrow> u32 \<Rightarrow> u32 \<Rightarrow> (u32 \<times> u32) list" where
  "sync_ranges depth index num =
     (if index + num \<le> depth then [(index, num)]
      else [(index, depth - index), (0, num - (depth - index))])"

definition ipa_common_fifo_hal_set_rx_fifo_wr ::
    "'h mmio \<Rightarrow> nat \<Rightarrow> u32 \<Rightarrow> (('h, 'z) hal_scheme, int \<times> (u32 \<times> u32) list) state" where
  "ipa_common_fifo_hal_set_rx_fifo_wr m fid num =
     (if fid \<ge> SIPA_FIFO_MAX then State_Monad.return (- EINVAL, []) else do {
        c \<leftarrow> get_cfg fid;
        let depth = ff_depth (rx_fifo c);
        filled \<leftarrow> phy (ipa_phy_get_rx_fifo_filled_depth m (fifo_reg_base c));
        let left_cnt = depth - filled;
        if left_cnt = 0 then State_Monad.return (- ENOSPC, []) else do {
          let num = (if left_cnt < num then left_cnt else num);
          let index = ff_wr (rx_fifo c) AND (depth - 1);
          let wr = (ff_wr (rx_fifo c) + num) AND PTR_MASK depth;
          mod_rx fid (\<lambda>f. f\<lparr>ff_wr := wr\<rparr>);
          ret \<leftarrow> phy (ipa_phy_update_rx_fifo_wptr m (fifo_reg_base c) wr);
          State_Monad.return (if ret \<noteq> 0 then - EIO else 0, sync_ranges depth index num) } })"

end
