(* ===== verification/SipaState.thy ===== *)
theory SipaState
  imports SipaFifoRing
begin

text \<open>
  The state of the SIPA driver above the FIFO layer (\<^verbatim>\<open>sipa_core.h\<close>, \<^verbatim>\<open>include/sipa.h\<close>): network
  interfaces, sender, receiver and the core record, which extends the FIFO layer's state. Kernel
  objects are abstract: a socket buffer is a record of what the driver reads of it, a pointer to an
  interface is its number in \<open>ctrl->nic[]\<close>, a list head is the list of its entries. \<open>events\<close> logs the
  calls of the interfaces' callbacks, \<open>kfreed\<close> the buffers given back to the kernel.

  An operation that can fail to return has type \<open>state \<Rightarrow> ('a \<times> state) option\<close>: \<open>None\<close> means that it
  spins on a lock that is never released or that it follows a null or dangling pointer.
\<close>

datatype sipa_evt_type = SIPA_RECEIVE | SIPA_ENTER_FLOWCTRL | SIPA_LEAVE_FLOWCTRL | SIPA_ERROR

abbreviation (input) SIPA_NIC_MAX :: int where "SIPA_NIC_MAX \<equiv> 12"
abbreviation (input) SIPA_TERM_PCIE0 :: u32 where "SIPA_TERM_PCIE0 \<equiv> 0x10"
abbreviation (input) SIPA_TERM_VCP :: u32 where "SIPA_TERM_VCP \<equiv> 0x6"

record sk_buff =
  skb_id :: nat
  skb_len :: u32
  skb_headroom :: u32

record sipa_nic =
  nic_status_open :: bool
  nic_src_mask :: u32
  nic_netid :: int
  nic_cb :: bool
  nic_need_notify :: int
  nic_flow_ctrl_status :: bool
  nic_continue_notify :: bool
  nic_rm_flow_ctrl :: bool
  nic_rx_skb_q :: "sk_buff list"

record sipa_skb_dma_addr_node =
  pair_skb :: sk_buff
  pair_dma_addr :: u64

text \<open>The entries of \<open>pair_cache\<close> are named by their index; the two lists hold indices.\<close>

record sipa_skb_sender =
  left_cnt :: int
  nic_list :: "nat list"
  nic_lock :: bool
  sending_list :: "nat list"
  pair_free_list :: "nat list"
  pair_cache :: "nat \<Rightarrow> sipa_skb_dma_addr_node"
  free_notify_net :: bool
  ep_cover_net :: bool
  no_free_cnt :: u32
  snd_enter_flow_ctrl_cnt :: u32
  snd_exit_flow_ctrl_cnt :: u32
  snd_run :: bool

record sipa_skb_array =
  arr_array :: "sipa_skb_dma_addr_node list option"
  arr_rp :: u32
  arr_wp :: u32
  arr_depth :: u32

record sipa_skb_receiver =
  recv_array :: sipa_skb_array
  rcv_rsvd :: u32
  need_fill_cnt :: int
  tx_danger_cnt :: u32
  rx_danger_cnt :: u32
  rcv_nic_array :: "nat list"
  rcv_run :: bool

text \<open>
  The NAPI device of \<^verbatim>\<open>sipa_dummy.c\<close>: its two flags, its counters, how often \<open>napi_schedule\<close> was
  called, and the packets handed to the network stack with the number of their interface.
\<close>

record sipa_dummy =
  dm_rx_evt :: bool
  dm_rx_busy :: bool
  dm_rx_packets :: u64
  dm_rx_bytes :: u64
  dm_rx_errors :: u64
  dm_napi_scheduled :: nat
  dm_delivered :: "(int \<times> sk_buff) list"

record 'h sipa_core = "'h hal" +
  remote_ready :: bool
  pcie_mem_offset :: u64
  send_fifo :: nat
  recv_fifo :: nat
  nic_present :: "nat \<Rightarrow> bool"
  nics :: "nat \<Rightarrow> sipa_nic"
  sender :: sipa_skb_sender
  receiver :: sipa_skb_receiver
  dummy_dev :: "sipa_dummy option"
  events :: "(nat \<times> sipa_evt_type) list"
  kfreed :: "sk_buff list"

text \<open>\<open>sender->ep->send_fifo->fifo_id\<close> and \<open>receiver->ep->recv_fifo->fifo_id\<close>.\<close>

definition send_id :: "'h sipa_core \<Rightarrow> nat" where
  "send_id s = fifo_id (cmn_fifo_cfg s (send_fifo s))"

definition recv_id :: "'h sipa_core \<Rightarrow> nat" where
  "recv_id s = fifo_id (cmn_fifo_cfg s (recv_fifo s))"

definition upd_sender :: "(sipa_skb_sender \<Rightarrow> sipa_skb_sender) \<Rightarrow> 'h sipa_core \<Rightarrow> 'h sipa_core" where
  "upd_sender f s = s\<lparr>sender := f (sender s)\<rparr>"

definition upd_receiver :: "(sipa_skb_receiver \<Rightarrow> sipa_skb_receiver) \<Rightarrow> 'h sipa_core \<Rightarrow> 'h sipa_core" where
  "upd_receiver f s = s\<lparr>receiver := f (receiver s)\<rparr>"

definition upd_dummy :: "(sipa_dummy \<Rightarrow> sipa_dummy) \<Rightarrow> 'h sipa_core \<Rightarrow> 'h sipa_core" where
  "upd_dummy f s = s\<lparr>dummy_dev := map_option f (dummy_dev s)\<rparr>"

definition upd_nic :: "nat \<Rightarrow> (sipa_nic \<Rightarrow> sipa_nic) \<Rightarrow> 'h sipa_core \<Rightarrow> 'h sipa_core" where
  "upd_nic i f s = s\<lparr>nics := (nics s)(i := f (nics s i))\<rparr>"

lemma upd_sender_simps [simp]:
  "sender (upd_sender f s) = f (sender s)" "hw (upd_sender f s) = hw s"
  "cmn_fifo_cfg (upd_sender f s) = cmn_fifo_cfg s" "send_fifo (upd_sender f s) = send_fifo s"
  "recv_fifo (upd_sender f s) = recv_fifo s" "receiver (upd_sender f s) = receiver s"
  "nics (upd_sender f s) = nics s" "events (upd_sender f s) = events s"
  "kfreed (upd_sender f s) = kfreed s" "remote_ready (upd_sender f s) = remote_ready s"
  "dummy_dev (upd_sender f s) = dummy_dev s" "pcie_mem_offset (upd_sender f s) = pcie_mem_offset s" "nic_present (upd_sender f s) = nic_present s"
  by (simp_all add: upd_sender_def)

lemma upd_receiver_simps [simp]:
  "receiver (upd_receiver f s) = f (receiver s)" "hw (upd_receiver f s) = hw s"
  "cmn_fifo_cfg (upd_receiver f s) = cmn_fifo_cfg s" "send_fifo (upd_receiver f s) = send_fifo s"
  "recv_fifo (upd_receiver f s) = recv_fifo s" "sender (upd_receiver f s) = sender s"
  "nics (upd_receiver f s) = nics s" "events (upd_receiver f s) = events s"
  "kfreed (upd_receiver f s) = kfreed s" "remote_ready (upd_receiver f s) = remote_ready s"
  "dummy_dev (upd_receiver f s) = dummy_dev s" "pcie_mem_offset (upd_receiver f s) = pcie_mem_offset s" "nic_present (upd_receiver f s) = nic_present s"
  by (simp_all add: upd_receiver_def)

lemma upd_dummy_simps [simp]:
  "dummy_dev (upd_dummy f s) = map_option f (dummy_dev s)" "hw (upd_dummy f s) = hw s"
  "cmn_fifo_cfg (upd_dummy f s) = cmn_fifo_cfg s" "send_fifo (upd_dummy f s) = send_fifo s"
  "recv_fifo (upd_dummy f s) = recv_fifo s" "receiver (upd_dummy f s) = receiver s"
  "sender (upd_dummy f s) = sender s" "nics (upd_dummy f s) = nics s" "events (upd_dummy f s) = events s"
  "kfreed (upd_dummy f s) = kfreed s" "remote_ready (upd_dummy f s) = remote_ready s"
  "pcie_mem_offset (upd_dummy f s) = pcie_mem_offset s" "nic_present (upd_dummy f s) = nic_present s"
  by (simp_all add: upd_dummy_def)

lemma upd_nic_simps [simp]:
  "nics (upd_nic i f s) = (nics s)(i := f (nics s i))" "hw (upd_nic i f s) = hw s"
  "cmn_fifo_cfg (upd_nic i f s) = cmn_fifo_cfg s" "send_fifo (upd_nic i f s) = send_fifo s"
  "recv_fifo (upd_nic i f s) = recv_fifo s" "sender (upd_nic i f s) = sender s"
  "receiver (upd_nic i f s) = receiver s" "events (upd_nic i f s) = events s"
  "kfreed (upd_nic i f s) = kfreed s" "remote_ready (upd_nic i f s) = remote_ready s"
  "dummy_dev (upd_nic i f s) = dummy_dev s" "pcie_mem_offset (upd_nic i f s) = pcie_mem_offset s" "nic_present (upd_nic i f s) = nic_present s"
  by (simp_all add: upd_nic_def)

end
