(* ===== verification/SipaSender.thy ===== *)
theory SipaSender
  imports SipaState
begin

text \<open>
  The transmit side: \<^verbatim>\<open>quectel_SRPD_PCIE/src/sipa/sipa_skb_send.c\<close> and the notification part of
  \<^verbatim>\<open>sipa_nic.c\<close>. The little-endian build is modelled. Operations run one at a time (each takes the
  sender's \<open>send_lock\<close> for its whole critical section); \<open>nic_lock\<close> is part of the state because one
  path returns with it held. The wake-ups of the free thread and the log output are left out.
\<close>

section \<open>Notifying the interfaces\<close>

definition sipa_nic_notify_evt :: "nat \<Rightarrow> sipa_evt_type \<Rightarrow> 'h sipa_core \<Rightarrow> 'h sipa_core" where
  "sipa_nic_notify_evt nic evt s =
     (if \<not> remote_ready s then s
      else if nic_cb (nics s nic) then s\<lparr>events := events s @ [(nic, evt)]\<rparr> else s)"

definition spin_lock_nic :: "'h sipa_core \<Rightarrow> 'h sipa_core option" where
  "spin_lock_nic s = (if nic_lock (sender s) then None else Some (upd_sender (\<lambda>d. d\<lparr>nic_lock := True\<rparr>) s))"

definition spin_unlock_nic :: "'h sipa_core \<Rightarrow> 'h sipa_core" where
  "spin_unlock_nic s = upd_sender (\<lambda>d. d\<lparr>nic_lock := False\<rparr>) s"

text \<open>One pass over \<open>nic_list\<close>: every interface whose flow-control state is not yet \<open>flag\<close> is told.\<close>

fun inform_nics :: "bool \<Rightarrow> sipa_evt_type \<Rightarrow> nat list \<Rightarrow> 'h sipa_core \<Rightarrow> 'h sipa_core" where
  "inform_nics flag evt [] s = s"
| "inform_nics flag evt (nic # rest) s =
     inform_nics flag evt rest
       (if nic_flow_ctrl_status (nics s nic) = (\<not> flag)
        then sipa_nic_notify_evt nic evt (upd_nic nic (\<lambda>c. c\<lparr>nic_flow_ctrl_status := flag\<rparr>) s)
        else s)"

definition sipa_inform_evt_to_nics :: "sipa_evt_type \<Rightarrow> 'h sipa_core \<Rightarrow> 'h sipa_core option" where
  "sipa_inform_evt_to_nics evt s =
     (case spin_lock_nic s of
        None \<Rightarrow> None
      | Some s \<Rightarrow>
          if evt = SIPA_LEAVE_FLOWCTRL then
            if free_notify_net (sender s) then Some s
            else if ep_cover_net (sender s) then Some s
            else Some (spin_unlock_nic (inform_nics False evt (nic_list (sender s)) s))
          else Some (spin_unlock_nic (inform_nics True evt (nic_list (sender s)) s)))"

section \<open>The sender's interrupt callback\<close>

definition sipa_sender_notify_cb :: "u32 \<Rightarrow> 'h sipa_core \<Rightarrow> 'h sipa_core option" where
  "sipa_sender_notify_cb evt s =
     (let s = (if evt AND SIPA_RECV_WARN_EVT \<noteq> 0
               then upd_sender (\<lambda>d. d\<lparr>no_free_cnt := no_free_cnt d + 1\<rparr>) s else s) in
      case (if evt AND SIPA_IRQ_ENTER_FLOW_CTRL \<noteq> 0
            then sipa_inform_evt_to_nics SIPA_ENTER_FLOWCTRL
                   (upd_sender (\<lambda>d. d\<lparr>snd_enter_flow_ctrl_cnt := snd_enter_flow_ctrl_cnt d + 1,
                                      ep_cover_net := True\<rparr>) s)
            else Some s) of
        None \<Rightarrow> None
      | Some s \<Rightarrow>
          if evt AND SIPA_IRQ_EXIT_FLOW_CTRL \<noteq> 0
          then sipa_inform_evt_to_nics SIPA_LEAVE_FLOWCTRL
                 (upd_sender (\<lambda>d. d\<lparr>snd_exit_flow_ctrl_cnt := snd_exit_flow_ctrl_cnt d + 1,
                                    ep_cover_net := False\<rparr>) s)
          else Some s)"

section \<open>Freeing sent buffers\<close>

text \<open>
  The search of the sending list for the descriptor's address, repeated while \<open>retry_cnt\<close> lasts.
  \<open>poll\<close> is what the device does to the descriptor ring between two looks at it.
\<close>

fun match_sent :: "(sipa_node_description_tag list \<Rightarrow> sipa_node_description_tag list) \<Rightarrow> nat \<Rightarrow> nat \<Rightarrow>
    nat list \<Rightarrow> (nat \<Rightarrow> sipa_skb_dma_addr_node) \<Rightarrow> sipa_node_description_tag list \<Rightarrow>
    nat option \<times> sipa_node_description_tag list" where
  "match_sent poll pos retry_cnt sending cache ring =
     (case find (\<lambda>k. pair_dma_addr (cache k) = ucast (nd_address (ring ! pos))) sending of
        Some k \<Rightarrow> (Some k, ring)
      | None \<Rightarrow> (case retry_cnt of
                   0 \<Rightarrow> (None, ring)
                 | Suc n \<Rightarrow> match_sent poll pos n sending cache (poll ring)))"

declare match_sent.simps [simp del]

text \<open>
  The loop over the \<open>num\<close> returned descriptors. The result says whether it ran to its end (\<open>False\<close>:
  it left through \<open>goto sipa_free_end\<close> because the sending list was empty) and how many entries it
  freed (the two pointer reads on that path are for a log line); \<open>None\<close> is an access through a null ring or outside it.
\<close>

fun free_sent_loop :: "'h mmio \<Rightarrow> (sipa_node_description_tag list \<Rightarrow> sipa_node_description_tag list) \<Rightarrow> nat \<Rightarrow> nat \<Rightarrow> nat \<Rightarrow>
    'h sipa_core \<Rightarrow> ((bool \<times> nat) \<times> 'h sipa_core) option" where
  "free_sent_loop m poll i 0 success_cnt s = Some ((True, success_cnt), s)"
| "free_sent_loop m poll i (Suc n) success_cnt s =
     (let fid = send_id s;
          (node, s) = run_state (ipa_common_fifo_hal_get_tx_fifo_rp fid (of_nat i)) s in
      case (node, ff_virtual_addr (tx_fifo (cmn_fifo_cfg s fid))) of
        (Some pos, Some ring) \<Rightarrow>
          if \<not> unat pos < length ring then None
          else if sending_list (sender s) = [] then
            Some ((False, success_cnt), snd (run_state (do {
              ipa_common_fifo_hal_get_rx_ptr m SIPA_FIFO_PCIE_UL True True;
              ipa_common_fifo_hal_get_tx_ptr m SIPA_FIFO_PCIE_UL True True }) s))
          else let (hit, ring') = match_sent poll (unat pos) 10 (sending_list (sender s)) (pair_cache (sender s)) ring;
                   s = s\<lparr>cmn_fifo_cfg := (cmn_fifo_cfg s)(fid := (cmn_fifo_cfg s fid)
                          \<lparr>tx_fifo := (tx_fifo (cmn_fifo_cfg s fid))\<lparr>ff_virtual_addr := Some ring'\<rparr>\<rparr>)\<rparr> in
               (case hit of
                  Some k \<Rightarrow>
                    free_sent_loop m poll (Suc i) n (Suc success_cnt)
                      (upd_sender (\<lambda>d. d\<lparr>sending_list := remove1 k (sending_list d),
                                         pair_free_list := pair_free_list d @ [k]\<rparr>)
                        (s\<lparr>kfreed := kfreed s @ [pair_skb (pair_cache (sender s) k)]\<rparr>))
                | None \<Rightarrow> free_sent_loop m poll (Suc i) n success_cnt s)
      | _ \<Rightarrow> None)"

definition sipa_free_end :: "'h mmio \<Rightarrow> 'h sipa_core \<Rightarrow> 'h sipa_core option" where
  "sipa_free_end m s =
     (let exit_flow = (free_notify_net (sender s) \<and>
            (word_of_int (left_cnt (sender s)) :: u32) > ff_depth (rx_fifo (cmn_fifo_cfg s (send_fifo s))) div 4);
          s = (if exit_flow then upd_sender (\<lambda>d. d\<lparr>free_notify_net := False\<rparr>) s else s);
          (exit_flow, s) =
            (if ep_cover_net (sender s) then
               let fifo_base = fifo_reg_base (cmn_fifo_cfg s (send_id s));
                   (int_status, s) = run_state (phy (ipa_phy_get_fifo_all_int_sts m fifo_base)) s in
               if int_status AND IPA_INT_EXIT_FLOW_CTRL_STS \<noteq> 0
               then (True, snd (run_state (phy (ipa_phy_clear_int m fifo_base IPA_EXIT_FLOW_CONTROL_CLR_BIT))
                             (upd_sender (\<lambda>d. d\<lparr>ep_cover_net := False\<rparr>) s)))
               else (exit_flow, s)
             else (exit_flow, s)) in
      if exit_flow then sipa_inform_evt_to_nics SIPA_LEAVE_FLOWCTRL s else Some s)"

definition sipa_free_sent_items ::
    "'h mmio \<Rightarrow> (sipa_node_description_tag list \<Rightarrow> sipa_node_description_tag list) \<Rightarrow> 'h sipa_core \<Rightarrow> 'h sipa_core option" where
  "sipa_free_sent_items m poll s =
     (let (num, s) = run_state (ipa_common_fifo_hal_recv_node_from_tx_fifo m (send_id s)) s in
      case free_sent_loop m poll 0 (unat num) 0 s of
        None \<Rightarrow> None
      | Some ((True, success_cnt), s) \<Rightarrow>
          sipa_free_end m
            (upd_sender (\<lambda>d. d\<lparr>left_cnt := left_cnt d + int success_cnt\<rparr>)
              (snd (run_state (ipa_common_fifo_hal_set_tx_fifo_rp m (send_id s) num) s)))
      | Some ((False, success_cnt), s) \<Rightarrow> sipa_free_end m s)"

definition sipa_sender_ck_unfree :: "'h mmio \<Rightarrow> 'h sipa_core \<Rightarrow> bool \<times> 'h sipa_core" where
  "sipa_sender_ck_unfree m s =
     (if \<not> remote_ready s then (False, s) else
        let fid = send_id s; (empty, s) = run_state (ipa_common_fifo_hal_get_tx_empty_status m fid) s in
        if empty \<noteq> 0 then
          (False, snd (run_state (do {
             ipa_common_fifo_clr_tout_th_intr m fid;
             ipa_common_fifo_set_intr_eb m fid True
               (SIPA_FIFO_THRESHOLD_IRQ_EN OR SIPA_FIFO_DELAY_TIMER_IRQ_EN) }) s))
        else (True, s))"

definition sipa_free_send_skb :: "'h sipa_core \<Rightarrow> 'h sipa_core" where
  "sipa_free_send_skb s =
     (if sending_list (sender s) = [] then s
      else upd_sender (\<lambda>d. d\<lparr>pair_free_list := pair_free_list d @ sending_list d, sending_list := []\<rparr>)
             (s\<lparr>kfreed := kfreed s @ map (\<lambda>k. pair_skb (pair_cache (sender s) k)) (sending_list (sender s))\<rparr>))"

section \<open>Set-up\<close>

definition sipa_sender_open_cmn_fifo :: "'h mmio \<Rightarrow> 'h sipa_core \<Rightarrow> 'h sipa_core" where
  "sipa_sender_open_cmn_fifo m s =
     (let fid = send_id s in
      snd (run_state (do {
        mod_cfg (send_fifo s) (\<lambda>c. c\<lparr>irq_cb := Sender_notify_cb\<rparr>);
        ipa_common_fifo_hal_open m fid 0;
        ipa_common_fifo_hal_set_hw_intr_thres m fid 1 128;
        ipa_common_fifo_hal_set_hw_intr_timeout m fid 1 0x64;
        ipa_common_fifo_hal_set_intr_txfifo_full m fid 1 }) s))"

text \<open>
  \<open>alloc_ok\<close>, \<open>cache_ok\<close> and \<open>thread_ok\<close> are the outcomes of the kernel's two allocations and of
  \<open>kthread_create\<close> (which hands back \<open>err\<close> when it fails).
\<close>

definition create_sipa_skb_sender :: "bool \<Rightarrow> bool \<Rightarrow> bool \<Rightarrow> int \<Rightarrow> sk_buff \<Rightarrow> 'h sipa_core \<Rightarrow> int \<times> 'h sipa_core" where
  "create_sipa_skb_sender alloc_ok cache_ok thread_ok err null_skb s =
     (if \<not> alloc_ok then (- ENOMEM, s)
      else if \<not> cache_ok then (- ENOMEM, s)
      else let depth = ff_depth (rx_fifo (cmn_fifo_cfg s (send_fifo s))) in
        if \<not> thread_ok then (err, s)
        else (0, s\<lparr>sender := \<lparr>left_cnt = uint (depth div 4 * 3), nic_list = [], nic_lock = False,
                     sending_list = [], pair_free_list = [0..<unat depth],
                     pair_cache = (\<lambda>_. \<lparr>pair_skb = null_skb, pair_dma_addr = 0\<rparr>),
                     free_notify_net = False, ep_cover_net = False, no_free_cnt = 0,
                     snd_enter_flow_ctrl_cnt = 0, snd_exit_flow_ctrl_cnt = 0, snd_run = True\<rparr>\<rparr>))"

definition destroy_sipa_skb_sender :: "'h sipa_core \<Rightarrow> 'h sipa_core" where
  "destroy_sipa_skb_sender s = upd_sender (\<lambda>d. d\<lparr>snd_run := False\<rparr>) s"

definition sipa_skb_sender_add_nic :: "nat \<Rightarrow> 'h sipa_core \<Rightarrow> 'h sipa_core option" where
  "sipa_skb_sender_add_nic nic s =
     map_option (\<lambda>s. spin_unlock_nic (upd_sender (\<lambda>d. d\<lparr>nic_list := nic_list d @ [nic]\<rparr>) s)) (spin_lock_nic s)"

definition sipa_skb_sender_remove_nic :: "nat \<Rightarrow> 'h sipa_core \<Rightarrow> 'h sipa_core option" where
  "sipa_skb_sender_remove_nic nic s =
     map_option (\<lambda>s. spin_unlock_nic (upd_sender (\<lambda>d. d\<lparr>nic_list := remove1 nic (nic_list d)\<rparr>) s)) (spin_lock_nic s)"

section \<open>Sending\<close>

text \<open>\<open>dma\<close> is the kernel's \<open>dma_map_single\<close>: \<open>None\<close> is a mapping error.\<close>

definition fill_send_desc :: "u64 \<Rightarrow> sk_buff \<Rightarrow> u32 \<Rightarrow> u8 \<Rightarrow> u32 \<Rightarrow> sipa_node_description_tag \<Rightarrow> sipa_node_description_tag" where
  "fill_send_desc dma_addr skb dst netid cur des =
     des\<lparr>nd_address := ucast dma_addr, nd_length := ucast (skb_len skb), nd_offset := ucast (skb_headroom skb),
         nd_net_id := netid, nd_dst := ucast dst, nd_src := ucast cur, nd_err_code := 0, nd_intr := 0\<rparr>"

text \<open>The part of \<open>sipa_skb_sender_send_data\<close> after the mapping succeeded.\<close>

definition send_mapped :: "'h mmio \<Rightarrow> u64 \<Rightarrow> sk_buff \<Rightarrow> u32 \<Rightarrow> u8 \<Rightarrow> 'h sipa_core \<Rightarrow> (int \<times> 'h sipa_core) option" where
  "send_mapped m dma_addr skb dst netid s =
     (let fid = send_id s;
          (des, s) = run_state (ipa_common_fifo_hal_get_rx_fifo_wr fid 0) s in
      case (des, ff_virtual_addr (rx_fifo (cmn_fifo_cfg s fid)), pair_free_list (sender s)) of
        (Some pos, Some ring, node # rest) \<Rightarrow>
          if \<not> unat pos < length ring then None
          else let cur = fifo_cur (cmn_fifo_cfg s (send_fifo s));
                   s = snd (run_state (mod_rx fid (\<lambda>f. f\<lparr>ff_virtual_addr :=
                          Some (ring[unat pos := fill_send_desc dma_addr skb dst netid cur (ring ! unat pos)])\<rparr>)) s);
                   s = upd_sender (\<lambda>d. d\<lparr>pair_cache := (pair_cache d)(node := \<lparr>pair_skb = skb, pair_dma_addr = dma_addr\<rparr>),
                          pair_free_list := rest, sending_list := sending_list d @ [node]\<rparr>) s;
                   s = snd (run_state (ipa_common_fifo_hal_set_rx_fifo_wr m fid 1) s) in
               Some (0, upd_sender (\<lambda>d. d\<lparr>left_cnt := left_cnt d - 1\<rparr>) s)
      | _ \<Rightarrow> None)"

definition sipa_skb_sender_send_data ::
    "'h mmio \<Rightarrow> (sk_buff \<Rightarrow> u64 option) \<Rightarrow> sk_buff \<Rightarrow> u32 \<Rightarrow> u8 \<Rightarrow> 'h sipa_core \<Rightarrow> (int \<times> 'h sipa_core) option" where
  "sipa_skb_sender_send_data m dma skb dst netid s =
     (if ep_cover_net (sender s) then Some (- EAGAIN, s) else
      let fifo_base = fifo_reg_base (cmn_fifo_cfg s (send_id s));
          (int_status, s) = run_state (phy (ipa_phy_get_fifo_all_int_sts m fifo_base)) s in
      if int_status = 0x5FF000 then Some (- EINPROGRESS, s)
      else if int_status AND IPA_INT_ENTER_FLOW_CTRL_STS \<noteq> 0 then
        map_option (Pair (- EAGAIN))
          (sipa_inform_evt_to_nics SIPA_ENTER_FLOWCTRL
            (snd (run_state (phy (ipa_phy_clear_int m fifo_base IPA_ENTRY_FLOW_CONTROL_CLR_BIT))
              (upd_sender (\<lambda>d. d\<lparr>ep_cover_net := True,
                  snd_enter_flow_ctrl_cnt := snd_enter_flow_ctrl_cnt d + 1\<rparr>) s))))
      else if free_notify_net (sender s) then Some (- EAGAIN, s)
      else if left_cnt (sender s) = 0 then
        map_option (Pair (- EAGAIN))
          (sipa_inform_evt_to_nics SIPA_ENTER_FLOWCTRL
            (upd_sender (\<lambda>d. d\<lparr>no_free_cnt := no_free_cnt d + 1, free_notify_net := True\<rparr>) s))
      else case dma skb of
        None \<Rightarrow> map_option (Pair (- EAGAIN))
          (sipa_inform_evt_to_nics SIPA_ENTER_FLOWCTRL (upd_sender (\<lambda>d. d\<lparr>free_notify_net := True\<rparr>) s))
      | Some dma_addr \<Rightarrow> send_mapped m (dma_addr + pcie_mem_offset s) skb dst netid s)"

end
