(* ===== verification/Ring.thy ===== *)
theory Ring
  imports Prelude
begin

text \<open>
  Ring buffers: the list that a ring of cells holds between a start position and a count, what writing
  and consuming cells does to it, and the masks that turn free-running 32-bit counters into positions.
  The interface \<open>bounded_queue\<close> is the contract of a first-in first-out queue of bounded size.
\<close>

section \<open>Positions\<close>

text \<open>The list of \<open>n\<close> cells of the ring \<open>r\<close> from position \<open>s\<close> on, around the end.\<close>

definition ring_view :: "'a list \<Rightarrow> nat \<Rightarrow> nat \<Rightarrow> 'a list" where
  "ring_view r s n = map (\<lambda>i. r ! ((s + i) mod length r)) [0..<n]"

lemma ring_view_0 [simp]: "ring_view r s 0 = []"
  by (simp add: ring_view_def)

lemma length_ring_view [simp]: "length (ring_view r s n) = n"
  by (simp add: ring_view_def)

lemma ring_view_Suc: "ring_view r s (Suc n) = r ! (s mod length r) # ring_view r (Suc s) n"
  by (simp add: ring_view_def upt_conv_Cons map_Suc_upt [symmetric] del: upt_Suc)

lemma ring_view_cong: "s mod length r = t mod length r \<Longrightarrow> ring_view r s n = ring_view r t n"
  unfolding ring_view_def by (intro map_cong refl arg_cong [where f = "nth r"]) (metis mod_add_left_eq)

lemma ring_view_split: "ring_view r s (m + n) = ring_view r s m @ ring_view r (s + m) n"
  by (rule nth_equalityI) (auto simp: ring_view_def nth_append add.assoc)

lemma ring_pos_inj:
  fixes i j :: nat
  assumes "(s + i) mod D = (s + j) mod D" "i < D" "j < D"
  shows "i = j"
proof -
  have "\<not> a < b" if "(s + a) mod D = (s + b) mod D" "b < D" for a b
  proof
    assume "a < b"
    with that(1) have "D dvd (s + b) - (s + a)" by (metis add_le_cancel_left less_imp_le mod_eq_dvd_iff_nat)
    then have "D dvd b - a" by simp
    with \<open>a < b\<close> that(2) show False by (auto dest: dvd_imp_le)
  qed
  with assms show ?thesis by (metis linorder_neqE_nat)
qed

lemma ring_view_append:
  assumes "length r' = length r" "n + k \<le> length r" "k \<le> length d"
    and "\<And>i. i < n \<Longrightarrow> r' ! ((s + i) mod length r) = r ! ((s + i) mod length r)"
    and "\<And>j. j < k \<Longrightarrow> r' ! ((s + n + j) mod length r) = d ! j"
  shows "ring_view r' s (n + k) = ring_view r s n @ take k d"
proof (rule nth_equalityI)
  fix i
  assume "i < length (ring_view r' s (n + k))"
  then have i: "i < n + k" by simp
  show "ring_view r' s (n + k) ! i = (ring_view r s n @ take k d) ! i"
  proof (cases "i < n")
    case True
    with i assms(1,4) show ?thesis by (simp add: ring_view_def nth_append)
  next
    case False
    then have "i - n < k" "s + n + (i - n) = s + i" using i by simp_all
    then have "r' ! ((s + i) mod length r) = d ! (i - n)" using assms(5)[of "i - n"] by simp
    with i False assms(1,3) show ?thesis by (simp add: ring_view_def nth_append)
  qed
qed (use assms(3) in simp)

lemma ring_view_update:
  assumes "n < length r" "p = (s + n) mod length r"
  shows "ring_view (r[p := x]) s (Suc n) = ring_view r s n @ [x]"
proof -
  have "ring_view (r[p := x]) s (n + 1) = ring_view r s n @ take 1 [x]"
  proof (rule ring_view_append)
    fix i assume "i < n"
    then have "p \<noteq> (s + i) mod length r"
      using ring_pos_inj[of s n "length r" i] assms by auto
    then show "r[p := x] ! ((s + i) mod length r) = r ! ((s + i) mod length r)" by simp
  next
    fix j :: nat assume "j < 1"
    moreover have "p < length r" using assms by (cases r) simp_all
    ultimately show "r[p := x] ! ((s + n + j) mod length r) = [x] ! j" using assms by simp
  qed (use assms in auto)
  then show ?thesis by simp
qed

section \<open>Masked counters\<close>

lemma unat_and_pow2: "k < 32 \<Longrightarrow> unat ((x::u32) AND (2 ^ k - 1)) = unat x mod 2 ^ k"
  by (metis mask_eq_exp_minus_1 take_bit_eq_mask take_bit_eq_mod unsigned_take_bit_eq)

lemma unat_pow2: "k < 32 \<Longrightarrow> unat ((2::u32) ^ k) = 2 ^ k"
proof -
  assume "k < 32"
  then have "(2::nat) ^ k < 2 ^ 32" by (intro power_strict_increasing) simp_all
  then have "(2::nat) ^ k mod 2 ^ 32 = 2 ^ k" by (rule mod_less)
  then show ?thesis using unat_of_nat[where 'a = 32, of "2 ^ k"] by (simp add: take_bit_eq_mod)
qed

lemma unat_add_mod: "k \<le> 32 \<Longrightarrow> unat ((x::u32) + y) mod 2 ^ k = (unat x + unat y) mod 2 ^ k"
proof -
  assume "k \<le> 32"
  then have "(2::nat) ^ k dvd 2 ^ 32" by (rule le_imp_power_dvd)
  then show ?thesis unfolding unat_word_ariths by (simp add: mod_mod_cancel)
qed

lemma unat_counter: "k \<le> 32 \<Longrightarrow> (unat (r::u32) + unat (w - r)) mod 2 ^ k = unat w mod 2 ^ k"
  using unat_add_mod[of k r "w - r"] by simp

lemma unat_inc: "(x::u32) < y \<Longrightarrow> unat (x + 1) = Suc (unat x)"
proof -
  assume "x < y"
  then have "unat x + 1 < 2 ^ 32" using unsigned_less[of y, where 'a = nat] by (simp add: word_less_nat_alt)
  then show ?thesis by (simp add: unat_word_ariths)
qed

lemma unat_dec: "unat ((x::u32) + 1) = Suc n \<Longrightarrow> unat x = n"
proof -
  assume a: "unat (x + 1) = Suc n"
  have "unat x + 1 < 2 ^ 32"
  proof (rule ccontr)
    assume "\<not> unat x + 1 < 2 ^ 32"
    then have "unat x + 1 = 2 ^ 32" using unsigned_less[of x, where 'a = nat] by simp
    then have "unat (x + 1) = 0" by (simp add: unat_word_ariths)
    with a show False by simp
  qed
  with a show ?thesis by (simp add: unat_word_ariths)
qed

lemma unat_sub_0: "unat ((x::u32) - y) = 0 \<longleftrightarrow> x = y"
  by (simp add: unsigned_eq_0_iff)

text \<open>
  The ring of \<open>2 ^ k\<close> cells behind two free-running counters, \<open>r\<close> for reading and \<open>w\<close> for writing: what is
  written at the masked write counter comes last, what is read at the masked read counter was first.
\<close>

lemma counter_put:
  fixes r w :: u32
  assumes "k < 32" "length a = 2 ^ k" "unat (w - r) < 2 ^ k"
  shows "ring_view (a[unat (w AND (2 ^ k - 1)) := x]) (unat r) (unat (w + 1 - r)) = ring_view a (unat r) (unat (w - r)) @ [x]"
    and "unat (w + 1 - r) = Suc (unat (w - r))"
    and "unat (w AND (2 ^ k - 1)) < length a"
proof -
  have lt: "w - r < 2 ^ k" using assms(1,3) by (simp add: word_less_nat_alt unat_pow2)
  have step: "w + 1 - r = (w - r) + 1" by simp
  show inc: "unat (w + 1 - r) = Suc (unat (w - r))" unfolding step by (rule unat_inc [OF lt])
  have q: "unat (w AND (2 ^ k - 1)) = (unat r + unat (w - r)) mod length a"
    using assms(1,2) by (simp add: unat_and_pow2 unat_counter)
  show "unat (w AND (2 ^ k - 1)) < length a" unfolding q using assms(2) by simp
  show "ring_view (a[unat (w AND (2 ^ k - 1)) := x]) (unat r) (unat (w + 1 - r)) = ring_view a (unat r) (unat (w - r)) @ [x]"
    unfolding inc by (rule ring_view_update) (use assms(2,3) q in simp_all)
qed

lemma counter_get:
  fixes r w :: u32
  assumes "k < 32" "length a = 2 ^ k" "w \<noteq> r"
  shows "ring_view a (unat r) (unat (w - r)) = a ! unat (r AND (2 ^ k - 1)) # ring_view a (unat (r + 1)) (unat (w - (r + 1)))"
    and "unat (w - r) = Suc (unat (w - (r + 1)))"
    and "unat (r AND (2 ^ k - 1)) < length a"
proof -
  obtain n where n: "unat (w - r) = Suc n"
    using assms(3) unat_sub_0[of w r] by (cases "unat (w - r)") auto
  have "(w - (r + 1)) + 1 = w - r" by simp
  then have dec: "unat (w - (r + 1)) = n" using n unat_dec by metis
  then show "unat (w - r) = Suc (unat (w - (r + 1)))" using n by simp
  have q: "unat (r AND (2 ^ k - 1)) = unat r mod length a" using assms(1,2) by (simp add: unat_and_pow2)
  then show "unat (r AND (2 ^ k - 1)) < length a" using assms(2) by simp
  have "unat (r + 1) mod length a = Suc (unat r) mod length a" using unat_add_mod[of k r 1] assms(1,2) by simp
  then have "ring_view a (unat (r + 1)) n = ring_view a (Suc (unat r)) n" by (rule ring_view_cong)
  then show "ring_view a (unat r) (unat (w - r)) = a ! unat (r AND (2 ^ k - 1)) # ring_view a (unat (r + 1)) (unat (w - (r + 1)))"
    by (simp add: n dec q ring_view_Suc)
qed

section \<open>The queue contract\<close>

text \<open>
  \<open>put\<close> returns \<open>None\<close> when the queue refuses the element, \<open>get\<close> returns \<open>None\<close> when there is nothing
  to take. \<open>invar\<close> is the representation invariant, \<open>abs\<close> the list of the elements, oldest first, and
  \<open>cap\<close> how many fit.
\<close>

locale bounded_queue =
  fixes put :: "'q \<Rightarrow> 'a \<Rightarrow> 'q option"
    and get :: "'q \<Rightarrow> ('a \<times> 'q) option"
    and invar :: "'q \<Rightarrow> bool"
    and abs :: "'q \<Rightarrow> 'a list"
    and cap :: "'q \<Rightarrow> nat"
  assumes put_room: "invar q \<Longrightarrow> length (abs q) < cap q \<Longrightarrow>
      \<exists>q'. put q x = Some q' \<and> invar q' \<and> abs q' = abs q @ [x] \<and> cap q' = cap q"
    and put_full: "invar q \<Longrightarrow> length (abs q) = cap q \<Longrightarrow> put q x = None"
    and len_cap: "invar q \<Longrightarrow> length (abs q) \<le> cap q"
    and get_head: "invar q \<Longrightarrow> abs q = x # xs \<Longrightarrow>
      \<exists>q'. get q = Some (x, q') \<and> invar q' \<and> abs q' = xs \<and> cap q' = cap q"
    and get_none: "invar q \<Longrightarrow> abs q = [] \<Longrightarrow> get q = None"
begin

text \<open>Putting a list of elements, and taking as many as there are.\<close>

primrec put_all :: "'q \<Rightarrow> 'a list \<Rightarrow> 'q option" where
  "put_all q [] = Some q"
| "put_all q (x # xs) = Option.bind (put q x) (\<lambda>q'. put_all q' xs)"

primrec take_n :: "nat \<Rightarrow> 'q \<Rightarrow> ('a list \<times> 'q) option" where
  "take_n 0 q = Some ([], q)"
| "take_n (Suc n) q = Option.bind (get q) (\<lambda>(x, q'). map_option (\<lambda>(xs, q''). (x # xs, q'')) (take_n n q'))"

lemma put_all_room:
  "invar q \<Longrightarrow> length (abs q) + length xs \<le> cap q \<Longrightarrow>
   \<exists>q'. put_all q xs = Some q' \<and> invar q' \<and> abs q' = abs q @ xs \<and> cap q' = cap q"
proof (induction xs arbitrary: q)
  case (Cons x xs)
  then obtain q1 where q1: "put q x = Some q1" "invar q1" "abs q1 = abs q @ [x]" "cap q1 = cap q"
    using put_room[of q x] by auto
  with Cons.prems obtain q2 where "put_all q1 xs = Some q2" "invar q2" "abs q2 = abs q1 @ xs" "cap q2 = cap q1"
    using Cons.IH[of q1] by auto
  with q1 show ?case by simp
qed simp

lemma take_n_fifo:
  "invar q \<Longrightarrow> n \<le> length (abs q) \<Longrightarrow>
   \<exists>q'. take_n n q = Some (take n (abs q), q') \<and> invar q' \<and> abs q' = drop n (abs q) \<and> cap q' = cap q"
proof (induction n arbitrary: q)
  case (Suc n)
  then obtain x xs where x: "abs q = x # xs" by (cases "abs q") auto
  with Suc.prems obtain q1 where q1: "get q = Some (x, q1)" "invar q1" "abs q1 = xs" "cap q1 = cap q"
    using get_head by blast
  with Suc.prems x obtain q2 where "take_n n q1 = Some (take n (abs q1), q2)" "invar q2"
      "abs q2 = drop n (abs q1)" "cap q2 = cap q1"
    using Suc.IH[of q1] by auto
  with q1 x show ?case by simp
qed simp

text \<open>First in, first out: what is put into an empty queue comes out in the same order.\<close>

lemma put_all_take_n:
  assumes "invar q" "abs q = []" "length xs \<le> cap q"
  shows "\<exists>q1 q2. put_all q xs = Some q1 \<and> take_n (length xs) q1 = Some (xs, q2) \<and> invar q2 \<and> abs q2 = []"
proof -
  obtain q1 where q1: "put_all q xs = Some q1" "invar q1" "abs q1 = xs"
    using put_all_room[of q xs] assms by auto
  then obtain q2 where "take_n (length xs) q1 = Some (xs, q2)" "invar q2" "abs q2 = []"
    using take_n_fifo[of q1 "length xs"] by auto
  with q1 show ?thesis by blast
qed

end

end
