(* ===== verification/SipaFrames.thy ===== *)
theory SipaFrames
  imports SipaState Ring
begin

text \<open>
  The FIFO operations change the device and the FIFO table and nothing above them: \<open>hal_only\<close>, closed
  under the monad, with one fact per operation that the upper layers call.
\<close>

definition hal_only :: "('h sipa_core, 'a) state \<Rightarrow> bool" where
  "hal_only f \<longleftrightarrow> (\<forall>s. snd (run_state f s) =
     s\<lparr>hw := hw (snd (run_state f s)), cmn_fifo_cfg := cmn_fifo_cfg (snd (run_state f s))\<rparr>)"

lemma hal_onlyD:
  assumes "hal_only f"
  shows "sender (snd (run_state f s)) = sender s" "receiver (snd (run_state f s)) = receiver s"
    "nics (snd (run_state f s)) = nics s" "nic_present (snd (run_state f s)) = nic_present s"
    "events (snd (run_state f s)) = events s" "kfreed (snd (run_state f s)) = kfreed s"
    "remote_ready (snd (run_state f s)) = remote_ready s" "pcie_mem_offset (snd (run_state f s)) = pcie_mem_offset s"
    "send_fifo (snd (run_state f s)) = send_fifo s" "recv_fifo (snd (run_state f s)) = recv_fifo s"
    "dummy_dev (snd (run_state f s)) = dummy_dev s"
proof -
  have e: "snd (run_state f s) = s\<lparr>hw := hw (snd (run_state f s)), cmn_fifo_cfg := cmn_fifo_cfg (snd (run_state f s))\<rparr>"
    using assms by (simp add: hal_only_def)
  show "sender (snd (run_state f s)) = sender s" "receiver (snd (run_state f s)) = receiver s"
    "nics (snd (run_state f s)) = nics s" "nic_present (snd (run_state f s)) = nic_present s"
    "events (snd (run_state f s)) = events s" "kfreed (snd (run_state f s)) = kfreed s"
    "remote_ready (snd (run_state f s)) = remote_ready s" "pcie_mem_offset (snd (run_state f s)) = pcie_mem_offset s"
    "send_fifo (snd (run_state f s)) = send_fifo s" "recv_fifo (snd (run_state f s)) = recv_fifo s"
    "dummy_dev (snd (run_state f s)) = dummy_dev s"
    by (subst e, simp)+
qed

lemma hal_only_return [hal_ops]: "hal_only (State_Monad.return x)"
  by (simp add: hal_only_def)

lemma hal_only_bind [hal_ops]:
  assumes f: "hal_only f" and g: "\<And>x. hal_only (g x)"
  shows "hal_only (State_Monad.bind f g)"
  unfolding hal_only_def
proof
  fix s
  let ?r = "fst (run_state f s)" and ?t = "snd (run_state f s)"
  have 1: "?t = s\<lparr>hw := hw ?t, cmn_fifo_cfg := cmn_fifo_cfg ?t\<rparr>" using f by (simp add: hal_only_def)
  let ?u = "snd (run_state (g ?r) ?t)"
  have "?u = ?t\<lparr>hw := hw ?u, cmn_fifo_cfg := cmn_fifo_cfg ?u\<rparr>" using g by (simp add: hal_only_def)
  also have "\<dots> = s\<lparr>hw := hw ?u, cmn_fifo_cfg := cmn_fifo_cfg ?u\<rparr>" by (subst 1) simp
  finally show "snd (run_state (State_Monad.bind f g) s) =
      s\<lparr>hw := hw (snd (run_state (State_Monad.bind f g) s)), cmn_fifo_cfg := cmn_fifo_cfg (snd (run_state (State_Monad.bind f g) s))\<rparr>"
    by (simp add: split_beta)
qed

lemma hal_only_phy [hal_ops]: "hal_only (phy f)"
  by (simp add: hal_only_def)

lemma hal_only_get_cfg [hal_ops]: "hal_only (get_cfg fid)"
  by (simp add: hal_only_def)

lemma hal_only_mod_cfg [hal_ops]: "hal_only (mod_cfg fid f)"
  by (simp add: hal_only_def)

lemma hal_only_if [hal_ops]: "hal_only f \<Longrightarrow> hal_only g \<Longrightarrow> hal_only (if p then f else g)"
  by simp

lemma hal_only_let [hal_ops]: "(\<And>x. hal_only (f x)) \<Longrightarrow> hal_only (let x = a in f x)"
  by simp

lemma hal_only_ops [hal_ops]:
  "hal_only (ipa_common_fifo_hal_set_rx_fifo_wr m fid n)" "hal_only (ipa_common_fifo_hal_set_tx_fifo_rp m fid n)"
  "hal_only (ipa_common_fifo_hal_get_rx_fifo_wr fid i)" "hal_only (ipa_common_fifo_hal_get_tx_fifo_rp fid i)"
  "hal_only (ipa_common_fifo_hal_recv_node_from_tx_fifo m fid)" "hal_only (ipa_common_fifo_hal_get_tx_empty_status m fid)"
  "hal_only (ipa_common_fifo_set_intr_eb m fid eb t)" "hal_only (ipa_common_fifo_clr_tout_th_intr m fid)"
  "hal_only (ipa_common_fifo_hal_get_rx_ptr m fid a b)" "hal_only (ipa_common_fifo_hal_get_tx_ptr m fid a b)"
  "hal_only (ipa_common_fifo_hal_open m fid ck)"
  "hal_only (ipa_common_fifo_hal_set_hw_intr_thres m fid e v)" "hal_only (ipa_common_fifo_hal_set_hw_intr_timeout m fid e v)"
  "hal_only (ipa_common_fifo_hal_set_intr_txfifo_full m fid e)"
  unfolding ipa_common_fifo_hal_set_rx_fifo_wr_def ipa_common_fifo_hal_set_tx_fifo_rp_def
    ipa_common_fifo_hal_get_rx_fifo_wr_def ipa_common_fifo_hal_get_tx_fifo_rp_def ipa_recv_pkts_from_tx_fifo_def
    ipa_common_fifo_hal_recv_node_from_tx_fifo_def ipa_common_fifo_hal_get_tx_empty_status_def
    ipa_common_fifo_set_intr_eb_def ipa_common_fifo_clr_tout_th_intr_def ipa_common_fifo_hal_get_rx_ptr_def
    ipa_common_fifo_hal_get_tx_ptr_def ipa_common_fifo_hal_open_def ipa_common_fifo_hal_set_hw_intr_thres_def
    ipa_common_fifo_hal_set_hw_intr_timeout_def ipa_common_fifo_hal_set_intr_txfifo_full_def opt_read_def
  by (intro hal_ops)+

declare hal_ops [simp] hal_onlyD [simp]

section \<open>What the operations do to the FIFO table\<close>

lemma run_get_rx_fifo_wr [simp]:
  "snd (run_state (ipa_common_fifo_hal_get_rx_fifo_wr fid i) s) = s"
  by (simp add: ipa_common_fifo_hal_get_rx_fifo_wr_def)

lemma run_get_tx_fifo_rp [simp]:
  "snd (run_state (ipa_common_fifo_hal_get_tx_fifo_rp fid i) s) = s"
  by (simp add: ipa_common_fifo_hal_get_tx_fifo_rp_def)

lemma cfg_reads [simp]:
  "cmn_fifo_cfg (snd (run_state (phy f) s)) = cmn_fifo_cfg s"
  "cmn_fifo_cfg (snd (run_state (ipa_common_fifo_hal_recv_node_from_tx_fifo m fid) s)) = cmn_fifo_cfg s"
  "cmn_fifo_cfg (snd (run_state (ipa_common_fifo_hal_get_tx_empty_status m fid) s)) = cmn_fifo_cfg s"
  "cmn_fifo_cfg (snd (run_state (ipa_common_fifo_hal_get_rx_ptr m fid a b) s)) = cmn_fifo_cfg s"
  "cmn_fifo_cfg (snd (run_state (ipa_common_fifo_hal_get_tx_ptr m fid a b) s)) = cmn_fifo_cfg s"
  by (simp_all add: ipa_common_fifo_hal_recv_node_from_tx_fifo_def ipa_recv_pkts_from_tx_fifo_def
      ipa_common_fifo_hal_get_tx_empty_status_def ipa_common_fifo_hal_get_rx_ptr_def ipa_common_fifo_hal_get_tx_ptr_def
      opt_read_def split_beta)

text \<open>The parts of a FIFO's configuration that never change while it runs.\<close>

definition same_fifo :: "sipa_cmn_fifo_tag \<Rightarrow> sipa_cmn_fifo_tag \<Rightarrow> bool" where
  "same_fifo f g \<longleftrightarrow> ff_depth f = ff_depth g \<and> map_option length (ff_virtual_addr f) = map_option length (ff_virtual_addr g)"

definition same_shape :: "sipa_cmn_fifo_cfg_tag \<Rightarrow> sipa_cmn_fifo_cfg_tag \<Rightarrow> bool" where
  "same_shape c d \<longleftrightarrow> fifo_id c = fifo_id d \<and> fifo_reg_base c = fifo_reg_base d \<and> fifo_cur c = fifo_cur d \<and>
     fifo_dst c = fifo_dst d \<and> same_fifo (rx_fifo c) (rx_fifo d) \<and> same_fifo (tx_fifo c) (tx_fifo d)"

lemma same_shape_refl [simp]: "same_shape c c"
  by (simp add: same_shape_def same_fifo_def)

lemma same_shape_trans: "same_shape c d \<Longrightarrow> same_shape d e \<Longrightarrow> same_shape c e"
  by (simp add: same_shape_def same_fifo_def)

lemma set_rx_fifo_wr_shape:
  "same_shape (cmn_fifo_cfg (snd (run_state (ipa_common_fifo_hal_set_rx_fifo_wr m fid n) s)) i) (cmn_fifo_cfg s i)"
  by (auto simp: ipa_common_fifo_hal_set_rx_fifo_wr_def split_beta Let_def same_shape_def same_fifo_def)

lemma set_rx_fifo_wr_ring:
  "ff_virtual_addr (rx_fifo (cmn_fifo_cfg (snd (run_state (ipa_common_fifo_hal_set_rx_fifo_wr m fid n) s)) i)) =
   ff_virtual_addr (rx_fifo (cmn_fifo_cfg s i))"
  by (auto simp: ipa_common_fifo_hal_set_rx_fifo_wr_def split_beta Let_def)

lemma set_tx_fifo_rp_shape:
  "same_shape (cmn_fifo_cfg (snd (run_state (ipa_common_fifo_hal_set_tx_fifo_rp m fid n) s)) i) (cmn_fifo_cfg s i)"
  by (auto simp: ipa_common_fifo_hal_set_tx_fifo_rp_def split_beta Let_def same_shape_def same_fifo_def)

end
