(* ===== verification/RxRing.thy ===== *)
theory RxRing
  imports SipaFifoRing Ring
begin

text \<open>
  \<open>ipa_put_pkt_to_cache_rx_fifo\<close> appends to the list of descriptors that the receive FIFO holds. The
  fill count is the device's: the list is the \<open>filled\<close> cells of the ring that end at the write pointer.
\<close>

definition rx_list :: "sipa_node_description_tag list \<Rightarrow> nat \<Rightarrow> nat \<Rightarrow> sipa_node_description_tag list" where
  "rx_list ring wr filled = ring_view ring (wr + (length ring - filled)) filled"

lemma rx_list_0 [simp]: "rx_list ring wr 0 = []"
  by (simp add: rx_list_def)

lemma put_copy_spec:
  fixes depth index num :: u32
  assumes len: "length node = unat depth" and d: "unat depth \<le> 2 ^ 31"
    and i: "index < depth" and n: "num \<le> depth" "unat num \<le> length desc"
  shows "\<exists>node'. put_copy node depth desc index num = Some node' \<and> length node' = length node \<and>
    (\<forall>p < length node. node' ! p =
       (if (p + (length node - unat index)) mod length node < unat num
        then desc ! ((p + (length node - unat index)) mod length node) else node ! p))"
proof -
  let ?D = "unat depth" and ?i = "unat index" and ?n = "unat num"
  have iD: "?i < ?D" and nD: "?n \<le> ?D" using i n by (simp_all add: word_less_nat_alt word_le_nat_alt)
  have sum: "unat (index + num) = ?i + ?n" using iD nD d by (simp add: unat_word_ariths)
  have dist: "(p + (?D - ?i)) mod ?D = (if ?i \<le> p then p - ?i else p + ?D - ?i)" if "p < ?D" for p
    using that iD by (auto simp: mod_if)
  show ?thesis
  proof (cases "index + num \<le> depth")
    case True
    then have fit: "?i + ?n \<le> ?D" using sum by (simp add: word_le_nat_alt)
    then obtain node' where m: "memcpy node ?i desc 0 ?n = Some node'" using len n(2) by (simp add: memcpy_def)
    have "node' ! p = (if (p + (?D - ?i)) mod ?D < ?n then desc ! ((p + (?D - ?i)) mod ?D) else node ! p)"
      if "p < ?D" for p
      using memcpy_nth[OF m, of p] that fit len unfolding dist[OF that] by auto
    with True m memcpy_length[OF m] len show ?thesis by (simp add: put_copy_def)
  next
    case False
    then have wrap: "?D < ?i + ?n" using sum by (simp add: word_le_nat_alt)
    have t: "unat (depth - index) = ?D - ?i" using i by (simp add: unat_sub word_le_nat_alt word_less_nat_alt)
    then have r: "unat (num - (depth - index)) = ?n - (?D - ?i)" using wrap by (simp add: unat_sub word_le_nat_alt)
    have "?D - ?i \<le> length desc" using wrap n(2) by linarith
    then obtain n1 where m1: "memcpy node ?i desc 0 (?D - ?i) = Some n1" using len iD by (simp add: memcpy_def)
    then have l1: "length n1 = ?D" using memcpy_length len by metis
    have "?n - (?D - ?i) \<le> ?D" "(?D - ?i) + (?n - (?D - ?i)) \<le> length desc" using n(2) nD wrap by linarith+
    then obtain n2 where m2: "memcpy n1 0 desc (?D - ?i) (?n - (?D - ?i)) = Some n2"
      using l1 by (simp add: memcpy_def)
    have "n2 ! p = (if (p + (?D - ?i)) mod ?D < ?n then desc ! ((p + (?D - ?i)) mod ?D) else node ! p)"
      if "p < ?D" for p
      using memcpy_nth[OF m2, of p] memcpy_nth[OF m1, of p] that iD nD wrap len l1 unfolding dist[OF that]
      by (auto simp: algebra_simps)
    with False m1 m2 memcpy_length[OF m2] l1 len t r show ?thesis by (simp add: put_copy_def Let_def)
  qed
qed

lemma PTR_MASK_pow2: "k < 31 \<Longrightarrow> PTR_MASK (2 ^ k) = 2 ^ Suc k - 1"
proof -
  assume "k < 31"
  have "PTR_MASK (2 ^ k) = 2 ^ k OR mask k" by (simp add: PTR_MASK_def mask_eq_exp_minus_1)
  also have "\<dots> = mask (Suc k)" by (simp add: mask_Suc_exp)
  finally show ?thesis by (simp only: mask_eq_exp_minus_1)
qed

text \<open>Appending \<open>n\<close> descriptors behind the \<open>f\<close> that the ring holds.\<close>

lemma put_copy_appends:
  fixes depth wr num filled :: u32
  assumes k: "k < 31" "depth = 2 ^ k" and len: "length node = 2 ^ k"
    and f: "filled \<le> depth" and n: "num \<le> depth - filled" "unat num \<le> length desc"
  shows "\<exists>node'. put_copy node depth desc (wr AND (depth - 1)) num = Some node' \<and> length node' = length node \<and>
    rx_list node' (unat ((wr + num) AND PTR_MASK depth)) (unat filled + unat num) =
      rx_list node (unat wr) (unat filled) @ take (unat num) desc"
proof -
  let ?D = "2 ^ k :: nat" and ?i = "unat (wr AND (depth - 1))"
  have D: "unat depth = ?D" using k by (simp add: unat_pow2)
  have D31: "?D \<le> 2 ^ 31" using k by (intro power_increasing) simp_all
  have i: "?i = unat wr mod ?D" using k by (simp add: unat_and_pow2)
  have fD: "unat filled + unat num \<le> ?D" using f n D by (simp add: word_le_nat_alt unat_sub)
  have "wr AND (depth - 1) < depth" using i D by (simp add: word_less_nat_alt)
  moreover have "num \<le> depth" using fD D by (simp add: word_le_nat_alt)
  ultimately obtain node' where node': "put_copy node depth desc (wr AND (depth - 1)) num = Some node'"
      "length node' = length node" and cell: "\<And>p. p < ?D \<Longrightarrow> node' ! p =
       (if (p + (?D - ?i)) mod ?D < unat num then desc ! ((p + (?D - ?i)) mod ?D) else node ! p)"
    using put_copy_spec[of node depth "wr AND (depth - 1)" num desc] len D D31 n(2) by auto
  define s where "s = unat wr + (?D - unat filled)"
  have dist: "((s + a) mod ?D + (?D - ?i)) mod ?D = (a + (?D - unat filled)) mod ?D" for a
  proof -
    have "unat wr mod ?D < ?D" by simp
    then have "unat wr + (?D - ?i) = ?D * (unat wr div ?D) + ?D"
      unfolding i using mult_div_mod_eq[of ?D "unat wr"] by linarith
    then have "s + a + (?D - ?i) = ?D * (unat wr div ?D) + ?D + (a + (?D - unat filled))"
      unfolding s_def by linarith
    also have "\<dots> mod ?D = (a + (?D - unat filled)) mod ?D" by (metis add.assoc mod_add_self1 mod_mult_self4)
    finally show ?thesis by (metis mod_add_left_eq)
  qed
  have pos: "(s + a) mod ?D < ?D" for a by simp
  have view: "ring_view node' s (unat filled + unat num) = ring_view node s (unat filled) @ take (unat num) desc"
  proof (rule ring_view_append)
    fix a assume "a < unat filled"
    then have "(a + (?D - unat filled)) mod ?D = a + (?D - unat filled)" using fD by simp
    then have "\<not> (a + (?D - unat filled)) mod ?D < unat num" using fD by linarith
    then show "node' ! ((s + a) mod length node) = node ! ((s + a) mod length node)"
      unfolding len cell[OF pos] dist by simp
  next
    fix j assume j: "j < unat num"
    then have "(unat filled + j + (?D - unat filled)) mod ?D = j" using fD by simp
    with j show "node' ! ((s + unat filled + j) mod length node) = desc ! j"
      unfolding len add.assoc cell[OF pos] dist by simp
  qed (use node' fD len n in auto)
  have "unat ((wr + num) AND PTR_MASK depth) mod ?D = (unat wr + unat num) mod ?D"
  proof -
    have "unat ((wr + num) AND PTR_MASK depth) = unat (wr + num) mod 2 ^ Suc k"
      using k PTR_MASK_pow2 unat_and_pow2[of "Suc k"] by simp
    moreover have "unat (wr + num) mod 2 ^ Suc k mod ?D = unat (wr + num) mod ?D" by (rule mod_mod_cancel) simp
    moreover have "unat (wr + num) mod ?D = (unat wr + unat num) mod ?D" using k(1) by (intro unat_add_mod) simp
    ultimately show ?thesis by (simp only:)
  qed
  then have "(unat ((wr + num) AND PTR_MASK depth) + (?D - (unat filled + unat num))) mod ?D =
      (unat wr + unat num + (?D - (unat filled + unat num))) mod ?D" by (metis mod_add_left_eq)
  moreover have "unat wr + unat num + (?D - (unat filled + unat num)) = s" using fD unfolding s_def by linarith
  ultimately have "(unat ((wr + num) AND PTR_MASK depth) + (?D - (unat filled + unat num))) mod ?D = s mod ?D" by simp
  then have "rx_list node' (unat ((wr + num) AND PTR_MASK depth)) (unat filled + unat num) = ring_view node' s (unat filled + unat num)"
    unfolding rx_list_def node'(2) len by (intro ring_view_cong) (simp add: node'(2) len)
  with node' view show ?thesis unfolding rx_list_def s_def len by auto
qed

end
