(* ===== verification/SipaFifoProps.thy ===== *)
theory SipaFifoProps
  imports RxRing
begin

text \<open>
  What the FIFO operations guarantee on any device that meets \<^term>\<open>mmio_ok\<close>: which registers an
  operation may change (\<open>frames\<close>), opening a FIFO, appending descriptors, interrupt enables, and the
  two configuration functions whose error test is the wrong way round.
\<close>

section \<open>Frames\<close>

text \<open>\<open>f\<close> changes no driver-owned bit of a register outside \<open>A\<close>.\<close>

definition frames :: "'h mmio \<Rightarrow> (u64 \<Rightarrow> u32) \<Rightarrow> u64 set \<Rightarrow> ('h, 'a) state \<Rightarrow> bool" where
  "frames m wm A f \<longleftrightarrow> (\<forall>c G h. owned wm c G \<longrightarrow> c \<notin> A \<longrightarrow> fld m c G (snd (run_state f h)) = fld m c G h)"

lemma frames_return [quiet]: "frames m wm A (State_Monad.return x)"
  by (simp add: frames_def)

lemma frames_bind [quiet]:
  "frames m wm A f \<Longrightarrow> (\<And>x. frames m wm A (g x)) \<Longrightarrow> frames m wm A (State_Monad.bind f g)"
  by (simp add: frames_def split_beta)

lemma frames_readl [quiet]: "mmio_ok m wm \<Longrightarrow> frames m wm A (readl_relaxed m a)"
  by (simp add: frames_def fld_read)

lemma frames_writel [quiet]: "mmio_ok m wm \<Longrightarrow> a \<in> A \<Longrightarrow> frames m wm A (writel_relaxed m v a)"
  unfolding frames_def by (auto intro: fld_write_other)

lemma frames_if [quiet]: "frames m wm A f \<Longrightarrow> frames m wm A g \<Longrightarrow> frames m wm A (if p then f else g)"
  by simp

lemma framesD: "frames m wm A f \<Longrightarrow> owned wm c G \<Longrightarrow> c \<notin> A \<Longrightarrow> fld m c G (snd (run_state f h)) = fld m c G h"
  by (simp add: frames_def)

lemma phy_frames:
  assumes "mmio_ok m wm"
  shows "frames m wm {b + IPA_COMMON_RX_FIFO_DEPTH} (ipa_phy_set_rx_fifo_total_depth m b v)"
    and "frames m wm {b + IPA_COMMON_TX_FIFO_DEPTH} (ipa_phy_set_tx_fifo_total_depth m b v)"
    and "frames m wm {b + IPA_COMMON_RX_FIFO_ADDRL, b + IPA_COMMON_RX_FIFO_ADDRH} (ipa_phy_set_rx_fifo_addr m b l r)"
    and "frames m wm {b + IPA_COMMON_TX_FIFO_ADDRL, b + IPA_COMMON_TX_FIFO_ADDRH} (ipa_phy_set_tx_fifo_addr m b l r)"
    and "frames m wm {b + IPA_PERFETCH_FIFO_CTL} (ipa_phy_set_cur_term_num m b v)"
    and "frames m wm {b + IPA_PERFETCH_FIFO_CTL} (ipa_phy_set_dst_term_num m b v)"
    and "frames m wm {b + IPA_COMMON_RX_FIFO_RD} (ipa_phy_update_rx_fifo_rptr m b v)"
    and "frames m wm {b + IPA_COMMON_RX_FIFO_WR} (ipa_phy_update_rx_fifo_wptr m b v)"
    and "frames m wm {b + IPA_COMMON_TX_FIFO_RD} (ipa_phy_update_tx_fifo_rptr m b v)"
    and "frames m wm {b + IPA_TX_FIFO_WR_INIT} (ipa_phy_update_tx_fifo_wptr m b v)"
    and "frames m wm {b + IPA_FLOW_CTRL_CONFIG} (ipa_phy_clear_stop_receive m b)"
  unfolding ipa_phy_set_rx_fifo_total_depth_def ipa_phy_set_tx_fifo_total_depth_def
    ipa_phy_set_rx_fifo_addr_def ipa_phy_set_tx_fifo_addr_def ipa_phy_set_cur_term_num_def
    ipa_phy_set_dst_term_num_def ipa_phy_update_rx_fifo_rptr_def ipa_phy_update_rx_fifo_wptr_def
    ipa_phy_update_tx_fifo_rptr_def ipa_phy_update_tx_fifo_wptr_def ipa_phy_clear_stop_receive_def
  by (intro quiet assms; simp)+

lemma get_rx_depth:
  "fst (run_state (ipa_phy_get_rx_fifo_total_depth m b) h) = drop_bit 16 (fld m (b + IPA_COMMON_RX_FIFO_DEPTH) 0xFFFF0000 h)"
  by (simp add: ipa_phy_get_rx_fifo_total_depth_def split_beta fld_def peek_def hi_word hi_word_mask)

lemma set_rx_depth_fld:
  assumes "mmio_ok m wm" "owned wm (b + IPA_COMMON_RX_FIFO_DEPTH) 0xFFFF0000" "v \<le> 0xFFFF"
  shows "drop_bit 16 (fld m (b + IPA_COMMON_RX_FIFO_DEPTH) 0xFFFF0000 (snd (run_state (ipa_phy_set_rx_fifo_total_depth m b v) h))) = v"
proof -
  have fits: "take_bit 16 v = v" using assms(3) by (intro fits_le) (simp_all add: mask_eq_exp_minus_1)
  have "((t AND 0x0000FFFF) OR push_bit 16 v) AND 0xFFFF0000 = push_bit 16 v" for t
    using insert_extract [OF fits, of t 16] by (simp add: mask_eq_exp_minus_1 field_words)
  then show ?thesis
    using assms shift_back [OF fits, of 16]
    by (simp add: ipa_phy_set_rx_fifo_total_depth_def split_beta fld_read fld_write_same not_less [symmetric])
qed

lemma fld_addr:
  assumes "mmio_ok m wm"
  shows "owned wm (b + IPA_COMMON_RX_FIFO_ADDRL) (- 1) \<Longrightarrow> owned wm (b + IPA_COMMON_RX_FIFO_ADDRH) (- 1) \<Longrightarrow>
      fld m (b + IPA_COMMON_RX_FIFO_ADDRL) (- 1) (snd (run_state (ipa_phy_set_rx_fifo_addr m b l r) h)) = l \<and>
      fld m (b + IPA_COMMON_RX_FIFO_ADDRH) (- 1) (snd (run_state (ipa_phy_set_rx_fifo_addr m b l r) h)) = r"
    and "owned wm (b + IPA_COMMON_TX_FIFO_ADDRL) (- 1) \<Longrightarrow> owned wm (b + IPA_COMMON_TX_FIFO_ADDRH) (- 1) \<Longrightarrow>
      fld m (b + IPA_COMMON_TX_FIFO_ADDRL) (- 1) (snd (run_state (ipa_phy_set_tx_fifo_addr m b l r) h)) = l \<and>
      fld m (b + IPA_COMMON_TX_FIFO_ADDRH) (- 1) (snd (run_state (ipa_phy_set_tx_fifo_addr m b l r) h)) = r"
  using assms
  by (simp_all add: ipa_phy_set_rx_fifo_addr_def ipa_phy_set_tx_fifo_addr_def split_beta fld_read fld_write_same fld_write_other)

section \<open>Opening and closing\<close>

text \<open>The fields of the FIFO block at \<open>b\<close> that belong to the driver.\<close>

definition fifo_owned :: "(u64 \<Rightarrow> u32) \<Rightarrow> u64 \<Rightarrow> bool" where
  "fifo_owned wm b \<longleftrightarrow>
     owned wm (b + IPA_COMMON_RX_FIFO_DEPTH) 0xFFFF0000 \<and> owned wm (b + IPA_COMMON_TX_FIFO_DEPTH) 0xFFFF0000 \<and>
     owned wm (b + IPA_COMMON_RX_FIFO_WR) 0xFFFF0000 \<and> owned wm (b + IPA_COMMON_RX_FIFO_RD) 0xFFFF0000 \<and>
     owned wm (b + IPA_COMMON_TX_FIFO_RD) 0xFFFF0000 \<and> owned wm (b + IPA_PERFETCH_FIFO_CTL) 0x0003E000 \<and>
     owned wm (b + IPA_PERFETCH_FIFO_CTL) 0x00001F00 \<and>
     owned wm (b + IPA_COMMON_RX_FIFO_ADDRL) (- 1) \<and> owned wm (b + IPA_COMMON_RX_FIFO_ADDRH) (- 1) \<and>
     owned wm (b + IPA_COMMON_TX_FIFO_ADDRL) (- 1) \<and> owned wm (b + IPA_COMMON_TX_FIFO_ADDRH) (- 1) \<and>
     owned wm (b + IPA_TX_FIFO_WR_INIT) 0xFFFF0000 \<and> owned wm (b + IPA_FLOW_CTRL_CONFIG) 0x8"

lemma get_addr:
  assumes "mmio_ok m wm"
  shows "owned wm (b + IPA_COMMON_RX_FIFO_ADDRH) (- 1) \<Longrightarrow>
      fst (run_state (ipa_phy_get_rx_fifo_addr m b) h) =
        (fld m (b + IPA_COMMON_RX_FIFO_ADDRL) (- 1) h, fld m (b + IPA_COMMON_RX_FIFO_ADDRH) (- 1) h)"
    and "owned wm (b + IPA_COMMON_TX_FIFO_ADDRH) (- 1) \<Longrightarrow>
      fst (run_state (ipa_phy_get_tx_fifo_addr m b) h) =
        (fld m (b + IPA_COMMON_TX_FIFO_ADDRL) (- 1) h, fld m (b + IPA_COMMON_TX_FIFO_ADDRH) (- 1) h)"
  using fld_read [OF assms, of "b + IPA_COMMON_RX_FIFO_ADDRH" "- 1" "b + IPA_COMMON_RX_FIFO_ADDRL" h]
    fld_read [OF assms, of "b + IPA_COMMON_TX_FIFO_ADDRH" "- 1" "b + IPA_COMMON_TX_FIFO_ADDRL" h]
  by (simp_all add: ipa_phy_get_rx_fifo_addr_def ipa_phy_get_tx_fifo_addr_def split_beta fld_def peek_def)

text \<open>What \<open>open\<close> leaves behind in the software state and on the device.\<close>

definition fifo_opened :: "'h mmio \<Rightarrow> u64 \<Rightarrow> sipa_cmn_fifo_cfg_tag \<Rightarrow> 'h \<Rightarrow> bool" where
  "fifo_opened m cookie c h \<longleftrightarrow>
     (let b = fifo_reg_base c in
      fst (run_state (ipa_phy_get_rx_fifo_total_depth m b) h) = ff_depth (rx_fifo c) \<and>
      fst (run_state (ipa_phy_get_tx_fifo_total_depth m b) h) = ff_depth (tx_fifo c) \<and>
      fst (run_state (ipa_phy_get_rx_fifo_addr m b) h) = (ff_base_addr_l (rx_fifo c), ff_base_addr_h (rx_fifo c)) \<and>
      fst (run_state (ipa_phy_get_tx_fifo_addr m b) h) = (ff_base_addr_l (tx_fifo c), ff_base_addr_h (tx_fifo c)) \<and>
      fst (run_state (ipa_phy_get_cur_term_num m b) h) = fifo_cur c \<and>
      fst (run_state (ipa_phy_get_dst_term_num m b) h) = fifo_dst c \<and>
      fst (run_state (ipa_phy_get_rx_fifo_rptr m b) h) = 0 \<and> fst (run_state (ipa_phy_get_rx_fifo_wptr m b) h) = 0 \<and>
      fst (run_state (ipa_phy_get_tx_fifo_rptr m b) h) = 0 \<and>
      fld m (b + IPA_TX_FIFO_WR_INIT) 0xFFFF0000 h = 0 \<and> fld m (b + IPA_FLOW_CTRL_CONFIG) 0x8 h = 0 \<and>
      ff_rd (rx_fifo c) = 0 \<and> ff_wr (rx_fifo c) = 0 \<and> ff_rd (tx_fifo c) = 0 \<and> ff_wr (tx_fifo c) = 0 \<and>
      fifo_name c = cookie \<and> fifo_state c)"

text \<open>
  The transmit write pointer is the device's own: the driver stages a value in \<open>TX_FIFO_WR_INIT\<close> and
  writes that register with bit 1 set, upon which the device takes the staged value over.
  \<open>loads_tx_wptr\<close> is that behaviour of a device; nothing else that the driver does moves the pointer.
\<close>

definition tx_wptr :: "'h mmio \<Rightarrow> u64 \<Rightarrow> 'h \<Rightarrow> u32" where
  "tx_wptr m b h = fst (run_state (ipa_phy_get_tx_fifo_wptr m b) h)"

definition loads_tx_wptr :: "'h mmio \<Rightarrow> u64 \<Rightarrow> bool" where
  "loads_tx_wptr m b \<longleftrightarrow>
     (\<forall>a h. tx_wptr m b (snd (mm_readl m a h)) = tx_wptr m b h) \<and>
     (\<forall>v a h. tx_wptr m b (mm_writel m v a h) =
        (if a = b + IPA_TX_FIFO_WR_INIT \<and> bit v 1 then drop_bit 16 v else tx_wptr m b h))"

lemma update_loads:
  assumes ok: "mmio_ok m wm" and own: "owned wm (b + IPA_TX_FIFO_WR_INIT) 0xFFFF0000"
  shows "fld m (b + IPA_TX_FIFO_WR_INIT) 0xFFFF0000 (snd (run_state (ipa_phy_update_tx_fifo_wptr m b 0) h)) = 0"
    and "loads_tx_wptr m b \<Longrightarrow> tx_wptr m b (snd (run_state (ipa_phy_update_tx_fifo_wptr m b 0) h)) = 0"
proof -
  have k: "(t OR 2) AND 0xFFFF0000 = t AND 0xFFFF0000" "(t AND 0xFFFFFFFD) AND 0xFFFF0000 = t AND 0xFFFF0000"
      "(t AND 0xFFFF) AND 0xFFFF0000 = 0" for t :: u32
    by (simp add: bit.conj_disj_distrib2, simp_all add: and.assoc)
  show "fld m (b + IPA_TX_FIFO_WR_INIT) 0xFFFF0000 (snd (run_state (ipa_phy_update_tx_fifo_wptr m b 0) h)) = 0"
    using ok own by (simp add: ipa_phy_update_tx_fifo_wptr_def split_beta fld_read fld_write_same fst_readl_fld [where F = "0xFFFF0000"] k)
  have hi: "drop_bit 16 (t OR 2) = drop_bit 16 (t AND 0xFFFF0000)" for t :: u32
    using hi_word [of "t OR 2"] by (simp only: k)
  show "tx_wptr m b (snd (run_state (ipa_phy_update_tx_fifo_wptr m b 0) h)) = 0" if l: "loads_tx_wptr m b"
  proof -
    have "bit (t OR 2) 1" "\<not> bit (t AND 0xFFFFFFFD) 1" for t :: u32
      by (simp_all only: bit_or_iff bit_and_iff) simp_all
    then have L: "tx_wptr m b (snd (mm_readl m a h)) = tx_wptr m b h"
        "tx_wptr m b (mm_writel m (t OR 2) (b + IPA_TX_FIFO_WR_INIT) h) = drop_bit 16 (t AND 0xFFFF0000)"
        "tx_wptr m b (mm_writel m (t AND 0xFFFFFFFD) (b + IPA_TX_FIFO_WR_INIT) h) = tx_wptr m b h" for a t h
      using l hi [of t] by (simp_all only: loads_tx_wptr_def simp_thms if_True if_False)
    show ?thesis
      using ok own by (simp add: ipa_phy_update_tx_fifo_wptr_def split_beta L fst_readl_fld [where F = "0xFFFF0000"] fld_read fld_write_same k)
  qed
qed

lemma clear_stop_fld:
  assumes "mmio_ok m wm" "owned wm (b + IPA_FLOW_CTRL_CONFIG) 0x8"
  shows "fld m (b + IPA_FLOW_CTRL_CONFIG) 0x8 (snd (run_state (ipa_phy_clear_stop_receive m b) h)) = 0"
  using assms by (simp add: ipa_phy_clear_stop_receive_def split_beta fld_read fld_write_same and.assoc)

text \<open>
  C9. Opening a closed FIFO of the table succeeds, and afterwards every getter of the register layer reads back the
  configuration: both depths, both base addresses, both terminal numbers, and zero pointers on the
  device and in the software state. No later write of the sequence disturbs an earlier one. The staged
  transmit write pointer is zero and the stop-receive bit is off; and on a device that loads the transmit
  write pointer when it is told to (\<open>loads_tx_wptr\<close>), reading that pointer gives zero too. Assumed are
  depths of at most 0xFFFF and terminal numbers of at most 0x1F, as the register fields hold (the setters
  refuse larger ones, and \<open>open\<close> ignores their result), and that the device leaves the fields that the
  driver programs alone (\<open>fifo_owned\<close>).
\<close>

theorem open_programs_fifo:
  assumes ok: "mmio_ok m wm" and own: "fifo_owned wm (fifo_reg_base c)" and c: "c = cmn_fifo_cfg s fid"
    and id: "fid < SIPA_FIFO_MAX" and st: "\<not> fifo_state c"
    and bounds: "ff_depth (rx_fifo c) \<le> 0xFFFF" "ff_depth (tx_fifo c) \<le> 0xFFFF" "fifo_cur c \<le> 0x1F" "fifo_dst c \<le> 0x1F"
    and run: "run_state (ipa_common_fifo_hal_open m fid cookie) s = (r, s')"
  shows "r = 0 \<and> fifo_opened m cookie (cmn_fifo_cfg s' fid) (hw s') \<and>
    (loads_tx_wptr m (fifo_reg_base c) \<longrightarrow> fst (run_state (ipa_phy_get_tx_fifo_wptr m (fifo_reg_base c)) (hw s')) = 0)"
proof -
  let ?b = "fifo_reg_base c"
  note F = phy_frames [OF ok, THEN framesD]
  note own' = own [unfolded fifo_owned_def]
  note mk = mask_eq_exp_minus_1
  have r: "r = 0" and cfg: "cmn_fifo_cfg s' fid = c\<lparr>rx_fifo := (rx_fifo c)\<lparr>ff_rd := 0, ff_wr := 0\<rparr>,
      tx_fifo := (tx_fifo c)\<lparr>ff_rd := 0, ff_wr := 0\<rparr>, fifo_name := cookie, fifo_state := True\<rparr>"
    using run id st c by (auto simp: ipa_common_fifo_hal_open_def Let_def split_beta)
  have dev: "hw s' = snd (run_state (ipa_phy_clear_stop_receive m ?b) (snd (run_state (ipa_phy_update_tx_fifo_wptr m ?b 0)
     (snd (run_state (ipa_phy_update_tx_fifo_rptr m ?b 0) (snd (run_state (ipa_phy_update_rx_fifo_wptr m ?b 0)
     (snd (run_state (ipa_phy_update_rx_fifo_rptr m ?b 0) (snd (run_state (ipa_phy_set_dst_term_num m ?b (fifo_dst c))
     (snd (run_state (ipa_phy_set_cur_term_num m ?b (fifo_cur c)) (snd (run_state (ipa_phy_set_tx_fifo_addr m ?b
       (ff_base_addr_l (tx_fifo c)) (ff_base_addr_h (tx_fifo c))) (snd (run_state (ipa_phy_set_tx_fifo_total_depth m ?b (ff_depth (tx_fifo c)))
     (snd (run_state (ipa_phy_set_rx_fifo_addr m ?b (ff_base_addr_l (rx_fifo c)) (ff_base_addr_h (rx_fifo c)))
     (snd (run_state (ipa_phy_set_rx_fifo_total_depth m ?b (ff_depth (rx_fifo c))) (hw s))))))))))))))))))))))"
    using run id st c by (auto simp: ipa_common_fifo_hal_open_def Let_def split_beta)
  have "fst (run_state (ipa_phy_get_rx_fifo_total_depth m ?b) (hw s')) = ff_depth (rx_fifo c)"
    using own' bounds by (simp add: dev get_rx_depth F set_rx_depth_fld [OF ok, simplified])
  moreover have "fst (run_state (ipa_phy_get_tx_fifo_total_depth m ?b) (hw s')) = ff_depth (tx_fifo c)"
    using own' bounds by (simp add: dev tx_depth.getf_val F mk tx_depth.fld_after_set [OF ok, simplified mk, simplified])
  moreover have "fst (run_state (ipa_phy_get_rx_fifo_addr m ?b) (hw s')) = (ff_base_addr_l (rx_fifo c), ff_base_addr_h (rx_fifo c))"
    using own' by (simp add: dev get_addr [OF ok] F fld_addr(1) [OF ok])
  moreover have "fst (run_state (ipa_phy_get_tx_fifo_addr m ?b) (hw s')) = (ff_base_addr_l (tx_fifo c), ff_base_addr_h (tx_fifo c))"
    using own' by (simp add: dev get_addr [OF ok] F fld_addr(2) [OF ok])
  moreover have "fst (run_state (ipa_phy_get_cur_term_num m ?b) (hw s')) = fifo_cur c"
    using own' bounds dst_term.set_frame [OF ok, where v = "fifo_dst c" and c = "?b + IPA_PERFETCH_FIFO_CTL" and G = "0x3E000" and b = ?b, simplified mk, simplified]
    by (simp add: dev cur_term.getf_val F mk cur_term.fld_after_set [OF ok, simplified mk, simplified])
  moreover have "fst (run_state (ipa_phy_get_dst_term_num m ?b) (hw s')) = fifo_dst c"
    using own' bounds by (simp add: dev dst_term.getf_val F mk dst_term.fld_after_set [OF ok, simplified mk, simplified])
  moreover have "fst (run_state (ipa_phy_get_rx_fifo_rptr m ?b) (hw s')) = 0"
    using own' by (simp add: dev rx_rptr.getf_val F mk rx_rptr.fld_after_set [OF ok, simplified mk, simplified])
  moreover have "fst (run_state (ipa_phy_get_rx_fifo_wptr m ?b) (hw s')) = 0"
    using own' by (simp add: dev rx_wptr.getf_val F mk rx_wptr.fld_after_set [OF ok, simplified mk, simplified])
  moreover have "fst (run_state (ipa_phy_get_tx_fifo_rptr m ?b) (hw s')) = 0"
    using own' by (simp add: dev tx_rptr.getf_val F mk tx_rptr.fld_after_set [OF ok, simplified mk, simplified])
  moreover have "fld m (?b + IPA_TX_FIFO_WR_INIT) 0xFFFF0000 (hw s') = 0"
    using own' by (simp add: dev F update_loads(1) [OF ok])
  moreover have "fld m (?b + IPA_FLOW_CTRL_CONFIG) 0x8 (hw s') = 0"
    using own' by (simp add: dev clear_stop_fld [OF ok])
  moreover have "fst (run_state (ipa_phy_get_tx_fifo_wptr m ?b) (hw s')) = 0" if l: "loads_tx_wptr m ?b"
  proof -
    have "tx_wptr m ?b (hw s') = 0"
      using own' update_loads(2) [OF ok _ l] l
      by (simp add: dev loads_tx_wptr_def ipa_phy_clear_stop_receive_def split_beta)
    then show ?thesis by (simp add: tx_wptr_def)
  qed
  ultimately show ?thesis using r by (simp add: fifo_opened_def cfg)
qed

text \<open>A small closed FIFO block of depth 4, for the witnesses.\<close>

definition sample_fifo :: sipa_cmn_fifo_tag where
  "sample_fifo = \<lparr>ff_depth = 4, ff_wr = 0, ff_rd = 0, ff_base_addr_l = 0x100, ff_base_addr_h = 2, ff_dma_ptr = 0x100,
     ff_virtual_addr = Some (replicate 4 zero_desc)\<rparr>"

definition sample_cfg :: sipa_cmn_fifo_cfg_tag where
  "sample_cfg = \<lparr>fifo_name = 0, fifo_id = 0, fifo_state = False, fifo_dst = 6, fifo_cur = 0x10, fifo_reg_base = 0x980,
     rx_fifo = sample_fifo, tx_fifo = sample_fifo, enter_flow_ctrl_cnt = 0, exit_flow_ctrl_cnt = 0, irq_cb = No_cb\<rparr>"

definition sample_hal :: "(u64 \<Rightarrow> u32) hal" where
  "sample_hal = \<lparr>hw = (\<lambda>_. 0), cmn_fifo_cfg = (\<lambda>_. sample_cfg)\<rparr>"

lemmas sample_defs = sample_hal_def sample_cfg_def sample_fifo_def

text \<open>A device that keeps its registers and loads the transmit write pointer of the block at 0x980.\<close>

definition loader :: "(u64 \<Rightarrow> u32) mmio" where
  "loader = \<lparr>mm_readl = (\<lambda>a h. (h a, h)),
     mm_writel = (\<lambda>v a h. if a = 0x990 then h else if a = 0x9E0 \<and> bit v 1 then h(a := v, 0x990 := v) else h(a := v))\<rparr>"

lemma loader_ok: "mmio_ok loader (\<lambda>a. if a = 0x990 then 0 else - 1)" "loads_tx_wptr loader 0x980"
  by (auto simp: mmio_ok_def loader_def peek_def loads_tx_wptr_def tx_wptr_def ipa_phy_get_tx_fifo_wptr_def readl_relaxed_def)

theorem open_programs_fifo_witness:
  "\<exists>r s'. run_state (ipa_common_fifo_hal_open loader 0 7) (sample_hal\<lparr>hw := (\<lambda>_. 0x50005)\<rparr>) = (r, s') \<and>
     r = 0 \<and> fifo_opened loader 7 (cmn_fifo_cfg s' 0) (hw s') \<and> fst (run_state (ipa_phy_get_tx_fifo_wptr loader 0x980) (hw s')) = 0"
proof -
  obtain r s' where run: "run_state (ipa_common_fifo_hal_open loader 0 7) (sample_hal\<lparr>hw := (\<lambda>_. 0x50005)\<rparr>) = (r, s')"
    by (meson surj_pair)
  show ?thesis
    using open_programs_fifo [OF loader_ok(1) _ refl _ _ _ _ _ _ run] loader_ok(2) run
    by (simp add: fifo_owned_def sample_defs)
qed

text \<open>
  A FIFO has one owner at a time: after a successful open, opening it again is refused with EBUSY
  and changes nothing; closing it always succeeds, zeroes the software pointers and makes the next open
  succeed. An index outside the table is refused with EINVAL by both.
\<close>

theorem open_is_exclusive:
  "run_state (ipa_common_fifo_hal_open m fid cookie) s =
     (if \<not> fid < SIPA_FIFO_MAX then (- EINVAL, s)
      else if fifo_state (cmn_fifo_cfg s fid) then (- EBUSY, s)
      else (0, snd (run_state (ipa_common_fifo_hal_open m fid cookie) s))) \<and>
   (let s1 = snd (run_state (ipa_common_fifo_hal_open m fid cookie) s);
        (r, s2) = run_state (ipa_common_fifo_hal_close m fid) s1;
        c2 = cmn_fifo_cfg s2 fid
    in run_state (ipa_common_fifo_hal_open m fid cookie') s1 = (if fid < SIPA_FIFO_MAX then - EBUSY else - EINVAL, s1) \<and>
       (if fid < SIPA_FIFO_MAX
        then r = 0 \<and> \<not> fifo_state c2 \<and> ff_rd (rx_fifo c2) = 0 \<and> ff_wr (rx_fifo c2) = 0 \<and> ff_rd (tx_fifo c2) = 0 \<and>
             ff_wr (tx_fifo c2) = 0 \<and> fst (run_state (ipa_common_fifo_hal_open m fid cookie') s2) = 0
        else r = - EINVAL \<and> s2 = s1))"
  by (simp add: ipa_common_fifo_hal_open_def ipa_common_fifo_hal_close_def Let_def split_beta)

section \<open>Putting descriptors\<close>

lemma wr_masked: "k \<le> 15 \<Longrightarrow> (x::u32) AND PTR_MASK (2 ^ k) \<le> 0xFFFF"
proof -
  assume k: "k \<le> 15"
  then have "unat (x AND PTR_MASK (2 ^ k)) = unat x mod 2 ^ Suc k"
    using PTR_MASK_pow2 [of k] unat_and_pow2 [of "Suc k" x] by simp
  also have "\<dots> < 2 ^ Suc k" by simp
  also have "(2::nat) ^ Suc k \<le> 2 ^ 16" using k by (intro power_increasing) simp_all
  finally show ?thesis by (simp add: word_le_nat_alt)
qed

lemma int_small: "unat (n::u32) < 2 ^ 31 \<Longrightarrow> sint n = int (unat n)"
proof -
  assume "unat n < 2 ^ 31"
  then have "int (unat n) < int (2 ^ 31)" by (simp only: of_nat_less_iff)
  then have "uint n < 2 ^ 31" by (simp only: of_nat_unat) simp
  then have "signed_take_bit 31 (uint n) = uint n"
    by (intro signed_take_bit_int_eq_self) (simp_all add: order_trans [of _ 0])
  then show ?thesis by (simp add: sint_uint)
qed

lemma run_if: "run_state (if p then f else g) h = (if p then run_state f h else run_state g h)"
  by simp

lemma put_run:
  fixes s :: "('h, 'z) hal_scheme"
  assumes "fid < SIPA_FIFO_MAX" "c = cmn_fifo_cfg s fid" "d = ff_depth (rx_fifo c)" "ff_virtual_addr (rx_fifo c) = Some node"
    and "f = fst (run_state (ipa_phy_get_rx_fifo_filled_depth m (fifo_reg_base c)) (hw s))" "d - f \<noteq> 0"
    and "n = min num (d - f)" "put_copy node d desc (ff_wr (rx_fifo c) AND (d - 1)) n = Some node'"
    and "wr = (ff_wr (rx_fifo c) + n) AND PTR_MASK d"
  shows "run_state (ipa_common_fifo_hal_put_node_to_rx_fifo m fid desc num) s =
    (Some (sint n), s\<lparr>hw := snd (run_state (ipa_phy_update_rx_fifo_wptr m (fifo_reg_base c) wr)
                (snd (run_state (ipa_phy_get_rx_fifo_filled_depth m (fifo_reg_base c)) (hw s)))),
       cmn_fifo_cfg := (cmn_fifo_cfg s)(fid := c\<lparr>rx_fifo := (rx_fifo c)\<lparr>ff_virtual_addr := Some node', ff_wr := wr\<rparr>\<rparr>)\<rparr>)"
proof -
  note defs = ipa_common_fifo_hal_put_node_to_rx_fifo_def ipa_put_pkt_to_cache_rx_fifo_def split_beta Let_def
  show ?thesis
  proof (cases "d - f < num")
    case True
    then have "n = d - f" using assms(7) by simp
    with True assms(1,4,6,8) show ?thesis by (simp add: defs assms(2,3,5,9))
  next
    case False
    then have "n = num" using assms(7) by simp
    with False assms(1,4,6,8) show ?thesis by (simp add: defs assms(2,3,5,9))
  qed
qed

text \<open>
  C3. Putting \<open>num\<close> descriptors into the receive FIFO appends to the list that the ring holds: with room
  for \<open>left\<close> of them, exactly the first \<open>min num left\<close> arrive, in order, behind the descriptors already
  there, around the end of the ring and without touching those; the count is returned, and the
  device's write pointer is the software's. With no room, nothing changes and ENOSPC is returned.
\<close>

theorem put_node_appends:
  fixes s :: "('h, 'z) hal_scheme"
  assumes ok: "mmio_ok m wm" "owned wm (fifo_reg_base c + IPA_COMMON_RX_FIFO_WR) 0xFFFF0000"
    and c: "c = cmn_fifo_cfg s fid" and id: "fid < SIPA_FIFO_MAX"
    and ring: "ff_depth (rx_fifo c) = 2 ^ k" "k \<le> 15" "ff_virtual_addr (rx_fifo c) = Some node" "length node = 2 ^ k"
    and filled: "filled = fst (run_state (ipa_phy_get_rx_fifo_filled_depth m (fifo_reg_base c)) (hw s))"
      "filled \<le> ff_depth (rx_fifo c)"
    and n: "n = min num (ff_depth (rx_fifo c) - filled)" "unat n \<le> length desc"
    and run: "run_state (ipa_common_fifo_hal_put_node_to_rx_fifo m fid desc num) s = (r, s')"
  shows "if filled = ff_depth (rx_fifo c) then r = Some (- ENOSPC) \<and> cmn_fifo_cfg s' = cmn_fifo_cfg s
    else r = Some (int (unat n)) \<and>
      (\<exists>node'. ff_virtual_addr (rx_fifo (cmn_fifo_cfg s' fid)) = Some node' \<and> length node' = 2 ^ k \<and>
        rx_list node' (unat (ff_wr (rx_fifo (cmn_fifo_cfg s' fid)))) (unat filled + unat n) =
        rx_list node (unat (ff_wr (rx_fifo c))) (unat filled) @ take (unat n) desc) \<and>
      fst (run_state (ipa_phy_get_rx_fifo_wptr m (fifo_reg_base c)) (hw s')) = ff_wr (rx_fifo (cmn_fifo_cfg s' fid)) \<and>
      tx_fifo (cmn_fifo_cfg s' fid) = tx_fifo c \<and> (\<forall>i. i \<noteq> fid \<longrightarrow> cmn_fifo_cfg s' i = cmn_fifo_cfg s i)"
proof (cases "filled = ff_depth (rx_fifo c)")
  case True
  with run id c filled(1) show ?thesis
    by (auto simp: ipa_common_fifo_hal_put_node_to_rx_fifo_def ipa_put_pkt_to_cache_rx_fifo_def split_beta Let_def)
next
  case False
  let ?d = "2 ^ k :: u32" and ?wr = "ff_wr (rx_fifo c)"
  let ?wr' = "(?wr + n) AND PTR_MASK ?d"
  have n_le: "n \<le> ?d - filled" using n(1) ring(1) by simp
  obtain node' where copy: "put_copy node ?d desc (?wr AND (?d - 1)) n = Some node'" "length node' = length node"
      "rx_list node' (unat ?wr') (unat filled + unat n) = rx_list node (unat ?wr) (unat filled) @ take (unat n) desc"
    using put_copy_appends [of k ?d node filled n desc ?wr] ring filled(2) n_le n(2) by auto
  have left: "?d - filled \<noteq> 0" using False ring(1) by simp
  have run': "r = Some (sint n)"
      "cmn_fifo_cfg s' = (cmn_fifo_cfg s)(fid := c\<lparr>rx_fifo := (rx_fifo c)\<lparr>ff_virtual_addr := Some node', ff_wr := ?wr'\<rparr>\<rparr>)"
      "hw s' = snd (run_state (ipa_phy_update_rx_fifo_wptr m (fifo_reg_base c) ?wr')
                (snd (run_state (ipa_phy_get_rx_fifo_filled_depth m (fifo_reg_base c)) (hw s))))"
    using put_run [OF id c ring(1) [symmetric] ring(3) filled(1) left n(1) [unfolded ring(1)] copy(1) refl] run by auto
  have "unat n \<le> 2 ^ k" using n_le filled(2) ring(1,2) by (simp add: word_le_nat_alt unat_sub unat_pow2)
  also have "(2::nat) ^ k \<le> 2 ^ 15" using ring(2) by (intro power_increasing) simp_all
  finally have "sint n = int (unat n)" by (intro int_small) simp
  moreover have "fst (run_state (ipa_phy_get_rx_fifo_wptr m (fifo_reg_base c)) (hw s')) = ?wr'"
    using run' rx_wptr.get_after_set [OF ok(1), of "fifo_reg_base c" ?wr'] ok(2) wr_masked [OF ring(2), of "?wr + n"]
    by (simp add: mask_eq_exp_minus_1)
  ultimately show ?thesis using False run' copy(2,3) ring(4) by simp
qed

theorem put_node_appends_witness:
  "\<exists>r s' node'. run_state (ipa_common_fifo_hal_put_node_to_rx_fifo ram 0 (replicate 3 (zero_desc\<lparr>nd_length := 7\<rparr>)) 3) sample_hal = (r, s') \<and>
     r = Some 3 \<and> ff_virtual_addr (rx_fifo (cmn_fifo_cfg s' 0)) = Some node' \<and>
     rx_list node' (unat (ff_wr (rx_fifo (cmn_fifo_cfg s' 0)))) 3 = replicate 3 (zero_desc\<lparr>nd_length := 7\<rparr>)"
proof -
  let ?desc = "replicate 3 (zero_desc\<lparr>nd_length := 7\<rparr>)"
  obtain r s' where run: "run_state (ipa_common_fifo_hal_put_node_to_rx_fifo ram 0 ?desc 3) sample_hal = (r, s')"
    by (meson surj_pair)
  have f: "fst (run_state (ipa_phy_get_rx_fifo_filled_depth ram (fifo_reg_base sample_cfg)) (hw sample_hal)) = 0"
    by (simp add: ipa_phy_get_rx_fifo_filled_depth_def sample_defs)
  have c: "sample_cfg = cmn_fifo_cfg sample_hal 0" and d: "ff_depth (rx_fifo sample_cfg) = 2 ^ 2"
      "ff_virtual_addr (rx_fifo sample_cfg) = Some (replicate 4 zero_desc)"
    by (simp_all add: sample_defs)
  have n: "(3::u32) = min 3 (ff_depth (rx_fifo sample_cfg) - 0)" by (simp add: d)
  show ?thesis
    using put_node_appends [OF mmio_ok_ram [of "\<lambda>_. - 1"] _ c _ d(1) _ d(2) _ f [symmetric] _ n _ run] run
    by (auto simp: d)
qed

section \<open>Publishing descriptors written in place\<close>

text \<open>The ring positions of a list of ranges.\<close>

definition range_positions :: "(u32 \<times> u32) list \<Rightarrow> nat list" where
  "range_positions rs = concat (map (\<lambda>(i, n). [unat i..<unat i + unat n]) rs)"

lemma sync_ranges_positions:
  assumes d: "unat depth \<le> 2 ^ 31" and i: "index < depth" and n: "num \<le> depth"
  shows "range_positions (sync_ranges depth index num) = map (\<lambda>j. (unat index + j) mod unat depth) [0..<unat num]"
proof -
  let ?D = "unat depth" and ?i = "unat index" and ?n = "unat num"
  have iD: "?i < ?D" and nD: "?n \<le> ?D" using i n by (simp_all add: word_less_nat_alt word_le_nat_alt)
  have sum: "unat (index + num) = ?i + ?n" using iD nD d by (simp add: unat_word_ariths)
  show ?thesis
  proof (cases "index + num \<le> depth")
    case True
    then have "?i + ?n \<le> ?D" using sum by (simp add: word_le_nat_alt)
    then show ?thesis using True
      by (auto simp: range_positions_def sync_ranges_def intro!: nth_equalityI)
  next
    case False
    then have wrap: "?D < ?i + ?n" using sum by (simp add: word_le_nat_alt)
    have t: "unat (depth - index) = ?D - ?i" using i by (simp add: unat_sub word_le_nat_alt word_less_nat_alt)
    then have r: "unat (num - (depth - index)) = ?n - (?D - ?i)" using wrap by (simp add: unat_sub word_le_nat_alt)
    show ?thesis using False t r wrap iD nD
      by (auto simp: range_positions_def sync_ranges_def nth_append mod_if intro!: nth_equalityI)
  qed
qed

lemma set_wr_run:
  fixes s :: "('h, 'z) hal_scheme"
  assumes "fid < SIPA_FIFO_MAX" "c = cmn_fifo_cfg s fid" "d = ff_depth (rx_fifo c)"
    and "f = fst (run_state (ipa_phy_get_rx_fifo_filled_depth m (fifo_reg_base c)) (hw s))" "d - f \<noteq> 0"
    and "h = snd (run_state (ipa_phy_get_rx_fifo_filled_depth m (fifo_reg_base c)) (hw s))"
    and "n = min num (d - f)" "wr = (ff_wr (rx_fifo c) + n) AND PTR_MASK d"
  shows "run_state (ipa_common_fifo_hal_set_rx_fifo_wr m fid num) s =
    ((if fst (run_state (ipa_phy_update_rx_fifo_wptr m (fifo_reg_base c) wr) h) \<noteq> 0 then - EIO else 0,
      sync_ranges d (ff_wr (rx_fifo c) AND (d - 1)) n),
     s\<lparr>hw := snd (run_state (ipa_phy_update_rx_fifo_wptr m (fifo_reg_base c) wr) h),
       cmn_fifo_cfg := (cmn_fifo_cfg s)(fid := c\<lparr>rx_fifo := (rx_fifo c)\<lparr>ff_wr := wr\<rparr>\<rparr>)\<rparr>)"
proof (cases "d - f < num")
  case True
  then have "n = d - f" using assms(7) by simp
  with True assms(1,5) show ?thesis
    by (simp add: ipa_common_fifo_hal_set_rx_fifo_wr_def split_beta Let_def assms(2,3,4,6,8))
next
  case False
  then have "n = num" using assms(7) by simp
  with False assms(1,5) show ?thesis
    by (simp add: ipa_common_fifo_hal_set_rx_fifo_wr_def split_beta Let_def assms(2,3,4,6,8))
qed

text \<open>
  Publishing \<open>num\<close> descriptors that were written in place advances the write pointer by as many as
  there is room for, hands exactly those ring positions to the cache synchronisation, in order around
  the end of the ring, and leaves the device's write pointer equal to the software's.
\<close>

theorem set_rx_fifo_wr_publishes:
  fixes s :: "('h, 'z) hal_scheme"
  assumes ok: "mmio_ok m wm" "owned wm (fifo_reg_base c + IPA_COMMON_RX_FIFO_WR) 0xFFFF0000"
    and c: "c = cmn_fifo_cfg s fid" and id: "fid < SIPA_FIFO_MAX"
    and ring: "ff_depth (rx_fifo c) = 2 ^ k" "k \<le> 15"
    and filled: "filled = fst (run_state (ipa_phy_get_rx_fifo_filled_depth m (fifo_reg_base c)) (hw s))"
      "filled < ff_depth (rx_fifo c)"
    and n: "n = min num (ff_depth (rx_fifo c) - filled)"
    and run: "run_state (ipa_common_fifo_hal_set_rx_fifo_wr m fid num) s = ((r, ranges), s')"
  shows "r = 0 \<and> unat (ff_wr (rx_fifo (cmn_fifo_cfg s' fid))) = (unat (ff_wr (rx_fifo c)) + unat n) mod 2 ^ Suc k \<and>
    range_positions ranges = map (\<lambda>j. (unat (ff_wr (rx_fifo c)) + j) mod 2 ^ k) [0..<unat n] \<and>
    fst (run_state (ipa_phy_get_rx_fifo_wptr m (fifo_reg_base c)) (hw s')) = ff_wr (rx_fifo (cmn_fifo_cfg s' fid))"
proof -
  let ?d = "2 ^ k :: u32" and ?wr = "ff_wr (rx_fifo c)"
  let ?wr' = "(?wr + n) AND PTR_MASK ?d" and ?b = "fifo_reg_base c"
  define h1 where "h1 = snd (run_state (ipa_phy_get_rx_fifo_filled_depth m ?b) (hw s))"
  have left: "?d - filled \<noteq> 0" "?d \<noteq> filled" using filled(2) ring(1) by auto
  have upd: "fst (run_state (ipa_phy_update_rx_fifo_wptr m ?b ?wr') h1) = 0"
    using rx_wptr.set_succeeds [OF ok(1), of ?b ?wr' h1] ok(2) wr_masked [OF ring(2), of "?wr + n"]
    by (simp add: mask_eq_exp_minus_1)
  have "run_state (ipa_common_fifo_hal_set_rx_fifo_wr m fid num) s =
      ((0, sync_ranges ?d (?wr AND (?d - 1)) n),
       s\<lparr>hw := snd (run_state (ipa_phy_update_rx_fifo_wptr m ?b ?wr') h1),
         cmn_fifo_cfg := (cmn_fifo_cfg s)(fid := c\<lparr>rx_fifo := (rx_fifo c)\<lparr>ff_wr := ?wr'\<rparr>\<rparr>)\<rparr>)"
    using set_wr_run [OF id c ring(1) [symmetric] filled(1) left(1) h1_def n [unfolded ring(1)] refl] upd by simp
  then have res: "r = 0" "ranges = sync_ranges ?d (?wr AND (?d - 1)) n"
      "hw s' = snd (run_state (ipa_phy_update_rx_fifo_wptr m ?b ?wr') h1)" "ff_wr (rx_fifo (cmn_fifo_cfg s' fid)) = ?wr'"
    using run by auto
  have wr': "unat ?wr' = (unat ?wr + unat n) mod 2 ^ Suc k"
    using PTR_MASK_pow2 [of k] ring(2) unat_and_pow2 [of "Suc k" "?wr + n"] unat_add_mod [of "Suc k" ?wr n] by simp
  have "n \<le> ?d - filled" using n ring(1) by simp
  then have "n \<le> ?d" using filled(2) ring(1) by (simp add: word_le_nat_alt unat_sub word_less_nat_alt)
  moreover have i: "unat (?wr AND (?d - 1)) = unat ?wr mod 2 ^ k" using ring(2) by (intro unat_and_pow2) simp
  moreover have D: "unat ?d = 2 ^ k" using ring(2) by (intro unat_pow2) simp
  moreover have "(2::nat) ^ k \<le> 2 ^ 31" using ring(2) by (intro power_increasing) simp_all
  ultimately have "range_positions ranges = map (\<lambda>j. (unat ?wr mod 2 ^ k + j) mod 2 ^ k) [0..<unat n]"
    unfolding res(2) using sync_ranges_positions [of ?d "?wr AND (?d - 1)" n] by (simp add: word_less_nat_alt)
  moreover have "fst (run_state (ipa_phy_get_rx_fifo_wptr m ?b) (hw s')) = ?wr'"
    unfolding res(3) using rx_wptr.get_after_set [OF ok(1), of ?b ?wr' h1] ok(2) wr_masked [OF ring(2), of "?wr + n"]
    by (simp add: mask_eq_exp_minus_1)
  ultimately show ?thesis using res(1,4) wr' by (simp add: mod_add_left_eq)
qed

theorem set_rx_fifo_wr_publishes_witness:
  "\<exists>r rs s'. run_state (ipa_common_fifo_hal_set_rx_fifo_wr ram 0 9) sample_hal = ((r, rs), s') \<and>
     r = 0 \<and> range_positions rs = [0, 1, 2, 3] \<and> ff_wr (rx_fifo (cmn_fifo_cfg s' 0)) = 4"
proof -
  obtain r rs s' where run: "run_state (ipa_common_fifo_hal_set_rx_fifo_wr ram 0 9) sample_hal = ((r, rs), s')"
    by (metis surj_pair)
  have f: "fst (run_state (ipa_phy_get_rx_fifo_filled_depth ram (fifo_reg_base sample_cfg)) (hw sample_hal)) = 0"
    by (simp add: ipa_phy_get_rx_fifo_filled_depth_def sample_defs)
  have c: "sample_cfg = cmn_fifo_cfg sample_hal 0" and d: "ff_depth (rx_fifo sample_cfg) = 2 ^ 2"
      "ff_wr (rx_fifo sample_cfg) = 0" by (simp_all add: sample_defs)
  have n: "(4::u32) = min 9 (ff_depth (rx_fifo sample_cfg) - 0)" by (simp add: d)
  have "r = 0 \<and> unat (ff_wr (rx_fifo (cmn_fifo_cfg s' 0))) = 4 \<and> range_positions rs = [0, 1, 2, 3]"
    using set_rx_fifo_wr_publishes [OF mmio_ok_ram [of "\<lambda>_. - 1"] _ c _ d(1) _ f [symmetric] _ n run]
    by (simp add: d upt_rec)
  moreover from this have "ff_wr (rx_fifo (cmn_fifo_cfg s' 0)) = 4" by (simp add: word_unat_eq_iff)
  ultimately show ?thesis using run by blast
qed

end
