(* ===== verification/SipaSenderProps.thy ===== *)
theory SipaSenderProps
  imports SipaSender SipaFrames SipaFifoProps "HOL-Library.Multiset"
begin

text \<open>
  The sender's bookkeeping: every entry of \<open>pair_cache\<close> is in exactly one of the two lists, and the
  send credits bound what may still be sent, so the free list never runs dry. Sending and freeing keep
  this invariant. Two paths of the source lose something: credits when the sending list runs empty
  early, and the interface lock when flow control cannot be left yet.
\<close>

section \<open>The invariant\<close>

definition ring_ok :: "sipa_cmn_fifo_tag \<Rightarrow> bool" where
  "ring_ok f \<longleftrightarrow> (\<exists>k r. 2 \<le> k \<and> k \<le> 15 \<and> ff_depth f = 2 ^ k \<and> ff_virtual_addr f = Some r \<and> length r = 2 ^ k)"

definition send_fifo_ok :: "'h sipa_core \<Rightarrow> bool" where
  "send_fifo_ok s \<longleftrightarrow> send_fifo s < SIPA_FIFO_MAX \<and> fifo_id (cmn_fifo_cfg s (send_fifo s)) = send_fifo s \<and>
     ring_ok (rx_fifo (cmn_fifo_cfg s (send_fifo s))) \<and> ring_ok (tx_fifo (cmn_fifo_cfg s (send_fifo s)))"

definition send_depth :: "'h sipa_core \<Rightarrow> nat" where
  "send_depth s = unat (ff_depth (rx_fifo (cmn_fifo_cfg s (send_fifo s))))"

definition lists_ok :: "nat \<Rightarrow> sipa_skb_sender \<Rightarrow> bool" where
  "lists_ok D d \<longleftrightarrow> mset (sending_list d @ pair_free_list d) = mset [0..<D]"

definition credits_ok :: "nat \<Rightarrow> sipa_skb_sender \<Rightarrow> bool" where
  "credits_ok D d \<longleftrightarrow> 0 \<le> left_cnt d \<and> left_cnt d + int (length (sending_list d)) \<le> int (D div 4 * 3)"

definition sender_ok :: "'h sipa_core \<Rightarrow> bool" where
  "sender_ok s \<longleftrightarrow> send_fifo_ok s \<and> lists_ok (send_depth s) (sender s) \<and> credits_ok (send_depth s) (sender s)"

lemma lists_ok_length: "lists_ok D d \<Longrightarrow> length (sending_list d) + length (pair_free_list d) = D"
  by (metis lists_ok_def diff_zero length_append length_upt size_mset)

lemma free_nonempty:
  assumes "lists_ok D d" "credits_ok D d" "left_cnt d \<noteq> 0"
  obtains k rest where "pair_free_list d = k # rest"
proof (cases "pair_free_list d")
  case Nil
  then have "length (sending_list d) = D" using lists_ok_length [OF assms(1)] by simp
  moreover have "0 < left_cnt d" using assms(2,3) by (simp add: credits_ok_def)
  ultimately have "D < D div 4 * 3" using assms(2) by (simp add: credits_ok_def)
  then show ?thesis by linarith
qed (use that in blast)

lemma ring_okE:
  assumes "ring_ok f"
  obtains k r where "2 \<le> k" "k \<le> 15" "ff_depth f = 2 ^ k" "ff_virtual_addr f = Some r" "length r = 2 ^ k"
    "unat (ff_depth f) = 2 ^ k"
  using assms unat_pow2 unfolding ring_ok_def by auto

lemma ring_ok_ring:
  assumes "ring_ok f"
  obtains r where "ff_virtual_addr f = Some r" "length r = unat (ff_depth f)" "0 < length r"
  using assms by (elim ring_okE) auto

lemma ring_ok_pos: "ring_ok f \<Longrightarrow> unat (x AND (ff_depth f - 1)) = unat x mod unat (ff_depth f)"
  by (auto elim!: ring_okE simp: unat_and_pow2 unat_pow2)

lemma ring_ok_pos_less: "ring_ok f \<Longrightarrow> unat (x AND (ff_depth f - 1)) < unat (ff_depth f)"
  by (auto simp: ring_ok_pos elim!: ring_okE)

lemma ring_ok_same: "same_fifo f g \<Longrightarrow> ring_ok f = ring_ok g"
  by (auto simp: same_fifo_def ring_ok_def map_option_case split: option.splits)

lemma send_fifo_ok_same:
  assumes "send_fifo s' = send_fifo s" "same_shape (cmn_fifo_cfg s' (send_fifo s)) (cmn_fifo_cfg s (send_fifo s))"
  shows "send_fifo_ok s' = send_fifo_ok s" "send_depth s' = send_depth s"
  using assms by (auto simp: send_fifo_ok_def send_depth_def same_shape_def ring_ok_same) (simp_all add: same_fifo_def)

section \<open>Notifications\<close>

lemma notify_evt_simps [simp]:
  "sender (sipa_nic_notify_evt nic evt s) = sender s" "cmn_fifo_cfg (sipa_nic_notify_evt nic evt s) = cmn_fifo_cfg s"
  "send_fifo (sipa_nic_notify_evt nic evt s) = send_fifo s" "kfreed (sipa_nic_notify_evt nic evt s) = kfreed s"
  "hw (sipa_nic_notify_evt nic evt s) = hw s" "nics (sipa_nic_notify_evt nic evt s) = nics s"
  "remote_ready (sipa_nic_notify_evt nic evt s) = remote_ready s"
  by (simp_all add: sipa_nic_notify_evt_def)

lemma inform_nics_simps [simp]:
  "sender (inform_nics flag evt l s) = sender s" "cmn_fifo_cfg (inform_nics flag evt l s) = cmn_fifo_cfg s"
  "send_fifo (inform_nics flag evt l s) = send_fifo s" "kfreed (inform_nics flag evt l s) = kfreed s"
  "hw (inform_nics flag evt l s) = hw s"
  by (induction flag evt l s rule: inform_nics.induct) simp_all

lemma unlock_simps [simp]:
  "sender (spin_unlock_nic s) = (sender s)\<lparr>nic_lock := False\<rparr>" "cmn_fifo_cfg (spin_unlock_nic s) = cmn_fifo_cfg s"
  "send_fifo (spin_unlock_nic s) = send_fifo s" "kfreed (spin_unlock_nic s) = kfreed s" "hw (spin_unlock_nic s) = hw s"
  by (simp_all add: spin_unlock_nic_def)

lemma inform_enter:
  assumes "\<not> nic_lock (sender s)"
  shows "\<exists>s'. sipa_inform_evt_to_nics SIPA_ENTER_FLOWCTRL s = Some s' \<and> sender s' = sender s \<and>
    cmn_fifo_cfg s' = cmn_fifo_cfg s \<and> send_fifo s' = send_fifo s \<and> kfreed s' = kfreed s \<and> hw s' = hw s"
  using assms by (simp add: sipa_inform_evt_to_nics_def spin_lock_nic_def)

lemma inform_leave:
  assumes "\<not> nic_lock (sender s)"
  shows "\<exists>s'. sipa_inform_evt_to_nics SIPA_LEAVE_FLOWCTRL s = Some s' \<and>
    sender s' = (sender s)\<lparr>nic_lock := free_notify_net (sender s) \<or> ep_cover_net (sender s)\<rparr> \<and>
    cmn_fifo_cfg s' = cmn_fifo_cfg s \<and> send_fifo s' = send_fifo s \<and> kfreed s' = kfreed s \<and> hw s' = hw s"
  using assms by (auto simp: sipa_inform_evt_to_nics_def spin_lock_nic_def)

lemma sender_ok_flags:
  assumes "send_fifo s' = send_fifo s" "same_shape (cmn_fifo_cfg s' (send_fifo s)) (cmn_fifo_cfg s (send_fifo s))"
    and "sending_list (sender s') = sending_list (sender s)" "pair_free_list (sender s') = pair_free_list (sender s)"
    and "left_cnt (sender s') = left_cnt (sender s)"
  shows "sender_ok s' = sender_ok s"
  using assms send_fifo_ok_same [OF assms(1,2)] by (simp add: sender_ok_def lists_ok_def credits_ok_def)

section \<open>Sending\<close>

lemma sender_simps2 [simp]:
  "sender (s\<lparr>hw := h\<rparr>) = sender s" "sender (s\<lparr>cmn_fifo_cfg := c\<rparr>) = sender s"
  by simp_all

lemma run_get_rx_fifo_wr_0:
  assumes "fid < SIPA_FIFO_MAX" "ring_ok (rx_fifo (cmn_fifo_cfg s fid))"
  shows "fst (run_state (ipa_common_fifo_hal_get_rx_fifo_wr fid 0) s) =
    Some (ff_wr (rx_fifo (cmn_fifo_cfg s fid)) AND (ff_depth (rx_fifo (cmn_fifo_cfg s fid)) - 1))"
proof -
  from assms(2) obtain r where "ff_virtual_addr (rx_fifo (cmn_fifo_cfg s fid)) = Some r"
      "length r = unat (ff_depth (rx_fifo (cmn_fifo_cfg s fid)))" "0 < length r" by (rule ring_ok_ring)
  moreover from this have "ff_depth (rx_fifo (cmn_fifo_cfg s fid)) \<noteq> 0" by auto
  moreover note assms(1)
  ultimately show ?thesis by (simp add: ipa_common_fifo_hal_get_rx_fifo_wr_def split_beta)
qed

text \<open>What a successful send does: one entry moves from the free to the sending list and one credit goes.\<close>

definition sent_one :: "u64 \<Rightarrow> sk_buff \<Rightarrow> u32 \<Rightarrow> u8 \<Rightarrow> 'h sipa_core \<Rightarrow> 'h sipa_core \<Rightarrow> bool" where
  "sent_one addr skb dst netid s s' \<longleftrightarrow>
     (\<exists>k rest ring. pair_free_list (sender s) = k # rest \<and> pair_free_list (sender s') = rest \<and>
        sending_list (sender s') = sending_list (sender s) @ [k] \<and>
        pair_cache (sender s') = (pair_cache (sender s))(k := \<lparr>pair_skb = skb, pair_dma_addr = addr\<rparr>) \<and>
        left_cnt (sender s') = left_cnt (sender s) - 1 \<and>
        ff_virtual_addr (rx_fifo (cmn_fifo_cfg s (send_fifo s))) = Some ring \<and>
        (let pos = unat (ff_wr (rx_fifo (cmn_fifo_cfg s (send_fifo s)))) mod send_depth s in
         ff_virtual_addr (rx_fifo (cmn_fifo_cfg s' (send_fifo s))) =
           Some (ring[pos := fill_send_desc addr skb dst netid (fifo_cur (cmn_fifo_cfg s (send_fifo s))) (ring ! pos)])))"

lemma send_mapped_ok:
  assumes ok: "sender_ok s" and left: "left_cnt (sender s) \<noteq> 0"
  shows "\<exists>s'. send_mapped m addr skb dst netid s = Some (0, s') \<and> sender_ok s' \<and> sent_one addr skb dst netid s s' \<and>
    nic_lock (sender s') = nic_lock (sender s)"
proof -
  let ?fid = "send_fifo s" and ?c = "cmn_fifo_cfg s (send_fifo s)"
  have F: "send_fifo_ok s" "lists_ok (send_depth s) (sender s)" "credits_ok (send_depth s) (sender s)"
    using ok by (simp_all add: sender_ok_def)
  then have fid: "send_id s = ?fid" "?fid < SIPA_FIFO_MAX" and rk: "ring_ok (rx_fifo ?c)"
    by (simp_all add: send_fifo_ok_def send_id_def)
  from rk obtain ring where r: "ff_virtual_addr (rx_fifo ?c) = Some ring" "length ring = unat (ff_depth (rx_fifo ?c))"
    by (rule ring_ok_ring)
  note pos = ring_ok_pos [OF rk] ring_ok_pos_less [OF rk]
  obtain node rest where free: "pair_free_list (sender s) = node # rest" using free_nonempty [OF F(2,3) left] .
  define pos where "pos = unat (ff_wr (rx_fifo ?c) AND (ff_depth (rx_fifo ?c) - 1))"
  define ring' where "ring' = ring[pos := fill_send_desc addr skb dst netid (fifo_cur ?c) (ring ! pos)]"
  define s1 where "s1 = snd (run_state (mod_rx ?fid (\<lambda>f. f\<lparr>ff_virtual_addr := Some ring'\<rparr>)) s)"
  define s2 where "s2 = upd_sender (\<lambda>d. d\<lparr>pair_cache := (pair_cache d)(node := \<lparr>pair_skb = skb, pair_dma_addr = addr\<rparr>),
                          pair_free_list := rest, sending_list := sending_list d @ [node]\<rparr>) s1"
  define s3 where "s3 = snd (run_state (ipa_common_fifo_hal_set_rx_fifo_wr m ?fid 1) s2)"
  define s4 where "s4 = upd_sender (\<lambda>d. d\<lparr>left_cnt := left_cnt d - 1\<rparr>) s3"
  have run: "send_mapped m addr skb dst netid s = Some (0, s4)"
    using r pos(2) run_get_rx_fifo_wr_0 [OF fid(2) rk]
    by (simp add: send_mapped_def fid(1) Let_def split_beta free s4_def s3_def s2_def s1_def ring'_def pos_def)
  have sender1: "sender s1 = sender s" and send1: "send_fifo s1 = ?fid" by (simp_all add: s1_def)
  have sender4: "sender s4 = (sender s)\<lparr>pair_cache := (pair_cache (sender s))(node := \<lparr>pair_skb = skb, pair_dma_addr = addr\<rparr>),
      pair_free_list := rest, sending_list := sending_list (sender s) @ [node], left_cnt := left_cnt (sender s) - 1\<rparr>"
    by (simp add: s4_def s3_def s2_def sender1)
  have send4: "send_fifo s4 = ?fid" by (simp add: s4_def s3_def s2_def send1)
  have "same_shape (cmn_fifo_cfg s4 ?fid) (cmn_fifo_cfg s2 ?fid)"
    using set_rx_fifo_wr_shape [of m ?fid 1 s2 ?fid] by (simp add: s4_def s3_def)
  moreover have "same_shape (cmn_fifo_cfg s2 ?fid) ?c"
    using r by (simp add: s2_def s1_def ring'_def same_shape_def same_fifo_def)
  ultimately have shape: "same_shape (cmn_fifo_cfg s4 ?fid) ?c" by (rule same_shape_trans)
  note same = send_fifo_ok_same [OF send4 shape]
  have ring4: "ff_virtual_addr (rx_fifo (cmn_fifo_cfg s4 ?fid)) = Some ring'"
    using set_rx_fifo_wr_ring [of m ?fid 1 s2 ?fid] by (simp add: s4_def s3_def s2_def s1_def)
  have "sender_ok s4"
    using F free left same sender4 by (auto simp: sender_ok_def lists_ok_def credits_ok_def)
  moreover have "sent_one addr skb dst netid s s4"
    using free sender4 r pos(1) ring4 by (simp add: sent_one_def ring'_def pos_def send_depth_def Let_def)
  moreover have "nic_lock (sender s4) = nic_lock (sender s)" by (simp add: sender4)
  ultimately show ?thesis using run by blast
qed

text \<open>The lists and the credits of \<open>s'\<close> are those of \<open>s\<close>.\<close>

definition same_books :: "'h sipa_core \<Rightarrow> 'h sipa_core \<Rightarrow> bool" where
  "same_books s s' \<longleftrightarrow> sending_list (sender s') = sending_list (sender s) \<and>
     pair_free_list (sender s') = pair_free_list (sender s) \<and> left_cnt (sender s') = left_cnt (sender s) \<and>
     pair_cache (sender s') = pair_cache (sender s) \<and> kfreed s' = kfreed s \<and> cmn_fifo_cfg s' = cmn_fifo_cfg s \<and>
     send_fifo s' = send_fifo s"

lemma same_books_ok: "same_books s s' \<Longrightarrow> sender_ok s' = sender_ok s"
  unfolding same_books_def by (rule sender_ok_flags) auto

lemma enter_books:
  assumes "\<not> nic_lock (sender s1)" "same_books s s1"
  shows "\<exists>s'. sipa_inform_evt_to_nics SIPA_ENTER_FLOWCTRL s1 = Some s' \<and> same_books s s' \<and> \<not> nic_lock (sender s')"
  using inform_enter [OF assms(1)] assms by (auto simp: same_books_def)

text \<open>The ways in which sending ends early, by the interrupt status it has read: the books stay as they are.\<close>

lemma send_stops:
  assumes ok: "sender_ok s" and lock: "\<not> nic_lock (sender s)"
    and rd: "run_state (phy (ipa_phy_get_fifo_all_int_sts m (fifo_reg_base (cmn_fifo_cfg s (send_id s))))) s = (int_status, s0)"
    and s0: "same_books s s0" "sender s0 = sender s"
    and stop: "ep_cover_net (sender s) \<or> int_status = 0x5FF000 \<or> int_status AND IPA_INT_ENTER_FLOW_CTRL_STS \<noteq> 0 \<or>
      free_notify_net (sender s) \<or> left_cnt (sender s) = 0 \<or> dma skb = None"
  shows "\<exists>r s'. sipa_skb_sender_send_data m dma skb dst netid s = Some (r, s') \<and> sender_ok s' \<and> \<not> nic_lock (sender s') \<and>
    r \<in> {- EAGAIN, - EINPROGRESS} \<and> same_books s s'"
proof -
  have ok0: "sender_ok s0" using s0(1) ok same_books_ok by blast
  note send = sipa_skb_sender_send_data_def Let_def rd
  have enter: "\<exists>s'. sipa_inform_evt_to_nics SIPA_ENTER_FLOWCTRL t = Some s' \<and> same_books s s' \<and> \<not> nic_lock (sender s') \<and> sender_ok s'"
    if "same_books s t" "nic_lock (sender t) = nic_lock (sender s)" for t
    using enter_books [OF _ that(1)] that(2) lock same_books_ok ok by metis
  let ?flow = "int_status AND IPA_INT_ENTER_FLOW_CTRL_STS \<noteq> 0"
  consider (cover) "ep_cover_net (sender s)" | (err) "\<not> ep_cover_net (sender s)" "int_status = 0x5FF000"
    | (flow) "\<not> ep_cover_net (sender s)" "int_status \<noteq> 0x5FF000" ?flow
    | (free) "\<not> ep_cover_net (sender s)" "int_status \<noteq> 0x5FF000" "\<not> ?flow" "free_notify_net (sender s)"
    | (none) "\<not> ep_cover_net (sender s)" "int_status \<noteq> 0x5FF000" "\<not> ?flow" "\<not> free_notify_net (sender s)" "left_cnt (sender s) = 0"
    | (map) "\<not> ep_cover_net (sender s)" "int_status \<noteq> 0x5FF000" "\<not> ?flow" "\<not> free_notify_net (sender s)" "left_cnt (sender s) \<noteq> 0"
        "dma skb = None" using stop by argo
  then show ?thesis
  proof cases
    case cover
    then show ?thesis using ok lock by (simp add: sipa_skb_sender_send_data_def same_books_def)
  next
    case flow
    let ?s1 = "snd (run_state (phy (ipa_phy_clear_int m (fifo_reg_base (cmn_fifo_cfg s (send_id s))) IPA_ENTRY_FLOW_CONTROL_CLR_BIT))
        (upd_sender (\<lambda>d. d\<lparr>ep_cover_net := True, snd_enter_flow_ctrl_cnt := snd_enter_flow_ctrl_cnt d + 1\<rparr>) s0))"
    have "same_books s ?s1" "nic_lock (sender ?s1) = nic_lock (sender s)" using s0 by (simp_all add: same_books_def)
    from enter [OF this] flow show ?thesis by (auto simp: send simp del: run_phy)
  next
    case none
    let ?s1 = "upd_sender (\<lambda>d. d\<lparr>no_free_cnt := no_free_cnt d + 1, free_notify_net := True\<rparr>) s0"
    have "same_books s ?s1" "nic_lock (sender ?s1) = nic_lock (sender s)" using s0 by (simp_all add: same_books_def)
    from enter [OF this] none s0(2) show ?thesis by (auto simp: send simp del: run_phy)
  next
    case map
    let ?s1 = "upd_sender (\<lambda>d. d\<lparr>free_notify_net := True\<rparr>) s0"
    have "same_books s ?s1" "nic_lock (sender ?s1) = nic_lock (sender s)" using s0 by (simp_all add: same_books_def)
    from enter [OF this] map s0(2) show ?thesis by (auto simp: send simp del: run_phy)
  qed (use ok0 lock s0 in \<open>simp_all add: send del: run_phy\<close>)
qed

text \<open>
  C1. With the interface lock free, sending never follows a null pointer, keeps the sender's invariant and
  leaves the lock free. It returns 0 exactly when a
  buffer was mapped, moved from the head of the free list to the tail of the sending list and its
  descriptor written at the ring's write position, against one credit; every other result is EAGAIN or
  EINPROGRESS and leaves lists, credits and rings as they were.
\<close>

theorem send_data_safe:
  assumes ok: "sender_ok s" and lock: "\<not> nic_lock (sender s)"
  shows "\<exists>r s'. sipa_skb_sender_send_data m dma skb dst netid s = Some (r, s') \<and> sender_ok s' \<and> \<not> nic_lock (sender s') \<and>
    r \<in> {0, - EAGAIN, - EINPROGRESS} \<and>
    (if r = 0 then 0 < left_cnt (sender s) \<and> \<not> ep_cover_net (sender s) \<and> \<not> free_notify_net (sender s) \<and>
       (\<exists>a s0. dma skb = Some a \<and> same_books s s0 \<and> sent_one (a + pcie_mem_offset s) skb dst netid s0 s')
     else same_books s s')"
proof -
  let ?b = "fifo_reg_base (cmn_fifo_cfg s (send_id s))"
  define int_status where "int_status = fst (run_state (phy (ipa_phy_get_fifo_all_int_sts m ?b)) s)"
  define s0 where "s0 = snd (run_state (phy (ipa_phy_get_fifo_all_int_sts m ?b)) s)"
  have rd: "run_state (phy (ipa_phy_get_fifo_all_int_sts m ?b)) s = (int_status, s0)"
    by (simp add: int_status_def s0_def)
  have s0: "same_books s s0" "sender s0 = sender s" "pcie_mem_offset s0 = pcie_mem_offset s" by (simp_all add: s0_def same_books_def)
  show ?thesis
  proof (cases "ep_cover_net (sender s) \<or> int_status = 0x5FF000 \<or> int_status AND IPA_INT_ENTER_FLOW_CTRL_STS \<noteq> 0 \<or>
      free_notify_net (sender s) \<or> left_cnt (sender s) = 0 \<or> dma skb = None")
    case True
    obtain r s' where r: "sipa_skb_sender_send_data m dma skb dst netid s = Some (r, s')" "sender_ok s'" "\<not> nic_lock (sender s')"
        "r \<in> {- EAGAIN, - EINPROGRESS}" "same_books s s'"
      using send_stops [where dma = dma and skb = skb and dst = dst and netid = netid, OF ok lock rd s0(1,2) True] by blast
    then have "r \<noteq> 0" by auto
    with r show ?thesis by (intro exI [of _ r] exI [of _ s']) simp
  next
    case False
    then obtain a where a: "dma skb = Some a" by auto
    obtain s' where "send_mapped m (a + pcie_mem_offset s) skb dst netid s0 = Some (0, s')" "sender_ok s'"
        "sent_one (a + pcie_mem_offset s) skb dst netid s0 s'" "nic_lock (sender s') = nic_lock (sender s0)"
      using send_mapped_ok [of s0 m "a + pcie_mem_offset s" skb dst netid] False same_books_ok [OF s0(1)] ok s0(2) by auto
    moreover have "0 < left_cnt (sender s)" using ok False by (simp add: sender_ok_def credits_ok_def)
    ultimately show ?thesis using False a s0 lock
      by (auto simp: sipa_skb_sender_send_data_def Let_def rd simp del: run_phy)
  qed
qed

text \<open>A small core state with rings of depth 4 and a fresh sender, for the witnesses.\<close>

definition sample_skb :: sk_buff where
  "sample_skb = \<lparr>skb_id = 1, skb_len = 60, skb_headroom = 14\<rparr>"

definition sample_sender :: sipa_skb_sender where
  "sample_sender = \<lparr>left_cnt = 3, nic_list = [], nic_lock = False, sending_list = [], pair_free_list = [0, 1, 2, 3],
     pair_cache = (\<lambda>_. \<lparr>pair_skb = sample_skb, pair_dma_addr = 0\<rparr>), free_notify_net = False, ep_cover_net = False,
     no_free_cnt = 0, snd_enter_flow_ctrl_cnt = 0, snd_exit_flow_ctrl_cnt = 0, snd_run = True\<rparr>"

definition sample_receiver :: sipa_skb_receiver where
  "sample_receiver = \<lparr>recv_array = \<lparr>arr_array = Some (replicate 4 \<lparr>pair_skb = sample_skb, pair_dma_addr = 0\<rparr>), arr_rp = 0,
     arr_wp = 0, arr_depth = 4\<rparr>, rcv_rsvd = 128, need_fill_cnt = 0, tx_danger_cnt = 0, rx_danger_cnt = 0,
     rcv_nic_array = [], rcv_run = True\<rparr>"

definition sample_core :: "(u64 \<Rightarrow> u32) sipa_core" where
  "sample_core = \<lparr>hw = (\<lambda>_. 0), cmn_fifo_cfg = (\<lambda>i. sample_cfg\<lparr>fifo_id := i\<rparr>), remote_ready = True,
     pcie_mem_offset = 0x200000000, send_fifo = 1, recv_fifo = 0, nic_present = (\<lambda>_. False),
     nics = (\<lambda>_. \<lparr>nic_status_open = False, nic_src_mask = 0, nic_netid = 0, nic_cb = False, nic_need_notify = 0,
        nic_flow_ctrl_status = False, nic_continue_notify = False, nic_rm_flow_ctrl = False, nic_rx_skb_q = []\<rparr>),
     sender = sample_sender, receiver = sample_receiver, dummy_dev = None, events = [], kfreed = []\<rparr>"

lemmas sample_core_defs = sample_core_def sample_sender_def sample_receiver_def sample_defs

lemma sample_ring_ok: "ring_ok sample_fifo"
  by (simp add: ring_ok_def sample_fifo_def) (intro exI [of _ 2], simp)

lemma sample_depth: "send_depth sample_core = 4"
  by (simp add: send_depth_def sample_core_defs)

lemma sample_sender_ok: "sender_ok sample_core"
proof -
  have "lists_ok 4 sample_sender"
    by (simp add: lists_ok_def sample_sender_def upt_rec numeral_2_eq_2 numeral_3_eq_3 del: mset_upt)
  then show ?thesis
    using sample_ring_ok unfolding sender_ok_def sample_depth
    by (simp add: send_fifo_ok_def credits_ok_def sample_core_def sample_cfg_def) (simp add: sample_sender_def)
qed

theorem send_data_safe_witness:
  "\<exists>r s'. sipa_skb_sender_send_data ram (\<lambda>_. Some 0x1000) sample_skb 6 1 sample_core = Some (r, s') \<and> r = 0 \<and>
     sending_list (sender s') = [0] \<and> left_cnt (sender s') = 2 \<and> sender_ok s'"
proof -
  have lock: "\<not> nic_lock (sender sample_core)" by (simp add: sample_core_def sample_sender_def)
  obtain r s' where s': "sipa_skb_sender_send_data ram (\<lambda>_. Some 0x1000) sample_skb 6 1 sample_core = Some (r, s')"
      "sender_ok s'" and c: "if r = 0 then 0 < left_cnt (sender sample_core) \<and> \<not> ep_cover_net (sender sample_core) \<and>
       \<not> free_notify_net (sender sample_core) \<and> (\<exists>a s0. Some 0x1000 = Some a \<and> same_books sample_core s0 \<and>
         sent_one (a + pcie_mem_offset sample_core) sample_skb 6 1 s0 s') else same_books sample_core s'"
    using send_data_safe [OF sample_sender_ok lock, of ram "\<lambda>_. Some 0x1000" sample_skb 6 1] by blast
  have "r = 0"
    using s'(1) by (auto simp: sipa_skb_sender_send_data_def send_mapped_def sample_core_defs Let_def split_beta
        ipa_phy_get_fifo_all_int_sts_def split: option.splits list.splits if_splits)
  with c have "sending_list (sender s') = [0] \<and> left_cnt (sender s') = 2"
    by (auto simp: same_books_def sent_one_def sample_core_def sample_sender_def)
  with s' \<open>r = 0\<close> show ?thesis by blast
qed

end
