(* ===== verification/SipaFreeProps.thy ===== *)
theory SipaFreeProps
  imports SipaSenderProps
begin

text \<open>
  Freeing sent buffers: it keeps the sender's invariant, whatever the device returns, and the two
  paths on which credits or the interface lock are lost.
\<close>

section \<open>The loop\<close>

lemma match_sent_hit:
  "match_sent poll pos n sending cache ring = (Some k, ring') \<Longrightarrow>
   k \<in> set sending \<and> pair_dma_addr (cache k) = ucast (nd_address (ring' ! pos))"
proof (induction n arbitrary: ring)
  case 0
  then show ?case by (auto simp: match_sent.simps [of poll pos 0] find_Some_iff split: option.splits)
next
  case (Suc n)
  then show ?case by (auto simp: match_sent.simps [of poll pos "Suc n"] find_Some_iff split: option.splits)
qed

lemma match_sent_length:
  assumes "\<And>r. length (poll r) = length r"
  shows "length (snd (match_sent poll pos n sending cache ring)) = length ring"
proof (induction n arbitrary: ring)
  case 0
  show ?case by (simp add: match_sent.simps [of poll pos 0] split: option.splits)
next
  case (Suc n)
  then show ?case by (simp add: match_sent.simps [of poll pos "Suc n"] assms split: option.splits)
qed

lemma mset_move: "k \<in> set xs \<Longrightarrow> mset (remove1 k xs @ ys @ [k]) = mset (xs @ ys)"
  by simp

text \<open>What a piece of freeing work does between two states of the sender: the entries \<open>ks\<close> go.\<close>

definition freed_some :: "nat list \<Rightarrow> 'h sipa_core \<Rightarrow> 'h sipa_core \<Rightarrow> bool" where
  "freed_some ks s s' \<longleftrightarrow> send_fifo_ok s' \<and> send_depth s' = send_depth s \<and> send_fifo s' = send_fifo s \<and>
     lists_ok (send_depth s) (sender s') \<and> mset (sending_list (sender s)) = mset ks + mset (sending_list (sender s')) \<and>
     pair_free_list (sender s') = pair_free_list (sender s) @ ks \<and> pair_cache (sender s') = pair_cache (sender s) \<and>
     kfreed s' = kfreed s @ map (\<lambda>k. pair_skb (pair_cache (sender s) k)) ks \<and>
     left_cnt (sender s') = left_cnt (sender s) \<and> nic_lock (sender s') = nic_lock (sender s) \<and>
     free_notify_net (sender s') = free_notify_net (sender s) \<and> ep_cover_net (sender s') = ep_cover_net (sender s) \<and>
     ff_rd (tx_fifo (cmn_fifo_cfg s' (send_fifo s))) = ff_rd (tx_fifo (cmn_fifo_cfg s (send_fifo s))) \<and>
     ff_depth (tx_fifo (cmn_fifo_cfg s' (send_fifo s))) = ff_depth (tx_fifo (cmn_fifo_cfg s (send_fifo s)))"

lemma freed_some_refl: "send_fifo_ok s \<Longrightarrow> lists_ok (send_depth s) (sender s) \<Longrightarrow> freed_some [] s s"
  by (simp add: freed_some_def)

lemma freed_some_trans: "freed_some a s t \<Longrightarrow> freed_some b t u \<Longrightarrow> freed_some (a @ b) s u"
  by (auto simp: freed_some_def)

lemma free_one:
  assumes ok: "send_fifo_ok s" "lists_ok (send_depth s) (sender s)" and k: "k \<in> set (sending_list (sender s))"
    and ring: "length ring' = unat (ff_depth (tx_fifo (cmn_fifo_cfg s (send_fifo s))))"
  shows "freed_some [k] s (upd_sender (\<lambda>d. d\<lparr>sending_list := remove1 k (sending_list d), pair_free_list := pair_free_list d @ [k]\<rparr>)
     (s\<lparr>cmn_fifo_cfg := (cmn_fifo_cfg s)(send_fifo s := (cmn_fifo_cfg s (send_fifo s))
          \<lparr>tx_fifo := (tx_fifo (cmn_fifo_cfg s (send_fifo s)))\<lparr>ff_virtual_addr := Some ring'\<rparr>\<rparr>), kfreed := kfreed s @ [pair_skb (pair_cache (sender s) k)]\<rparr>))"
    (is "freed_some [k] s ?s")
proof -
  have rk: "ring_ok (tx_fifo (cmn_fifo_cfg s (send_fifo s)))" using ok(1) by (simp add: send_fifo_ok_def)
  then obtain r where r: "ff_virtual_addr (tx_fifo (cmn_fifo_cfg s (send_fifo s))) = Some r"
      "length r = unat (ff_depth (tx_fifo (cmn_fifo_cfg s (send_fifo s))))" by (rule ring_ok_ring)
  have "same_shape (cmn_fifo_cfg ?s (send_fifo s)) (cmn_fifo_cfg s (send_fifo s))"
    using r ring by (simp add: same_shape_def same_fifo_def)
  then have "send_fifo_ok ?s" "send_depth ?s = send_depth s"
    using send_fifo_ok_same [of ?s s] ok(1) by simp_all
  then show ?thesis
    using ok(2) k mset_move [OF k, of "pair_free_list (sender s)"]
    by (simp add: freed_some_def lists_ok_def)
qed

lemma poll_ring:
  assumes ok: "send_fifo_ok s" "lists_ok (send_depth s) (sender s)"
    and ring: "length ring' = unat (ff_depth (tx_fifo (cmn_fifo_cfg s (send_fifo s))))"
  shows "freed_some [] s (s\<lparr>cmn_fifo_cfg := (cmn_fifo_cfg s)(send_fifo s := (cmn_fifo_cfg s (send_fifo s))
          \<lparr>tx_fifo := (tx_fifo (cmn_fifo_cfg s (send_fifo s)))\<lparr>ff_virtual_addr := Some ring'\<rparr>\<rparr>)\<rparr>)" (is "freed_some [] s ?s")
proof -
  have rk: "ring_ok (tx_fifo (cmn_fifo_cfg s (send_fifo s)))" using ok(1) by (simp add: send_fifo_ok_def)
  then obtain r where r: "ff_virtual_addr (tx_fifo (cmn_fifo_cfg s (send_fifo s))) = Some r"
      "length r = unat (ff_depth (tx_fifo (cmn_fifo_cfg s (send_fifo s))))" by (rule ring_ok_ring)
  have "same_shape (cmn_fifo_cfg ?s (send_fifo s)) (cmn_fifo_cfg s (send_fifo s))"
    using r ring by (simp add: same_shape_def same_fifo_def)
  then have "send_fifo_ok ?s" "send_depth ?s = send_depth s"
    using send_fifo_ok_same [of ?s s] ok(1) by simp_all
  then show ?thesis using ok(2) by (simp add: freed_some_def)
qed

lemma free_sent_loop_ok:
  assumes poll: "\<And>r. length (poll r) = length r"
  shows "send_fifo_ok s \<Longrightarrow> lists_ok (send_depth s) (sender s) \<Longrightarrow>
    \<exists>fin ks s'. free_sent_loop m poll i n c0 s = Some ((fin, c0 + length ks), s') \<and> freed_some ks s s' \<and>
      length ks \<le> n \<and> (\<not> fin \<longrightarrow> sending_list (sender s') = [] \<and> length ks < n)"
proof (induction n arbitrary: i c0 s)
  case 0
  then show ?case using freed_some_refl by (intro exI [of _ True] exI [of _ "[]"] exI [of _ s]) simp
next
  case (Suc n)
  let ?c = "cmn_fifo_cfg s (send_fifo s)"
  have fid: "send_id s = send_fifo s" "send_fifo s < SIPA_FIFO_MAX" and rk: "ring_ok (tx_fifo ?c)"
    using Suc.prems(1) by (simp_all add: send_fifo_ok_def send_id_def)
  from rk obtain ring where r: "ff_virtual_addr (tx_fifo ?c) = Some ring" "length ring = unat (ff_depth (tx_fifo ?c))"
    by (rule ring_ok_ring)
  define pos where "pos = (ff_rd (tx_fifo ?c) + of_nat i) AND (ff_depth (tx_fifo ?c) - 1)"
  have pos: "unat pos < length ring" using ring_ok_pos_less [OF rk] r(2) by (simp add: pos_def)
  have rp: "run_state (ipa_common_fifo_hal_get_tx_fifo_rp (send_fifo s) (of_nat i)) s = (Some pos, s)"
    using fid r(1) by (simp add: ipa_common_fifo_hal_get_tx_fifo_rp_def pos_def split_beta)
  note step = fid(1) rp r(1) pos
  show ?case
  proof (cases "sending_list (sender s) = []")
    case True
    let ?s = "snd (run_state (do { ipa_common_fifo_hal_get_rx_ptr m SIPA_FIFO_PCIE_UL True True;
              ipa_common_fifo_hal_get_tx_ptr m SIPA_FIFO_PCIE_UL True True }) s)"
    have "freed_some [] s ?s"
      using Suc.prems send_fifo_ok_same [of ?s s] by (simp add: freed_some_def split_beta)
    then show ?thesis using True step
      by (intro exI [of _ False] exI [of _ "[]"] exI [of _ ?s]) (simp add: Let_def freed_some_def)
  next
    case False
    obtain hit ring' where m: "match_sent poll (unat pos) 10 (sending_list (sender s)) (pair_cache (sender s)) ring = (hit, ring')"
      by (meson surj_pair)
    have len: "length ring' = unat (ff_depth (tx_fifo ?c))"
      using match_sent_length [OF poll, of "unat pos" 10 "sending_list (sender s)" "pair_cache (sender s)" ring] m r(2) by simp
    let ?cfg = "(cmn_fifo_cfg s)(send_fifo s := ?c\<lparr>tx_fifo := (tx_fifo ?c)\<lparr>ff_virtual_addr := Some ring'\<rparr>\<rparr>)"
    show ?thesis
    proof (cases hit)
      case None
      let ?s = "s\<lparr>cmn_fifo_cfg := ?cfg\<rparr>"
      have f: "freed_some [] s ?s" by (rule poll_ring [OF Suc.prems len])
      then have "send_fifo_ok ?s" "lists_ok (send_depth ?s) (sender ?s)" by (simp_all add: freed_some_def)
      from Suc.IH [OF this, of "Suc i" c0] obtain fin ks s' where
        "free_sent_loop m poll (Suc i) n c0 ?s = Some ((fin, c0 + length ks), s')" "freed_some ks ?s s'" "length ks \<le> n"
        "\<not> fin \<longrightarrow> sending_list (sender s') = [] \<and> length ks < n" by blast
      then show ?thesis using freed_some_trans [OF f] None False step m
        by (intro exI [of _ fin] exI [of _ ks] exI [of _ s']) (auto simp: Let_def)
    next
      case (Some k)
      let ?s = "upd_sender (\<lambda>d. d\<lparr>sending_list := remove1 k (sending_list d), pair_free_list := pair_free_list d @ [k]\<rparr>)
                  (s\<lparr>cmn_fifo_cfg := ?cfg, kfreed := kfreed s @ [pair_skb (pair_cache (sender s) k)]\<rparr>)"
      have "k \<in> set (sending_list (sender s))" using match_sent_hit m Some by blast
      then have f: "freed_some [k] s ?s" by (rule free_one [OF Suc.prems _ len])
      then have "send_fifo_ok ?s" "lists_ok (send_depth ?s) (sender ?s)" by (simp_all add: freed_some_def)
      from Suc.IH [OF this, of "Suc i" "Suc c0"] obtain fin ks s' where
        "free_sent_loop m poll (Suc i) n (Suc c0) ?s = Some ((fin, Suc c0 + length ks), s')" "freed_some ks ?s s'" "length ks \<le> n"
        "\<not> fin \<longrightarrow> sending_list (sender s') = [] \<and> length ks < n" by blast
      then show ?thesis using freed_some_trans [OF f] Some False step m
        by (intro exI [of _ fin] exI [of _ "k # ks"] exI [of _ s']) (auto simp: Let_def)
    qed
  qed
qed

section \<open>The end of the work\<close>

text \<open>Nothing but the flags and the interfaces.\<close>

definition flags_only :: "'h sipa_core \<Rightarrow> 'h sipa_core \<Rightarrow> bool" where
  "flags_only s s' \<longleftrightarrow> cmn_fifo_cfg s' = cmn_fifo_cfg s \<and> send_fifo s' = send_fifo s \<and> kfreed s' = kfreed s \<and>
     sending_list (sender s') = sending_list (sender s) \<and> pair_free_list (sender s') = pair_free_list (sender s) \<and>
     left_cnt (sender s') = left_cnt (sender s)"

text \<open>The two decisions of the code after \<open>sipa_free_end\<close>, and the state they leave.\<close>

definition credits_back :: "'h sipa_core \<Rightarrow> bool" where
  "credits_back s \<longleftrightarrow> free_notify_net (sender s) \<and>
     (word_of_int (left_cnt (sender s)) :: u32) > ff_depth (rx_fifo (cmn_fifo_cfg s (send_fifo s))) div 4"

definition exit_seen :: "'h mmio \<Rightarrow> 'h sipa_core \<Rightarrow> bool" where
  "exit_seen m s \<longleftrightarrow> ep_cover_net (sender s) \<and>
     fst (run_state (ipa_phy_get_fifo_all_int_sts m (fifo_reg_base (cmn_fifo_cfg s (send_id s)))) (hw s)) AND IPA_INT_EXIT_FLOW_CTRL_STS \<noteq> 0"

lemma free_end_spec:
  assumes lock: "\<not> nic_lock (sender s)"
  shows "\<exists>s'. sipa_free_end m s = Some s' \<and> flags_only s s' \<and>
    free_notify_net (sender s') = (free_notify_net (sender s) \<and> \<not> credits_back s) \<and>
    ep_cover_net (sender s') = (ep_cover_net (sender s) \<and> \<not> exit_seen m s) \<and>
    nic_lock (sender s') = ((credits_back s \<or> exit_seen m s) \<and> (free_notify_net (sender s') \<or> ep_cover_net (sender s')))"
proof -
  define s1 where "s1 = (if credits_back s then upd_sender (\<lambda>d. d\<lparr>free_notify_net := False\<rparr>) s else s)"
  let ?b = "fifo_reg_base (cmn_fifo_cfg s (send_id s))"
  define s2 where "s2 = (if exit_seen m s then snd (run_state (phy (ipa_phy_clear_int m ?b IPA_EXIT_FLOW_CONTROL_CLR_BIT))
         (upd_sender (\<lambda>d. d\<lparr>ep_cover_net := False\<rparr>) (snd (run_state (phy (ipa_phy_get_fifo_all_int_sts m ?b)) s1))))
       else if ep_cover_net (sender s) then snd (run_state (phy (ipa_phy_get_fifo_all_int_sts m ?b)) s1) else s1)"
  have id1: "send_id s1 = send_id s" "ep_cover_net (sender s1) = ep_cover_net (sender s)" "hw s1 = hw s"
      "cmn_fifo_cfg s1 = cmn_fifo_cfg s"
    by (simp_all add: s1_def send_id_def)
  have run: "sipa_free_end m s = (if credits_back s \<or> exit_seen m s then sipa_inform_evt_to_nics SIPA_LEAVE_FLOWCTRL s2 else Some s2)"
    unfolding sipa_free_end_def Let_def credits_back_def [symmetric] s1_def [symmetric]
    using id1 by (auto simp: split_beta s2_def exit_seen_def)
  have f: "flags_only s s2" and n: "free_notify_net (sender s2) = (free_notify_net (sender s) \<and> \<not> credits_back s)"
      "ep_cover_net (sender s2) = (ep_cover_net (sender s) \<and> \<not> exit_seen m s)" "\<not> nic_lock (sender s2)"
    using lock by (auto simp: flags_only_def s2_def s1_def credits_back_def exit_seen_def)
  show ?thesis
  proof (cases "credits_back s \<or> exit_seen m s")
    case True
    obtain s' where "sipa_inform_evt_to_nics SIPA_LEAVE_FLOWCTRL s2 = Some s'"
      "sender s' = (sender s2)\<lparr>nic_lock := free_notify_net (sender s2) \<or> ep_cover_net (sender s2)\<rparr>"
      "cmn_fifo_cfg s' = cmn_fifo_cfg s2" "send_fifo s' = send_fifo s2" "kfreed s' = kfreed s2"
      using inform_leave [OF n(3)] by blast
    with True run f n show ?thesis by (auto simp: flags_only_def)
  next
    case False
    with run f n show ?thesis by (auto simp: flags_only_def)
  qed
qed

section \<open>Freeing keeps the invariant\<close>

lemma set_tx_fifo_rp_rd:
  assumes "fid < SIPA_FIFO_MAX" "ring_ok f" "ff_depth (tx_fifo (cmn_fifo_cfg s fid)) = ff_depth f"
  shows "unat (ff_rd (tx_fifo (cmn_fifo_cfg (snd (run_state (ipa_common_fifo_hal_set_tx_fifo_rp m fid n) s)) fid))) =
     unat (ff_rd (tx_fifo (cmn_fifo_cfg s fid)) + n) mod (2 * unat (ff_depth f))"
  using assms(2)
proof (rule ring_okE)
  fix k assume k: "k \<le> 15" "ff_depth f = 2 ^ k" "unat (ff_depth f) = 2 ^ k"
  then show ?thesis using assms(1,3) PTR_MASK_pow2 [of k] unat_and_pow2 [of "Suc k" "ff_rd (tx_fifo (cmn_fifo_cfg s fid)) + n"]
    by (simp add: ipa_common_fifo_hal_set_tx_fifo_rp_def split_beta Let_def)
qed

text \<open>
  C2. Freeing sent buffers never follows a null pointer, whatever descriptors and fill count the device
  shows (the interface lock being free), and keeps the sender's invariant. The entries \<open>ks\<close> leave the
  sending list and are appended to the free list, and exactly their buffers are given back to the kernel,
  in that order. When all \<open>num\<close> returned descriptors were looked at, exactly that many credits come back
  and the read pointer of the FIFO advances by \<open>num\<close>, modulo twice the depth. Otherwise (\<open>fin\<close> is false) no credit comes back
  and the read pointer stays, and this happens only when the sending list ran empty with fewer than
  \<open>num\<close> entries freed.
\<close>

theorem free_sent_safe:
  assumes ok: "sender_ok s" and lock: "\<not> nic_lock (sender s)" and poll: "\<And>r. length (poll r) = length r"
    and recv: "(num, s0) = run_state (ipa_common_fifo_hal_recv_node_from_tx_fifo m (send_id s)) s"
  shows "\<exists>s' ks fin s1. sipa_free_sent_items m poll s = Some s' \<and> sender_ok s' \<and>
    free_sent_loop m poll 0 (unat num) 0 s0 = Some ((fin, length ks), s1) \<and> length ks \<le> unat num \<and>
    mset (sending_list (sender s)) = mset ks + mset (sending_list (sender s')) \<and>
    pair_free_list (sender s') = pair_free_list (sender s) @ ks \<and>
    kfreed s' = kfreed s @ map (\<lambda>k. pair_skb (pair_cache (sender s) k)) ks \<and>
    (let f = tx_fifo (cmn_fifo_cfg s (send_fifo s)); rd' = ff_rd (tx_fifo (cmn_fifo_cfg s' (send_fifo s))) in
     if fin then left_cnt (sender s') = left_cnt (sender s) + int (length ks) \<and>
       unat rd' = unat (ff_rd f + num) mod (2 * unat (ff_depth f))
     else left_cnt (sender s') = left_cnt (sender s) \<and> rd' = ff_rd f \<and>
       sending_list (sender s') = [] \<and> length ks < unat num)"
proof -
  have s0: "s0 = snd (run_state (ipa_common_fifo_hal_recv_node_from_tx_fifo m (send_id s)) s)" by (simp flip: recv)
  have same0: "sender s0 = sender s" "send_fifo s0 = send_fifo s" "kfreed s0 = kfreed s" "send_fifo_ok s0 = send_fifo_ok s"
      "send_depth s0 = send_depth s" "cmn_fifo_cfg s0 = cmn_fifo_cfg s"
    using send_fifo_ok_same [of s0 s] by (simp_all add: s0)
  have O: "send_fifo_ok s" "lists_ok (send_depth s) (sender s)" "credits_ok (send_depth s) (sender s)"
    using ok by (simp_all add: sender_ok_def)
  then obtain fin ks s1 where loop: "free_sent_loop m poll 0 (unat num) 0 s0 = Some ((fin, length ks), s1)" "freed_some ks s0 s1"
      "length ks \<le> unat num" "\<not> fin \<longrightarrow> sending_list (sender s1) = [] \<and> length ks < unat num"
    using free_sent_loop_ok [OF poll, of s0 m 0 "unat num" 0] same0 by auto
  note f = loop(2) [unfolded freed_some_def same0]
  define s2 where "s2 = (if fin then upd_sender (\<lambda>d. d\<lparr>left_cnt := left_cnt d + int (length ks)\<rparr>)
      (snd (run_state (ipa_common_fifo_hal_set_tx_fifo_rp m (send_id s1) num) s1)) else s1)"
  have s2: "sending_list (sender s2) = sending_list (sender s1)" "pair_free_list (sender s2) = pair_free_list (sender s1)"
      "left_cnt (sender s2) = (if fin then left_cnt (sender s) + int (length ks) else left_cnt (sender s))"
      "kfreed s2 = kfreed s1" "send_fifo s2 = send_fifo s1" "nic_lock (sender s2) = nic_lock (sender s)"
    using f by (simp_all add: s2_def)
  have shape2: "same_shape (cmn_fifo_cfg s2 (send_fifo s1)) (cmn_fifo_cfg s1 (send_fifo s1))"
    using set_tx_fifo_rp_shape [of m "send_id s1" num s1 "send_fifo s1"] by (simp add: s2_def)
  note ok2 = send_fifo_ok_same [OF s2(5) shape2]
  let ?f = "tx_fifo (cmn_fifo_cfg s (send_fifo s))" and ?rd = "\<lambda>s'. ff_rd (tx_fifo (cmn_fifo_cfg s' (send_fifo s)))"
  have "send_id s1 = send_fifo s" using f by (auto simp: send_fifo_ok_def send_id_def)
  then have rd2: "if fin then unat (?rd s2) = unat (ff_rd ?f + num) mod (2 * unat (ff_depth ?f)) else ?rd s2 = ff_rd ?f"
    using f O(1) set_tx_fifo_rp_rd [of "send_fifo s" ?f s1 m num]
    by (simp add: s2_def send_fifo_ok_def)
  have run: "sipa_free_sent_items m poll s = sipa_free_end m s2"
    using loop(1) by (simp add: sipa_free_sent_items_def split_beta s2_def flip: recv)
  have "\<not> nic_lock (sender s2)" using lock s2(6) by simp
  then obtain s' where s': "sipa_free_end m s2 = Some s'" "flags_only s2 s'" using free_end_spec by blast
  note fl = s'(2) [unfolded flags_only_def]
  have "send_fifo_ok s'" "send_depth s' = send_depth s"
    using ok2 f send_fifo_ok_same [of s' s2] fl by auto
  moreover have "lists_ok (send_depth s) (sender s')"
  proof -
    have "lists_ok (send_depth s) (sender s1)" using f by simp
    moreover have "sending_list (sender s') = sending_list (sender s1)" "pair_free_list (sender s') = pair_free_list (sender s1)"
      using fl s2(1,2) by simp_all
    ultimately show ?thesis by (simp only: lists_ok_def)
  qed
  moreover have "credits_ok (send_depth s) (sender s')"
  proof -
    have "mset (sending_list (sender s)) = mset ks + mset (sending_list (sender s'))" using f fl s2(1) by simp
    then have "length (sending_list (sender s)) = length ks + length (sending_list (sender s'))"
      by (metis size_mset size_union)
    moreover have "left_cnt (sender s') \<in> {left_cnt (sender s), left_cnt (sender s) + int (length ks)}"
      using fl s2(3) by simp
    ultimately show ?thesis using O(3) by (auto simp: credits_ok_def)
  qed
  ultimately have "sender_ok s'" by (simp add: sender_ok_def)
  then show ?thesis using run s' fl s2 f loop rd2
    by (intro exI [of _ s'] exI [of _ ks] exI [of _ fin] exI [of _ s1]) (simp add: Let_def)
qed

text \<open>One buffer in flight, and a device that reports \<open>n\<close> returned descriptors.\<close>

definition sample_flight :: "u32 \<Rightarrow> (u64 \<Rightarrow> u32) sipa_core" where
  "sample_flight n = sample_core\<lparr>hw := (\<lambda>_. n), sender := sample_sender\<lparr>sending_list := [0], pair_free_list := [1, 2, 3], left_cnt := 2\<rparr>\<rparr>"

lemma sample_flight_ok: "sender_ok (sample_flight n)" "\<not> nic_lock (sender (sample_flight n))"
proof -
  have "send_fifo_ok (sample_flight n) = send_fifo_ok sample_core" "send_depth (sample_flight n) = send_depth sample_core"
    using send_fifo_ok_same [of "sample_flight n" sample_core] by (simp_all add: sample_flight_def)
  moreover have "lists_ok 4 (sender (sample_flight n))"
    by (simp add: lists_ok_def sample_flight_def upt_rec numeral_2_eq_2 numeral_3_eq_3 del: mset_upt)
  ultimately show "sender_ok (sample_flight n)" using sample_sender_ok
    by (simp add: sender_ok_def sample_depth credits_ok_def) (simp add: sample_flight_def)
  show "\<not> nic_lock (sender (sample_flight n))" by (simp add: sample_flight_def sample_sender_def)
qed

lemma sample_flight_recv:
  assumes "n = 1 \<or> n = 2"
  shows "run_state (ipa_common_fifo_hal_recv_node_from_tx_fifo ram (send_id (sample_flight n))) (sample_flight n) = (n, sample_flight n)"
  using assms by (auto simp: sample_flight_def sample_core_defs ipa_common_fifo_hal_recv_node_from_tx_fifo_def send_id_def
      ipa_recv_pkts_from_tx_fifo_def ipa_phy_get_tx_fifo_filled_depth_def split_beta)

lemma sample_flight_loop:
  "\<exists>s1. free_sent_loop ram (\<lambda>r. r) 0 (unat (1::u32)) 0 (sample_flight 1) = Some ((True, 1), s1)"
  "\<exists>s1. free_sent_loop ram (\<lambda>r. r) 0 (unat (2::u32)) 0 (sample_flight 2) = Some ((False, 1), s1)"
proof -
  have two: "unat (2::u32) = Suc (Suc 0)" "unat (1::u32) = Suc 0" by simp_all
  show "\<exists>s1. free_sent_loop ram (\<lambda>r. r) 0 (unat (1::u32)) 0 (sample_flight 1) = Some ((True, 1), s1)"
    "\<exists>s1. free_sent_loop ram (\<lambda>r. r) 0 (unat (2::u32)) 0 (sample_flight 2) = Some ((False, 1), s1)"
    unfolding two
    by (simp_all add: sample_flight_def sample_core_defs send_id_def split_beta Let_def
      ipa_common_fifo_hal_get_tx_fifo_rp_def match_sent.simps zero_desc_def)
qed

theorem free_sent_safe_witness:
  "\<exists>s'. sipa_free_sent_items ram (\<lambda>r. r) (sample_flight 1) = Some s' \<and> sender_ok s' \<and> left_cnt (sender s') = 3 \<and>
     pair_free_list (sender s') = [1, 2, 3, 0] \<and> sending_list (sender s') = [] \<and> length (kfreed s') = 1 \<and>
     unat (ff_rd (tx_fifo (cmn_fifo_cfg s' 1))) = 1"
proof -
  let ?s = "sample_flight 1"
  obtain s1 where s1: "free_sent_loop ram (\<lambda>r. r) 0 (unat (1::u32)) 0 ?s = Some ((True, 1), s1)"
    using sample_flight_loop by blast
  have s: "sending_list (sender ?s) = [0]" "pair_free_list (sender ?s) = [1, 2, 3]"
    "left_cnt (sender ?s) = 2" "kfreed ?s = []" "send_fifo ?s = 1"
    "ff_rd (tx_fifo (cmn_fifo_cfg ?s 1)) = 0" "ff_depth (tx_fifo (cmn_fifo_cfg ?s 1)) = 4"
    by (simp_all add: sample_flight_def sample_core_defs)
  show ?thesis
    using free_sent_safe [OF sample_flight_ok _ sample_flight_recv [of 1, symmetric], of "\<lambda>r. r"] s1
    unfolding s Let_def by (auto simp: Suc_length_conv)
qed

section \<open>What is lost\<close>



text \<open>
  C39. The lock of the interface list can stay held for ever: when the credits are back but the endpoint
  still covers the net and has not signalled the exit, the end of the freeing work returns with
  \<open>nic_lock\<close> held, and from then on every notification and every opening or closing of an interface
  spins on it.
\<close>

theorem leave_flow_control_deadlock:
  assumes lock: "\<not> nic_lock (sender s)" and "credits_back s" "ep_cover_net (sender s)" "\<not> exit_seen m s"
  shows "\<exists>s'. sipa_free_end m s = Some s' \<and> nic_lock (sender s') \<and> (\<forall>evt. sipa_inform_evt_to_nics evt s' = None) \<and>
    (\<forall>nic. sipa_skb_sender_add_nic nic s' = None \<and> sipa_skb_sender_remove_nic nic s' = None)"
proof -
  obtain s' where "sipa_free_end m s = Some s'" "nic_lock (sender s')"
    using free_end_spec [OF lock, of m] assms by auto
  then show ?thesis
    by (auto simp: sipa_inform_evt_to_nics_def spin_lock_nic_def sipa_skb_sender_add_nic_def sipa_skb_sender_remove_nic_def)
qed

theorem leave_flow_control_deadlock_witness:
  "\<exists>s'. sipa_free_end ram (sample_core\<lparr>sender := sample_sender\<lparr>free_notify_net := True, ep_cover_net := True\<rparr>\<rparr>) = Some s' \<and>
     nic_lock (sender s') \<and> sipa_skb_sender_add_nic 0 s' = None"
  using leave_flow_control_deadlock [of "sample_core\<lparr>sender := sample_sender\<lparr>free_notify_net := True, ep_cover_net := True\<rparr>\<rparr>" ram]
  by (auto simp: credits_back_def exit_seen_def sample_core_defs send_id_def ipa_phy_get_fifo_all_int_sts_def)

end
