(* ===== verification/SipaReceiver.thy ===== *)
theory SipaReceiver
  imports SipaState
begin

text \<open>
  The receive side: \<^verbatim>\<open>quectel_SRPD_PCIE/src/sipa/sipa_skb_recv.c\<close>, little-endian build. \<open>recv_array\<close>
  is a ring with free-running 32-bit counters that remembers, in order, the buffers handed to the
  device. The kernel's allocator and DMA mapping are parameters: \<open>dev_alloc i\<close> is the buffer that the
  \<open>i\<close>-th allocation of a call returns, \<open>dma skb\<close> the address of its mapping, \<open>None\<close> their failures.
  A result \<open>None\<close> of an operation is an access outside an array or through a null pointer.
\<close>

abbreviation (input) SIPA_RECV_BUF_LEN :: u32 where "SIPA_RECV_BUF_LEN \<equiv> 1600"
abbreviation (input) SIPA_RECV_RSVD_LEN :: u32 where "SIPA_RECV_RSVD_LEN \<equiv> 128"

section \<open>The array of posted buffers\<close>

definition put_recv_array_node :: "sipa_skb_array \<Rightarrow> sk_buff \<Rightarrow> u64 \<Rightarrow> (int \<times> sipa_skb_array) option" where
  "put_recv_array_node p skb dma_addr =
     (if arr_wp p - arr_rp p < arr_depth p then
        let pos = arr_wp p AND (arr_depth p - 1) in
        case arr_array p of
          None \<Rightarrow> None
        | Some a \<Rightarrow>
            if unat pos < length a
            then Some (0, p\<lparr>arr_array := Some (a[unat pos := \<lparr>pair_skb = skb, pair_dma_addr = dma_addr\<rparr>]),
                            arr_wp := arr_wp p + 1\<rparr>)
            else None
      else Some (- 1, p))"

definition get_recv_array_node :: "sipa_skb_array \<Rightarrow> ((sk_buff \<times> u64) option \<times> sipa_skb_array) option" where
  "get_recv_array_node p =
     (if arr_rp p \<noteq> arr_wp p then
        let pos = arr_rp p AND (arr_depth p - 1) in
        case arr_array p of
          None \<Rightarrow> None
        | Some a \<Rightarrow>
            if unat pos < length a
            then Some (Some (pair_skb (a ! unat pos), pair_dma_addr (a ! unat pos)), p\<lparr>arr_rp := arr_rp p + 1\<rparr>)
            else None
      else Some (None, p))"

text \<open>\<open>alloc\<close> is the zeroed memory \<open>kzalloc\<close> returned, \<open>None\<close> when it failed.\<close>

definition create_recv_array :: "sipa_skb_dma_addr_node list option \<Rightarrow> sipa_skb_array \<Rightarrow> u32 \<Rightarrow> int \<times> sipa_skb_array" where
  "create_recv_array alloc p depth =
     (case alloc of
        None \<Rightarrow> (- ENOMEM, p\<lparr>arr_array := None\<rparr>)
      | Some a \<Rightarrow> (0, p\<lparr>arr_array := Some a, arr_rp := 0, arr_wp := 0, arr_depth := depth\<rparr>))"

definition destroy_recv_array :: "sipa_skb_array \<Rightarrow> sipa_skb_array" where
  "destroy_recv_array p = p\<lparr>arr_array := None, arr_rp := 0, arr_wp := 0, arr_depth := 0\<rparr>"

definition sipa_reinit_recv_array :: "'h sipa_core \<Rightarrow> 'h sipa_core" where
  "sipa_reinit_recv_array s =
     (if arr_array (recv_array (receiver s)) = None then s
      else upd_receiver (\<lambda>r. r\<lparr>recv_array := (recv_array r)\<lparr>arr_rp := 0, arr_wp := arr_depth (recv_array r)\<rparr>\<rparr>) s)"

section \<open>Posting free buffers\<close>

definition alloc_recv_skb :: "sk_buff option \<Rightarrow> u8 \<Rightarrow> sk_buff option" where
  "alloc_recv_skb alloc rsvd =
     map_option (\<lambda>skb. let hr = skb_headroom skb in
        if hr < ucast rsvd then skb\<lparr>skb_headroom := hr + (ucast rsvd - hr)\<rparr> else skb) alloc"

text \<open>\<open>skb_put\<close> grows the data area at its end, \<open>skb_push\<close> moves its start into the headroom.\<close>

definition skb_put :: "u32 \<Rightarrow> sk_buff \<Rightarrow> sk_buff" where
  "skb_put n skb = skb\<lparr>skb_len := skb_len skb + n\<rparr>"

definition skb_push :: "u32 \<Rightarrow> sk_buff \<Rightarrow> sk_buff" where
  "skb_push n skb = skb\<lparr>skb_len := skb_len skb + n, skb_headroom := skb_headroom skb - n\<rparr>"

definition size_recv_skb :: "sk_buff \<Rightarrow> sk_buff" where
  "size_recv_skb skb =
     (let tmp = skb_headroom skb in
      if tmp > SIPA_RECV_RSVD_LEN
      then let tmp = tmp - SIPA_RECV_RSVD_LEN in skb_push tmp (skb_put (SIPA_RECV_BUF_LEN - tmp) skb)
      else skb_put SIPA_RECV_BUF_LEN skb)"

definition fill_recv_desc :: "u64 \<Rightarrow> sk_buff \<Rightarrow> sipa_cmn_fifo_cfg_tag \<Rightarrow> sipa_node_description_tag \<Rightarrow> sipa_node_description_tag" where
  "fill_recv_desc dma_addr skb cmn node =
     node\<lparr>nd_address := ucast dma_addr, nd_length := ucast (skb_len skb), nd_offset := ucast (skb_headroom skb),
          nd_dst := ucast (fifo_dst cmn), nd_src := ucast (fifo_cur cmn), nd_intr := 0, nd_net_id := 0,
          nd_err_code := 0\<rparr>"

text \<open>
  One round of the filling loop: \<open>Some (False, s)\<close> is its \<open>break\<close>. The result of
  \<open>put_recv_array_node\<close> is ignored, as in the source.
\<close>

definition fill_one ::
    "(nat \<Rightarrow> sk_buff option) \<Rightarrow> (sk_buff \<Rightarrow> u64 option) \<Rightarrow> nat \<Rightarrow> 'h sipa_core \<Rightarrow> (bool \<times> 'h sipa_core) option" where
  "fill_one dev_alloc dma i s =
     (case alloc_recv_skb (dev_alloc i) (ucast (rcv_rsvd (receiver s))) of
        None \<Rightarrow> Some (False, s)
      | Some skb \<Rightarrow>
          (let skb = size_recv_skb skb in
           case dma skb of
             None \<Rightarrow> Some (False, s\<lparr>kfreed := kfreed s @ [skb]\<rparr>)
           | Some dma_addr \<Rightarrow>
               (let fid = recv_id s;
                    (node, s) = run_state (ipa_common_fifo_hal_get_rx_fifo_wr fid (of_nat i)) s in
                case (node, ff_virtual_addr (rx_fifo (cmn_fifo_cfg s fid))) of
                  (Some pos, Some ring) \<Rightarrow>
                    if \<not> unat pos < length ring then None
                    else let dma_addr = dma_addr + pcie_mem_offset s;
                             s = snd (run_state (mod_rx fid (\<lambda>f. f\<lparr>ff_virtual_addr := Some (ring[unat pos :=
                                   fill_recv_desc dma_addr skb (cmn_fifo_cfg s (recv_fifo s)) (ring ! unat pos)])\<rparr>)) s) in
                         map_option (\<lambda>(_, p). (True, upd_receiver (\<lambda>r. r\<lparr>recv_array := p\<rparr>) s))
                           (put_recv_array_node (recv_array (receiver s)) skb dma_addr)
                | _ \<Rightarrow> Some (False, s\<lparr>kfreed := kfreed s @ [skb]\<rparr>))))"

fun fill_loop ::
    "(nat \<Rightarrow> sk_buff option) \<Rightarrow> (sk_buff \<Rightarrow> u64 option) \<Rightarrow> nat \<Rightarrow> nat \<Rightarrow> u32 \<Rightarrow> 'h sipa_core \<Rightarrow> (u32 \<times> 'h sipa_core) option" where
  "fill_loop dev_alloc dma i 0 success_cnt s = Some (success_cnt, s)"
| "fill_loop dev_alloc dma i (Suc n) success_cnt s =
     (case fill_one dev_alloc dma i s of
        None \<Rightarrow> None
      | Some (False, s) \<Rightarrow> Some (success_cnt, s)
      | Some (True, s) \<Rightarrow> fill_loop dev_alloc dma (Suc i) n (success_cnt + 1) s)"

definition sipa_prepare_free_node_init ::
    "(nat \<Rightarrow> sk_buff option) \<Rightarrow> (sk_buff \<Rightarrow> u64 option) \<Rightarrow> u32 \<Rightarrow> 'h sipa_core \<Rightarrow> 'h sipa_core option" where
  "sipa_prepare_free_node_init dev_alloc dma cnt s = map_option snd (fill_loop dev_alloc dma 0 (unat cnt) 0 s)"

definition fill_free_fifo ::
    "'h mmio \<Rightarrow> (nat \<Rightarrow> sk_buff option) \<Rightarrow> (sk_buff \<Rightarrow> u64 option) \<Rightarrow> u32 \<Rightarrow> 'h sipa_core \<Rightarrow> 'h sipa_core option" where
  "fill_free_fifo m dev_alloc dma cnt s =
     (let depth = ff_depth (rx_fifo (cmn_fifo_cfg s (recv_fifo s)));
          s = (if cnt > depth - depth div 4
               then upd_receiver (\<lambda>r. r\<lparr>rx_danger_cnt := rx_danger_cnt r + 1\<rparr>) s else s) in
      case fill_loop dev_alloc dma 0 (unat cnt) 0 s of
        None \<Rightarrow> None
      | Some (success_cnt, s) \<Rightarrow>
          if success_cnt = 0 then Some s
          else let s = snd (run_state (ipa_common_fifo_hal_set_rx_fifo_wr m (recv_id s) success_cnt) s) in
            Some (if need_fill_cnt (receiver s) > 0
                  then upd_receiver (\<lambda>r. r\<lparr>need_fill_cnt := need_fill_cnt r - uint success_cnt\<rparr>) s else s))"

definition sipa_fill_free_node :: "'h mmio \<Rightarrow> u32 \<Rightarrow> 'h sipa_core \<Rightarrow> 'h sipa_core" where
  "sipa_fill_free_node m cnt s =
     upd_receiver (\<lambda>r. r\<lparr>need_fill_cnt := 0\<rparr>)
       (snd (run_state (ipa_common_fifo_hal_set_rx_fifo_wr m (recv_id s) cnt) s))"

section \<open>Receiving\<close>

text \<open>The loop of \<open>sipa_free_recv_skb\<close> empties the array; \<open>n\<close> bounds its rounds.\<close>

fun free_recv_loop :: "nat \<Rightarrow> 'h sipa_core \<Rightarrow> 'h sipa_core option" where
  "free_recv_loop 0 s = None"
| "free_recv_loop (Suc n) s =
     (case get_recv_array_node (recv_array (receiver s)) of
        None \<Rightarrow> None
      | Some (None, p) \<Rightarrow> Some s
      | Some (Some (skb, addr), p) \<Rightarrow>
          free_recv_loop n (upd_receiver (\<lambda>r. r\<lparr>recv_array := p\<rparr>) (s\<lparr>kfreed := kfreed s @ [skb]\<rparr>)))"

definition sipa_free_recv_skb :: "'h sipa_core \<Rightarrow> 'h sipa_core option" where
  "sipa_free_recv_skb s =
     free_recv_loop (Suc (unat (arr_wp (recv_array (receiver s)) - arr_rp (recv_array (receiver s))))) s"

text \<open>
  Reading the descriptor again while \<open>bad\<close> holds of it and \<open>retry_cnt\<close> lasts. \<open>poll\<close> is what the
  device does to the ring between two looks.
\<close>

fun retry_desc :: "(sipa_node_description_tag list \<Rightarrow> sipa_node_description_tag list) \<Rightarrow>
    (sipa_node_description_tag \<Rightarrow> bool) \<Rightarrow> nat \<Rightarrow> nat \<Rightarrow> sipa_node_description_tag list \<Rightarrow> sipa_node_description_tag list" where
  "retry_desc poll bad pos 0 ring = ring"
| "retry_desc poll bad pos (Suc n) ring =
     (if bad (ring ! pos) then retry_desc poll bad pos n (poll ring) else ring)"

definition drop_recv_skb :: "'h mmio \<Rightarrow> sk_buff \<Rightarrow> 'h sipa_core \<Rightarrow> 'h sipa_core" where
  "drop_recv_skb m skb s =
     snd (run_state (ipa_common_fifo_hal_set_tx_fifo_rp m (recv_id s) 1)
       (upd_receiver (\<lambda>r. r\<lparr>need_fill_cnt := need_fill_cnt r + 1\<rparr>) (s\<lparr>kfreed := kfreed s @ [skb]\<rparr>)))"

definition sipa_recv_skb ::
    "'h mmio \<Rightarrow> (sipa_node_description_tag list \<Rightarrow> sipa_node_description_tag list) \<Rightarrow> int \<Rightarrow> 'h sipa_core \<Rightarrow>
     ((sk_buff \<times> int) option \<times> 'h sipa_core) option" where
  "sipa_recv_skb m poll index s =
     (case get_recv_array_node (recv_array (receiver s)) of
        None \<Rightarrow> None
      | Some (got, p) \<Rightarrow>
          (let s = upd_receiver (\<lambda>r. r\<lparr>recv_array := p\<rparr>) s; fid = recv_id s;
               set_ring = (\<lambda>ring. snd \<circ> run_state (mod_tx fid (\<lambda>f. f\<lparr>ff_virtual_addr := Some ring\<rparr>)));
               (node, s) = run_state (ipa_common_fifo_hal_get_tx_fifo_rp fid (word_of_int index)) s in
           case (node, ff_virtual_addr (tx_fifo (cmn_fifo_cfg s fid))) of
             (Some pos, Some ring) \<Rightarrow>
               if \<not> unat pos < length ring then None
               else let ring = retry_desc poll (\<lambda>d. nd_address d = 0) (unat pos) 10 ring in
                 if nd_address (ring ! unat pos) = 0 then
                   Some (None, case got of None \<Rightarrow> set_ring ring s
                               | Some (skb, addr) \<Rightarrow> drop_recv_skb m skb (set_ring ring s))
                 else (case got of
                     None \<Rightarrow> Some (None, set_ring ring s)
                   | Some (skb, addr) \<Rightarrow>
                       let ring = retry_desc poll (\<lambda>d. addr \<noteq> ucast (nd_address d)) (unat pos) 10 ring in
                       if addr \<noteq> ucast (nd_address (ring ! unat pos))
                       then Some (None, drop_recv_skb m skb (set_ring ring s))
                       else Some (Some (skb, uint (nd_net_id (ring ! unat pos))),
                              upd_receiver (\<lambda>r. r\<lparr>need_fill_cnt := need_fill_cnt r + 1\<rparr>) (set_ring ring s)))
           | _ \<Rightarrow> None))"

definition sipa_check_recv_tx_fifo_empty :: "'h mmio \<Rightarrow> 'h sipa_core \<Rightarrow> bool \<times> 'h sipa_core" where
  "sipa_check_recv_tx_fifo_empty m s =
     (if \<not> remote_ready s then (True, s)
      else let (e, s) = run_state (ipa_common_fifo_hal_get_tx_empty_status m (recv_id s)) s in (e \<noteq> 0, s))"

section \<open>Set-up\<close>

definition sipa_receiver_open_cmn_fifo :: "'h mmio \<Rightarrow> 'h sipa_core \<Rightarrow> 'h sipa_core" where
  "sipa_receiver_open_cmn_fifo m s =
     (let fid = recv_id s;
          s = snd (run_state (ipa_common_fifo_hal_open m fid 0) s);
          s = sipa_fill_free_node m (ff_depth (rx_fifo (cmn_fifo_cfg s (recv_fifo s)))) s in
      snd (run_state (do {
        ipa_common_fifo_hal_set_hw_intr_thres m fid 1 64;
        ipa_common_fifo_hal_set_hw_intr_timeout m fid 1 0x32 }) s))"

definition sipa_receiver_init ::
    "(nat \<Rightarrow> sk_buff option) \<Rightarrow> (sk_buff \<Rightarrow> u64 option) \<Rightarrow> u32 \<Rightarrow> 'h sipa_core \<Rightarrow> 'h sipa_core option" where
  "sipa_receiver_init dev_alloc dma rsvd s =
     (let s = snd (run_state (mod_cfg (recv_id s) (\<lambda>c. c\<lparr>irq_cb := Receiver_notify_cb\<rparr>)) s);
          s = upd_receiver (\<lambda>r. r\<lparr>rcv_rsvd := rsvd\<rparr>) s in
      sipa_prepare_free_node_init dev_alloc dma (ff_depth (rx_fifo (cmn_fifo_cfg s (recv_fifo s)))) s)"

definition sipa_receiver_add_nic :: "nat \<Rightarrow> 'h sipa_core \<Rightarrow> 'h sipa_core" where
  "sipa_receiver_add_nic nic s =
     (if nic \<in> set (rcv_nic_array (receiver s)) then s
      else upd_receiver (\<lambda>r. if int (length (rcv_nic_array r)) < SIPA_NIC_MAX
             then r\<lparr>rcv_nic_array := rcv_nic_array r @ [nic]\<rparr> else r) s)"

text \<open>
  \<open>alloc_ok\<close>, \<open>array\<close> and \<open>thread_ok\<close> are the outcomes of the two allocations and of
  \<open>kthread_create\<close>. When the thread cannot be created the receiver is freed but the buffers posted so
  far and the callback stay behind.
\<close>

definition create_sipa_skb_receiver ::
    "bool \<Rightarrow> sipa_skb_dma_addr_node list option \<Rightarrow> bool \<Rightarrow> int \<Rightarrow> (nat \<Rightarrow> sk_buff option) \<Rightarrow> (sk_buff \<Rightarrow> u64 option) \<Rightarrow>
     'h sipa_core \<Rightarrow> (int \<times> 'h sipa_core) option" where
  "create_sipa_skb_receiver alloc_ok array thread_ok err dev_alloc dma s =
     (if \<not> alloc_ok then Some (- ENOMEM, s) else
      let (ret, p) = create_recv_array array \<lparr>arr_array = None, arr_rp = 0, arr_wp = 0, arr_depth = 0\<rparr>
                       (ff_depth (rx_fifo (cmn_fifo_cfg s (recv_fifo s)))) in
      if ret \<noteq> 0 then Some (- ENOMEM, s) else
      case sipa_receiver_init dev_alloc dma SIPA_RECV_RSVD_LEN
             (s\<lparr>receiver := \<lparr>recv_array = p, rcv_rsvd = SIPA_RECV_RSVD_LEN, need_fill_cnt = 0, tx_danger_cnt = 0,
                            rx_danger_cnt = 0, rcv_nic_array = [], rcv_run = False\<rparr>\<rparr>) of
        None \<Rightarrow> None
      | Some s \<Rightarrow>
          let s = upd_receiver (\<lambda>r. r\<lparr>rcv_run := True\<rparr>) s in
          if thread_ok then Some (0, s)
          else Some (err, upd_receiver (\<lambda>r. r\<lparr>recv_array := (recv_array r)\<lparr>arr_array := None\<rparr>, rcv_run := False\<rparr>) s))"

definition destroy_sipa_skb_receiver :: "'h sipa_core \<Rightarrow> 'h sipa_core" where
  "destroy_sipa_skb_receiver s = upd_receiver (\<lambda>r. r\<lparr>rcv_run := False\<rparr>) s"

text \<open>One wake-up of \<open>fill_recv_thread\<close>; \<open>False\<close> is its exit, with the buffers and the array freed.\<close>

definition fill_recv_step ::
    "'h mmio \<Rightarrow> (nat \<Rightarrow> sk_buff option) \<Rightarrow> (sk_buff \<Rightarrow> u64 option) \<Rightarrow> 'h sipa_core \<Rightarrow> (bool \<times> 'h sipa_core) option" where
  "fill_recv_step m dev_alloc dma s =
     (if \<not> rcv_run (receiver s) then
        map_option (\<lambda>s. (False, if arr_array (recv_array (receiver s)) = None then s
                      else upd_receiver (\<lambda>r. r\<lparr>recv_array := destroy_recv_array (recv_array r)\<rparr>) s))
          (sipa_free_recv_skb s)
      else map_option (Pair True) (fill_free_fifo m dev_alloc dma (word_of_int (need_fill_cnt (receiver s))) s))"

end
