(* ===== verification/RecvArray.thy ===== *)
theory RecvArray
  imports SipaReceiver Ring
begin

text \<open>
  The array of posted buffers of \<^verbatim>\<open>sipa_skb_recv.c\<close> is a bounded queue, across the wrap-around of its two
  32-bit counters.
\<close>

definition arr_ok :: "sipa_skb_array \<Rightarrow> bool" where
  "arr_ok p \<longleftrightarrow> (\<exists>k a. k < 32 \<and> arr_depth p = 2 ^ k \<and> arr_array p = Some a \<and> length a = 2 ^ k) \<and>
     arr_wp p - arr_rp p \<le> arr_depth p"

definition arr_list :: "sipa_skb_array \<Rightarrow> sipa_skb_dma_addr_node list" where
  "arr_list p = ring_view (case arr_array p of None \<Rightarrow> [] | Some a \<Rightarrow> a) (unat (arr_rp p)) (unat (arr_wp p - arr_rp p))"

definition arr_put :: "sipa_skb_array \<Rightarrow> sipa_skb_dma_addr_node \<Rightarrow> sipa_skb_array option" where
  "arr_put p x = (case put_recv_array_node p (pair_skb x) (pair_dma_addr x) of
     Some (r, p') \<Rightarrow> if r = 0 then Some p' else None | None \<Rightarrow> None)"

definition arr_get :: "sipa_skb_array \<Rightarrow> (sipa_skb_dma_addr_node \<times> sipa_skb_array) option" where
  "arr_get p = (case get_recv_array_node p of
     Some (Some (skb, addr), p') \<Rightarrow> Some (\<lparr>pair_skb = skb, pair_dma_addr = addr\<rparr>, p') | _ \<Rightarrow> None)"

lemma pair_eta: "\<lparr>pair_skb = pair_skb x, pair_dma_addr = pair_dma_addr x\<rparr> = x"
  by simp

lemma arr_okE:
  assumes "arr_ok p"
  obtains k a where "k < 32" "arr_depth p = 2 ^ k" "arr_array p = Some a" "length a = 2 ^ k"
    "unat (arr_wp p - arr_rp p) \<le> 2 ^ k" "unat (arr_depth p) = 2 ^ k"
  using assms unfolding arr_ok_def by (metis unat_pow2 word_le_nat_alt)

lemma arr_put_room:
  assumes "arr_ok p" "length (arr_list p) < unat (arr_depth p)"
  shows "\<exists>p'. arr_put p x = Some p' \<and> arr_ok p' \<and> arr_list p' = arr_list p @ [x] \<and> unat (arr_depth p') = unat (arr_depth p)"
proof -
  obtain k a where k: "k < 32" "arr_depth p = 2 ^ k" "arr_array p = Some a" "length a = 2 ^ k"
    "unat (arr_wp p - arr_rp p) \<le> 2 ^ k" "unat (arr_depth p) = 2 ^ k" using assms(1) by (rule arr_okE)
  let ?n = "unat (arr_wp p - arr_rp p)" and ?q = "unat (arr_wp p AND (arr_depth p - 1))"
  have n: "?n < 2 ^ k" using assms(2) k(6) by (simp add: arr_list_def)
  then have lt: "arr_wp p - arr_rp p < arr_depth p" using k(6) by (simp add: word_less_nat_alt)
  have q: "?q = (unat (arr_rp p) + ?n) mod length a" using k by (simp add: unat_and_pow2 unat_counter)
  have qa: "?q < length a" unfolding q using k(4) by simp
  have step: "arr_wp p + 1 - arr_rp p = (arr_wp p - arr_rp p) + 1" by simp
  have inc: "unat (arr_wp p + 1 - arr_rp p) = Suc ?n"
    unfolding step by (rule unat_inc [OF lt])
  have "arr_put p x = Some (p\<lparr>arr_array := Some (a[?q := x]), arr_wp := arr_wp p + 1\<rparr>)"
    using lt qa k(3) by (simp only: arr_put_def put_recv_array_node_def Let_def pair_eta) simp
  moreover have "arr_ok (p\<lparr>arr_array := Some (a[?q := x]), arr_wp := arr_wp p + 1\<rparr>)"
    unfolding arr_ok_def using k inc n by (auto simp: word_le_nat_alt unat_pow2)
  moreover have "arr_list (p\<lparr>arr_array := Some (a[?q := x]), arr_wp := arr_wp p + 1\<rparr>) = arr_list p @ [x]"
    using ring_view_update[of ?n a ?q "unat (arr_rp p)" x] n q k(3,4) inc by (simp add: arr_list_def)
  ultimately show ?thesis by simp
qed

lemma arr_put_full: "arr_ok p \<Longrightarrow> length (arr_list p) = unat (arr_depth p) \<Longrightarrow> arr_put p x = None"
  by (simp add: arr_list_def arr_put_def put_recv_array_node_def word_less_nat_alt)

lemma arr_len: "arr_ok p \<Longrightarrow> length (arr_list p) \<le> unat (arr_depth p)"
  by (auto elim!: arr_okE simp: arr_list_def)

lemma arr_get_head:
  assumes "arr_ok p" "arr_list p = x # xs"
  shows "\<exists>p'. arr_get p = Some (x, p') \<and> arr_ok p' \<and> arr_list p' = xs \<and> unat (arr_depth p') = unat (arr_depth p)"
proof -
  obtain k a where k: "k < 32" "arr_depth p = 2 ^ k" "arr_array p = Some a" "length a = 2 ^ k"
    "unat (arr_wp p - arr_rp p) \<le> 2 ^ k" "unat (arr_depth p) = 2 ^ k" using assms(1) by (rule arr_okE)
  let ?n = "unat (arr_wp p - arr_rp p)" and ?q = "unat (arr_rp p AND (arr_depth p - 1))"
  let ?p = "p\<lparr>arr_rp := arr_rp p + 1\<rparr>"
  from assms(2) k(3) obtain n' where n': "?n = Suc n'" by (cases ?n) (auto simp: arr_list_def)
  then have ne: "arr_rp p \<noteq> arr_wp p" by auto
  have step: "(arr_wp p - (arr_rp p + 1)) + 1 = arr_wp p - arr_rp p" by simp
  have dec: "unat (arr_wp p - (arr_rp p + 1)) = n'"
    by (rule unat_dec) (unfold step, rule n')
  have q: "?q = unat (arr_rp p) mod length a" using k by (simp add: unat_and_pow2)
  then have qa: "?q < length a" using k(4) by simp
  have view: "x = a ! ?q" "xs = ring_view a (Suc (unat (arr_rp p))) n'"
    using assms(2) k(3) n' q by (auto simp: arr_list_def ring_view_Suc)
  have "arr_get p = Some (x, ?p)"
    using ne qa k(3) view(1) by (simp add: arr_get_def get_recv_array_node_def Let_def)
  moreover have "arr_ok ?p" unfolding arr_ok_def using k n' dec by (auto simp: word_le_nat_alt unat_pow2)
  moreover have "arr_list ?p = xs"
  proof -
    have "unat (arr_rp p + 1) mod length a = Suc (unat (arr_rp p)) mod length a"
      using unat_add_mod[of k "arr_rp p" 1] k(1,4) by simp
    then have "ring_view a (unat (arr_rp p + 1)) n' = ring_view a (Suc (unat (arr_rp p))) n'" by (rule ring_view_cong)
    with k(3) dec view(2) show ?thesis by (simp add: arr_list_def)
  qed
  ultimately show ?thesis by simp
qed

lemma arr_get_none: "arr_ok p \<Longrightarrow> arr_list p = [] \<Longrightarrow> arr_get p = None"
  by (auto simp: arr_list_def arr_get_def get_recv_array_node_def ring_view_def unat_sub_0)

interpretation ra: bounded_queue arr_put arr_get arr_ok arr_list "\<lambda>p. unat (arr_depth p)"
proof unfold_locales
  fix p :: sipa_skb_array and x xs
  show "arr_ok p \<Longrightarrow> length (arr_list p) < unat (arr_depth p) \<Longrightarrow>
      \<exists>q'. arr_put p x = Some q' \<and> arr_ok q' \<and> arr_list q' = arr_list p @ [x] \<and> unat (arr_depth q') = unat (arr_depth p)"
    by (rule arr_put_room)
  show "arr_ok p \<Longrightarrow> arr_list p = x # xs \<Longrightarrow>
      \<exists>q'. arr_get p = Some (x, q') \<and> arr_ok q' \<and> arr_list q' = xs \<and> unat (arr_depth q') = unat (arr_depth p)"
    by (rule arr_get_head)
qed (simp_all add: arr_put_full arr_len arr_get_none)

lemma create_recv_array_ok:
  "k < 32 \<Longrightarrow> length a = 2 ^ k \<Longrightarrow>
   arr_ok (snd (create_recv_array (Some a) p (2 ^ k))) \<and> arr_list (snd (create_recv_array (Some a) p (2 ^ k))) = []"
  by (auto simp: create_recv_array_def arr_ok_def arr_list_def)

end
