(* ===== verification/SipaReceiverProps.thy ===== *)
theory SipaReceiverProps
  imports RecvArray SipaSenderProps
begin

text \<open>
  The receiver's bookkeeping. \<open>posted\<close> is the list of buffers handed to the device, oldest first; every
  buffer that leaves it is delivered or freed, once, and is counted in \<open>need_fill_cnt\<close> until a new one
  is posted in its place.
\<close>

definition posted :: "'h sipa_core \<Rightarrow> sipa_skb_dma_addr_node list" where
  "posted s = arr_list (recv_array (receiver s))"

definition recv_ok :: "'h sipa_core \<Rightarrow> bool" where
  "recv_ok s \<longleftrightarrow> recv_fifo s < SIPA_FIFO_MAX \<and> fifo_id (cmn_fifo_cfg s (recv_fifo s)) = recv_fifo s \<and>
     ring_ok (rx_fifo (cmn_fifo_cfg s (recv_fifo s))) \<and> ring_ok (tx_fifo (cmn_fifo_cfg s (recv_fifo s))) \<and>
     arr_ok (recv_array (receiver s)) \<and>
     arr_depth (recv_array (receiver s)) = ff_depth (rx_fifo (cmn_fifo_cfg s (recv_fifo s)))"

definition recv_depth :: "'h sipa_core \<Rightarrow> nat" where
  "recv_depth s = unat (ff_depth (rx_fifo (cmn_fifo_cfg s (recv_fifo s))))"

text \<open>Every slot of the FIFO is either posted or waiting to be filled.\<close>

definition recv_books :: "'h sipa_core \<Rightarrow> bool" where
  "recv_books s \<longleftrightarrow> recv_ok s \<and> 0 \<le> need_fill_cnt (receiver s) \<and>
     int (length (posted s)) + need_fill_cnt (receiver s) = int (recv_depth s)"

lemma put_room:
  assumes "arr_ok p" "length (arr_list p) < unat (arr_depth p)"
  shows "\<exists>p'. put_recv_array_node p skb addr = Some (0, p') \<and> arr_ok p' \<and> arr_depth p' = arr_depth p \<and>
    arr_list p' = arr_list p @ [\<lparr>pair_skb = skb, pair_dma_addr = addr\<rparr>]"
proof -
  obtain p' where p': "arr_put p \<lparr>pair_skb = skb, pair_dma_addr = addr\<rparr> = Some p'" "arr_ok p'"
      "arr_list p' = arr_list p @ [\<lparr>pair_skb = skb, pair_dma_addr = addr\<rparr>]" "unat (arr_depth p') = unat (arr_depth p)"
    using ra.put_room [OF assms] by blast
  then have "put_recv_array_node p skb addr = Some (0, p')" by (auto simp: arr_put_def split: option.splits if_splits)
  with p' show ?thesis by (simp add: word_unat_eq_iff)
qed

lemma put_no_room: "\<not> length (arr_list p) < unat (arr_depth p) \<Longrightarrow> put_recv_array_node p skb addr = Some (- 1, p)"
  by (simp add: put_recv_array_node_def arr_list_def word_less_nat_alt)

lemma get_empty: "arr_list p = [] \<Longrightarrow> get_recv_array_node p = Some (None, p)"
  by (auto simp: arr_list_def ring_view_def unat_sub_0 get_recv_array_node_def)

lemma get_head:
  assumes "arr_ok p" "arr_list p = x # xs"
  shows "\<exists>p'. get_recv_array_node p = Some (Some (pair_skb x, pair_dma_addr x), p') \<and> arr_ok p' \<and>
    arr_depth p' = arr_depth p \<and> arr_list p' = xs"
proof -
  obtain p' where p': "arr_get p = Some (x, p')" "arr_ok p'" "arr_list p' = xs" "unat (arr_depth p') = unat (arr_depth p)"
    using ra.get_head [OF assms] by blast
  then have "get_recv_array_node p = Some (Some (pair_skb x, pair_dma_addr x), p')"
    by (auto simp: arr_get_def split: option.splits)
  with p' show ?thesis by (simp add: word_unat_eq_iff)
qed

text \<open>
  C6. The array of posted buffers is a first-in first-out queue: putting appends while there is room and
  is refused with -1, without effect, when the array is full; getting removes the oldest entry and is
  refused when the array is empty. The two 32-bit counters may wrap around at any time.
\<close>

theorem recv_array_is_queue:
  assumes "arr_ok p"
  shows "(if length (arr_list p) < unat (arr_depth p)
      then \<exists>p'. put_recv_array_node p skb addr = Some (0, p') \<and> arr_ok p' \<and> arr_depth p' = arr_depth p \<and>
             arr_list p' = arr_list p @ [\<lparr>pair_skb = skb, pair_dma_addr = addr\<rparr>]
      else put_recv_array_node p skb addr = Some (- 1, p)) \<and>
    (case arr_list p of
       [] \<Rightarrow> get_recv_array_node p = Some (None, p)
     | x # xs \<Rightarrow> \<exists>p'. get_recv_array_node p = Some (Some (pair_skb x, pair_dma_addr x), p') \<and> arr_ok p' \<and>
             arr_depth p' = arr_depth p \<and> arr_list p' = xs)"
  using put_room [OF assms] put_no_room get_empty get_head [OF assms] by (auto split: list.split)

text \<open>An array of two cells whose counters are about to wrap.\<close>

definition sample_array :: sipa_skb_array where
  "sample_array = \<lparr>arr_array = Some (replicate 2 \<lparr>pair_skb = sample_skb, pair_dma_addr = 5\<rparr>), arr_rp = 0xFFFFFFFF,
     arr_wp = 0xFFFFFFFF, arr_depth = 2\<rparr>"

lemma sample_array_depth: "unat (arr_depth sample_array) = 2"
  by (simp add: sample_array_def)

lemma sample_array_ok: "arr_ok sample_array" "arr_list sample_array = []"
  by (auto simp: arr_ok_def sample_array_def arr_list_def intro: exI [of _ 1])

theorem recv_array_is_queue_witness:
  "\<exists>p. put_recv_array_node sample_array sample_skb 9 = Some (0, p) \<and> arr_wp p = 0 \<and>
     arr_list p = [\<lparr>pair_skb = sample_skb, pair_dma_addr = 9\<rparr>]"
  using recv_array_is_queue [OF sample_array_ok(1), of sample_skb 9] sample_array_ok(2)
  by (auto simp: sample_array_def put_recv_array_node_def)

text \<open>
  What is posted into an empty array comes out in the same order, up to the depth of the array.
\<close>

theorem recv_array_fifo:
  assumes "arr_ok p" "arr_list p = []" "length xs \<le> unat (arr_depth p)"
  shows "\<exists>q1 q2. ra.put_all p xs = Some q1 \<and> ra.take_n (length xs) q1 = Some (xs, q2) \<and> arr_ok q2 \<and> arr_list q2 = []"
  using assms by (rule ra.put_all_take_n)

theorem recv_array_fifo_witness:
  "\<exists>q1 q2. ra.put_all sample_array [\<lparr>pair_skb = sample_skb, pair_dma_addr = 9\<rparr>, \<lparr>pair_skb = sample_skb, pair_dma_addr = 7\<rparr>] = Some q1 \<and>
     ra.take_n 2 q1 = Some ([\<lparr>pair_skb = sample_skb, pair_dma_addr = 9\<rparr>, \<lparr>pair_skb = sample_skb, pair_dma_addr = 7\<rparr>], q2)"
  using recv_array_fifo [OF sample_array_ok, of "[\<lparr>pair_skb = sample_skb, pair_dma_addr = 9\<rparr>, \<lparr>pair_skb = sample_skb, pair_dma_addr = 7\<rparr>]"]
  unfolding sample_array_depth by (simp del: ra.put_all.simps ra.take_n.simps) (metis numeral_2_eq_2)

section \<open>Receiving\<close>

lemma recv_ok_step:
  assumes "recv_ok s" "recv_fifo s' = recv_fifo s" "same_shape (cmn_fifo_cfg s' (recv_fifo s)) (cmn_fifo_cfg s (recv_fifo s))"
    and "arr_ok (recv_array (receiver s'))" "arr_depth (recv_array (receiver s')) = arr_depth (recv_array (receiver s))"
  shows "recv_ok s'" "recv_depth s' = recv_depth s"
proof -
  have f: "same_fifo (rx_fifo (cmn_fifo_cfg s' (recv_fifo s))) (rx_fifo (cmn_fifo_cfg s (recv_fifo s)))"
    "same_fifo (tx_fifo (cmn_fifo_cfg s' (recv_fifo s))) (tx_fifo (cmn_fifo_cfg s (recv_fifo s)))"
    and i: "fifo_id (cmn_fifo_cfg s' (recv_fifo s)) = fifo_id (cmn_fifo_cfg s (recv_fifo s))"
    using assms(3) by (simp_all add: same_shape_def)
  show "recv_ok s'" using assms(1,2,4,5) f i ring_ok_same [OF f(1)] ring_ok_same [OF f(2)]
    by (simp add: recv_ok_def) (simp add: same_fifo_def)
  show "recv_depth s' = recv_depth s" using assms(2) f(1) by (simp add: recv_depth_def same_fifo_def)
qed

lemma retry_desc_length:
  assumes "\<And>r. length (poll r) = length r"
  shows "length (retry_desc poll bad pos n ring) = length ring"
  using assms by (induction n arbitrary: ring) auto

lemma tx_ring_shape:
  assumes "ring_ok (tx_fifo c)" "length ring = unat (ff_depth (tx_fifo c))"
  shows "same_shape (c\<lparr>tx_fifo := (tx_fifo c)\<lparr>ff_virtual_addr := Some ring\<rparr>\<rparr>) c"
  using assms by (elim ring_ok_ring) (simp add: same_shape_def same_fifo_def)

text \<open>The descriptor that the call looked at last.\<close>

definition desc_at :: "'h sipa_core \<Rightarrow> int \<Rightarrow> 'h sipa_core \<Rightarrow> sipa_node_description_tag" where
  "desc_at s index s' =
     (case ff_virtual_addr (tx_fifo (cmn_fifo_cfg s' (recv_fifo s))) of
        None \<Rightarrow> zero_desc
      | Some ring \<Rightarrow> ring ! unat ((ff_rd (tx_fifo (cmn_fifo_cfg s (recv_fifo s))) + word_of_int index) AND
                              (ff_depth (tx_fifo (cmn_fifo_cfg s (recv_fifo s))) - 1)))"

lemma drop_recv_skb_spec:
  assumes "recv_ok s" "recv_id s = recv_fifo s"
  shows "recv_ok (drop_recv_skb m skb s)" "recv_depth (drop_recv_skb m skb s) = recv_depth s"
    "recv_array (receiver (drop_recv_skb m skb s)) = recv_array (receiver s)"
    "need_fill_cnt (receiver (drop_recv_skb m skb s)) = need_fill_cnt (receiver s) + 1"
    "kfreed (drop_recv_skb m skb s) = kfreed s @ [skb]"
proof -
  let ?s = "upd_receiver (\<lambda>r. r\<lparr>need_fill_cnt := need_fill_cnt r + 1\<rparr>) (s\<lparr>kfreed := kfreed s @ [skb]\<rparr>)"
  have d: "drop_recv_skb m skb s = snd (run_state (ipa_common_fifo_hal_set_tx_fifo_rp m (recv_id s) 1) ?s)"
    by (simp add: drop_recv_skb_def)
  have "same_shape (cmn_fifo_cfg (drop_recv_skb m skb s) (recv_fifo s)) (cmn_fifo_cfg s (recv_fifo s))"
    using set_tx_fifo_rp_shape [of m "recv_id s" 1 ?s "recv_fifo s"] by (simp add: d)
  moreover have "arr_ok (recv_array (receiver s))" using assms(1) by (simp add: recv_ok_def)
  ultimately show "recv_ok (drop_recv_skb m skb s)" "recv_depth (drop_recv_skb m skb s) = recv_depth s"
    using recv_ok_step [OF assms(1), of "drop_recv_skb m skb s"] by (simp_all add: d)
qed (simp_all add: drop_recv_skb_def)

lemma recv_skb_nil:
  assumes ok: "recv_ok s" and nil: "posted s = []" and poll: "\<And>r. length (poll r) = length r"
  shows "\<exists>s'. sipa_recv_skb m poll index s = Some (None, s') \<and> recv_ok s' \<and> recv_depth s' = recv_depth s \<and>
    receiver s' = receiver s \<and> kfreed s' = kfreed s \<and> remote_ready s' = remote_ready s \<and> dummy_dev s' = dummy_dev s \<and>
    recv_fifo s' = recv_fifo s \<and> same_shape (cmn_fifo_cfg s' (recv_fifo s)) (cmn_fifo_cfg s (recv_fifo s))"
proof -
  let ?c = "cmn_fifo_cfg s (recv_fifo s)"
  have fid: "recv_id s = recv_fifo s" "recv_fifo s < SIPA_FIFO_MAX" and rk: "ring_ok (tx_fifo ?c)"
    and arr: "arr_ok (recv_array (receiver s))" using ok by (simp_all add: recv_ok_def recv_id_def)
  from rk obtain ring where ring: "ff_virtual_addr (tx_fifo ?c) = Some ring" "length ring = unat (ff_depth (tx_fifo ?c))"
    by (rule ring_ok_ring)
  define pos where "pos = (ff_rd (tx_fifo ?c) + word_of_int index) AND (ff_depth (tx_fifo ?c) - 1)"
  have pos: "unat pos < length ring" using ring_ok_pos_less [OF rk] ring(2) by (simp add: pos_def)
  have rp: "run_state (ipa_common_fifo_hal_get_tx_fifo_rp (recv_fifo s) (word_of_int index)) s = (Some pos, s)"
    using fid ring(1) by (simp add: ipa_common_fifo_hal_get_tx_fifo_rp_def pos_def split_beta)
  define ring1 where "ring1 = retry_desc poll (\<lambda>d. nd_address d = 0) (unat pos) 10 ring"
  have len1: "length ring1 = unat (ff_depth (tx_fifo ?c))" using retry_desc_length [OF poll] ring(2) by (simp add: ring1_def)
  let ?s = "s\<lparr>cmn_fifo_cfg := (cmn_fifo_cfg s)(recv_fifo s := ?c\<lparr>tx_fifo := (tx_fifo ?c)\<lparr>ff_virtual_addr := Some ring1\<rparr>\<rparr>)\<rparr>"
  have same: "upd_receiver (\<lambda>r. r\<lparr>recv_array := recv_array (receiver s)\<rparr>) s = s" by (simp add: upd_receiver_def)
  have "get_recv_array_node (recv_array (receiver s)) = Some (None, recv_array (receiver s))"
    using nil by (simp add: posted_def get_empty)
  then have run: "sipa_recv_skb m poll index s = Some (None, ?s)"
    by (simp add: sipa_recv_skb_def fid(1) Let_def same rp ring(1) pos ring1_def [symmetric])
  have "same_shape (cmn_fifo_cfg ?s (recv_fifo s)) ?c" using tx_ring_shape [OF rk len1] by simp
  then show ?thesis using run recv_ok_step [OF ok, of ?s] arr by (intro exI [of _ ?s]) simp
qed

text \<open>
  C4. Receiving accounts for every posted buffer: with none posted nothing happens; otherwise the oldest
  one leaves the array, is counted for refilling, and is either handed to the caller, with the network
  id of a descriptor that carries its address, or given back to the kernel - never both, never neither.
  The call follows no null pointer, whatever the device shows, and keeps the books balanced.
\<close>

theorem recv_skb_accounts:
  assumes books: "recv_books s" and poll: "\<And>r. length (poll r) = length r"
  shows "\<exists>r s'. sipa_recv_skb m poll index s = Some (r, s') \<and> recv_books s' \<and>
    (case posted s of
       [] \<Rightarrow> r = None \<and> posted s' = [] \<and> need_fill_cnt (receiver s') = need_fill_cnt (receiver s) \<and> kfreed s' = kfreed s
     | x # xs \<Rightarrow> posted s' = xs \<and> need_fill_cnt (receiver s') = need_fill_cnt (receiver s) + 1 \<and>
         (r = None \<and> kfreed s' = kfreed s @ [pair_skb x] \<or>
          r = Some (pair_skb x, uint (nd_net_id (desc_at s index s'))) \<and> kfreed s' = kfreed s \<and>
          pair_dma_addr x = ucast (nd_address (desc_at s index s'))))"
proof -
  let ?c = "cmn_fifo_cfg s (recv_fifo s)"
  have ok: "recv_ok s" using books by (simp add: recv_books_def)
  have fid: "recv_id s = recv_fifo s" "recv_fifo s < SIPA_FIFO_MAX" and rk: "ring_ok (tx_fifo ?c)"
    and arr: "arr_ok (recv_array (receiver s))" using ok by (simp_all add: recv_ok_def recv_id_def)
  from rk obtain ring where ring: "ff_virtual_addr (tx_fifo ?c) = Some ring" "length ring = unat (ff_depth (tx_fifo ?c))"
    by (rule ring_ok_ring)
  define pos where "pos = (ff_rd (tx_fifo ?c) + word_of_int index) AND (ff_depth (tx_fifo ?c) - 1)"
  have pos: "unat pos < length ring" using ring_ok_pos_less [OF rk] ring(2) by (simp add: pos_def)
  have rp: "run_state (ipa_common_fifo_hal_get_tx_fifo_rp (recv_fifo s) (word_of_int index)) t = (Some pos, t)"
    if "cmn_fifo_cfg t = cmn_fifo_cfg s" for t :: "'a sipa_core"
    using fid ring(1) that by (simp add: ipa_common_fifo_hal_get_tx_fifo_rp_def pos_def split_beta)
  define ring1 where "ring1 = retry_desc poll (\<lambda>d. nd_address d = 0) (unat pos) 10 ring"
  have len1: "length ring1 = unat (ff_depth (tx_fifo ?c))" using retry_desc_length [OF poll] ring(2) by (simp add: ring1_def)
  define put where "put rg t = t\<lparr>cmn_fifo_cfg := (cmn_fifo_cfg t)(recv_fifo s := (cmn_fifo_cfg t (recv_fifo s))
      \<lparr>tx_fifo := (tx_fifo (cmn_fifo_cfg t (recv_fifo s)))\<lparr>ff_virtual_addr := Some rg\<rparr>\<rparr>)\<rparr>" for rg and t :: "'a sipa_core"
  define tk where "tk p = upd_receiver (\<lambda>r. r\<lparr>recv_array := p\<rparr>) s" for p
  have put_ok: "recv_ok (put rg (tk p))" "recv_depth (put rg (tk p)) = recv_depth s" "recv_id (put rg (tk p)) = recv_fifo (put rg (tk p))"
    if "length rg = unat (ff_depth (tx_fifo ?c))" "arr_ok p" "arr_depth p = arr_depth (recv_array (receiver s))" for rg p
    using recv_ok_step [OF ok, of "put rg (tk p)"] tx_ring_shape [OF rk that(1)] that fid
    by (simp_all add: put_def tk_def recv_id_def)
  note step = sipa_recv_skb_def fid(1) Let_def tk_def [symmetric] rp ring(1) pos ring1_def [symmetric]
  have tkc: "cmn_fifo_cfg (tk p) = cmn_fifo_cfg s" "recv_id (tk p) = recv_fifo s" for p
    using fid by (simp_all add: tk_def recv_id_def)
  show ?thesis
  proof (cases "posted s")
    case Nil
    with recv_skb_nil [OF ok _ poll, of m index] books show ?thesis
      by (auto simp: recv_books_def posted_def)
  next
    case (Cons x xs)
    then obtain p where p: "get_recv_array_node (recv_array (receiver s)) = Some (Some (pair_skb x, pair_dma_addr x), p)"
        "arr_ok p" "arr_depth p = arr_depth (recv_array (receiver s))" "arr_list p = xs"
      using get_head [OF arr] by (auto simp: posted_def)
    have dropped: "recv_books (drop_recv_skb m (pair_skb x) (put rg (tk p)))" "posted (drop_recv_skb m (pair_skb x) (put rg (tk p))) = xs"
      "need_fill_cnt (receiver (drop_recv_skb m (pair_skb x) (put rg (tk p)))) = need_fill_cnt (receiver s) + 1"
      "kfreed (drop_recv_skb m (pair_skb x) (put rg (tk p))) = kfreed s @ [pair_skb x]"
      if "length rg = unat (ff_depth (tx_fifo ?c))" for rg
      using drop_recv_skb_spec [OF put_ok(1,3) [OF that p(2,3)], of m "pair_skb x"] put_ok(2) [OF that p(2,3)] books Cons p(4)
      by (simp_all add: recv_books_def posted_def) (simp_all add: put_def tk_def)
    define ring2 where "ring2 = retry_desc poll (\<lambda>d. pair_dma_addr x \<noteq> ucast (nd_address d)) (unat pos) 10 ring1"
    have len2: "length ring2 = unat (ff_depth (tx_fifo ?c))" using retry_desc_length [OF poll] len1 by (simp add: ring2_def)
    show ?thesis
    proof (cases "nd_address (ring1 ! unat pos) = 0")
      case True
      then have "sipa_recv_skb m poll index s = Some (None, drop_recv_skb m (pair_skb x) (put ring1 (tk p)))"
        by (simp add: step tkc put_def p(1))
      then show ?thesis using dropped [OF len1] Cons by simp
    next
      case nonzero: False
      show ?thesis
      proof (cases "pair_dma_addr x = ucast (nd_address (ring2 ! unat pos))")
        case False
        then have "sipa_recv_skb m poll index s = Some (None, drop_recv_skb m (pair_skb x) (put ring2 (tk p)))"
          using nonzero by (simp add: step tkc put_def p(1) ring2_def [symmetric])
        then show ?thesis using dropped [OF len2] Cons by simp
      next
        case True
        let ?s = "upd_receiver (\<lambda>r. r\<lparr>need_fill_cnt := need_fill_cnt r + 1\<rparr>) (put ring2 (tk p))"
        have run: "sipa_recv_skb m poll index s = Some (Some (pair_skb x, uint (nd_net_id (ring2 ! unat pos))), ?s)"
          using nonzero True [symmetric] by (simp add: step tkc put_def p(1) ring2_def [symmetric])
        have "recv_ok ?s" "recv_depth ?s = recv_depth s"
          using put_ok(1,2) [OF len2 p(2,3)] p(2) recv_ok_step [OF put_ok(1) [OF len2 p(2,3)], of ?s]
          by (simp_all add: put_def tk_def)
        then have "recv_books ?s" using books Cons p(4) by (simp add: recv_books_def posted_def) (simp add: put_def tk_def)
        moreover have "desc_at s index ?s = ring2 ! unat pos" by (simp add: desc_at_def pos_def put_def tk_def)
        moreover have "posted ?s = xs" "need_fill_cnt (receiver ?s) = need_fill_cnt (receiver s) + 1" "kfreed ?s = kfreed s"
          using p(4) by (simp_all add: posted_def put_def tk_def)
        ultimately show ?thesis using run Cons True by (intro exI conjI) auto
      qed
    qed
  qed
qed

text \<open>A core state with one buffer posted and three slots to fill.\<close>

definition sample_recv :: "(u64 \<Rightarrow> u32) sipa_core" where
  "sample_recv = sample_core\<lparr>receiver := sample_receiver\<lparr>need_fill_cnt := 3, recv_array :=
     \<lparr>arr_array = Some (replicate 4 \<lparr>pair_skb = sample_skb, pair_dma_addr = 0x1000\<rparr>), arr_rp = 0, arr_wp = 1, arr_depth = 4\<rparr>\<rparr>\<rparr>"

lemma sample_posted: "posted sample_recv = [\<lparr>pair_skb = sample_skb, pair_dma_addr = 0x1000\<rparr>]"
  by (simp add: posted_def arr_list_def sample_recv_def ring_view_def)

lemma sample_recv_books: "recv_books sample_recv"
proof -
  have "arr_ok (recv_array (receiver sample_recv))"
    by (auto simp: arr_ok_def sample_recv_def intro: exI [of _ 2])
  then show ?thesis using sample_ring_ok sample_posted
    by (simp add: recv_books_def recv_ok_def recv_depth_def sample_recv_def sample_core_def sample_cfg_def) (simp add: sample_fifo_def)
qed

theorem recv_skb_accounts_witness:
  "\<exists>r s'. sipa_recv_skb ram (\<lambda>r. r) 0 sample_recv = Some (r, s') \<and> recv_books s' \<and> posted s' = [] \<and> need_fill_cnt (receiver s') = 4"
  using recv_skb_accounts [OF sample_recv_books, of "\<lambda>r. r" ram 0] unfolding sample_posted
  by (auto simp: sample_recv_def)

section \<open>Refilling\<close>

text \<open>No allocation and no mapping fails.\<close>

definition mem_plenty :: "(nat \<Rightarrow> sk_buff option) \<Rightarrow> (sk_buff \<Rightarrow> u64 option) \<Rightarrow> bool" where
  "mem_plenty dev_alloc dma \<longleftrightarrow> (\<forall>i. dev_alloc i \<noteq> None) \<and> (\<forall>k. dma k \<noteq> None)"

lemma fill_one_ok:
  assumes ok: "recv_ok s" and i: "i < recv_depth s" and room: "length (posted s) < recv_depth s"
  shows "\<exists>b s'. fill_one dev_alloc dma i s = Some (b, s') \<and> recv_ok s' \<and> recv_depth s' = recv_depth s \<and>
    need_fill_cnt (receiver s') = need_fill_cnt (receiver s) \<and> recv_fifo s' = recv_fifo s \<and>
    (if b then \<exists>x. posted s' = posted s @ [x] \<and> kfreed s' = kfreed s else posted s' = posted s) \<and>
    (mem_plenty dev_alloc dma \<longrightarrow> b)"
proof -
  let ?c = "cmn_fifo_cfg s (recv_fifo s)" and ?skb = "\<lambda>k. size_recv_skb k"
  have fid: "recv_id s = recv_fifo s" "recv_fifo s < SIPA_FIFO_MAX" and rk: "ring_ok (rx_fifo ?c)"
    and arr: "arr_ok (recv_array (receiver s))" "arr_depth (recv_array (receiver s)) = ff_depth (rx_fifo ?c)"
    using ok by (simp_all add: recv_ok_def recv_id_def)
  from rk obtain ring where ring: "ff_virtual_addr (rx_fifo ?c) = Some ring" "length ring = unat (ff_depth (rx_fifo ?c))"
    by (rule ring_ok_ring)
  have "(of_nat i :: u32) < ff_depth (rx_fifo ?c)"
    using i le_less_trans [OF take_bit_nat_less_eq_self [of 32 i]]
    by (simp add: word_less_nat_alt recv_depth_def unat_of_nat)
  define pos where "pos = (ff_wr (rx_fifo ?c) + of_nat i) AND (ff_depth (rx_fifo ?c) - 1)"
  have pos: "unat pos < length ring" using ring_ok_pos_less [OF rk] ring(2) by (simp add: pos_def)
  have wr: "run_state (ipa_common_fifo_hal_get_rx_fifo_wr (recv_fifo s) (of_nat i)) s = (Some pos, s)"
    using fid ring(1) \<open>of_nat i < _\<close> by (simp add: ipa_common_fifo_hal_get_rx_fifo_wr_def pos_def split_beta not_le)
  show ?thesis
  proof (cases "alloc_recv_skb (dev_alloc i) (ucast (rcv_rsvd (receiver s)))")
    case None
    then have "\<not> mem_plenty dev_alloc dma" by (auto simp: mem_plenty_def alloc_recv_skb_def)
    then show ?thesis using ok None by (intro exI [of _ False] exI [of _ s]) (simp add: fill_one_def)
  next
    case (Some skb)
    show ?thesis
    proof (cases "dma (size_recv_skb skb)")
      case None
      have "recv_ok (s\<lparr>kfreed := kfreed s @ [size_recv_skb skb]\<rparr>)" using ok by (simp add: recv_ok_def)
      moreover have "\<not> mem_plenty dev_alloc dma" using None by (auto simp: mem_plenty_def)
      ultimately show ?thesis using Some None
        by (intro exI [of _ False] exI [of _ "s\<lparr>kfreed := kfreed s @ [size_recv_skb skb]\<rparr>"])
          (simp add: fill_one_def Let_def recv_depth_def posted_def)
    next
      case (Some a)
      let ?a = "a + pcie_mem_offset s"
      define s1 where "s1 = snd (run_state (mod_rx (recv_fifo s) (\<lambda>f. f\<lparr>ff_virtual_addr := Some (ring[unat pos :=
            fill_recv_desc ?a (size_recv_skb skb) ?c (ring ! unat pos)])\<rparr>)) s)"
      obtain p where p: "put_recv_array_node (recv_array (receiver s)) (size_recv_skb skb) ?a = Some (0, p)" "arr_ok p"
          "arr_depth p = arr_depth (recv_array (receiver s))"
          "arr_list p = posted s @ [\<lparr>pair_skb = size_recv_skb skb, pair_dma_addr = ?a\<rparr>]"
        using put_room [OF arr(1)] room arr(2) by (auto simp: posted_def recv_depth_def)
      let ?s = "upd_receiver (\<lambda>r. r\<lparr>recv_array := p\<rparr>) s1"
      have run: "fill_one dev_alloc dma i s = Some (True, ?s)"
        using \<open>alloc_recv_skb _ _ = Some skb\<close> Some p(1) ring(1) pos
        by (simp add: fill_one_def Let_def fid(1) wr s1_def)
      have "same_shape (cmn_fifo_cfg ?s (recv_fifo s)) ?c"
        using ring by (simp add: s1_def same_shape_def same_fifo_def)
      then have "recv_ok ?s" "recv_depth ?s = recv_depth s"
        using recv_ok_step [OF ok, of ?s] p(2,3) by (simp_all add: s1_def)
      then show ?thesis using run p(4) by (intro exI [of _ True] exI [of _ ?s]) (simp add: posted_def s1_def)
    qed
  qed
qed

lemma fill_loop_ok:
  "recv_ok s \<Longrightarrow> i + n \<le> recv_depth s \<Longrightarrow> length (posted s) + n \<le> recv_depth s \<Longrightarrow>
   \<exists>c s' xs. fill_loop dev_alloc dma i n sc s = Some (sc + of_nat c, s') \<and> c \<le> n \<and> recv_ok s' \<and>
     recv_depth s' = recv_depth s \<and> recv_fifo s' = recv_fifo s \<and> need_fill_cnt (receiver s') = need_fill_cnt (receiver s) \<and>
     posted s' = posted s @ xs \<and> length xs = c \<and> (mem_plenty dev_alloc dma \<longrightarrow> c = n)"
proof (induction n arbitrary: i sc s)
  case 0
  then show ?case by (intro exI [of _ 0] exI [of _ s] exI [of _ "[]"]) simp
next
  case (Suc n)
  then obtain b s1 where one: "fill_one dev_alloc dma i s = Some (b, s1)" "recv_ok s1" "recv_depth s1 = recv_depth s"
      "need_fill_cnt (receiver s1) = need_fill_cnt (receiver s)" "recv_fifo s1 = recv_fifo s"
      "if b then \<exists>x. posted s1 = posted s @ [x] \<and> kfreed s1 = kfreed s else posted s1 = posted s"
      "mem_plenty dev_alloc dma \<longrightarrow> b"
    using fill_one_ok [of s i dev_alloc dma] by auto
  show ?case
  proof (cases b)
    case False
    with one show ?thesis by (intro exI [of _ 0] exI [of _ s1] exI [of _ "[]"]) simp
  next
    case True
    with one obtain x where x: "posted s1 = posted s @ [x]" by auto
    with Suc.prems one obtain c s' xs where "fill_loop dev_alloc dma (Suc i) n (sc + 1) s1 = Some (sc + 1 + of_nat c, s')"
        "c \<le> n" "recv_ok s'" "recv_depth s' = recv_depth s1" "recv_fifo s' = recv_fifo s1"
        "need_fill_cnt (receiver s') = need_fill_cnt (receiver s1)" "posted s' = posted s1 @ xs" "length xs = c"
        "mem_plenty dev_alloc dma \<longrightarrow> c = n"
      using Suc.IH [of s1 "Suc i" "sc + 1"] by fastforce
    with True one x show ?thesis
      by (intro exI [of _ "Suc c"] exI [of _ s'] exI [of _ "x # xs"]) (simp add: add.assoc)
  qed
qed

text \<open>What filling leaves alone.\<close>

definition fill_keeps :: "'h sipa_core \<Rightarrow> 'h sipa_core \<Rightarrow> bool" where
  "fill_keeps s s' \<longleftrightarrow> send_fifo s' = send_fifo s \<and> recv_fifo s' = recv_fifo s \<and> sender s' = sender s \<and> hw s' = hw s \<and>
     (\<forall>i. i \<noteq> recv_id s \<longrightarrow> cmn_fifo_cfg s' i = cmn_fifo_cfg s i) \<and>
     (\<forall>i. irq_cb (cmn_fifo_cfg s' i) = irq_cb (cmn_fifo_cfg s i) \<and> fifo_id (cmn_fifo_cfg s' i) = fifo_id (cmn_fifo_cfg s i))"

lemma fill_one_keeps: "fill_one dev_alloc dma i s = Some (b, s') \<Longrightarrow> fill_keeps s s'"
  by (auto simp: fill_one_def Let_def split_beta fill_keeps_def ipa_common_fifo_hal_get_rx_fifo_wr_def
      split: option.splits if_splits)

lemma fill_loop_keeps: "fill_loop dev_alloc dma i n sc s = Some (sc', s') \<Longrightarrow> fill_keeps s s'"
proof (induction n arbitrary: i sc s)
  case 0
  then show ?case by (simp add: fill_keeps_def)
next
  case (Suc n)
  then obtain b s1 where one: "fill_one dev_alloc dma i s = Some (b, s1)" by (auto split: option.splits)
  note k = fill_one_keeps [OF one]
  then have "recv_id s1 = recv_id s" by (simp add: fill_keeps_def recv_id_def)
  with Suc one k show ?case by (cases b) (auto simp: fill_keeps_def)
qed

text \<open>
  C5. Refilling with the counted number of missing buffers posts some of them, never overruns the array, and keeps the books balanced: what is
  posted and what is still to be filled always add up to the depth of the FIFO.
\<close>

theorem fill_free_fifo_accounts:
  assumes books: "recv_books s"
  shows "\<exists>s' xs. fill_free_fifo m dev_alloc dma (word_of_int (need_fill_cnt (receiver s))) s = Some s' \<and> recv_books s' \<and>
    posted s' = posted s @ xs \<and> need_fill_cnt (receiver s') = need_fill_cnt (receiver s) - int (length xs) \<and>
    (mem_plenty dev_alloc dma \<longrightarrow> need_fill_cnt (receiver s') = 0)"
proof -
  have B: "recv_ok s" "0 \<le> need_fill_cnt (receiver s)"
      "int (length (posted s)) + need_fill_cnt (receiver s) = int (recv_depth s)"
    using books by (simp_all add: recv_books_def)
  let ?cnt = "word_of_int (need_fill_cnt (receiver s)) :: u32"
  have "recv_depth s < 2 ^ 32" unfolding recv_depth_def
    using unsigned_less [of "ff_depth (rx_fifo (cmn_fifo_cfg s (recv_fifo s)))", where 'a = nat] by simp
  then have cnt: "unat ?cnt = nat (need_fill_cnt (receiver s))" "need_fill_cnt (receiver s) < 2 ^ 32"
    using B by (simp_all add: unsigned_of_int take_bit_int_eq_self nat_eq_iff)
  define s1 where "s1 = (if ?cnt > ff_depth (rx_fifo (cmn_fifo_cfg s (recv_fifo s))) - ff_depth (rx_fifo (cmn_fifo_cfg s (recv_fifo s))) div 4
       then upd_receiver (\<lambda>r. r\<lparr>rx_danger_cnt := rx_danger_cnt r + 1\<rparr>) s else s)"
  have s1: "recv_ok s1" "recv_depth s1 = recv_depth s" "posted s1 = posted s"
      "need_fill_cnt (receiver s1) = need_fill_cnt (receiver s)" "recv_fifo s1 = recv_fifo s"
    using B(1) by (auto simp: s1_def recv_ok_def recv_depth_def posted_def)
  have room: "0 + unat ?cnt \<le> recv_depth s" "length (posted s) + unat ?cnt \<le> recv_depth s"
    unfolding cnt(1) using B by linarith+
  obtain c s2 xs where loop: "fill_loop dev_alloc dma 0 (unat ?cnt) 0 s1 = Some (of_nat c, s2)" "c \<le> unat ?cnt" "recv_ok s2"
      "recv_depth s2 = recv_depth s" "recv_fifo s2 = recv_fifo s" "need_fill_cnt (receiver s2) = need_fill_cnt (receiver s)"
      "posted s2 = posted s @ xs" "length xs = c" "mem_plenty dev_alloc dma \<longrightarrow> c = unat ?cnt"
    using fill_loop_ok [of s1 0 "unat ?cnt" dev_alloc dma 0, OF s1(1), unfolded s1(2-5), OF room] by auto
  have c32: "unat (of_nat c :: u32) = c" using loop(2) cnt B \<open>recv_depth s < 2 ^ 32\<close>
    by (simp add: unat_of_nat take_bit_nat_eq_self)
  show ?thesis
  proof (cases "c = 0")
    case True
    then have "fill_free_fifo m dev_alloc dma ?cnt s = Some s2" using loop(1) by (simp add: fill_free_fifo_def Let_def s1_def)
    then show ?thesis using True loop B cnt by (simp add: recv_books_def)
  next
    case False
    let ?s3 = "snd (run_state (ipa_common_fifo_hal_set_rx_fifo_wr m (recv_id s2) (of_nat c)) s2)"
    let ?s4 = "upd_receiver (\<lambda>r. r\<lparr>need_fill_cnt := need_fill_cnt r - int c\<rparr>) ?s3"
    have pos: "0 < need_fill_cnt (receiver s)" using False loop(2) cnt by simp
    have "uint (of_nat c :: u32) = int c" using c32 by (metis uint_nat)
    moreover have "(of_nat c :: u32) \<noteq> 0" using c32 False by (metis unat_0)
    ultimately have run: "fill_free_fifo m dev_alloc dma ?cnt s = Some ?s4"
      using loop(1,6) pos by (simp add: fill_free_fifo_def Let_def s1_def [symmetric])
    have "same_shape (cmn_fifo_cfg ?s4 (recv_fifo s2)) (cmn_fifo_cfg s2 (recv_fifo s2))"
      using set_rx_fifo_wr_shape [of m "recv_id s2" "of_nat c" s2 "recv_fifo s2"] by simp
    moreover have "arr_ok (recv_array (receiver s2))" using loop(3) by (simp add: recv_ok_def)
    ultimately have "recv_ok ?s4" "recv_depth ?s4 = recv_depth s2"
      using recv_ok_step [OF loop(3), of ?s4] by simp_all
    moreover have "posted ?s4 = posted s2" by (simp add: posted_def)
    ultimately show ?thesis using run loop B(2,3) cnt
      by (intro exI [of _ ?s4] exI [of _ xs]) (simp add: recv_books_def)
  qed
qed

theorem fill_free_fifo_accounts_witness:
  "\<exists>s' xs. fill_free_fifo ram (\<lambda>_. Some sample_skb) (\<lambda>_. Some 0x2000) 3 sample_recv = Some s' \<and> recv_books s' \<and>
     posted s' = posted sample_recv @ xs \<and> length xs = 3"
  using fill_free_fifo_accounts [OF sample_recv_books, of ram "\<lambda>_. Some sample_skb" "\<lambda>_. Some 0x2000"]
  by (auto simp: sample_recv_def mem_plenty_def)

end
