(* ===== verification/SipaNic.thy ===== *)
theory SipaNic
  imports SipaSender
begin

text \<open>
  Network interfaces over the SIPA FIFOs: \<^verbatim>\<open>quectel_SRPD_PCIE/src/sipa/sipa_nic.c\<close>. The global
  \<open>sipa_ctrl\<close> pointer is taken as set (the operations are exported to code that runs after probe).
  An interface id used as an array index is checked against the array's bounds here: \<open>None\<close> is the
  out-of-bounds access that C leaves undefined.
\<close>

definition SIPA_CP_SRC :: u32 where
  "SIPA_CP_SRC = push_bit 4 1 OR push_bit 5 1 OR push_bit 6 1 OR push_bit 0x19 1 OR push_bit 0x18 1"

text \<open>The static table has \<open>SIPA_NIC_MAX\<close> entries, of which ten are initialised and two are zero.\<close>

definition s_spia_nic_statics_src_mask :: "nat \<Rightarrow> u32" where
  "s_spia_nic_statics_src_mask i = (if i < 10 then SIPA_CP_SRC else 0)"

definition nic_index :: "int \<Rightarrow> nat option" where
  "nic_index netid = (if 0 \<le> netid \<and> netid < SIPA_NIC_MAX then Some (nat netid) else None)"

text \<open>\<open>alloc_ok\<close> is the outcome of \<open>kzalloc\<close>; a new interface starts zeroed.\<close>

definition zero_nic :: sipa_nic where
  "zero_nic = \<lparr>nic_status_open = True, nic_src_mask = 0, nic_netid = 0, nic_cb = False, nic_need_notify = 0,
     nic_flow_ctrl_status = False, nic_continue_notify = False, nic_rm_flow_ctrl = False, nic_rx_skb_q = []\<rparr>"

definition sipa_nic_open :: "bool \<Rightarrow> int \<Rightarrow> bool \<Rightarrow> 'h sipa_core \<Rightarrow> (int \<times> 'h sipa_core) option" where
  "sipa_nic_open alloc_ok netid cb s =
     (if \<not> remote_ready s then Some (- EINVAL, s)
      else if netid = SIPA_NIC_MAX then Some (- EINVAL, s)
      else case nic_index netid of
        None \<Rightarrow> None
      | Some i \<Rightarrow>
          (let finish = (\<lambda>s. map_option (Pair netid) (sipa_skb_sender_add_nic i
                (upd_nic i (\<lambda>c. c\<lparr>nic_status_open := True, nic_need_notify := 0,
                   nic_src_mask := s_spia_nic_statics_src_mask i, nic_netid := netid, nic_cb := cb,
                   nic_continue_notify := True\<rparr>) s))) in
           if nic_present s i then
             if nic_status_open (nics s i) then Some (- EBUSY, s)
             else finish (upd_nic i (\<lambda>c. c\<lparr>nic_rx_skb_q := []\<rparr>) (s\<lparr>kfreed := kfreed s @ nic_rx_skb_q (nics s i)\<rparr>))
           else if \<not> alloc_ok then Some (- ENOMEM, s)
           else finish (upd_nic i (\<lambda>_. zero_nic) (s\<lparr>nic_present := (nic_present s)(i := True)\<rparr>))))"

definition sipa_nic_close :: "int \<Rightarrow> 'h sipa_core \<Rightarrow> 'h sipa_core option" where
  "sipa_nic_close nic_id s =
     (if nic_id = SIPA_NIC_MAX then Some s
      else case nic_index nic_id of
        None \<Rightarrow> None
      | Some i \<Rightarrow>
          if \<not> nic_present s i then Some s
          else sipa_skb_sender_remove_nic i
                 (upd_nic i (\<lambda>c. c\<lparr>nic_continue_notify := False, nic_status_open := False, nic_rx_skb_q := []\<rparr>)
                   (s\<lparr>kfreed := kfreed s @ nic_rx_skb_q (nics s i)\<rparr>)))"

text \<open>\<open>nic->cb\<close> is called without a test here: a missing callback is a call through null.\<close>

fun check_flow_ctrl_from :: "nat list \<Rightarrow> 'h sipa_core \<Rightarrow> 'h sipa_core option" where
  "check_flow_ctrl_from [] s = Some s"
| "check_flow_ctrl_from (i # rest) s =
     (if nic_present s i \<and> nic_rm_flow_ctrl (nics s i) then
        if nic_cb (nics s i) then
          check_flow_ctrl_from rest
            ((upd_nic i (\<lambda>c. c\<lparr>nic_rm_flow_ctrl := False\<rparr>) s)\<lparr>events := events s @ [(i, SIPA_LEAVE_FLOWCTRL)]\<rparr>)
        else None
      else check_flow_ctrl_from rest s)"

definition sipa_nic_check_flow_ctrl :: "'h sipa_core \<Rightarrow> 'h sipa_core option" where
  "sipa_nic_check_flow_ctrl s = check_flow_ctrl_from [0..<nat SIPA_NIC_MAX] s"

definition sipa_nic_try_notify_recv :: "nat \<Rightarrow> 'h sipa_core \<Rightarrow> 'h sipa_core" where
  "sipa_nic_try_notify_recv i s =
     (if \<not> nic_status_open (nics s i) then s
      else if nic_cb (nics s i) then s\<lparr>events := events s @ [(i, SIPA_RECEIVE)]\<rparr> else s)"

definition sipa_nic_push_skb :: "nat \<Rightarrow> sk_buff \<Rightarrow> 'h sipa_core \<Rightarrow> 'h sipa_core" where
  "sipa_nic_push_skb i skb s =
     upd_nic i (\<lambda>c. let c = c\<lparr>nic_rx_skb_q := nic_rx_skb_q c @ [skb]\<rparr> in
        if List.length (nic_rx_skb_q c) = 1 \<or> nic_continue_notify c then c\<lparr>nic_need_notify := 1\<rparr> else c) s"

definition sipa_nic_tx ::
    "'h mmio \<Rightarrow> (sk_buff \<Rightarrow> u64 option) \<Rightarrow> int \<Rightarrow> u32 \<Rightarrow> int \<Rightarrow> sk_buff \<Rightarrow> 'h sipa_core \<Rightarrow> (int \<times> 'h sipa_core) option" where
  "sipa_nic_tx m dma nic_id dst netid skb s =
     (if \<not> remote_ready s then
        (case nic_index nic_id of
           None \<Rightarrow> None
         | Some i \<Rightarrow> if nic_present s i
                     then Some (- EINPROGRESS, upd_nic i (\<lambda>c. c\<lparr>nic_rm_flow_ctrl := True\<rparr>) s)
                     else None)
      else sipa_skb_sender_send_data m dma skb dst (word_of_int netid) s)"

definition sipa_nic_rx_has_data :: "int \<Rightarrow> 'h sipa_core \<Rightarrow> int option" where
  "sipa_nic_rx_has_data nic_id s =
     map_option (\<lambda>i. if \<not> nic_present s i \<or> \<not> nic_status_open (nics s i) then 0
                    else if nic_rx_skb_q (nics s i) \<noteq> [] then 1 else 0) (nic_index nic_id)"

definition sipa_nic_get_filled_num :: "'h mmio \<Rightarrow> 'h sipa_core \<Rightarrow> u32 \<times> 'h sipa_core" where
  "sipa_nic_get_filled_num m s =
     (if \<not> remote_ready s then (0, s)
      else run_state (ipa_common_fifo_hal_recv_node_from_tx_fifo m (recv_id s)) s)"

definition sipa_nic_restore_irq :: "'h mmio \<Rightarrow> 'h sipa_core \<Rightarrow> 'h sipa_core" where
  "sipa_nic_restore_irq m s =
     (if \<not> remote_ready s then s
      else snd (run_state (do {
        ipa_common_fifo_clr_tout_th_intr m (recv_id s);
        ipa_common_fifo_set_intr_eb m (recv_id s) True
          (SIPA_FIFO_THRESHOLD_IRQ_EN OR SIPA_FIFO_DELAY_TIMER_IRQ_EN) }) s))"

definition sipa_nic_set_tx_fifo_rp :: "'h mmio \<Rightarrow> u32 \<Rightarrow> 'h sipa_core \<Rightarrow> 'h sipa_core" where
  "sipa_nic_set_tx_fifo_rp m rptr s =
     (if \<not> remote_ready s then s
      else snd (run_state (ipa_common_fifo_hal_set_tx_fifo_rp m (recv_id s) rptr) s))"

end
