(* ===== verification/SipaIrq.thy ===== *)
theory SipaIrq
  imports SipaNic SipaReceiver
begin

text \<open>
  Interrupt handling and the receive poll: \<^verbatim>\<open>sipa_phy_v0/sipa_fifo_irq_hal.c\<close>, the callback of
  \<^verbatim>\<open>sipa_skb_recv.c\<close>, \<open>sipa_nic_rx\<close> and the NAPI device of \<^verbatim>\<open>sipa_dummy.c\<close>. The poll handler is run
  without an interrupt in between. What \<open>sipa_dummy_rx\<close> does to a packet's headers before it hands it
  up is not modelled (a buffer has no bytes here); the per-interface statistics follow from
  \<open>dm_delivered\<close>.
\<close>

section \<open>The receiver's interrupt callback\<close>

definition sipa_dummy_rx_handler :: "'h sipa_core \<Rightarrow> 'h sipa_core" where
  "sipa_dummy_rx_handler s =
     upd_dummy (\<lambda>d. if dm_rx_busy d then d
       else d\<lparr>dm_rx_busy := True, dm_rx_evt := False, dm_napi_scheduled := dm_napi_scheduled d + 1\<rparr>) s"

definition sipa_dummy_recv_trigger :: "'h sipa_core \<Rightarrow> 'h sipa_core" where
  "sipa_dummy_recv_trigger s =
     (if dummy_dev s = None then s
      else sipa_dummy_rx_handler (upd_dummy (\<lambda>d. d\<lparr>dm_rx_evt := True\<rparr>) s))"

definition sipa_receiver_notify_cb :: "u32 \<Rightarrow> 'h sipa_core \<Rightarrow> 'h sipa_core" where
  "sipa_receiver_notify_cb evt s =
     sipa_dummy_recv_trigger
       (if evt AND SIPA_RECV_WARN_EVT \<noteq> 0
        then upd_receiver (\<lambda>r. r\<lparr>tx_danger_cnt := tx_danger_cnt r + 1\<rparr>) s else s)"

section \<open>The interrupt\<close>

text \<open>Which bits of the clear register answer which bits of the status register.\<close>

definition int_clr_sts :: "u32 \<Rightarrow> u32" where
  "int_clr_sts int_status =
     (if int_status AND IPA_INT_EXIT_FLOW_CTRL_STS \<noteq> 0 then IPA_EXIT_FLOW_CONTROL_CLR_BIT else 0) OR
     (if int_status AND IPA_INT_ERRORCODE_IN_TX_FIFO_STS \<noteq> 0 then IPA_ERROR_CODE_INTR_CLR_BIT else 0) OR
     (if int_status AND IPA_INT_ENTER_FLOW_CTRL_STS \<noteq> 0 then IPA_ENTRY_FLOW_CONTROL_CLR_BIT else 0) OR
     (if int_status AND IPA_INT_INTR_BIT_STS \<noteq> 0 then IPA_TX_FIFO_INTR_CLR_BIT else 0) OR
     (if int_status AND IPA_INT_THRESHOLD_STS \<noteq> 0 \<or> int_status AND IPA_INT_DELAY_TIMER_STS \<noteq> 0
      then IPA_TX_FIFO_THRESHOLD_CLR_BIT OR IPA_TX_FIFO_TIMER_CLR_BIT else 0) OR
     (if int_status AND IPA_INT_DROP_PACKT_OCCUR \<noteq> 0 then IPA_DROP_PACKET_INTR_CLR_BIT else 0) OR
     (if int_status AND IPA_INT_TXFIFO_OVERFLOW_STS \<noteq> 0 then IPA_TX_FIFO_OVERFLOW_CLR_BIT else 0) OR
     (if int_status AND IPA_INT_TXFIFO_FULL_INT_STS \<noteq> 0 then IPA_TX_FIFO_FULL_INT_CLR_BIT else 0)"

definition call_irq_cb :: "irq_notify_cb \<Rightarrow> u32 \<Rightarrow> 'h sipa_core \<Rightarrow> 'h sipa_core option" where
  "call_irq_cb cb int_status s =
     (case cb of No_cb \<Rightarrow> Some s
      | Sender_notify_cb \<Rightarrow> sipa_sender_notify_cb int_status s
      | Receiver_notify_cb \<Rightarrow> Some (sipa_receiver_notify_cb int_status s))"

definition ipa_fifo_traverse_int_bit :: "'h mmio \<Rightarrow> nat \<Rightarrow> 'h sipa_core \<Rightarrow> 'h sipa_core option" where
  "ipa_fifo_traverse_int_bit m fid s =
     (let fifo_base = fifo_reg_base (cmn_fifo_cfg s fid);
          (int_status, s) = run_state (phy (ipa_phy_get_fifo_all_int_sts m fifo_base)) s in
      if int_status AND IPA_INT_STS_GROUP = 0 then Some s
      else
        let s = (if int_status AND IPA_INT_EXIT_FLOW_CTRL_STS \<noteq> 0
                 then snd (run_state (mod_cfg fid (\<lambda>c. c\<lparr>exit_flow_ctrl_cnt := exit_flow_ctrl_cnt c + 1\<rparr>)) s) else s);
            s = (if int_status AND IPA_INT_ENTER_FLOW_CTRL_STS \<noteq> 0
                 then snd (run_state (mod_cfg fid (\<lambda>c. c\<lparr>enter_flow_ctrl_cnt := enter_flow_ctrl_cnt c + 1\<rparr>)) s) else s);
            s = (if int_status AND IPA_INT_THRESHOLD_STS \<noteq> 0 \<or> int_status AND IPA_INT_DELAY_TIMER_STS \<noteq> 0
                 then snd (run_state (phy (ipa_phy_disable_int_bit m fifo_base
                             (IPA_TX_FIFO_THRESHOLD_EN OR IPA_TX_FIFO_DELAY_TIMER_EN))) s) else s) in
        map_option (\<lambda>s. snd (run_state (phy (ipa_phy_clear_int m fifo_base (int_clr_sts int_status))) s))
          (call_irq_cb (irq_cb (cmn_fifo_cfg s fid)) int_status s))"

definition sipa_int_callback_func :: "'h mmio \<Rightarrow> 'h sipa_core \<Rightarrow> (int \<times> 'h sipa_core) option" where
  "sipa_int_callback_func m s =
     map_option (Pair 0)
       (if remote_ready s
        then Option.bind (ipa_fifo_traverse_int_bit m SIPA_FIFO_PCIE_DL s)
               (ipa_fifo_traverse_int_bit m SIPA_FIFO_PCIE_UL)
        else Some s)"

section \<open>The receive poll\<close>

definition sipa_nic_rx ::
    "'h mmio \<Rightarrow> (sipa_node_description_tag list \<Rightarrow> sipa_node_description_tag list) \<Rightarrow> int \<Rightarrow> 'h sipa_core \<Rightarrow>
     ((int \<times> (sk_buff \<times> int) option) \<times> 'h sipa_core) option" where
  "sipa_nic_rx m poll index s =
     map_option (\<lambda>(r, s). ((if r = None then - ENODATA else 0, r), s)) (sipa_recv_skb m poll index s)"

abbreviation (input) SIPA_DUMMY_IFACE_NUM :: int where "SIPA_DUMMY_IFACE_NUM \<equiv> 4"

text \<open>
  \<open>dev_on netid\<close> is the state of the interface \<open>dev_list[netid]\<close>: \<open>None\<close> when there is none, else
  whether it is on. The loop runs at most \<open>n\<close> more rounds (the budget left).
\<close>

fun sipa_dummy_rx_loop ::
    "'h mmio \<Rightarrow> (sipa_node_description_tag list \<Rightarrow> sipa_node_description_tag list) \<Rightarrow> (int \<Rightarrow> bool option) \<Rightarrow>
     nat \<Rightarrow> int \<Rightarrow> 'h sipa_core \<Rightarrow> (int \<times> 'h sipa_core) option" where
  "sipa_dummy_rx_loop m poll dev_on 0 skb_cnt s = Some (skb_cnt, s)"
| "sipa_dummy_rx_loop m poll dev_on (Suc n) skb_cnt s =
     (case sipa_nic_rx m poll skb_cnt s of
        None \<Rightarrow> None
      | Some ((_, None), s) \<Rightarrow> Some (skb_cnt, upd_dummy (\<lambda>d. d\<lparr>dm_rx_busy := False\<rparr>) s)
      | Some ((_, Some (skb, real_netid)), s) \<Rightarrow>
          let s = upd_dummy (\<lambda>d. d\<lparr>dm_rx_packets := dm_rx_packets d + 1,
                                   dm_rx_bytes := dm_rx_bytes d + ucast (skb_len skb)\<rparr>) s in
          if real_netid < 0 \<or> SIPA_DUMMY_IFACE_NUM \<le> real_netid \<or> dev_on real_netid \<noteq> Some True
          then Some (skb_cnt + 1, s\<lparr>kfreed := kfreed s @ [skb]\<rparr>)
          else sipa_dummy_rx_loop m poll dev_on n (skb_cnt + 1)
                 (upd_dummy (\<lambda>d. d\<lparr>dm_delivered := dm_delivered d @ [(real_netid, skb)]\<rparr>) s))"

definition sipa_dummy_rx ::
    "'h mmio \<Rightarrow> (sipa_node_description_tag list \<Rightarrow> sipa_node_description_tag list) \<Rightarrow> (int \<Rightarrow> bool option) \<Rightarrow>
     int \<Rightarrow> 'h sipa_core \<Rightarrow> (int \<times> 'h sipa_core) option" where
  "sipa_dummy_rx m poll dev_on budget s =
     (if dummy_dev s = None then Some (- EINVAL, s)
      else sipa_dummy_rx_loop m poll dev_on (nat budget) 0 (upd_dummy (\<lambda>d. d\<lparr>dm_rx_evt := False\<rparr>) s))"

definition dummy_evt :: "'h sipa_core \<Rightarrow> bool" where
  "dummy_evt s = (case dummy_dev s of None \<Rightarrow> False | Some d \<Rightarrow> dm_rx_evt d)"

definition dummy_busy :: "'h sipa_core \<Rightarrow> bool" where
  "dummy_busy s = (case dummy_dev s of None \<Rightarrow> False | Some d \<Rightarrow> dm_rx_busy d)"

text \<open>The end of the poll, from \<open>napi_complete\<close> on.\<close>

definition poll_complete :: "'h mmio \<Rightarrow> 'h sipa_core \<Rightarrow> 'h sipa_core" where
  "poll_complete m s =
     (let s = sipa_nic_restore_irq m (upd_dummy (\<lambda>d. d\<lparr>dm_rx_busy := False\<rparr>) s);
          (again, s) = (if dummy_evt s \<or> dummy_busy s then (True, s)
                        else let (empty, s) = sipa_check_recv_tx_fifo_empty m s in (\<not> empty, s)) in
      if again then upd_dummy (\<lambda>d. d\<lparr>dm_rx_evt := False, dm_napi_scheduled := dm_napi_scheduled d + 1\<rparr>) s else s)"

text \<open>
  \<open>sipa_dummy_rx_poll_handler\<close> with its \<open>READ_AGAIN\<close> loop. The loop is bounded by \<open>fuel\<close>: \<open>None\<close> also
  stands for more than \<open>fuel\<close> rounds.
\<close>

fun sipa_dummy_rx_poll_handler ::
    "nat \<Rightarrow> 'h mmio \<Rightarrow> (sipa_node_description_tag list \<Rightarrow> sipa_node_description_tag list) \<Rightarrow> (int \<Rightarrow> bool option) \<Rightarrow>
     int \<Rightarrow> int \<Rightarrow> 'h sipa_core \<Rightarrow> (int \<times> 'h sipa_core) option" where
  "sipa_dummy_rx_poll_handler 0 m poll dev_on budget tmp s = None"
| "sipa_dummy_rx_poll_handler (Suc fuel) m poll dev_on budget tmp s =
     (let (num, s) = sipa_nic_get_filled_num m s in
      case (if num = 0 then Some (0, s)
            else case sipa_dummy_rx m poll dev_on (if sint num > budget then budget else sint num) s of
                   None \<Rightarrow> None
                 | Some (pkts, s) \<Rightarrow>
                     Some (pkts, if pkts > 0 then sipa_nic_set_tx_fifo_rp m (word_of_int pkts) s else s)) of
        None \<Rightarrow> None
      | Some (pkts, s) \<Rightarrow>
          if num \<noteq> 0 \<and> budget - pkts = 0 then Some (tmp + pkts, s)
          else let (empty, s) = sipa_check_recv_tx_fifo_empty m s in
            if \<not> empty \<or> dummy_evt s
            then sipa_dummy_rx_poll_handler fuel m poll dev_on (budget - pkts) (tmp + pkts)
                   (upd_dummy (\<lambda>d. d\<lparr>dm_rx_evt := False\<rparr>) s)
            else Some (tmp + pkts, poll_complete m s))"

end
