(* ===== verification/SipaProbe.thy ===== *)
theory SipaProbe
  imports SipaIrq
begin

text \<open>
  Bringing the SIPA device up: \<^verbatim>\<open>sipa_core.c\<close> (probe, without device tree) and \<^verbatim>\<open>sipa_dele_cmn.c\<close>
  (the handshake with the modem after which the FIFOs are opened). The coherent DMA allocations are
  parameters: \<open>None\<close> is a failure, \<open>Some a\<close> a ring at bus address \<open>a\<close>.
\<close>

abbreviation (input) SIPA_PCIE_MEM_OFFSET :: u64 where "SIPA_PCIE_MEM_OFFSET \<equiv> 0x200000000"
abbreviation (input) SIPA_PCIE_DL_CMN_FIFO_REG_OFFSET :: u64 where "SIPA_PCIE_DL_CMN_FIFO_REG_OFFSET \<equiv> 0x980"
abbreviation (input) SIPA_PCIE_UL_CMN_FIFO_REG_OFFSET :: u64 where "SIPA_PCIE_UL_CMN_FIFO_REG_OFFSET \<equiv> 0x200"

definition alloc_fifo :: "u64 \<Rightarrow> sipa_cmn_fifo_tag \<Rightarrow> sipa_cmn_fifo_tag" where
  "alloc_fifo dma_addr f =
     f\<lparr>ff_virtual_addr := Some (replicate (unat (ff_depth f)) zero_desc), ff_dma_ptr := dma_addr,
       ff_base_addr_l := ucast dma_addr, ff_base_addr_h := 0x2\<rparr>"

definition sipa_init_cmn_fifo :: "u64 option \<Rightarrow> u64 option \<Rightarrow> nat \<Rightarrow> 'h sipa_core \<Rightarrow> int \<times> 'h sipa_core" where
  "sipa_init_cmn_fifo dma_tx dma_rx fid s =
     (let set = (\<lambda>f s. snd (run_state (mod_cfg fid f) s));
          s = set (\<lambda>c. c\<lparr>fifo_id := fid, fifo_dst := SIPA_TERM_VCP, fifo_cur := SIPA_TERM_PCIE0\<rparr>) s in
      case dma_tx of
        None \<Rightarrow> (- ENOMEM, set (\<lambda>c. c\<lparr>tx_fifo := (tx_fifo c)\<lparr>ff_virtual_addr := None\<rparr>\<rparr>) s)
      | Some dma_addr \<Rightarrow>
          let s = set (\<lambda>c. c\<lparr>tx_fifo := alloc_fifo dma_addr (tx_fifo c)\<rparr>) s in
          case dma_rx of
            None \<Rightarrow> (- ENOMEM, set (\<lambda>c. c\<lparr>rx_fifo := (rx_fifo c)\<lparr>ff_virtual_addr := None\<rparr>\<rparr>) s)
          | Some dma_addr \<Rightarrow> (0, set (\<lambda>c. c\<lparr>rx_fifo := alloc_fifo dma_addr (rx_fifo c)\<rparr>) s))"

definition sipa_init_ep :: "'h sipa_core \<Rightarrow> 'h sipa_core" where
  "sipa_init_ep s = s\<lparr>send_fifo := SIPA_FIFO_PCIE_UL, recv_fifo := SIPA_FIFO_PCIE_DL\<rparr>"

definition set_depths :: "nat \<Rightarrow> u32 \<Rightarrow> u32 \<Rightarrow> 'h sipa_core \<Rightarrow> 'h sipa_core" where
  "set_depths fid tx rx s =
     snd (run_state (mod_cfg fid (\<lambda>c. c\<lparr>tx_fifo := (tx_fifo c)\<lparr>ff_depth := tx\<rparr>, rx_fifo := (rx_fifo c)\<lparr>ff_depth := rx\<rparr>\<rparr>)) s)"

definition sipa_parse_dts_configuration :: "'h sipa_core \<Rightarrow> 'h sipa_core" where
  "sipa_parse_dts_configuration s =
     set_depths SIPA_FIFO_PCIE_UL 4096 4096 (set_depths SIPA_FIFO_PCIE_DL 4096 4096 s)"

text \<open>
  The outcomes of the kernel calls the probe makes: the four ring allocations, the receiver's and the
  sender's memory and threads, the receive buffers and their mappings.
\<close>

record probe_env =
  pe_dl_tx :: "u64 option"
  pe_dl_rx :: "u64 option"
  pe_ul_tx :: "u64 option"
  pe_ul_rx :: "u64 option"
  pe_receiver :: bool
  pe_recv_array :: "sipa_skb_dma_addr_node list option"
  pe_recv_thread :: bool
  pe_alloc :: "nat \<Rightarrow> sk_buff option"
  pe_dma :: "sk_buff \<Rightarrow> u64 option"
  pe_sender :: bool
  pe_cache :: bool
  pe_send_thread :: bool
  pe_err :: int

text \<open>The results of creating the receiver and the sender are ignored, as in the source.\<close>

definition sipa_plat_drv_probe :: "probe_env \<Rightarrow> sk_buff \<Rightarrow> 'h sipa_core \<Rightarrow> (int \<times> 'h sipa_core) option" where
  "sipa_plat_drv_probe e null_skb s =
     (let s = sipa_parse_dts_configuration (s\<lparr>pcie_mem_offset := SIPA_PCIE_MEM_OFFSET\<rparr>);
          (ret, s) = sipa_init_cmn_fifo (pe_dl_tx e) (pe_dl_rx e) SIPA_FIFO_PCIE_DL s in
      if ret \<noteq> 0 then Some (ret, s) else
      let (ret, s) = sipa_init_cmn_fifo (pe_ul_tx e) (pe_ul_rx e) SIPA_FIFO_PCIE_UL s in
      if ret \<noteq> 0 then Some (ret, s) else
      map_option (\<lambda>(_, s). (0, snd (create_sipa_skb_sender (pe_sender e) (pe_cache e) (pe_send_thread e) (pe_err e) null_skb s)))
        (create_sipa_skb_receiver (pe_receiver e) (pe_recv_array e) (pe_recv_thread e) (pe_err e) (pe_alloc e) (pe_dma e)
          (sipa_init_ep s)))"

section \<open>The handshake with the modem\<close>

definition sipa_init_cmn_fifo_reg_addr :: "u64 option \<Rightarrow> 'h sipa_core \<Rightarrow> int \<times> 'h sipa_core" where
  "sipa_init_cmn_fifo_reg_addr virt_reg_addr s =
     (case virt_reg_addr of
        None \<Rightarrow> (- ENOMEM, s)
      | Some a \<Rightarrow> (0, snd (run_state (do {
          mod_cfg SIPA_FIFO_PCIE_DL (\<lambda>c. c\<lparr>fifo_reg_base := a + SIPA_PCIE_DL_CMN_FIFO_REG_OFFSET\<rparr>);
          mod_cfg SIPA_FIFO_PCIE_UL (\<lambda>c. c\<lparr>fifo_reg_base := a + SIPA_PCIE_UL_CMN_FIFO_REG_OFFSET\<rparr>) }) s)))"

end
