(* ===== verification/SipaConfigProps.thy ===== *)
theory SipaConfigProps
  imports SipaFifoProps
begin

text \<open>
  Properties of the configuration registers: fields that share a register are independent, the checked
  setters accept exactly what fits, interrupt enables change exactly the bits they are given, and what
  goes wrong in the functions that test a result the wrong way round or do not test a range.
\<close>

section \<open>Fields\<close>

text \<open>
  The four numbers of the prefetch control register (current and destination terminal, priority,
  threshold) are independent: after all four are set, in this order, every setter has succeeded and
  every getter returns what was set.
\<close>

theorem prefetch_fields_independent:
  assumes ok: "mmio_ok m wm"
    and own: "owned wm (b + IPA_PERFETCH_FIFO_CTL) 0x3E000" "owned wm (b + IPA_PERFETCH_FIFO_CTL) 0x1F00"
      "owned wm (b + IPA_PERFETCH_FIFO_CTL) 0xF0" "owned wm (b + IPA_PERFETCH_FIFO_CTL) 0xF"
    and v: "cur \<le> 0x1F" "dst \<le> 0x1F" "pri \<le> 0xF" "thr \<le> 0xF"
    and h: "(r1, h1) = run_state (ipa_phy_set_cur_term_num m b cur) h"
      "(r2, h2) = run_state (ipa_phy_set_dst_term_num m b dst) h1"
      "(r3, h3) = run_state (ipa_phy_set_prefetch_fifo_priority m b pri) h2"
      "(r4, h4) = run_state (ipa_phy_set_prefetch_threshold m b thr) h3"
  shows "r1 = 0 \<and> r2 = 0 \<and> r3 = 0 \<and> r4 = 0 \<and>
    fst (run_state (ipa_phy_get_cur_term_num m b) h4) = cur \<and> fst (run_state (ipa_phy_get_dst_term_num m b) h4) = dst \<and>
    fst (run_state (ipa_phy_get_prefetch_fifo_priority m b) h4) = pri \<and>
    fst (run_state (ipa_phy_get_prefetch_threshold m b) h4) = thr"
proof -
  note mk = mask_eq_exp_minus_1
  have s: "h1 = snd (run_state (ipa_phy_set_cur_term_num m b cur) h)" "h2 = snd (run_state (ipa_phy_set_dst_term_num m b dst) h1)"
      "h3 = snd (run_state (ipa_phy_set_prefetch_fifo_priority m b pri) h2)"
      "h4 = snd (run_state (ipa_phy_set_prefetch_threshold m b thr) h3)"
    and r: "r1 = fst (run_state (ipa_phy_set_cur_term_num m b cur) h)" "r2 = fst (run_state (ipa_phy_set_dst_term_num m b dst) h1)"
      "r3 = fst (run_state (ipa_phy_set_prefetch_fifo_priority m b pri) h2)"
      "r4 = fst (run_state (ipa_phy_set_prefetch_threshold m b thr) h3)"
    by (simp_all flip: h)
  have "r1 = 0" "r2 = 0" "r3 = 0" "r4 = 0"
    unfolding r using own v cur_term.set_succeeds [OF ok, of b cur h] dst_term.set_succeeds [OF ok, of b dst h1]
      priority.set_succeeds [OF ok, of b pri h2] prefetch.set_succeeds [OF ok, of b thr h3] by (simp_all add: mk)
  moreover have "fst (run_state (ipa_phy_get_prefetch_threshold m b) h4) = thr"
    unfolding s using own v prefetch.get_after_set [OF ok, of b thr] by (simp add: mk)
  moreover have "fst (run_state (ipa_phy_get_prefetch_fifo_priority m b) h4) = pri"
    unfolding s using own v priority_prefetch.keeps_A [OF ok, of b thr] priority.get_after_set [OF ok, of b pri]
    by (simp add: mk)
  moreover have "fst (run_state (ipa_phy_get_dst_term_num m b) h4) = dst"
    unfolding s using own v dst_term_prefetch.keeps_A [OF ok, of b thr] dst_term_priority.keeps_A [OF ok, of b pri]
      dst_term.get_after_set [OF ok, of b dst] by (simp add: mk)
  moreover have "fst (run_state (ipa_phy_get_cur_term_num m b) h4) = cur"
    unfolding s using own v cur_term_prefetch.keeps_A [OF ok, of b thr] cur_term_priority.keeps_A [OF ok, of b pri]
      cur_term_dst_term.keeps_A [OF ok, of b dst] cur_term.get_after_set [OF ok, of b cur] by (simp add: mk)
  ultimately show ?thesis by simp
qed

theorem prefetch_fields_independent_witness:
  "\<exists>h4. fst (run_state (ipa_phy_get_cur_term_num ram 0) h4) = 0x10 \<and> fst (run_state (ipa_phy_get_dst_term_num ram 0) h4) = 6 \<and>
     fst (run_state (ipa_phy_get_prefetch_fifo_priority ram 0) h4) = 15 \<and>
     fst (run_state (ipa_phy_get_prefetch_threshold ram 0) h4) = 3"
  using prefetch_fields_independent [OF mmio_ok_ram [of "\<lambda>_. - 1"] _ _ _ _ _ _ _ _ prod.collapse prod.collapse
      prod.collapse prod.collapse, where b = 0 and cur = "0x10" and dst = 6 and pri = 15 and thr = 3]
  by fastforce

text \<open>
  The pointer and depth setters accept exactly the values that fit their 16-bit field: such a value
  is stored, read back by the getter and reported as success; a larger one is refused with EINVAL and
  the device is not touched.
\<close>

theorem pointer_setters_checked:
  assumes ok: "mmio_ok m wm"
    and own: "owned wm (b + IPA_COMMON_RX_FIFO_WR) 0xFFFF0000" "owned wm (b + IPA_COMMON_RX_FIFO_RD) 0xFFFF0000"
      "owned wm (b + IPA_COMMON_TX_FIFO_RD) 0xFFFF0000" "owned wm (b + IPA_COMMON_TX_FIFO_DEPTH) 0xFFFF0000"
    and acc: "(setf, getf) \<in> {(ipa_phy_update_rx_fifo_wptr, ipa_phy_get_rx_fifo_wptr),
      (ipa_phy_update_rx_fifo_rptr, ipa_phy_get_rx_fifo_rptr), (ipa_phy_update_tx_fifo_rptr, ipa_phy_get_tx_fifo_rptr),
      (ipa_phy_set_tx_fifo_total_depth, ipa_phy_get_tx_fifo_total_depth)}"
  shows "if v \<le> 0xFFFF
    then fst (run_state (setf m b v) h) = 0 \<and> fst (run_state (getf m b) (snd (run_state (setf m b v) h))) = v
    else run_state (setf m b v) h = (- EINVAL, h)"
proof -
  have mk: "mask 16 = (0xFFFF :: u32)" "push_bit 16 (mask 16) = (0xFFFF0000 :: u32)" by (simp_all add: mask_eq_exp_minus_1)
  from acc show ?thesis
    using own rx_wptr.set_succeeds [OF ok, of b v h] rx_wptr.get_after_set [OF ok, of b v h] rx_wptr.reject [of v m b]
      rx_rptr.set_succeeds [OF ok, of b v h] rx_rptr.get_after_set [OF ok, of b v h] rx_rptr.reject [of v m b]
      tx_rptr.set_succeeds [OF ok, of b v h] tx_rptr.get_after_set [OF ok, of b v h] tx_rptr.reject [of v m b]
      tx_depth.set_succeeds [OF ok, of b v h] tx_depth.get_after_set [OF ok, of b v h] tx_depth.reject [of v m b]
    unfolding mk by (cases "v \<le> 0xFFFF") (auto simp: not_le)
qed

theorem pointer_setters_checked_witness:
  "fst (run_state (ipa_phy_get_rx_fifo_wptr ram 0) (snd (run_state (ipa_phy_update_rx_fifo_wptr ram 0 0xBEEF) (\<lambda>_. 1)))) = 0xBEEF \<and>
   run_state (ipa_phy_update_rx_fifo_wptr ram 0 0x10000) (\<lambda>_. 1) = (- 22, \<lambda>_. 1)"
  using pointer_setters_checked [OF mmio_ok_ram [of "\<lambda>_. - 1"], where b = 0 and setf = ipa_phy_update_rx_fifo_wptr and getf = ipa_phy_get_rx_fifo_wptr and v = "0xBEEF" and h = "\<lambda>_. 1"]
    pointer_setters_checked [OF mmio_ok_ram [of "\<lambda>_. - 1"], where b = 0 and setf = ipa_phy_update_rx_fifo_wptr and getf = ipa_phy_get_rx_fifo_wptr and v = "0x10000" and h = "\<lambda>_. 1"]
  by simp

section \<open>Interrupt enables\<close>

lemma enable_status:
  "fst (run_state (ipa_phy_get_all_intr_enable_status m b) h) = fld m (b + IPA_INT_GEN_CTL_EN) 0xFFF h"
  by (simp add: ipa_phy_get_all_intr_enable_status_def split_beta fst_readl_fld)

lemma enable_int_bit:
  assumes "mmio_ok m wm" "owned wm (b + IPA_INT_GEN_CTL_EN) 0xFFF" "x AND 0xFFF = x"
  shows "fst (run_state (ipa_phy_enable_int_bit m b x) h) = 0"
    and "fld m (b + IPA_INT_GEN_CTL_EN) 0xFFF (snd (run_state (ipa_phy_enable_int_bit m b x) h)) =
      fld m (b + IPA_INT_GEN_CTL_EN) 0xFFF h OR x"
proof -
  have x: "t AND x = (t AND 0xFFF) AND x" for t using assms(3) by (metis and.assoc and.commute)
  have o: "(t OR x) AND 0xFFF = (t AND 0xFFF) OR x" for t using assms(3) by (simp add: bit.conj_disj_distrib2)
  show "fld m (b + IPA_INT_GEN_CTL_EN) 0xFFF (snd (run_state (ipa_phy_enable_int_bit m b x) h)) =
      fld m (b + IPA_INT_GEN_CTL_EN) 0xFFF h OR x"
    using assms by (simp add: ipa_phy_enable_int_bit_def split_beta fld_read fld_write_same o fst_readl_fld)
  show "fst (run_state (ipa_phy_enable_int_bit m b x) h) = 0"
    using assms by (simp add: ipa_phy_enable_int_bit_def split_beta x [of "fst _"] fst_readl_fld fld_read fld_write_same o)
qed

lemma disable_int_bit:
  assumes "mmio_ok m wm" "owned wm (b + IPA_INT_GEN_CTL_EN) 0xFFF" "x AND 0xFFF = x"
  shows "fst (run_state (ipa_phy_disable_int_bit m b x) h) = 0"
    and "fld m (b + IPA_INT_GEN_CTL_EN) 0xFFF (snd (run_state (ipa_phy_disable_int_bit m b x) h)) =
      fld m (b + IPA_INT_GEN_CTL_EN) 0xFFF h AND NOT x"
proof -
  have x: "t AND x = (t AND 0xFFF) AND x" for t using assms(3) by (metis and.assoc and.commute)
  have o: "(t AND NOT x) AND 0xFFF = (t AND 0xFFF) AND NOT x" for t by (simp add: ac_simps)
  have z: "x AND (NOT x AND p) = 0" for p by (auto simp: bit_eq_iff bit_simps)
  show "fld m (b + IPA_INT_GEN_CTL_EN) 0xFFF (snd (run_state (ipa_phy_disable_int_bit m b x) h)) =
      fld m (b + IPA_INT_GEN_CTL_EN) 0xFFF h AND NOT x"
    using assms by (simp add: ipa_phy_disable_int_bit_def split_beta fld_read fld_write_same) (simp add: fld_def peek_def ac_simps)
  show "fst (run_state (ipa_phy_disable_int_bit m b x) h) = 0"
    using assms by (simp add: ipa_phy_disable_int_bit_def split_beta x [of "fst _"] fst_readl_fld fld_read fld_write_same)
      (simp add: fld_def ac_simps z and.assoc)
qed

text \<open>
  \<open>ipa_common_fifo_set_intr_eb\<close> enables or disables exactly the interrupt bits it is given: it
  reports success, the given bits are set (cleared) and every other enable bit is as before.
\<close>

theorem set_intr_eb_exact:
  assumes ok: "mmio_ok m wm" "owned wm (fifo_reg_base (cmn_fifo_cfg s fid) + IPA_INT_GEN_CTL_EN) 0xFFF"
    and ty: "ty AND 0xFFF = ty" and id: "fid < SIPA_FIFO_MAX"
    and run: "run_state (ipa_common_fifo_set_intr_eb m fid eb ty) s = (r, s')"
  shows "r = 0 \<and> cmn_fifo_cfg s' = cmn_fifo_cfg s \<and>
    (let st = (\<lambda>h. fst (run_state (ipa_phy_get_all_intr_enable_status m (fifo_reg_base (cmn_fifo_cfg s fid))) h))
     in st (hw s') = (if eb then st (hw s) OR ty else st (hw s) AND NOT ty))"
  using run id enable_int_bit [OF ok ty] disable_int_bit [OF ok ty]
  by (auto simp: ipa_common_fifo_set_intr_eb_def split_beta enable_status Let_def split: if_splits)

theorem set_intr_eb_exact_witness:
  "\<exists>r s'. run_state (ipa_common_fifo_set_intr_eb ram 0 True 3) (sample_hal\<lparr>hw := (\<lambda>_. 0x110)\<rparr>) = (r, s') \<and> r = 0 \<and>
     fst (run_state (ipa_phy_get_all_intr_enable_status ram 0x980) (hw s')) = 0x113"
proof -
  obtain r s' where run: "run_state (ipa_common_fifo_set_intr_eb ram 0 True 3) (sample_hal\<lparr>hw := (\<lambda>_. 0x110)\<rparr>) = (r, s')"
    by (meson surj_pair)
  show ?thesis
    using set_intr_eb_exact [OF mmio_ok_ram [of "\<lambda>_. - 1"] _ _ _ run] run
    by (simp add: sample_defs ipa_phy_get_all_intr_enable_status_def Let_def)
qed

section \<open>Error tests the wrong way round\<close>

lemma int_bit_frames:
  assumes "mmio_ok m wm"
  shows "frames m wm {b + IPA_INT_GEN_CTL_EN} (ipa_phy_enable_int_bit m b x)"
    and "frames m wm {b + IPA_INT_GEN_CTL_EN} (ipa_phy_disable_int_bit m b x)"
  unfolding ipa_phy_enable_int_bit_def ipa_phy_disable_int_bit_def by (intro quiet assms; simp)+

text \<open>
  The two functions that set the delay timer and enable its interrupt differ in one test. The
  hardware variant stores the timer and enables its interrupt. The software variant stores the timer,
  reports success and leaves every interrupt enable as it was: it enables the interrupt only when
  storing the timer failed.
\<close>

theorem intr_timeout_enables:
  assumes ok: "mmio_ok m wm" and b: "b = fifo_reg_base (cmn_fifo_cfg s fid)"
    and own: "owned wm (b + IPA_INT_GEN_CTL_EN) 0xFFF" "owned wm (b + IPA_INT_GEN_CTL_TX_FIFO_VALUE) 0xFFFF"
    and id: "fid < SIPA_FIFO_MAX" and en: "enable \<noteq> 0" and time: "time \<le> 0xFFFF"
    and run: "run_state (ipa_common_fifo_hal_set_hw_intr_timeout m fid enable time) s = (r, s1)"
      "run_state (ipa_common_fifo_hal_set_intr_timeout m fid enable time) s = (r', s2)"
  shows "r = 0 \<and> r' = 0 \<and>
    fst (run_state (ipa_phy_get_tx_fifo_interrupt_delay_timer m b) (hw s1)) = time \<and>
    fst (run_state (ipa_phy_get_tx_fifo_interrupt_delay_timer m b) (hw s2)) = time \<and>
    fst (run_state (ipa_phy_get_all_intr_enable_status m b) (hw s1)) =
      fst (run_state (ipa_phy_get_all_intr_enable_status m b) (hw s)) OR IPA_TX_FIFO_DELAY_TIMER_EN \<and>
    fst (run_state (ipa_phy_get_all_intr_enable_status m b) (hw s2)) =
      fst (run_state (ipa_phy_get_all_intr_enable_status m b) (hw s))"
proof -
  let ?h = "snd (run_state (ipa_phy_set_tx_fifo_interrupt_delay_timer m b time) (hw s))"
  have mk: "mask 16 = (0xFFFF :: u32)" "push_bit 0 (mask 16) = (0xFFFF :: u32)" by (simp_all add: mask_eq_exp_minus_1)
  have t: "fst (run_state (ipa_phy_set_tx_fifo_interrupt_delay_timer m b time) (hw s)) = 0"
      "fst (run_state (ipa_phy_get_tx_fifo_interrupt_delay_timer m b) ?h) = time"
    using own(2) time delay_timer.set_succeeds [OF ok, of b time "hw s"] delay_timer.get_after_set [OF ok, of b time "hw s"]
    unfolding mk by simp_all
  have e: "fld m (b + IPA_INT_GEN_CTL_EN) 0xFFF ?h = fld m (b + IPA_INT_GEN_CTL_EN) 0xFFF (hw s)"
    using delay_timer.set_frame [OF ok _ own(1), of time b] own(1) time unfolding mk by simp
  have r: "r = 0" "hw s1 = snd (run_state (ipa_phy_enable_int_bit m b IPA_TX_FIFO_DELAY_TIMER_EN) ?h)"
    using run(1) id en t(1) enable_int_bit(1) [OF ok own(1), of 1] b
    by (auto simp: ipa_common_fifo_hal_set_hw_intr_timeout_def split_beta)
  have r': "r' = 0" "hw s2 = ?h"
    using run(2) id en t(1) b by (auto simp: ipa_common_fifo_hal_set_intr_timeout_def split_beta)
  have "fst (run_state (ipa_phy_get_tx_fifo_interrupt_delay_timer m b) (hw s1)) = time"
    using t(2) framesD [OF int_bit_frames(1) [OF ok] own(2)] delay_timer.getf_val [of m b]
    unfolding r(2) mk by simp
  then show ?thesis using r r' t e enable_int_bit(2) [OF ok own(1), of 1 ?h] by (simp add: enable_status)
qed

theorem intr_timeout_enables_witness:
  "\<exists>s1 s2. snd (run_state (ipa_common_fifo_hal_set_hw_intr_timeout ram 0 1 100) sample_hal) = s1 \<and>
     snd (run_state (ipa_common_fifo_hal_set_intr_timeout ram 0 1 100) sample_hal) = s2 \<and>
     fst (run_state (ipa_phy_get_all_intr_enable_status ram 0x980) (hw s1)) = 1 \<and>
     fst (run_state (ipa_phy_get_all_intr_enable_status ram 0x980) (hw s2)) = 0"
  using intr_timeout_enables [OF mmio_ok_ram [of "\<lambda>_. - 1"] refl _ _ _ _ _ prod.collapse [symmetric] prod.collapse [symmetric],
      where s = sample_hal and fid = 0 and enable = 1 and time = 100]
  by (simp add: sample_defs ipa_phy_get_all_intr_enable_status_def)

text \<open>
  \<open>ipa_common_fifo_hal_enable_remote_flowctrl_intr\<close> stops after its first successful write: given
  four watermarks that fit, it reports success but sets only the exit watermark of the transmit FIFO;
  the other three and the working mode keep their old values.
\<close>

theorem remote_flowctrl_stops_early:
  assumes ok: "mmio_ok m wm" and b: "b = fifo_reg_base (cmn_fifo_cfg s fid)"
    and own: "owned wm (b + IPA_TX_FIFO_FLOW_CTRL) 0xFFFF0000" "owned wm (b + IPA_TX_FIFO_FLOW_CTRL) 0xFFFF"
      "owned wm (b + IPA_RX_FIFO_FLOW_CTRL) 0xFFFF0000" "owned wm (b + IPA_RX_FIFO_FLOW_CTRL) 0xFFFF"
      "owned wm (b + IPA_FLOW_CTRL_CONFIG) 3"
    and id: "fid < SIPA_FIFO_MAX" and w: "tx_exit \<le> 0xFFFF"
    and run: "run_state (ipa_common_fifo_hal_enable_remote_flowctrl_intr m fid mode tx_entry tx_exit rx_entry rx_exit) s = (r, s')"
  shows "r = 0 \<and>
    fst (run_state (ipa_phy_get_tx_fifo_exit_flow_ctrl_watermark m b) (hw s')) = tx_exit \<and>
    (\<forall>getf \<in> {ipa_phy_get_tx_fifo_entry_flow_ctrl_watermark, ipa_phy_get_rx_fifo_exit_flow_ctrl_watermark,
       ipa_phy_get_rx_fifo_entry_flow_ctrl_watermark, ipa_phy_get_flow_ctrl_config}.
       fst (run_state (getf m b) (hw s')) = fst (run_state (getf m b) (hw s)))"
proof -
  have mk: "mask 16 = (0xFFFF :: u32)" "push_bit 16 (mask 16) = (0xFFFF0000 :: u32)" "push_bit 0 (mask 16) = (0xFFFF :: u32)"
      "mask 2 = (3 :: u32)" by (simp_all add: mask_eq_exp_minus_1)
  let ?h = "snd (run_state (ipa_phy_set_tx_fifo_exit_flow_ctrl_watermark m b tx_exit) (hw s))"
  have "fst (run_state (ipa_phy_set_tx_fifo_exit_flow_ctrl_watermark m b tx_exit) (hw s)) = 0"
    using tx_exit.set_succeeds [OF ok, of b tx_exit] own w unfolding mk by simp
  then have r: "r = 0" "hw s' = ?h"
    using run id b by (auto simp: ipa_common_fifo_hal_enable_remote_flowctrl_intr_def split_beta Let_def)
  have "fst (run_state (ipa_phy_get_tx_fifo_exit_flow_ctrl_watermark m b) ?h) = tx_exit"
    using tx_exit.get_after_set [OF ok, of b tx_exit] own w unfolding mk by simp
  moreover have "fst (run_state (ipa_phy_get_tx_fifo_entry_flow_ctrl_watermark m b) ?h) =
      fst (run_state (ipa_phy_get_tx_fifo_entry_flow_ctrl_watermark m b) (hw s))"
    using tx_exit_tx_entry.keeps_B [OF ok, of b tx_exit] own w unfolding mk by simp
  moreover have "fld m (b + IPA_RX_FIFO_FLOW_CTRL) G ?h = fld m (b + IPA_RX_FIFO_FLOW_CTRL) G (hw s)"
    if "owned wm (b + IPA_RX_FIFO_FLOW_CTRL) G" for G
    using tx_exit.set_frame [OF ok _ that, of tx_exit b] w unfolding mk by simp
  moreover have "fld m (b + IPA_FLOW_CTRL_CONFIG) 3 ?h = fld m (b + IPA_FLOW_CTRL_CONFIG) 3 (hw s)"
    using tx_exit.set_frame [OF ok _ own(5), of tx_exit b] w unfolding mk by simp
  ultimately show ?thesis
    using own r by (simp add: rx_exit.getf_val rx_entry.getf_val flow_cfg.getf_val mk)
qed

theorem remote_flowctrl_stops_early_witness:
  "\<exists>r s'. run_state (ipa_common_fifo_hal_enable_remote_flowctrl_intr ram 0 1 100 200 300 400) sample_hal = (r, s') \<and> r = 0 \<and>
     fst (run_state (ipa_phy_get_tx_fifo_exit_flow_ctrl_watermark ram 0x980) (hw s')) = 200 \<and>
     fst (run_state (ipa_phy_get_flow_ctrl_config ram 0x980) (hw s')) = 0"
proof -
  obtain r s' where run: "run_state (ipa_common_fifo_hal_enable_remote_flowctrl_intr ram 0 1 100 200 300 400) sample_hal = (r, s')"
    by (meson surj_pair)
  show ?thesis
    using remote_flowctrl_stops_early [OF mmio_ok_ram [of "\<lambda>_. - 1"] refl _ _ _ _ _ _ _ run] run
    by (simp add: sample_defs ipa_phy_get_flow_ctrl_config_def)
qed

text \<open>
  The entry watermark is not checked against its 16-bit field: a larger value is reported as EIO,
  but by then its upper half has been merged into the exit watermark of the same register.
\<close>

theorem entry_watermark_overflow:
  assumes ok: "mmio_ok m wm"
    and own: "owned wm (b + IPA_TX_FIFO_FLOW_CTRL) 0xFFFF0000" "owned wm (b + IPA_TX_FIFO_FLOW_CTRL) 0xFFFF"
    and w: "w > 0xFFFF" and run: "run_state (ipa_phy_set_tx_fifo_entry_flow_ctrl_watermark m b w) h = (r, h')"
  shows "r = - EIO \<and>
    fst (run_state (ipa_phy_get_tx_fifo_exit_flow_ctrl_watermark m b) h') =
      fst (run_state (ipa_phy_get_tx_fifo_exit_flow_ctrl_watermark m b) h) OR drop_bit 16 w"
proof -
  let ?a = "b + IPA_TX_FIFO_FLOW_CTRL"
  have lo: "t AND 0xFFFF \<noteq> w" for t
    using w word_and_le1 [of t "0xFFFF"] by auto
  have r: "r = - EIO" and h': "fld m ?a 0xFFFF0000 h' = fld m ?a 0xFFFF0000 h OR (w AND 0xFFFF0000)"
    using run lo own ok
    by (auto simp: ipa_phy_set_tx_fifo_entry_flow_ctrl_watermark_def split_beta fld_read fld_write_same fst_readl_fld)
      (simp add: fld_def bit.conj_disj_distrib2 and.assoc)
  have "drop_bit 16 (x AND 0xFFFF0000) = drop_bit 16 x" for x :: u32 by (rule hi_word)
  with h' r show ?thesis by (simp add: tx_exit.getf_val mask_eq_exp_minus_1)
qed

theorem entry_watermark_overflow_witness:
  "\<exists>r h'. run_state (ipa_phy_set_tx_fifo_entry_flow_ctrl_watermark ram 0 0x30001) (\<lambda>_. 0x40000) = (r, h') \<and> r = - 5 \<and>
     fst (run_state (ipa_phy_get_tx_fifo_exit_flow_ctrl_watermark ram 0) h') = 7"
proof -
  obtain r h' where run: "run_state (ipa_phy_set_tx_fifo_entry_flow_ctrl_watermark ram 0 0x30001) (\<lambda>_. 0x40000) = (r, h')"
    by (meson surj_pair)
  have "fst (run_state (ipa_phy_get_tx_fifo_exit_flow_ctrl_watermark ram 0) (\<lambda>_. 0x40000)) OR drop_bit 16 0x30001 = (7 :: u32)"
    by (simp add: ipa_phy_get_tx_fifo_exit_flow_ctrl_watermark_def)
  then show ?thesis
    using entry_watermark_overflow [OF mmio_ok_ram [of "\<lambda>_. - 1"] _ _ _ run] run by simp
qed

section \<open>Pointers\<close>

lemma update_tx_wptr_ok:
  assumes ok: "mmio_ok m wm" and own: "owned wm (b + IPA_TX_FIFO_WR_INIT) 0xFFFF0000" and v: "v \<le> 0xFFFF"
  shows "fst (run_state (ipa_phy_update_tx_fifo_wptr m b v) h) = 0"
proof -
  have fits: "take_bit 16 v = v" using fits_le [of v 16] v by (simp add: mask_eq_exp_minus_1)
  have k: "(t OR 2) AND 0xFFFF0000 = t AND 0xFFFF0000" "(t AND 0xFFFFFFFD) AND 0xFFFF0000 = t AND 0xFFFF0000" for t :: u32
    by (simp add: bit.conj_disj_distrib2, simp add: and.assoc)
  have i: "((t AND 0xFFFF) OR push_bit 16 v) AND 0xFFFF0000 = push_bit 16 v" for t :: u32
    using insert_extract [OF fits, of 0 16] by (simp add: mask_eq_exp_minus_1 bit.conj_disj_distrib2 and.assoc)
  have "drop_bit 16 (push_bit 16 v) = v" by (rule shift_back [OF fits]) simp
  moreover have "v AND 0xFFFF = v" using fits by (simp add: take_bit_eq_mask mask_eq_exp_minus_1)
  ultimately show ?thesis
    using v ok own by (simp add: ipa_phy_update_tx_fifo_wptr_def split_beta not_less hi_word [symmetric, of "fst _"] fst_readl_fld
       fld_read fld_write_same k i del: push_bit_and)
qed

text \<open>
  The functions that move the pointers of a FIFO report the opposite of what happened. Moving the
  receive write pointer to a new position stores it, masked, on the device and in the software state and
  returns false; it returns true only when there was nothing to do. Setting all four pointers returns 0
  exactly when none of them had to move and EIO otherwise.
\<close>

theorem pointer_writers_invert_result:
  assumes ok: "mmio_ok m wm" and c: "c = cmn_fifo_cfg s fid" and b: "b = fifo_reg_base c"
    and own: "owned wm (b + IPA_COMMON_RX_FIFO_WR) 0xFFFF0000" "owned wm (b + IPA_COMMON_RX_FIFO_RD) 0xFFFF0000"
      "owned wm (b + IPA_COMMON_TX_FIFO_RD) 0xFFFF0000" "owned wm (b + IPA_TX_FIFO_WR_INIT) 0xFFFF0000"
    and id: "fid < SIPA_FIFO_MAX" and fit: "PTR_MASK (ff_depth (rx_fifo c)) \<le> 0xFFFF"
    and run: "run_state (ipa_common_fifo_hal_set_rx_fifo_wptr m fid rx_wr) s = (r1, s1)"
      "run_state (ipa_common_fifo_hal_set_rx_tx_fifo_ptr m fid rx_rd rx_wr tx_rd tx_wr) s = (r2, s2)"
  shows "(if rx_wr = fst (run_state (ipa_phy_get_rx_fifo_wptr m b) (hw s)) then r1 \<and> cmn_fifo_cfg s1 = cmn_fifo_cfg s
     else \<not> r1 \<and> fst (run_state (ipa_phy_get_rx_fifo_wptr m b) (hw s1)) = rx_wr AND PTR_MASK (ff_depth (rx_fifo c)) \<and>
       ff_wr (rx_fifo (cmn_fifo_cfg s1 fid)) = rx_wr AND PTR_MASK (ff_depth (rx_fifo c))) \<and>
    r2 = (if rx_rd = fst (run_state (ipa_phy_get_rx_fifo_rptr m b) (hw s)) \<and>
       rx_wr = fst (run_state (ipa_phy_get_rx_fifo_wptr m b) (hw s)) \<and>
       tx_rd = fst (run_state (ipa_phy_get_tx_fifo_rptr m b) (hw s)) \<and>
       tx_wr = fst (run_state (ipa_phy_get_tx_fifo_wptr m b) (hw s)) then 0 else - EIO)"
proof -
  have le: "x AND PTR_MASK (ff_depth (rx_fifo c)) \<le> 0xFFFF" for x
    using fit by (meson order_trans word_and_le1)
  show ?thesis
  proof (intro conjI)
    note mk = mask_eq_exp_minus_1
    note val = rx_wptr.getf_val rx_rptr.getf_val tx_rptr.getf_val
    note keep = rx_wptr.get_frame [OF ok] rx_rptr.get_frame [OF ok] tx_rptr.get_frame [OF ok]
    have set_ok: "fst (run_state (ipa_phy_update_rx_fifo_wptr m b (x AND PTR_MASK (ff_depth (rx_fifo c)))) h) = 0"
      "fst (run_state (ipa_phy_update_rx_fifo_rptr m b (x AND PTR_MASK (ff_depth (rx_fifo c)))) h) = 0"
      "fst (run_state (ipa_phy_update_tx_fifo_rptr m b (x AND PTR_MASK (ff_depth (rx_fifo c)))) h) = 0"
      "fst (run_state (ipa_phy_update_tx_fifo_wptr m b (x AND PTR_MASK (ff_depth (rx_fifo c)))) h) = 0" for x h
      using rx_wptr.set_succeeds [OF ok, of b _ h] rx_rptr.set_succeeds [OF ok, of b _ h]
        tx_rptr.set_succeeds [OF ok, of b _ h] update_tx_wptr_ok [OF ok own(4), of _ h] own le [of x] by (simp_all add: mk)
    show "if rx_wr = fst (run_state (ipa_phy_get_rx_fifo_wptr m b) (hw s)) then r1 \<and> cmn_fifo_cfg s1 = cmn_fifo_cfg s
     else \<not> r1 \<and> fst (run_state (ipa_phy_get_rx_fifo_wptr m b) (hw s1)) = rx_wr AND PTR_MASK (ff_depth (rx_fifo c)) \<and>
       ff_wr (rx_fifo (cmn_fifo_cfg s1 fid)) = rx_wr AND PTR_MASK (ff_depth (rx_fifo c))"
      using run(1) id own le [of rx_wr]
      by (auto simp: ipa_common_fifo_hal_set_rx_fifo_wptr_def Let_def split_beta b c [symmetric] set_ok [unfolded b]
         rx_wptr.get_after_set [OF ok, simplified mk, simplified])
    have frame: "fld m a G (snd (run_state (ipa_phy_get_tx_fifo_wptr m b) h)) = fld m a G h" if "owned wm a G" for a G h
      using that ok by (simp add: ipa_phy_get_tx_fifo_wptr_def split_beta fld_read)
    show "r2 = (if rx_rd = fst (run_state (ipa_phy_get_rx_fifo_rptr m b) (hw s)) \<and>
       rx_wr = fst (run_state (ipa_phy_get_rx_fifo_wptr m b) (hw s)) \<and>
       tx_rd = fst (run_state (ipa_phy_get_tx_fifo_rptr m b) (hw s)) \<and>
       tx_wr = fst (run_state (ipa_phy_get_tx_fifo_wptr m b) (hw s)) then 0 else - EIO)"
    proof -
      have r: "r2 = fst (run_state (ipa_common_fifo_hal_set_rx_tx_fifo_ptr m fid rx_rd rx_wr tx_rd tx_wr) s)"
        by (simp add: run(2))
      have cfg: "cmn_fifo_cfg s fid = c" "fifo_reg_base c = b" by (simp_all add: b c)
      show ?thesis
        unfolding r ipa_common_fifo_hal_set_rx_tx_fifo_ptr_def
        by (cases "rx_rd = fst (run_state (ipa_phy_get_rx_fifo_rptr m b) (hw s))";
            cases "rx_wr = fst (run_state (ipa_phy_get_rx_fifo_wptr m b) (hw s))";
            cases "tx_rd = fst (run_state (ipa_phy_get_tx_fifo_rptr m b) (hw s))"; cases "tx_wr = fst (run_state (ipa_phy_get_tx_fifo_wptr m b) (hw s))")
          (use id own in \<open>simp_all add: Let_def split_beta cfg set_ok val keep frame mk\<close>)
    qed
  qed
qed

theorem pointer_writers_invert_result_witness:
  "\<not> fst (run_state (ipa_common_fifo_hal_set_rx_fifo_wptr ram 0 5) sample_hal) \<and>
   fst (run_state (ipa_common_fifo_hal_set_rx_tx_fifo_ptr ram 0 0 5 0 0) sample_hal) = - 5"
proof -
  obtain r1 s1 r2 s2 where run: "run_state (ipa_common_fifo_hal_set_rx_fifo_wptr ram 0 5) sample_hal = (r1, s1)"
      "run_state (ipa_common_fifo_hal_set_rx_tx_fifo_ptr ram 0 0 5 0 0) sample_hal = (r2, s2)"
    by (meson surj_pair)
  have now: "fst (run_state (ipa_phy_get_rx_fifo_wptr ram b) (\<lambda>_. 0)) = 0" for b
    by (simp add: ipa_phy_get_rx_fifo_wptr_def)
  show ?thesis
    using pointer_writers_invert_result [OF mmio_ok_ram [of "\<lambda>_. - 1"] refl refl _ _ _ _ _ _ run] run
    by (simp add: sample_defs PTR_MASK_def now)
qed

end
