(* ===== verification/SipaProbeProps.thy ===== *)
theory SipaProbeProps
  imports SipaIrqProps
begin

text \<open>
  What a successful probe establishes, and the life of a network interface.
\<close>

section \<open>Probe\<close>

lemma init_fifo_run:
  "sipa_init_cmn_fifo (Some a) (Some b) fid s = (0, s\<lparr>cmn_fifo_cfg := (cmn_fifo_cfg s)(fid :=
     (cmn_fifo_cfg s fid)\<lparr>fifo_id := fid, fifo_dst := SIPA_TERM_VCP, fifo_cur := SIPA_TERM_PCIE0,
       tx_fifo := alloc_fifo a (tx_fifo (cmn_fifo_cfg s fid)), rx_fifo := alloc_fifo b (rx_fifo (cmn_fifo_cfg s fid))\<rparr>)\<rparr>)"
  by (simp add: sipa_init_cmn_fifo_def Let_def)

lemma alloc_fifo_ok: "ff_depth f = 4096 \<Longrightarrow> ring_ok (alloc_fifo a f)"
  unfolding ring_ok_def by (intro exI [of _ 12] exI [of _ "replicate 4096 zero_desc"]) (simp add: alloc_fifo_def)

text \<open>
  C8. When every kernel call of the probe succeeds, the probe returns 0 and leaves a state in which the
  sender's and the receiver's invariants hold: rings of 4096 descriptors, all sender entries free, 3072
  send credits, the interface lock free, the receiver's callback installed and, if there is memory for
  them all, 4096 buffers posted and none waiting to be filled.
\<close>

theorem probe_establishes_invariants:
  assumes rings: "pe_dl_tx e = Some a1" "pe_dl_rx e = Some a2" "pe_ul_tx e = Some a3" "pe_ul_rx e = Some a4"
    and recv: "pe_receiver e" "pe_recv_array e = Some cells" "length cells = 4096" "pe_recv_thread e"
    and send: "pe_sender e" "pe_cache e" "pe_send_thread e"
  shows "\<exists>s'. sipa_plat_drv_probe e null_skb s = Some (0, s') \<and> sender_ok s' \<and> recv_ok s' \<and> \<not> nic_lock (sender s') \<and>
    send_depth s' = 4096 \<and> recv_depth s' = 4096 \<and> left_cnt (sender s') = 3072 \<and> sending_list (sender s') = [] \<and>
    irq_cb (cmn_fifo_cfg s' (recv_fifo s')) = Receiver_notify_cb \<and> length (posted s') \<le> 4096 \<and>
    (mem_plenty (pe_alloc e) (pe_dma e) \<longrightarrow> length (posted s') = 4096 \<and> recv_books s')"
proof -
  define s0 where "s0 = sipa_init_ep (snd (sipa_init_cmn_fifo (Some a3) (Some a4) SIPA_FIFO_PCIE_UL
      (snd (sipa_init_cmn_fifo (Some a1) (Some a2) SIPA_FIFO_PCIE_DL
        (sipa_parse_dts_configuration (s\<lparr>pcie_mem_offset := SIPA_PCIE_MEM_OFFSET\<rparr>))))))"
  have cfg: "send_fifo s0 = 1" "recv_fifo s0 = 0" "fifo_id (cmn_fifo_cfg s0 0) = 0" "fifo_id (cmn_fifo_cfg s0 1) = 1"
    "ff_depth (rx_fifo (cmn_fifo_cfg s0 0)) = 4096" "ff_depth (rx_fifo (cmn_fifo_cfg s0 1)) = 4096"
    "ring_ok (rx_fifo (cmn_fifo_cfg s0 0))" "ring_ok (tx_fifo (cmn_fifo_cfg s0 0))"
    "ring_ok (rx_fifo (cmn_fifo_cfg s0 1))" "ring_ok (tx_fifo (cmn_fifo_cfg s0 1))"
    unfolding s0_def init_fifo_run
    by (simp_all add: sipa_init_ep_def sipa_parse_dts_configuration_def set_depths_def alloc_fifo_ok) (simp_all add: alloc_fifo_def)
  define p0 where "p0 = \<lparr>arr_array = Some cells, arr_rp = 0, arr_wp = 0, arr_depth = (4096 :: u32)\<rparr>"
  have p0: "arr_ok p0" "arr_list p0 = []"
    using recv(3) by (auto simp: p0_def arr_ok_def arr_list_def intro!: exI [of _ 12])
  define s1 where "s1 = upd_receiver (\<lambda>r. r\<lparr>rcv_rsvd := SIPA_RECV_RSVD_LEN\<rparr>) (snd (run_state (mod_cfg (recv_id s0) (\<lambda>c. c\<lparr>irq_cb := Receiver_notify_cb\<rparr>))
      (s0\<lparr>receiver := \<lparr>recv_array = p0, rcv_rsvd = SIPA_RECV_RSVD_LEN, need_fill_cnt = 0, tx_danger_cnt = 0,
                            rx_danger_cnt = 0, rcv_nic_array = [], rcv_run = False\<rparr>\<rparr>)))"
  have s1: "recv_ok s1" "recv_depth s1 = 4096" "posted s1 = []" "send_fifo s1 = 1" "recv_fifo s1 = 0" "need_fill_cnt (receiver s1) = 0"
      "cmn_fifo_cfg s1 1 = cmn_fifo_cfg s0 1" "ff_depth (rx_fifo (cmn_fifo_cfg s1 0)) = 4096" "irq_cb (cmn_fifo_cfg s1 0) = Receiver_notify_cb"
      "fifo_id (cmn_fifo_cfg s1 0) = 0"
    using cfg p0 by (simp_all add: s1_def recv_ok_def recv_depth_def posted_def recv_id_def) (simp add: p0_def)
  obtain c s2 xs where loop: "fill_loop (pe_alloc e) (pe_dma e) 0 4096 0 s1 = Some (of_nat c, s2)" "c \<le> 4096" "recv_ok s2"
      "recv_depth s2 = 4096" "recv_fifo s2 = 0" "need_fill_cnt (receiver s2) = 0" "posted s2 = xs" "length xs = c"
      "mem_plenty (pe_alloc e) (pe_dma e) \<longrightarrow> c = 4096"
    using fill_loop_ok [of s1 0 4096 "pe_alloc e" "pe_dma e" 0] s1 by auto
  have kept: "send_fifo s2 = 1 \<and> cmn_fifo_cfg s2 1 = cmn_fifo_cfg s0 1 \<and> irq_cb (cmn_fifo_cfg s2 0) = Receiver_notify_cb"
    using fill_loop_keeps [OF loop(1)] s1 cfg by (auto simp: fill_keeps_def recv_id_def)
  define s3 where "s3 = upd_receiver (\<lambda>r. r\<lparr>rcv_run := True\<rparr>) s2"
  have s3: "recv_ok s3" "recv_depth s3 = 4096" "posted s3 = xs" "need_fill_cnt (receiver s3) = 0" "recv_fifo s3 = 0"
      "cmn_fifo_cfg s3 = cmn_fifo_cfg s2" "send_fifo s3 = 1"
    using loop kept by (simp_all add: s3_def recv_ok_def recv_depth_def posted_def)
  have receiver: "create_sipa_skb_receiver (pe_receiver e) (pe_recv_array e) (pe_recv_thread e) (pe_err e) (pe_alloc e) (pe_dma e) s0 = Some (0, s3)"
  proof -
    have "unat (ff_depth (rx_fifo (cmn_fifo_cfg s1 (recv_fifo s1)))) = 4096" using s1 by simp
    then have "sipa_receiver_init (pe_alloc e) (pe_dma e) SIPA_RECV_RSVD_LEN (s0\<lparr>receiver := \<lparr>recv_array = p0, rcv_rsvd = SIPA_RECV_RSVD_LEN,
        need_fill_cnt = 0, tx_danger_cnt = 0, rx_danger_cnt = 0, rcv_nic_array = [], rcv_run = False\<rparr>\<rparr>) = Some s2"
      using loop(1) by (simp add: sipa_receiver_init_def sipa_prepare_free_node_init_def Let_def s1_def recv_id_def)
    then show ?thesis using recv cfg by (simp add: create_sipa_skb_receiver_def create_recv_array_def p0_def s3_def)
  qed
  define s4 where "s4 = snd (create_sipa_skb_sender (pe_sender e) (pe_cache e) (pe_send_thread e) (pe_err e) null_skb s3)"
  have "ff_depth (rx_fifo (cmn_fifo_cfg s3 (send_fifo s3))) = 4096" using s3 kept cfg by simp
  then have s4: "sender s4 = \<lparr>left_cnt = 3072, nic_list = [], nic_lock = False, sending_list = [], pair_free_list = [0..<4096],
                     pair_cache = (\<lambda>_. \<lparr>pair_skb = null_skb, pair_dma_addr = 0\<rparr>),
                     free_notify_net = False, ep_cover_net = False, no_free_cnt = 0,
                     snd_enter_flow_ctrl_cnt = 0, snd_exit_flow_ctrl_cnt = 0, snd_run = True\<rparr>"
      "s4 = s3\<lparr>sender := sender s4\<rparr>"
    using send by (simp_all add: s4_def create_sipa_skb_sender_def)
  have same4: "cmn_fifo_cfg s4 = cmn_fifo_cfg s2" "send_fifo s4 = 1" "recv_fifo s4 = 0" "receiver s4 = receiver s3"
    using s3 by (subst s4(2), simp)+
  have run: "sipa_plat_drv_probe e null_skb s = Some (0, s4)"
    using rings receiver unfolding sipa_plat_drv_probe_def s4_def s0_def by (simp add: Let_def split_beta init_fifo_run)
  have "send_depth s4 = 4096" using same4 kept cfg by (simp add: send_depth_def)
  moreover have "send_fifo_ok s4" using same4 kept cfg by (simp add: send_fifo_ok_def)
  moreover have "lists_ok 4096 (sender s4)" "credits_ok 4096 (sender s4)" by (simp_all add: lists_ok_def credits_ok_def s4(1))
  moreover have "recv_ok s4" "recv_depth s4 = 4096" "posted s4 = xs"
    using s3 same4 by (simp_all add: recv_ok_def recv_depth_def posted_def)
  ultimately show ?thesis using run loop kept same4 s3 s4(1)
    by (intro exI [of _ s4]) (simp add: sender_ok_def recv_books_def)
qed

definition sample_env :: probe_env where
  "sample_env = \<lparr>pe_dl_tx = Some 0x1000, pe_dl_rx = Some 0x2000, pe_ul_tx = Some 0x3000, pe_ul_rx = Some 0x4000, pe_receiver = True,
     pe_recv_array = Some (replicate 4096 \<lparr>pair_skb = sample_skb, pair_dma_addr = 0\<rparr>), pe_recv_thread = True,
     pe_alloc = (\<lambda>i. Some (sample_skb\<lparr>skb_id := i\<rparr>)), pe_dma = (\<lambda>k. Some (word_of_nat (skb_id k))), pe_sender = True,
     pe_cache = True, pe_send_thread = True, pe_err = 0\<rparr>"

theorem probe_establishes_invariants_witness:
  "\<exists>s'. sipa_plat_drv_probe sample_env sample_skb sample_core = Some (0, s') \<and> sender_ok s' \<and> recv_books s' \<and>
     length (posted s') = 4096"
  using probe_establishes_invariants [of sample_env "0x1000" "0x2000" "0x3000" "0x4000"
      "replicate 4096 \<lparr>pair_skb = sample_skb, pair_dma_addr = 0\<rparr>" sample_skb sample_core]
  by (auto simp: sample_env_def mem_plenty_def)

section \<open>Interfaces\<close>

text \<open>
  An interface has one owner at a time. With the driver ready and the interface lock free, opening a
  valid interface that is not open returns its number, enters it in the sender's list and marks it open;
  opening it again is refused with EBUSY; closing it takes it off the list, gives its queued packets
  back to the kernel and lets it be opened again.
\<close>

theorem nic_lifecycle:
  assumes rdy: "remote_ready s" and lock: "\<not> nic_lock (sender s)" and i: "nic_index netid = Some i"
    and closed: "\<not> (nic_present s i \<and> nic_status_open (nics s i))" "i \<notin> set (nic_list (sender s))"
  shows "\<exists>s1. sipa_nic_open True netid cb s = Some (netid, s1) \<and> nic_status_open (nics s1 i) \<and> nic_rx_skb_q (nics s1 i) = [] \<and>
    nic_list (sender s1) = nic_list (sender s) @ [i] \<and> sipa_nic_open True netid cb' s1 = Some (- EBUSY, s1) \<and>
    (\<exists>s2. sipa_nic_close netid (upd_nic i (\<lambda>c. c\<lparr>nic_rx_skb_q := q\<rparr>) s1) = Some s2 \<and> \<not> nic_status_open (nics s2 i) \<and>
       nic_list (sender s2) = nic_list (sender s) \<and> kfreed s2 = kfreed s1 @ q \<and>
       (\<exists>s3. sipa_nic_open True netid cb' s2 = Some (netid, s3)))"
proof -
  have n: "netid \<noteq> SIPA_NIC_MAX" using i by (auto simp: nic_index_def split: if_splits)
  note defs = sipa_nic_open_def sipa_nic_close_def sipa_skb_sender_add_nic_def sipa_skb_sender_remove_nic_def
    spin_lock_nic_def spin_unlock_nic_def Let_def
  let ?f = "\<lambda>c. c\<lparr>nic_status_open := True, nic_need_notify := 0, nic_src_mask := s_spia_nic_statics_src_mask i,
     nic_netid := netid, nic_cb := cb, nic_continue_notify := True\<rparr>"
  define t where "t = (if nic_present s i then upd_nic i (\<lambda>c. c\<lparr>nic_rx_skb_q := []\<rparr>) (s\<lparr>kfreed := kfreed s @ nic_rx_skb_q (nics s i)\<rparr>)
     else upd_nic i (\<lambda>_. zero_nic) (s\<lparr>nic_present := (nic_present s)(i := True)\<rparr>))"
  define s1 where "s1 = upd_sender (\<lambda>d. d\<lparr>nic_lock := False, nic_list := nic_list d @ [i]\<rparr>) (upd_nic i ?f t)"
  have t: "sender t = sender s" "remote_ready t" "nic_present t i" "nic_rx_skb_q (nics t i) = []"
    using rdy by (simp_all add: t_def zero_nic_def)
  have open1: "sipa_nic_open True netid cb s = Some (netid, s1)"
    using closed(1) rdy lock i n t(1) by (auto simp: defs t_def s1_def upd_sender_def)
  have s1: "nic_status_open (nics s1 i)" "nic_rx_skb_q (nics s1 i) = []" "nic_list (sender s1) = nic_list (sender s) @ [i]"
    "remote_ready s1" "nic_present s1 i" "\<not> nic_lock (sender s1)"
    using t by (simp_all add: s1_def)
  then have busy: "sipa_nic_open True netid cb' s1 = Some (- EBUSY, s1)" using i n by (simp add: sipa_nic_open_def)
  define s2 where "s2 = upd_sender (\<lambda>d. d\<lparr>nic_lock := False, nic_list := remove1 i (nic_list d)\<rparr>)
     (upd_nic i (\<lambda>c. c\<lparr>nic_continue_notify := False, nic_status_open := False, nic_rx_skb_q := []\<rparr>)
       ((upd_nic i (\<lambda>c. c\<lparr>nic_rx_skb_q := q\<rparr>) s1)\<lparr>kfreed := kfreed s1 @ q\<rparr>))"
  have close: "sipa_nic_close netid (upd_nic i (\<lambda>c. c\<lparr>nic_rx_skb_q := q\<rparr>) s1) = Some s2"
    using s1 i n by (auto simp: defs s2_def upd_sender_def)
  have s2: "\<not> nic_status_open (nics s2 i)" "nic_list (sender s2) = nic_list (sender s)" "kfreed s2 = kfreed s1 @ q"
    "remote_ready s2" "\<not> nic_lock (sender s2)" "nic_present s2 i"
    using s1 closed(2) by (simp_all add: s2_def remove1_append)
  have "\<exists>s3. sipa_nic_open True netid cb' s2 = Some (netid, s3)"
    using s2 i n by (simp add: defs)
  with open1 s1 busy close s2 show ?thesis by blast
qed

theorem nic_lifecycle_witness:
  "\<exists>s1. sipa_nic_open True 3 True sample_core = Some (3, s1) \<and> nic_list (sender s1) = [3] \<and>
     sipa_nic_open True 3 False s1 = Some (- 16, s1)"
  using nic_lifecycle [of sample_core 3 3 True False] by (auto simp: sample_core_def sample_sender_def nic_index_def)

end
