(* ===== verification/SmsCodec.thy ===== *)
theory SmsCodec
  imports Prelude
begin

text \<open>
  The character codecs of the SMS tool: \<^verbatim>\<open>sendat/src/pdu.c\<close> and \<^verbatim>\<open>ucs2_to_utf8.c\<close>. A C array is a list, a pointer into it is the
  list with an offset, a C string is the list of its characters without the final zero. Reading and
  writing go through \<open>rd\<close> and \<open>wr\<close>, so \<open>None\<close> is an access outside an array, which C leaves undefined;
  an error code is an ordinary result. Characters are bytes: every use of a plain \<open>char\<close> here is masked or
  truncated to eight bits, so its signedness does not matter except where noted.
\<close>

section \<open>Arrays\<close>

definition rd :: "'a list \<Rightarrow> nat \<Rightarrow> 'a option" where
  "rd a i = (if i < length a then Some (a ! i) else None)"

definition wr :: "'a list \<Rightarrow> nat \<Rightarrow> 'a \<Rightarrow> 'a list option" where
  "wr a i v = (if i < length a then Some (a[i := v]) else None)"

lemma rd_Some [simp]: "i < length a \<Longrightarrow> rd a i = Some (a ! i)"
  by (simp add: rd_def)

lemma wr_Some [simp]: "i < length a \<Longrightarrow> wr a i v = Some (a[i := v])"
  by (simp add: wr_def)

lemma rd_None [simp]: "length a \<le> i \<Longrightarrow> rd a i = None"
  by (simp add: rd_def)

lemma wr_None [simp]: "length a \<le> i \<Longrightarrow> wr a i v = None"
  by (simp add: wr_def)

section \<open>Seven-bit packing\<close>

abbreviation (input) BITMASK_7BITS :: u8 where "BITMASK_7BITS \<equiv> 0x7F"
abbreviation (input) BITMASK_HIGH_4BITS :: u8 where "BITMASK_HIGH_4BITS \<equiv> 0xF0"
abbreviation (input) BITMASK_LOW_4BITS :: u8 where "BITMASK_LOW_4BITS \<equiv> 0x0F"

definition SwapDecimalNibble :: "u8 \<Rightarrow> u8" where
  "SwapDecimalNibble x = x div 16 + (x mod 16) * 10"

text \<open>The loop of \<open>EncodePDUMessage\<close>; it returns the octets written, \<open>carry_on_bits\<close>, \<open>i\<close> and the buffer.\<close>

function encode_septets :: "u8 list \<Rightarrow> nat \<Rightarrow> u8 list \<Rightarrow> nat \<Rightarrow> nat \<Rightarrow> nat \<Rightarrow> nat \<Rightarrow> (nat \<times> nat \<times> nat \<times> u8 list) option" where
  "encode_septets txt n out o' len carry i =
     (if i + 1 < n then do {
        a \<leftarrow> rd txt i;
        b \<leftarrow> rd txt (i + 1);
        out \<leftarrow> wr out (o' + len) (drop_bit (carry - 1) (a AND BITMASK_7BITS) OR push_bit (8 - carry) (b AND BITMASK_7BITS));
        if carry + 1 = 8 then encode_septets txt n out o' (len + 1) 1 (i + 2)
        else encode_septets txt n out o' (len + 1) (carry + 1) (i + 1) }
      else Some (len, carry, i, out))"
  by pat_completeness auto

termination by (relation "measure (\<lambda>(txt, n, out, o', len, carry, i). n - i)") auto

declare encode_septets.simps [simp del]

definition EncodePDUMessage :: "u8 list \<Rightarrow> nat \<Rightarrow> u8 list \<Rightarrow> nat \<Rightarrow> int \<Rightarrow> (int \<times> u8 list) option" where
  "EncodePDUMessage sms_text sms_text_length out o' buffer_size =
     (if int ((sms_text_length * 7 + 7) div 8) > buffer_size then Some (- 1, out) else do {
        (len, carry, i, out) \<leftarrow> encode_septets sms_text sms_text_length out o' 0 1 0;
        if i \<le> sms_text_length then do {
          a \<leftarrow> rd sms_text i;
          out \<leftarrow> wr out (o' + len) (drop_bit (carry - 1) (a AND BITMASK_7BITS));
          Some (int (len + 1), out) }
        else Some (int len, out) })"

text \<open>The loop of \<open>DecodePDUMessage_GSM_7bit\<close>: octets \<open>p + i\<close> of \<open>buf\<close> up to \<open>p + l\<close>, at most \<open>n\<close> characters.\<close>

function decode_octets :: "u8 list \<Rightarrow> nat \<Rightarrow> nat \<Rightarrow> u8 list \<Rightarrow> nat \<Rightarrow> nat \<Rightarrow> nat \<Rightarrow> nat \<Rightarrow> (nat \<times> nat \<times> nat \<times> u8 list) option" where
  "decode_octets buf p l out n carry i len =
     (if i < l then do {
        a \<leftarrow> rd buf (p + i);
        b \<leftarrow> rd buf (p + i - 1);
        out \<leftarrow> wr out len (BITMASK_7BITS AND (push_bit carry a OR drop_bit (8 - carry) b));
        if len + 1 = n then Some (len + 1, carry, i, out)
        else if carry + 1 = 8 then do {
          out \<leftarrow> wr out (len + 1) (a AND BITMASK_7BITS);
          if len + 2 = n then Some (len + 2, 1, i, out)
          else decode_octets buf p l out n 1 (i + 1) (len + 2) }
        else decode_octets buf p l out n (carry + 1) (i + 1) (len + 1) }
      else Some (len, carry, i, out))"
  by pat_completeness auto

termination by (relation "measure (\<lambda>(buf, p, l, out, n, carry, i, len). l - i)") auto

declare decode_octets.simps [simp del]

definition decode_rest :: "u8 list \<Rightarrow> nat \<Rightarrow> nat \<Rightarrow> nat \<times> nat \<times> nat \<times> u8 list \<Rightarrow> (nat \<times> u8 list) option" where
  "decode_rest buf p n = (\<lambda>(len, carry, i, out).
     if len < n then do {
       b \<leftarrow> rd buf (p + i - 1);
       out \<leftarrow> wr out len (drop_bit (8 - carry) b);
       Some (len + 1, out) }
     else Some (len, out))"

definition DecodePDUMessage_GSM_7bit :: "u8 list \<Rightarrow> nat \<Rightarrow> nat \<Rightarrow> u8 list \<Rightarrow> nat \<Rightarrow> (nat \<times> u8 list) option" where
  "DecodePDUMessage_GSM_7bit buf p buffer_length out sms_text_length = do {
     (len, out) \<leftarrow> (if 0 < buffer_length then do {
         a \<leftarrow> rd buf p;
         out \<leftarrow> wr out 0 (BITMASK_7BITS AND a);
         Some (1, out) }
       else Some (0, out));
     if 1 < sms_text_length then do {
       r \<leftarrow> decode_octets buf p buffer_length out sms_text_length 1 1 len;
       decode_rest buf p sms_text_length r }
     else Some (len, out) }"

section \<open>The GSM alphabet\<close>

abbreviation (input) GSM_7BITS_ESCAPE :: u8 where "GSM_7BITS_ESCAPE \<equiv> 0x1b"
abbreviation (input) NPC :: int where "NPC \<equiv> 0x3f"

definition gsm7bits_to_latin1 :: "u8 list" where
  "gsm7bits_to_latin1 = [
     0x40, 0xa3, 0x24, 0xa5, 0xe8, 0xe9, 0xf9, 0xec, 0xf2, 0xc7, 0x0a, 0xd8, 0xf8, 0x0d, 0xc5, 0xe5,
     0, 0x5f, 0, 0, 0, 0, 0, 0, 0, 0, 0, 0, 0xc6, 0xe6, 0xdf, 0xc9,
     0x20, 0x21, 0x22, 0x23, 0xa4, 0x25, 0x26, 0x27, 0x28, 0x29, 0x2a, 0x2b, 0x2c, 0x2d, 0x2e, 0x2f,
     0x30, 0x31, 0x32, 0x33, 0x34, 0x35, 0x36, 0x37, 0x38, 0x39, 0x3a, 0x3b, 0x3c, 0x3d, 0x3e, 0x3f,
     0xa1, 0x41, 0x42, 0x43, 0x44, 0x45, 0x46, 0x47, 0x48, 0x49, 0x4a, 0x4b, 0x4c, 0x4d, 0x4e, 0x4f,
     0x50, 0x51, 0x52, 0x53, 0x54, 0x55, 0x56, 0x57, 0x58, 0x59, 0x5a, 0xc4, 0xd6, 0xd1, 0xdc, 0xa7,
     0xbf, 0x61, 0x62, 0x63, 0x64, 0x65, 0x66, 0x67, 0x68, 0x69, 0x6a, 0x6b, 0x6c, 0x6d, 0x6e, 0x6f,
     0x70, 0x71, 0x72, 0x73, 0x74, 0x75, 0x76, 0x77, 0x78, 0x79, 0x7a, 0xe4, 0xf6, 0xf1, 0xfc, 0xe0]"

definition gsm7bits_extend_to_latin1 :: "u8 list" where
  "gsm7bits_extend_to_latin1 = [
     0, 0, 0, 0, 0, 0, 0, 0, 0, 0, 0x0c, 0, 0, 0, 0, 0,
     0, 0, 0, 0, 0x5e, 0, 0, 0, 0, 0, 0, 0, 0, 0, 0, 0,
     0, 0, 0, 0, 0, 0, 0, 0, 0x7b, 0x7d, 0, 0, 0, 0, 0, 0x5c,
     0, 0, 0, 0, 0, 0, 0, 0, 0, 0, 0, 0, 0x5b, 0x7e, 0x5d, 0,
     0x7c, 0, 0, 0, 0, 0, 0, 0, 0, 0, 0, 0, 0, 0, 0, 0,
     0, 0, 0, 0, 0, 0, 0, 0, 0, 0, 0, 0, 0, 0, 0, 0,
     0, 0, 0, 0, 0, 0, 0, 0, 0, 0, 0, 0, 0, 0, 0, 0,
     0, 0, 0, 0, 0, 0, 0, 0, 0, 0, 0, 0, 0, 0, 0, 0]"

text \<open>
  \<open>G7bitToAscii\<close> works in place and returns the new length. Characters from 128 on are left alone, as
  where \<open>char\<close> is unsigned; its only caller passes septets.
\<close>

function G7bitToAscii_loop :: "u8 list \<Rightarrow> nat \<Rightarrow> nat \<Rightarrow> (nat \<times> u8 list) option" where
  "G7bitToAscii_loop buf i n =
     (if i < n then do {
        c \<leftarrow> rd buf i;
        if c < 128 then
          if c = GSM_7BITS_ESCAPE then do {
            x \<leftarrow> rd buf (i + 1);
            v \<leftarrow> rd gsm7bits_extend_to_latin1 (unat x);
            let buf = buf[i := v];
            buf \<leftarrow> memcpy buf (i + 1) buf (i + 2) (n - i - 1);
            G7bitToAscii_loop buf (i + 1) (n - 1) }
          else do {
            v \<leftarrow> rd gsm7bits_to_latin1 (unat c);
            G7bitToAscii_loop (buf[i := v]) (i + 1) n }
        else G7bitToAscii_loop buf (i + 1) n }
      else Some (n, buf))"
  by pat_completeness auto

termination by (relation "measure (\<lambda>(buf, i, n). n - i)") auto

declare G7bitToAscii_loop.simps [simp del]

definition G7bitToAscii :: "u8 list \<Rightarrow> nat \<Rightarrow> (nat \<times> u8 list) option" where
  "G7bitToAscii buf buffer_length = G7bitToAscii_loop buf 0 buffer_length"

definition latin1_to_gsm7bits :: "int list" where
  "latin1_to_gsm7bits = [
     NPC, NPC, NPC, NPC, NPC, NPC, NPC, NPC, NPC, NPC, 0x0a, NPC, - 0x0a, 0x0d, NPC, NPC,
     NPC, NPC, NPC, NPC, NPC, NPC, NPC, NPC, NPC, NPC, NPC, NPC, NPC, NPC, NPC, NPC,
     0x20, 0x21, 0x22, 0x23, 0x02, 0x25, 0x26, 0x27, 0x28, 0x29, 0x2a, 0x2b, 0x2c, 0x2d, 0x2e, 0x2f,
     0x30, 0x31, 0x32, 0x33, 0x34, 0x35, 0x36, 0x37, 0x38, 0x39, 0x3a, 0x3b, 0x3c, 0x3d, 0x3e, 0x3f,
     0x00, 0x41, 0x42, 0x43, 0x44, 0x45, 0x46, 0x47, 0x48, 0x49, 0x4a, 0x4b, 0x4c, 0x4d, 0x4e, 0x4f,
     0x50, 0x51, 0x52, 0x53, 0x54, 0x55, 0x56, 0x57, 0x58, 0x59, 0x5a, - 0x3c, - 0x2f, - 0x3e, - 0x14, 0x11,
     NPC, 0x61, 0x62, 0x63, 0x64, 0x65, 0x66, 0x67, 0x68, 0x69, 0x6a, 0x6b, 0x6c, 0x6d, 0x6e, 0x6f,
     0x70, 0x71, 0x72, 0x73, 0x74, 0x75, 0x76, 0x77, 0x78, 0x79, 0x7a, - 0x28, - 0x40, - 0x29, - 0x3d, NPC,
     NPC, NPC, NPC, NPC, NPC, NPC, NPC, NPC, NPC, NPC, NPC, NPC, NPC, NPC, NPC, NPC,
     NPC, NPC, NPC, NPC, NPC, NPC, NPC, NPC, NPC, NPC, NPC, NPC, NPC, NPC, NPC, NPC,
     NPC, 0x40, NPC, 0x01, 0x24, 0x03, NPC, 0x5f, NPC, NPC, NPC, NPC, NPC, NPC, NPC, NPC,
     NPC, NPC, NPC, NPC, NPC, NPC, NPC, NPC, NPC, NPC, NPC, NPC, NPC, NPC, NPC, 0x60,
     NPC, NPC, NPC, NPC, 0x5b, 0x0e, 0x1c, 0x09, NPC, 0x1f, NPC, NPC, NPC, NPC, NPC, NPC,
     NPC, 0x5d, NPC, NPC, NPC, NPC, 0x5c, NPC, 0x0b, NPC, NPC, NPC, 0x5e, NPC, NPC, 0x1e,
     0x7f, NPC, NPC, NPC, 0x7b, 0x0f, 0x1d, NPC, 0x04, 0x05, NPC, NPC, 0x07, NPC, NPC, NPC,
     NPC, 0x7d, 0x08, NPC, NPC, NPC, 0x7c, NPC, 0x0c, 0x06, NPC, NPC, 0x7e, NPC, NPC, NPC]"

function AsciiToG7bit_loop :: "u8 list \<Rightarrow> nat \<Rightarrow> u8 list \<Rightarrow> nat \<Rightarrow> nat \<Rightarrow> (nat \<times> u8 list) option" where
  "AsciiToG7bit_loop buf n out j i =
     (if i < n then do {
        c \<leftarrow> rd buf i;
        let val = latin1_to_gsm7bits ! unat c;
        if val < 0 then do {
          out \<leftarrow> wr out j GSM_7BITS_ESCAPE;
          out \<leftarrow> wr out (j + 1) (word_of_int (- 1 * val));
          AsciiToG7bit_loop buf n out (j + 2) (i + 1) }
        else if c AND 0xE0 = 0xC0 then do {
          out \<leftarrow> wr out j (word_of_int NPC);
          AsciiToG7bit_loop buf n out (j + 1) (i + 2) }
        else if c AND 0xF0 = 0xE0 then do {
          out \<leftarrow> wr out j (word_of_int NPC);
          AsciiToG7bit_loop buf n out (j + 1) (i + 3) }
        else do {
          out \<leftarrow> wr out j (word_of_int val);
          AsciiToG7bit_loop buf n out (j + 1) (i + 1) } }
      else Some (j, out))"
  by pat_completeness auto

termination by (relation "measure (\<lambda>(buf, n, out, j, i). n - i)") auto

declare AsciiToG7bit_loop.simps [simp del]

definition AsciiToG7bit :: "u8 list \<Rightarrow> nat \<Rightarrow> u8 list \<Rightarrow> (nat \<times> u8 list) option" where
  "AsciiToG7bit buf buffer_length out = AsciiToG7bit_loop buf buffer_length out 0 0"

section \<open>Telephone numbers\<close>

text \<open>\<open>None\<close> in the first component of the result is the \<open>return -1\<close> in the loop.\<close>

function encode_digits :: "u8 list \<Rightarrow> u8 list \<Rightarrow> nat \<Rightarrow> nat \<Rightarrow> nat \<Rightarrow> (int \<times> u8 list) option" where
  "encode_digits phone out o' len i =
     (if i < length phone then
        let d = phone ! i in
        if d < 0x30 \<and> d > 0x39 then Some (- 1, out)
        else if i mod 2 = 0 then do {
          out \<leftarrow> wr out (o' + len) (BITMASK_HIGH_4BITS OR (d - 0x30));
          encode_digits phone out o' (len + 1) (i + 1) }
        else do {
          v \<leftarrow> rd out (o' + len - 1);
          out \<leftarrow> wr out (o' + len - 1) ((v AND BITMASK_LOW_4BITS) OR push_bit 4 (d - 0x30));
          encode_digits phone out o' len (i + 1) }
      else Some (int len, out))"
  by pat_completeness auto

termination by (relation "measure (\<lambda>(phone, out, o', len, i). length phone - i)") auto

declare encode_digits.simps [simp del]

definition EncodePhoneNumber :: "u8 list \<Rightarrow> u8 list \<Rightarrow> nat \<Rightarrow> int \<Rightarrow> (int \<times> u8 list) option" where
  "EncodePhoneNumber phone_number out o' buffer_size =
     (if int ((length phone_number + 1) div 2) > buffer_size then Some (- 1, out)
      else encode_digits phone_number out o' 0 0)"

function decode_digits :: "u8 list \<Rightarrow> nat \<Rightarrow> nat \<Rightarrow> u8 list \<Rightarrow> nat \<Rightarrow> u8 list option" where
  "decode_digits buf p n out i =
     (if i < n then do {
        v \<leftarrow> rd buf (p + i div 2);
        out \<leftarrow> wr out i ((if i mod 2 = 0 then v AND BITMASK_LOW_4BITS else drop_bit 4 (v AND BITMASK_HIGH_4BITS)) + 0x30);
        decode_digits buf p n out (i + 1) }
      else Some out)"
  by pat_completeness auto

termination by (relation "measure (\<lambda>(buf, p, n, out, i). n - i)") auto

declare decode_digits.simps [simp del]

definition DecodePhoneNumber :: "u8 list \<Rightarrow> nat \<Rightarrow> nat \<Rightarrow> u8 list \<Rightarrow> (nat \<times> u8 list) option" where
  "DecodePhoneNumber buf p phone_number_length out = do {
     out \<leftarrow> decode_digits buf p phone_number_length out 0;
     out \<leftarrow> wr out phone_number_length 0;
     Some (phone_number_length, out) }"

section \<open>UCS-2 to UTF-8\<close>

abbreviation (input) UNICODE_SURROGATE_PAIR :: int where "UNICODE_SURROGATE_PAIR \<equiv> - 2"
abbreviation (input) UNICODE_BAD_INPUT :: int where "UNICODE_BAD_INPUT \<equiv> - 1"

text \<open>
  The code point is an \<open>int\<close> of 32 bits; a byte stored is its low eight bits. The second component is
  what is written, final zero included; the function returns the first.
\<close>

definition ucs2_to_utf8 :: "int \<Rightarrow> int \<times> u8 list" where
  "ucs2_to_utf8 u =
     (if u < 0x80 then (1, [word_of_int u, 0])
      else if 0x80 \<le> u \<and> u < 0x800 then
        (2, [word_of_int (drop_bit 6 u OR 0xC0), word_of_int ((u AND 0x3F) OR 0x80), 0])
      else if 0x800 \<le> u \<and> u < 0xFFFF then
        if 0xD800 \<le> u \<and> u \<le> 0xDFFF then (UNICODE_SURROGATE_PAIR, [])
        else (3, [word_of_int (drop_bit 12 u OR 0xE0), word_of_int ((drop_bit 6 u AND 0x3F) OR 0x80),
                  word_of_int ((u AND 0x3F) OR 0x80), 0])
      else if 0x10000 \<le> u \<and> u < 0x10FFFF then
        (4, [word_of_int (0xF0 OR drop_bit 18 u), word_of_int (0x80 OR (drop_bit 12 u AND 0x3F)),
             word_of_int (0x80 OR (drop_bit 6 u AND 0x3F)), word_of_int (0x80 OR (u AND 0x3F)), 0])
      else (UNICODE_BAD_INPUT, []))"

end
