(* ===== verification/SmsPdu.thy ===== *)
theory SmsPdu
  imports SmsCodec
begin

text \<open>
  Whole SMS messages: \<open>pdu_encode\<close> and \<open>pdu_decode\<close> of \<^verbatim>\<open>sendat/src/pdu.c\<close> and what \<open>sms_decode\<close> of
  \<^verbatim>\<open>pdu_decoder.c\<close> prints of a decoded text (its terminal input and the formatting of the time are
  left out). As in \<^theory_text>\<open>SmsCodec\<close>, \<open>None\<close> is an access outside an array.
\<close>

abbreviation (input) TYPE_OF_ADDRESS_UNKNOWN :: u8 where "TYPE_OF_ADDRESS_UNKNOWN \<equiv> 0x81"
abbreviation (input) TYPE_OF_ADDRESS_INTERNATIONAL_PHONE :: u8 where "TYPE_OF_ADDRESS_INTERNATIONAL_PHONE \<equiv> 0x91"
abbreviation (input) TYPE_OF_ADDRESS_ALPHANUMERIC :: u8 where "TYPE_OF_ADDRESS_ALPHANUMERIC \<equiv> 0xD0"
abbreviation (input) SMS_SUBMIT :: u8 where "SMS_SUBMIT \<equiv> 0x11"
abbreviation (input) SMS_MAX_7BIT_TEXT_LENGTH :: nat where "SMS_MAX_7BIT_TEXT_LENGTH \<equiv> 160"

section \<open>Encoding\<close>

text \<open>Step 1 of \<open>pdu_encode\<close>: the service centre, \<open>None\<close> for a null pointer. The result is \<open>length\<close>.\<close>

definition put_service_center :: "u8 list option \<Rightarrow> u8 list \<Rightarrow> int \<Rightarrow> (int \<times> u8 list) option" where
  "put_service_center service_center_number out buffer_size =
     (case service_center_number of
        None \<Rightarrow> Some (0, out)
      | Some [] \<Rightarrow> Some (0, out)
      | Some sc \<Rightarrow> do {
          out \<leftarrow> wr out 1 TYPE_OF_ADDRESS_INTERNATIONAL_PHONE;
          (len, out) \<leftarrow> EncodePhoneNumber sc out 2 (buffer_size - 2);
          Some (if len < 0 \<and> len \<ge> 254 then (- 1, out) else (len + 1, out)) })"

text \<open>Step 5: the text. \<open>tmp\<close> is the local array of \<open>2 * SMS_MAX_7BIT_TEXT_LENGTH\<close> characters as found on the stack.\<close>

definition put_text :: "u8 list \<Rightarrow> u8 list \<Rightarrow> u8 list \<Rightarrow> nat \<Rightarrow> int \<Rightarrow> (int \<times> u8 list) option" where
  "put_text sms_text tmp out pos buffer_size = do {
     (sms_text_length, tmp) \<leftarrow> AsciiToG7bit sms_text (length sms_text) tmp;
     if sms_text_length > SMS_MAX_7BIT_TEXT_LENGTH then Some (- 1, out) else do {
       out \<leftarrow> wr out pos (of_nat sms_text_length);
       (len, out) \<leftarrow> EncodePDUMessage tmp sms_text_length out (pos + 1) (buffer_size - int (pos + 1));
       Some (if len < 0 then (- 1, out) else (int (pos + 1) + len, out)) } }"

definition pdu_encode :: "u8 list option \<Rightarrow> u8 list \<Rightarrow> u8 list \<Rightarrow> u8 list \<Rightarrow> u8 list \<Rightarrow> int \<Rightarrow> (int \<times> u8 list) option" where
  "pdu_encode service_center_number phone_number sms_text tmp out buffer_size =
     (if buffer_size < 2 then Some (- 1, out) else do {
        (len, out) \<leftarrow> put_service_center service_center_number out buffer_size;
        if len < 0 then Some (- 1, out) else do {
          out \<leftarrow> wr out 0 (word_of_int len);
          let pos = nat len + 1;
          if int pos + 4 > buffer_size then Some (- 1, out) else do {
            out \<leftarrow> wr out pos SMS_SUBMIT;
            out \<leftarrow> wr out (pos + 1) 0;
            let pos = pos + 2;
            out \<leftarrow> wr out pos (of_nat (length phone_number));
            out \<leftarrow> wr out (pos + 1) (if length phone_number < 6 then TYPE_OF_ADDRESS_UNKNOWN
                                     else TYPE_OF_ADDRESS_INTERNATIONAL_PHONE);
            (len, out) \<leftarrow> EncodePhoneNumber phone_number out (pos + 2) (buffer_size - int pos - 2);
            let pos = nat (int pos + len + 2);
            if int pos + 4 > buffer_size then Some (- 1, out) else do {
              out \<leftarrow> wr out pos 0;
              out \<leftarrow> wr out (pos + 1) 0;
              out \<leftarrow> wr out (pos + 2) 0xB0;
              put_text sms_text tmp out (pos + 3) buffer_size } } } })"

section \<open>Decoding\<close>

record broken_time =
  tm_year :: int
  tm_mon :: int
  tm_mday :: int
  tm_hour :: int
  tm_min :: int
  tm_sec :: int

text \<open>The variables \<open>pdu_decode\<close> writes through its pointer arguments; the time is kept broken down, before \<open>timegm\<close>.\<close>

record sms_out =
  sms_time :: broken_time
  sms_phone :: "u8 list"
  sms_text :: "u8 list"
  tp_dcs :: nat
  ref_number :: nat
  total_parts :: nat
  part_number :: nat
  skip_bytes :: nat

definition decode_sender :: "u8 list \<Rightarrow> nat \<Rightarrow> nat \<Rightarrow> u8 list \<Rightarrow> u8 list option" where
  "decode_sender buf start sender_number_length phone = do {
     sender_type_of_address \<leftarrow> rd buf (start + 2);
     if sender_type_of_address = TYPE_OF_ADDRESS_ALPHANUMERIC
     then map_option snd (DecodePDUMessage_GSM_7bit buf (start + 3) ((sender_number_length + 1) div 2) phone sender_number_length)
     else map_option snd (DecodePhoneNumber buf (start + 3) sender_number_length phone) }"

definition decode_time :: "u8 list \<Rightarrow> nat \<Rightarrow> broken_time option" where
  "decode_time buf pid = do {
     y \<leftarrow> rd buf (pid + 2);
     mo \<leftarrow> rd buf (pid + 3);
     d \<leftarrow> rd buf (pid + 4);
     h \<leftarrow> rd buf (pid + 5);
     mi \<leftarrow> rd buf (pid + 6);
     s \<leftarrow> rd buf (pid + 7);
     Some \<lparr>tm_year = 100 + uint (SwapDecimalNibble y), tm_mon = uint (SwapDecimalNibble mo) - 1,
       tm_mday = uint (SwapDecimalNibble d), tm_hour = uint (SwapDecimalNibble h), tm_min = uint (SwapDecimalNibble mi),
       tm_sec = uint (SwapDecimalNibble s)\<rparr> }"

definition decode_header :: "u8 list \<Rightarrow> nat \<Rightarrow> nat \<Rightarrow> sms_out \<Rightarrow> sms_out option" where
  "decode_header buf user_data_header_length sms_start r =
     (if and user_data_header_length 4 = 4 then do {
        n \<leftarrow> rd buf (sms_start + 1);
        let tmp = unat n + 1;
        ref \<leftarrow> rd buf (sms_start + tmp - 2);
        total \<leftarrow> rd buf (sms_start + tmp - 1);
        part \<leftarrow> rd buf (sms_start + tmp);
        Some (r\<lparr>skip_bytes := tmp, ref_number := unat ref, total_parts := unat total, part_number := unat part\<rparr>) }
      else Some (r\<lparr>skip_bytes := 0, ref_number := 0, total_parts := 0, part_number := 0\<rparr>))"

text \<open>The text of \<open>n\<close> units; the first component is \<open>None\<close> for the \<open>return -1\<close> of the seven-bit case.\<close>

definition decode_text :: "u8 list \<Rightarrow> nat \<Rightarrow> nat \<Rightarrow> nat \<Rightarrow> nat \<Rightarrow> u8 list \<Rightarrow> (nat option \<times> u8 list) option" where
  "decode_text buf buffer_length sms_start dcs n text =
     (if dcs div 4 mod 4 = 0 then do {
        (size, text) \<leftarrow> DecodePDUMessage_GSM_7bit buf (sms_start + 1) (buffer_length - (sms_start + 1)) text n;
        if size \<noteq> n then Some (None, text) else do {
          (n, text) \<leftarrow> G7bitToAscii text n;
          Some (Some n, text) } }
      else if dcs div 4 mod 4 = 2 then do {
        text \<leftarrow> memcpy text 0 buf (sms_start + 1) n;
        Some (Some n, text) }
      else Some (Some n, text))"

definition pdu_decode :: "u8 list \<Rightarrow> nat \<Rightarrow> nat \<Rightarrow> nat \<Rightarrow> sms_out \<Rightarrow> (int \<times> sms_out) option" where
  "pdu_decode buf buffer_length sender_phone_number_size sms_text_size r =
     (if buffer_length = 0 then Some (- 1, r) else do {
        b0 \<leftarrow> rd buf 0;
        let start = 1 + unat b0;
        if start + 1 > buffer_length then Some (- 2, r) else do {
          first \<leftarrow> rd buf start;
          number_length \<leftarrow> rd buf (start + 1);
          let sender_number_length = unat number_length;
          if sender_number_length + 1 > sender_phone_number_size then Some (- 3, r) else do {
            phone \<leftarrow> decode_sender buf start sender_number_length (sms_phone r);
            let pid = start + 3 + (sender_number_length + 1) div 2;
            time \<leftarrow> decode_time buf pid;
            let r = r\<lparr>sms_phone := phone, sms_time := time\<rparr>;
            let sms_start = pid + 2 + 7;
            if sms_start + 1 > buffer_length then Some (- 1, r) else do {
              r \<leftarrow> decode_header buf (unat (drop_bit 4 first)) sms_start r;
              n \<leftarrow> rd buf sms_start;
              let n = unat n;
              if sms_text_size < n then Some (- 1, r) else do {
                dcs \<leftarrow> rd buf (pid + 1);
                let r = r\<lparr>tp_dcs := unat dcs\<rparr>;
                (result, text) \<leftarrow> decode_text buf buffer_length sms_start (unat dcs) n (sms_text r);
                case result of
                  None \<Rightarrow> Some (- 1, r\<lparr>sms_text := text\<rparr>)
                | Some n \<Rightarrow> do {
                    text \<leftarrow> wr text (if n < sms_text_size then n else sms_text_size - 1) 0;
                    Some (int n, r\<lparr>sms_text := text\<rparr>) } } } } } })"

section \<open>Printing a decoded text\<close>

text \<open>The characters \<open>sms_decode\<close> prints for a text of \<open>n\<close> units.\<close>

function print_ucs2 :: "u8 list \<Rightarrow> nat \<Rightarrow> nat \<Rightarrow> u8 list option" where
  "print_ucs2 text n i =
     (if i < n then do {
        lo \<leftarrow> rd text (i + 1);
        hi \<leftarrow> rd text i;
        let (len, utf8_char) = ucs2_to_utf8 (uint lo OR push_bit 8 (uint hi));
        rest \<leftarrow> print_ucs2 text n (i + 2);
        Some (take (nat len) utf8_char @ rest) }
      else Some [])"
  by pat_completeness auto

termination by (relation "measure (\<lambda>(text, n, i). n - i)") auto

declare print_ucs2.simps [simp del]

definition sms_decode_text :: "nat \<Rightarrow> nat \<Rightarrow> nat \<Rightarrow> u8 list \<Rightarrow> u8 list option" where
  "sms_decode_text dcs n skip text =
     (if dcs div 4 mod 4 = 0 then
        let i = (if skip > 0 then (skip * 8 + 6) div 7 else skip) in
        if n \<le> length text then Some (drop i (take n text)) else None
      else if dcs div 4 mod 4 = 2 then print_ucs2 text n skip
      else Some [])"

end
