(* ===== verification/SmsSeptetProps.thy ===== *)
theory SmsSeptetProps
  imports SmsPdu
begin

text \<open>
  Packing and unpacking of seven-bit characters: which bits go where, that unpacking inverts packing, and
  the octet that the packing loop writes too many.
\<close>

section \<open>Packed septets\<close>

text \<open>Octet \<open>j\<close> of the packed text and character \<open>c\<close> of the unpacked one, read off the other side.\<close>

definition octet_at :: "u8 list \<Rightarrow> nat \<Rightarrow> nat \<Rightarrow> u8" where
  "octet_at ts n j = (let c = 8 * (j div 7) + j mod 7 in
     drop_bit (j mod 7) (ts ! c AND 0x7F) OR (if c + 1 < n then push_bit (7 - j mod 7) (ts ! (c + 1) AND 0x7F) else 0))"

definition septet_at :: "u8 list \<Rightarrow> nat \<Rightarrow> nat \<Rightarrow> u8" where
  "septet_at buf p c = 0x7F AND
     (drop_bit (7 * c mod 8) (buf ! (p + 7 * c div 8)) OR push_bit (8 - 7 * c mod 8) (buf ! (p + 7 * c div 8 + 1)))"

lemma div_modI:
  fixes k d q x :: nat
  assumes "k = d * q + x" "x < d"
  shows "k div d = q" "k mod d = x"
  using assms by simp_all

lemma bit_7F: "bit (0x7F :: int) k \<longleftrightarrow> k < 7"
proof -
  have "(0x7F :: int) = mask 7" by (simp add: mask_eq_exp_minus_1)
  then show ?thesis by (simp only: bit_mask_iff) auto
qed

lemma bit_septet_at:
  "bit (septet_at buf p c) b \<longleftrightarrow> b < 7 \<and> bit (buf ! (p + (7 * c + b) div 8)) ((7 * c + b) mod 8)"
proof (cases "b < 7")
  case True
  let ?k = "7 * c"
  show ?thesis
  proof (cases "?k mod 8 + b < 8")
    case in1: True
    have e: "(?k + b) div 8 = ?k div 8" "(?k + b) mod 8 = ?k mod 8 + b"
    proof -
      have "?k + b = 8 * (?k div 8) + (?k mod 8 + b)" by simp
      from div_modI [OF this in1] show "(?k + b) div 8 = ?k div 8" "(?k + b) mod 8 = ?k mod 8 + b" .
    qed
    show ?thesis
      using True in1 by (auto simp: septet_at_def bit_simps bit_7F e dest: bit_imp_le_length)
  next
    case False
    have e: "(?k + b) div 8 = ?k div 8 + 1" "(?k + b) mod 8 = ?k mod 8 + b - 8"
    proof -
      have "?k + b = 8 * (?k div 8 + 1) + (?k mod 8 + b - 8)" "?k mod 8 + b - 8 < 8" using False True by simp_all
      then show "(?k + b) div 8 = ?k div 8 + 1" "(?k + b) mod 8 = ?k mod 8 + b - 8" by (rule div_modI)+
    qed
    have n: "\<not> bit (w :: u8) (?k mod 8 + b)" for w using False by (auto dest: bit_imp_le_length)
    have s: "b - (8 - ?k mod 8) = ?k mod 8 + b - 8" using False by simp
    show ?thesis
      using True False n by (auto simp: septet_at_def bit_simps bit_7F e s)
  qed
qed (simp add: septet_at_def bit_simps bit_7F)

lemma bit_octet_at:
  assumes "k < 7 * n"
  shows "bit (octet_at ts n (k div 8)) (k mod 8) \<longleftrightarrow> bit (ts ! (k div 7)) (k mod 7)"
proof -
  define q r b where "q = k div 8 div 7" and "r = k div 8 mod 7" and "b = k mod 8"
  have k: "k = 8 * (7 * q + r) + b" and r: "r < 7" and b: "b < 8"
    by (simp_all add: q_def r_def b_def)
  let ?c = "8 * q + r"
  have c: "octet_at ts n (k div 8) = drop_bit r (ts ! ?c AND 0x7F) OR (if ?c + 1 < n then push_bit (7 - r) (ts ! (?c + 1) AND 0x7F) else 0)"
    by (simp add: octet_at_def Let_def q_def r_def)
  show ?thesis
  proof (cases "r + b < 7")
    case True
    have "k = 7 * ?c + (r + b)" by (simp add: k)
    note e = div_modI [OF this True]
    show ?thesis using True b by (auto simp: c e b_def [symmetric] bit_simps bit_7F)
  next
    case False
    have "k = 7 * (?c + 1) + (r + b - 7)" "r + b - 7 < 7" using False r b by (simp_all add: k)
    note e = div_modI [OF this]
    have "?c + 1 < n" using assms e(1) by (metis div_less_iff_less_mult mult.commute zero_less_numeral)
    then show ?thesis using False r b by (auto simp: c e b_def [symmetric] bit_simps bit_7F add.commute)
  qed
qed

text \<open>The loops write exactly these octets and characters.\<close>

lemma encode_septets_run:
  assumes "n = 8 * Q + R" "R < 8" "l = 7 * Q + (R - 1)" "r < 7" "8 * q + r < n" "n \<le> length ts" "o' + l \<le> length out"
  shows "\<exists>out'. encode_septets ts n out o' (7 * q + r) (Suc r) (8 * q + r) =
      Some (if R = 0 then (l, 1, n, out') else (l, R, n - 1, out')) \<and> length out' = length out \<and>
    (\<forall>j. out' ! j = (if o' + (7 * q + r) \<le> j \<and> j < o' + l then octet_at ts n (j - o') else out ! j))"
  using assms(4-)
proof (induction "n - (8 * q + r)" arbitrary: q r out rule: less_induct)
  case less
  let ?i = "8 * q + r" and ?len = "7 * q + r"
  note step = encode_septets.simps [of ts n out o' ?len "Suc r" ?i]
  show ?case
  proof (cases "?i + 1 < n")
    case False
    then have n: "n = 8 * q + Suc r" using less.prems by simp
    then have "Q = q" "R = Suc r" using assms(1,2) less.prems(1) by presburger+
    moreover have "encode_septets ts n out o' ?len (Suc r) ?i = Some (?len, Suc r, ?i, out)"
      using False by (subst step) simp
    ultimately show ?thesis using n assms(3) by auto
  next
    case True
    have o8: "octet_at ts n ?len = drop_bit r (ts ! ?i AND 0x7F) OR push_bit (7 - r) (ts ! (?i + 1) AND 0x7F)"
      using True less.prems(1) div_modI [of ?len 7 q r] by (simp add: octet_at_def Let_def)
    have l: "?len < l" using True assms(1-3) less.prems(1) by (cases q Q rule: linorder_cases) simp_all
    let ?out = "out[o' + ?len := octet_at ts n ?len]"
    have go: "encode_septets ts n out o' ?len (Suc r) ?i =
        (if r = 6 then encode_septets ts n ?out o' (?len + 1) 1 (?i + 2) else encode_septets ts n ?out o' (?len + 1) (Suc (Suc r)) (?i + 1))"
      using True less.prems(3,4) l unfolding o8 by (subst step) simp
    show ?thesis
    proof (cases "r = 6")
      case r6: False
      have "\<exists>out'. encode_septets ts n ?out o' (7 * q + Suc r) (Suc (Suc r)) (8 * q + Suc r) =
          Some (if R = 0 then (l, 1, n, out') else (l, R, n - 1, out')) \<and> length out' = length ?out \<and>
        (\<forall>j. out' ! j = (if o' + (7 * q + Suc r) \<le> j \<and> j < o' + l then octet_at ts n (j - o') else ?out ! j))"
        using True r6 less.prems by (intro less.hyps) simp_all
      then show ?thesis using r6 l less.prems(4) by (fastforce simp: go nth_list_update)
    next
      case r6: True
      show ?thesis
      proof (cases "8 * (q + 1) < n")
        case True
        have "\<exists>out'. encode_septets ts n ?out o' (7 * (q + 1) + 0) (Suc 0) (8 * (q + 1) + 0) =
            Some (if R = 0 then (l, 1, n, out') else (l, R, n - 1, out')) \<and> length out' = length ?out \<and>
          (\<forall>j. out' ! j = (if o' + (7 * (q + 1) + 0) \<le> j \<and> j < o' + l then octet_at ts n (j - o') else ?out ! j))"
          using True r6 less.prems by (intro less.hyps) simp_all
        then obtain out' where A: "encode_septets ts n ?out o' (7 * (q + 1) + 0) (Suc 0) (8 * (q + 1) + 0) =
            Some (if R = 0 then (l, 1, n, out') else (l, R, n - 1, out'))" "length out' = length ?out"
          and B: "out' ! j = (if o' + (7 * (q + 1) + 0) \<le> j \<and> j < o' + l then octet_at ts n (j - o') else ?out ! j)" for j
          by blast
        have "encode_septets ts n out o' ?len (Suc r) ?i = encode_septets ts n ?out o' (7 * (q + 1) + 0) (Suc 0) (8 * (q + 1) + 0)"
          unfolding go by (simp add: r6)
        moreover have "out' ! j = (if o' + ?len \<le> j \<and> j < o' + l then octet_at ts n (j - o') else out ! j)" for j
        proof -
          have "7 * (q + 1) + 0 = Suc ?len" "o' + ?len < length out" using r6 l less.prems(4) by simp_all
          then show ?thesis using l unfolding B by (cases "j = o' + ?len") auto
        qed
        ultimately show ?thesis using A by (intro exI [of _ out']) simp
      next
        case False
        then have n: "n = 8 * (q + 1)" "R = 0" "Q = q + 1" using True r6 assms(1,2) \<open>?i + 1 < n\<close> by presburger+
        then have "encode_septets ts n ?out o' (?len + 1) 1 (?i + 2) = Some (l, 1, n, ?out)"
          using r6 assms(3) by (subst encode_septets.simps) simp
        then have "encode_septets ts n out o' ?len (Suc r) ?i = Some (l, 1, n, ?out)" unfolding go by (simp add: r6)
        moreover have "l = Suc ?len" using n r6 assms(3) by simp
        ultimately show ?thesis using n(2) less.prems(4) by (intro exI [of _ ?out]) (auto simp: nth_list_update)
      qed
    qed
  qed
qed

lemma packed_size: "n = 8 * Q + R \<Longrightarrow> R < 8 \<Longrightarrow> (n * 7 + 7) div 8 = 7 * Q + (R :: nat)"
  by (rule div_modI(1) [of _ 8 _ "7 - R"]) simp_all

lemma encode_septets_all:
  assumes "n = 8 * Q + R" "R < 8" "l = 7 * Q + (R - 1)" "n \<le> length ts" "o' + l \<le> length out"
  shows "\<exists>out'. encode_septets ts n out o' 0 1 0 = Some (if R = 0 then (l, 1, n, out') else (l, R, n - 1, out')) \<and>
    length out' = length out \<and> (\<forall>j. out' ! j = (if o' \<le> j \<and> j < o' + l then octet_at ts n (j - o') else out ! j))"
proof (cases "n = 0")
  case True
  then have "Q = 0" "R = 0" "l = 0" using assms(1-3) by simp_all
  moreover have "encode_septets ts n out o' 0 1 0 = Some (0, 1, 0, out)" using True by (subst encode_septets.simps) simp
  ultimately show ?thesis using True by auto
next
  case False
  then show ?thesis using encode_septets_run [OF assms(1-3), of 0 0 ts o' out] assms(4,5) by simp
qed

lemma encode_message:
  assumes n: "n = 8 * Q + R" "R < 8" and bsz: "int (7 * Q + R) \<le> bsz" and ts: "n \<le> length ts" and out: "o' + (7 * Q + R) \<le> length out"
  shows "R \<noteq> 0 \<Longrightarrow> \<exists>out'. EncodePDUMessage ts n out o' bsz = Some (int (7 * Q + R), out') \<and> length out' = length out \<and>
      (\<forall>j. out' ! j = (if o' \<le> j \<and> j < o' + (7 * Q + R) then octet_at ts n (j - o') else out ! j))"
    and "R = 0 \<Longrightarrow> (if n < length ts \<and> o' + 7 * Q < length out
      then \<exists>out'. EncodePDUMessage ts n out o' bsz = Some (int (7 * Q + 1), out') \<and> length out' = length out \<and>
        (\<forall>j. out' ! j = (if o' \<le> j \<and> j < o' + 7 * Q then octet_at ts n (j - o') else
                        if j = o' + 7 * Q then ts ! n AND 0x7F else out ! j))
      else EncodePDUMessage ts n out o' bsz = None)"
proof -
  define l where "l = 7 * Q + (R - 1)"
  have bsz': "\<not> bsz < int ((n * 7 + 7) div 8)" using bsz packed_size [OF n] by simp
  obtain out' where run: "encode_septets ts n out o' 0 (Suc 0) 0 = Some (if R = 0 then (l, 1, n, out') else (l, R, n - 1, out'))"
    and len: "length out' = length out"
    and oct: "out' ! j = (if o' \<le> j \<and> j < o' + l then octet_at ts n (j - o') else out ! j)" for j
  proof -
    have "o' + l \<le> length out" using out by (simp add: l_def)
    from encode_septets_all [OF n l_def ts this] show ?thesis using that by auto
  qed
  show "\<exists>out'. EncodePDUMessage ts n out o' bsz = Some (int (7 * Q + R), out') \<and> length out' = length out \<and>
      (\<forall>j. out' ! j = (if o' \<le> j \<and> j < o' + (7 * Q + R) then octet_at ts n (j - o') else out ! j))" if "R \<noteq> 0"
  proof -
    have l: "7 * Q + R = Suc l" "l div 7 = Q" "l mod 7 = R - 1" "n - 1 = 8 * Q + (R - 1)" "n - 1 < length ts" "o' + l < length out"
      using that n ts out div_modI [of l 7 Q "R - 1"] by (auto simp: l_def)
    have last: "octet_at ts n l = drop_bit (R - 1) (ts ! (n - 1) AND 0x7F)"
      using that n by (simp add: octet_at_def Let_def l(2,3) flip: l(4))
    show ?thesis
      using that l(5,6) bsz' run len unfolding l(1)
      by (auto simp: EncodePDUMessage_def oct nth_list_update less_Suc_eq last)
  qed
  show "if n < length ts \<and> o' + 7 * Q < length out
      then \<exists>out'. EncodePDUMessage ts n out o' bsz = Some (int (7 * Q + 1), out') \<and> length out' = length out \<and>
        (\<forall>j. out' ! j = (if o' \<le> j \<and> j < o' + 7 * Q then octet_at ts n (j - o') else
                        if j = o' + 7 * Q then ts ! n AND 0x7F else out ! j))
      else EncodePDUMessage ts n out o' bsz = None" if "R = 0"
    using that bsz' run len by (auto simp: EncodePDUMessage_def oct nth_list_update l_def not_less Option.bind_eq_None_conv rd_def wr_def)
qed

lemma decode_octets_run:
  assumes "0 < r" "r \<le> 7" "8 * q + r < n" "7 * q + r \<le> l" "7 * n \<le> 8 * l" "p + l \<le> length buf" "n \<le> length out"
  shows "\<exists>out'. Option.bind (decode_octets buf p l out n r (7 * q + r) (8 * q + r)) (decode_rest buf p n) = Some (n, out') \<and>
    length out' = length out \<and> (\<forall>c. out' ! c = (if 8 * q + r \<le> c \<and> c < n then septet_at buf p c else out ! c))"
  using assms
proof (induction "l - (7 * q + r)" arbitrary: q r out rule: less_induct)
  case less
  let ?i = "7 * q + r" and ?len = "8 * q + r"
  note step = decode_octets.simps [of buf p l out n r ?i ?len]
  have at: "septet_at buf p ?len = 0x7F AND (push_bit r (buf ! (p + ?i)) OR drop_bit (8 - r) (buf ! (p + ?i - 1)))"
  proof -
    have "7 * ?len = 8 * (7 * q + (r - 1)) + (8 - r)" "8 - r < 8" using less.prems(1,2) by (simp_all add: algebra_simps)
    note e = div_modI [OF this]
    have i: "p + (7 * q + (r - 1)) = p + ?i - 1" "p + ?i - 1 + 1 = p + ?i" "8 - (8 - r) = r" using less.prems(1,2) by simp_all
    show ?thesis unfolding septet_at_def e i by (simp add: or.commute)
  qed
  show ?case
  proof (cases "?i < l")
    case False
    then have r: "r = 7" "n = ?len + 1" using less.prems by simp_all
    moreover have "decode_octets buf p l out n r ?i ?len = Some (?len, r, ?i, out)" using False by (subst step) simp
    moreover have "drop_bit 1 (b :: u8) = 0x7F AND (push_bit 7 x OR drop_bit 1 b)" for b x
      by (auto simp: bit_eq_iff bit_simps bit_7F dest: bit_imp_le_length)
    ultimately show ?thesis
      using less.prems(4,6,7) at by (auto simp: decode_rest_def nth_list_update)
  next
    case True
    let ?out = "out[?len := septet_at buf p ?len]"
    have start: "decode_octets buf p l out n r ?i ?len =
        (if ?len + 1 = n then Some (n, r, ?i, ?out)
         else if r = 7 then if ?len + 2 = n then Some (n, 1, ?i, ?out[?len + 1 := septet_at buf p (?len + 1)])
           else decode_octets buf p l (?out[?len + 1 := septet_at buf p (?len + 1)]) n 1 (?i + 1) (?len + 2)
         else decode_octets buf p l ?out n (Suc r) (?i + 1) (?len + 1))"
    proof -
      have at2: "septet_at buf p (?len + 1) = buf ! (p + ?i) AND 0x7F" if "r = 7"
      proof -
        have "7 * (?len + 1) = 8 * ?i + 0" "0 < (8 :: nat)" using that by simp_all
        note e = div_modI [OF this]
        show ?thesis unfolding septet_at_def e by (simp add: and.commute bit.conj_disj_distrib)
      qed
      have b: "p + ?i < length buf" "p + ?i - 1 < length buf" "?len < length out" "?len + 2 \<noteq> n \<Longrightarrow> ?len + 1 \<noteq> n \<Longrightarrow> ?len + 1 < length out"
        using True less.prems by simp_all
      show ?thesis
      proof (cases "r = 7")
        case r7: True
        show ?thesis
          using True b less.prems(3,7) r7 unfolding at at2 [OF r7] by (subst step) simp
      next
        case False
        then show ?thesis using True b less.prems(3,7) unfolding at by (subst step) simp
      qed
    qed
    show ?thesis
    proof (cases "?len + 1 = n")
      case True
      then show ?thesis using less.prems(7) by (auto simp: start decode_rest_def nth_list_update)
    next
      case n1: False
      show ?thesis
      proof (cases "r = 7")
        case r7: False
        have "\<exists>out'. Option.bind (decode_octets buf p l ?out n (Suc r) (7 * q + Suc r) (8 * q + Suc r)) (decode_rest buf p n) = Some (n, out') \<and>
          length out' = length ?out \<and> (\<forall>c. out' ! c = (if 8 * q + Suc r \<le> c \<and> c < n then septet_at buf p c else ?out ! c))"
          using True n1 r7 less.prems by (intro less.hyps) simp_all
        then show ?thesis using n1 r7 less.prems(3,7) by (fastforce simp: start nth_list_update)
      next
        case r7: True
        let ?out2 = "?out[?len + 1 := septet_at buf p (?len + 1)]"
        show ?thesis
        proof (cases "?len + 2 = n")
          case True
          have "decode_octets buf p l out n r ?i ?len = Some (n, 1, ?i, ?out2)" unfolding start using True n1 r7 by simp
          moreover have "?len + 1 < length out" using True less.prems(7) by simp
          ultimately show ?thesis using True by (auto simp: decode_rest_def nth_list_update less_Suc_eq)
        next
          case n2: False
          have "\<exists>out'. Option.bind (decode_octets buf p l ?out2 n 1 (7 * (q + 1) + 1) (8 * (q + 1) + 1)) (decode_rest buf p n) = Some (n, out') \<and>
            length out' = length ?out2 \<and> (\<forall>c. out' ! c = (if 8 * (q + 1) + 1 \<le> c \<and> c < n then septet_at buf p c else ?out2 ! c))"
            using True n1 n2 r7 less.prems by (intro less.hyps) simp_all
          then obtain out' where A: "Option.bind (decode_octets buf p l ?out2 n 1 (7 * (q + 1) + 1) (8 * (q + 1) + 1)) (decode_rest buf p n) = Some (n, out')"
              "length out' = length ?out2"
            and B: "out' ! c = (if 8 * (q + 1) + 1 \<le> c \<and> c < n then septet_at buf p c else ?out2 ! c)" for c
            by blast
          have "decode_octets buf p l out n r ?i ?len = decode_octets buf p l ?out2 n 1 (7 * (q + 1) + 1) (8 * (q + 1) + 1)"
            unfolding start using n1 n2 by (simp add: r7)
          moreover have "out' ! c = (if ?len \<le> c \<and> c < n then septet_at buf p c else out ! c)" for c
          proof -
            have e: "8 * (q + 1) + 1 = Suc (Suc ?len)" by (simp add: r7)
            have "?len < length out" "?len + 1 < length out" "?len + 1 < n" using n1 n2 less.prems(3,7) by simp_all
            moreover have "Suc (Suc ?len) \<le> c \<longleftrightarrow> ?len \<le> c \<and> c \<noteq> ?len \<and> c \<noteq> ?len + 1" by linarith
            ultimately show ?thesis unfolding B e by (simp add: nth_list_update)
          qed
          ultimately show ?thesis using A by (intro exI [of _ out']) simp
        qed
      qed
    qed
  qed
qed

lemma decode_message:
  assumes "0 < n" "n \<le> length out" "7 * n \<le> 8 * l" "p + l \<le> length buf"
  shows "\<exists>out'. DecodePDUMessage_GSM_7bit buf p l out n = Some (n, out') \<and> length out' = length out \<and>
    (\<forall>c. out' ! c = (if c < n then septet_at buf p c else out ! c))"
proof -
  have l: "0 < l" "p < length buf" "0 < length out" using assms by linarith+
  have at: "septet_at buf p 0 = 0x7F AND buf ! p" by (simp add: septet_at_def bit.conj_disj_distrib)
  let ?out = "out[0 := septet_at buf p 0]"
  show ?thesis
  proof (cases "n = 1")
    case True
    then show ?thesis using l by (auto simp: DecodePDUMessage_GSM_7bit_def at nth_list_update)
  next
    case False
    then have "\<exists>out'. Option.bind (decode_octets buf p l ?out n 1 (7 * 0 + 1) (8 * 0 + 1)) (decode_rest buf p n) = Some (n, out') \<and>
      length out' = length ?out \<and> (\<forall>c. out' ! c = (if 8 * 0 + 1 \<le> c \<and> c < n then septet_at buf p c else ?out ! c))"
      using assms l by (intro decode_octets_run) simp_all
    then obtain out' where A: "Option.bind (decode_octets buf p l ?out n 1 1 1) (decode_rest buf p n) = Some (n, out')" "length out' = length out"
      and B: "out' ! c = (if 1 \<le> c \<and> c < n then septet_at buf p c else ?out ! c)" for c
      by auto
    have "DecodePDUMessage_GSM_7bit buf p l out n = Some (n, out')"
      using l False assms(1) A(1) by (simp add: DecodePDUMessage_GSM_7bit_def at)
    moreover have "out' ! c = (if c < n then septet_at buf p c else out ! c)" for c
      using l(3) assms(1) unfolding B by (cases c) simp_all
    ultimately show ?thesis using A(2) by blast
  qed
qed

lemma octet_range:
  assumes "k < 7 * (n :: nat)"
  shows "k div 8 < (n * 7 + 7) div 8" and "n mod 8 = 0 \<Longrightarrow> k div 8 < n * 7 div 8"
proof -
  have "(k + 8) div 8 \<le> (n * 7 + 7) div 8" using assms by (intro div_le_mono) simp
  then show "k div 8 < (n * 7 + 7) div 8" by simp
  assume "n mod 8 = 0"
  then have "n * 7 = 7 * (n div 8) * 8" using mult_div_mod_eq [of 8 n] by linarith
  then have "k < 7 * (n div 8) * 8" "n * 7 div 8 = 7 * (n div 8) * 8 div 8" using assms by simp_all
  then show "k div 8 < n * 7 div 8" using less_mult_imp_div_less [of k "7 * (n div 8)" 8] by simp
qed

text \<open>
  Packing lays the septets of a text end to end, least significant bit first: bit \<open>k\<close> of the octet
  string is bit \<open>k mod 7\<close> of character \<open>k div 7\<close>. For a text whose length is not a multiple of eight the
  function writes exactly the octets needed, reports their number and touches nothing else; a buffer
  announced as smaller is refused.
\<close>

theorem encode_packs_bits:
  assumes n: "n mod 8 \<noteq> 0" and ts: "n \<le> length ts" and out: "o' + (n * 7 + 7) div 8 \<le> length out"
  shows "if int ((n * 7 + 7) div 8) \<le> bsz
    then \<exists>out'. EncodePDUMessage ts n out o' bsz = Some (int ((n * 7 + 7) div 8), out') \<and> length out' = length out \<and>
      (\<forall>k < 7 * n. bit (out' ! (o' + k div 8)) (k mod 8) = bit (ts ! (k div 7)) (k mod 7)) \<and>
      (\<forall>j. j < o' \<or> o' + (n * 7 + 7) div 8 \<le> j \<longrightarrow> out' ! j = out ! j)
    else EncodePDUMessage ts n out o' bsz = Some (- 1, out)"
proof (cases "int ((n * 7 + 7) div 8) \<le> bsz")
  case True
  have QR: "n = 8 * (n div 8) + n mod 8" "n mod 8 < 8" by simp_all
  note d = packed_size [OF QR]
  obtain out' where A: "EncodePDUMessage ts n out o' bsz = Some (int ((n * 7 + 7) div 8), out')" "length out' = length out"
    and B: "out' ! j = (if o' \<le> j \<and> j < o' + (n * 7 + 7) div 8 then octet_at ts n (j - o') else out ! j)" for j
    using encode_message(1) [OF QR, folded d, OF True ts out n] by blast
  have "bit (out' ! (o' + k div 8)) (k mod 8) = bit (ts ! (k div 7)) (k mod 7)" if "k < 7 * n" for k
  proof -
    note octet_range(1) [OF that]
    then show ?thesis unfolding B using bit_octet_at [OF that] by simp
  qed
  then show ?thesis using True A by (auto simp: B)
qed (simp add: EncodePDUMessage_def)

theorem encode_packs_bits_witness:
  "EncodePDUMessage (replicate 10 0x68) 10 (replicate 9 0) 0 8 = Some (- 1, replicate 9 0) \<and>
   (\<exists>out'. EncodePDUMessage (replicate 10 0x68) 10 (replicate 9 0) 0 9 = Some (9, out') \<and> length out' = 9)"
  using encode_packs_bits [of 10 "replicate 10 0x68" 0 "replicate 9 0" 8] encode_packs_bits [of 10 "replicate 10 0x68" 0 "replicate 9 0" 9]
  by auto

text \<open>
  When the length of the text is a multiple of eight, the octets are complete after the loop, but the
  function goes on: it reads the character after the end of the text and appends it as one octet more,
  which the check of the buffer size did not count. Without that character, or in a buffer of exactly the
  size checked for, this is an access outside an array.
\<close>

theorem encode_overruns_by_one:
  assumes n: "n mod 8 = 0" and ts: "n \<le> length ts" and out: "o' + n * 7 div 8 \<le> length out" and bsz: "int (n * 7 div 8) \<le> bsz"
  shows "if n < length ts \<and> o' + n * 7 div 8 < length out
    then \<exists>out'. EncodePDUMessage ts n out o' bsz = Some (int (n * 7 div 8 + 1), out') \<and>
      out' ! (o' + n * 7 div 8) = ts ! n AND 0x7F \<and>
      (\<forall>k < 7 * n. bit (out' ! (o' + k div 8)) (k mod 8) = bit (ts ! (k div 7)) (k mod 7))
    else EncodePDUMessage ts n out o' bsz = None"
proof -
  have QR: "n = 8 * (n div 8) + n mod 8" "n mod 8 < 8" by simp_all
  have d: "n * 7 div 8 = 7 * (n div 8)" using n by (auto simp: mod_eq_0_iff_dvd)
  have d': "int (7 * (n div 8) + n mod 8) \<le> bsz" "o' + (7 * (n div 8) + n mod 8) \<le> length out" using bsz out n d by simp_all
  note E = encode_message(2) [OF QR d'(1) ts d'(2) n, folded d]
  show ?thesis
  proof (cases "n < length ts \<and> o' + n * 7 div 8 < length out")
    case True
    then obtain out' where A: "EncodePDUMessage ts n out o' bsz = Some (int (n * 7 div 8 + 1), out')"
      and B: "out' ! j = (if o' \<le> j \<and> j < o' + n * 7 div 8 then octet_at ts n (j - o') else
                          if j = o' + n * 7 div 8 then ts ! n AND 0x7F else out ! j)" for j
      using E by auto
    have "bit (out' ! (o' + k div 8)) (k mod 8) = bit (ts ! (k div 7)) (k mod 7)" if "k < 7 * n" for k
    proof -
      note octet_range(2) [OF that n]
      then show ?thesis unfolding B using bit_octet_at [OF that] by simp
    qed
    then show ?thesis using True A by (auto simp: B)
  next
    case False
    then show ?thesis using E by auto
  qed
qed

theorem encode_overruns_by_one_witness:
  "EncodePDUMessage (replicate 9 0x41) 8 (replicate 7 0) 0 7 = None"
  using encode_overruns_by_one [of 8 "replicate 9 0x41" 0 "replicate 7 0" 7] by simp

lemma encode_septets_frame:
  "encode_septets ts n out o' len carry i = Some (len', carry', i', out') \<Longrightarrow>
   length out' = length out \<and> (\<forall>j < o'. out' ! j = out ! j)"
proof (induction "n - i" arbitrary: out len carry i rule: less_induct)
  case less
  show ?case
  proof (cases "i + 1 < n")
    case True
    then obtain v i2 c2 where "i < i2" "o' + len < length out"
        "encode_septets ts n (out[o' + len := v]) o' (len + 1) c2 i2 = Some (len', carry', i', out')"
      using less.prems [unfolded encode_septets.simps [of ts n out o' len carry i]]
      by (auto simp: Option.bind_eq_Some_conv wr_def split: if_splits intro: lessI less_SucI that [rotated 2])
    moreover from this True have "n - i2 < n - i" by simp
    ultimately show ?thesis using less.hyps by fastforce
  next
    case False
    then show ?thesis using less.prems by (simp add: encode_septets.simps [of ts n out o' len carry i])
  qed
qed

lemma encode_frame:
  "EncodePDUMessage ts n out o' bsz = Some (len, out') \<Longrightarrow> length out' = length out \<and> (\<forall>j < o'. out' ! j = out ! j)"
  by (auto simp: EncodePDUMessage_def Option.bind_eq_Some_conv wr_def split: if_splits dest!: encode_septets_frame)

lemma unpack_pack:
  assumes enc: "EncodePDUMessage ts n out o' bsz = Some (int len, out')" and bsz: "0 < n" "n \<le> length ts" "o' + (n * 7 + 7) div 8 \<le> length out"
    and buf: "len \<le> l" "o' + l \<le> length out'" and txt': "n \<le> length chars"
  shows "\<exists>chars'. DecodePDUMessage_GSM_7bit out' o' l chars n = Some (n, chars') \<and> length chars' = length chars \<and> take n chars' = map (\<lambda>c. c AND 0x7F) (take n ts)"
proof -
  have QR: "n = 8 * (n div 8) + n mod 8" "n mod 8 < 8" by simp_all
  note d = packed_size [OF QR]
  have size: "int ((n * 7 + 7) div 8) \<le> bsz"
    using enc by (auto simp: EncodePDUMessage_def split: if_splits)
  have "(n * 7 + 7) div 8 \<le> len \<and> (\<forall>k < 7 * n. bit (out' ! (o' + k div 8)) (k mod 8) = bit (ts ! (k div 7)) (k mod 7))"
  proof -
    note oct = octet_range(1)
    show ?thesis
    proof (cases "n mod 8 = 0")
      case True
      then have e: "7 * (n div 8) = (n * 7 + 7) div 8" using d by simp
      show ?thesis
        using encode_message(2) [OF QR, folded d, OF size bsz(2,3) True] enc oct bit_octet_at
        by (auto simp: e split: if_splits)
    next
      case False
      show ?thesis
        using encode_message(1) [OF QR, folded d, OF size bsz(2,3) False] enc oct bit_octet_at by auto
    qed
  qed
  then have len: "(n * 7 + 7) div 8 \<le> len"
    and bits: "\<And>k. k < 7 * n \<Longrightarrow> bit (out' ! (o' + k div 8)) (k mod 8) = bit (ts ! (k div 7)) (k mod 7)"
    by blast+
  have "7 * n \<le> 8 * l" using len buf(1) QR(1) unfolding d by linarith
  then obtain chars' where A: "DecodePDUMessage_GSM_7bit out' o' l chars n = Some (n, chars')" "length chars' = length chars"
    and B: "chars' ! c = (if c < n then septet_at out' o' c else chars ! c)" for c
    using decode_message [OF bsz(1) txt' _ buf(2)] by blast
  have "septet_at out' o' c = ts ! c AND 0x7F" if "c < n" for c
  proof -
    have "bit (out' ! (o' + (7 * c + b) div 8)) ((7 * c + b) mod 8) = bit (ts ! c) b" if "b < 7" for b
      using bits [of "7 * c + b"] div_modI [of "7 * c + b" 7 c b] that \<open>c < n\<close> by simp
    then show ?thesis by (auto simp: bit_eq_iff bit_septet_at bit_simps bit_7F)
  qed
  then have "take n chars' = map (\<lambda>c. c AND 0x7F) (take n ts)"
    using A(2) txt' bsz(2) by (intro nth_equalityI) (simp_all add: B)
  with A show ?thesis by blast
qed

text \<open>
  C29. Unpacking inverts packing: whatever buffer the octets are in, whatever follows them and whether or
  not the extra octet was appended, decoding as many characters as were packed gives them back, reduced
  to seven bits.
\<close>

theorem septets_roundtrip:
  assumes enc: "EncodePDUMessage ts n out o' bsz = Some (int len, out')" and bsz: "0 < n" "n \<le> length ts" "o' + (n * 7 + 7) div 8 \<le> length out"
    and buf: "len \<le> l" "o' + l \<le> length out'" and txt': "n \<le> length chars"
  shows "\<exists>chars'. DecodePDUMessage_GSM_7bit out' o' l chars n = Some (n, chars') \<and> take n chars' = map (\<lambda>c. c AND 0x7F) (take n ts)"
  using unpack_pack [OF assms] by blast

theorem septets_roundtrip_witness:
  "\<exists>out' chars'. EncodePDUMessage [0x68, 0x65, 0x6c, 0x6c, 0x6f] 5 (replicate 8 0) 1 7 = Some (5, out') \<and>
     DecodePDUMessage_GSM_7bit out' 1 7 (replicate 6 0) 5 = Some (5, chars') \<and> take 5 chars' = [0x68, 0x65, 0x6c, 0x6c, 0x6f]"
proof -
  obtain out' where enc: "EncodePDUMessage [0x68, 0x65, 0x6c, 0x6c, 0x6f] 5 (replicate 8 0) 1 7 = Some (int 5, out')" "length out' = 8"
    using encode_message(1) [of 5 0 5 7 "[0x68, 0x65, 0x6c, 0x6c, 0x6f]" 1 "replicate 8 0"] by auto
  then show ?thesis
    using septets_roundtrip [OF enc(1), of 7 "replicate 6 0"] by auto
qed

end
