(* ===== verification/SmsTextProps.thy ===== *)
theory SmsTextProps
  imports SmsSeptetProps
begin

text \<open>
  Telephone numbers, the two alphabets and UTF-8: what each encoder writes and that its decoder inverts it.
\<close>

section \<open>Telephone numbers\<close>

definition is_digit :: "u8 \<Rightarrow> bool" where
  "is_digit d \<longleftrightarrow> 0x30 \<le> d \<and> d \<le> 0x39"

lemma digit_cases:
  assumes "is_digit d"
  shows "d \<in> {0x30, 0x31, 0x32, 0x33, 0x34, 0x35, 0x36, 0x37, 0x38, 0x39}"
proof -
  have "48 \<le> unat d" "unat d \<le> 57" using assms by (simp_all add: is_digit_def word_le_nat_alt)
  then have "unat d = 48 \<or> unat d = 49 \<or> unat d = 50 \<or> unat d = 51 \<or> unat d = 52 \<or> unat d = 53 \<or> unat d = 54 \<or>
      unat d = 55 \<or> unat d = 56 \<or> unat d = 57" by presburger
  then show ?thesis by (simp add: word_unat_eq_iff)
qed

definition bcd_octet :: "u8 list \<Rightarrow> nat \<Rightarrow> u8" where
  "bcd_octet ds j = (ds ! (2 * j) - 0x30) OR push_bit 4 (if 2 * j + 1 < length ds then ds ! (2 * j + 1) - 0x30 else 0xF)"

lemma bcd_one: "is_digit d \<Longrightarrow> 0xF0 OR (d - 0x30) = (d - 0x30) OR push_bit 4 0xF"
  by (drule digit_cases) auto

lemma bcd_two: "is_digit d \<Longrightarrow> ((0xF0 OR (d - 0x30)) AND 0x0F) OR x = (d - 0x30) OR x"
  by (drule digit_cases) auto

lemma bcd_low: "is_digit d \<Longrightarrow> is_digit e \<or> e = 0x3F \<Longrightarrow> ((d - 0x30 OR push_bit 4 (e - 0x30)) AND 0x0F) + 0x30 = d"
  by (auto dest!: digit_cases)

lemma bcd_high: "is_digit d \<Longrightarrow> is_digit e \<Longrightarrow> drop_bit 4 ((d - 0x30 OR push_bit 4 (e - 0x30)) AND 0xF0) + 0x30 = e"
  by (auto dest!: digit_cases)

lemma encode_digits_run:
  assumes "\<forall>d \<in> set ds. is_digit d" "2 * j \<le> length ds" "o' + (length ds + 1) div 2 \<le> length out"
  shows "\<exists>out'. encode_digits ds out o' j (2 * j) = Some (int ((length ds + 1) div 2), out') \<and> length out' = length out \<and>
    (\<forall>x. out' ! x = (if o' + j \<le> x \<and> x < o' + (length ds + 1) div 2 then bcd_octet ds (x - o') else out ! x))"
  using assms(2-)
proof (induction "length ds - 2 * j" arbitrary: j out rule: less_induct)
  case less
  note step = encode_digits.simps [of ds]
  have no: "(d < 0x30 \<and> d > (0x39 :: u8)) = False" for d by (auto simp: word_less_nat_alt)
  show ?case
  proof (cases "2 * j < length ds")
    case False
    then have "length ds = 2 * j" using less.prems by simp
    then show ?thesis by (intro exI [of _ out]) (auto simp: step)
  next
    case True
    then have dig: "is_digit (ds ! (2 * j))" using assms(1) by simp
    have lt: "o' + j < length out" using True less.prems(2) by simp
    let ?out = "out[o' + j := bcd_octet ds j]"
    show ?thesis
    proof (cases "2 * j + 1 < length ds")
      case False
      then have n: "length ds = 2 * j + 1" "(length ds + 1) div 2 = Suc j" using True by simp_all
      have "encode_digits ds x o' k (Suc (2 * j)) = Some (int k, x)" for x k using n by (subst step) simp
      then have "encode_digits ds out o' j (2 * j) = Some (int (Suc j), ?out)"
        using True lt False by (subst step) (simp add: Let_def no bcd_octet_def bcd_one [OF dig])
      then show ?thesis unfolding n(2) using lt by (intro exI [of _ ?out]) (auto simp: nth_list_update)
    next
      case more: True
      then have "\<exists>out'. encode_digits ds ?out o' (Suc j) (2 * Suc j) = Some (int ((length ds + 1) div 2), out') \<and>
          length out' = length ?out \<and>
          (\<forall>x. out' ! x = (if o' + Suc j \<le> x \<and> x < o' + (length ds + 1) div 2 then bcd_octet ds (x - o') else ?out ! x))"
        using less.prems by (intro less.hyps) simp_all
      then obtain out' where A: "encode_digits ds ?out o' (Suc j) (2 * Suc j) = Some (int ((length ds + 1) div 2), out')" "length out' = length out"
        and B: "out' ! x = (if o' + Suc j \<le> x \<and> x < o' + (length ds + 1) div 2 then bcd_octet ds (x - o') else ?out ! x)" for x
        by auto
      have "encode_digits ds out o' j (2 * j) = encode_digits ds ?out o' (Suc j) (2 * Suc j)"
      proof -
        let ?mid = "out[o' + j := 0xF0 OR (ds ! (2 * j) - 0x30)]"
        have "encode_digits ds out o' j (2 * j) = encode_digits ds ?mid o' (Suc j) (Suc (2 * j))"
          using True lt by (subst step) (simp add: Let_def no)
        also have "\<dots> = encode_digits ds (?mid[o' + j := ((0xF0 OR (ds ! (2 * j) - 0x30)) AND 0x0F) OR
            push_bit 4 (ds ! (2 * j + 1) - 0x30)]) o' (Suc j) (2 * Suc j)"
          using more lt by (subst step) (simp add: Let_def no)
        finally show ?thesis using more by (simp add: bcd_octet_def bcd_two [OF dig])
      qed
      moreover have "out' ! x = (if o' + j \<le> x \<and> x < o' + (length ds + 1) div 2 then bcd_octet ds (x - o') else out ! x)" for x
        using more lt unfolding B by (cases "x = o' + j") auto
      ultimately show ?thesis using A by auto
    qed
  qed
qed

lemma decode_digits_run:
  assumes "i \<le> n" "p + (n + 1) div 2 \<le> length buf" "n \<le> length out"
  shows "\<exists>out'. decode_digits buf p n out i = Some out' \<and> length out' = length out \<and>
    (\<forall>x. out' ! x = (if i \<le> x \<and> x < n then (if x mod 2 = 0 then buf ! (p + x div 2) AND 0x0F
                                       else drop_bit 4 (buf ! (p + x div 2) AND 0xF0)) + 0x30 else out ! x))"
  using assms
proof (induction "n - i" arbitrary: i out rule: less_induct)
  case less
  note step = decode_digits.simps [of buf p n]
  show ?case
  proof (cases "i < n")
    case False
    then show ?thesis by (intro exI [of _ out]) (auto simp: step)
  next
    case True
    let ?v = "(if i mod 2 = 0 then buf ! (p + i div 2) AND 0x0F else drop_bit 4 (buf ! (p + i div 2) AND 0xF0)) + 0x30"
    have p: "p + i div 2 < length buf" using True less.prems(2) by simp
    have "\<exists>out'. decode_digits buf p n (out[i := ?v]) (i + 1) = Some out' \<and> length out' = length (out[i := ?v]) \<and>
      (\<forall>x. out' ! x = (if i + 1 \<le> x \<and> x < n then (if x mod 2 = 0 then buf ! (p + x div 2) AND 0x0F
               else drop_bit 4 (buf ! (p + x div 2) AND 0xF0)) + 0x30 else out[i := ?v] ! x))"
      using True less.prems by (intro less.hyps) simp_all
    then obtain out' where A: "decode_digits buf p n (out[i := ?v]) (i + 1) = Some out'" "length out' = length out"
      and B: "out' ! x = (if i + 1 \<le> x \<and> x < n then (if x mod 2 = 0 then buf ! (p + x div 2) AND 0x0F
               else drop_bit 4 (buf ! (p + x div 2) AND 0xF0)) + 0x30 else out[i := ?v] ! x)" for x
      by auto
    have "decode_digits buf p n out i = decode_digits buf p n (out[i := ?v]) (i + 1)"
      using True p less.prems(3) by (subst step) simp
    then show ?thesis using A True less.prems(3) by (intro exI [of _ out']) (auto simp: B nth_list_update le_Suc_eq Suc_le_eq)
  qed
qed

text \<open>
  A telephone number survives the semi-octet encoding: for a number of decimal digits the encoder
  writes one octet per two digits, with the last half octet filled with ones when their number is odd, and
  decoding as many digits gives the number back, followed by the zero that ends a C string.
\<close>

theorem phone_number_roundtrip:
  assumes dig: "\<forall>d \<in> set ds. is_digit d" and bsz: "int ((length ds + 1) div 2) \<le> bsz"
    and out: "o' + (length ds + 1) div 2 \<le> length out" and phone: "length ds < length phone"
  shows "\<exists>out' phone'. EncodePhoneNumber ds out o' bsz = Some (int ((length ds + 1) div 2), out') \<and> length out' = length out \<and>
    (odd (length ds) \<longrightarrow> drop_bit 4 (out' ! (o' + length ds div 2)) = 0xF) \<and>
    DecodePhoneNumber out' o' (length ds) phone = Some (length ds, phone') \<and> take (length ds + 1) phone' = ds @ [0]"
proof -
  let ?n = "length ds"
  obtain out' where A: "encode_digits ds out o' 0 0 = Some (int ((?n + 1) div 2), out')" "length out' = length out"
    and B: "out' ! x = (if o' \<le> x \<and> x < o' + (?n + 1) div 2 then bcd_octet ds (x - o') else out ! x)" for x
    using encode_digits_run [OF dig _ out, of 0] by auto
  obtain phone' where C: "decode_digits out' o' ?n phone 0 = Some phone'" "length phone' = length phone"
    and D: "phone' ! x = (if x < ?n then (if x mod 2 = 0 then out' ! (o' + x div 2) AND 0x0F
               else drop_bit 4 (out' ! (o' + x div 2) AND 0xF0)) + 0x30 else phone ! x)" for x
    using decode_digits_run [of 0 ?n o' out' phone] out phone A(2) by auto
  have "phone' ! x = ds ! x" if "x < ?n" for x
  proof -
    have "x div 2 < (?n + 1) div 2" using that by linarith
    then have v: "phone' ! x = (if x mod 2 = 0 then bcd_octet ds (x div 2) AND 0x0F else drop_bit 4 (bcd_octet ds (x div 2) AND 0xF0)) + 0x30"
      using that by (simp add: D B)
    show ?thesis
    proof (cases "x mod 2 = 0")
      case True
      then have x: "2 * (x div 2) = x" by presburger
      then show ?thesis
        using True that dig bcd_low [of "ds ! x" "ds ! (x + 1)"] bcd_low [of "ds ! x" "0x3F"]
        by (auto simp: v bcd_octet_def)
    next
      case False
      then have x: "2 * (x div 2) + 1 = x" by presburger
      then show ?thesis
        using False that dig bcd_high [of "ds ! (2 * (x div 2))" "ds ! x"] by (simp add: v bcd_octet_def)
    qed
  qed
  moreover have "drop_bit 4 (out' ! (o' + ?n div 2)) = 0xF" if odd: "odd ?n"
  proof -
    have n: "2 * (?n div 2) + 1 = ?n" "?n div 2 < (?n + 1) div 2" using odd by presburger+
    then have "ds ! (2 * (?n div 2)) \<in> set ds" by (intro nth_mem) linarith
    then have "is_digit (ds ! (2 * (?n div 2)))" using dig by blast
    then have "drop_bit 4 ((ds ! (2 * (?n div 2)) - 0x30) OR push_bit 4 0xF) = 0xF" by (drule_tac digit_cases) auto
    then show ?thesis using n by (simp add: B bcd_octet_def)
  qed
  moreover have "take (?n + 1) (phone'[?n := 0]) = ds @ [0]" if "\<And>x. x < ?n \<Longrightarrow> phone' ! x = ds ! x"
    using that C(2) phone by (intro nth_equalityI) (auto simp: nth_append nth_list_update less_Suc_eq)
  ultimately show ?thesis
    using A C bsz phone by (auto simp: EncodePhoneNumber_def DecodePhoneNumber_def)
qed

theorem phone_number_roundtrip_witness:
  "let ds = [0x31, 0x32, 0x33] in
   \<exists>out' phone'. EncodePhoneNumber ds [0, 0, 0] 1 2 = Some (2, out') \<and>
     DecodePhoneNumber out' 1 (length ds) [0, 0, 0, 0] = Some (length ds, phone') \<and> take (length ds + 1) phone' = ds @ [0]"
  using phone_number_roundtrip [of "[0x31, 0x32, 0x33]" 2 1 "[0, 0, 0]" "[0, 0, 0, 0]"]
  unfolding Let_def by (simp add: is_digit_def) blast

section \<open>The GSM alphabet\<close>

text \<open>\<open>gsm_code c\<close> are the septets of an ASCII character, \<open>gsm_char c\<close> is what they stand for: \<open>c\<close>, or a question mark.\<close>

definition gsm_code :: "u8 \<Rightarrow> u8 list" where
  "gsm_code c = (let v = latin1_to_gsm7bits ! unat c in
     if v < 0 then [GSM_7BITS_ESCAPE, word_of_int (- v)] else [word_of_int v])"

definition gsm_char :: "u8 \<Rightarrow> u8" where
  "gsm_char c = (if latin1_to_gsm7bits ! unat c = NPC then 0x3f else c)"

definition code_ok :: "u8 \<Rightarrow> bool" where
  "code_ok c \<longleftrightarrow> c AND 0xE0 \<noteq> 0xC0 \<and> c AND 0xF0 \<noteq> 0xE0 \<and>
     (case gsm_code c of
        [v] \<Rightarrow> unat v < 128 \<and> v \<noteq> GSM_7BITS_ESCAPE \<and> gsm7bits_to_latin1 ! unat v = gsm_char c \<and>
          latin1_to_gsm7bits ! unat c \<ge> 0
      | [e, v] \<Rightarrow> unat v < 128 \<and> gsm7bits_extend_to_latin1 ! unat v = gsm_char c \<and> latin1_to_gsm7bits ! unat c < 0
      | _ \<Rightarrow> False)"

lemma code_ok_ascii_nat: "\<forall>k \<in> set [0..<128]. code_ok (of_nat k)"
  by code_simp

lemma code_ok_ascii: "c < 0x80 \<Longrightarrow> code_ok c"
proof -
  assume "c < 0x80"
  then have "unat c \<in> set [0..<128]" by (simp add: word_less_nat_alt)
  with code_ok_ascii_nat have "code_ok (of_nat (unat c))" by blast
  then show ?thesis by simp
qed

lemma memcpy_shift:
  assumes "n = length a + 2 + length e" "z \<noteq> []"
  shows "memcpy (a @ c # x # e @ z) (length a + 1) (a @ c # x # e @ z) (length a + 2) (n - length a - 1) = Some (a @ c # e @ hd z # z)"
  using assms by (cases z) (auto simp: memcpy_def)

lemma ascii_loop:
  assumes "\<forall>c \<in> set s. c < 0x80" "length (concat (map gsm_code s)) \<le> length junk"
  shows "AsciiToG7bit_loop (a @ s) (length (a @ s)) (pre @ junk) (length pre) (length a) =
    Some (length pre + length (concat (map gsm_code s)), pre @ concat (map gsm_code s) @ drop (length (concat (map gsm_code s))) junk)"
  using assms
proof (induction s arbitrary: a pre junk)
  case Nil
  then show ?case by (simp add: AsciiToG7bit_loop.simps)
next
  case (Cons c s)
  let ?v = "latin1_to_gsm7bits ! unat c"
  have ok: "code_ok c" using Cons.prems(1) by (simp add: code_ok_ascii)
  note step = AsciiToG7bit_loop.simps [of "a @ c # s" "length (a @ c # s)" "pre @ junk" "length pre" "length a"]
  show ?case
  proof (cases "?v < 0")
    case True
    then have code: "gsm_code c = [GSM_7BITS_ESCAPE, word_of_int (- ?v)]" by (simp add: gsm_code_def Let_def)
    then obtain x y junk' where junk: "junk = x # y # junk'" using Cons.prems(2) by (cases junk; cases "tl junk") auto
    have "AsciiToG7bit_loop (a @ c # s) (length (a @ c # s)) (pre @ junk) (length pre) (length a) =
        AsciiToG7bit_loop ((a @ [c]) @ s) (length ((a @ [c]) @ s)) ((pre @ gsm_code c) @ junk') (length (pre @ gsm_code c)) (length (a @ [c]))"
      using True by (subst step) (simp add: junk code nth_append list_update_append)
    then show ?thesis using Cons.IH [of junk' "a @ [c]" "pre @ gsm_code c"] Cons.prems by (simp add: junk code)
  next
    case False
    then have code: "gsm_code c = [word_of_int ?v]" by (simp add: gsm_code_def Let_def)
    then obtain x junk' where junk: "junk = x # junk'" using Cons.prems(2) by (cases junk) auto
    have "AsciiToG7bit_loop (a @ c # s) (length (a @ c # s)) (pre @ junk) (length pre) (length a) =
        AsciiToG7bit_loop ((a @ [c]) @ s) (length ((a @ [c]) @ s)) ((pre @ gsm_code c) @ junk') (length (pre @ gsm_code c)) (length (a @ [c]))"
      using False ok by (subst step) (simp add: junk code code_ok_def)
    then show ?thesis using Cons.IH [of junk' "a @ [c]" "pre @ gsm_code c"] Cons.prems by (simp add: junk code)
  qed
qed

lemma g7_loop:
  assumes "\<forall>c \<in> set s. c < 0x80" "z \<noteq> []"
  shows "\<exists>z'. G7bitToAscii_loop (a @ concat (map gsm_code s) @ z) (length a) (length a + length (concat (map gsm_code s))) =
    Some (length a + length s, a @ map gsm_char s @ z')"
  using assms
proof (induction s arbitrary: a z)
  case Nil
  then show ?case by (auto simp: G7bitToAscii_loop.simps)
next
  case (Cons c s)
  let ?v = "latin1_to_gsm7bits ! unat c" and ?e = "concat (map gsm_code s)"
  have ok: "code_ok c" using Cons.prems(1) by (simp add: code_ok_ascii)
  note step = G7bitToAscii_loop.simps [of _ "length a"]
  show ?case
  proof (cases "?v < 0")
    case True
    then have code: "gsm_code c = [GSM_7BITS_ESCAPE, word_of_int (- ?v)]" by (simp add: gsm_code_def Let_def)
    let ?w = "word_of_int (- ?v) :: u8"
    have w: "unat ?w < 128" "gsm7bits_extend_to_latin1 ! unat ?w = gsm_char c" using ok by (simp_all add: code_ok_def code)
    have "G7bitToAscii_loop (a @ gsm_code c @ ?e @ z) (length a) (length a + (2 + length ?e)) =
        G7bitToAscii_loop ((a @ [gsm_char c]) @ ?e @ hd z # z) (length (a @ [gsm_char c])) (length (a @ [gsm_char c]) + length ?e)"
      using w memcpy_shift [of _ a ?e z "gsm_char c" ?w] Cons.prems(2)
      by (subst step) (simp add: code nth_append list_update_append rd_def gsm7bits_extend_to_latin1_def [THEN arg_cong [of _ _ length]])
    then show ?thesis using Cons.IH [of "hd z # z" "a @ [gsm_char c]"] Cons.prems by (simp add: code)
  next
    case False
    then have code: "gsm_code c = [word_of_int ?v]" by (simp add: gsm_code_def Let_def)
    let ?w = "word_of_int ?v :: u8"
    have w: "unat ?w < 128" "?w \<noteq> GSM_7BITS_ESCAPE" "gsm7bits_to_latin1 ! unat ?w = gsm_char c" using ok by (simp_all add: code_ok_def code)
    have "G7bitToAscii_loop (a @ gsm_code c @ ?e @ z) (length a) (length a + (1 + length ?e)) =
        G7bitToAscii_loop ((a @ [gsm_char c]) @ ?e @ z) (length (a @ [gsm_char c])) (length (a @ [gsm_char c]) + length ?e)"
      using w by (subst step) (simp add: code nth_append list_update_append rd_def word_less_nat_alt
          gsm7bits_to_latin1_def [THEN arg_cong [of _ _ length]])
    then show ?thesis using Cons.IH [of z "a @ [gsm_char c]"] Cons.prems by (simp add: code)
  qed
qed

lemma ascii_to_g7:
  assumes "\<forall>c \<in> set s. c < 0x80" "length (concat (map gsm_code s)) \<le> length tmp"
  shows "AsciiToG7bit s (length s) tmp =
    Some (length (concat (map gsm_code s)), concat (map gsm_code s) @ drop (length (concat (map gsm_code s))) tmp)"
  using ascii_loop [of s tmp "[]" "[]"] assms by (simp add: AsciiToG7bit_def)

lemma g7_to_ascii:
  assumes "\<forall>c \<in> set s. c < 0x80" "z \<noteq> []"
  shows "\<exists>z'. G7bitToAscii (concat (map gsm_code s) @ z) (length (concat (map gsm_code s))) = Some (length s, map gsm_char s @ z')"
  using g7_loop [of s z "[]"] assms by (simp add: G7bitToAscii_def)

lemma gsm_code_length: "length (gsm_code c) \<le> 2" "gsm_code c \<noteq> []"
  by (simp_all add: gsm_code_def Let_def)

lemma gsm_codes_length: "length s \<le> length (concat (map gsm_code s))" "length (concat (map gsm_code s)) \<le> 2 * length s"
proof (induction s)
  case (Cons c s)
  { case 1 show ?case using Cons gsm_code_length(2) [of c] by (cases "gsm_code c") auto }
  { case 2 show ?case using Cons gsm_code_length(1) [of c] by simp }
qed simp_all

lemma gsm_code_septets:
  assumes "\<forall>c \<in> set s. c < 0x80"
  shows "map (\<lambda>v. v AND 0x7F) (concat (map gsm_code s)) = concat (map gsm_code s)"
proof -
  have "v AND 0x7F = v" if "unat v < 128" for v :: u8
  proof -
    have "unat (take_bit 7 v) = unat v" using that by (simp add: unsigned_take_bit_eq take_bit_nat_eq_self)
    then have "take_bit 7 v = v" by (simp only: word_unat_eq_iff)
    then show ?thesis by (simp add: take_bit_eq_mask mask_eq_exp_minus_1)
  qed
  moreover have "\<forall>v \<in> set (gsm_code c). unat v < 128" if "c < 0x80" for c
    using code_ok_ascii [OF that] by (auto simp: code_ok_def gsm_code_def Let_def split: if_splits)
  ultimately show ?thesis using assms by (intro map_idI) auto
qed

text \<open>
  C30. A text survives the message: an ASCII text that \<open>pdu_encode\<close> has translated to the GSM alphabet (two
  septets for the characters of its extension), packed and stored behind its length is given back by the
  text step of \<open>pdu_decode\<close>, character by character, with a question mark for each character that
  has no code. The two arrays that hold septets are longer than twice the text.
\<close>

theorem sms_text_roundtrip:
  assumes ascii: "\<forall>c \<in> set s. c < 0x80" "s \<noteq> []" and tmp: "2 * length s < length tmp"
    and enc: "put_text s tmp out pos bsz = Some (r, out')" "0 \<le> r" and bsz: "bsz \<le> int (length out)"
    and dec: "r \<le> int bl" "bl \<le> length out'" "dcs div 4 mod 4 = 0" and room: "2 * length s < length text"
  shows "\<exists>text'. decode_text out' bl pos dcs (unat (out' ! pos)) text = Some (Some (length s), text') \<and>
    take (length s) text' = map gsm_char s"
proof -
  define e where "e = concat (map gsm_code s)"
  note n12 = gsm_codes_length [of s, folded e_def]
  have "0 < length s" using ascii(2) by simp
  with n12(1) have "0 < length e" by linarith
  note n = n12 this
  let ?tmp = "e @ drop (length e) tmp"
  have a: "AsciiToG7bit s (length s) tmp = Some (length e, ?tmp)"
    unfolding e_def using ascii(1) n tmp by (intro ascii_to_g7) (simp_all add: e_def)
  have small: "length e \<le> 160" using enc a by (auto simp: put_text_def split: if_splits)
  then obtain len where pos: "pos < length out" and
      p: "EncodePDUMessage ?tmp (length e) (out[pos := of_nat (length e)]) (pos + 1) (bsz - int (pos + 1)) = Some (len, out')"
      "0 \<le> len" "r = int (pos + 1) + len"
    using enc a by (auto simp: put_text_def Option.bind_eq_Some_conv wr_def not_less split: if_splits)
  have fr: "length out' = length out" "out' ! pos = of_nat (length e)"
    using encode_frame [OF p(1)] pos by simp_all
  then have n': "unat (out' ! pos) = length e" using small by (simp add: unat_of_nat)
  have size: "pos + 1 + (length e * 7 + 7) div 8 \<le> length out"
    using p(1,2) bsz by (auto simp: EncodePDUMessage_def split: if_splits)
  obtain chars where c: "DecodePDUMessage_GSM_7bit out' (pos + 1) (bl - (pos + 1)) text (length e) = Some (length e, chars)"
      "length chars = length text" "take (length e) chars = map (\<lambda>c. c AND 0x7F) (take (length e) ?tmp)"
  proof -
    have "Some (len, out') = Some (int (nat len), out')" using p(2) by simp
    note enc' = p(1) [unfolded this]
    have "nat len \<le> bl - (pos + 1)" "pos + 1 + (bl - (pos + 1)) \<le> length out'" using p(2,3) dec(1,2) by linarith+
    then show ?thesis using unpack_pack [OF enc' n(3), of "bl - (pos + 1)" "text"] size n tmp room that by auto
  qed
  have "take (length e) chars = e" using c(3) gsm_code_septets [OF ascii(1)] by (simp add: e_def)
  then have "chars = e @ drop (length e) chars" by (metis append_take_drop_id)
  moreover have "drop (length e) chars \<noteq> []" using c(2) n(2) room by simp
  ultimately obtain z' where "G7bitToAscii chars (length e) = Some (length s, map gsm_char s @ z')"
    using g7_to_ascii [OF ascii(1), of "drop (length e) chars"] by (auto simp: e_def)
  then show ?thesis using c(1) dec(3) by (simp add: decode_text_def n')
qed

lemma sample_text: "put_text [0x41, 0x5b] (replicate 8 0) (replicate 6 0) 0 6 = Some (4, [3, 0xC1, 0x0D, 0x0F, 0, 0])"
  by code_simp

theorem sms_text_roundtrip_witness:
  "\<exists>text'. decode_text [3, 0xC1, 0x0D, 0x0F, 0, 0] 6 0 0 3 (replicate 6 0) = Some (Some 2, text') \<and> take 2 text' = [0x41, 0x5b]"
proof -
  have "gsm_char 0x41 = 0x41" "gsm_char 0x5b = 0x5b" by code_simp+
  then show ?thesis
    using sms_text_roundtrip [OF _ _ _ sample_text, of 6 0 "replicate 6 0"] by (simp flip: numeral_2_eq_2)
qed

section \<open>UTF-8\<close>

text \<open>The code point that a sequence of one to four bytes stands for; the reference for the encoder.\<close>

fun utf8_value :: "u8 list \<Rightarrow> int option" where
  "utf8_value [a] = (if uint a < 0x80 then Some (uint a) else None)"
| "utf8_value [a, b] = (if uint a div 32 = 6 \<and> uint b div 64 = 2 then Some ((uint a mod 32) * 64 + uint b mod 64) else None)"
| "utf8_value [a, b, c] = (if uint a div 16 = 14 \<and> uint b div 64 = 2 \<and> uint c div 64 = 2
     then Some (((uint a mod 16) * 64 + uint b mod 64) * 64 + uint c mod 64) else None)"
| "utf8_value [a, b, c, d] = (if uint a div 8 = 30 \<and> uint b div 64 = 2 \<and> uint c div 64 = 2 \<and> uint d div 64 = 2
     then Some ((((uint a mod 8) * 64 + uint b mod 64) * 64 + uint c mod 64) * 64 + uint d mod 64) else None)"
| "utf8_value _ = None"

lemma or_plus:
  fixes x :: int
  assumes "0 \<le> x" "x < 2 ^ k"
  shows "x OR push_bit k c = x + push_bit k c"
proof -
  have "take_bit k x = x" using assms by (simp add: take_bit_int_eq_self)
  then have "\<not> bit x n \<or> \<not> bit (push_bit k c) n" for n by (metis bit_push_bit_iff bit_take_bit_iff linorder_not_le)
  then show ?thesis by (simp add: disjunctive_add)
qed

lemma utf8_bytes:
  fixes x :: int
  shows "0 \<le> x \<Longrightarrow> x < 64 \<Longrightarrow> uint (word_of_int (x OR 0x80) :: u8) = 128 + x"
    and "0 \<le> x \<Longrightarrow> x < 32 \<Longrightarrow> uint (word_of_int (x OR 0xC0) :: u8) = 192 + x"
    and "0 \<le> x \<Longrightarrow> x < 16 \<Longrightarrow> uint (word_of_int (x OR 0xE0) :: u8) = 224 + x"
    and "0 \<le> x \<Longrightarrow> x < 8 \<Longrightarrow> uint (word_of_int (x OR 0xF0) :: u8) = 240 + x"
proof -
  have *: "uint (word_of_int y :: u8) = y" if "0 \<le> y" "y < 256" for y
    using that by (simp add: unsigned_of_int take_bit_int_eq_self)
  show "0 \<le> x \<Longrightarrow> x < 64 \<Longrightarrow> uint (word_of_int (x OR 0x80) :: u8) = 128 + x"
    using or_plus [of x 6 2] * [of "x + 128"] by (simp add: push_bit_eq_mult del: of_int_add)
  show "0 \<le> x \<Longrightarrow> x < 32 \<Longrightarrow> uint (word_of_int (x OR 0xC0) :: u8) = 192 + x"
    using or_plus [of x 5 6] * [of "x + 192"] by (simp add: push_bit_eq_mult del: of_int_add)
  show "0 \<le> x \<Longrightarrow> x < 16 \<Longrightarrow> uint (word_of_int (x OR 0xE0) :: u8) = 224 + x"
    using or_plus [of x 4 14] * [of "x + 224"] by (simp add: push_bit_eq_mult del: of_int_add)
  show "0 \<le> x \<Longrightarrow> x < 8 \<Longrightarrow> uint (word_of_int (x OR 0xF0) :: u8) = 240 + x"
    using or_plus [of x 3 30] * [of "x + 240"] by (simp add: push_bit_eq_mult del: of_int_add)
qed

lemma low6: "(u :: int) AND 0x3F = u mod 64"
  using take_bit_eq_mask [of 6 u] by (simp add: take_bit_eq_mod mask_eq_exp_minus_1)

lemma utf8_parts:
  fixes x :: int
  shows "0 \<le> x \<Longrightarrow> x < 64 \<Longrightarrow> (128 + x) div 64 = 2 \<and> (128 + x) mod 64 = x"
    and "0 \<le> x \<Longrightarrow> x < 32 \<Longrightarrow> (192 + x) div 32 = 6 \<and> (192 + x) mod 32 = x"
    and "0 \<le> x \<Longrightarrow> x < 16 \<Longrightarrow> (224 + x) div 16 = 14 \<and> (224 + x) mod 16 = x"
    and "0 \<le> x \<Longrightarrow> x < 8 \<Longrightarrow> (240 + x) div 8 = 30 \<and> (240 + x) mod 8 = x"
  by (intro conjI int_div_pos_eq [of _ _ _ x] int_mod_pos_eq [of _ _ 2 x] int_mod_pos_eq [of _ _ 6 x] int_mod_pos_eq [of _ _ 14 x]
        int_mod_pos_eq [of _ _ 30 x]; simp)+

lemma utf8_values:
  fixes w x y z :: int
  assumes "0 \<le> x" "x < 64" "0 \<le> y" "y < 64" "0 \<le> z" "z < 64"
  shows "0 \<le> w \<Longrightarrow> w < 32 \<Longrightarrow> utf8_value [word_of_int (w OR 0xC0), word_of_int (z OR 0x80)] = Some (w * 64 + z)"
    and "0 \<le> w \<Longrightarrow> w < 16 \<Longrightarrow> utf8_value [word_of_int (w OR 0xE0), word_of_int (y OR 0x80), word_of_int (z OR 0x80)] =
      Some ((w * 64 + y) * 64 + z)"
    and "0 \<le> w \<Longrightarrow> w < 8 \<Longrightarrow> utf8_value [word_of_int (w OR 0xF0), word_of_int (x OR 0x80), word_of_int (y OR 0x80),
      word_of_int (z OR 0x80)] = Some (((w * 64 + x) * 64 + y) * 64 + z)"
  using utf8_parts(1) [of x] utf8_parts(1) [of y] utf8_parts(1) [of z] utf8_parts(2-4) [of w] assms
  by (simp_all add: utf8_bytes)

text \<open>
  C31. The UTF-8 encoder is the inverse of the decoder: every code point below U+FFFF that is not a
  surrogate and every one from U+10000 below U+10FFFF is written as its shortest sequence, a zero
  byte is put behind it and the number of bytes is returned. A surrogate is refused with -2; U+FFFF, U+10FFFF and
  everything above are refused with -1.
\<close>

theorem ucs2_to_utf8_correct:
  assumes "0 \<le> u"
  shows "case ucs2_to_utf8 u of (k, bytes) \<Rightarrow>
    if 0xD800 \<le> u \<and> u \<le> 0xDFFF then k = - 2 \<and> bytes = []
    else if u = 0xFFFF \<or> 0x10FFFF \<le> u then k = - 1 \<and> bytes = []
    else k = (if u < 0x80 then 1 else if u < 0x800 then 2 else if u < 0x10000 then 3 else 4) \<and>
      (\<exists>bs. bytes = bs @ [0] \<and> length bs = nat k \<and> utf8_value bs = Some u)"
proof -
  define x y z where "x = u div 4096 mod 64" and "y = u div 64 mod 64" and "z = u mod 64"
  have b: "0 \<le> x" "x < 64" "0 \<le> y" "y < 64" "0 \<le> z" "z < 64" by (simp_all add: x_def y_def z_def)
  have "u div 64 div 64 = u div 4096" "u div 4096 div 64 = u div 262144" by (simp_all flip: zdiv_zmult2_eq)
  then have s: "u = 64 * (u div 64) + z" "u div 64 = 64 * (u div 4096) + y" "u div 4096 = 64 * (u div 262144) + x"
    using mult_div_mod_eq [of 64 u] mult_div_mod_eq [of 64 "u div 64"] mult_div_mod_eq [of 64 "u div 4096"] by (simp_all add: x_def y_def z_def)
  note defs = ucs2_to_utf8_def drop_bit_eq_div low6 x_def [symmetric] y_def [symmetric] z_def [symmetric]
  have "u < 0x80 \<or> 0x80 \<le> u \<and> u < 0x800 \<or> 0x800 \<le> u \<and> u < 0x10000 \<or> 0x10000 \<le> u" by linarith
  then show ?thesis
  proof (elim disjE conjE)
    assume "u < 0x80"
    moreover from this have "uint (word_of_int u :: u8) = u" using assms by (simp add: unsigned_of_int take_bit_int_eq_self)
    ultimately show ?thesis by (auto simp: ucs2_to_utf8_def)
  next
    assume u: "0x80 \<le> u" "u < 0x800"
    have "utf8_value [word_of_int (u div 64 OR 0xC0), word_of_int (z OR 0x80)] = Some u"
      using utf8_values(1) [OF b, of "u div 64"] u s(1) by simp
    moreover have "ucs2_to_utf8 u = (2, [word_of_int (u div 64 OR 0xC0), word_of_int (z OR 0x80)] @ [0])"
      using u by (simp add: defs)
    ultimately show ?thesis using u by auto
  next
    assume u: "0x800 \<le> u" "u < 0x10000"
    have "utf8_value [word_of_int (u div 4096 OR 0xE0), word_of_int (y OR 0x80), word_of_int (z OR 0x80)] = Some u"
      using utf8_values(2) [OF b, of "u div 4096"] u s(1,2) by simp
    moreover have "ucs2_to_utf8 u = (if 0xD800 \<le> u \<and> u \<le> 0xDFFF then (- 2, []) else if u = 0xFFFF then (- 1, [])
        else (3, [word_of_int (u div 4096 OR 0xE0), word_of_int (y OR 0x80), word_of_int (z OR 0x80)] @ [0]))"
      using u by (simp add: defs)
    ultimately show ?thesis using u by auto
  next
    assume u: "0x10000 \<le> u"
    have "utf8_value [word_of_int (u div 262144 OR 0xF0), word_of_int (x OR 0x80), word_of_int (y OR 0x80), word_of_int (z OR 0x80)] = Some u"
      if "u < 0x10FFFF"
      using utf8_values(3) [OF b, of "u div 262144"] u that s by simp
    moreover have "ucs2_to_utf8 u = (if 0x10FFFF \<le> u then (- 1, [])
        else (4, [word_of_int (u div 262144 OR 0xF0), word_of_int (x OR 0x80), word_of_int (y OR 0x80), word_of_int (z OR 0x80)] @ [0]))"
      using u by (simp add: defs or.commute)
    ultimately show ?thesis using u by auto
  qed
qed

theorem ucs2_to_utf8_correct_witness:
  "\<exists>bs. ucs2_to_utf8 0x20AC = (3, bs @ [0]) \<and> utf8_value bs = Some 0x20AC"
  using ucs2_to_utf8_correct [of "0x20AC"] by (auto split: prod.splits)

end
