(* ===== verification/SmsPduProps.thy ===== *)
theory SmsPduProps
  imports SmsTextProps
begin

text \<open>
  Whole messages: \<open>pdu_encode\<close> and \<open>pdu_decode\<close> stay inside their arrays (and when they do not), and what an
  encoded message carries can be read back from it.
\<close>

section \<open>Encoding stays inside its buffer\<close>

lemma ascii_loop_total:
  assumes "j + 2 * (n - i) \<le> length out" "n \<le> length buf"
  shows "\<exists>j' out'. AsciiToG7bit_loop buf n out j i = Some (j', out') \<and> j' \<le> j + 2 * (n - i) \<and> length out' = length out"
  using assms
proof (induction "n - i" arbitrary: out j i rule: less_induct)
  case less
  show ?case
  proof (cases "i < n")
    case False
    then show ?thesis by (simp add: AsciiToG7bit_loop.simps)
  next
    case True
    have IH: "\<exists>j' out'. AsciiToG7bit_loop buf n out2 j2 i2 = Some (j', out') \<and> j' \<le> j + 2 * (n - i) \<and> length out' = length out"
      if "i < i2" "j2 + 2 * (n - i2) \<le> j + 2 * (n - i)" "length out2 = length out" for out2 j2 i2
      using less.hyps [of i2 j2 out2] that True less.prems by fastforce
    have "j < length out" "j + 1 < length out" "i < length buf" using True less.prems by linarith+
    then show ?thesis
      using True by (subst AsciiToG7bit_loop.simps) (auto simp: Let_def intro!: IH)
  qed
qed

lemma encode_digits_total:
  assumes "i \<le> length phone" "len = (i + 1) div 2" "o' + (length phone + 1) div 2 \<le> length out"
  shows "\<exists>out'. encode_digits phone out o' len i = Some (int ((length phone + 1) div 2), out') \<and> length out' = length out \<and>
    (\<forall>j < o'. out' ! j = out ! j)"
  using assms
proof (induction "length phone - i" arbitrary: out len i rule: less_induct)
  case less
  show ?case
  proof (cases "i < length phone")
    case False
    then show ?thesis using less.prems by (simp add: encode_digits.simps)
  next
    case True
    have no: "(d < 0x30 \<and> d > (0x39 :: u8)) = False" for d by (auto simp: word_less_nat_alt)
    have IH: "\<exists>out'. encode_digits phone (out[k := v]) o' len2 (i + 1) = Some (int ((length phone + 1) div 2), out') \<and>
        length out' = length out \<and> (\<forall>j < o'. out' ! j = out ! j)"
      if "o' \<le> k" "len2 = (i + 2) div 2" for k v len2
      using less.hyps [of "i + 1" len2 "out[k := v]"] that True less.prems by fastforce
    show ?thesis
    proof (cases "i mod 2 = 0")
      case even: True
      then obtain k where k: "i = 2 * k" by auto
      then have l: "len = k" "(i + 2) div 2 = len + 1" using less.prems(2) by simp_all
      have "o' + len < length out" using True less.prems(3) unfolding l k by linarith
      moreover note IH [of "o' + len" "len + 1", OF _ l(2) [symmetric]]
      ultimately show ?thesis using True even
        by (subst encode_digits.simps) (simp add: Let_def no)
    next
      case odd: False
      then obtain k where k: "i = 2 * k + 1" by (metis even_iff_mod_2_eq_zero oddE)
      then have l: "len = k + 1" "(i + 2) div 2 = len" using less.prems(2) by simp_all
      have "o' + len - 1 < length out" "o' \<le> o' + len - 1" using True less.prems(3) unfolding l k by linarith+
      moreover note IH [of "o' + len - 1" len, OF _ l(2) [symmetric]]
      ultimately show ?thesis using True odd
        by (subst encode_digits.simps) (simp add: Let_def no)
    qed
  qed
qed

lemma EncodePhoneNumber_total:
  assumes "int o' + bsz \<le> int (length out)"
  shows "\<exists>out'. EncodePhoneNumber phone out o' bsz =
      Some (if int ((length phone + 1) div 2) > bsz then - 1 else int ((length phone + 1) div 2), out') \<and> length out' = length out \<and>
      (\<forall>j < o'. out' ! j = out ! j)"
proof (cases "int ((length phone + 1) div 2) > bsz")
  case False
  then have "o' + (length phone + 1) div 2 \<le> length out" using assms by linarith
  from encode_digits_total [OF _ _ this, of 0 0] False show ?thesis by (simp add: EncodePhoneNumber_def)
qed (simp add: EncodePhoneNumber_def)

lemma encode_message_total:
  assumes "n < length ts" "int o' + bsz < int (length out)"
  shows "\<exists>r out'. EncodePDUMessage ts n out o' bsz = Some (r, out') \<and> length out' = length out \<and> (r = - 1 \<or> 0 \<le> r \<and> r \<le> bsz + 1)"
proof (cases "int ((n * 7 + 7) div 8) \<le> bsz")
  case False
  then show ?thesis by (simp add: EncodePDUMessage_def)
next
  case True
  have QR: "n = 8 * (n div 8) + n mod 8" "n mod 8 < 8" by simp_all
  note d = packed_size [OF QR]
  have "o' + (n * 7 + 7) div 8 < length out" using True assms(2) by linarith
  then show ?thesis
    using encode_message(1) [OF QR True [unfolded d], of ts o' out] encode_message(2) [OF QR True [unfolded d], of ts o' out] assms(1) True
    unfolding d by (cases "n mod 8 = 0") (auto split: if_splits)
qed

lemma put_text_total:
  assumes "2 * length s < length tmp" "int pos < bsz" "bsz < int (length out)"
  shows "\<exists>r out'. put_text s tmp out pos bsz = Some (r, out') \<and> length out' = length out \<and> (r = - 1 \<or> 0 \<le> r \<and> r \<le> bsz + 1)"
proof -
  obtain n ts where T: "AsciiToG7bit s (length s) tmp = Some (n, ts)" "n \<le> 2 * length s" "length ts = length tmp"
    using ascii_loop_total [of 0 "length s" 0 tmp s] assms(1) by (auto simp: AsciiToG7bit_def)
  obtain r out' where E: "EncodePDUMessage ts n (out[pos := of_nat n]) (pos + 1) (bsz - int (pos + 1)) = Some (r, out')"
    "length out' = length out" "r = - 1 \<or> 0 \<le> r \<and> r \<le> bsz - int (pos + 1) + 1"
    using encode_message_total [of n ts "pos + 1" "bsz - int (pos + 1)" "out[pos := of_nat n]"] T assms by fastforce
  have "pos < length out" using assms by linarith
  then show ?thesis using T E by (auto simp: put_text_def)
qed

lemma put_service_center_total:
  assumes "2 \<le> bsz" "bsz < int (length out)"
  shows "\<exists>len out'. put_service_center sc out bsz = Some (len, out') \<and> length out' = length out \<and> 0 \<le> len \<and> len < bsz"
proof (cases "sc = None \<or> sc = Some []")
  case True
  then show ?thesis using assms by (auto simp: put_service_center_def)
next
  case False
  then obtain d ds where sc: "sc = Some (d # ds)" by (metis not_None_eq list.exhaust)
  have "int 2 + (bsz - 2) \<le> int (length (out[1 := 0x91]))" "1 < length out" using assms by simp_all
  with EncodePhoneNumber_total [OF this(1), of "d # ds"] assms show ?thesis unfolding sc
    by (auto simp: put_service_center_def)
qed

text \<open>
  C33. \<open>pdu_encode\<close> writes only inside its output as long as that has one byte more than the \<open>buffer_size\<close> it is told,
  whatever the two telephone numbers and the text hold, and reads only what the septet array holds as long as the
  text is shorter than half of it; the result is \<open>-1\<close> or at most \<open>buffer_size + 1\<close>. The spare byte is the one
  of \<open>encode_overruns_by_one\<close>.
\<close>

theorem pdu_encode_in_bounds:
  assumes "2 * length s < length tmp" "bsz < int (length out)"
  shows "\<exists>r out'. pdu_encode sc phone s tmp out bsz = Some (r, out') \<and> length out' = length out \<and> (r = - 1 \<or> 0 \<le> r \<and> r \<le> bsz + 1)"
proof (cases "bsz < 2")
  case True
  then show ?thesis by (simp add: pdu_encode_def)
next
  case False
  then obtain len out1 where S: "put_service_center sc out bsz = Some (len, out1)" "length out1 = length out" "0 \<le> len" "len < bsz"
    using put_service_center_total assms by (meson not_le)
  define pos where "pos = nat len + 1"
  have ne: "out \<noteq> []" using False assms by auto
  show ?thesis
  proof (cases "int pos + 4 > bsz")
    case True
    then show ?thesis using False assms S ne unfolding pos_def by (simp add: pdu_encode_def)
  next
    case fits: False
    define out2 where "out2 = out1[0 := word_of_int len, pos := SMS_SUBMIT, pos + 1 := 0, pos + 2 := of_nat (length phone),
      pos + 3 := (if length phone < 6 then TYPE_OF_ADDRESS_UNKNOWN else TYPE_OF_ADDRESS_INTERNATIONAL_PHONE)]"
    have L: "length out2 = length out" using S by (simp add: out2_def)
    have "int (pos + 4) + (bsz - int (pos + 2) - 2) \<le> int (length out2)" using fits assms L by simp
    then obtain n out3 where E: "EncodePhoneNumber phone out2 (pos + 4) (bsz - int (pos + 2) - 2) = Some (n, out3)"
      "length out3 = length out" "- 1 \<le> n"
      using EncodePhoneNumber_total [of "pos + 4" "bsz - int (pos + 2) - 2" out2 phone] L by (auto split: if_splits)
    define q where "q = nat (int (pos + 2) + n + 2)"
    show ?thesis
    proof (cases "int q + 4 > bsz")
      case True
      then show ?thesis using False assms S ne fits L E unfolding pos_def q_def out2_def
        by (simp add: pdu_encode_def Let_def numeral_eq_Suc)
    next
      case ok: False
      have "int (q + 3) < bsz" using ok by simp
      from put_text_total [OF assms(1) this, of "out3[q := 0, q + 1 := 0, q + 2 := 0xB0]"] assms(2) E(2)
      show ?thesis using False assms S ne fits L E ok unfolding pos_def q_def out2_def
        by (simp add: pdu_encode_def Let_def numeral_eq_Suc)
    qed
  qed
qed

theorem pdu_encode_in_bounds_witness:
  "\<exists>r out'. pdu_encode None [0x31, 0x32] [0x41] (replicate 4 0) (replicate 20 0) 19 = Some (r, out') \<and>
     length out' = 20 \<and> (r = - 1 \<or> 0 \<le> r \<and> r \<le> 20)"
  using pdu_encode_in_bounds [of "[0x41]" "replicate 4 0" 19 "replicate 20 0" None "[0x31, 0x32]"] by simp

section \<open>Decoding stays inside its buffer\<close>

definition all7 :: "u8 list \<Rightarrow> bool" where
  "all7 xs \<longleftrightarrow> (\<forall>v \<in> set xs. v < 0x80)"

lemma all7_update: "all7 xs \<Longrightarrow> v < 0x80 \<Longrightarrow> all7 (xs[i := v])"
  unfolding all7_def using set_update_subset_insert [of xs i v] by blast

lemma mask7_less: "0x7F AND x < (0x80 :: u8)"
proof -
  have "0x7F AND x \<le> 0x7F" by (rule word_and_le1 word_and_le2)+
  then show ?thesis by (rule le_less_trans) simp
qed

lemma drop_less: "0 < c \<Longrightarrow> c < 8 \<Longrightarrow> drop_bit (8 - c) x < (0x80 :: u8)"
proof -
  assume "0 < c" "c < 8"
  then have "c \<in> {1, 2, 3, 4, 5, 6, 7}" by auto
  moreover have "unat x < 256" using unsigned_less [of x] by simp
  ultimately have "unat x div 2 ^ (8 - c) < 128" by auto
  then show ?thesis by (simp add: word_less_nat_alt unat_drop_bit_eq drop_bit_eq_div [where 'a = nat])
qed

lemma decode_octets_total:
  assumes "p + l \<le> length buf" "n \<le> length out" "len < n" "0 < i" "p + i - 1 < length buf" "0 < c" "c < 8" "all7 out"
  shows "\<exists>len' c' i' out'. decode_octets buf p l out n c i len = Some (len', c', i', out') \<and> len' \<le> n \<and> length out' = length out \<and>
    p + i' - 1 < length buf \<and> 0 < c' \<and> c' < 8 \<and> all7 out'"
  using assms
proof (induction "l - i" arbitrary: out c i len rule: less_induct)
  case less
  let ?v = "0x7F AND (push_bit c (buf ! (p + i)) OR drop_bit (8 - c) (buf ! (p + i - 1)))"
  let ?w = "buf ! (p + i) AND 0x7F"
  have w: "?w < 0x80" using mask7_less [of "buf ! (p + i)"] by (simp add: and.commute)
  show ?case
  proof (cases "i < l")
    case True
    then have "p + i < length buf" "p + i - 1 < length buf" "len < length out" using less.prems by linarith+
    moreover have "len + 1 < length out" if "len + 1 \<noteq> n" using that less.prems by linarith
    moreover have "\<exists>len' c' i' out'. decode_octets buf p l (out[len := ?v]) n (c + 1) (i + 1) (len + 1) = Some (len', c', i', out') \<and> len' \<le> n \<and>
      length out' = length (out[len := ?v]) \<and> p + i' - 1 < length buf \<and> 0 < c' \<and> c' < 8 \<and> all7 out'" if "len + 1 \<noteq> n" "c + 1 \<noteq> 8"
      by (rule less.hyps) (use that True less.prems mask7_less in \<open>auto intro!: all7_update\<close>)
    moreover have "\<exists>len' c' i' out'. decode_octets buf p l (out[len := ?v, len + 1 := ?w]) n 1 (i + 1) (len + 2) = Some (len', c', i', out') \<and>
      len' \<le> n \<and> length out' = length (out[len := ?v, len + 1 := ?w]) \<and> p + i' - 1 < length buf \<and> 0 < c' \<and> c' < 8 \<and> all7 out'"
      if "len + 1 \<noteq> n" "len + 2 \<noteq> n"
      by (rule less.hyps) (use that True less.prems mask7_less w in \<open>auto intro!: all7_update\<close>)
    ultimately show ?thesis using True less.prems mask7_less w
      by (subst decode_octets.simps) (auto simp: Let_def intro!: all7_update)
  next
    case False
    then show ?thesis using less.prems by (subst decode_octets.simps) simp
  qed
qed

lemma decode_message_total:
  assumes "p + l \<le> length buf" "p < length buf" "n \<le> length out" "0 < length out" "all7 out"
  shows "\<exists>k out'. DecodePDUMessage_GSM_7bit buf p l out n = Some (k, out') \<and> length out' = length out \<and> all7 out'"
proof -
  have R: "\<exists>k out'. (case decode_octets buf p l out2 n 1 1 len of None \<Rightarrow> None | Some r \<Rightarrow> decode_rest buf p n r) = Some (k, out') \<and>
      length out' = length out \<and> all7 out'" if "length out2 = length out" "len \<le> 1" "1 < n" "all7 out2" for out2 len
  proof -
    have le: "n \<le> length out2" "len < n" and lo: "length out2 = length out" "all7 out2" using that assms by simp_all
    from decode_octets_total [OF assms(1) le, of 1 1] obtain len' c' i' out'
      where D: "decode_octets buf p l out2 n 1 1 len = Some (len', c', i', out')" "len' \<le> n" "length out' = length out"
        "p + i' - 1 < length buf" "0 < c'" "c' < 8" "all7 out'" using lo assms(2) by auto
    have "len' < n \<Longrightarrow> len' < length out'" using D(3) assms by simp
    then show ?thesis using D by (auto simp: decode_rest_def intro!: all7_update drop_less)
  qed
  show ?thesis using assms R [of out 0] R [of "out[0 := 0x7F AND buf ! p]" 1] all7_update [OF assms(5) mask7_less [of "buf ! p"], of 0]
    by (auto simp: DecodePDUMessage_GSM_7bit_def bind_eq_Some_conv split: option.splits)
qed

lemma decode_digits_total:
  assumes "p + (n + 1) div 2 \<le> length buf" "n < length out"
  shows "\<exists>out'. DecodePhoneNumber buf p n out = Some (n, out') \<and> length out' = length out"
  using decode_digits_run [of 0 n p buf out] assms by (auto simp: DecodePhoneNumber_def)

lemma g7_total:
  assumes "n < length buf" "\<forall>j. i \<le> j \<longrightarrow> j < length buf \<longrightarrow> buf ! j < 0x80"
  shows "\<exists>k buf'. G7bitToAscii_loop buf i n = Some (k, buf') \<and> k \<le> n \<and> length buf' = length buf"
  using assms
proof (induction "n - i" arbitrary: buf i n rule: less_induct)
  case less
  show ?case
  proof (cases "i < n")
    case True
    then have lt: "i < length buf" "i + 1 < length buf" "i + 2 + (n - i - 1) \<le> length buf" "i + 1 + (n - i - 1) \<le> length buf"
      using less.prems by linarith+
    have lt8: "buf ! i < 0x80" "buf ! (i + 1) < 0x80" using less.prems(2) lt by simp_all
    then have tab: "unat (buf ! i) < length gsm7bits_to_latin1" "unat (buf ! (i + 1)) < length gsm7bits_extend_to_latin1"
      by (simp_all add: gsm7bits_to_latin1_def gsm7bits_extend_to_latin1_def word_less_nat_alt)
    have plain: "\<exists>k buf'. G7bitToAscii_loop (buf[i := v]) (i + 1) n = Some (k, buf') \<and> k \<le> n \<and> length buf' = length buf" for v
      using less.hyps [of n "i + 1" "buf[i := v]"] less.prems True by simp
    define moved where "moved v = take (i + 1) (buf[i := v]) @ take (n - i - 1) (drop (i + 2) (buf[i := v])) @ drop (i + 1 + (n - i - 1)) (buf[i := v])" for v
    have M: "memcpy (buf[i := v]) (i + 1) (buf[i := v]) (i + 2) (n - i - 1) = Some (moved v)" for v
      using lt by (simp add: memcpy_def moved_def)
    have MLen: "length (moved v) = length buf" for v using lt by (simp add: moved_def)
    have "moved v ! j < 0x80" if "i + 1 \<le> j" "j < length buf" for v j
    proof -
      have "\<exists>m. moved v ! j = buf[i := v] ! m \<and> i + 1 \<le> m \<and> m < length buf"
      proof (cases "j < n")
        case True
        then have "n - i - 1 \<le> length buf - (i + 2)" "j - (i + 1) < n - i - 1" "\<not> j < i + 1" using that less.prems(1) by linarith+
        then have "moved v ! j = buf[i := v] ! (j + 1)" using that lt by (simp add: moved_def nth_append)
        then show ?thesis using that True less.prems(1) by (intro exI [of _ "j + 1"]) simp
      next
        case False
        then have le: "n - i - 1 \<le> length buf - (i + 2)" "\<not> j - (i + 1) < n - i - 1" "\<not> j < i + 1"
          "i + 1 + (n - i - 1) = n" "j - (i + 1) - (n - i - 1) = j - n" "n \<le> j"
          using that less.prems(1) True by linarith+
        have "min (length buf - (i + 2)) (n - i - 1) = n - i - 1" "min (length buf) (i + 1) = i + 1" using le(1) lt by linarith+
        then have "moved v ! j = drop n (buf[i := v]) ! (j - n)"
          unfolding moved_def le(4) nth_append length_take length_drop length_list_update using le(2,3,5) by simp
        then have "moved v ! j = buf[i := v] ! j" using le(6) less.prems(1) that by simp
        then show ?thesis using that by blast
      qed
      then show ?thesis using less.prems(2) by auto
    qed
    then have small: "\<forall>j. i + 1 \<le> j \<longrightarrow> j < length (moved v) \<longrightarrow> moved v ! j < 0x80" for v using MLen by simp
    have esc: "\<exists>k buf'. G7bitToAscii_loop (moved v) (i + 1) (n - 1) = Some (k, buf') \<and> k \<le> n - 1 \<and> length buf' = length (moved v)" for v
      by (rule less.hyps [OF _ _ small]) (use less.prems True MLen [of v] in linarith)+
    show ?thesis using True lt(1,2) lt8 tab plain esc [unfolded MLen] M
      by (subst G7bitToAscii_loop.simps) (simp add: Let_def, meson diff_le_self le_trans)
  next
    case False
    then show ?thesis by (subst G7bitToAscii_loop.simps) simp
  qed
qed

lemma unat_octet: "unat (x :: u8) < 256"
  by (rule order_less_le_trans [OF unsigned_less]) simp

lemma memcpy_total:
  "i + n \<le> length dst \<Longrightarrow> j + n \<le> length src \<Longrightarrow> \<exists>out. memcpy dst i src j n = Some out \<and> length out = length dst"
  by (simp add: memcpy_def)

lemma decode_sender_total:
  assumes "start + 2 < length buf" "start + 3 + (n + 1) div 2 < length buf" "n < length phone" "all7 phone"
  shows "\<exists>phone'. decode_sender buf start n phone = Some phone'"
proof -
  have "0 < length phone" "n \<le> length phone" "start + 3 + (n + 1) div 2 \<le> length buf" "start + 3 < length buf" using assms by linarith+
  with decode_message_total [of "start + 3" "(n + 1) div 2" buf n phone] decode_digits_total [of "start + 3" n buf phone] assms
  show ?thesis by (auto simp: decode_sender_def)
qed

lemma decode_time_total: "pid + 7 < length buf \<Longrightarrow> \<exists>t. decode_time buf pid = Some t"
  by (simp add: decode_time_def)

lemma decode_header_total:
  assumes "sms_start + 256 < length buf"
  shows "\<exists>r'. decode_header buf h sms_start r = Some r' \<and> sms_text r' = sms_text r"
proof -
  have "unat n + 1 \<le> 256" for n :: u8 using unat_octet [of n] by simp
  then have "sms_start + (unat n + 1) < length buf" for n :: u8 using assms by (meson add_left_mono le_less_trans)
  then have "sms_start + (unat n + 1) < length buf" "sms_start + (unat n + 1) - 1 < length buf" "sms_start + (unat n + 1) - 2 < length buf"
    for n :: u8 by (simp_all only: less_imp_diff_less)
  note this [of "buf ! (sms_start + 1)"]
  moreover have "sms_start + 1 < length buf" using assms by simp
  ultimately show ?thesis unfolding decode_header_def by (simp only: rd_Some Let_def bind.bind_lunit if_split) simp
qed

lemma decode_text_total:
  assumes "start + 1 + n \<le> length buf" "start + 1 \<le> bl" "bl \<le> length buf" "start + 1 < length buf" "n < length txt0" "all7 txt0"
  shows "\<exists>k txt'. decode_text buf bl start dcs n txt0 = Some (k, txt') \<and> length txt' = length txt0 \<and> (\<forall>j. k = Some j \<longrightarrow> j \<le> n)"
proof -
  have "start + 1 + (bl - (start + 1)) \<le> length buf" "n \<le> length txt0" "0 < length txt0" using assms by linarith+
  then obtain k txt1 where D: "DecodePDUMessage_GSM_7bit buf (start + 1) (bl - (start + 1)) txt0 n = Some (k, txt1)"
    "length txt1 = length txt0" "all7 txt1" using decode_message_total [of "start + 1" "bl - (start + 1)" buf n txt0] assms by auto
  have "\<forall>j. 0 \<le> j \<longrightarrow> j < length txt1 \<longrightarrow> txt1 ! j < 0x80" using D(3) by (simp add: all7_def)
  then obtain m txt2 where G: "G7bitToAscii txt1 n = Some (m, txt2)" "m \<le> n" "length txt2 = length txt0"
    using g7_total [of n txt1 0] D(2) assms(5) by (auto simp: G7bitToAscii_def)
  obtain txt3 where M: "memcpy txt0 0 buf (start + 1) n = Some txt3" "length txt3 = length txt0"
    using memcpy_total [of 0 n txt0 "start + 1" buf] assms by auto
  show ?thesis using D G M by (simp add: decode_text_def)
qed

text \<open>
  C32. \<open>pdu_decode\<close> of any octets, with any length of at most 516, reads at most 545 octets and writes only inside
  the two arrays it is given, if the array for the number is at least as long and that for the text longer than
  the sizes it is told, these are at most 40 and 161, and both arrays hold septets (\<open>pdu_decoder.c\<close> tells 40
  and 161, and its array for the text is exactly that long, which is not covered here); it always returns, an error between \<open>-1\<close> and \<open>-3\<close> or a length of at most \<open>sms_text_size\<close>.
  No test of \<open>buffer_length\<close> protects the reads past it, which is why the array has to be longer.
\<close>

theorem pdu_decode_in_bounds:
  assumes "545 \<le> length buf" "bl \<le> 516" "psize \<le> 40" "psize \<le> length (sms_phone r)" "tsize \<le> 161" "0 < tsize" "tsize < length (sms_text r)"
    and "\<forall>v \<in> set (sms_phone r). v < 0x80" "\<forall>v \<in> set (sms_text r). v < 0x80"
  shows "\<exists>k r'. pdu_decode buf bl psize tsize r = Some (k, r') \<and> - 3 \<le> k \<and> k \<le> int tsize"
proof -
  have ne: "buf \<noteq> []" "unat (buf ! 0) < 256" using assms(1) unat_octet [of "buf ! 0"] by auto
  define start where "start = Suc (unat (buf ! 0))"
  have st: "start \<le> 256" "start < length buf" "start + 1 < length buf" using ne assms(1) by (simp_all add: start_def)
  define n where "n = unat (buf ! (start + 1))"
  define pid where "pid = start + 3 + (n + 1) div 2"
  show ?thesis
  proof (cases "bl = 0 \<or> bl < start + 1 \<or> psize < n + 1")
    case True
    then show ?thesis using ne st unfolding start_def n_def by (auto simp: pdu_decode_def Let_def)
  next
    case False
    then have "n < 40" using assms(3) by linarith
    moreover from this have "(n + 1) div 2 \<le> 20" by linarith
    ultimately have n: "n < 40" "(n + 1) div 2 \<le> 20" "pid \<le> 279" using st(1) by (simp_all add: pid_def)
    obtain phone where P: "decode_sender buf start n (sms_phone r) = Some phone"
      using decode_sender_total [of start buf n "sms_phone r"] n st(1) False assms by (auto simp: pid_def all7_def)
    obtain t where T: "decode_time buf pid = Some t" using decode_time_total [of pid buf] n assms(1) by auto
    define r1 where "r1 = r\<lparr>sms_phone := phone, sms_time := t\<rparr>"
    obtain r2 where H: "decode_header buf (unat (drop_bit 4 (buf ! start))) (pid + 9) r1 = Some r2" "sms_text r2 = sms_text r"
      using decode_header_total [of "pid + 9" buf "unat (drop_bit 4 (buf ! start))" r1] n(3) assms(1) by (auto simp: r1_def)
    define m where "m = unat (buf ! (pid + 9))"
    show ?thesis
    proof (cases "bl < pid + 10 \<or> tsize < m")
      case True
      then show ?thesis using False ne st P T H n assms(1) unfolding start_def n_def pid_def r1_def m_def
        by (auto simp: pdu_decode_def Let_def)
    next
      case ok: False
      obtain k txt1 where D: "decode_text buf bl (pid + 9) (unat (buf ! (pid + 1))) m (sms_text r) = Some (k, txt1)"
        "length txt1 = length (sms_text r)" "\<forall>j. k = Some j \<longrightarrow> j \<le> m"
        using decode_text_total [of "pid + 9" m buf bl "sms_text r" "unat (buf ! (pid + 1))"] ok n assms by (auto simp: all7_def)
      then show ?thesis using ok False ne st P T H n assms unfolding start_def n_def pid_def r1_def m_def
        by (cases k) (auto simp: pdu_decode_def Let_def)
    qed
  qed
qed

definition empty_out :: sms_out where
  "empty_out = \<lparr>sms_time = \<lparr>tm_year = 0, tm_mon = 0, tm_mday = 0, tm_hour = 0, tm_min = 0, tm_sec = 0\<rparr>, sms_phone = replicate 40 0,
     sms_text = replicate 162 0, tp_dcs = 0, ref_number = 0, total_parts = 0, part_number = 0, skip_bytes = 0\<rparr>"

theorem pdu_decode_in_bounds_witness:
  "\<exists>k r'. pdu_decode (replicate 545 0) 516 40 161 empty_out = Some (k, r') \<and> - 3 \<le> k \<and> k \<le> 161"
  using pdu_decode_in_bounds [of "replicate 545 0" 516 40 empty_out 161] by (simp add: empty_out_def)

definition long_header_pdu :: "u8 list" where
  "long_header_pdu = 0xFF # replicate 255 0 @ [0x40, 39] @ replicate 31 0 @ [0xFF] @ replicate 226 0"

text \<open>
  The 516 octets the caller of \<open>pdu_decode\<close> has for a message are not enough: there is one in which a service
  centre of 255 octets, a sender of 39 digits and a user data header of 255 octets make \<open>pdu_decode\<close> read outside the buffer.
\<close>

theorem pdu_decode_overreads:
  "length long_header_pdu = 516 \<and> pdu_decode long_header_pdu 516 40 161 empty_out = None"
  by code_simp

end
