(* ===== verification/MhiCore.thy ===== *)
theory MhiCore
  imports Prelude
begin

text \<open>
  The host side of the Modem Host Interface bus, \<^verbatim>\<open>quectel_MHI/src/core/\<close>: the state of a controller, its
  registers and doorbells, and the pointers of its rings (\<^verbatim>\<open>mhi_internal.h\<close> and the first part of
  \<^verbatim>\<open>mhi_main.c\<close>). Addresses are 64-bit words. The device is the parameter \<open>b\<close>: its registers and the
  link status that the bus driver of the platform reports. Log output is left out.
\<close>

section \<open>Constants\<close>

abbreviation (input) ETIMEDOUT :: int where "ETIMEDOUT \<equiv> 110"
abbreviation (input) ENXIO :: int where "ENXIO \<equiv> 6"
abbreviation (input) ENOTCONN :: int where "ENOTCONN \<equiv> 107"
abbreviation (input) EOVERFLOW :: int where "EOVERFLOW \<equiv> 75"

abbreviation (input) U32_MAX :: u32 where "U32_MAX \<equiv> 0xFFFFFFFF"

abbreviation (input) MHICFG :: u32 where "MHICFG \<equiv> 0x10"
abbreviation (input) MHICFG_NHWER_MASK :: u32 where "MHICFG_NHWER_MASK \<equiv> 0xFF000000"
abbreviation (input) MHICFG_NHWER_SHIFT :: nat where "MHICFG_NHWER_SHIFT \<equiv> 24"
abbreviation (input) MHICFG_NER_MASK :: u32 where "MHICFG_NER_MASK \<equiv> 0xFF0000"
abbreviation (input) MHICFG_NER_SHIFT :: nat where "MHICFG_NER_SHIFT \<equiv> 16"
abbreviation (input) CHDBOFF :: u32 where "CHDBOFF \<equiv> 0x18"
abbreviation (input) ERDBOFF :: u32 where "ERDBOFF \<equiv> 0x20"
abbreviation (input) BHIOFF :: u32 where "BHIOFF \<equiv> 0x28"
abbreviation (input) BHIEOFF :: u32 where "BHIEOFF \<equiv> 0x2C"
abbreviation (input) MHICTRL :: u32 where "MHICTRL \<equiv> 0x38"
abbreviation (input) MHICTRL_MHISTATE_MASK :: u32 where "MHICTRL_MHISTATE_MASK \<equiv> 0xFF00"
abbreviation (input) MHICTRL_MHISTATE_SHIFT :: nat where "MHICTRL_MHISTATE_SHIFT \<equiv> 8"
abbreviation (input) MHICTRL_RESET_MASK :: u32 where "MHICTRL_RESET_MASK \<equiv> 0x2"
abbreviation (input) MHICTRL_RESET_SHIFT :: nat where "MHICTRL_RESET_SHIFT \<equiv> 1"
abbreviation (input) MHISTATUS :: u32 where "MHISTATUS \<equiv> 0x48"
abbreviation (input) MHISTATUS_MHISTATE_MASK :: u32 where "MHISTATUS_MHISTATE_MASK \<equiv> 0xFF00"
abbreviation (input) MHISTATUS_MHISTATE_SHIFT :: nat where "MHISTATUS_MHISTATE_SHIFT \<equiv> 8"
abbreviation (input) MHISTATUS_READY_MASK :: u32 where "MHISTATUS_READY_MASK \<equiv> 0x1"
abbreviation (input) MHISTATUS_READY_SHIFT :: nat where "MHISTATUS_READY_SHIFT \<equiv> 0"
abbreviation (input) CCABAP_LOWER :: u32 where "CCABAP_LOWER \<equiv> 0x58"
abbreviation (input) CCABAP_HIGHER :: u32 where "CCABAP_HIGHER \<equiv> 0x5C"
abbreviation (input) ECABAP_LOWER :: u32 where "ECABAP_LOWER \<equiv> 0x60"
abbreviation (input) ECABAP_HIGHER :: u32 where "ECABAP_HIGHER \<equiv> 0x64"
abbreviation (input) CRCBAP_LOWER :: u32 where "CRCBAP_LOWER \<equiv> 0x68"
abbreviation (input) CRCBAP_HIGHER :: u32 where "CRCBAP_HIGHER \<equiv> 0x6C"
abbreviation (input) CRDB_LOWER :: u32 where "CRDB_LOWER \<equiv> 0x70"
abbreviation (input) MHICTRLBASE_LOWER :: u32 where "MHICTRLBASE_LOWER \<equiv> 0x80"
abbreviation (input) MHICTRLBASE_HIGHER :: u32 where "MHICTRLBASE_HIGHER \<equiv> 0x84"
abbreviation (input) MHICTRLLIMIT_LOWER :: u32 where "MHICTRLLIMIT_LOWER \<equiv> 0x88"
abbreviation (input) MHICTRLLIMIT_HIGHER :: u32 where "MHICTRLLIMIT_HIGHER \<equiv> 0x8C"
abbreviation (input) MHIDATABASE_LOWER :: u32 where "MHIDATABASE_LOWER \<equiv> 0x98"
abbreviation (input) MHIDATABASE_HIGHER :: u32 where "MHIDATABASE_HIGHER \<equiv> 0x9C"
abbreviation (input) MHIDATALIMIT_LOWER :: u32 where "MHIDATALIMIT_LOWER \<equiv> 0xA0"
abbreviation (input) MHIDATALIMIT_HIGHER :: u32 where "MHIDATALIMIT_HIGHER \<equiv> 0xA4"
abbreviation (input) MISC_OFFSET :: u32 where "MISC_OFFSET \<equiv> 0x24"
abbreviation (input) CAP_CAPID_MASK :: u32 where "CAP_CAPID_MASK \<equiv> 0xFF000000"
abbreviation (input) CAP_CAPID_SHIFT :: nat where "CAP_CAPID_SHIFT \<equiv> 24"
abbreviation (input) CAP_NEXT_CAP_MASK :: u32 where "CAP_NEXT_CAP_MASK \<equiv> 0x00FFF000"
abbreviation (input) CAP_NEXT_CAP_SHIFT :: nat where "CAP_NEXT_CAP_SHIFT \<equiv> 12"
abbreviation (input) BHI_INTVEC :: u32 where "BHI_INTVEC \<equiv> 0x20"
abbreviation (input) BHI_EXECENV :: u32 where "BHI_EXECENV \<equiv> 0x28"
abbreviation (input) NUM_MHI_EVT_RINGS :: u32 where "NUM_MHI_EVT_RINGS \<equiv> 3"
abbreviation (input) NUM_MHI_HW_EVT_RINGS :: u32 where "NUM_MHI_HW_EVT_RINGS \<equiv> 4"
abbreviation (input) MHI_DEV_WAKE_DB :: u64 where "MHI_DEV_WAKE_DB \<equiv> 127"
abbreviation (input) MHI_MAX_MTU :: u64 where "MHI_MAX_MTU \<equiv> 0xffff"

text \<open>Execution environments and device states, as the device reports them.\<close>

abbreviation (input) MHI_EE_PBL :: u32 where "MHI_EE_PBL \<equiv> 0x0"
abbreviation (input) MHI_EE_SBL :: u32 where "MHI_EE_SBL \<equiv> 0x1"
abbreviation (input) MHI_EE_AMSS :: u32 where "MHI_EE_AMSS \<equiv> 0x2"
abbreviation (input) MHI_EE_RDDM :: u32 where "MHI_EE_RDDM \<equiv> 0x3"
abbreviation (input) MHI_EE_WFW :: u32 where "MHI_EE_WFW \<equiv> 0x4"
abbreviation (input) MHI_EE_PTHRU :: u32 where "MHI_EE_PTHRU \<equiv> 0x5"
abbreviation (input) MHI_EE_EDL :: u32 where "MHI_EE_EDL \<equiv> 0x6"
abbreviation (input) MHI_EE_FP :: u32 where "MHI_EE_FP \<equiv> 0x7"
abbreviation (input) MHI_EE_DISABLE_TRANSITION :: u32 where "MHI_EE_DISABLE_TRANSITION \<equiv> 0x8"
abbreviation (input) MHI_EE_MAX :: u32 where "MHI_EE_MAX \<equiv> 0x9"

abbreviation (input) MHI_STATE_RESET :: u32 where "MHI_STATE_RESET \<equiv> 0x0"
abbreviation (input) MHI_STATE_READY :: u32 where "MHI_STATE_READY \<equiv> 0x1"
abbreviation (input) MHI_STATE_M0 :: u32 where "MHI_STATE_M0 \<equiv> 0x2"
abbreviation (input) MHI_STATE_M1 :: u32 where "MHI_STATE_M1 \<equiv> 0x3"
abbreviation (input) MHI_STATE_M2 :: u32 where "MHI_STATE_M2 \<equiv> 0x4"
abbreviation (input) MHI_STATE_M3 :: u32 where "MHI_STATE_M3 \<equiv> 0x5"
abbreviation (input) MHI_STATE_SYS_ERR :: u32 where "MHI_STATE_SYS_ERR \<equiv> 0xFF"
abbreviation (input) MHI_STATE_MAX :: u32 where "MHI_STATE_MAX \<equiv> 0x100"

definition MHI_IN_PBL :: "u32 \<Rightarrow> bool" where
  "MHI_IN_PBL ee \<longleftrightarrow> ee = MHI_EE_PBL \<or> ee = MHI_EE_PTHRU \<or> ee = MHI_EE_EDL"

definition MHI_IN_MISSION_MODE :: "u32 \<Rightarrow> bool" where
  "MHI_IN_MISSION_MODE ee \<longleftrightarrow> ee = MHI_EE_AMSS \<or> ee = MHI_EE_WFW"

datatype MHI_ST_TRANSITION = MHI_ST_TRANSITION_PBL | MHI_ST_TRANSITION_READY | MHI_ST_TRANSITION_SBL
  | MHI_ST_TRANSITION_MISSION_MODE | MHI_ST_TRANSITION_FP

datatype MHI_CB = MHI_CB_IDLE | MHI_CB_PENDING_DATA | MHI_CB_LPM_ENTER | MHI_CB_LPM_EXIT | MHI_CB_EE_RDDM
  | MHI_CB_EE_MISSION_MODE | MHI_CB_SYS_ERROR | MHI_CB_FATAL_ERROR

section \<open>Power states\<close>

text \<open>One bit each, so that a table entry can list several.\<close>

abbreviation (input) MHI_PM_DISABLE :: u32 where "MHI_PM_DISABLE \<equiv> 0x1"
abbreviation (input) MHI_PM_POR :: u32 where "MHI_PM_POR \<equiv> 0x2"
abbreviation (input) MHI_PM_M0 :: u32 where "MHI_PM_M0 \<equiv> 0x4"
abbreviation (input) MHI_PM_M2 :: u32 where "MHI_PM_M2 \<equiv> 0x8"
abbreviation (input) MHI_PM_M3_ENTER :: u32 where "MHI_PM_M3_ENTER \<equiv> 0x10"
abbreviation (input) MHI_PM_M3 :: u32 where "MHI_PM_M3 \<equiv> 0x20"
abbreviation (input) MHI_PM_M3_EXIT :: u32 where "MHI_PM_M3_EXIT \<equiv> 0x40"
abbreviation (input) MHI_PM_FW_DL_ERR :: u32 where "MHI_PM_FW_DL_ERR \<equiv> 0x80"
abbreviation (input) MHI_PM_SYS_ERR_DETECT :: u32 where "MHI_PM_SYS_ERR_DETECT \<equiv> 0x100"
abbreviation (input) MHI_PM_SYS_ERR_PROCESS :: u32 where "MHI_PM_SYS_ERR_PROCESS \<equiv> 0x200"
abbreviation (input) MHI_PM_SHUTDOWN_PROCESS :: u32 where "MHI_PM_SHUTDOWN_PROCESS \<equiv> 0x400"
abbreviation (input) MHI_PM_LD_ERR_FATAL_DETECT :: u32 where "MHI_PM_LD_ERR_FATAL_DETECT \<equiv> 0x800"

definition MHI_REG_ACCESS_VALID :: "u32 \<Rightarrow> bool" where
  "MHI_REG_ACCESS_VALID pm \<longleftrightarrow> pm AND (MHI_PM_POR OR MHI_PM_M0 OR MHI_PM_M2 OR MHI_PM_M3_ENTER OR MHI_PM_M3_EXIT OR
     MHI_PM_SYS_ERR_DETECT OR MHI_PM_SYS_ERR_PROCESS OR MHI_PM_SHUTDOWN_PROCESS OR MHI_PM_FW_DL_ERR) \<noteq> 0"

definition MHI_PM_IN_ERROR_STATE :: "u32 \<Rightarrow> bool" where
  "MHI_PM_IN_ERROR_STATE pm \<longleftrightarrow> MHI_PM_FW_DL_ERR \<le> pm"

definition MHI_PM_IN_FATAL_STATE :: "u32 \<Rightarrow> bool" where
  "MHI_PM_IN_FATAL_STATE pm \<longleftrightarrow> pm = MHI_PM_LD_ERR_FATAL_DETECT"

definition MHI_DB_ACCESS_VALID :: "u32 \<Rightarrow> bool" where
  "MHI_DB_ACCESS_VALID pm \<longleftrightarrow> pm AND MHI_PM_M0 \<noteq> 0"

definition MHI_EVENT_ACCESS_INVALID :: "u32 \<Rightarrow> bool" where
  "MHI_EVENT_ACCESS_INVALID pm \<longleftrightarrow> pm = MHI_PM_DISABLE \<or> MHI_PM_IN_ERROR_STATE pm"

definition MHI_PM_IN_SUSPEND_STATE :: "u32 \<Rightarrow> bool" where
  "MHI_PM_IN_SUSPEND_STATE pm \<longleftrightarrow> pm AND (MHI_PM_M3_ENTER OR MHI_PM_M3) \<noteq> 0"

section \<open>State\<close>

text \<open>
  A ring. \<open>ctxt_wp\<close> is what the C pointer of that name points to, the write pointer in the context
  shared with the device; \<open>ctxt_rp\<close>, \<open>ctxt_rbase\<close> and \<open>ctxt_rlen\<close> are the other fields of that context.
\<close>

record mhi_ring =
  iommu_base :: u64
  ctxt_rbase :: u64
  ctxt_rp :: u64
  ctxt_wp :: u64
  ctxt_rlen :: u64
  ring_base :: u64
  ring_rp :: u64
  ring_wp :: u64
  el_size :: u64
  ring_len :: u64
  elements :: u64
  db_addr :: u64

text \<open>\<open>brst\<close> says which of the two functions \<open>process_db\<close> points to.\<close>

record db_cfg =
  reset_req :: bool
  db_mode :: bool
  db_val :: u64
  brst :: bool

record mhi_tre =
  tre_ptr :: u64
  dword0 :: u32
  dword1 :: u32

record mhi_buf_info =
  p_addr :: u64
  v_addr :: u64
  buf_wp :: u64
  buf_len :: u64
  cb_buf :: u64
  buf_used :: bool
  pre_mapped :: bool

datatype mhi_ch_state = MHI_CH_STATE_DISABLED | MHI_CH_STATE_ENABLED

datatype dma_data_direction = DMA_TO_DEVICE | DMA_FROM_DEVICE

record mhi_event =
  ev_ring :: mhi_ring
  ev_mem :: "mhi_tre list"
  ev_db_cfg :: db_cfg
  ev_used_elements :: u32
  hw_ring :: bool
  offload_ev :: bool
  cl_manage :: bool

record mhi_cmd =
  cmd_ring :: mhi_ring
  cmd_mem :: "mhi_tre list"

text \<open>The two rings of a channel with the memory they lie in. \<open>completed\<close> is the state of its completion.\<close>

record mhi_chan =
  chan :: u32
  tre_ring :: mhi_ring
  tre_mem :: "mhi_tre list"
  buf_ring :: mhi_ring
  buf_mem :: "mhi_buf_info list"
  chan_db_cfg :: db_cfg
  chan_dir :: dma_data_direction
  ch_state :: mhi_ch_state
  ctxt_chstate :: mhi_ch_state
  rsc_dma :: bool
  pre_alloc :: bool
  offload_ch :: bool
  intmod :: u32
  er_index :: nat
  ee_mask :: u32
  ccs :: u32
  completed :: bool
  used_elements :: u32

record mhi_timesync =
  ts_er_index :: u32
  ts_ccs :: u32
  ts_completed :: bool

text \<open>Calls into the rest of the kernel and into the clients of the bus, in the order they happen.\<close>

datatype mhi_call =
    status_cb MHI_CB
  | wake_up_all
  | schedule_syserr_worker
  | schedule_ready_worker
  | schedule_st_worker
  | runtime_get
  | runtime_put
  | mhi_create_devices
  | mhi_destroy_devices
  | tasklet_kill nat
  | tasklet_schedule nat
  | runtime_mark_last_busy
  | mhi_notify MHI_CB
  | unmap_single u64
  | xfer_cb u64 u32 int
  | kfree u64
  | assert_failed

record 'h mhi_controller =
  hw :: 'h
  regs :: u64
  bhi :: u64
  bhie :: u64
  wake_db :: u64
  pm_state :: u32
  ee :: u32
  dev_state :: u32
  dev_wake :: int
  pending_pkts :: int
  M0_count :: u32
  M2_count :: u32
  M3_count :: u32
  pre_init :: bool
  msi_irq_base :: u32
  mhi_events :: "mhi_event list"
  mhi_cmds :: "mhi_cmd list"
  mhi_chans :: "mhi_chan list"
  timesync :: "mhi_timesync option"
  buffer_len :: u64
  transition_list :: "MHI_ST_TRANSITION list"
  chan_ctxt_addr :: u64
  er_ctxt_addr :: u64
  cmd_ctxt_addr :: u64
  ctrl_seg_addr :: u64
  ctrl_seg_size :: u64
  iova_start :: u64
  iova_stop :: u64
  call_log :: "mhi_call list"

definition call :: "mhi_call \<Rightarrow> 'h mhi_controller \<Rightarrow> 'h mhi_controller" where
  "call c s = s\<lparr>call_log := call_log s @ [c]\<rparr>"

definition set_event :: "nat \<Rightarrow> mhi_event \<Rightarrow> 'h mhi_controller \<Rightarrow> 'h mhi_controller" where
  "set_event i e s = s\<lparr>mhi_events := (mhi_events s)[i := e]\<rparr>"

definition set_cmd :: "mhi_cmd \<Rightarrow> 'h mhi_controller \<Rightarrow> 'h mhi_controller" where
  "set_cmd c s = s\<lparr>mhi_cmds := (mhi_cmds s)[0 := c]\<rparr>"

definition set_chan :: "nat \<Rightarrow> mhi_chan \<Rightarrow> 'h mhi_controller \<Rightarrow> 'h mhi_controller" where
  "set_chan i c s = s\<lparr>mhi_chans := (mhi_chans s)[i := c]\<rparr>"

section \<open>Registers\<close>

text \<open>The result \<open>None\<close> is the \<open>-EIO\<close> of the accessors, the only error they have.\<close>

record 'h mhi_dev = "'h mmio" +
  link_status :: "'h \<Rightarrow> bool"

definition mhi_read_reg :: "'h mhi_dev \<Rightarrow> u64 \<Rightarrow> u32 \<Rightarrow> 'h mhi_controller \<Rightarrow> u32 option \<times> 'h mhi_controller" where
  "mhi_read_reg b base offset s =
     (let (tmp, h) = mm_readl b (base + ucast offset) (hw s); s = s\<lparr>hw := h\<rparr> in
      if tmp = U32_MAX \<and> link_status b h then (None, s) else (Some tmp, s))"

definition mhi_read_reg_field ::
    "'h mhi_dev \<Rightarrow> u64 \<Rightarrow> u32 \<Rightarrow> u32 \<Rightarrow> nat \<Rightarrow> 'h mhi_controller \<Rightarrow> u32 option \<times> 'h mhi_controller" where
  "mhi_read_reg_field b base offset msk shift s =
     (case mhi_read_reg b base offset s of
        (None, s) \<Rightarrow> (None, s)
      | (Some tmp, s) \<Rightarrow> (Some (drop_bit shift (tmp AND msk)), s))"

definition mhi_write_reg :: "'h mhi_dev \<Rightarrow> u64 \<Rightarrow> u32 \<Rightarrow> u32 \<Rightarrow> 'h mhi_controller \<Rightarrow> 'h mhi_controller" where
  "mhi_write_reg b base offset val s = s\<lparr>hw := mm_writel b val (base + ucast offset) (hw s)\<rparr>"

definition mhi_write_reg_field ::
    "'h mhi_dev \<Rightarrow> u64 \<Rightarrow> u32 \<Rightarrow> u32 \<Rightarrow> nat \<Rightarrow> u32 \<Rightarrow> 'h mhi_controller \<Rightarrow> 'h mhi_controller" where
  "mhi_write_reg_field b base offset msk shift val s =
     (case mhi_read_reg b base offset s of
        (None, s) \<Rightarrow> s
      | (Some tmp, s) \<Rightarrow> mhi_write_reg b base offset ((tmp AND NOT msk) OR push_bit shift val) s)"

text \<open>
  The loop of \<open>mhi_get_capability_offset\<close> follows the list the device gives, so it need not end; the
  outer option is \<open>None\<close> then. The result is the return value and the offset reached.
\<close>

partial_function (option) capability_loop ::
    "'h mhi_dev \<Rightarrow> u32 \<Rightarrow> u32 \<Rightarrow> 'h mhi_controller \<Rightarrow> (int \<times> u32 \<times> 'h mhi_controller) option" where
  "capability_loop b capability offset s =
     (case mhi_read_reg_field b (regs s) offset CAP_CAPID_MASK CAP_CAPID_SHIFT s of
        (None, s) \<Rightarrow> Some (- EIO, offset, s)
      | (Some cur_cap, s) \<Rightarrow>
          if cur_cap = capability then Some (0, offset, s) else
          (case mhi_read_reg_field b (regs s) offset CAP_NEXT_CAP_MASK CAP_NEXT_CAP_SHIFT s of
             (None, s) \<Rightarrow> Some (- EIO, offset, s)
           | (Some next_offset, s) \<Rightarrow>
               if next_offset = 0 then Some (- ENXIO, offset, s)
               else capability_loop b capability (offset + next_offset) s))"

definition mhi_get_capability_offset ::
    "'h mhi_dev \<Rightarrow> u32 \<Rightarrow> 'h mhi_controller \<Rightarrow> (int \<times> u32 option \<times> 'h mhi_controller) option" where
  "mhi_get_capability_offset b capability s =
     (case mhi_read_reg_field b (regs s) MISC_OFFSET U32_MAX 0 s of
        (None, s) \<Rightarrow> Some (- EIO, None, s)
      | (Some offset, s) \<Rightarrow>
          if 0x1000 \<le> offset then Some (- ENXIO, Some offset, s)
          else map_option (\<lambda>(r, offset, s). (r, Some offset, s)) (capability_loop b capability offset s))"

definition mhi_get_exec_env :: "'h mhi_dev \<Rightarrow> 'h mhi_controller \<Rightarrow> u32 \<times> 'h mhi_controller" where
  "mhi_get_exec_env b s =
     (case mhi_read_reg b (bhi s) BHI_EXECENV s of (None, s) \<Rightarrow> (MHI_EE_MAX, s) | (Some exec, s) \<Rightarrow> (exec, s))"

definition mhi_get_mhi_state :: "'h mhi_dev \<Rightarrow> 'h mhi_controller \<Rightarrow> u32 \<times> 'h mhi_controller" where
  "mhi_get_mhi_state b s =
     (case mhi_read_reg_field b (regs s) MHISTATUS MHISTATUS_MHISTATE_MASK MHISTATUS_MHISTATE_SHIFT s of
        (None, s) \<Rightarrow> (MHI_STATE_MAX, s) | (Some state, s) \<Rightarrow> (state, s))"

section \<open>Doorbells\<close>

definition mhi_write_db :: "'h mhi_dev \<Rightarrow> u64 \<Rightarrow> u64 \<Rightarrow> 'h mhi_controller \<Rightarrow> 'h mhi_controller" where
  "mhi_write_db b addr wp s = mhi_write_reg b addr 0 (ucast wp) (mhi_write_reg b addr 4 (ucast (drop_bit 32 wp)) s)"

definition mhi_db_brstmode :: "'h mhi_dev \<Rightarrow> db_cfg \<Rightarrow> u64 \<Rightarrow> u64 \<Rightarrow> 'h mhi_controller \<Rightarrow> db_cfg \<times> 'h mhi_controller" where
  "mhi_db_brstmode b c addr wp s =
     (if db_mode c then (c\<lparr>db_val := wp, db_mode := False\<rparr>, mhi_write_db b addr wp s) else (c, s))"

definition mhi_db_brstmode_disable ::
    "'h mhi_dev \<Rightarrow> db_cfg \<Rightarrow> u64 \<Rightarrow> u64 \<Rightarrow> 'h mhi_controller \<Rightarrow> db_cfg \<times> 'h mhi_controller" where
  "mhi_db_brstmode_disable b c addr wp s = (c\<lparr>db_val := wp\<rparr>, mhi_write_db b addr wp s)"

definition process_db :: "'h mhi_dev \<Rightarrow> db_cfg \<Rightarrow> u64 \<Rightarrow> u64 \<Rightarrow> 'h mhi_controller \<Rightarrow> db_cfg \<times> 'h mhi_controller" where
  "process_db b c = (if brst c then mhi_db_brstmode b c else mhi_db_brstmode_disable b c)"

definition mhi_ring_er_db :: "'h mhi_dev \<Rightarrow> nat \<Rightarrow> 'h mhi_controller \<Rightarrow> 'h mhi_controller" where
  "mhi_ring_er_db b i s =
     (let e = mhi_events s ! i; r = ev_ring e; (c, s) = process_db b (ev_db_cfg e) (db_addr r) (ctxt_wp r) s in
      set_event i (e\<lparr>ev_db_cfg := c\<rparr>) s)"

definition mhi_ring_cmd_db :: "'h mhi_dev \<Rightarrow> 'h mhi_controller \<Rightarrow> 'h mhi_controller" where
  "mhi_ring_cmd_db b s =
     (let c = mhi_cmds s ! 0; r = cmd_ring c; db = iommu_base r + (ring_wp r - ring_base r);
          s = set_cmd (c\<lparr>cmd_ring := r\<lparr>ctxt_wp := db\<rparr>\<rparr>) s in
      mhi_write_db b (db_addr r) db s)"

definition mhi_ring_chan_db :: "'h mhi_dev \<Rightarrow> nat \<Rightarrow> 'h mhi_controller \<Rightarrow> 'h mhi_controller" where
  "mhi_ring_chan_db b i s =
     (let ch = mhi_chans s ! i; r = tre_ring ch; db = iommu_base r + (ring_wp r - ring_base r);
          (c, s) = process_db b (chan_db_cfg ch) (db_addr r) db s in
      set_chan i (ch\<lparr>tre_ring := r\<lparr>ctxt_wp := db\<rparr>, chan_db_cfg := c\<rparr>) s)"

section \<open>Ring pointers\<close>

definition mhi_add_ring_element :: "mhi_ring \<Rightarrow> mhi_ring" where
  "mhi_add_ring_element r =
     (let wp = ring_wp r + el_size r in r\<lparr>ring_wp := (if ring_base r + ring_len r \<le> wp then ring_base r else wp)\<rparr>)"

definition mhi_del_ring_element :: "mhi_ring \<Rightarrow> mhi_ring" where
  "mhi_del_ring_element r =
     (let rp = ring_rp r + el_size r in r\<lparr>ring_rp := (if ring_base r + ring_len r \<le> rp then ring_base r else rp)\<rparr>)"

definition get_nr_avail_ring_elements :: "mhi_ring \<Rightarrow> int" where
  "get_nr_avail_ring_elements r =
     (if ring_wp r < ring_rp r then sint (ucast ((ring_rp r - ring_wp r) div el_size r - 1) :: u32)
      else sint (ucast ((ring_rp r - ring_base r) div el_size r +
                        ((ring_base r + ring_len r - ring_wp r) div el_size r - 1)) :: u32))"

definition get_used_ring_elements :: "u64 \<Rightarrow> u64 \<Rightarrow> u32 \<Rightarrow> u32" where
  "get_used_ring_elements rp wp el_num =
     (if rp \<le> wp then ucast ((wp - rp) div 16) else el_num - ucast ((rp - wp) div 16))"

definition mhi_to_virtual :: "mhi_ring \<Rightarrow> u64 \<Rightarrow> u64" where
  "mhi_to_virtual r addr = (addr - iommu_base r) + ring_base r"

definition mhi_to_physical :: "mhi_ring \<Rightarrow> u64 \<Rightarrow> u64" where
  "mhi_to_physical r addr = (addr - ring_base r) + iommu_base r"

definition mhi_recycle_ev_ring_element :: "mhi_ring \<Rightarrow> mhi_ring" where
  "mhi_recycle_ev_ring_element r =
     (let r = mhi_add_ring_element r; r = r\<lparr>ctxt_wp := iommu_base r + (ring_wp r - ring_base r)\<rparr> in
      mhi_del_ring_element r)"

definition mhi_is_ring_full :: "mhi_ring \<Rightarrow> bool" where
  "mhi_is_ring_full r \<longleftrightarrow>
     (let tmp = ring_wp r + el_size r; tmp = (if ring_base r + ring_len r \<le> tmp then ring_base r else tmp) in tmp = ring_rp r)"

text \<open>
  The element a pointer into a ring of \<open>n\<close> elements points to: \<open>None\<close> when it points outside the ring or
  between two elements, where the C code would read or write something else.
\<close>

definition ring_index :: "mhi_ring \<Rightarrow> nat \<Rightarrow> u64 \<Rightarrow> nat option" where
  "ring_index r n p =
     (let d = unat (p - ring_base r); k = d div unat (el_size r) in
      if d mod unat (el_size r) = 0 \<and> k < n then Some k else None)"

end
