(* ===== verification/MhiPm.thy ===== *)
theory MhiPm
  imports MhiCore
begin

text \<open>
  Power management of the Modem Host Interface: \<^verbatim>\<open>quectel_MHI/src/core/mhi_pm.c\<close> with the table of power
  states, and the interrupt handler of \<^verbatim>\<open>mhi_main.c\<close>. An operation runs alone while it holds \<open>pm_lock\<close>. Where it
  gives the lock back or waits, the other threads and the device run: \<open>env k\<close> is whatever they do to
  the state at the \<open>k\<close>-th such point. A wait evaluates its condition, lets the others run if it does not
  hold, and evaluates it again; the result is false on a timeout. \<open>mhi_init_timesync\<close> and its counterpart are left out.
\<close>

section \<open>The table of power states\<close>

definition mhi_state_transitions :: "(u32 \<times> u32) list" where
  "mhi_state_transitions = [
     (MHI_PM_DISABLE, MHI_PM_POR),
     (MHI_PM_POR, MHI_PM_POR OR MHI_PM_DISABLE OR MHI_PM_M0 OR MHI_PM_SYS_ERR_DETECT OR MHI_PM_SHUTDOWN_PROCESS OR
        MHI_PM_LD_ERR_FATAL_DETECT OR MHI_PM_FW_DL_ERR),
     (MHI_PM_M0, MHI_PM_M2 OR MHI_PM_M3_ENTER OR MHI_PM_SYS_ERR_DETECT OR MHI_PM_SHUTDOWN_PROCESS OR
        MHI_PM_LD_ERR_FATAL_DETECT OR MHI_PM_FW_DL_ERR),
     (MHI_PM_M2, MHI_PM_M0 OR MHI_PM_SYS_ERR_DETECT OR MHI_PM_SHUTDOWN_PROCESS OR MHI_PM_LD_ERR_FATAL_DETECT),
     (MHI_PM_M3_ENTER, MHI_PM_M3 OR MHI_PM_SYS_ERR_DETECT OR MHI_PM_SHUTDOWN_PROCESS OR MHI_PM_LD_ERR_FATAL_DETECT),
     (MHI_PM_M3, MHI_PM_M3_EXIT OR MHI_PM_SYS_ERR_DETECT OR MHI_PM_SHUTDOWN_PROCESS OR MHI_PM_LD_ERR_FATAL_DETECT),
     (MHI_PM_M3_EXIT, MHI_PM_M0 OR MHI_PM_SYS_ERR_DETECT OR MHI_PM_SHUTDOWN_PROCESS OR MHI_PM_LD_ERR_FATAL_DETECT),
     (MHI_PM_FW_DL_ERR, MHI_PM_FW_DL_ERR OR MHI_PM_SYS_ERR_DETECT OR MHI_PM_SHUTDOWN_PROCESS OR MHI_PM_LD_ERR_FATAL_DETECT),
     (MHI_PM_SYS_ERR_DETECT, MHI_PM_SYS_ERR_PROCESS OR MHI_PM_SHUTDOWN_PROCESS OR MHI_PM_LD_ERR_FATAL_DETECT),
     (MHI_PM_SYS_ERR_PROCESS, MHI_PM_POR OR MHI_PM_SHUTDOWN_PROCESS OR MHI_PM_LD_ERR_FATAL_DETECT),
     (MHI_PM_SHUTDOWN_PROCESS, MHI_PM_DISABLE OR MHI_PM_LD_ERR_FATAL_DETECT),
     (MHI_PM_LD_ERR_FATAL_DETECT, MHI_PM_LD_ERR_FATAL_DETECT OR MHI_PM_SHUTDOWN_PROCESS)]"

text \<open>The kernel's \<open>find_last_bit\<close> on 32 bits: the highest set bit, 32 when there is none.\<close>

definition find_last_bit :: "u32 \<Rightarrow> nat" where
  "find_last_bit w = (case filter (bit w) (rev [0..<32]) of [] \<Rightarrow> 32 | i # _ \<Rightarrow> i)"

definition mhi_tryset_pm_state :: "u32 \<Rightarrow> 'h mhi_controller \<Rightarrow> u32 \<times> 'h mhi_controller" where
  "mhi_tryset_pm_state state s =
     (let cur_state = pm_state s; index = find_last_bit cur_state in
      if length mhi_state_transitions \<le> index then (cur_state, s)
      else if fst (mhi_state_transitions ! index) \<noteq> cur_state then (cur_state, s)
      else if snd (mhi_state_transitions ! index) AND state = 0 then (cur_state, s)
      else (state, s\<lparr>pm_state := state\<rparr>))"

section \<open>Waiting\<close>

type_synonym 'h env = "nat \<Rightarrow> 'h mhi_controller \<Rightarrow> 'h mhi_controller"

definition wait_event_timeout ::
    "('a \<Rightarrow> 'h mhi_controller \<Rightarrow> bool \<times> 'a \<times> 'h mhi_controller) \<Rightarrow> ('h mhi_controller \<Rightarrow> 'h mhi_controller) \<Rightarrow>
     'a \<Rightarrow> 'h mhi_controller \<Rightarrow> bool \<times> 'a \<times> 'h mhi_controller" where
  "wait_event_timeout cond env x s =
     (case cond x s of (True, x, s) \<Rightarrow> (True, x, s) | (False, x, s) \<Rightarrow> cond x (env s))"

text \<open>A condition that only looks at the state.\<close>

definition wait_state :: "('h mhi_controller \<Rightarrow> bool) \<Rightarrow> ('h mhi_controller \<Rightarrow> 'h mhi_controller) \<Rightarrow>
    'h mhi_controller \<Rightarrow> bool \<times> 'h mhi_controller" where
  "wait_state cond env s = (case wait_event_timeout (\<lambda>_ s. (cond s, (), s)) env () s of (r, _, s) \<Rightarrow> (r, s))"

section \<open>Device state and wake-up\<close>

definition mhi_set_mhi_state :: "'h mhi_dev \<Rightarrow> u32 \<Rightarrow> 'h mhi_controller \<Rightarrow> 'h mhi_controller" where
  "mhi_set_mhi_state b state s =
     (if state = MHI_STATE_RESET then mhi_write_reg_field b (regs s) MHICTRL MHICTRL_RESET_MASK MHICTRL_RESET_SHIFT 1 s
      else mhi_write_reg_field b (regs s) MHICTRL MHICTRL_MHISTATE_MASK MHICTRL_MHISTATE_SHIFT state s)"

text \<open>
  Both functions return early; only the part in front of the \<open>return\<close> is live, and neither counts in
  \<open>dev_wake\<close>. They are what \<open>wake_get\<close> and \<open>wake_put\<close> point to: no bus driver installs others.
\<close>

definition mhi_assert_dev_wake :: "'h mhi_dev \<Rightarrow> bool \<Rightarrow> 'h mhi_controller \<Rightarrow> 'h mhi_controller" where
  "mhi_assert_dev_wake b force s = (if dev_state s = MHI_STATE_M2 then mhi_write_db b (wake_db s) 1 s else s)"

definition mhi_deassert_dev_wake :: "'h mhi_dev \<Rightarrow> bool \<Rightarrow> 'h mhi_controller \<Rightarrow> 'h mhi_controller" where
  "mhi_deassert_dev_wake b override s = s"

section \<open>Entering READY\<close>

definition reg_info :: "'h mhi_controller \<Rightarrow> (u32 \<times> u32) list" where
  "reg_info s = [
     (CCABAP_HIGHER, ucast (drop_bit 32 (chan_ctxt_addr s))), (CCABAP_LOWER, ucast (chan_ctxt_addr s)),
     (ECABAP_HIGHER, ucast (drop_bit 32 (er_ctxt_addr s))), (ECABAP_LOWER, ucast (er_ctxt_addr s)),
     (CRCBAP_HIGHER, ucast (drop_bit 32 (cmd_ctxt_addr s))), (CRCBAP_LOWER, ucast (cmd_ctxt_addr s)),
     (MHICTRLBASE_HIGHER, ucast (drop_bit 32 (ctrl_seg_addr s))), (MHICTRLBASE_LOWER, ucast (ctrl_seg_addr s)),
     (MHIDATABASE_HIGHER, ucast (drop_bit 32 (iova_start s))), (MHIDATABASE_LOWER, ucast (iova_start s)),
     (MHICTRLLIMIT_HIGHER, ucast (drop_bit 32 (ctrl_seg_addr s + ctrl_seg_size s))),
     (MHICTRLLIMIT_LOWER, ucast (ctrl_seg_addr s + ctrl_seg_size s)),
     (MHIDATALIMIT_HIGHER, ucast (drop_bit 32 (iova_stop s))), (MHIDATALIMIT_LOWER, ucast (iova_stop s))]"

definition mhi_init_mmio :: "'h mhi_dev \<Rightarrow> 'h mhi_controller \<Rightarrow> int \<times> 'h mhi_controller" where
  "mhi_init_mmio b s =
     (let base = regs s in
      case mhi_read_reg_field b base CHDBOFF U32_MAX 0 s of
        (None, s) \<Rightarrow> (- EIO, s)
      | (Some val, s) \<Rightarrow>
          let s = s\<lparr>wake_db := base + ucast val + 8 * MHI_DEV_WAKE_DB\<rparr>;
              s = fold (\<lambda>i s. set_chan i ((mhi_chans s ! i)\<lparr>tre_ring := (tre_ring (mhi_chans s ! i))
                     \<lparr>db_addr := base + ucast (val + 8 * of_nat i)\<rparr>\<rparr>) s) [0..<length (mhi_chans s)] s in
          (case mhi_read_reg_field b base ERDBOFF U32_MAX 0 s of
             (None, s) \<Rightarrow> (- EIO, s)
           | (Some val, s) \<Rightarrow>
               let s = fold (\<lambda>i s. if offload_ev (mhi_events s ! i) then s
                     else set_event i ((mhi_events s ! i)\<lparr>ev_ring := (ev_ring (mhi_events s ! i))
                       \<lparr>db_addr := base + ucast (val + 8 * of_nat i)\<rparr>\<rparr>) s) [0..<length (mhi_events s)] s;
                   c = mhi_cmds s ! 0;
                   s = set_cmd (c\<lparr>cmd_ring := (cmd_ring c)\<lparr>db_addr := base + ucast CRDB_LOWER\<rparr>\<rparr>) s in
               (0, fold (\<lambda>(offset, val). mhi_write_reg_field b base offset U32_MAX 0 val) (reg_info s) s)))"

text \<open>All elements of an event ring but the last are given to the device.\<close>

definition fill_ev_ring :: "'h mhi_dev \<Rightarrow> nat \<Rightarrow> 'h mhi_controller \<Rightarrow> 'h mhi_controller" where
  "fill_ev_ring b i s =
     (let e = mhi_events s ! i; r = ev_ring e in
      set_event i (e\<lparr>ev_ring := r\<lparr>ring_wp := ring_base r + ring_len r - el_size r,
                                 ctxt_wp := iommu_base r + ring_len r - el_size r\<rparr>\<rparr>) s)"

text \<open>The condition the wait ends on; a register that cannot be read ends it too.\<close>

definition ready_cond :: "'h mhi_dev \<Rightarrow> u64 \<Rightarrow> u32 \<times> u32 \<Rightarrow> 'h mhi_controller \<Rightarrow> bool \<times> (u32 \<times> u32) \<times> 'h mhi_controller" where
  "ready_cond b base = (\<lambda>(reset, ready) s.
     if MHI_PM_IN_FATAL_STATE (pm_state s) then (True, (reset, ready), s) else
     case mhi_read_reg_field b base MHICTRL MHICTRL_RESET_MASK MHICTRL_RESET_SHIFT s of
       (None, s) \<Rightarrow> (True, (reset, ready), s)
     | (Some reset, s) \<Rightarrow>
         (case mhi_read_reg_field b base MHISTATUS MHISTATUS_READY_MASK MHISTATUS_READY_SHIFT s of
            (None, s) \<Rightarrow> (True, (reset, ready), s)
          | (Some ready, s) \<Rightarrow> (reset = 0 \<and> ready \<noteq> 0, (reset, ready), s)))"

definition mhi_ready_state_transition :: "'h mhi_dev \<Rightarrow> 'h env \<Rightarrow> 'h mhi_controller \<Rightarrow> int \<times> 'h mhi_controller" where
  "mhi_ready_state_transition b env s =
     (let (_, (reset, ready), s) = wait_event_timeout (ready_cond b (regs s)) (env 0) (1, 0) s in
      if MHI_PM_IN_FATAL_STATE (pm_state s) then (- EIO, s)
      else if reset \<noteq> 0 \<or> ready = 0 then (- ETIMEDOUT, s)
      else
        let (cur_state, s) = mhi_tryset_pm_state MHI_PM_POR s; s = s\<lparr>dev_state := MHI_STATE_READY\<rparr> in
        if cur_state \<noteq> MHI_PM_POR then (- EIO, s)
        else
          let s = env 1 s in
          if \<not> MHI_REG_ACCESS_VALID (pm_state s) then (- EIO, s)
          else
            let (ret, s) = mhi_init_mmio b s in
            if ret \<noteq> 0 then (- EIO, s)
            else
              let s = fold (\<lambda>i s. if offload_ev (mhi_events s ! i) \<or> hw_ring (mhi_events s ! i) then s
                    else mhi_ring_er_db b i (fill_ev_ring b i s)) [0..<length (mhi_events s)] s in
              (0, mhi_set_mhi_state b MHI_STATE_M0 s))"

section \<open>M0, M2 and M3\<close>

definition mhi_pm_m0_transition :: "'h mhi_dev \<Rightarrow> 'h env \<Rightarrow> 'h mhi_controller \<Rightarrow> int \<times> 'h mhi_controller" where
  "mhi_pm_m0_transition b env s =
     (let s = s\<lparr>dev_state := MHI_STATE_M0\<rparr>; (cur_state, s) = mhi_tryset_pm_state MHI_PM_M0 s in
      if cur_state \<noteq> MHI_PM_M0 then (- EIO, s)
      else
        let s = env 0 (s\<lparr>M0_count := M0_count s + 1\<rparr>);
            s = mhi_assert_dev_wake b False s;
            s = (if MHI_IN_MISSION_MODE (ee s) then
                   let s = fold (\<lambda>i s. if offload_ev (mhi_events s ! i) then s else mhi_ring_er_db b i s)
                         [0..<length (mhi_events s)] s;
                       r = cmd_ring (mhi_cmds s ! 0) in
                   if ring_rp r \<noteq> ring_wp r then mhi_ring_cmd_db b s else s
                 else s);
            s = fold (\<lambda>i s.
                  let ch = mhi_chans s ! i;
                      ch = (if reset_req (chan_db_cfg ch) then ch\<lparr>chan_db_cfg := (chan_db_cfg ch)\<lparr>db_mode := True\<rparr>\<rparr> else ch);
                      s = set_chan i ch s in
                  if ring_base (tre_ring ch) \<noteq> 0 \<and> ring_wp (tre_ring ch) \<noteq> ring_rp (tre_ring ch) then mhi_ring_chan_db b i s
                  else s) [0..<length (mhi_chans s)] s;
            s = mhi_deassert_dev_wake b False s in
        (0, call wake_up_all s))"

definition mhi_pm_m1_transition :: "'h mhi_dev \<Rightarrow> 'h env \<Rightarrow> 'h mhi_controller \<Rightarrow> 'h mhi_controller" where
  "mhi_pm_m1_transition b env s =
     (let (state, s) = mhi_tryset_pm_state MHI_PM_M2 s in
      if state = MHI_PM_M2 then
        let s = mhi_set_mhi_state b MHI_STATE_M2 s;
            s = s\<lparr>dev_state := MHI_STATE_M2, M2_count := M2_count s + 1\<rparr>;
            s = env 0 (call wake_up_all s) in
        if dev_wake s \<noteq> 0 then mhi_deassert_dev_wake b False (mhi_assert_dev_wake b True s)
        else call (status_cb MHI_CB_IDLE) s
      else s)"

definition mhi_pm_m3_transition :: "'h mhi_controller \<Rightarrow> int \<times> 'h mhi_controller" where
  "mhi_pm_m3_transition s =
     (let s = s\<lparr>dev_state := MHI_STATE_M3\<rparr>; (state, s) = mhi_tryset_pm_state MHI_PM_M3 s in
      if state \<noteq> MHI_PM_M3 then (- EIO, s)
      else let s = call wake_up_all s in (0, s\<lparr>M3_count := M3_count s + 1\<rparr>))"

definition mhi_device_get_sync_cntrl :: "'h mhi_dev \<Rightarrow> 'h env \<Rightarrow> 'h mhi_controller \<Rightarrow> int \<times> 'h mhi_controller" where
  "mhi_device_get_sync_cntrl b env s =
     (let s = mhi_assert_dev_wake b True s;
          s = (if MHI_PM_IN_SUSPEND_STATE (pm_state s) then call runtime_put (call runtime_get s) else s);
          (ret, s) = wait_state (\<lambda>s. pm_state s = MHI_PM_M0 \<or> MHI_PM_IN_ERROR_STATE (pm_state s)) (env 0) s in
      if \<not> ret \<or> MHI_PM_IN_ERROR_STATE (pm_state s) then (- EIO, mhi_deassert_dev_wake b False s) else (0, s))"

definition mhi_pm_mission_mode_transition :: "'h mhi_dev \<Rightarrow> 'h env \<Rightarrow> 'h mhi_controller \<Rightarrow> int \<times> 'h mhi_controller" where
  "mhi_pm_mission_mode_transition b env s =
     (let s = call (status_cb MHI_CB_EE_MISSION_MODE) s; (ret, s) = mhi_device_get_sync_cntrl b env s in
      if ret \<noteq> 0 then (ret, s)
      else
        let s = env 1 s;
            s = (if MHI_REG_ACCESS_VALID (pm_state s) then let (e, s) = mhi_get_exec_env b s in s\<lparr>ee := e\<rparr> else s);
            s = env 2 s in
        if \<not> MHI_IN_MISSION_MODE (ee s) then (- EIO, mhi_deassert_dev_wake b False s)
        else
          let s = call wake_up_all s in
          if MHI_PM_IN_ERROR_STATE (pm_state s) then (- EIO, mhi_deassert_dev_wake b False s)
          else
            let s = fold (\<lambda>i s. if offload_ev (mhi_events s ! i) \<or> \<not> hw_ring (mhi_events s ! i) then s
                    else let s = fill_ev_ring b i s in
                         if MHI_DB_ACCESS_VALID (pm_state s) then mhi_ring_er_db b i s else s) [0..<length (mhi_events s)] s;
                s = env 3 (call mhi_create_devices s) in
            (0, mhi_deassert_dev_wake b False s))"

section \<open>System errors and shutdown\<close>

definition reset_cond :: "'h mhi_dev \<Rightarrow> u32 \<Rightarrow> 'h mhi_controller \<Rightarrow> bool \<times> u32 \<times> 'h mhi_controller" where
  "reset_cond b in_reset s =
     (case mhi_read_reg_field b (regs s) MHICTRL MHICTRL_RESET_MASK MHICTRL_RESET_SHIFT s of
        (None, s) \<Rightarrow> (True, in_reset, s)
      | (Some in_reset, s) \<Rightarrow> (in_reset = 0, in_reset, s))"

text \<open>The reset of the device; the first component says that it failed and the transition is given up.\<close>

definition trigger_reset :: "'h mhi_dev \<Rightarrow> 'h env \<Rightarrow> u32 \<Rightarrow> 'h mhi_controller \<Rightarrow> bool \<times> 'h mhi_controller" where
  "trigger_reset b env cur_state s =
     (let s = mhi_set_mhi_state b MHI_STATE_RESET s;
          (ret, in_reset, s) = wait_event_timeout (reset_cond b) (env 0) 0xFFFFFFFF s in
      if (\<not> ret \<or> in_reset \<noteq> 0) \<and> cur_state = MHI_PM_SYS_ERR_PROCESS then (True, s)
      else
        let s = mhi_write_reg_field b (regs s) MHICFG MHICFG_NER_MASK MHICFG_NER_SHIFT NUM_MHI_EVT_RINGS s;
            s = mhi_write_reg_field b (regs s) MHICFG MHICFG_NHWER_MASK MHICFG_NHWER_SHIFT NUM_MHI_HW_EVT_RINGS s in
        (False, mhi_write_reg b (bhi s) BHI_INTVEC (msi_irq_base s) s))"

definition reset_ring :: "mhi_ring \<Rightarrow> mhi_ring" where
  "reset_ring r = r\<lparr>ring_rp := ring_base r, ring_wp := ring_base r, ctxt_rp := ctxt_rbase r, ctxt_wp := ctxt_rbase r\<rparr>"

definition reset_rings :: "'h mhi_controller \<Rightarrow> 'h mhi_controller" where
  "reset_rings s =
     s\<lparr>mhi_cmds := map (\<lambda>c. c\<lparr>cmd_ring := reset_ring (cmd_ring c)\<rparr>) (mhi_cmds s),
       mhi_events := map (\<lambda>e. if offload_ev e then e else e\<lparr>ev_ring := reset_ring (ev_ring e)\<rparr>) (mhi_events s)\<rparr>"

definition mhi_pm_disable_transition :: "'h mhi_dev \<Rightarrow> 'h env \<Rightarrow> u32 \<Rightarrow> 'h mhi_controller \<Rightarrow> 'h mhi_controller" where
  "mhi_pm_disable_transition b env transition_state s =
     (let s = (if transition_state = MHI_PM_SYS_ERR_PROCESS then call (status_cb MHI_CB_SYS_ERROR) s else s);
          prev_state = pm_state s;
          (cur_state, s) = mhi_tryset_pm_state transition_state s;
          s = (if cur_state = transition_state then s\<lparr>ee := MHI_EE_DISABLE_TRANSITION, dev_state := MHI_STATE_RESET\<rparr> else s);
          s = call wake_up_all s in
      if cur_state \<noteq> transition_state then s
      else
        let (failed, s) = (if MHI_REG_ACCESS_VALID prev_state then trigger_reset b env cur_state s else (False, s)) in
        if failed then s
        else
          let s = fold (\<lambda>i s. if offload_ev (mhi_events s ! i) then s else call (tasklet_kill i) s) [0..<length (mhi_events s)] s;
              s = env 1 (call mhi_destroy_devices s);
              s = env 2 (call wake_up_all s);
              s = reset_rings s in
          if cur_state = MHI_PM_SYS_ERR_PROCESS then
            let (e, s) = mhi_get_exec_env b s;
                (d, s) = (if e = MHI_EE_EDL then mhi_get_mhi_state b s else (MHI_STATE_MAX, s)) in
            if e = MHI_EE_EDL \<and> d = MHI_STATE_RESET then snd (mhi_tryset_pm_state MHI_PM_POR (s\<lparr>ee := MHI_EE_EDL\<rparr>))
            else snd (mhi_ready_state_transition b (\<lambda>k. env (3 + k)) s)
          else snd (mhi_tryset_pm_state MHI_PM_DISABLE s))"

definition mhi_debugfs_trigger_reset :: "'h env \<Rightarrow> 'h mhi_controller \<Rightarrow> int \<times> 'h mhi_controller" where
  "mhi_debugfs_trigger_reset env s =
     (let s = call runtime_put (call runtime_get s);
          (ret, s) = wait_state (\<lambda>s. dev_state s = MHI_STATE_M0 \<or> MHI_PM_IN_ERROR_STATE (pm_state s)) (env 0) s in
      if \<not> ret \<or> MHI_PM_IN_ERROR_STATE (pm_state s) then (- EIO, s)
      else
        let (cur_state, s) = mhi_tryset_pm_state MHI_PM_SYS_ERR_DETECT s in
        (0, if cur_state = MHI_PM_SYS_ERR_DETECT then call schedule_syserr_worker s else s))"

text \<open>\<open>mem\<close> is whether the allocation of the work item succeeds.\<close>

definition mhi_queue_state_transition :: "bool \<Rightarrow> MHI_ST_TRANSITION \<Rightarrow> 'h mhi_controller \<Rightarrow> int \<times> 'h mhi_controller" where
  "mhi_queue_state_transition mem state s =
     (if \<not> mem then (- ENOMEM, s)
      else (0, call schedule_st_worker (s\<lparr>transition_list := transition_list s @ [state]\<rparr>)))"

definition mhi_pm_sys_err_worker :: "'h mhi_dev \<Rightarrow> 'h env \<Rightarrow> 'h mhi_controller \<Rightarrow> 'h mhi_controller" where
  "mhi_pm_sys_err_worker b env s = mhi_pm_disable_transition b env MHI_PM_SYS_ERR_PROCESS s"

definition mhi_pm_ready_worker :: "'h mhi_dev \<Rightarrow> bool \<Rightarrow> 'h mhi_controller \<Rightarrow> 'h mhi_controller" where
  "mhi_pm_ready_worker b mem s =
     (if dev_state s \<noteq> MHI_STATE_RESET then s
      else
        let (e, s) = (if MHI_REG_ACCESS_VALID (pm_state s) then mhi_get_exec_env b s else (MHI_EE_MAX, s)) in
        if e = MHI_EE_PTHRU then call schedule_ready_worker s
        else if e = MHI_EE_AMSS \<or> e = MHI_EE_SBL then snd (mhi_queue_state_transition mem MHI_ST_TRANSITION_READY s)
        else if e = MHI_EE_EDL then snd (mhi_queue_state_transition mem MHI_ST_TRANSITION_PBL s)
        else s)"

definition st_worker_step :: "'h mhi_dev \<Rightarrow> 'h env \<Rightarrow> MHI_ST_TRANSITION \<Rightarrow> 'h mhi_controller \<Rightarrow> 'h mhi_controller" where
  "st_worker_step b env state s =
     (let s = snd (mhi_get_exec_env b s) in
      case state of
        MHI_ST_TRANSITION_PBL \<Rightarrow>
          let s = (if MHI_REG_ACCESS_VALID (pm_state s) then let (e, s) = mhi_get_exec_env b s in s\<lparr>ee := e\<rparr> else s) in
          if MHI_IN_PBL (ee s) then call wake_up_all s else s
      | MHI_ST_TRANSITION_SBL \<Rightarrow> call mhi_create_devices (call wake_up_all (s\<lparr>ee := MHI_EE_SBL\<rparr>))
      | MHI_ST_TRANSITION_MISSION_MODE \<Rightarrow> snd (mhi_pm_mission_mode_transition b env s)
      | MHI_ST_TRANSITION_READY \<Rightarrow> snd (mhi_ready_state_transition b env s)
      | MHI_ST_TRANSITION_FP \<Rightarrow> call mhi_create_devices (call wake_up_all (s\<lparr>ee := MHI_EE_FP\<rparr>)))"

text \<open>The list is taken as a whole first; \<open>env i\<close> is the environment of the step for its \<open>i\<close>-th entry.\<close>

definition mhi_pm_st_worker :: "'h mhi_dev \<Rightarrow> (nat \<Rightarrow> 'h env) \<Rightarrow> 'h mhi_controller \<Rightarrow> 'h mhi_controller" where
  "mhi_pm_st_worker b env s =
     (let head = transition_list s in
      fold (\<lambda>(i, state). st_worker_step b (env i) state) (zip [0..<length head] head) (s\<lparr>transition_list := []\<rparr>))"

section \<open>Interrupt\<close>

definition mhi_intvec_threaded_handlr :: "'h mhi_dev \<Rightarrow> 'h env \<Rightarrow> 'h mhi_controller \<Rightarrow> 'h mhi_controller" where
  "mhi_intvec_threaded_handlr b env s =
     (let (state, e, s) = (if MHI_REG_ACCESS_VALID (pm_state s) then
             let (state, s) = mhi_get_mhi_state b s; (e, s) = mhi_get_exec_env b s in (state, e, s)
           else (MHI_STATE_MAX, MHI_EE_MAX, s));
          (pm, s) = (if state = MHI_STATE_SYS_ERR \<and> pm_state s \<noteq> MHI_PM_SYS_ERR_DETECT
                     then mhi_tryset_pm_state MHI_PM_SYS_ERR_DETECT s else (0, s));
          s = env 0 s in
      if pm = MHI_PM_SYS_ERR_DETECT then
        let s = call wake_up_all s in
        if ee s \<noteq> e then call schedule_syserr_worker s
        else if MHI_IN_PBL e then call (status_cb MHI_CB_FATAL_ERROR) s
        else call schedule_syserr_worker s
      else if pm = MHI_PM_POR then call wake_up_all s
      else s)"

section \<open>Power up and down\<close>

text \<open>
  \<open>junk\<close> is the local variable \<open>regVal\<close> before its first use; \<open>dev_ctxt\<close> and \<open>irq_setup\<close> are the results of
  \<open>mhi_init_dev_ctxt\<close> and \<open>mhi_init_irq_setup\<close>, which only allocate.
\<close>

definition read_bhi_offsets :: "'h mhi_dev \<Rightarrow> 'h mhi_controller \<Rightarrow> bool \<times> 'h mhi_controller" where
  "read_bhi_offsets b s =
     (case mhi_read_reg b (regs s) BHIOFF s of
        (None, s) \<Rightarrow> (False, s)
      | (Some val, s) \<Rightarrow>
          let s = s\<lparr>bhi := regs s + ucast val\<rparr> in
          (case mhi_read_reg b (regs s) BHIEOFF s of
             (None, s) \<Rightarrow> (False, s)
           | (Some val, s) \<Rightarrow> (True, s\<lparr>bhie := regs s + ucast val\<rparr>)))"

definition mhi_async_power_up :: "'h mhi_dev \<Rightarrow> u32 \<Rightarrow> int \<Rightarrow> int \<Rightarrow> bool \<Rightarrow> 'h mhi_controller \<Rightarrow> int \<times> 'h mhi_controller" where
  "mhi_async_power_up b junk dev_ctxt irq_setup mem s =
     (let (d, s) = mhi_get_mhi_state b s;
          s = (if MHI_STATE_M0 \<le> d then mhi_set_mhi_state b MHI_STATE_RESET s else s);
          (r, s) = mhi_read_reg b (regs s) MHICFG s;
          val = (case r of Some v \<Rightarrow> v | None \<Rightarrow> junk);
          val = (val AND NOT MHICFG_NER_MASK) OR push_bit MHICFG_NER_SHIFT NUM_MHI_EVT_RINGS;
          val = (val AND NOT MHICFG_NHWER_MASK) OR push_bit MHICFG_NHWER_SHIFT NUM_MHI_HW_EVT_RINGS;
          s = mhi_write_reg b (regs s) MHICFG val s;
          s = s\<lparr>pm_state := MHI_PM_DISABLE, dev_state := MHI_STATE_RESET\<rparr> in
      if \<not> pre_init s \<and> dev_ctxt \<noteq> 0 then (dev_ctxt, s)
      else if \<not> pre_init s \<and> irq_setup \<noteq> 0 then (irq_setup, s)
      else
        let (found, s) = read_bhi_offsets b s in
        if \<not> found then (- EIO, s)
        else
          let s = mhi_write_reg b (bhi s) BHI_INTVEC (msi_irq_base s) s;
              s = s\<lparr>pm_state := MHI_PM_POR, ee := MHI_EE_MAX\<rparr>;
              (current_ee, s) = mhi_get_exec_env b s in
          (0, if MHI_IN_PBL current_ee then call schedule_ready_worker s
              else snd (mhi_queue_state_transition mem MHI_ST_TRANSITION_READY s)))"

definition mhi_power_down :: "'h mhi_dev \<Rightarrow> 'h env \<Rightarrow> bool \<Rightarrow> 'h mhi_controller \<Rightarrow> 'h mhi_controller" where
  "mhi_power_down b env graceful s =
     (let s = (if graceful then s else env 0 (snd (mhi_tryset_pm_state MHI_PM_LD_ERR_FATAL_DETECT s))) in
      mhi_pm_disable_transition b (\<lambda>k. env (1 + k)) MHI_PM_SHUTDOWN_PROCESS s)"

definition mhi_sync_power_up :: "'h mhi_dev \<Rightarrow> 'h env \<Rightarrow> u32 \<Rightarrow> int \<Rightarrow> int \<Rightarrow> bool \<Rightarrow> 'h mhi_controller \<Rightarrow> int \<times> 'h mhi_controller" where
  "mhi_sync_power_up b env junk dev_ctxt irq_setup mem s =
     (let (ret, s) = mhi_async_power_up b junk dev_ctxt irq_setup mem s in
      if ret \<noteq> 0 then (ret, s)
      else let (_, s) = wait_state (\<lambda>s. MHI_IN_MISSION_MODE (ee s) \<or> MHI_PM_IN_ERROR_STATE (pm_state s)) (env 0) s in
           (if MHI_IN_MISSION_MODE (ee s) then 0 else - EIO, s))"

section \<open>Suspend and resume\<close>

text \<open>\<open>lpm\<close> is the number of channels in \<open>lpm_chans\<close> that have a device.\<close>

definition mhi_pm_suspend :: "'h mhi_dev \<Rightarrow> 'h env \<Rightarrow> nat \<Rightarrow> 'h mhi_controller \<Rightarrow> int \<times> 'h mhi_controller" where
  "mhi_pm_suspend b env lpm s =
     (if pm_state s = MHI_PM_DISABLE then (- EINVAL, s)
      else if MHI_PM_IN_ERROR_STATE (pm_state s) then (- EIO, s)
      else if dev_wake s \<noteq> 0 then (- EBUSY, s)
      else
        let s = mhi_assert_dev_wake b False s;
            (ret, s) = wait_state (\<lambda>s. dev_state s = MHI_STATE_M0 \<or> dev_state s = MHI_STATE_M1 \<or>
                         MHI_PM_IN_ERROR_STATE (pm_state s)) (env 0) s in
        if \<not> ret \<or> MHI_PM_IN_ERROR_STATE (pm_state s) then (- EIO, mhi_deassert_dev_wake b False s)
        else if dev_wake s > 1 then (- EBUSY, mhi_deassert_dev_wake b False s)
        else
          let (new_state, s) = mhi_tryset_pm_state MHI_PM_M3_ENTER s in
          if new_state \<noteq> MHI_PM_M3_ENTER then (- EIO, mhi_deassert_dev_wake b False s)
          else
            let s = mhi_deassert_dev_wake b False (mhi_set_mhi_state b MHI_STATE_M3 s);
                (ret, s) = wait_state (\<lambda>s. dev_state s = MHI_STATE_M3 \<or> MHI_PM_IN_ERROR_STATE (pm_state s)) (env 1) s in
            if \<not> ret \<or> MHI_PM_IN_ERROR_STATE (pm_state s) then (- EIO, s)
            else (0, (call (mhi_notify MHI_CB_LPM_ENTER) ^^ lpm) s))"

text \<open>
  A failed \<open>MHI_ASSERT\<close> panics in a kernel built with \<open>CONFIG_MHI_DEBUG\<close> and otherwise prints a warning and goes
  on; the latter is followed. That the state is M3 on a resume is such a check, and its failure is recorded. The other
  uses of the macro (a freed or reused entry of a DMA channel, a bad descriptor, a command out of order, a wake count
  that is not as expected) print, and are left out like other prints.
\<close>

definition mhi_pm_resume :: "'h mhi_dev \<Rightarrow> 'h env \<Rightarrow> nat \<Rightarrow> 'h mhi_controller \<Rightarrow> int \<times> 'h mhi_controller" where
  "mhi_pm_resume b env lpm s =
     (if pm_state s = MHI_PM_DISABLE then (0, s)
      else if MHI_PM_IN_ERROR_STATE (pm_state s) then (- EIO, s)
      else
        let s = (if pm_state s \<noteq> MHI_PM_M3 then call assert_failed s else s);
            s = env 0 ((call (mhi_notify MHI_CB_LPM_EXIT) ^^ lpm) s);
            (cur_state, s) = mhi_tryset_pm_state MHI_PM_M3_EXIT s in
        if cur_state \<noteq> MHI_PM_M3_EXIT then (- EIO, s)
        else
          let s = mhi_assert_dev_wake b True s;
              s = mhi_set_mhi_state b MHI_STATE_M0 s;
              (ret, s) = wait_state (\<lambda>s. dev_state s = MHI_STATE_M0 \<or> MHI_PM_IN_ERROR_STATE (pm_state s)) (env 1) s;
              s = mhi_deassert_dev_wake b False s in
          if \<not> ret \<or> MHI_PM_IN_ERROR_STATE (pm_state s) then (- EIO, mhi_intvec_threaded_handlr b (\<lambda>k. env (2 + k)) s)
          else (0, s))"

text \<open>The client's own counter comes first in the results of the next three.\<close>

definition mhi_device_get :: "'h mhi_dev \<Rightarrow> int \<Rightarrow> 'h mhi_controller \<Rightarrow> int \<times> 'h mhi_controller" where
  "mhi_device_get b wake s = (wake + 1, mhi_assert_dev_wake b True s)"

definition mhi_device_get_sync :: "'h mhi_dev \<Rightarrow> 'h env \<Rightarrow> int \<Rightarrow> 'h mhi_controller \<Rightarrow> int \<times> int \<times> 'h mhi_controller" where
  "mhi_device_get_sync b env wake s =
     (let (ret, s) = mhi_device_get_sync_cntrl b env s in (if ret = 0 then wake + 1 else wake, ret, s))"

definition mhi_device_put :: "'h mhi_dev \<Rightarrow> int \<Rightarrow> 'h mhi_controller \<Rightarrow> int \<times> 'h mhi_controller" where
  "mhi_device_put b wake s = (wake - 1, mhi_deassert_dev_wake b False s)"

definition mhi_force_rddm_mode :: "'h mhi_dev \<Rightarrow> 'h env \<Rightarrow> 'h mhi_controller \<Rightarrow> int \<times> 'h mhi_controller" where
  "mhi_force_rddm_mode b env s =
     (let s = mhi_set_mhi_state b MHI_STATE_SYS_ERR s;
          (ret, s) = wait_state (\<lambda>s. ee s = MHI_EE_RDDM) (env 0) s in
      (if ret then 0 else - EIO, s))"

end
