(* ===== verification/MhiPmProps.thy ===== *)
theory MhiPmProps
  imports MhiPm
begin

text \<open>
  The power states of the Modem Host Interface: the transitions that the comment in \<^verbatim>\<open>mhi_pm.c\<close> promises as an
  inductive relation, that the table implements it, and that every operation keeps to it whatever the other
  threads do.
\<close>

section \<open>The documented transitions\<close>

definition pm_states :: "u32 list" where
  "pm_states = [MHI_PM_DISABLE, MHI_PM_POR, MHI_PM_M0, MHI_PM_M2, MHI_PM_M3_ENTER, MHI_PM_M3, MHI_PM_M3_EXIT, MHI_PM_FW_DL_ERR,
     MHI_PM_SYS_ERR_DETECT, MHI_PM_SYS_ERR_PROCESS, MHI_PM_SHUTDOWN_PROCESS, MHI_PM_LD_ERR_FATAL_DETECT]"

text \<open>The level of a state: errors have priority over work, shutdown over errors, a dead link over all.\<close>

definition pm_level :: "u32 \<Rightarrow> nat" where
  "pm_level pm = (if pm = MHI_PM_LD_ERR_FATAL_DETECT then 3 else if pm = MHI_PM_SHUTDOWN_PROCESS then 2
     else if pm = MHI_PM_SYS_ERR_DETECT \<or> pm = MHI_PM_SYS_ERR_PROCESS then 1 else 0)"

definition pm_active :: "u32 \<Rightarrow> bool" where
  "pm_active pm \<longleftrightarrow> pm \<in> set pm_states \<and> pm \<noteq> MHI_PM_DISABLE"

inductive pm_step :: "u32 \<Rightarrow> u32 \<Rightarrow> bool" where
  disable_por: "pm_step MHI_PM_DISABLE MHI_PM_POR"
| por_disable: "pm_step MHI_PM_POR MHI_PM_DISABLE"
| por_por: "pm_step MHI_PM_POR MHI_PM_POR"
| por_m0: "pm_step MHI_PM_POR MHI_PM_M0"
| m0_m2: "pm_step MHI_PM_M0 MHI_PM_M2"
| m2_m0: "pm_step MHI_PM_M2 MHI_PM_M0"
| m0_m3_enter: "pm_step MHI_PM_M0 MHI_PM_M3_ENTER"
| m3_enter_m3: "pm_step MHI_PM_M3_ENTER MHI_PM_M3"
| m3_m3_exit: "pm_step MHI_PM_M3 MHI_PM_M3_EXIT"
| m3_exit_m0: "pm_step MHI_PM_M3_EXIT MHI_PM_M0"
| fw_dl_err: "pm \<in> {MHI_PM_POR, MHI_PM_M0, MHI_PM_FW_DL_ERR} \<Longrightarrow> pm_step pm MHI_PM_FW_DL_ERR"
| sys_err: "pm_active pm \<Longrightarrow> pm_level pm = 0 \<Longrightarrow> pm_step pm MHI_PM_SYS_ERR_DETECT"
| sys_err_process: "pm_step MHI_PM_SYS_ERR_DETECT MHI_PM_SYS_ERR_PROCESS"
| recovered: "pm_step MHI_PM_SYS_ERR_PROCESS MHI_PM_POR"
| shutdown: "pm_active pm \<Longrightarrow> pm_level pm \<noteq> 2 \<Longrightarrow> pm_step pm MHI_PM_SHUTDOWN_PROCESS"
| disabled: "pm_step MHI_PM_SHUTDOWN_PROCESS MHI_PM_DISABLE"
| fatal: "pm_active pm \<Longrightarrow> pm_step pm MHI_PM_LD_ERR_FATAL_DETECT"

inductive_cases shutdown_stepE: "pm_step MHI_PM_SHUTDOWN_PROCESS pm"
inductive_cases fatal_stepE: "pm_step MHI_PM_LD_ERR_FATAL_DETECT pm"

abbreviation pm_reach :: "u32 \<Rightarrow> u32 \<Rightarrow> bool" where
  "pm_reach \<equiv> pm_step\<^sup>*\<^sup>*"

lemma table_indices: "\<forall>pm \<in> set pm_states. find_last_bit pm < 12 \<and> fst (mhi_state_transitions ! find_last_bit pm) = pm"
  by code_simp

lemma table_steps:
  "\<forall>pm \<in> set pm_states. \<forall>pm' \<in> set pm_states. (snd (mhi_state_transitions ! find_last_bit pm) AND pm' \<noteq> 0) = pm_step pm pm'"
proof -
  have idx: "map find_last_bit pm_states = [0..<12]" by code_simp
  show ?thesis
    using idx by (simp add: pm_states_def mhi_state_transitions_def pm_step.simps pm_active_def pm_level_def upt_rec)
qed

lemma table_length: "length mhi_state_transitions = 12"
  by (simp add: mhi_state_transitions_def)

lemma tryset_step:
  assumes "pm_state s \<in> set pm_states" "pm \<in> set pm_states"
  shows "mhi_tryset_pm_state pm s = (if pm_step (pm_state s) pm then (pm, s\<lparr>pm_state := pm\<rparr>) else (pm_state s, s))"
  using assms table_indices table_steps by (auto simp: mhi_tryset_pm_state_def Let_def table_length)

lemma pm_step_states: "pm_step pm pm' \<Longrightarrow> pm' \<in> set pm_states"
  by (induction rule: pm_step.induct) (auto simp: pm_states_def pm_active_def)

lemma pm_reach_states: "pm_reach pm pm' \<Longrightarrow> pm \<in> set pm_states \<Longrightarrow> pm' \<in> set pm_states"
  by (induction rule: rtranclp_induct) (auto dest: pm_step_states)

section \<open>What leaves the power state alone\<close>

named_theorems pm_kept \<open>operations that leave the power state and the wake count alone\<close>

lemma call_pm [pm_kept]: "pm_state (call c s) = pm_state s" "dev_wake (call c s) = dev_wake s"
  by (simp_all add: call_def)

lemma set_pm [pm_kept]:
  "pm_state (set_event i e s) = pm_state s" "pm_state (set_cmd c s) = pm_state s" "pm_state (set_chan i ch s) = pm_state s"
  "dev_wake (set_event i e s) = dev_wake s" "dev_wake (set_cmd c s) = dev_wake s" "dev_wake (set_chan i ch s) = dev_wake s"
  by (simp_all add: set_event_def set_cmd_def set_chan_def)

lemma read_pm [pm_kept]:
  "pm_state (snd (mhi_read_reg b base off s)) = pm_state s" "dev_wake (snd (mhi_read_reg b base off s)) = dev_wake s"
  by (simp_all add: mhi_read_reg_def Let_def split: prod.splits)

lemma read_pmD: "mhi_read_reg b base off s = (r, s') \<Longrightarrow> pm_state s' = pm_state s \<and> dev_wake s' = dev_wake s"
  using read_pm [of b base off s] by simp

lemma read_field_pmD: "mhi_read_reg_field b base off m k s = (r, s') \<Longrightarrow> pm_state s' = pm_state s \<and> dev_wake s' = dev_wake s"
  by (auto simp: mhi_read_reg_field_def split: prod.splits option.splits dest: read_pmD)

lemma write_pm [pm_kept]:
  "pm_state (mhi_write_reg b base off v s) = pm_state s" "dev_wake (mhi_write_reg b base off v s) = dev_wake s"
  by (simp_all add: mhi_write_reg_def)

lemma write_field_pm [pm_kept]:
  "pm_state (mhi_write_reg_field b base off m k v s) = pm_state s" "dev_wake (mhi_write_reg_field b base off m k v s) = dev_wake s"
  by (auto simp: mhi_write_reg_field_def pm_kept split: prod.splits option.splits dest: read_pmD)

lemma write_db_pm [pm_kept]: "pm_state (mhi_write_db b a wp s) = pm_state s" "dev_wake (mhi_write_db b a wp s) = dev_wake s"
  by (simp_all add: mhi_write_db_def pm_kept)

lemma process_db_pmD: "process_db b c a wp s = (c', s') \<Longrightarrow> pm_state s' = pm_state s \<and> dev_wake s' = dev_wake s"
  by (auto simp: process_db_def mhi_db_brstmode_def mhi_db_brstmode_disable_def pm_kept split: if_splits)

lemma doorbells_pm [pm_kept]:
  "pm_state (mhi_ring_er_db b i s) = pm_state s" "pm_state (mhi_ring_cmd_db b s) = pm_state s" "pm_state (mhi_ring_chan_db b i s) = pm_state s"
  "dev_wake (mhi_ring_er_db b i s) = dev_wake s" "dev_wake (mhi_ring_cmd_db b s) = dev_wake s" "dev_wake (mhi_ring_chan_db b i s) = dev_wake s"
  by (auto simp: mhi_ring_er_db_def mhi_ring_cmd_db_def mhi_ring_chan_db_def Let_def pm_kept split: prod.splits dest: process_db_pmD)

lemma wake_pm [pm_kept]:
  "pm_state (mhi_assert_dev_wake b f s) = pm_state s" "pm_state (mhi_deassert_dev_wake b f s) = pm_state s"
  "dev_wake (mhi_assert_dev_wake b f s) = dev_wake s" "dev_wake (mhi_deassert_dev_wake b f s) = dev_wake s"
  by (simp_all add: mhi_assert_dev_wake_def mhi_deassert_dev_wake_def pm_kept)

lemma set_mhi_state_pm [pm_kept]: "pm_state (mhi_set_mhi_state b d s) = pm_state s" "dev_wake (mhi_set_mhi_state b d s) = dev_wake s"
  by (simp_all add: mhi_set_mhi_state_def pm_kept)

lemma exec_env_pmD: "mhi_get_exec_env b s = (e, s') \<Longrightarrow> pm_state s' = pm_state s \<and> dev_wake s' = dev_wake s"
  by (auto simp: mhi_get_exec_env_def split: prod.splits option.splits dest: read_pmD)

lemma mhi_state_pmD: "mhi_get_mhi_state b s = (e, s') \<Longrightarrow> pm_state s' = pm_state s \<and> dev_wake s' = dev_wake s"
  by (auto simp: mhi_get_mhi_state_def split: prod.splits option.splits dest: read_field_pmD)

lemma device_reads_pm [pm_kept]:
  "pm_state (snd (mhi_get_exec_env b s)) = pm_state s" "dev_wake (snd (mhi_get_exec_env b s)) = dev_wake s"
  "pm_state (snd (mhi_get_mhi_state b s)) = pm_state s" "dev_wake (snd (mhi_get_mhi_state b s)) = dev_wake s"
  using exec_env_pmD [of b s] mhi_state_pmD [of b s] by (simp_all add: prod_eq_iff)

lemma fold_pm: "(\<And>i s. pm_state (f i s) = pm_state s) \<Longrightarrow> pm_state (fold f is s) = pm_state s"
  by (induction "is" arbitrary: s) simp_all

lemma fold_wake: "(\<And>i s. dev_wake (f i s) = dev_wake s) \<Longrightarrow> dev_wake (fold f is s) = dev_wake s"
  by (induction "is" arbitrary: s) simp_all

lemma fill_ev_ring_pm [pm_kept]: "pm_state (fill_ev_ring b i s) = pm_state s" "dev_wake (fill_ev_ring b i s) = dev_wake s"
  by (simp_all add: fill_ev_ring_def Let_def pm_kept)

lemma reset_rings_pm [pm_kept]: "pm_state (reset_rings s) = pm_state s" "dev_wake (reset_rings s) = dev_wake s"
  by (simp_all add: reset_rings_def)

lemma calls_pm [pm_kept]: "pm_state ((call c ^^ n) s) = pm_state s" "dev_wake ((call c ^^ n) s) = dev_wake s"
  by (induction n) (simp_all add: pm_kept)

lemma queue_transition_pm [pm_kept]:
  "pm_state (snd (mhi_queue_state_transition mem t s)) = pm_state s" "dev_wake (snd (mhi_queue_state_transition mem t s)) = dev_wake s"
  by (simp_all add: mhi_queue_state_transition_def pm_kept)

lemma init_mmio_pmD: "mhi_init_mmio b s = (r, s') \<Longrightarrow> pm_state s' = pm_state s \<and> dev_wake s' = dev_wake s"
  by (auto simp: mhi_init_mmio_def Let_def pm_kept fold_pm fold_wake split: prod.splits option.splits dest!: read_field_pmD)

section \<open>What moves it\<close>

text \<open>\<open>moves s s'\<close>: from \<open>s\<close> to \<open>s'\<close> the power state takes documented transitions only.\<close>

definition moves :: "'h mhi_controller \<Rightarrow> 'h mhi_controller \<Rightarrow> bool" where
  "moves s s' \<longleftrightarrow> (pm_state s \<in> set pm_states \<longrightarrow> pm_reach (pm_state s) (pm_state s'))"

definition env_moves :: "'h env \<Rightarrow> bool" where
  "env_moves env \<longleftrightarrow> (\<forall>k s. moves s (env k s))"

lemma moves_same: "pm_state s' = pm_state s \<Longrightarrow> moves s s'"
  by (simp add: moves_def)

lemma moves_trans [trans]: "moves s s' \<Longrightarrow> moves s' s'' \<Longrightarrow> moves s s''"
  unfolding moves_def using pm_reach_states by (meson rtranclp_trans)

lemma moves_left: "pm_state t = pm_state s \<Longrightarrow> moves t s' = moves s s'"
  by (simp add: moves_def)

lemma moves_right: "pm_state t = pm_state s' \<Longrightarrow> moves s t = moves s s'"
  by (simp add: moves_def)

lemma moves_tryset: "mhi_tryset_pm_state pm s = (r, s') \<Longrightarrow> pm \<in> set pm_states \<Longrightarrow> moves s s'"
  unfolding moves_def by (auto simp: tryset_step split: if_splits)

text \<open>Rules that follow the shape of an operation, for operations with and without a result.\<close>

named_theorems moves_rules \<open>one rule per construct of an operation\<close>

lemma moves_let [moves_rules]:
  "moves s x \<Longrightarrow> (\<And>t. moves t (snd (F t))) \<Longrightarrow> moves s (snd (Let x F))"
  "moves s x \<Longrightarrow> (\<And>t. moves t (G t)) \<Longrightarrow> moves s (Let x G)"
  by (auto simp: Let_def intro: moves_trans)

lemma moves_let_value:
  "(\<And>v. moves s (snd (F v))) \<Longrightarrow> moves s (snd (let v = x in F v))"
  "(\<And>v. moves s (G v)) \<Longrightarrow> moves s (let v = x in G v)"
  by (simp_all add: Let_def)

lemmas moves_let_values [moves_rules] =
  moves_let_value [where 'a = u32] moves_let_value [where 'a = u64] moves_let_value [where 'a = mhi_ring]
  moves_let_value [where 'a = mhi_chan] moves_let_value [where 'a = "MHI_ST_TRANSITION list"]

lemma moves_let_pair [moves_rules]:
  "moves s (snd (case x of (a, y) \<Rightarrow> F a y)) \<Longrightarrow> moves s (snd (let (a, y) = x in F a y))"
  "moves s (case x of (a, y) \<Rightarrow> G a y) \<Longrightarrow> moves s (let (a, y) = x in G a y)"
  by (simp_all add: Let_def)

lemma moves_split [moves_rules]:
  "(\<And>x y. moves s (snd (F x y t))) \<Longrightarrow> moves s (snd ((case c of (x, y) \<Rightarrow> F x y) t))"
  "(\<And>x y. moves s (G x y t)) \<Longrightarrow> moves s ((case c of (x, y) \<Rightarrow> G x y) t)"
  by (cases c; simp)+

lemma moves_case [moves_rules]:
  "moves s (snd X) \<Longrightarrow> (\<And>a t. moves t (snd (F a t))) \<Longrightarrow> moves s (snd (case X of (a, t) \<Rightarrow> F a t))"
  "moves s (snd X) \<Longrightarrow> (\<And>a t. moves t (G a t)) \<Longrightarrow> moves s (case X of (a, t) \<Rightarrow> G a t)"
  by (cases X, auto intro: moves_trans)+

lemma moves_if [moves_rules]:
  "moves s (snd A) \<Longrightarrow> moves s (snd B) \<Longrightarrow> moves s (snd (if c then A else B))"
  "moves s C \<Longrightarrow> moves s D \<Longrightarrow> moves s (if c then C else D)"
  by simp_all

lemma moves_option [moves_rules]:
  "moves s (snd A) \<Longrightarrow> (\<And>v. moves s (snd (B v))) \<Longrightarrow> moves s (snd (case x of None \<Rightarrow> A | Some v \<Rightarrow> B v))"
  "moves s C \<Longrightarrow> (\<And>v. moves s (D v)) \<Longrightarrow> moves s (case x of None \<Rightarrow> C | Some v \<Rightarrow> D v)"
  by (cases x; simp)+

lemma moves_pair [moves_rules]: "moves s t \<Longrightarrow> moves s (snd (r, t))"
  by simp

lemma moves_refl [moves_rules]: "moves s s"
  by (simp add: moves_def)

lemma moves_after [moves_rules]:
  "moves s t \<Longrightarrow> moves s (t\<lparr>dev_state := d\<rparr>)" "moves s t \<Longrightarrow> moves s (t\<lparr>ee := e\<rparr>)"
  "moves s t \<Longrightarrow> moves s (t\<lparr>ee := e, dev_state := d\<rparr>)" "moves s t \<Longrightarrow> moves s (t\<lparr>dev_state := d, M2_count := n\<rparr>)"
  "moves s t \<Longrightarrow> moves s (t\<lparr>M0_count := n\<rparr>)" "moves s t \<Longrightarrow> moves s (t\<lparr>M3_count := n\<rparr>)"
  "moves s t \<Longrightarrow> moves s (t\<lparr>transition_list := l\<rparr>)"
  "moves s t \<Longrightarrow> moves s (call c t)" "moves s t \<Longrightarrow> moves s ((call c ^^ j) t)" "moves s t \<Longrightarrow> moves s (reset_rings t)"
  "moves s t \<Longrightarrow> moves s (mhi_write_reg b base off v t)" "moves s t \<Longrightarrow> moves s (mhi_write_reg_field b base off m i v t)"
  "moves s t \<Longrightarrow> moves s (mhi_set_mhi_state b d t)" "moves s t \<Longrightarrow> moves s (mhi_assert_dev_wake b f t)"
  "moves s t \<Longrightarrow> moves s (mhi_deassert_dev_wake b f t)" "moves s t \<Longrightarrow> moves s (mhi_ring_er_db b i t)"
  "moves s t \<Longrightarrow> moves s (mhi_ring_cmd_db b t)" "moves s t \<Longrightarrow> moves s (mhi_ring_chan_db b i t)"
  "moves s t \<Longrightarrow> moves s (set_chan i ch t)" "moves s t \<Longrightarrow> moves s (fill_ev_ring b i t)"
  by (simp_all add: moves_def pm_kept)

lemma moves_read [moves_rules]:
  "moves s t \<Longrightarrow> moves s (snd (mhi_read_reg_field b base off m i t))" "moves s t \<Longrightarrow> moves s (snd (mhi_get_exec_env b t))"
  "moves s t \<Longrightarrow> moves s (snd (mhi_get_mhi_state b t))" "moves s t \<Longrightarrow> moves s (snd (mhi_init_mmio b t))"
  "moves s t \<Longrightarrow> moves s (snd (mhi_queue_state_transition mem q t))"
  using read_field_pmD [of b base off m i t] exec_env_pmD [of b t] mhi_state_pmD [of b t] init_mmio_pmD [of b t]
  by (simp_all add: moves_def pm_kept prod_eq_iff)

lemma moves_step [moves_rules]: "moves s t \<Longrightarrow> pm \<in> set pm_states \<Longrightarrow> moves s (snd (mhi_tryset_pm_state pm t))"
  by (erule moves_trans) (auto simp: moves_def tryset_step)

text \<open>Not a rule of the collection: its conclusion matches everything until \<open>env\<close> is known.\<close>

lemma moves_env: "env_moves env \<Longrightarrow> moves s t \<Longrightarrow> moves s (env k t)"
  unfolding env_moves_def by (blast intro: moves_trans)

lemma env_shift [moves_rules]: "env_moves env \<Longrightarrow> env_moves (\<lambda>k. env (j + k))"
  by (simp add: env_moves_def)

lemma moves_fold [moves_rules]:
  "moves s t \<Longrightarrow> (\<And>i u. moves u (f i u)) \<Longrightarrow> moves s (fold f is t)"
proof (induction "is" arbitrary: t)
  case (Cons i "is")
  have "moves t (f i t)" by (rule Cons.prems(2))
  with Cons show ?case by (simp add: moves_trans)
qed simp

lemma moves_wait [moves_rules]:
  assumes "moves s t" "\<And>x u. moves u (snd (snd (cond x u)))" "\<And>u. moves u (env u)"
  shows "moves s (snd (snd (wait_event_timeout cond env x t)))"
proof -
  obtain r x1 u where c: "cond x t = (r, x1, u)" by (cases "cond x t")
  have "moves t u" using assms(2) [of t x] c by simp
  moreover have "moves u (snd (snd (cond x1 (env u))))" using assms(2,3) by (rule moves_trans [rotated])
  ultimately show ?thesis using assms(1) c by (cases r) (auto simp: wait_event_timeout_def intro: moves_trans)
qed

lemma moves_case3 [moves_rules]:
  "moves s (snd (snd X)) \<Longrightarrow> (\<And>a c t. moves t (snd (F a c t))) \<Longrightarrow> moves s (snd (case X of (a, c, t) \<Rightarrow> F a c t))"
  "moves s (snd (snd X)) \<Longrightarrow> (\<And>a c t. moves t (G a c t)) \<Longrightarrow> moves s (case X of (a, c, t) \<Rightarrow> G a c t)"
  by (cases X, auto intro: moves_trans)+

lemma moves_wait_state [moves_rules]:
  "moves s t \<Longrightarrow> (\<And>u. moves u (env u)) \<Longrightarrow> moves s (snd (wait_state cond env t))"
  by (auto simp: wait_state_def wait_event_timeout_def intro: moves_trans split: bool.splits)

lemma reset_cond_moves [moves_rules]: "moves u (snd (snd (reset_cond b x u)))"
  by (auto simp: reset_cond_def moves_def split: prod.splits option.splits dest: read_field_pmD)

lemma ready_cond_moves [moves_rules]: "moves u (snd (snd (ready_cond b base x u)))"
  by (auto simp: ready_cond_def moves_def split: prod.splits option.splits dest!: read_field_pmD)

lemma pm_state_consts [moves_rules]:
  "MHI_PM_DISABLE \<in> set pm_states" "MHI_PM_POR \<in> set pm_states" "MHI_PM_M0 \<in> set pm_states" "MHI_PM_M2 \<in> set pm_states"
  "MHI_PM_M3_ENTER \<in> set pm_states" "MHI_PM_M3 \<in> set pm_states" "MHI_PM_M3_EXIT \<in> set pm_states"
  "MHI_PM_SYS_ERR_DETECT \<in> set pm_states" "MHI_PM_SYS_ERR_PROCESS \<in> set pm_states"
  "MHI_PM_SHUTDOWN_PROCESS \<in> set pm_states" "MHI_PM_LD_ERR_FATAL_DETECT \<in> set pm_states"
  by (simp_all add: pm_states_def)

lemma moves_transition [moves_rules]:
  "(t = MHI_ST_TRANSITION_PBL \<Longrightarrow> moves s A) \<Longrightarrow> (t = MHI_ST_TRANSITION_READY \<Longrightarrow> moves s B) \<Longrightarrow> (t = MHI_ST_TRANSITION_SBL \<Longrightarrow> moves s C) \<Longrightarrow>
   (t = MHI_ST_TRANSITION_MISSION_MODE \<Longrightarrow> moves s D) \<Longrightarrow> (t = MHI_ST_TRANSITION_FP \<Longrightarrow> moves s E) \<Longrightarrow>
   moves s (case t of MHI_ST_TRANSITION_PBL \<Rightarrow> A | MHI_ST_TRANSITION_READY \<Rightarrow> B | MHI_ST_TRANSITION_SBL \<Rightarrow> C
     | MHI_ST_TRANSITION_MISSION_MODE \<Rightarrow> D | MHI_ST_TRANSITION_FP \<Rightarrow> E)"
  by (cases t) simp_all

section \<open>Every operation takes documented transitions\<close>

lemma ready_transition_moves:
  assumes "env_moves env"
  shows "moves s (snd (mhi_ready_state_transition b env s))"
  unfolding mhi_ready_state_transition_def by (intro moves_rules moves_env [OF assms])

lemma m0_transition_moves:
  assumes "env_moves env"
  shows "moves s (snd (mhi_pm_m0_transition b env s))"
  unfolding mhi_pm_m0_transition_def by (intro moves_rules moves_env [OF assms])

lemma m1_transition_moves:
  assumes "env_moves env"
  shows "moves s (mhi_pm_m1_transition b env s)"
  unfolding mhi_pm_m1_transition_def by (intro moves_rules moves_env [OF assms])

lemma m3_transition_moves: "moves s (snd (mhi_pm_m3_transition s))"
  unfolding mhi_pm_m3_transition_def by (intro moves_rules)

lemma get_sync_moves:
  assumes "env_moves env"
  shows "moves s (snd (mhi_device_get_sync_cntrl b env s))"
  unfolding mhi_device_get_sync_cntrl_def by (intro moves_rules moves_env [OF assms])

lemma mission_mode_moves:
  assumes "env_moves env"
  shows "moves s (snd (mhi_pm_mission_mode_transition b env s))"
  unfolding mhi_pm_mission_mode_transition_def by (intro moves_rules moves_env [OF assms] get_sync_moves [OF assms])

lemma trigger_reset_moves:
  assumes "env_moves env"
  shows "moves s (snd (trigger_reset b env c s))"
  unfolding trigger_reset_def by (intro moves_rules moves_env [OF assms])

lemma disable_transition_moves:
  assumes "env_moves env" "pm \<in> set pm_states"
  shows "moves s (mhi_pm_disable_transition b env pm s)"
  unfolding mhi_pm_disable_transition_def
  by (intro moves_rules moves_env [OF assms(1)] trigger_reset_moves ready_transition_moves assms)

lemma trigger_moves:
  assumes "env_moves env"
  shows "moves s (snd (mhi_debugfs_trigger_reset env s))"
  unfolding mhi_debugfs_trigger_reset_def by (intro moves_rules moves_env [OF assms])

lemma ready_worker_moves: "moves s (mhi_pm_ready_worker b mem s)"
  unfolding mhi_pm_ready_worker_def by (intro moves_rules)

lemma st_worker_moves:
  assumes "\<And>i. env_moves (env i)"
  shows "moves s (mhi_pm_st_worker b env s)"
  unfolding mhi_pm_st_worker_def st_worker_step_def
  by (intro moves_rules mission_mode_moves ready_transition_moves assms)

lemma intvec_read_moves [moves_rules]:
  "moves s (snd (snd (if c then let (d, t) = mhi_get_mhi_state b s; (e, u) = mhi_get_exec_env b t in (d, e, u) else (x, y, s))))"
  by (simp add: moves_def case_prod_unfold Let_def pm_kept)

lemma intvec_moves:
  assumes "env_moves env"
  shows "moves s (mhi_intvec_threaded_handlr b env s)"
  unfolding mhi_intvec_threaded_handlr_def by (intro moves_rules moves_env [OF assms])

lemma power_down_moves:
  assumes "env_moves env"
  shows "moves s (mhi_power_down b env graceful s)"
  unfolding mhi_power_down_def by (intro moves_rules moves_env [OF assms] disable_transition_moves assms)

lemma suspend_moves:
  assumes "env_moves env"
  shows "moves s (snd (mhi_pm_suspend b env lpm s))"
  unfolding mhi_pm_suspend_def by (intro moves_rules moves_env [OF assms])

lemma resume_moves:
  assumes "env_moves env"
  shows "moves s (snd (mhi_pm_resume b env lpm s))"
  unfolding mhi_pm_resume_def by (intro moves_rules moves_env [OF assms] intvec_moves assms)

lemma rddm_moves:
  assumes "env_moves env"
  shows "moves s (snd (mhi_force_rddm_mode b env s))"
  unfolding mhi_force_rddm_mode_def by (intro moves_rules moves_env [OF assms])

lemma read_bhi_pm [pm_kept]: "pm_state (snd (read_bhi_offsets b s)) = pm_state s"
  by (auto simp: read_bhi_offsets_def Let_def split: prod.splits option.splits dest!: read_pmD)

lemma async_power_up_typed:
  "pm_state (snd (mhi_async_power_up b junk dev_ctxt irq_setup mem s)) \<in> {MHI_PM_DISABLE, MHI_PM_POR}"
  by (simp add: mhi_async_power_up_def Let_def case_prod_unfold pm_kept)

section \<open>Properties\<close>

definition idle_env :: "'h env" where
  "idle_env k s = s"

lemma idle_env_moves: "env_moves idle_env"
  by (simp add: env_moves_def idle_env_def moves_def)

definition sample_dev :: "(u64 \<Rightarrow> u32) mhi_dev" where
  "sample_dev = \<lparr>mm_readl = (\<lambda>a h. (h a, h)), mm_writel = (\<lambda>v a h. h(a := v)), link_status = (\<lambda>_. False)\<rparr>"

definition sample_mhi :: "u32 \<Rightarrow> u32 \<Rightarrow> (u64 \<Rightarrow> u32) mhi_controller" where
  "sample_mhi pm dev = \<lparr>hw = (\<lambda>_. 0), regs = 0x1000, bhi = 0x2000, bhie = 0x3000, wake_db = 0x4000, pm_state = pm, ee = MHI_EE_AMSS,
     dev_state = dev, dev_wake = 0, pending_pkts = 0, M0_count = 0, M2_count = 0, M3_count = 0, pre_init = False, msi_irq_base = 0,
     mhi_events = [], mhi_cmds = [\<lparr>cmd_ring = \<lparr>iommu_base = 0, ctxt_rbase = 0, ctxt_rp = 0, ctxt_wp = 0, ctxt_rlen = 0, ring_base = 0, ring_rp = 0,
       ring_wp = 0, el_size = 16, ring_len = 0, elements = 0, db_addr = 0\<rparr>, cmd_mem = []\<rparr>],
     mhi_chans = [], timesync = None, buffer_len = 0x1000, transition_list = [], chan_ctxt_addr = 0, er_ctxt_addr = 0, cmd_ctxt_addr = 0, ctrl_seg_addr = 0, ctrl_seg_size = 0,
     iova_start = 0, iova_stop = 0, call_log = []\<rparr>"

text \<open>
  C28. A request for a power state is granted exactly when the comment in front of the table documents the
  transition, for all 12 states; a refused request changes nothing, and a granted one only the power state. The
  two error branches of \<open>mhi_tryset_pm_state\<close> for a state outside the table are never taken.
\<close>

theorem tryset_follows_doc:
  assumes "pm_state s \<in> set pm_states" "pm \<in> set pm_states"
  shows "mhi_tryset_pm_state pm s = (if pm_step (pm_state s) pm then (pm, s\<lparr>pm_state := pm\<rparr>) else (pm_state s, s)) \<and>
    find_last_bit (pm_state s) < length mhi_state_transitions \<and>
    fst (mhi_state_transitions ! find_last_bit (pm_state s)) = pm_state s"
  using tryset_step [OF assms] assms(1) table_indices by (simp add: table_length)

theorem tryset_follows_doc_witness:
  "mhi_tryset_pm_state MHI_PM_M2 (sample_mhi MHI_PM_M0 MHI_STATE_M0) = (MHI_PM_M2, sample_mhi MHI_PM_M2 MHI_STATE_M0)"
  using tryset_follows_doc [of "sample_mhi MHI_PM_M0 MHI_STATE_M0" MHI_PM_M2]
  by (simp add: sample_mhi_def pm_states_def m0_m2)

text \<open>
  C25. Every operation of the power management keeps the power state among the 12 documented ones. Bringing the
  controller up sets it directly; every other operation only takes documented transitions, one after the other,
  whatever the other threads do meanwhile, as long as they too take documented transitions only.
\<close>

theorem pm_state_typed:
  assumes env: "env_moves env" "\<And>i. env_moves (envs i)" and typed: "pm_state s \<in> set pm_states"
    and s': "s' \<in> set [snd (mhi_ready_state_transition b env s), snd (mhi_pm_m0_transition b env s), mhi_pm_m1_transition b env s,
      snd (mhi_pm_m3_transition s), snd (mhi_pm_mission_mode_transition b env s), mhi_pm_sys_err_worker b env s,
      snd (mhi_debugfs_trigger_reset env s), mhi_pm_ready_worker b mem s, mhi_pm_st_worker b envs s, mhi_intvec_threaded_handlr b env s,
      mhi_power_down b env graceful s, snd (mhi_pm_suspend b env lpm s), snd (mhi_pm_resume b env lpm s),
      snd (mhi_force_rddm_mode b env s)]"
  shows "pm_reach (pm_state s) (pm_state s') \<and> pm_state s' \<in> set pm_states \<and>
    pm_state (snd (mhi_async_power_up b junk dev_ctxt irq_setup mem s)) \<in> {MHI_PM_DISABLE, MHI_PM_POR}"
proof -
  have "moves s s'"
    using s' env by (auto simp: mhi_pm_sys_err_worker_def intro: ready_transition_moves m0_transition_moves m1_transition_moves
        m3_transition_moves mission_mode_moves disable_transition_moves trigger_moves ready_worker_moves st_worker_moves
        intvec_moves power_down_moves suspend_moves resume_moves rddm_moves pm_state_consts)
  then have "pm_reach (pm_state s) (pm_state s')" using typed by (simp add: moves_def)
  then show ?thesis using typed pm_reach_states async_power_up_typed by blast
qed

theorem pm_state_typed_witness:
  "pm_reach MHI_PM_POR (pm_state (mhi_power_down sample_dev idle_env True (sample_mhi MHI_PM_POR MHI_STATE_READY)))"
  using pm_state_typed [OF idle_env_moves idle_env_moves, of "sample_mhi MHI_PM_POR MHI_STATE_READY"
      "mhi_power_down sample_dev idle_env True (sample_mhi MHI_PM_POR MHI_STATE_READY)" sample_dev True True 0 0 0 0]
  by (simp add: pm_states_def sample_mhi_def)

section \<open>Shutdown\<close>

lemma level_step: "pm_step pm pm' \<Longrightarrow> 2 \<le> pm_level pm \<Longrightarrow> pm' = MHI_PM_DISABLE \<or> 2 \<le> pm_level pm'"
  by (induction rule: pm_step.induct) (auto simp: pm_level_def)

definition requests :: "u32 list \<Rightarrow> 'h mhi_controller \<Rightarrow> 'h mhi_controller" where
  "requests = fold (\<lambda>pm s. snd (mhi_tryset_pm_state pm s))"

lemma requests_simps [simp]:
  "requests [] s = s" "requests (pm # pms) s = requests pms (snd (mhi_tryset_pm_state pm s))"
  by (simp_all add: requests_def)

text \<open>
  Once a shutdown has begun or the link is known to be dead, no sequence of requests, by any threads in any
  order, leads back to a working or an error-handling state, unless the controller has been disabled in between.
\<close>

theorem shutdown_needs_disable:
  assumes "pm_state s \<in> set pm_states" "2 \<le> pm_level (pm_state s)" "set pms \<subseteq> set pm_states"
    and "pm_level (pm_state (requests pms s)) < 2"
  shows "\<exists>pms1 pms2. pms = pms1 @ pms2 \<and> pm_state (requests pms1 s) = MHI_PM_DISABLE"
  using assms
proof (induction pms arbitrary: s)
  case Nil
  then show ?case by simp
next
  case (Cons pm pms)
  let ?s = "snd (mhi_tryset_pm_state pm s)"
  have t: "mhi_tryset_pm_state pm s = (if pm_step (pm_state s) pm then (pm, s\<lparr>pm_state := pm\<rparr>) else (pm_state s, s))"
    using Cons.prems by (intro tryset_step) simp_all
  show ?case
  proof (cases "pm_state ?s = MHI_PM_DISABLE")
    case True
    then show ?thesis by (intro exI [of _ "[pm]"] exI [of _ pms]) simp
  next
    case False
    then have "2 \<le> pm_level (pm_state ?s)" "pm_state ?s \<in> set pm_states"
      using Cons.prems t level_step [of "pm_state s" pm] by (auto split: if_splits)
    with Cons.prems obtain pms1 pms2 where "pms = pms1 @ pms2" "pm_state (requests pms1 ?s) = MHI_PM_DISABLE"
      using Cons.IH [of ?s] by auto
    then show ?thesis by (intro exI [of _ "pm # pms1"] exI [of _ pms2]) simp
  qed
qed

theorem shutdown_needs_disable_witness:
  "\<exists>pms1 pms2. [MHI_PM_DISABLE, MHI_PM_POR] = pms1 @ pms2 \<and>
     pm_state (requests pms1 (sample_mhi MHI_PM_SHUTDOWN_PROCESS MHI_STATE_RESET)) = MHI_PM_DISABLE"
proof -
  let ?s = "sample_mhi MHI_PM_SHUTDOWN_PROCESS MHI_STATE_RESET"
  have t: "mhi_tryset_pm_state MHI_PM_DISABLE ?s = (MHI_PM_DISABLE, ?s\<lparr>pm_state := MHI_PM_DISABLE\<rparr>)"
    using tryset_step [of ?s MHI_PM_DISABLE] disabled by (simp add: sample_mhi_def pm_states_def)
  have "mhi_tryset_pm_state MHI_PM_POR (?s\<lparr>pm_state := MHI_PM_DISABLE\<rparr>) = (MHI_PM_POR, ?s\<lparr>pm_state := MHI_PM_POR\<rparr>)"
    using tryset_step [of "?s\<lparr>pm_state := MHI_PM_DISABLE\<rparr>" MHI_PM_POR] disable_por by (simp add: sample_mhi_def pm_states_def)
  with t show ?thesis
    using shutdown_needs_disable [of ?s "[MHI_PM_DISABLE, MHI_PM_POR]"] by (simp add: sample_mhi_def pm_states_def pm_level_def)
qed

lemma trigger_reset_pm:
  assumes "\<And>t. pm_state t = pm \<Longrightarrow> pm_state (env 0 t) = pm" "pm_state s = pm"
  shows "pm_state (snd (trigger_reset b env c s)) = pm"
proof -
  have "pm_state (snd (snd (wait_event_timeout (reset_cond b) (env 0) x t))) = pm" if "pm_state t = pm" for x t
    using that assms(1)
    by (auto simp: wait_event_timeout_def reset_cond_def split: prod.splits option.splits bool.splits dest!: read_field_pmD)
  then show ?thesis
    using assms(2) by (simp add: trigger_reset_def Let_def case_prod_unfold pm_kept)
qed

lemma trigger_reset_goes_on: "c \<noteq> MHI_PM_SYS_ERR_PROCESS \<Longrightarrow> \<not> fst (trigger_reset b env c s)"
  by (simp add: trigger_reset_def Let_def case_prod_unfold)

definition keeps_shutdown :: "'h env \<Rightarrow> bool" where
  "keeps_shutdown env \<longleftrightarrow> (\<forall>k t. pm_state t \<in> {MHI_PM_SHUTDOWN_PROCESS, MHI_PM_LD_ERR_FATAL_DETECT} \<longrightarrow> pm_state (env k t) = pm_state t)"

definition ring_empty :: "mhi_ring \<Rightarrow> bool" where
  "ring_empty r \<longleftrightarrow> ring_rp r = ring_base r \<and> ring_wp r = ring_base r \<and> ctxt_rp r = ctxt_rbase r \<and> ctxt_wp r = ctxt_rbase r"

definition rings_reset :: "'h mhi_controller \<Rightarrow> bool" where
  "rings_reset s \<longleftrightarrow> (\<forall>c \<in> set (mhi_cmds s). ring_empty (cmd_ring c)) \<and>
     (\<forall>e \<in> set (mhi_events s). \<not> offload_ev e \<longrightarrow> ring_empty (ev_ring e))"

lemma rings_reset_reset: "rings_reset (reset_rings s)"
  by (auto simp: rings_reset_def reset_rings_def reset_ring_def ring_empty_def)

lemma shutdown_transition:
  assumes "keeps_shutdown env" "pm_state s \<in> set pm_states" "pm_state s \<noteq> MHI_PM_DISABLE"
  shows "pm_state (mhi_pm_disable_transition b env MHI_PM_SHUTDOWN_PROCESS s) = MHI_PM_DISABLE \<and>
    rings_reset (mhi_pm_disable_transition b env MHI_PM_SHUTDOWN_PROCESS s)"
proof -
  have t: "mhi_tryset_pm_state MHI_PM_SHUTDOWN_PROCESS s = (MHI_PM_SHUTDOWN_PROCESS, s\<lparr>pm_state := MHI_PM_SHUTDOWN_PROCESS\<rparr>)"
  proof (cases "pm_state s = MHI_PM_SHUTDOWN_PROCESS")
    case True
    then show ?thesis using assms(2) tryset_step [of s MHI_PM_SHUTDOWN_PROCESS] by (simp add: pm_states_def)
  next
    case False
    then have "pm_step (pm_state s) MHI_PM_SHUTDOWN_PROCESS"
      using assms(2,3) by (intro shutdown) (auto simp: pm_active_def pm_level_def)
    then show ?thesis using assms(2) tryset_step [of s MHI_PM_SHUTDOWN_PROCESS] by (simp add: pm_states_def)
  qed
  have e: "pm_state t = MHI_PM_SHUTDOWN_PROCESS \<Longrightarrow> pm_state (env k t) = MHI_PM_SHUTDOWN_PROCESS" for k t
    using assms(1) by (simp add: keeps_shutdown_def)
  have d: "mhi_tryset_pm_state MHI_PM_DISABLE u = (MHI_PM_DISABLE, u\<lparr>pm_state := MHI_PM_DISABLE\<rparr>)" if "pm_state u = MHI_PM_SHUTDOWN_PROCESS" for u :: "'a mhi_controller"
    using that tryset_step [of u MHI_PM_DISABLE] disabled by (simp add: pm_states_def)
  have f: "pm_state (fold (\<lambda>i s. if offload_ev (mhi_events s ! i) then s else call (tasklet_kill i) s) l u) = pm_state u" for l and u :: "'a mhi_controller"
    by (rule fold_pm) (simp add: pm_kept)
  have r: "rings_reset (u\<lparr>pm_state := pm\<rparr>) = rings_reset u" for u :: "'a mhi_controller" and pm
    by (simp add: rings_reset_def)
  show ?thesis
    unfolding mhi_pm_disable_transition_def Let_def
    by (simp add: t case_prod_unfold trigger_reset_pm trigger_reset_goes_on e d f r pm_kept rings_reset_reset)
qed

text \<open>
  C26. Powering down, gracefully or not, from every state but the disabled one ends in the disabled state with all
  command and event rings empty (those that the host serves: offloaded event rings are left alone), if
  meanwhile no other thread leaves the shutdown or the dead-link state.
  This includes a shutdown that is already in progress: the refused request returns the state that was asked for,
  which the caller takes for a success. Gracefully from the disabled state it only wakes the waiting threads.
\<close>

theorem power_down_disables:
  assumes "pm_state s \<in> set pm_states" "keeps_shutdown env"
  shows "if pm_state s = MHI_PM_DISABLE then mhi_power_down b env True s = call wake_up_all s
    else pm_state (mhi_power_down b env graceful s) = MHI_PM_DISABLE \<and> rings_reset (mhi_power_down b env graceful s)"
proof (cases "pm_state s = MHI_PM_DISABLE")
  case True
  then have "\<not> pm_step (pm_state s) MHI_PM_SHUTDOWN_PROCESS" by (auto simp: pm_step.simps pm_active_def)
  then have "mhi_tryset_pm_state MHI_PM_SHUTDOWN_PROCESS s = (pm_state s, s)"
    using tryset_step [OF assms(1), of MHI_PM_SHUTDOWN_PROCESS] by (simp add: pm_states_def)
  then show ?thesis using True by (simp add: mhi_power_down_def mhi_pm_disable_transition_def)
next
  case False
  have ks: "keeps_shutdown (\<lambda>k. env (1 + k))" using assms(2) by (simp add: keeps_shutdown_def)
  define s1 where "s1 = (if graceful then s else env 0 (snd (mhi_tryset_pm_state MHI_PM_LD_ERR_FATAL_DETECT s)))"
  have "pm_state s1 \<in> set pm_states \<and> pm_state s1 \<noteq> MHI_PM_DISABLE"
  proof (cases graceful)
    case True
    then show ?thesis using False assms(1) by (simp add: s1_def)
  next
    case link: False
    have "pm_state (snd (mhi_tryset_pm_state MHI_PM_LD_ERR_FATAL_DETECT s)) = MHI_PM_LD_ERR_FATAL_DETECT"
      using tryset_step [OF assms(1), of MHI_PM_LD_ERR_FATAL_DETECT] fatal [of "pm_state s"] False assms(1)
      by (simp add: pm_states_def pm_active_def)
    then have "pm_state s1 = MHI_PM_LD_ERR_FATAL_DETECT" using link assms(2) by (simp add: s1_def keeps_shutdown_def)
    then show ?thesis by (simp add: pm_states_def)
  qed
  then show ?thesis
    using False shutdown_transition [OF ks, of s1 b] by (simp add: mhi_power_down_def s1_def Let_def)
qed

theorem power_down_disables_witness:
  "pm_state (mhi_power_down sample_dev idle_env False (sample_mhi MHI_PM_M0 MHI_STATE_M0)) = MHI_PM_DISABLE"
  using power_down_disables [of "sample_mhi MHI_PM_M0 MHI_STATE_M0" idle_env sample_dev False]
  by (simp add: sample_mhi_def pm_states_def keeps_shutdown_def idle_env_def)

section \<open>Suspend and resume\<close>

definition answering :: "('h mhi_controller \<Rightarrow> 'h mhi_controller) \<Rightarrow> 'h env" where
  "answering f k = (if k = 1 then f else (\<lambda>s. s))"

lemma grants:
  "pm_state s = pm \<Longrightarrow> pm_step pm pm' \<Longrightarrow> pm \<in> set pm_states \<Longrightarrow>
   mhi_tryset_pm_state pm' s = (pm', s\<lparr>pm_state := pm'\<rparr>)"
  using tryset_step [of s pm'] pm_step_states by simp

lemma error_state_simps [simp]:
  "\<not> MHI_PM_IN_ERROR_STATE MHI_PM_M0" "\<not> MHI_PM_IN_ERROR_STATE MHI_PM_M3" "\<not> MHI_PM_IN_ERROR_STATE MHI_PM_M3_ENTER"
  "\<not> MHI_PM_IN_ERROR_STATE MHI_PM_M3_EXIT"
  by (simp_all add: MHI_PM_IN_ERROR_STATE_def)

lemma dev_state_kept [simp]:
  "dev_state (mhi_write_reg b base off v s) = dev_state s" "dev_state (mhi_set_mhi_state b d s) = dev_state s"
  "dev_state (call c s) = dev_state s" "dev_state ((call c ^^ n) s) = dev_state s"
  by (induction n) (auto simp: mhi_write_reg_def mhi_set_mhi_state_def mhi_write_reg_field_def mhi_read_reg_def call_def Let_def
      split: prod.splits option.splits if_splits)

lemma dev_state_wake [simp]:
  "dev_state (mhi_assert_dev_wake b f s) = dev_state s" "dev_state (mhi_deassert_dev_wake b f s) = dev_state s"
  by (simp_all add: mhi_assert_dev_wake_def mhi_deassert_dev_wake_def mhi_write_db_def)

lemma dev_state_doorbells [simp]:
  "dev_state (set_event i e s) = dev_state s" "dev_state (set_chan i ch s) = dev_state s" "dev_state (set_cmd c s) = dev_state s"
  "dev_state (mhi_write_db b a wp s) = dev_state s"
  by (simp_all add: set_event_def set_chan_def set_cmd_def mhi_write_db_def)

lemma process_db_dev: "process_db b c a wp s = (c', s') \<Longrightarrow> dev_state s' = dev_state s"
  by (auto simp: process_db_def mhi_db_brstmode_def mhi_db_brstmode_disable_def split: if_splits)

lemma dev_state_rings [simp]:
  "dev_state (mhi_ring_er_db b i s) = dev_state s" "dev_state (mhi_ring_cmd_db b s) = dev_state s" "dev_state (mhi_ring_chan_db b i s) = dev_state s"
  by (auto simp: mhi_ring_er_db_def mhi_ring_cmd_db_def mhi_ring_chan_db_def Let_def split: prod.splits dest: process_db_dev)

lemma fold_dev: "(\<And>i s. dev_state (f i s) = dev_state s) \<Longrightarrow> dev_state (fold f is s) = dev_state s"
  by (induction "is" arbitrary: s) simp_all

lemma m0_transition_ok:
  assumes "pm_state s = pm" "pm_step pm MHI_PM_M0" "pm \<in> set pm_states"
  shows "fst (mhi_pm_m0_transition b idle_env s) = 0 \<and> pm_state (snd (mhi_pm_m0_transition b idle_env s)) = MHI_PM_M0 \<and>
    dev_state (snd (mhi_pm_m0_transition b idle_env s)) = MHI_STATE_M0"
proof -
  have t: "mhi_tryset_pm_state MHI_PM_M0 (s\<lparr>dev_state := MHI_STATE_M0\<rparr>) = (MHI_PM_M0, s\<lparr>dev_state := MHI_STATE_M0, pm_state := MHI_PM_M0\<rparr>)"
    using grants [of "s\<lparr>dev_state := MHI_STATE_M0\<rparr>" pm MHI_PM_M0] assms by simp
  show ?thesis
    unfolding mhi_pm_m0_transition_def Let_def t
    by (simp add: pm_kept fold_pm fold_dev idle_env_def)
qed

lemma suspend_enters:
  assumes "pm_state s = MHI_PM_M0" "dev_state s = MHI_STATE_M0" "dev_wake s = 0"
  shows "\<exists>u. pm_state u = MHI_PM_M3_ENTER \<and> dev_state u = MHI_STATE_M0 \<and> dev_wake u = 0 \<and>
    mhi_pm_suspend b env lpm s =
      (let (ret, s) = wait_state (\<lambda>s. dev_state s = MHI_STATE_M3 \<or> MHI_PM_IN_ERROR_STATE (pm_state s)) (env 1) u in
       if \<not> ret \<or> MHI_PM_IN_ERROR_STATE (pm_state s) then (- EIO, s)
       else (0, (call (mhi_notify MHI_CB_LPM_ENTER) ^^ lpm) s))"
proof -
  have "mhi_tryset_pm_state MHI_PM_M3_ENTER s = (MHI_PM_M3_ENTER, s\<lparr>pm_state := MHI_PM_M3_ENTER\<rparr>)"
    using grants [OF assms(1) m0_m3_enter] by (simp add: pm_states_def)
  then show ?thesis using assms
    by (intro exI [of _ "mhi_set_mhi_state b MHI_STATE_M3 (s\<lparr>pm_state := MHI_PM_M3_ENTER\<rparr>)"])
      (simp add: mhi_pm_suspend_def mhi_assert_dev_wake_def mhi_deassert_dev_wake_def wait_state_def wait_event_timeout_def pm_kept)
qed

lemma m3_transition_ok:
  assumes "pm_state s = MHI_PM_M3_ENTER"
  shows "pm_state (snd (mhi_pm_m3_transition s)) = MHI_PM_M3 \<and> dev_state (snd (mhi_pm_m3_transition s)) = MHI_STATE_M3 \<and>
    dev_wake (snd (mhi_pm_m3_transition s)) = dev_wake s"
  using grants [of "s\<lparr>dev_state := MHI_STATE_M3\<rparr>" MHI_PM_M3_ENTER MHI_PM_M3] assms m3_enter_m3
  by (simp add: mhi_pm_m3_transition_def Let_def pm_states_def pm_kept)

text \<open>
  C27. From the working state (power state and device in M0, no wake vote), a suspend during which the device reports
  M3 succeeds, and a resume during which it then reports M0 succeeds and leaves the controller working as before,
  however many packets are pending; in between the state is M3, as \<open>mhi_pm_resume\<close> asserts. If the device does not report M3 in time and nothing
  else happens, the suspend fails and leaves the controller in M3_ENTER. A resume from there, with nothing else
  happening, violates the \<open>MHI_ASSERT\<close> that the state is M3 (a panic in a kernel built with \<open>CONFIG_MHI_DEBUG\<close>);
  in a kernel that only warns it fails too: M3_EXIT is refused, the controller stays in M3_ENTER, and nothing
  happens but the warning and the notifications sent to the clients.
\<close>

theorem suspend_resume_cycle:
  assumes "pm_state s = MHI_PM_M0" "dev_state s = MHI_STATE_M0" "dev_wake s = 0"
  shows "(let (r1, s1) = mhi_pm_suspend b (answering (\<lambda>s. snd (mhi_pm_m3_transition s))) lpm s;
         (r2, s2) = mhi_pm_resume b (answering (\<lambda>s. snd (mhi_pm_m0_transition b idle_env s))) lpm s1 in
       r1 = 0 \<and> pm_state s1 = MHI_PM_M3 \<and> dev_state s1 = MHI_STATE_M3 \<and> r2 = 0 \<and> pm_state s2 = MHI_PM_M0 \<and> dev_state s2 = MHI_STATE_M0) \<and>
    (let (r1, s1) = mhi_pm_suspend b idle_env lpm s; (r2, s2) = mhi_pm_resume b idle_env lpm s1 in
       r1 = - EIO \<and> pm_state s1 = MHI_PM_M3_ENTER \<and> r2 = - EIO \<and>
       s2 = (call (mhi_notify MHI_CB_LPM_EXIT) ^^ lpm) (call assert_failed s1) \<and> pm_state s2 = MHI_PM_M3_ENTER)"
    (is "?cycle \<and> ?timeout")
proof
  note w = wait_state_def wait_event_timeout_def
  let ?env = "answering (\<lambda>s. snd (mhi_pm_m3_transition s))"
  obtain u where u: "pm_state u = MHI_PM_M3_ENTER" "dev_state u = MHI_STATE_M0"
    and e: "mhi_pm_suspend b ?env lpm s =
      (let (ret, s) = wait_state (\<lambda>s. dev_state s = MHI_STATE_M3 \<or> MHI_PM_IN_ERROR_STATE (pm_state s)) (?env 1) u in
       if \<not> ret \<or> MHI_PM_IN_ERROR_STATE (pm_state s) then (- EIO, s)
       else (0, (call (mhi_notify MHI_CB_LPM_ENTER) ^^ lpm) s))"
    using suspend_enters [OF assms, of b ?env lpm] by blast
  have sus: "mhi_pm_suspend b ?env lpm s = (0, (call (mhi_notify MHI_CB_LPM_ENTER) ^^ lpm) (snd (mhi_pm_m3_transition u)))"
    unfolding e using m3_transition_ok [OF u(1)] u by (simp add: w answering_def)
  let ?s1 = "(call (mhi_notify MHI_CB_LPM_ENTER) ^^ lpm) (snd (mhi_pm_m3_transition u))"
  let ?t = "(call (mhi_notify MHI_CB_LPM_EXIT) ^^ lpm) ?s1"
  let ?x = "mhi_set_mhi_state b MHI_STATE_M0 (?t\<lparr>pm_state := MHI_PM_M3_EXIT\<rparr>)"
  have s1: "pm_state ?s1 = MHI_PM_M3" "dev_state ?s1 = MHI_STATE_M3" using m3_transition_ok [OF u(1)] by (simp_all add: pm_kept)
  have ex: "mhi_tryset_pm_state MHI_PM_M3_EXIT ?t = (MHI_PM_M3_EXIT, ?t\<lparr>pm_state := MHI_PM_M3_EXIT\<rparr>)"
    using grants [of ?t MHI_PM_M3 MHI_PM_M3_EXIT] s1(1) m3_m3_exit by (simp add: pm_kept pm_states_def)
  have "pm_state ?x = MHI_PM_M3_EXIT" "dev_state ?x = MHI_STATE_M3" using s1 by (simp_all add: pm_kept)
  with m0_transition_ok [OF this(1) m3_exit_m0, of b] s1 ex
  show ?cycle
    unfolding sus by (simp add: mhi_pm_resume_def answering_def mhi_assert_dev_wake_def mhi_deassert_dev_wake_def w pm_states_def)
next
  note w = wait_state_def wait_event_timeout_def
  obtain u where u: "pm_state u = MHI_PM_M3_ENTER" and sus: "mhi_pm_suspend b idle_env lpm s = (- EIO, u)"
    using suspend_enters [OF assms, of b idle_env lpm] by (auto simp: w idle_env_def)
  let ?t = "(call (mhi_notify MHI_CB_LPM_EXIT) ^^ lpm) (call assert_failed u)"
  have "\<not> pm_step MHI_PM_M3_ENTER MHI_PM_M3_EXIT" by (simp add: pm_step.simps)
  then have "mhi_tryset_pm_state MHI_PM_M3_EXIT ?t = (MHI_PM_M3_ENTER, ?t)"
    using tryset_step [of ?t MHI_PM_M3_EXIT] u by (simp add: pm_kept pm_states_def)
  then show ?timeout
    unfolding sus using u by (simp add: mhi_pm_resume_def idle_env_def pm_kept)
qed

theorem suspend_resume_cycle_witness:
  "fst (mhi_pm_suspend sample_dev (answering (\<lambda>s. snd (mhi_pm_m3_transition s))) 0 (sample_mhi MHI_PM_M0 MHI_STATE_M0)) = 0 \<and>
   fst (mhi_pm_suspend sample_dev idle_env 0 (sample_mhi MHI_PM_M0 MHI_STATE_M0)) = - EIO \<and>
   pm_state (snd (mhi_pm_resume sample_dev idle_env 0
     (snd (mhi_pm_suspend sample_dev idle_env 0 (sample_mhi MHI_PM_M0 MHI_STATE_M0))))) = MHI_PM_M3_ENTER"
  using suspend_resume_cycle [of "sample_mhi MHI_PM_M0 MHI_STATE_M0" sample_dev 0]
  by (simp add: sample_mhi_def split: prod.splits)

end
