(* ===== verification/MhiChan.thy ===== *)
theory MhiChan
  imports MhiPm
begin

text \<open>
  Channels of the Modem Host Interface, \<^verbatim>\<open>quectel_MHI/src/core/mhi_main.c\<close>: queueing buffers, completing them when
  the device reports it, commands, starting and resetting a channel. \<open>None\<close> stands for a pointer from which the
  code would read or write outside its ring, and for a loop that does not end. A
  client callback is recorded in the call log; what it does itself is not part of the model. The result of mapping a
  buffer for the device is an argument, \<open>None\<close> for the error \<open>-ENOMEM\<close>.
\<close>

section \<open>Descriptors\<close>

abbreviation (input) MHI_EOB :: u32 where "MHI_EOB \<equiv> 0"
abbreviation (input) MHI_EOT :: u32 where "MHI_EOT \<equiv> 1"
abbreviation (input) MHI_CHAIN :: u32 where "MHI_CHAIN \<equiv> 2"

abbreviation (input) MHI_PKT_TYPE_COALESCING :: u32 where "MHI_PKT_TYPE_COALESCING \<equiv> 0x8"
abbreviation (input) MHI_PKT_TYPE_STATE_CHANGE_EVENT :: u32 where "MHI_PKT_TYPE_STATE_CHANGE_EVENT \<equiv> 0x20"
abbreviation (input) MHI_PKT_TYPE_CMD_COMPLETION_EVENT :: u32 where "MHI_PKT_TYPE_CMD_COMPLETION_EVENT \<equiv> 0x21"
abbreviation (input) MHI_PKT_TYPE_TX_EVENT :: u32 where "MHI_PKT_TYPE_TX_EVENT \<equiv> 0x22"
abbreviation (input) MHI_PKT_TYPE_RSC_TX_EVENT :: u32 where "MHI_PKT_TYPE_RSC_TX_EVENT \<equiv> 0x28"
abbreviation (input) MHI_PKT_TYPE_EE_EVENT :: u32 where "MHI_PKT_TYPE_EE_EVENT \<equiv> 0x40"
abbreviation (input) MHI_PKT_TYPE_STALE_EVENT :: u32 where "MHI_PKT_TYPE_STALE_EVENT \<equiv> 0x49"

abbreviation (input) MHI_EV_CC_SUCCESS :: u32 where "MHI_EV_CC_SUCCESS \<equiv> 0x1"
abbreviation (input) MHI_EV_CC_EOT :: u32 where "MHI_EV_CC_EOT \<equiv> 0x2"
abbreviation (input) MHI_EV_CC_OVERFLOW :: u32 where "MHI_EV_CC_OVERFLOW \<equiv> 0x3"
abbreviation (input) MHI_EV_CC_EOB :: u32 where "MHI_EV_CC_EOB \<equiv> 0x4"
abbreviation (input) MHI_EV_CC_OOB :: u32 where "MHI_EV_CC_OOB \<equiv> 0x5"
abbreviation (input) MHI_EV_CC_DB_MODE :: u32 where "MHI_EV_CC_DB_MODE \<equiv> 0x6"

abbreviation (input) MHI_CMD_TYPE_RESET :: u32 where "MHI_CMD_TYPE_RESET \<equiv> 16"
abbreviation (input) MHI_CMD_TYPE_START :: u32 where "MHI_CMD_TYPE_START \<equiv> 18"
abbreviation (input) MHI_CMD_TYPE_TSYNC :: u32 where "MHI_CMD_TYPE_TSYNC \<equiv> 24"

datatype MHI_CMD = MHI_CMD_RESET_CHAN | MHI_CMD_START_CHAN | MHI_CMD_TIMSYNC_CFG

definition MHI_TRE_DATA_DWORD0 :: "u64 \<Rightarrow> u32" where
  "MHI_TRE_DATA_DWORD0 len = ucast (len AND MHI_MAX_MTU)"

definition MHI_TRE_DATA_DWORD1 :: "bool \<Rightarrow> bool \<Rightarrow> bool \<Rightarrow> bool \<Rightarrow> u32" where
  "MHI_TRE_DATA_DWORD1 bei ieot ieob chain =
     push_bit 16 2 OR push_bit 10 (of_bool bei) OR push_bit 9 (of_bool ieot) OR push_bit 8 (of_bool ieob) OR of_bool chain"

definition MHI_RSCTRE_DATA_PTR :: "u64 \<Rightarrow> u64 \<Rightarrow> u64" where
  "MHI_RSCTRE_DATA_PTR ptr len = push_bit 48 len OR ptr"

definition MHI_RSCTRE_DATA_DWORD1 :: u32 where
  "MHI_RSCTRE_DATA_DWORD1 = push_bit 16 MHI_PKT_TYPE_COALESCING"

definition MHI_TRE_CMD_RESET_DWORD1 :: "u32 \<Rightarrow> u32" where
  "MHI_TRE_CMD_RESET_DWORD1 chid = push_bit 24 chid OR push_bit 16 MHI_CMD_TYPE_RESET"

definition MHI_TRE_CMD_START_DWORD1 :: "u32 \<Rightarrow> u32" where
  "MHI_TRE_CMD_START_DWORD1 chid = push_bit 24 chid OR push_bit 16 MHI_CMD_TYPE_START"

definition MHI_TRE_CMD_TSYNC_CFG_DWORD1 :: "u32 \<Rightarrow> u32" where
  "MHI_TRE_CMD_TSYNC_CFG_DWORD1 er = push_bit 16 MHI_CMD_TYPE_TSYNC OR push_bit 24 er"

definition MHI_TRE_GET_CMD_TYPE :: "mhi_tre \<Rightarrow> u32" where
  "MHI_TRE_GET_CMD_TYPE tre = drop_bit 16 (dword1 tre) AND 0xFF"

definition MHI_TRE_GET_CMD_CHID :: "mhi_tre \<Rightarrow> u32" where
  "MHI_TRE_GET_CMD_CHID tre = drop_bit 24 (dword1 tre) AND 0xFF"

definition MHI_TRE_EV_DWORD1 :: "u32 \<Rightarrow> u32 \<Rightarrow> u32" where
  "MHI_TRE_EV_DWORD1 chid ty = push_bit 24 chid OR push_bit 16 ty"

definition MHI_TRE_GET_EV_CODE :: "mhi_tre \<Rightarrow> u32" where
  "MHI_TRE_GET_EV_CODE tre = drop_bit 24 (dword0 tre) AND 0xFF"

definition MHI_TRE_GET_EV_LEN :: "mhi_tre \<Rightarrow> u32" where
  "MHI_TRE_GET_EV_LEN tre = dword0 tre AND 0xFFFF"

definition MHI_TRE_GET_EV_CHID :: "mhi_tre \<Rightarrow> u32" where
  "MHI_TRE_GET_EV_CHID tre = drop_bit 24 (dword1 tre) AND 0xFF"

definition MHI_TRE_GET_EV_TYPE :: "mhi_tre \<Rightarrow> u32" where
  "MHI_TRE_GET_EV_TYPE tre = drop_bit 16 (dword1 tre) AND 0xFF"

definition MHI_TRE_GET_EV_STATE :: "mhi_tre \<Rightarrow> u32" where
  "MHI_TRE_GET_EV_STATE tre = drop_bit 24 (dword0 tre) AND 0xFF"

definition MHI_TRE_GET_EV_EXECENV :: "mhi_tre \<Rightarrow> u32" where
  "MHI_TRE_GET_EV_EXECENV tre = drop_bit 24 (dword0 tre) AND 0xFF"

text \<open>A channel named by the device; the code does not check the number.\<close>

definition get_chan :: "nat \<Rightarrow> 'h mhi_controller \<Rightarrow> mhi_chan option" where
  "get_chan i s = (if i < length (mhi_chans s) then Some (mhi_chans s ! i) else None)"

section \<open>Queueing\<close>

text \<open>
  The common part of the functions below: the buffer entry at the write pointer is filled, the buffer mapped,
  the descriptor written. \<open>advance_wp\<close> then moves both write pointers on.
\<close>

definition put_entry :: "mhi_buf_info \<Rightarrow> mhi_tre \<Rightarrow> mhi_chan \<Rightarrow> mhi_chan option" where
  "put_entry bi tre ch = do {
     k \<leftarrow> ring_index (buf_ring ch) (length (buf_mem ch)) (ring_wp (buf_ring ch));
     j \<leftarrow> ring_index (tre_ring ch) (length (tre_mem ch)) (ring_wp (tre_ring ch));
     Some (ch\<lparr>buf_mem := (buf_mem ch)[k := bi], tre_mem := (tre_mem ch)[j := tre]\<rparr>) }"

definition advance_wp :: "mhi_chan \<Rightarrow> mhi_chan" where
  "advance_wp ch = ch\<lparr>tre_ring := mhi_add_ring_element (tre_ring ch), buf_ring := mhi_add_ring_element (buf_ring ch)\<rparr>"

definition mhi_gen_tre :: "u64 \<Rightarrow> u64 \<Rightarrow> u64 \<Rightarrow> u32 \<Rightarrow> u64 option \<Rightarrow> mhi_chan \<Rightarrow> (int \<times> mhi_chan) option" where
  "mhi_gen_tre buf cb len flags mapped ch = do {
     k \<leftarrow> ring_index (buf_ring ch) (length (buf_mem ch)) (ring_wp (buf_ring ch));
     let bi = (buf_mem ch ! k)\<lparr>v_addr := buf, cb_buf := cb, buf_wp := ring_wp (tre_ring ch), buf_len := len\<rparr>;
     case mapped of
       None \<Rightarrow> Some (- ENOMEM, ch\<lparr>buf_mem := (buf_mem ch)[k := bi]\<rparr>)
     | Some p \<Rightarrow> do {
         let tre = \<lparr>tre_ptr = p, dword0 = MHI_TRE_DATA_DWORD0 len,
           dword1 = MHI_TRE_DATA_DWORD1 (intmod ch \<noteq> 0) (flags AND MHI_EOT \<noteq> 0) (flags AND MHI_EOB \<noteq> 0) (flags AND MHI_CHAIN \<noteq> 0)\<rparr>;
         ch \<leftarrow> put_entry (bi\<lparr>p_addr := p\<rparr>) tre ch;
         Some (0, advance_wp ch) } }"

definition runtime_votes :: "'h mhi_controller \<Rightarrow> 'h mhi_controller" where
  "runtime_votes s = (if MHI_PM_IN_SUSPEND_STATE (pm_state s) then call runtime_put (call runtime_get s) else s)"

definition wants_wake :: "dma_data_direction \<Rightarrow> 'h mhi_controller \<Rightarrow> bool" where
  "wants_wake dir s \<longleftrightarrow> dir = DMA_TO_DEVICE \<or> (dir = DMA_FROM_DEVICE \<and> pm_state s \<noteq> MHI_PM_M0)"

definition count_pending :: "dma_data_direction \<Rightarrow> 'h mhi_controller \<Rightarrow> 'h mhi_controller" where
  "count_pending dir s =
     (if dir = DMA_TO_DEVICE then
        let s = s\<lparr>pending_pkts := pending_pkts s + 1\<rparr> in if pending_pkts s = 1 then call runtime_get s else s
      else s)"

definition uncount_pending :: "dma_data_direction \<Rightarrow> 'h mhi_controller \<Rightarrow> 'h mhi_controller" where
  "uncount_pending dir s =
     (if dir = DMA_TO_DEVICE then
        let s = s\<lparr>pending_pkts := pending_pkts s - 1\<rparr> in if pending_pkts s = 0 then call runtime_put s else s
      else s)"

definition mhi_queue_buf ::
    "'h mhi_dev \<Rightarrow> nat \<Rightarrow> u64 \<Rightarrow> u64 \<Rightarrow> u32 \<Rightarrow> u64 option \<Rightarrow> 'h mhi_controller \<Rightarrow> (int \<times> 'h mhi_controller) option" where
  "mhi_queue_buf b i buf len mflags mapped s = do {
     ch \<leftarrow> get_chan i s;
     if MHI_PM_IN_ERROR_STATE (pm_state s) then Some (- EIO, s)
     else if mhi_is_ring_full (tre_ring ch) then Some (- ENOMEM, s)
     else do {
       (ret, ch) \<leftarrow> mhi_gen_tre buf buf len mflags mapped ch;
       let s = set_chan i ch s;
       if ret \<noteq> 0 then Some (ret, s)
       else
         let s = runtime_votes s;
             wake = wants_wake (chan_dir ch) s;
             s = (if wake then mhi_assert_dev_wake b False s else s);
             s = count_pending (chan_dir ch) s;
             s = (if MHI_DB_ACCESS_VALID (pm_state s) then mhi_ring_chan_db b i s else s) in
         Some (0, if chan_dir ch = DMA_FROM_DEVICE \<and> wake then mhi_deassert_dev_wake b True s else s) } }"

text \<open>\<open>data\<close> is \<open>skb->data\<close>.\<close>

definition mhi_queue_skb ::
    "'h mhi_dev \<Rightarrow> nat \<Rightarrow> u64 \<Rightarrow> u64 \<Rightarrow> u64 \<Rightarrow> u64 option \<Rightarrow> 'h mhi_controller \<Rightarrow> (int \<times> 'h mhi_controller) option" where
  "mhi_queue_skb b i skb data len mapped s = do {
     ch \<leftarrow> get_chan i s;
     if mhi_is_ring_full (tre_ring ch) then Some (- ENOMEM, s)
     else if MHI_PM_IN_ERROR_STATE (pm_state s) then Some (- EIO, s)
     else
       let s = runtime_votes s;
           wake = wants_wake (chan_dir ch) s;
           s = (if wake then mhi_assert_dev_wake b False s else s) in do {
       k \<leftarrow> ring_index (buf_ring ch) (length (buf_mem ch)) (ring_wp (buf_ring ch));
       let bi = (buf_mem ch ! k)\<lparr>v_addr := data, cb_buf := skb, buf_wp := ring_wp (tre_ring ch), buf_len := len\<rparr>;
       case mapped of
         None \<Rightarrow>
           let s = set_chan i (ch\<lparr>buf_mem := (buf_mem ch)[k := bi]\<rparr>) s in
           Some (- ENOMEM, if wake then mhi_deassert_dev_wake b False s else s)
       | Some p \<Rightarrow> do {
           ch \<leftarrow> put_entry (bi\<lparr>p_addr := p\<rparr>)
             \<lparr>tre_ptr = p, dword0 = MHI_TRE_DATA_DWORD0 len, dword1 = MHI_TRE_DATA_DWORD1 True True False False\<rparr> ch;
           let s = count_pending (chan_dir ch) s;
           let s = set_chan i (advance_wp ch) s;
           let s = (if MHI_DB_ACCESS_VALID (pm_state s) then mhi_ring_chan_db b i s else s);
           Some (0, if chan_dir ch = DMA_FROM_DEVICE \<and> wake then mhi_deassert_dev_wake b True s else s) } } }"

text \<open>The buffer of \<open>mhi_queue_dma\<close> is mapped already.\<close>

definition mhi_queue_dma ::
    "'h mhi_dev \<Rightarrow> nat \<Rightarrow> u64 \<Rightarrow> u64 \<Rightarrow> u64 \<Rightarrow> 'h mhi_controller \<Rightarrow> (int \<times> 'h mhi_controller) option" where
  "mhi_queue_dma b i mhi_buf dma_addr len s = do {
     ch \<leftarrow> get_chan i s;
     if mhi_is_ring_full (tre_ring ch) then Some (- ENOMEM, s)
     else if MHI_PM_IN_ERROR_STATE (pm_state s) then Some (- EIO, s)
     else
       let s = runtime_votes s;
           wake = wants_wake (chan_dir ch) s;
           s = (if wake then mhi_assert_dev_wake b False s else s) in do {
       k \<leftarrow> ring_index (buf_ring ch) (length (buf_mem ch)) (ring_wp (buf_ring ch));
       let bi = (buf_mem ch ! k)\<lparr>p_addr := dma_addr, pre_mapped := True, cb_buf := mhi_buf, buf_wp := ring_wp (tre_ring ch), buf_len := len\<rparr>;
       ch \<leftarrow> (if rsc_dma ch then
           put_entry (bi\<lparr>buf_used := True\<rparr>)
             \<lparr>tre_ptr = MHI_RSCTRE_DATA_PTR dma_addr len, dword0 = ucast (ring_wp (buf_ring ch) - ring_base (buf_ring ch)),
              dword1 = MHI_RSCTRE_DATA_DWORD1\<rparr> ch
         else
           put_entry bi \<lparr>tre_ptr = dma_addr, dword0 = MHI_TRE_DATA_DWORD0 len, dword1 = MHI_TRE_DATA_DWORD1 True True False False\<rparr> ch);
       let s = count_pending (chan_dir ch) s;
       let s = set_chan i (advance_wp ch) s;
       let s = (if MHI_DB_ACCESS_VALID (pm_state s) then mhi_ring_chan_db b i s else s);
       Some (0, if chan_dir ch = DMA_FROM_DEVICE \<and> wake then mhi_deassert_dev_wake b True s else s) } }"

section \<open>Completions\<close>

definition advance_rp :: "mhi_chan \<Rightarrow> mhi_chan" where
  "advance_rp ch = ch\<lparr>buf_ring := mhi_del_ring_element (buf_ring ch), tre_ring := mhi_del_ring_element (tre_ring ch)\<rparr>"

text \<open>
  One round of the loop of \<open>parse_xfer_event\<close>, and the loop, which ends when the read pointer meets \<open>dev_rp\<close>.
  \<open>remap\<close> gives the result of mapping a buffer that is queued again.
\<close>

definition complete_one ::
    "'h mhi_dev \<Rightarrow> nat \<Rightarrow> int \<Rightarrow> u32 \<Rightarrow> (u64 \<Rightarrow> u64 option) \<Rightarrow> 'h mhi_controller \<Rightarrow> 'h mhi_controller option" where
  "complete_one b i status xfer_len remap s = do {
     ch \<leftarrow> get_chan i s;
     k \<leftarrow> ring_index (buf_ring ch) (length (buf_mem ch)) (ring_rp (buf_ring ch));
     let bi = buf_mem ch ! k;
     let s = (if pre_mapped bi then s else call (unmap_single (p_addr bi)) s);
     let s = set_chan i (advance_rp ch) s;
     let s = call (xfer_cb (cb_buf bi) xfer_len status) s;
     let s = uncount_pending (chan_dir ch) s;
     let s = (if chan_dir ch = DMA_TO_DEVICE then mhi_deassert_dev_wake b False s else s);
     if pre_alloc ch then do {
       (ret, s) \<leftarrow> mhi_queue_buf b i (cb_buf bi) (buf_len bi) MHI_EOT (remap (cb_buf bi)) s;
       Some (if ret \<noteq> 0 then call (kfree (cb_buf bi)) s else s) }
     else Some s }"

partial_function (option) xfer_loop ::
    "'h mhi_dev \<Rightarrow> nat \<Rightarrow> int \<Rightarrow> u32 \<Rightarrow> (u64 \<Rightarrow> u64 option) \<Rightarrow> u64 \<Rightarrow> 'h mhi_controller \<Rightarrow> 'h mhi_controller option" where
  "xfer_loop b i status xfer_len remap dev_rp s = do {
     ch \<leftarrow> get_chan i s;
     if ring_rp (tre_ring ch) = dev_rp then Some s
     else do {
       s \<leftarrow> complete_one b i status xfer_len remap s;
       xfer_loop b i status xfer_len remap dev_rp s } }"

definition parse_xfer_event ::
    "'h mhi_dev \<Rightarrow> mhi_tre \<Rightarrow> nat \<Rightarrow> (u64 \<Rightarrow> u64 option) \<Rightarrow> 'h mhi_controller \<Rightarrow> 'h mhi_controller option" where
  "parse_xfer_event b event i remap s = do {
     ch \<leftarrow> get_chan i s;
     let ev_code = MHI_TRE_GET_EV_CODE event;
     let status = (if ev_code = MHI_EV_CC_OVERFLOW then - EOVERFLOW else 0);
     if ch_state ch \<noteq> MHI_CH_STATE_ENABLED then Some s
     else if ev_code = MHI_EV_CC_OVERFLOW \<or> ev_code = MHI_EV_CC_EOB \<or> ev_code = MHI_EV_CC_EOT then
       let ev_tre = mhi_to_virtual (tre_ring ch) (tre_ptr event);
           dev_rp = ev_tre + 16;
           dev_rp = (if ring_base (tre_ring ch) + ring_len (tre_ring ch) \<le> dev_rp then ring_base (tre_ring ch) else dev_rp) in
       xfer_loop b i status (MHI_TRE_GET_EV_LEN event) remap dev_rp s
     else if ev_code = MHI_EV_CC_OOB \<or> ev_code = MHI_EV_CC_DB_MODE then
       let s = set_chan i (ch\<lparr>chan_db_cfg := (chan_db_cfg ch)\<lparr>db_mode := True\<rparr>\<rparr>) s in
       Some (if ring_wp (tre_ring ch) \<noteq> ring_rp (tre_ring ch) \<and> MHI_DB_ACCESS_VALID (pm_state s) then mhi_ring_chan_db b i s else s)
     else Some s }"

definition parse_rsc_event :: "mhi_tre \<Rightarrow> nat \<Rightarrow> 'h mhi_controller \<Rightarrow> 'h mhi_controller option" where
  "parse_rsc_event event i s = do {
     ch \<leftarrow> get_chan i s;
     let cookie = (ucast (tre_ptr event) :: u32);
     k \<leftarrow> ring_index (buf_ring ch) (length (buf_mem ch)) (ring_base (buf_ring ch) + ucast cookie);
     let bi = buf_mem ch ! k;
     let status = (if MHI_TRE_GET_EV_CODE event = MHI_EV_CC_OVERFLOW then - EOVERFLOW else 0);
     if ch_state ch \<noteq> MHI_CH_STATE_ENABLED then Some s
     else
       let s = call (xfer_cb (cb_buf bi) (MHI_TRE_GET_EV_LEN event) status) s in
       Some (set_chan i (ch\<lparr>tre_ring := mhi_del_ring_element (tre_ring ch),
                            buf_mem := (buf_mem ch)[k := bi\<lparr>buf_used := False\<rparr>]\<rparr>) s) }"

section \<open>Reset\<close>

text \<open>One round of the loop of \<open>mhi_reset_data_chan\<close>, and the loop.\<close>

definition reset_one :: "'h mhi_dev \<Rightarrow> nat \<Rightarrow> 'h mhi_controller \<Rightarrow> 'h mhi_controller option" where
  "reset_one b i s = do {
     ch \<leftarrow> get_chan i s;
     k \<leftarrow> ring_index (buf_ring ch) (length (buf_mem ch)) (ring_rp (buf_ring ch));
     let bi = buf_mem ch ! k;
     let s = uncount_pending (chan_dir ch) s;
     let s = (if chan_dir ch = DMA_TO_DEVICE then mhi_deassert_dev_wake b False s else s);
     let s = (if pre_mapped bi then s else call (unmap_single (p_addr bi)) s);
     let s = set_chan i (advance_rp ch) s;
     Some (call (if pre_alloc ch then kfree (cb_buf bi) else xfer_cb (cb_buf bi) 0 (- ENOTCONN)) s) }"

partial_function (option) mhi_reset_data_chan :: "'h mhi_dev \<Rightarrow> nat \<Rightarrow> 'h mhi_controller \<Rightarrow> 'h mhi_controller option" where
  "mhi_reset_data_chan b i s = do {
     ch \<leftarrow> get_chan i s;
     if ring_rp (tre_ring ch) = ring_wp (tre_ring ch) then Some s
     else do {
       s \<leftarrow> reset_one b i s;
       mhi_reset_data_chan b i s } }"

definition mhi_reset_rsc_chan :: "nat \<Rightarrow> 'h mhi_controller \<Rightarrow> 'h mhi_controller option" where
  "mhi_reset_rsc_chan i s = do {
     ch \<leftarrow> get_chan i s;
     let s = fold (\<lambda>bi. if buf_used bi then call (xfer_cb (cb_buf bi) 0 (- ENOTCONN)) else (\<lambda>s. s)) (buf_mem ch) s;
     Some (set_chan i (ch\<lparr>buf_mem := map (\<lambda>bi. bi\<lparr>buf_used := False\<rparr>) (buf_mem ch)\<rparr>) s) }"

text \<open>The loop of \<open>mhi_mark_stale_events\<close> over the event ring of \<open>e\<close>, from \<open>local_rp\<close> on.\<close>

partial_function (option) mark_stale_loop :: "u32 \<Rightarrow> u64 \<Rightarrow> u64 \<Rightarrow> mhi_event \<Rightarrow> mhi_event option" where
  "mark_stale_loop chid dev_rp local_rp e =
     (if dev_rp = local_rp then Some e
      else do {
        k \<leftarrow> ring_index (ev_ring e) (length (ev_mem e)) local_rp;
        let tre = ev_mem e ! k;
        let tre = (if MHI_TRE_GET_EV_TYPE tre = MHI_PKT_TYPE_TX_EVENT \<and> chid = MHI_TRE_GET_EV_CHID tre
                   then tre\<lparr>dword1 := MHI_TRE_EV_DWORD1 chid MHI_PKT_TYPE_STALE_EVENT\<rparr> else tre);
        let e = e\<lparr>ev_mem := (ev_mem e)[k := tre]\<rparr>;
        let next_rp = local_rp + 16;
        let next_rp = (if next_rp = ring_base (ev_ring e) + ring_len (ev_ring e) then ring_base (ev_ring e) else next_rp);
        mark_stale_loop chid dev_rp next_rp e })"

definition mhi_mark_stale_events :: "nat \<Rightarrow> u32 \<Rightarrow> 'h mhi_controller \<Rightarrow> 'h mhi_controller option" where
  "mhi_mark_stale_events j chid s = do {
     let e = mhi_events s ! j;
     let r = ev_ring e;
     e \<leftarrow> mark_stale_loop chid (mhi_to_virtual r (ctxt_rp r)) (ring_rp r) e;
     Some (set_event j e s) }"

definition mhi_reset_chan :: "'h mhi_dev \<Rightarrow> nat \<Rightarrow> 'h mhi_controller \<Rightarrow> 'h mhi_controller option" where
  "mhi_reset_chan b i s = do {
     ch \<leftarrow> get_chan i s;
     if offload_ch ch then Some s
     else do {
       s \<leftarrow> mhi_mark_stale_events (er_index ch) (chan ch) s;
       if rsc_dma ch then mhi_reset_rsc_chan i s else mhi_reset_data_chan b i s } }"

section \<open>Commands\<close>

text \<open>\<open>None\<close> for a missing \<open>mhi_tsync\<close> too, which the code would dereference.\<close>

definition command_tre :: "MHI_CMD \<Rightarrow> u32 \<Rightarrow> 'h mhi_controller \<Rightarrow> mhi_tre option" where
  "command_tre cmd ch s =
     (case cmd of
        MHI_CMD_RESET_CHAN \<Rightarrow> Some \<lparr>tre_ptr = 0, dword0 = 0, dword1 = MHI_TRE_CMD_RESET_DWORD1 ch\<rparr>
      | MHI_CMD_START_CHAN \<Rightarrow> Some \<lparr>tre_ptr = 0, dword0 = 0, dword1 = MHI_TRE_CMD_START_DWORD1 ch\<rparr>
      | MHI_CMD_TIMSYNC_CFG \<Rightarrow>
          map_option (\<lambda>t. \<lparr>tre_ptr = 0, dword0 = 0, dword1 = MHI_TRE_CMD_TSYNC_CFG_DWORD1 (ts_er_index t)\<rparr>) (timesync s))"

definition mhi_send_cmd :: "'h mhi_dev \<Rightarrow> nat option \<Rightarrow> MHI_CMD \<Rightarrow> 'h mhi_controller \<Rightarrow> (int \<times> 'h mhi_controller) option" where
  "mhi_send_cmd b i cmd s = do {
     let ch = (case i of None \<Rightarrow> 0 | Some i \<Rightarrow> chan (mhi_chans s ! i));
     let c = mhi_cmds s ! 0;
     if get_nr_avail_ring_elements (cmd_ring c) = 0 then Some (- ENOMEM, s)
     else do {
       tre \<leftarrow> command_tre cmd ch s;
       k \<leftarrow> ring_index (cmd_ring c) (length (cmd_mem c)) (ring_wp (cmd_ring c));
       let s = set_cmd (c\<lparr>cmd_mem := (cmd_mem c)[k := tre], cmd_ring := mhi_add_ring_element (cmd_ring c)\<rparr>) s;
       Some (0, if MHI_DB_ACCESS_VALID (pm_state s) then mhi_ring_cmd_db b s else s) } }"

text \<open>Completing a command: the channel it was for gets the code of the completion and is woken.\<close>

definition mhi_process_cmd_completion :: "mhi_tre \<Rightarrow> 'h mhi_controller \<Rightarrow> 'h mhi_controller option" where
  "mhi_process_cmd_completion tre s = do {
     let c = mhi_cmds s ! 0;
     k \<leftarrow> ring_index (cmd_ring c) (length (cmd_mem c)) (mhi_to_virtual (cmd_ring c) (tre_ptr tre));
     let cmd_pkt = cmd_mem c ! k;
     s \<leftarrow> (if MHI_TRE_GET_CMD_TYPE cmd_pkt = MHI_CMD_TYPE_TSYNC then
            map_option (\<lambda>t. s\<lparr>timesync := Some (t\<lparr>ts_ccs := MHI_TRE_GET_EV_CODE tre, ts_completed := True\<rparr>)\<rparr>) (timesync s)
          else do {
            let i = unat (MHI_TRE_GET_CMD_CHID cmd_pkt);
            ch \<leftarrow> get_chan i s;
            Some (set_chan i (ch\<lparr>ccs := MHI_TRE_GET_EV_CODE tre, completed := True\<rparr>) s) });
     Some (set_cmd (c\<lparr>cmd_ring := mhi_del_ring_element (cmd_ring c)\<rparr>) s) }"

section \<open>Starting and stopping a channel\<close>

text \<open>
  \<open>seg\<close> gives the two addresses, for the host and for the device, of the part of the control segment that the
  ring of the channel lies in; \<open>mem\<close> is the result of allocating the buffer ring. \<open>56\<close> is the size of \<open>mhi_buf_info\<close>.
\<close>

definition zero_buf :: mhi_buf_info where
  "zero_buf = \<lparr>p_addr = 0, v_addr = 0, buf_wp = 0, buf_len = 0, cb_buf = 0, buf_used = False, pre_mapped = False\<rparr>"

definition mhi_init_chan_ctxt :: "(mhi_chan \<Rightarrow> u64 \<times> u64) \<Rightarrow> u64 option \<Rightarrow> mhi_chan \<Rightarrow> int \<times> mhi_chan" where
  "mhi_init_chan_ctxt seg mem ch =
     (let r = tre_ring ch; (virt, dma) = seg ch;
          r = r\<lparr>el_size := 16, ring_len := 16 * elements r, iommu_base := dma, ring_base := virt\<rparr>;
          q = buf_ring ch;
          q = q\<lparr>el_size := 56, ring_len := 56 * elements q\<rparr> in
      case mem of
        None \<Rightarrow> (- ENOMEM, ch\<lparr>tre_ring := r, buf_ring := q\<lparr>ring_base := 0\<rparr>\<rparr>)
      | Some p \<Rightarrow>
          (0, ch\<lparr>tre_ring := r\<lparr>ctxt_rbase := iommu_base r, ctxt_rp := iommu_base r, ctxt_wp := iommu_base r,
                               ctxt_rlen := ring_len r, ring_rp := ring_base r, ring_wp := ring_base r\<rparr>,
                 buf_ring := q\<lparr>ring_base := p, ring_rp := p, ring_wp := p\<rparr>,
                 buf_mem := replicate (unat (elements q)) zero_buf, ctxt_chstate := MHI_CH_STATE_ENABLED,
                 chan_db_cfg := (chan_db_cfg ch)\<lparr>db_mode := True\<rparr>\<rparr>))"

definition mhi_deinit_chan_ctxt :: "nat \<Rightarrow> 'h mhi_controller \<Rightarrow> 'h mhi_controller" where
  "mhi_deinit_chan_ctxt i s =
     (let ch = mhi_chans s ! i; s = call (kfree (ring_base (buf_ring ch))) s in
      set_chan i (ch\<lparr>buf_ring := (buf_ring ch)\<lparr>ring_base := 0\<rparr>, buf_mem := [],
                     tre_ring := (tre_ring ch)\<lparr>ring_base := 0, ctxt_rbase := 0\<rparr>\<rparr>) s)"

text \<open>
  Waiting for the completion of a channel, while \<open>env\<close> runs: whether it was completed before the time was over.
\<close>

definition wait_completion :: "('h mhi_controller \<Rightarrow> 'h mhi_controller) \<Rightarrow> nat \<Rightarrow> 'h mhi_controller \<Rightarrow> bool \<times> 'h mhi_controller" where
  "wait_completion env i s =
     (let (r, s) = wait_state (\<lambda>s. completed (mhi_chans s ! i)) env s in
      (r, if r then set_chan i ((mhi_chans s ! i)\<lparr>completed := False\<rparr>) s else s))"

definition reinit_completion :: "nat \<Rightarrow> 'h mhi_controller \<Rightarrow> 'h mhi_controller" where
  "reinit_completion i s = set_chan i ((mhi_chans s ! i)\<lparr>completed := False\<rparr>) s"

definition mhi_unprepare_channel :: "'h mhi_dev \<Rightarrow> 'h env \<Rightarrow> nat \<Rightarrow> 'h mhi_controller \<Rightarrow> 'h mhi_controller option" where
  "mhi_unprepare_channel b env i s = do {
     ch \<leftarrow> get_chan i s;
     if ch_state ch \<noteq> MHI_CH_STATE_ENABLED then Some s
     else do {
       let s = reinit_completion i (set_chan i (ch\<lparr>ch_state := MHI_CH_STATE_DISABLED\<rparr>) s);
       s \<leftarrow> (if MHI_PM_IN_ERROR_STATE (pm_state s) then Some s
            else do {
              (ret, s) \<leftarrow> mhi_send_cmd b (Some i) MHI_CMD_RESET_CHAN (call runtime_get (mhi_assert_dev_wake b False s));
              let s = (if ret \<noteq> 0 then s else snd (wait_completion (env 0) i s));
              Some (mhi_deassert_dev_wake b False (call runtime_put s)) });
       if offload_ch (mhi_chans s ! i) then Some s
       else map_option (mhi_deinit_chan_ctxt i) (mhi_reset_chan b i s) } }"

text \<open>
  Filling the ring of a pre-allocated channel. \<open>bufs n\<close> is the result of the allocation with \<open>n\<close> more to come and \<open>remap\<close> that of
  mapping a buffer.
\<close>

fun pre_alloc_loop :: "nat \<Rightarrow> (nat \<Rightarrow> u64 option) \<Rightarrow> (u64 \<Rightarrow> u64 option) \<Rightarrow> u64 \<Rightarrow> nat \<Rightarrow> 'h mhi_controller \<Rightarrow>
    (int \<times> 'h mhi_controller) option" where
  "pre_alloc_loop 0 bufs remap len i s = Some (0, s)"
| "pre_alloc_loop (Suc n) bufs remap len i s =
     (case bufs n of
        None \<Rightarrow> Some (- ENOMEM, s)
      | Some buf \<Rightarrow> do {
          (ret, ch) \<leftarrow> mhi_gen_tre buf buf len MHI_EOT (remap buf) (mhi_chans s ! i);
          let s = set_chan i ch s;
          if ret \<noteq> 0 then Some (ret, call (kfree buf) s) else pre_alloc_loop n bufs remap len i s })"

definition mhi_prepare_channel ::
    "'h mhi_dev \<Rightarrow> 'h env \<Rightarrow> (mhi_chan \<Rightarrow> u64 \<times> u64) \<Rightarrow> u64 option \<Rightarrow> (nat \<Rightarrow> u64 option) \<Rightarrow> (u64 \<Rightarrow> u64 option) \<Rightarrow>
     nat \<Rightarrow> 'h mhi_controller \<Rightarrow> (int \<times> 'h mhi_controller) option" where
  "mhi_prepare_channel b env seg mem bufs remap i s = do {
     ch \<leftarrow> get_chan i s;
     if push_bit (unat (ee s)) 1 AND ucast (ee_mask ch) = (0 :: u64) then Some (- ENOTCONN, s)
     else if ch_state ch \<noteq> MHI_CH_STATE_DISABLED then Some (- EIO, s)
     else
       let (ret, s) = (if offload_ch ch then (0, s)
             else let (ret, ch) = mhi_init_chan_ctxt seg mem ch in (ret, set_chan i ch s)) in
       if ret \<noteq> 0 then Some (ret, s)
       else
         let s = reinit_completion i s;
             deinit = (\<lambda>s. if offload_ch (mhi_chans s ! i) then s else mhi_deinit_chan_ctxt i s);
             undo_send = (\<lambda>s. deinit (mhi_deassert_dev_wake b False (call runtime_put s))) in
         if MHI_PM_IN_ERROR_STATE (pm_state s) then Some (- EIO, deinit s)
         else do {
           (ret, s) \<leftarrow> mhi_send_cmd b (Some i) MHI_CMD_START_CHAN (call runtime_get (mhi_assert_dev_wake b False s));
           if ret \<noteq> 0 then Some (ret, undo_send s)
           else
             let (r, s) = wait_completion (env 0) i s in
             if \<not> r \<or> ccs (mhi_chans s ! i) \<noteq> MHI_EV_CC_SUCCESS then Some (- EIO, undo_send s)
             else
               let s = call runtime_put s;
                   s = set_chan i ((mhi_chans s ! i)\<lparr>ch_state := MHI_CH_STATE_ENABLED\<rparr>) s in
               if \<not> pre_alloc (mhi_chans s ! i) then Some (0, mhi_deassert_dev_wake b False s)
               else do {
                 let nr_el = get_nr_avail_ring_elements (tre_ring (mhi_chans s ! i));
                 (ret, s) \<leftarrow> (if nr_el < 0 then None else pre_alloc_loop (nat nr_el) bufs remap (buffer_len s) i s);
                 if ret \<noteq> 0 then
                   map_option (\<lambda>s. (ret, s)) (mhi_unprepare_channel b (\<lambda>k. env (1 + k)) i (mhi_deassert_dev_wake b False s))
                 else
                   let s = (if MHI_DB_ACCESS_VALID (pm_state s) then mhi_ring_chan_db b i s else s) in
                   Some (0, mhi_deassert_dev_wake b False s) } } }"

end
