(* ===== verification/MhiEvent.thy ===== *)
theory MhiEvent
  imports MhiChan
begin

text \<open>
  Event rings of the Modem Host Interface, \<^verbatim>\<open>quectel_MHI/src/core/mhi_main.c\<close>: the processing of control and of
  data events, the tasklets and interrupt handlers that start it, and the operations a client device has. The
  device adds events while the loops run: \<open>dev n\<close> is what it does before the code reads its pointer again after
  the \<open>n\<close>-th event. \<open>None\<close> stands for the same as in \<open>MhiChan\<close>.
\<close>

section \<open>Control events\<close>

abbreviation (input) ev_dev_rp :: "mhi_event \<Rightarrow> u64" where
  "ev_dev_rp e \<equiv> mhi_to_virtual (ev_ring e) (ctxt_rp (ev_ring e))"

definition state_change_event :: "'h mhi_dev \<Rightarrow> 'h env \<Rightarrow> u32 \<Rightarrow> 'h mhi_controller \<Rightarrow> 'h mhi_controller" where
  "state_change_event b env new_state s =
     (if new_state = MHI_STATE_M0 then snd (mhi_pm_m0_transition b env s)
      else if new_state = MHI_STATE_M1 then mhi_pm_m1_transition b env s
      else if new_state = MHI_STATE_M3 then snd (mhi_pm_m3_transition s)
      else if new_state = MHI_STATE_SYS_ERR then
        let (new_state, s) = mhi_tryset_pm_state MHI_PM_SYS_ERR_DETECT s in
        if new_state = MHI_PM_SYS_ERR_DETECT then call schedule_syserr_worker s else s
      else s)"

text \<open>\<open>mem\<close> says whether \<open>mhi_queue_state_transition\<close> gets its memory.\<close>

definition ee_event :: "bool \<Rightarrow> u32 \<Rightarrow> 'h mhi_controller \<Rightarrow> 'h mhi_controller" where
  "ee_event mem event s =
     (if event = MHI_EE_SBL then snd (mhi_queue_state_transition mem MHI_ST_TRANSITION_SBL s)
      else if event = MHI_EE_FP then snd (mhi_queue_state_transition mem MHI_ST_TRANSITION_FP s)
      else if event = MHI_EE_WFW \<or> event = MHI_EE_AMSS then
        snd (mhi_queue_state_transition mem MHI_ST_TRANSITION_MISSION_MODE s)
      else if event = MHI_EE_RDDM then call wake_up_all ((call (status_cb MHI_CB_EE_RDDM) s)\<lparr>ee := event\<rparr>)
      else s)"

definition ctrl_event :: "'h mhi_dev \<Rightarrow> 'h env \<Rightarrow> bool \<Rightarrow> (u64 \<Rightarrow> u64 option) \<Rightarrow> mhi_tre \<Rightarrow> 'h mhi_controller \<Rightarrow> 'h mhi_controller option" where
  "ctrl_event b env mem remap tre s =
     (let ty = MHI_TRE_GET_EV_TYPE tre; i = unat (MHI_TRE_GET_EV_CHID tre) in
      if ty = MHI_PKT_TYPE_STATE_CHANGE_EVENT then Some (state_change_event b env (MHI_TRE_GET_EV_STATE tre) s)
      else if ty = MHI_PKT_TYPE_CMD_COMPLETION_EVENT then mhi_process_cmd_completion tre s
      else if ty = MHI_PKT_TYPE_EE_EVENT then Some (ee_event mem (MHI_TRE_GET_EV_EXECENV tre) s)
      else if ty = MHI_PKT_TYPE_TX_EVENT then parse_xfer_event b tre i remap s
      else if ty = MHI_PKT_TYPE_RSC_TX_EVENT then parse_rsc_event tre i s
      else Some s)"

definition recycle_event :: "nat \<Rightarrow> 'h mhi_controller \<Rightarrow> 'h mhi_controller" where
  "recycle_event j s = set_event j ((mhi_events s ! j)\<lparr>ev_ring := mhi_recycle_ev_ring_element (ev_ring (mhi_events s ! j))\<rparr>) s"

text \<open>The loop of \<open>mhi_process_ctrl_ev_ring\<close>, after \<open>n\<close> events, and the device's pointer as last read.\<close>

partial_function (option) ctrl_loop ::
    "'h mhi_dev \<Rightarrow> (nat \<Rightarrow> 'h env) \<Rightarrow> (nat \<Rightarrow> bool) \<Rightarrow> (u64 \<Rightarrow> u64 option) \<Rightarrow> 'h env \<Rightarrow> nat \<Rightarrow> nat \<Rightarrow> u64 \<Rightarrow> 'h mhi_controller \<Rightarrow>
     (nat \<times> 'h mhi_controller) option" where
  "ctrl_loop b env mem remap dev j n dev_rp s =
     (let e = mhi_events s ! j; local_rp = ring_rp (ev_ring e) in
      if dev_rp = local_rp then Some (n, s)
      else do {
        k \<leftarrow> ring_index (ev_ring e) (length (ev_mem e)) local_rp;
        s \<leftarrow> ctrl_event b (env n) (mem n) remap (ev_mem e ! k) s;
        let s = dev n (recycle_event j s);
        ctrl_loop b env mem remap dev j (Suc n) (ev_dev_rp (mhi_events s ! j)) s })"

text \<open>What the two functions do once their loop is over.\<close>

definition finish_events :: "'h mhi_dev \<Rightarrow> nat \<Rightarrow> nat \<Rightarrow> 'h mhi_controller \<Rightarrow> int \<times> 'h mhi_controller" where
  "finish_events b j n s =
     (let e = mhi_events s ! j; count = (of_nat n :: u32);
          s = (if ev_used_elements e < count then set_event j (e\<lparr>ev_used_elements := count\<rparr>) s else s);
          s = (if MHI_DB_ACCESS_VALID (pm_state s) then mhi_ring_er_db b j s else s) in
      (sint count, s))"

definition mhi_process_ctrl_ev_ring ::
    "'h mhi_dev \<Rightarrow> (nat \<Rightarrow> 'h env) \<Rightarrow> (nat \<Rightarrow> bool) \<Rightarrow> (u64 \<Rightarrow> u64 option) \<Rightarrow> 'h env \<Rightarrow> nat \<Rightarrow> 'h mhi_controller \<Rightarrow>
     (int \<times> 'h mhi_controller) option" where
  "mhi_process_ctrl_ev_ring b env mem remap dev j s =
     (if MHI_EVENT_ACCESS_INVALID (pm_state s) then Some (- EIO, s)
      else map_option (\<lambda>(n, s). finish_events b j n s) (ctrl_loop b env mem remap dev j 0 (ev_dev_rp (mhi_events s ! j)) s))"

section \<open>Data events\<close>

text \<open>
  The loop of \<open>mhi_process_data_event_ring\<close>, with the events handled so far, the elements freed of the channel
  since the last full round (\<open>chan_count\<close>), the quota left and the device's pointer as last read.
\<close>

partial_function (option) data_loop ::
    "'h mhi_dev \<Rightarrow> (u64 \<Rightarrow> u64 option) \<Rightarrow> 'h env \<Rightarrow> nat \<Rightarrow> nat \<Rightarrow> u32 \<Rightarrow> u32 \<Rightarrow> u64 \<Rightarrow> 'h mhi_controller \<Rightarrow>
     (nat \<times> 'h mhi_controller) option" where
  "data_loop b remap dev j n chan_count event_quota dev_rp s =
     (let e = mhi_events s ! j; local_rp = ring_rp (ev_ring e) in
      if dev_rp = local_rp \<or> event_quota = 0 then Some (n, s)
      else do {
        k \<leftarrow> ring_index (ev_ring e) (length (ev_mem e)) local_rp;
        let tre = ev_mem e ! k;
        let ty = MHI_TRE_GET_EV_TYPE tre;
        let i = unat (MHI_TRE_GET_EV_CHID tre);
        ch \<leftarrow> get_chan i s;
        let chan_local_rp = ring_rp (tre_ring ch);
        (event_quota, s) \<leftarrow>
          (if ty = MHI_PKT_TYPE_TX_EVENT then map_option (\<lambda>s. (event_quota - 1, s)) (parse_xfer_event b tre i remap s)
           else if ty = MHI_PKT_TYPE_RSC_TX_EVENT then map_option (\<lambda>s. (event_quota - 1, s)) (parse_rsc_event tre i s)
           else Some (event_quota, s));
        ch \<leftarrow> get_chan i s;
        let chan_count = chan_count +
              get_used_ring_elements chan_local_rp (ring_rp (tre_ring ch)) (ucast (elements (tre_ring ch)));
        let s = recycle_event j s;
        if ring_rp (ev_ring (mhi_events s ! j)) = dev_rp \<or> event_quota = 0 then
          let s = (if used_elements ch < chan_count then set_chan i (ch\<lparr>used_elements := chan_count\<rparr>) s else s);
              s = dev n s in
          data_loop b remap dev j (Suc n) 0 event_quota (ev_dev_rp (mhi_events s ! j)) s
        else data_loop b remap dev j (Suc n) chan_count event_quota dev_rp s })"

definition mhi_process_data_event_ring ::
    "'h mhi_dev \<Rightarrow> (u64 \<Rightarrow> u64 option) \<Rightarrow> 'h env \<Rightarrow> nat \<Rightarrow> u32 \<Rightarrow> 'h mhi_controller \<Rightarrow> (int \<times> 'h mhi_controller) option" where
  "mhi_process_data_event_ring b remap dev j event_quota s =
     (if MHI_EVENT_ACCESS_INVALID (pm_state s) then Some (- EIO, s)
      else map_option (\<lambda>(n, s). finish_events b j n s)
             (data_loop b remap dev j 0 0 event_quota (ev_dev_rp (mhi_events s ! j)) s))"

section \<open>Tasklets and interrupts\<close>

text \<open>\<open>process_event\<close> is the function the event ring was set up with, already applied to the ring.\<close>

definition mhi_ev_task ::
    "(u32 \<Rightarrow> 'h mhi_controller \<Rightarrow> (int \<times> 'h mhi_controller) option) \<Rightarrow> 'h mhi_controller \<Rightarrow> 'h mhi_controller option" where
  "mhi_ev_task process_event s = map_option snd (process_event U32_MAX (call runtime_mark_last_busy s))"

definition mhi_ctrl_ev_task ::
    "'h mhi_dev \<Rightarrow> (u32 \<Rightarrow> 'h mhi_controller \<Rightarrow> (int \<times> 'h mhi_controller) option) \<Rightarrow> 'h mhi_controller \<Rightarrow> 'h mhi_controller option" where
  "mhi_ctrl_ev_task b process_event s =
     (if \<not> MHI_REG_ACCESS_VALID (pm_state s) then Some s
      else do {
        (ret, s) \<leftarrow> process_event U32_MAX (call runtime_mark_last_busy s);
        if ret \<noteq> 0 then Some s
        else
          let (state, s) = mhi_get_mhi_state b s;
              (pm, s) = (if state = MHI_STATE_SYS_ERR then mhi_tryset_pm_state MHI_PM_SYS_ERR_DETECT s else (0, s)) in
          Some (if pm = MHI_PM_SYS_ERR_DETECT then call schedule_syserr_worker s else s) })"

text \<open>\<open>has_dev\<close> says whether the channel of a ring its client manages has a device.\<close>

definition mhi_msi_handlr :: "bool \<Rightarrow> nat \<Rightarrow> 'h mhi_controller \<Rightarrow> 'h mhi_controller" where
  "mhi_msi_handlr has_dev j s =
     (let e = mhi_events s ! j in
      if ring_rp (ev_ring e) = ev_dev_rp e then s
      else if cl_manage e then (if has_dev then call (mhi_notify MHI_CB_PENDING_DATA) s else s)
      else call (tasklet_schedule j) s)"

definition mhi_intvec_handlr :: "'h mhi_controller \<Rightarrow> 'h mhi_controller" where
  "mhi_intvec_handlr s = call wake_up_all s"

definition mhi_one_msi_handlr :: "'h mhi_dev \<Rightarrow> 'h env \<Rightarrow> (nat \<Rightarrow> bool) \<Rightarrow> 'h mhi_controller \<Rightarrow> 'h mhi_controller" where
  "mhi_one_msi_handlr b env has_dev s =
     (let (handle, s) = fold (\<lambda>j (handle, s).
            let e = mhi_events s ! j in
            if ring_rp (ev_ring e) \<noteq> ev_dev_rp e then (handle + 1, mhi_msi_handlr (has_dev j) j s) else (handle, s))
          [0..<unat NUM_MHI_EVT_RINGS] ((0::u32), s) in
      if handle = 0 then mhi_intvec_threaded_handlr b env s else s)"

section \<open>Client operations\<close>

text \<open>The channels of a client device, by their number.\<close>

record mhi_client =
  ul_chan :: "nat option"
  dl_chan :: "nat option"

text \<open>\<open>prepare\<close> is \<open>mhi_prepare_channel\<close> with what it is given for the channel, \<open>unprepare\<close> its counterpart.\<close>

definition mhi_prepare_for_transfer ::
    "(nat \<Rightarrow> 'h mhi_controller \<Rightarrow> (int \<times> 'h mhi_controller) option) \<Rightarrow> (nat \<Rightarrow> 'h mhi_controller \<Rightarrow> 'h mhi_controller option) \<Rightarrow>
     mhi_client \<Rightarrow> 'h mhi_controller \<Rightarrow> (int \<times> 'h mhi_controller) option" where
  "mhi_prepare_for_transfer prepare unprepare d s = do {
     (ret, s) \<leftarrow> (case ul_chan d of None \<Rightarrow> Some (0, s) | Some i \<Rightarrow> prepare i s);
     if ret \<noteq> 0 then Some (ret, s)
     else if ul_chan d \<noteq> None \<and> dl_chan d = ul_chan d then Some (0, s)
     else do {
       (ret, s) \<leftarrow> (case dl_chan d of None \<Rightarrow> Some (0, s) | Some i \<Rightarrow> prepare i s);
       if ret = 0 then Some (0, s)
       else do {
         s \<leftarrow> (case ul_chan d of None \<Rightarrow> Some s | Some i \<Rightarrow> unprepare i s);
         Some (ret, s) } } }"

definition mhi_unprepare_from_transfer ::
    "(nat \<Rightarrow> 'h mhi_controller \<Rightarrow> 'h mhi_controller option) \<Rightarrow> mhi_client \<Rightarrow> 'h mhi_controller \<Rightarrow> 'h mhi_controller option" where
  "mhi_unprepare_from_transfer unprepare d s = do {
     s \<leftarrow> (case dl_chan d of None \<Rightarrow> Some s | Some i \<Rightarrow> unprepare i s);
     if dl_chan d \<noteq> None \<and> dl_chan d = ul_chan d then Some s
     else case ul_chan d of None \<Rightarrow> Some s | Some i \<Rightarrow> unprepare i s }"

definition mhi_get_no_free_descriptors :: "mhi_client \<Rightarrow> dma_data_direction \<Rightarrow> 'h mhi_controller \<Rightarrow> int option" where
  "mhi_get_no_free_descriptors d dir s = do {
     i \<leftarrow> (if dir = DMA_TO_DEVICE then ul_chan d else dl_chan d);
     ch \<leftarrow> get_chan i s;
     Some (if offload_ch ch then 0 else get_nr_avail_ring_elements (tre_ring ch)) }"

definition mhi_poll ::
    "(nat \<Rightarrow> u32 \<Rightarrow> 'h mhi_controller \<Rightarrow> (int \<times> 'h mhi_controller) option) \<Rightarrow> mhi_client \<Rightarrow> u32 \<Rightarrow> 'h mhi_controller \<Rightarrow>
     (int \<times> 'h mhi_controller) option" where
  "mhi_poll process_event d budget s = do {
     i \<leftarrow> dl_chan d;
     ch \<leftarrow> get_chan i s;
     process_event (er_index ch) budget s }"

end
