(* ===== verification/MhiChanProps.thy ===== *)
theory MhiChanProps
  imports MhiChan Ring MhiPmProps
begin

text \<open>
  The rings of a channel are one bounded queue of buffers: what queueing, completing and resetting do to the
  list of buffers that wait for the device, and what a pointer of the device that is not in the ring does to it.
\<close>

section \<open>Positions in a ring\<close>

definition ring_wf :: "mhi_ring \<Rightarrow> nat \<Rightarrow> bool" where
  "ring_wf r n \<longleftrightarrow> 0 < n \<and> 0 < el_size r \<and> ring_len r = of_nat n * el_size r \<and>
     unat (ring_base r) + n * unat (el_size r) < 2 ^ 64"

definition ring_pos :: "mhi_ring \<Rightarrow> nat \<Rightarrow> u64" where
  "ring_pos r k = ring_base r + of_nat k * el_size r"

lemma ring_pos_cong [simp]:
  "ring_pos (r\<lparr>ring_wp := x\<rparr>) = ring_pos r" "ring_pos (r\<lparr>ring_rp := x\<rparr>) = ring_pos r" "ring_pos (r\<lparr>ctxt_wp := x\<rparr>) = ring_pos r"
  "ring_wf (r\<lparr>ring_wp := x\<rparr>) = ring_wf r" "ring_wf (r\<lparr>ring_rp := x\<rparr>) = ring_wf r" "ring_wf (r\<lparr>ctxt_wp := x\<rparr>) = ring_wf r"
  by (simp_all add: ring_pos_def ring_wf_def fun_eq_iff)

lemma unat_offset:
  assumes "ring_wf r n" "k \<le> n"
  shows "unat (of_nat k * el_size r) = k * unat (el_size r)"
proof -
  have e: "1 \<le> unat (el_size r)" using assms(1) by (simp add: ring_wf_def word_less_nat_alt)
  have "k * unat (el_size r) \<le> n * unat (el_size r)" using assms(2) by simp
  moreover have "k * 1 \<le> k * unat (el_size r)" using e by (rule mult_le_mono2)
  ultimately have "k * unat (el_size r) < 2 ^ 64" "k < 2 ^ 64" using assms(1) unfolding ring_wf_def by linarith+
  then show ?thesis by (simp add: unat_word_ariths unat_of_nat take_bit_eq_mod)
qed

lemma unat_ring_pos:
  assumes "ring_wf r n" "k \<le> n"
  shows "unat (ring_pos r k) = unat (ring_base r) + k * unat (el_size r)"
proof -
  have "k * unat (el_size r) \<le> n * unat (el_size r)" using assms(2) by simp
  then have "unat (ring_base r) + k * unat (el_size r) < 2 ^ 64" using assms(1) unfolding ring_wf_def by linarith
  then show ?thesis using unat_offset [OF assms] by (simp add: ring_pos_def unat_word_ariths)
qed

lemma ring_end: "ring_wf r n \<Longrightarrow> ring_base r + ring_len r = ring_pos r n"
  by (simp add: ring_wf_def ring_pos_def)

lemma ring_pos_Suc: "ring_pos r k + el_size r = ring_pos r (Suc k)"
  by (simp add: ring_pos_def algebra_simps)

lemma ring_pos_le: "ring_wf r n \<Longrightarrow> j \<le> n \<Longrightarrow> k \<le> n \<Longrightarrow> ring_pos r j \<le> ring_pos r k \<longleftrightarrow> j \<le> k"
  by (simp add: word_le_nat_alt unat_ring_pos) (simp add: ring_wf_def word_less_nat_alt)

lemma ring_pos_eq: "ring_wf r n \<Longrightarrow> j \<le> n \<Longrightarrow> k \<le> n \<Longrightarrow> ring_pos r j = ring_pos r k \<longleftrightarrow> j = k"
  using ring_pos_le [of r n j k] ring_pos_le [of r n k j] by (metis le_antisym order_refl)

lemma ring_index_pos: "ring_wf r n \<Longrightarrow> k < n \<Longrightarrow> ring_index r n (ring_pos r k) = Some k"
proof -
  assume a: "ring_wf r n" "k < n"
  have "ring_pos r k - ring_base r = of_nat k * el_size r" by (simp add: ring_pos_def)
  then have "unat (ring_pos r k - ring_base r) = k * unat (el_size r)" using unat_offset [of r n k] a by simp
  moreover have "0 < unat (el_size r)" using a(1) by (simp add: ring_wf_def word_less_nat_alt)
  ultimately show ?thesis using a(2) by (simp add: ring_index_def Let_def)
qed

lemma wrap_pos:
  assumes "ring_wf r n" "k < n"
  shows "(let p = ring_pos r k + el_size r in if ring_base r + ring_len r \<le> p then ring_base r else p) = ring_pos r (Suc k mod n)"
  using assms ring_pos_le [of r n n "Suc k"]
  by (cases "Suc k = n") (simp_all add: Let_def ring_end ring_pos_Suc, simp add: ring_pos_def)

lemma add_ring_element:
  "ring_wf r n \<Longrightarrow> k < n \<Longrightarrow> ring_wp r = ring_pos r k \<Longrightarrow> mhi_add_ring_element r = r\<lparr>ring_wp := ring_pos r (Suc k mod n)\<rparr>"
  using wrap_pos [of r n k] by (simp add: mhi_add_ring_element_def Let_def)

lemma del_ring_element:
  "ring_wf r n \<Longrightarrow> k < n \<Longrightarrow> ring_rp r = ring_pos r k \<Longrightarrow> mhi_del_ring_element r = r\<lparr>ring_rp := ring_pos r (Suc k mod n)\<rparr>"
  using wrap_pos [of r n k] by (simp add: mhi_del_ring_element_def Let_def)

lemma ring_full:
  "ring_wf r n \<Longrightarrow> k < n \<Longrightarrow> j < n \<Longrightarrow> ring_wp r = ring_pos r k \<Longrightarrow> ring_rp r = ring_pos r j \<Longrightarrow>
   mhi_is_ring_full r \<longleftrightarrow> Suc k mod n = j"
  using wrap_pos [of r n k] ring_pos_eq [of r n "Suc k mod n" j]
  by (simp add: mhi_is_ring_full_def Let_def less_imp_le)

section \<open>The queue of a channel\<close>

definition chan_at :: "nat \<Rightarrow> nat \<Rightarrow> nat \<Rightarrow> mhi_chan \<Rightarrow> bool" where
  "chan_at n r w ch \<longleftrightarrow> ring_wf (tre_ring ch) n \<and> ring_wf (buf_ring ch) n \<and> length (tre_mem ch) = n \<and> length (buf_mem ch) = n \<and>
     r < n \<and> w < n \<and> ring_rp (tre_ring ch) = ring_pos (tre_ring ch) r \<and> ring_wp (tre_ring ch) = ring_pos (tre_ring ch) w \<and>
     ring_rp (buf_ring ch) = ring_pos (buf_ring ch) r \<and> ring_wp (buf_ring ch) = ring_pos (buf_ring ch) w"

text \<open>The positions, computed from the pointers, and the buffers between them.\<close>

definition rp_of :: "mhi_chan \<Rightarrow> nat" where
  "rp_of ch = unat (ring_rp (buf_ring ch) - ring_base (buf_ring ch)) div unat (el_size (buf_ring ch))"

definition wp_of :: "mhi_chan \<Rightarrow> nat" where
  "wp_of ch = unat (ring_wp (buf_ring ch) - ring_base (buf_ring ch)) div unat (el_size (buf_ring ch))"

definition chan_ok :: "mhi_chan \<Rightarrow> bool" where
  "chan_ok ch \<longleftrightarrow> chan_at (length (buf_mem ch)) (rp_of ch) (wp_of ch) ch"

definition pending :: "mhi_chan \<Rightarrow> mhi_buf_info list" where
  "pending ch = ring_view (buf_mem ch) (rp_of ch) ((wp_of ch + length (buf_mem ch) - rp_of ch) mod length (buf_mem ch))"

lemma pos_of:
  assumes "ring_wf r n" "k < n"
  shows "unat (ring_pos r k - ring_base r) div unat (el_size r) = k"
  using ring_index_pos [OF assms] by (simp add: ring_index_def Let_def split: if_splits)

lemma chan_atD: "chan_at n r w ch \<Longrightarrow> length (buf_mem ch) = n \<and> rp_of ch = r \<and> wp_of ch = w"
  using pos_of [of "buf_ring ch" n r] pos_of [of "buf_ring ch" n w] by (simp add: chan_at_def rp_of_def wp_of_def)

lemma chan_at_ok: "chan_at n r w ch \<Longrightarrow> chan_ok ch"
  using chan_atD [of n r w ch] by (simp add: chan_ok_def)

lemma chan_at_pending: "chan_at n r w ch \<Longrightarrow> pending ch = ring_view (buf_mem ch) r ((w + n - r) mod n)"
  using chan_atD [of n r w ch] by (simp add: pending_def)

lemma chan_okE:
  assumes "chan_ok ch"
  obtains n r w where "chan_at n r w ch" "r < n" "w < n" "pending ch = ring_view (buf_mem ch) r ((w + n - r) mod n)"
    "length (pending ch) = (w + n - r) mod n" "length (buf_mem ch) = n"
proof -
  have at: "chan_at (length (buf_mem ch)) (rp_of ch) (wp_of ch) ch" using assms by (simp add: chan_ok_def)
  then have "rp_of ch < length (buf_mem ch)" "wp_of ch < length (buf_mem ch)" by (simp_all add: chan_at_def)
  with at show thesis by (rule that) (simp_all add: pending_def)
qed

lemma ring_count:
  fixes n r w :: nat
  assumes "r < n" "w < n"
  shows "(w + n - r) mod n = (if r \<le> w then w - r else w + n - r)"
  using assms by (auto simp: mod_if)

lemma Suc_mod: "w < n \<Longrightarrow> Suc w mod n = (if Suc w = n then 0 else Suc w)" for n w :: nat
  by simp

lemma ring_count_less: "r < n \<Longrightarrow> (w + n - r) mod n < n" for n r w :: nat
  by simp

lemma ring_count_end:
  fixes n r w :: nat
  assumes "r < n" "w < n"
  shows "(r + (w + n - r) mod n) mod n = w"
  using assms by (simp add: ring_count)

lemma ring_count_Suc:
  fixes n r w :: nat
  assumes "r < n" "w < n" "Suc w mod n \<noteq> r"
  shows "(Suc w mod n + n - r) mod n = Suc ((w + n - r) mod n)"
  using assms by (simp add: ring_count Suc_mod split: if_splits) linarith

lemma ring_count_rp:
  fixes n r w :: nat
  assumes "r < n" "w < n" "r \<noteq> w"
  shows "(w + n - r) mod n = Suc ((w + n - Suc r mod n) mod n)"
  using assms by (simp add: ring_count Suc_mod split: if_splits) linarith

lemma chan_at_advance_wp:
  assumes "chan_at n r w ch"
  shows "chan_at n r (Suc w mod n) (advance_wp ch)"
  using assms by (auto simp: chan_at_def advance_wp_def add_ring_element)

lemma chan_at_advance_rp:
  assumes "chan_at n r w ch"
  shows "chan_at n (Suc r mod n) w (advance_rp ch)"
  using assms by (auto simp: chan_at_def advance_rp_def del_ring_element)

lemma chan_at_mem:
  "chan_at n r w ch \<Longrightarrow> length bm = n \<Longrightarrow> length tm = n \<Longrightarrow> chan_at n r w (ch\<lparr>buf_mem := bm, tre_mem := tm\<rparr>)"
  by (simp add: chan_at_def)

lemma chan_index:
  assumes "chan_at n r w ch"
  shows "ring_index (buf_ring ch) (length (buf_mem ch)) (ring_wp (buf_ring ch)) = Some w"
    "ring_index (tre_ring ch) (length (tre_mem ch)) (ring_wp (tre_ring ch)) = Some w"
    "ring_index (buf_ring ch) (length (buf_mem ch)) (ring_rp (buf_ring ch)) = Some r"
  using assms by (simp_all add: chan_at_def ring_index_pos)

lemma chan_full: "chan_at n r w ch \<Longrightarrow> mhi_is_ring_full (tre_ring ch) \<longleftrightarrow> Suc w mod n = r"
  by (simp add: chan_at_def ring_full)

lemma chan_full_pending: "chan_ok ch \<Longrightarrow> mhi_is_ring_full (tre_ring ch) \<longleftrightarrow> length (pending ch) = length (buf_mem ch) - 1"
proof (elim chan_okE)
  fix n r w
  assume a: "chan_at n r w ch" "r < n" "w < n" "length (pending ch) = (w + n - r) mod n" "length (buf_mem ch) = n"
  have "Suc w mod n = r \<longleftrightarrow> (w + n - r) mod n = n - 1"
    using a(2,3) by (auto simp: ring_count Suc_mod split: if_splits)
  with a show ?thesis by (simp add: chan_full)
qed

lemma chan_empty: "chan_ok ch \<Longrightarrow> ring_rp (tre_ring ch) = ring_wp (tre_ring ch) \<longleftrightarrow> pending ch = []"
proof (elim chan_okE)
  fix n r w
  assume a: "chan_at n r w ch" "r < n" "w < n" "length (pending ch) = (w + n - r) mod n"
  have "ring_rp (tre_ring ch) = ring_wp (tre_ring ch) \<longleftrightarrow> r = w"
    using a(1) ring_pos_eq [of "tre_ring ch" n r w] by (auto simp: chan_at_def)
  also have "\<dots> \<longleftrightarrow> length (pending ch) = 0" using a by (auto simp: ring_count)
  finally show ?thesis by simp
qed

lemma chan_put_entry:
  assumes "chan_ok ch" "\<not> mhi_is_ring_full (tre_ring ch)"
  shows "\<exists>ch'. put_entry bi tre ch = Some ch' \<and> chan_ok (advance_wp ch') \<and> pending (advance_wp ch') = pending ch @ [bi] \<and>
    length (buf_mem (advance_wp ch')) = length (buf_mem ch) \<and> tre_mem (advance_wp ch') ! wp_of ch = tre"
proof -
  obtain n r w where at: "chan_at n r w ch" "r < n" "w < n" "pending ch = ring_view (buf_mem ch) r ((w + n - r) mod n)"
    "length (buf_mem ch) = n" using assms(1) by (rule chan_okE)
  define ch' where "ch' = ch\<lparr>buf_mem := (buf_mem ch)[w := bi], tre_mem := (tre_mem ch)[w := tre]\<rparr>"
  have put: "put_entry bi tre ch = Some ch'" using chan_index [OF at(1)] by (simp add: put_entry_def ch'_def)
  have "chan_at n r w ch'" using at(1) unfolding ch'_def by (intro chan_at_mem) (simp_all add: chan_at_def)
  then have at': "chan_at n r (Suc w mod n) (advance_wp ch')" by (rule chan_at_advance_wp)
  have room: "Suc w mod n \<noteq> r" using assms(2) chan_full [OF at(1)] by simp
  define k where "k = (w + n - r) mod n"
  have k: "k < n" "w = (r + k) mod n" "(Suc w mod n + n - r) mod n = Suc k"
    using at(2,3) ring_count_end [of r n w] ring_count_Suc [OF at(2,3) room] by (simp_all add: k_def)
  have "pending (advance_wp ch') = ring_view ((buf_mem ch)[w := bi]) r (Suc k)"
    using chan_at_pending [OF at'] k(3) by (simp add: ch'_def advance_wp_def)
  also have "\<dots> = pending ch @ [bi]"
    unfolding at(4) k_def [symmetric] using k(1,2) at(5) by (intro ring_view_update) simp_all
  finally show ?thesis using put chan_at_ok [OF at'] chan_atD [OF at(1)] at
    by (simp add: ch'_def advance_wp_def chan_at_def)
qed

lemma chan_advance_rp:
  assumes "chan_ok ch" "pending ch = bi # bis"
  shows "ring_index (buf_ring ch) (length (buf_mem ch)) (ring_rp (buf_ring ch)) = Some (rp_of ch)"
    "buf_mem ch ! rp_of ch = bi" "chan_ok (advance_rp ch)" "pending (advance_rp ch) = bis"
    "length (buf_mem (advance_rp ch)) = length (buf_mem ch)"
proof -
  obtain n r w where at: "chan_at n r w ch" "r < n" "w < n" "pending ch = ring_view (buf_mem ch) r ((w + n - r) mod n)"
    "length (buf_mem ch) = n" using assms(1) by (rule chan_okE)
  have r: "rp_of ch = r" using chan_atD [OF at(1)] by simp
  have at': "chan_at n (Suc r mod n) w (advance_rp ch)" using at(1) by (rule chan_at_advance_rp)
  have ne: "r \<noteq> w" using assms(2) at by auto
  have k: "(w + n - r) mod n = Suc ((w + n - Suc r mod n) mod n)"
    using at(2,3) ne by (rule ring_count_rp)
  have v: "bi # bis = buf_mem ch ! r # ring_view (buf_mem ch) (Suc r) ((w + n - Suc r mod n) mod n)"
    unfolding assms(2) [symmetric] at(4) k ring_view_Suc using at(2,5) by simp
  moreover have "ring_view (buf_mem ch) (Suc r) m = ring_view (buf_mem ch) (Suc r mod n) m" for m
    using at(5) by (intro ring_view_cong) simp
  ultimately show "pending (advance_rp ch) = bis" "buf_mem ch ! rp_of ch = bi"
    using chan_at_pending [OF at'] r by (simp_all add: advance_rp_def)
  show "ring_index (buf_ring ch) (length (buf_mem ch)) (ring_rp (buf_ring ch)) = Some (rp_of ch)"
    using chan_index(3) [OF at(1)] r by simp
  show "chan_ok (advance_rp ch)" by (rule chan_at_ok [OF at'])
  show "length (buf_mem (advance_rp ch)) = length (buf_mem ch)" by (simp add: advance_rp_def)
qed

section \<open>What the operations leave alone\<close>

definition is_hand_back :: "mhi_call \<Rightarrow> bool" where
  "is_hand_back c = (case c of xfer_cb _ _ _ \<Rightarrow> True | kfree _ \<Rightarrow> True | _ \<Rightarrow> False)"

text \<open>The buffers given back to their owner, in order: completed by a callback or freed.\<close>

definition handed_back :: "'h mhi_controller \<Rightarrow> mhi_call list" where
  "handed_back s = filter is_hand_back (call_log s)"

lemma get_chan_simps [simp]:
  "get_chan i (call c s) = get_chan i s"
  "get_chan i (s\<lparr>pending_pkts := n\<rparr>) = get_chan i s"
  "get_chan i (s\<lparr>hw := h\<rparr>) = get_chan i s"
  by (simp_all add: get_chan_def call_def)

lemma get_chan_set [simp]:
  "get_chan i (set_chan j ch s) = (if i = j then map_option (\<lambda>_. ch) (get_chan i s) else get_chan i s)"
  by (auto simp: get_chan_def set_chan_def)

lemma get_chan_nth: "get_chan i s = Some ch \<Longrightarrow> mhi_chans s ! i = ch"
  by (simp add: get_chan_def split: if_splits)

lemma handed_back_simps [simp]:
  "handed_back (call c s) = handed_back s @ (if is_hand_back c then [c] else [])"
  "handed_back (set_chan i ch s) = handed_back s"
  "handed_back (s\<lparr>pending_pkts := n\<rparr>) = handed_back s"
  "handed_back (s\<lparr>hw := h\<rparr>) = handed_back s"
  by (simp_all add: handed_back_def call_def set_chan_def)

lemma is_hand_back_simps [simp]:
  "is_hand_back (xfer_cb a l t)" "is_hand_back (kfree a)" "\<not> is_hand_back runtime_get" "\<not> is_hand_back runtime_put"
  "\<not> is_hand_back (unmap_single a)"
  by (simp_all add: is_hand_back_def)

lemma pm_state_calls [simp]:
  "pm_state (call c s) = pm_state s" "pm_state (set_chan i ch s) = pm_state s"
  "pending_pkts (call c s) = pending_pkts s" "pending_pkts (set_chan i ch s) = pending_pkts s"
  by (simp_all add: call_def set_chan_def)

lemma write_db_kept [simp]:
  "get_chan i (mhi_write_db b a wp s) = get_chan i s" "handed_back (mhi_write_db b a wp s) = handed_back s"
  "pending_pkts (mhi_write_db b a wp s) = pending_pkts s" "pm_state (mhi_write_db b a wp s) = pm_state s"
  by (simp_all add: mhi_write_db_def mhi_write_reg_def)

lemma wake_kept [simp]:
  "get_chan i (mhi_assert_dev_wake b f s) = get_chan i s" "handed_back (mhi_assert_dev_wake b f s) = handed_back s"
  "pending_pkts (mhi_assert_dev_wake b f s) = pending_pkts s" "pm_state (mhi_assert_dev_wake b f s) = pm_state s"
  "mhi_deassert_dev_wake b f s = s"
  by (simp_all add: mhi_assert_dev_wake_def mhi_deassert_dev_wake_def)

lemma count_kept [simp]:
  "get_chan i (count_pending d s) = get_chan i s" "handed_back (count_pending d s) = handed_back s"
  "get_chan i (uncount_pending d s) = get_chan i s" "handed_back (uncount_pending d s) = handed_back s"
  "pm_state (count_pending d s) = pm_state s" "pm_state (uncount_pending d s) = pm_state s"
  "pending_pkts (count_pending d s) = pending_pkts s + of_bool (d = DMA_TO_DEVICE)"
  "pending_pkts (uncount_pending d s) = pending_pkts s - of_bool (d = DMA_TO_DEVICE)"
  by (simp_all add: count_pending_def uncount_pending_def Let_def)

lemma runtime_votes_kept [simp]:
  "get_chan i (runtime_votes s) = get_chan i s" "handed_back (runtime_votes s) = handed_back s"
  "pending_pkts (runtime_votes s) = pending_pkts s" "pm_state (runtime_votes s) = pm_state s"
  by (simp_all add: runtime_votes_def)

text \<open>What one channel keeps when only its doorbell is rung.\<close>

definition same_queue :: "mhi_chan \<Rightarrow> mhi_chan \<Rightarrow> bool" where
  "same_queue ch ch' \<longleftrightarrow> (\<exists>x c. ch' = ch\<lparr>tre_ring := (tre_ring ch)\<lparr>ctxt_wp := x\<rparr>, chan_db_cfg := c\<rparr>)"

lemma chan_at_same: "same_queue ch ch' \<Longrightarrow> chan_at n r w ch' = chan_at n r w ch"
  by (auto simp: same_queue_def chan_at_def)

lemma same_queueD:
  assumes "same_queue ch ch'"
  shows "chan_ok ch' = chan_ok ch" "pending ch' = pending ch" "buf_mem ch' = buf_mem ch" "tre_mem ch' = tre_mem ch"
    "rp_of ch' = rp_of ch" "wp_of ch' = wp_of ch"
    "ring_rp (tre_ring ch') = ring_rp (tre_ring ch)" "ring_pos (tre_ring ch') = ring_pos (tre_ring ch)"
  using assms chan_at_same [OF assms]
  by (auto simp: same_queue_def chan_ok_def pending_def rp_of_def wp_of_def)

lemma ring_chan_db_kept:
  "handed_back (mhi_ring_chan_db b i s) = handed_back s" "pending_pkts (mhi_ring_chan_db b i s) = pending_pkts s"
  "pm_state (mhi_ring_chan_db b i s) = pm_state s"
  "j \<noteq> i \<Longrightarrow> get_chan j (mhi_ring_chan_db b i s) = get_chan j s"
  by (auto simp: mhi_ring_chan_db_def process_db_def mhi_db_brstmode_def mhi_db_brstmode_disable_def Let_def split: prod.splits if_splits)

lemma process_db_kept:
  "process_db b c a wp s = (c', s') \<Longrightarrow> get_chan i s' = get_chan i s"
  by (auto simp: process_db_def mhi_db_brstmode_def mhi_db_brstmode_disable_def split: if_splits)

lemma ring_chan_db_same:
  assumes "get_chan i s = Some ch"
  shows "\<exists>ch'. get_chan i (mhi_ring_chan_db b i s) = Some ch' \<and> same_queue ch ch'"
proof -
  define db where "db = iommu_base (tre_ring ch) + (ring_wp (tre_ring ch) - ring_base (tre_ring ch))"
  obtain c s1 where c: "process_db b (chan_db_cfg ch) (db_addr (tre_ring ch)) db s = (c, s1)" by fastforce
  then have "get_chan i s1 = Some ch" using process_db_kept [OF c] assms by simp
  moreover have "mhi_ring_chan_db b i s = set_chan i (ch\<lparr>tre_ring := (tre_ring ch)\<lparr>ctxt_wp := db\<rparr>, chan_db_cfg := c\<rparr>) s1"
    using c get_chan_nth [OF assms] by (simp add: mhi_ring_chan_db_def Let_def db_def)
  ultimately show ?thesis by (auto simp: same_queue_def)
qed

section \<open>Completing and resetting\<close>

lemma advance_rp_simps [simp]:
  "chan_dir (advance_rp ch) = chan_dir ch" "pre_alloc (advance_rp ch) = pre_alloc ch" "ch_state (advance_rp ch) = ch_state ch"
  "ring_pos (tre_ring (advance_rp ch)) = ring_pos (tre_ring ch)" "length (buf_mem (advance_rp ch)) = length (buf_mem ch)"
  by (simp_all add: advance_rp_def mhi_del_ring_element_def Let_def)

lemma complete_one_spec:
  assumes "get_chan i s = Some ch" "chan_ok ch" "pending ch = bi # bis" "\<not> pre_alloc ch"
  shows "\<exists>s'. complete_one b i status len remap s = Some s' \<and> get_chan i s' = Some (advance_rp ch) \<and>
    (\<forall>j. j \<noteq> i \<longrightarrow> get_chan j s' = get_chan j s) \<and>
    handed_back s' = handed_back s @ [xfer_cb (cb_buf bi) len status] \<and>
    pending_pkts s' = pending_pkts s - of_bool (chan_dir ch = DMA_TO_DEVICE)"
  using assms chan_advance_rp(1,2) [OF assms(2,3)] by (simp add: complete_one_def Let_def)

lemma reset_one_spec:
  assumes "get_chan i s = Some ch" "chan_ok ch" "pending ch = bi # bis"
  shows "\<exists>s'. reset_one b i s = Some s' \<and> get_chan i s' = Some (advance_rp ch) \<and>
    (\<forall>j. j \<noteq> i \<longrightarrow> get_chan j s' = get_chan j s) \<and>
    handed_back s' = handed_back s @ [if pre_alloc ch then kfree (cb_buf bi) else xfer_cb (cb_buf bi) 0 (- ENOTCONN)] \<and>
    pending_pkts s' = pending_pkts s - of_bool (chan_dir ch = DMA_TO_DEVICE)"
  using assms chan_advance_rp(1,2) [OF assms(2,3)] by (simp add: reset_one_def Let_def)

lemma rp_of_advance:
  assumes "chan_ok ch"
  shows "rp_of (advance_rp ch) = Suc (rp_of ch) mod length (buf_mem ch)"
  using chan_at_advance_rp [of "length (buf_mem ch)" "rp_of ch" "wp_of ch" ch] assms chan_atD unfolding chan_ok_def by blast

lemma rp_pos: "chan_ok ch \<Longrightarrow> ring_rp (tre_ring ch) = ring_pos (tre_ring ch) (rp_of ch)"
  by (simp add: chan_ok_def chan_at_def)

lemma pending_less: "chan_ok ch \<Longrightarrow> length (pending ch) < length (buf_mem ch)"
  by (elim chan_okE) simp

lemma rp_pos_eq:
  assumes "chan_ok ch" "m < length (buf_mem ch)"
  shows "ring_rp (tre_ring ch) = ring_pos (tre_ring ch) ((rp_of ch + m) mod length (buf_mem ch)) \<longleftrightarrow> m = 0"
proof -
  have at: "ring_wf (tre_ring ch) (length (buf_mem ch))" "rp_of ch < length (buf_mem ch)"
    using assms(1) by (simp_all add: chan_ok_def chan_at_def)
  have "(rp_of ch + m) mod length (buf_mem ch) < length (buf_mem ch)" using at(2) by (intro mod_less_divisor) linarith
  then have "ring_rp (tre_ring ch) = ring_pos (tre_ring ch) ((rp_of ch + m) mod length (buf_mem ch)) \<longleftrightarrow>
      rp_of ch = (rp_of ch + m) mod length (buf_mem ch)"
    using ring_pos_eq [OF at(1), of "rp_of ch" "(rp_of ch + m) mod length (buf_mem ch)"] at(2) rp_pos [OF assms(1)] by simp
  also have "\<dots> \<longleftrightarrow> m = 0" using ring_pos_inj [of "rp_of ch" 0 "length (buf_mem ch)" m] at(2) assms(2) by fastforce
  finally show ?thesis .
qed

lemma xfer_loop_completes:
  assumes "get_chan i s = Some ch" "chan_ok ch" "\<not> pre_alloc ch" "m \<le> length (pending ch)"
  shows "\<exists>s' ch'. xfer_loop b i status len remap (ring_pos (tre_ring ch) ((rp_of ch + m) mod length (buf_mem ch))) s = Some s' \<and>
    get_chan i s' = Some ch' \<and> chan_ok ch' \<and> pending ch' = drop m (pending ch) \<and>
    (\<forall>j. j \<noteq> i \<longrightarrow> get_chan j s' = get_chan j s) \<and>
    handed_back s' = handed_back s @ map (\<lambda>bi. xfer_cb (cb_buf bi) len status) (take m (pending ch)) \<and>
    pending_pkts s' = pending_pkts s - (if chan_dir ch = DMA_TO_DEVICE then int m else 0)"
  using assms
proof (induction m arbitrary: s ch)
  case 0
  then have "ring_rp (tre_ring ch) = ring_pos (tre_ring ch) ((rp_of ch + 0) mod length (buf_mem ch))"
    using rp_pos_eq [of ch 0] pending_less [of ch] by linarith
  with 0 show ?case by (subst xfer_loop.simps) simp
next
  case (Suc m)
  then obtain bi bis where p: "pending ch = bi # bis" by (cases "pending ch") auto
  note adv = chan_advance_rp [OF Suc.prems(2) p]
  obtain s1 where s1: "complete_one b i status len remap s = Some s1" "get_chan i s1 = Some (advance_rp ch)"
    "\<forall>j. j \<noteq> i \<longrightarrow> get_chan j s1 = get_chan j s"
    "handed_back s1 = handed_back s @ [xfer_cb (cb_buf bi) len status]"
    "pending_pkts s1 = pending_pkts s - of_bool (chan_dir ch = DMA_TO_DEVICE)"
    using complete_one_spec [OF Suc.prems(1,2) p Suc.prems(3)] by blast
  have "Suc m < length (buf_mem ch)" using Suc.prems(4) pending_less [OF Suc.prems(2)] by linarith
  then have ne: "ring_rp (tre_ring ch) \<noteq> ring_pos (tre_ring ch) ((rp_of ch + Suc m) mod length (buf_mem ch))"
    using rp_pos_eq [OF Suc.prems(2), of "Suc m"] by simp
  have pos: "(Suc (rp_of ch) mod length (buf_mem ch) + m) mod length (buf_mem ch) = (rp_of ch + Suc m) mod length (buf_mem ch)"
    by (simp add: mod_add_left_eq)
  have "m \<le> length (pending (advance_rp ch))" using Suc.prems(4) p adv(4) by simp
  from Suc.IH [OF s1(2) adv(3) _ this] Suc.prems(3) obtain s' ch' where
    "xfer_loop b i status len remap (ring_pos (tre_ring ch) ((rp_of ch + Suc m) mod length (buf_mem ch))) s1 = Some s'"
    "get_chan i s' = Some ch'" "chan_ok ch'" "pending ch' = drop m bis" "\<forall>j. j \<noteq> i \<longrightarrow> get_chan j s' = get_chan j s1"
    "handed_back s' = handed_back s1 @ map (\<lambda>bi. xfer_cb (cb_buf bi) len status) (take m bis)"
    "pending_pkts s' = pending_pkts s1 - (if chan_dir ch = DMA_TO_DEVICE then int m else 0)"
    using adv(4) by (auto simp: rp_of_advance [OF Suc.prems(2)] pos)
  then show ?case using Suc.prems(1) s1 ne p by (subst xfer_loop.simps) simp
qed

lemma wrap_word:
  assumes "ring_wf r n" "k < n" "p = ring_pos r k + el_size r"
  shows "(if ring_base r + ring_len r \<le> p then ring_base r else p) = ring_pos r (Suc k mod n)"
  using wrap_pos [OF assms(1,2)] unfolding assms(3) by (simp only: Let_def)

text \<open>A channel of four elements with two buffers that wait, at positions 3 and 0.\<close>

definition sample_ring :: "u64 \<Rightarrow> u64 \<Rightarrow> mhi_ring" where
  "sample_ring base e = \<lparr>iommu_base = 0x10000, ctxt_rbase = 0x10000, ctxt_rp = 0, ctxt_wp = 0, ctxt_rlen = 4 * e, ring_base = base,
     ring_rp = base + 3 * e, ring_wp = base + 1 * e, el_size = e, ring_len = 4 * e, elements = 4, db_addr = 0\<rparr>"

definition sample_buf :: "u64 \<Rightarrow> mhi_buf_info" where
  "sample_buf a = \<lparr>p_addr = a, v_addr = a, buf_wp = 0, buf_len = 64, cb_buf = a, buf_used = False, pre_mapped = False\<rparr>"

definition sample_chan :: mhi_chan where
  "sample_chan = \<lparr>chan = 0, tre_ring = sample_ring 0x2000 16, tre_mem = replicate 4 \<lparr>tre_ptr = 0, dword0 = 0, dword1 = 0\<rparr>,
     buf_ring = sample_ring 0x3000 56, buf_mem = map sample_buf [0x200, 0x300, 0x400, 0x100],
     chan_db_cfg = \<lparr>reset_req = False, db_mode = True, db_val = 0, brst = True\<rparr>, chan_dir = DMA_TO_DEVICE,
     ch_state = MHI_CH_STATE_ENABLED, ctxt_chstate = MHI_CH_STATE_ENABLED, rsc_dma = False, pre_alloc = False, offload_ch = False,
     intmod = 0, er_index = 0, ee_mask = 4, ccs = 0, completed = False, used_elements = 0\<rparr>"

definition chan_mhi :: "(u64 \<Rightarrow> u32) mhi_controller" where
  "chan_mhi = (sample_mhi MHI_PM_M0 MHI_STATE_M0)\<lparr>mhi_chans := [sample_chan]\<rparr>"

definition xfer_event :: "u64 \<Rightarrow> mhi_tre" where
  "xfer_event p = \<lparr>tre_ptr = p, dword0 = 0x02000040, dword1 = 0x00220000\<rparr>"

lemma sample_chan_at: "chan_at 4 3 1 sample_chan"
  by (simp add: chan_at_def sample_chan_def sample_ring_def ring_wf_def ring_pos_def)

lemma sample_chan_ok: "chan_ok sample_chan" "pending sample_chan = [sample_buf 0x100, sample_buf 0x200]" "rp_of sample_chan = 3"
  using chan_at_ok [OF sample_chan_at] chan_at_pending [OF sample_chan_at] chan_atD [OF sample_chan_at]
  by (simp_all add: sample_chan_def ring_view_def upt_rec)

lemma sample_chan_simps [simp]:
  "length (buf_mem sample_chan) = 4" "length (tre_mem sample_chan) = 4" "ch_state sample_chan = MHI_CH_STATE_ENABLED"
  "\<not> pre_alloc sample_chan" "chan_dir sample_chan = DMA_TO_DEVICE" "tre_ring sample_chan = sample_ring 0x2000 16"
  by (simp_all add: sample_chan_def)

lemma sample_handed: "handed_back chan_mhi = []"
  by (simp add: handed_back_def chan_mhi_def sample_mhi_def)

lemma sample_get: "get_chan 0 chan_mhi = Some sample_chan"
  by (simp add: get_chan_def chan_mhi_def)

text \<open>
  C20. Completing transfers: an event for the \<open>k\<close>-th of the buffers that wait makes the code hand the first
  \<open>k + 1\<close> of them back, in the order they were queued and each once, with the length and the status of the event;
  the others go on waiting, no other channel is touched, and the count of packets under way follows. The channel is
  enabled and not one whose buffers the driver allocates itself and queues again (\<open>pre_alloc\<close>).
\<close>

theorem xfer_event_completes:
  assumes "get_chan i s = Some ch" "chan_ok ch" "el_size (tre_ring ch) = 16" "ch_state ch = MHI_CH_STATE_ENABLED"
    "\<not> pre_alloc ch" "k < length (pending ch)"
    "MHI_TRE_GET_EV_CODE event = c" "c = MHI_EV_CC_OVERFLOW \<or> c = MHI_EV_CC_EOB \<or> c = MHI_EV_CC_EOT"
    "tre_ptr event = mhi_to_physical (tre_ring ch) (ring_pos (tre_ring ch) ((rp_of ch + k) mod length (buf_mem ch)))"
  shows "\<exists>s' ch'. parse_xfer_event b event i remap s = Some s' \<and> get_chan i s' = Some ch' \<and> chan_ok ch' \<and>
    pending ch' = drop (Suc k) (pending ch) \<and> (\<forall>j. j \<noteq> i \<longrightarrow> get_chan j s' = get_chan j s) \<and>
    handed_back s' = handed_back s @
      map (\<lambda>bi. xfer_cb (cb_buf bi) (MHI_TRE_GET_EV_LEN event) (if c = MHI_EV_CC_OVERFLOW then - EOVERFLOW else 0))
        (take (Suc k) (pending ch)) \<and>
    pending_pkts s' = pending_pkts s - (if chan_dir ch = DMA_TO_DEVICE then int (Suc k) else 0)"
proof -
  let ?n = "length (buf_mem ch)"
  let ?r = "tre_ring ch"
  have wf: "ring_wf ?r ?n" using assms(2) by (simp add: chan_ok_def chan_at_def)
  have k: "(rp_of ch + k) mod ?n < ?n" using pending_less [OF assms(2)] by (intro mod_less_divisor) linarith
  define p where "p = mhi_to_virtual ?r (tre_ptr event) + 16"
  have "p = ring_pos ?r ((rp_of ch + k) mod ?n) + el_size ?r"
    using assms(3,9) by (simp add: p_def mhi_to_virtual_def mhi_to_physical_def)
  then have "(if ring_base ?r + ring_len ?r \<le> p then ring_base ?r else p) = ring_pos ?r ((rp_of ch + Suc k) mod ?n)"
    using wrap_word [OF wf k] by (simp only: mod_Suc_eq add_Suc_right)
  then have e: "parse_xfer_event b event i remap s =
      xfer_loop b i (if c = MHI_EV_CC_OVERFLOW then - EOVERFLOW else 0) (MHI_TRE_GET_EV_LEN event) remap
        (ring_pos ?r ((rp_of ch + Suc k) mod ?n)) s"
    using assms(1,4,7,8) by (auto simp: parse_xfer_event_def Let_def p_def)
  show ?thesis unfolding e by (rule xfer_loop_completes [OF assms(1,2,5) Suc_leI [OF assms(6)]])
qed

theorem xfer_event_completes_witness:
  "\<exists>s'. parse_xfer_event sample_dev (xfer_event 0x10000) 0 Some chan_mhi = Some s' \<and>
     handed_back s' = [xfer_cb 0x100 0x40 0, xfer_cb 0x200 0x40 0]"
  using xfer_event_completes [OF sample_get sample_chan_ok(1), where k = 1 and event = "xfer_event 0x10000" and c = MHI_EV_CC_EOT and b = sample_dev and remap = Some]
  by (auto simp: sample_chan_ok sample_handed ring_pos_def mhi_to_physical_def sample_ring_def xfer_event_def
      MHI_TRE_GET_EV_CODE_def MHI_TRE_GET_EV_LEN_def sample_buf_def)

section \<open>Pointers outside the ring\<close>

text \<open>The read pointer of channel \<open>i\<close> is at one of the \<open>n\<close> elements of its ring, whose shape is that of \<open>r\<close>.\<close>

definition rp_on_ring :: "mhi_ring \<Rightarrow> nat \<Rightarrow> nat \<Rightarrow> 'h mhi_controller \<Rightarrow> bool" where
  "rp_on_ring r n i s \<longleftrightarrow> (\<exists>ch k. get_chan i s = Some ch \<and> k < n \<and> ring_rp (tre_ring ch) = ring_pos r k \<and>
     ring_base (tre_ring ch) = ring_base r \<and> ring_len (tre_ring ch) = ring_len r \<and> el_size (tre_ring ch) = el_size r)"

lemma rp_on_ring_cong: "get_chan i s' = get_chan i s \<Longrightarrow> rp_on_ring r n i s' = rp_on_ring r n i s"
  by (simp add: rp_on_ring_def)

lemma rp_on_ring_set:
  "get_chan i s = Some ch \<Longrightarrow> rp_on_ring r n i (set_chan i ch' s) \<longleftrightarrow>
   (\<exists>k < n. ring_rp (tre_ring ch') = ring_pos r k \<and> ring_base (tre_ring ch') = ring_base r \<and>
      ring_len (tre_ring ch') = ring_len r \<and> el_size (tre_ring ch') = el_size r)"
  by (auto simp: rp_on_ring_def)

lemma rp_on_ring_db: "rp_on_ring r n i s \<Longrightarrow> rp_on_ring r n i (mhi_ring_chan_db b i s)"
  using ring_chan_db_same by (fastforce simp: rp_on_ring_def same_queue_def)

lemma advance_rp_shape [simp]:
  "ring_base (tre_ring (advance_rp ch)) = ring_base (tre_ring ch)" "ring_len (tre_ring (advance_rp ch)) = ring_len (tre_ring ch)"
  "el_size (tre_ring (advance_rp ch)) = el_size (tre_ring ch)"
  by (simp_all add: advance_rp_def mhi_del_ring_element_def Let_def)

lemma add_element_shape [simp]:
  "ring_rp (mhi_add_ring_element r) = ring_rp r" "ring_base (mhi_add_ring_element r) = ring_base r"
  "ring_len (mhi_add_ring_element r) = ring_len r" "el_size (mhi_add_ring_element r) = el_size r"
  by (simp_all add: mhi_add_ring_element_def Let_def)

lemma gen_tre_shape:
  assumes "mhi_gen_tre buf cb len f m ch = Some (ret, ch')"
  shows "ring_rp (tre_ring ch') = ring_rp (tre_ring ch)" "ring_base (tre_ring ch') = ring_base (tre_ring ch)"
    "ring_len (tre_ring ch') = ring_len (tre_ring ch)" "el_size (tre_ring ch') = el_size (tre_ring ch)"
  using assms by (auto simp: mhi_gen_tre_def put_entry_def advance_wp_def Let_def bind_eq_Some_conv split: option.splits)

lemma queue_buf_result:
  assumes "get_chan i s = Some ch" "\<not> MHI_PM_IN_ERROR_STATE (pm_state s)" "\<not> mhi_is_ring_full (tre_ring ch)"
    "mhi_gen_tre buf buf len f m ch = Some (ret, ch1)"
  shows "\<exists>s1. mhi_queue_buf b i buf len f m s = Some (ret, if ret = 0 \<and> MHI_DB_ACCESS_VALID (pm_state s) then mhi_ring_chan_db b i s1 else s1) \<and>
    get_chan i s1 = Some ch1 \<and> (\<forall>j. j \<noteq> i \<longrightarrow> get_chan j s1 = get_chan j s) \<and> handed_back s1 = handed_back s \<and>
    pending_pkts s1 = pending_pkts s + of_bool (ret = 0 \<and> chan_dir ch1 = DMA_TO_DEVICE)"
  using assms by (auto simp: mhi_queue_buf_def Let_def)

lemma rp_on_ring_queue:
  assumes "mhi_queue_buf b i buf len f m s = Some (ret, s')" "rp_on_ring r n i s"
  shows "rp_on_ring r n i s'"
proof -
  obtain ch k where ch: "get_chan i s = Some ch" "k < n" "ring_rp (tre_ring ch) = ring_pos r k"
     "ring_base (tre_ring ch) = ring_base r" "ring_len (tre_ring ch) = ring_len r" "el_size (tre_ring ch) = el_size r"
    using assms(2) by (auto simp: rp_on_ring_def)
  show ?thesis
  proof (cases "MHI_PM_IN_ERROR_STATE (pm_state s) \<or> mhi_is_ring_full (tre_ring ch)")
    case True
    with assms ch(1) show ?thesis by (auto simp: mhi_queue_buf_def split: if_splits)
  next
    case False
    then obtain ret1 ch1 where g: "mhi_gen_tre buf buf len f m ch = Some (ret1, ch1)"
      using assms(1) ch(1) by (auto simp: mhi_queue_buf_def bind_eq_Some_conv)
    with False obtain s1 where
      "s' = (if ret1 = 0 \<and> MHI_DB_ACCESS_VALID (pm_state s) then mhi_ring_chan_db b i s1 else s1)" "get_chan i s1 = Some ch1"
      using queue_buf_result [OF ch(1) _ _ g, of b] assms(1) by auto
    moreover have "rp_on_ring r n i s1" using calculation(2) gen_tre_shape [OF g] ch by (auto simp: rp_on_ring_def)
    ultimately show ?thesis by (simp add: rp_on_ring_db)
  qed
qed

lemma rp_on_ring_kept [simp]:
  "rp_on_ring r n i (call c s) = rp_on_ring r n i s" "rp_on_ring r n i (uncount_pending d s) = rp_on_ring r n i s"
  by (simp_all add: rp_on_ring_def)

lemma rp_on_ring_advance:
  assumes "ring_wf r n" "rp_on_ring r n i s" "get_chan i s = Some ch"
  shows "rp_on_ring r n i (set_chan i (advance_rp ch) s)"
proof -
  obtain k where k: "k < n" "ring_rp (tre_ring ch) = ring_pos r k" "ring_base (tre_ring ch) = ring_base r"
    "ring_len (tre_ring ch) = ring_len r" "el_size (tre_ring ch) = el_size r"
    using assms(2,3) by (auto simp: rp_on_ring_def)
  have "ring_rp (tre_ring (advance_rp ch)) =
      (if ring_base r + ring_len r \<le> ring_pos r k + el_size r then ring_base r else ring_pos r k + el_size r)"
    using k by (simp add: advance_rp_def mhi_del_ring_element_def Let_def)
  also have "\<dots> = ring_pos r (Suc k mod n)" by (rule wrap_word [OF assms(1) k(1)]) simp
  finally have "ring_rp (tre_ring (advance_rp ch)) = ring_pos r (Suc k mod n)" .
  with k assms(3) show ?thesis by (auto simp: rp_on_ring_set intro!: exI [of _ "Suc k mod n"])
qed

lemma rp_on_ring_complete:
  assumes "complete_one b i status len remap s = Some s'" "rp_on_ring r n i s" "ring_wf r n"
  shows "rp_on_ring r n i s'"
proof -
  obtain ch where ch: "get_chan i s = Some ch" using assms(2) by (auto simp: rp_on_ring_def)
  then obtain k where k: "ring_index (buf_ring ch) (length (buf_mem ch)) (ring_rp (buf_ring ch)) = Some k"
    using assms(1) by (auto simp: complete_one_def bind_eq_Some_conv)
  define bi where "bi = buf_mem ch ! k"
  have a: "rp_on_ring r n i (set_chan i (advance_rp ch) (if pre_mapped bi then s else call (unmap_single (p_addr bi)) s))"
    using rp_on_ring_advance [OF assms(3), of i s ch] rp_on_ring_advance [OF assms(3), of i "call (unmap_single (p_addr bi)) s" ch]
      assms(2) ch by (cases "pre_mapped bi") simp_all
  show ?thesis
    using assms(1) ch k a
    by (auto simp: complete_one_def Let_def bi_def [symmetric] bind_eq_Some_conv split: if_splits dest!: rp_on_ring_queue)
qed

lemma xfer_loop_on_ring:
  assumes "xfer_loop b i status len remap dev_rp s = Some s'" "rp_on_ring r n i s" "ring_wf r n"
  shows "\<exists>k < n. dev_rp = ring_pos r k"
proof -
  have "rp_on_ring r n i s \<longrightarrow> (\<exists>k < n. dev_rp = ring_pos r k)"
  proof (rule xfer_loop.raw_induct [OF _ assms(1)])
    fix loop b i status len remap dev_rp s s'
    assume IH: "\<And>b i status len remap dev_rp s s'. loop b i status len remap dev_rp s = Some s' \<Longrightarrow>
        rp_on_ring r n i s \<longrightarrow> (\<exists>k < n. dev_rp = ring_pos r k)"
      and step: "(do { ch \<leftarrow> get_chan i s;
         if ring_rp (tre_ring ch) = dev_rp then Some s
         else do { s \<leftarrow> complete_one b i status len remap s; loop b i status len remap dev_rp s } }) = Some s'"
    show "rp_on_ring r n i s \<longrightarrow> (\<exists>k < n. dev_rp = ring_pos r k)"
    proof
      assume on: "rp_on_ring r n i s"
      then obtain ch k where ch: "get_chan i s = Some ch" "k < n" "ring_rp (tre_ring ch) = ring_pos r k"
        by (auto simp: rp_on_ring_def)
      show "\<exists>k < n. dev_rp = ring_pos r k"
      proof (cases "ring_rp (tre_ring ch) = dev_rp")
        case True
        with ch show ?thesis by auto
      next
        case False
        with step ch obtain s1 where "complete_one b i status len remap s = Some s1" "loop b i status len remap dev_rp s1 = Some s'"
          by (auto simp: bind_eq_Some_conv)
        with IH rp_on_ring_complete [OF _ on assms(3)] show ?thesis by blast
      qed
    qed
  qed
  with assms(2) show ?thesis by simp
qed

section \<open>Queueing\<close>

text \<open>What the client and the device see of a buffer.\<close>

definition buf_view :: "mhi_buf_info \<Rightarrow> u64 \<times> u64 \<times> u64 \<times> u64" where
  "buf_view bi = (v_addr bi, cb_buf bi, buf_len bi, p_addr bi)"

definition chan_put :: "u32 \<Rightarrow> mhi_chan \<Rightarrow> u64 \<times> u64 \<times> u64 \<times> u64 \<Rightarrow> mhi_chan option" where
  "chan_put f ch x = (case x of (v, cb, len, p) \<Rightarrow>
     if mhi_is_ring_full (tre_ring ch) then None else map_option snd (mhi_gen_tre v cb len f (Some p) ch))"

definition chan_get :: "mhi_chan \<Rightarrow> ((u64 \<times> u64 \<times> u64 \<times> u64) \<times> mhi_chan) option" where
  "chan_get ch = (if ring_rp (tre_ring ch) = ring_wp (tre_ring ch) then None
     else Some (buf_view (buf_mem ch ! rp_of ch), advance_rp ch))"

definition data_tre :: "u64 \<Rightarrow> u64 \<Rightarrow> u32 \<Rightarrow> mhi_chan \<Rightarrow> mhi_tre" where
  "data_tre p len f ch = \<lparr>tre_ptr = p, dword0 = MHI_TRE_DATA_DWORD0 len,
     dword1 = MHI_TRE_DATA_DWORD1 (intmod ch \<noteq> 0) (f AND MHI_EOT \<noteq> 0) (f AND MHI_EOB \<noteq> 0) (f AND MHI_CHAIN \<noteq> 0)\<rparr>"

lemma gen_tre_spec:
  assumes "chan_ok ch" "\<not> mhi_is_ring_full (tre_ring ch)"
  shows "\<exists>ch'. mhi_gen_tre v cb len f (Some p) ch = Some (0, ch') \<and> chan_ok ch' \<and>
    map buf_view (pending ch') = map buf_view (pending ch) @ [(v, cb, len, p)] \<and> length (buf_mem ch') = length (buf_mem ch) \<and>
    tre_mem ch' ! wp_of ch = data_tre p len f ch"
proof -
  obtain k where k: "ring_index (buf_ring ch) (length (buf_mem ch)) (ring_wp (buf_ring ch)) = Some k"
    using assms(1) chan_index(1) unfolding chan_ok_def by blast
  define bi where "bi = (buf_mem ch ! k)\<lparr>v_addr := v, cb_buf := cb, buf_wp := ring_wp (tre_ring ch), buf_len := len, p_addr := p\<rparr>"
  obtain ch' where "put_entry bi (data_tre p len f ch) ch = Some ch'" "chan_ok (advance_wp ch')"
    "pending (advance_wp ch') = pending ch @ [bi]" "length (buf_mem (advance_wp ch')) = length (buf_mem ch)"
    "tre_mem (advance_wp ch') ! wp_of ch = data_tre p len f ch"
    using chan_put_entry [OF assms, of bi "data_tre p len f ch"] by blast
  moreover have "buf_view bi = (v, cb, len, p)" by (simp add: bi_def buf_view_def)
  ultimately show ?thesis using k by (simp add: mhi_gen_tre_def bi_def data_tre_def)
qed

interpretation chq: bounded_queue "chan_put f" chan_get chan_ok "\<lambda>ch. map buf_view (pending ch)" "\<lambda>ch. length (buf_mem ch) - 1" for f
proof unfold_locales
  fix ch x xs
  assume ok: "chan_ok ch"
  show "length (map buf_view (pending ch)) < length (buf_mem ch) - 1 \<Longrightarrow> \<exists>q'. chan_put f ch x = Some q' \<and> chan_ok q' \<and>
      map buf_view (pending q') = map buf_view (pending ch) @ [x] \<and> length (buf_mem q') - 1 = length (buf_mem ch) - 1"
    using gen_tre_spec [OF ok] chan_full_pending [OF ok] by (cases x) (fastforce simp: chan_put_def)
  show "length (map buf_view (pending ch)) = length (buf_mem ch) - 1 \<Longrightarrow> chan_put f ch x = None"
    using chan_full_pending [OF ok] by (simp add: chan_put_def)
  show "length (map buf_view (pending ch)) \<le> length (buf_mem ch) - 1" using pending_less [OF ok] by simp
  show "map buf_view (pending ch) = x # xs \<Longrightarrow> \<exists>q'. chan_get ch = Some (x, q') \<and> chan_ok q' \<and>
      map buf_view (pending q') = xs \<and> length (buf_mem q') - 1 = length (buf_mem ch) - 1"
    using chan_advance_rp [OF ok] chan_empty [OF ok] by (auto simp: chan_get_def)
  show "map buf_view (pending ch) = [] \<Longrightarrow> chan_get ch = None"
    using chan_empty [OF ok] by (simp add: chan_get_def)
qed

lemma gen_tre_dir: "mhi_gen_tre v cb len f m ch = Some (ret, ch') \<Longrightarrow> chan_dir ch' = chan_dir ch"
  by (auto simp: mhi_gen_tre_def put_entry_def advance_wp_def Let_def bind_eq_Some_conv split: option.splits)

lemma chan_put_gen:
  assumes "chan_ok ch" "chan_put f ch (v, cb, len, p) = Some ch'"
  shows "mhi_gen_tre v cb len f (Some p) ch = Some (0, ch') \<and> tre_mem ch' ! wp_of ch = data_tre p len f ch"
  using assms gen_tre_spec [OF assms(1), of v cb len f p] by (auto simp: chan_put_def split: if_splits)

text \<open>
  C22. Queueing a buffer that has been mapped for the device. In a controller without error a ring with room takes the buffer as the last of those that
  wait and puts the descriptor for the device at the write pointer; the packet is counted, the invariant of the
  channel holds, and nothing is handed back. A full ring refuses the buffer, as does a controller in an error
  state, and both change nothing.
\<close>

theorem queue_buf_appends:
  assumes "get_chan i s = Some ch" "chan_ok ch"
  shows "if MHI_PM_IN_ERROR_STATE (pm_state s) then mhi_queue_buf b i buf len f (Some p) s = Some (- EIO, s)
    else if length (pending ch) = length (buf_mem ch) - 1 then mhi_queue_buf b i buf len f (Some p) s = Some (- ENOMEM, s)
    else \<exists>s' ch'. mhi_queue_buf b i buf len f (Some p) s = Some (0, s') \<and> get_chan i s' = Some ch' \<and> chan_ok ch' \<and>
      map buf_view (pending ch') = map buf_view (pending ch) @ [(buf, buf, len, p)] \<and>
      tre_mem ch' ! wp_of ch = data_tre p len f ch \<and>
      handed_back s' = handed_back s \<and> pending_pkts s' = pending_pkts s + of_bool (chan_dir ch = DMA_TO_DEVICE)"
proof -
  note full = chan_full_pending [OF assms(2)]
  { assume e: "\<not> MHI_PM_IN_ERROR_STATE (pm_state s)" and l: "length (pending ch) \<noteq> length (buf_mem ch) - 1"
    then have "length (map buf_view (pending ch)) < length (buf_mem ch) - 1" using pending_less [OF assms(2)] by simp
    from chq.put_room [OF assms(2) this, of f "(buf, buf, len, p)"] obtain ch1 where
      put: "chan_put f ch (buf, buf, len, p) = Some ch1" and ch1: "chan_ok ch1"
        "map buf_view (pending ch1) = map buf_view (pending ch) @ [(buf, buf, len, p)]" by blast
    note gen = chan_put_gen [OF assms(2) put]
    obtain s1 where s1: "mhi_queue_buf b i buf len f (Some p) s = Some (0, if MHI_DB_ACCESS_VALID (pm_state s) then mhi_ring_chan_db b i s1 else s1)"
      "get_chan i s1 = Some ch1" "handed_back s1 = handed_back s"
      "pending_pkts s1 = pending_pkts s + of_bool (chan_dir ch1 = DMA_TO_DEVICE)"
      using queue_buf_result [OF assms(1) e _ gen [THEN conjunct1], of b] full l by auto
    obtain ch2 where "get_chan i (mhi_ring_chan_db b i s1) = Some ch2" "same_queue ch1 ch2"
      using ring_chan_db_same [OF s1(2)] by blast
    note db = this(1) same_queueD [OF this(2)] ring_chan_db_kept(1,2) [of b i s1]
    note dir = gen_tre_dir [OF gen [THEN conjunct1]]
    have "\<exists>s' ch'. mhi_queue_buf b i buf len f (Some p) s = Some (0, s') \<and> get_chan i s' = Some ch' \<and> chan_ok ch' \<and>
      map buf_view (pending ch') = map buf_view (pending ch) @ [(buf, buf, len, p)] \<and>
      tre_mem ch' ! wp_of ch = data_tre p len f ch \<and>
      handed_back s' = handed_back s \<and> pending_pkts s' = pending_pkts s + of_bool (chan_dir ch = DMA_TO_DEVICE)"
      using s1 ch1 gen dir db by (cases "MHI_DB_ACCESS_VALID (pm_state s)") simp_all }
  then show ?thesis using assms(1) full by (simp add: mhi_queue_buf_def)
qed

theorem queue_buf_appends_witness:
  "\<exists>s' ch'. mhi_queue_buf sample_dev 0 0x500 64 MHI_EOT (Some 0x500) chan_mhi = Some (0, s') \<and>
     get_chan 0 s' = Some ch' \<and> map buf_view (pending ch') = map buf_view (map sample_buf [0x100, 0x200, 0x500])"
  using queue_buf_appends [OF sample_get sample_chan_ok(1), where b = sample_dev and buf = "0x500" and len = 64 and f = MHI_EOT and p = "0x500"]
  by (auto simp: sample_chan_ok chan_mhi_def sample_mhi_def MHI_PM_IN_ERROR_STATE_def buf_view_def sample_buf_def)

section \<open>Resetting\<close>

text \<open>
  C24. Resetting a data channel ends and leaves nothing waiting: each of the waiting buffers is handed back to its
  owner exactly once and in order, with the status \<open>-ENOTCONN\<close>, or freed when the code allocated it itself.
\<close>

theorem reset_returns_all:
  assumes "get_chan i s = Some ch" "chan_ok ch"
  shows "\<exists>s' ch'. mhi_reset_data_chan b i s = Some s' \<and> get_chan i s' = Some ch' \<and> chan_ok ch' \<and> pending ch' = [] \<and>
    (\<forall>j. j \<noteq> i \<longrightarrow> get_chan j s' = get_chan j s) \<and>
    handed_back s' = handed_back s @
      map (\<lambda>bi. if pre_alloc ch then kfree (cb_buf bi) else xfer_cb (cb_buf bi) 0 (- ENOTCONN)) (pending ch) \<and>
    pending_pkts s' = pending_pkts s - (if chan_dir ch = DMA_TO_DEVICE then int (length (pending ch)) else 0)"
  using assms
proof (induction "pending ch" arbitrary: s ch)
  case Nil
  then show ?case using chan_empty [of ch] by (subst mhi_reset_data_chan.simps) simp
next
  case (Cons bi bis)
  note p = Cons.hyps(2) [symmetric]
  note adv = chan_advance_rp [OF Cons.prems(2) p]
  obtain s1 where s1: "reset_one b i s = Some s1" "get_chan i s1 = Some (advance_rp ch)"
    "\<forall>j. j \<noteq> i \<longrightarrow> get_chan j s1 = get_chan j s"
    "handed_back s1 = handed_back s @ [if pre_alloc ch then kfree (cb_buf bi) else xfer_cb (cb_buf bi) 0 (- ENOTCONN)]"
    "pending_pkts s1 = pending_pkts s - of_bool (chan_dir ch = DMA_TO_DEVICE)"
    using reset_one_spec [OF Cons.prems p] by blast
  have "ring_rp (tre_ring ch) \<noteq> ring_wp (tre_ring ch)" using chan_empty [OF Cons.prems(2)] p by simp
  with Cons.hyps(1) [OF adv(4) [symmetric] s1(2) adv(3)] Cons.prems(1) s1 p adv(4) show ?case
    by (subst mhi_reset_data_chan.simps) auto
qed

theorem reset_returns_all_witness:
  "\<exists>s'. mhi_reset_data_chan sample_dev 0 chan_mhi = Some s' \<and>
     handed_back s' = [xfer_cb 0x100 0 (- ENOTCONN), xfer_cb 0x200 0 (- ENOTCONN)]"
  using reset_returns_all [OF sample_get sample_chan_ok(1), where b = sample_dev]
  by (auto simp: sample_chan_ok sample_handed sample_buf_def)

section \<open>An event beside the elements\<close>

text \<open>A completion never leaves the arrays: the pointers stay at elements, whether or not a buffer waits there.\<close>

lemma gen_tre_ok:
  assumes "chan_ok ch" "\<not> mhi_is_ring_full (tre_ring ch)"
  shows "\<exists>ret ch'. mhi_gen_tre v cb len f m ch = Some (ret, ch') \<and> chan_ok ch'"
proof (cases m)
  case None
  obtain n r w where at: "chan_at n r w ch" "length (buf_mem ch) = n" using assms(1) by (rule chan_okE)
  have "chan_at n r w (ch\<lparr>buf_mem := (buf_mem ch)[w := x]\<rparr>)" for x using at by (simp add: chan_at_def)
  then have "chan_ok (ch\<lparr>buf_mem := (buf_mem ch)[w := x]\<rparr>)" for x by (rule chan_at_ok)
  then show ?thesis using None chan_index(1) [OF at(1)] by (simp add: mhi_gen_tre_def Let_def)
next
  case (Some p)
  then show ?thesis using gen_tre_spec [OF assms, of v cb len f p] by auto
qed

lemma queue_buf_ok:
  assumes "get_chan i s = Some ch" "chan_ok ch"
  shows "\<exists>ret s' ch'. mhi_queue_buf b i buf len f m s = Some (ret, s') \<and> get_chan i s' = Some ch' \<and> chan_ok ch'"
proof (cases "MHI_PM_IN_ERROR_STATE (pm_state s) \<or> mhi_is_ring_full (tre_ring ch)")
  case True
  then show ?thesis using assms by (auto simp: mhi_queue_buf_def)
next
  case False
  then obtain ret ch1 where g: "mhi_gen_tre buf buf len f m ch = Some (ret, ch1)" "chan_ok ch1"
    using gen_tre_ok [OF assms(2)] by blast
  obtain s1 where s1: "mhi_queue_buf b i buf len f m s =
      Some (ret, if ret = 0 \<and> MHI_DB_ACCESS_VALID (pm_state s) then mhi_ring_chan_db b i s1 else s1)" "get_chan i s1 = Some ch1"
    using queue_buf_result [OF assms(1) _ _ g(1), of b] False by blast
  obtain ch2 where "get_chan i (mhi_ring_chan_db b i s1) = Some ch2" "same_queue ch1 ch2"
    using ring_chan_db_same [OF s1(2)] by blast
  then show ?thesis using s1 g(2) same_queueD(1) by auto
qed

lemma complete_one_ok:
  assumes "get_chan i s = Some ch" "chan_ok ch"
  shows "\<exists>s' ch'. complete_one b i status len remap s = Some s' \<and> get_chan i s' = Some ch' \<and> chan_ok ch'"
proof -
  obtain n r w where at: "chan_at n r w ch" using assms(2) by (rule chan_okE)
  then obtain k where k: "ring_index (buf_ring ch) (length (buf_mem ch)) (ring_rp (buf_ring ch)) = Some k"
    using chan_index(3) by blast
  define bi where "bi = buf_mem ch ! k"
  define s1 where "s1 = uncount_pending (chan_dir ch) (call (xfer_cb (cb_buf bi) len status)
    (set_chan i (advance_rp ch) (if pre_mapped bi then s else call (unmap_single (p_addr bi)) s)))"
  have s1: "get_chan i s1 = Some (advance_rp ch)" "chan_ok (advance_rp ch)"
    using assms(1) chan_at_ok [OF chan_at_advance_rp [OF at]] by (simp_all add: s1_def)
  have run: "complete_one b i status len remap s = (if pre_alloc ch then do {
       (ret, s) \<leftarrow> mhi_queue_buf b i (cb_buf bi) (buf_len bi) MHI_EOT (remap (cb_buf bi)) s1;
       Some (if ret \<noteq> 0 then call (kfree (cb_buf bi)) s else s) } else Some s1)"
    using assms(1) k unfolding s1_def bi_def by (simp add: complete_one_def Let_def)
  show ?thesis
    using queue_buf_ok [OF s1, of b "cb_buf bi" "buf_len bi" MHI_EOT "remap (cb_buf bi)"] s1
    by (cases "pre_alloc ch") (auto simp: run)
qed

text \<open>\<open>k\<close> rounds of the loop of \<open>parse_xfer_event\<close>, without its test.\<close>

primrec xfer_rounds ::
    "nat \<Rightarrow> 'h mhi_dev \<Rightarrow> nat \<Rightarrow> int \<Rightarrow> u32 \<Rightarrow> (u64 \<Rightarrow> u64 option) \<Rightarrow> 'h mhi_controller \<Rightarrow> 'h mhi_controller option" where
  "xfer_rounds 0 b i status len remap s = Some s"
| "xfer_rounds (Suc k) b i status len remap s = Option.bind (complete_one b i status len remap s) (xfer_rounds k b i status len remap)"

lemma xfer_rounds_run:
  assumes "rp_on_ring r n i s" "ring_wf r n" "get_chan i s = Some ch" "chan_ok ch"
  shows "\<exists>s' ch'. xfer_rounds k b i status len remap s = Some s' \<and> get_chan i s' = Some ch' \<and> rp_on_ring r n i s'"
  using assms(1,3,4)
proof (induction k arbitrary: s ch)
  case (Suc k)
  obtain s1 ch1 where s1: "complete_one b i status len remap s = Some s1" "get_chan i s1 = Some ch1" "chan_ok ch1"
    using complete_one_ok [OF Suc.prems(2,3)] by blast
  from Suc.IH [OF rp_on_ring_complete [OF s1(1) Suc.prems(1) assms(2)] s1(2,3)] show ?case using s1(1) by simp
qed simp

text \<open>
  C23. On an enabled channel with well-formed rings, the loop over completed transfers ends only when its read pointer meets the one it computes from the event,
  \<open>p\<close>, the place behind the descriptor that the device names. When \<open>p\<close> lies below the end of the ring and is
  not the address of an element (below its start, or between two elements), \<open>parse_xfer_event\<close> never returns,
  whatever the buffers are and whether they are queued again. It does not leave the ring either: every number of
  rounds goes through without an access out of bounds, and after none of them is the read pointer at \<open>p\<close>. (The
  code takes a \<open>p\<close> at or behind the end of the ring for its first element; such events are not meant here.)
\<close>

theorem bad_event_pointer_never_ends:
  assumes "get_chan i s = Some ch" "chan_ok ch" "ch_state ch = MHI_CH_STATE_ENABLED"
    "MHI_TRE_GET_EV_CODE event = c" "c = MHI_EV_CC_OVERFLOW \<or> c = MHI_EV_CC_EOB \<or> c = MHI_EV_CC_EOT"
    "p = mhi_to_virtual (tre_ring ch) (tre_ptr event) + 16" "p < ring_base (tre_ring ch) + ring_len (tre_ring ch)"
    "\<forall>k < length (tre_mem ch). p \<noteq> ring_base (tre_ring ch) + of_nat k * el_size (tre_ring ch)"
  shows "parse_xfer_event b event i remap s = None \<and>
    (\<forall>k status len. \<exists>s' ch'. xfer_rounds k b i status len remap s = Some s' \<and> get_chan i s' = Some ch' \<and>
      ring_rp (tre_ring ch') \<noteq> p)"
proof (intro conjI allI)
  let ?r = "tre_ring ch" and ?n = "length (tre_mem ch)"
  have wf: "ring_wf ?r ?n" and rp: "rp_of ch < ?n" "ring_rp ?r = ring_pos ?r (rp_of ch)"
    using assms(2) by (simp_all add: chan_ok_def chan_at_def)
  have on: "rp_on_ring ?r ?n i s" using assms(1) rp by (auto simp: rp_on_ring_def)
  have no: "p \<noteq> ring_pos ?r k" if "k < ?n" for k using assms(8) that by (simp add: ring_pos_def)
  show "parse_xfer_event b event i remap s = None"
  proof (rule ccontr)
    assume "parse_xfer_event b event i remap s \<noteq> None"
    then obtain status s' where "xfer_loop b i status (MHI_TRE_GET_EV_LEN event) remap p s = Some s'"
      using assms(1,3-7) by (auto simp: parse_xfer_event_def Let_def not_le split: if_splits)
    then obtain k where "k < ?n" "p = ring_pos ?r k" using xfer_loop_on_ring on wf by blast
    with no show False by blast
  qed
  fix k status len
  obtain s' ch' where "xfer_rounds k b i status len remap s = Some s'" "get_chan i s' = Some ch'" "rp_on_ring ?r ?n i s'"
    using xfer_rounds_run [OF on wf assms(1,2)] by blast
  then show "\<exists>s' ch'. xfer_rounds k b i status len remap s = Some s' \<and> get_chan i s' = Some ch' \<and> ring_rp (tre_ring ch') \<noteq> p"
    using no by (auto simp: rp_on_ring_def)
qed

theorem bad_event_pointer_never_ends_witness:
  "parse_xfer_event sample_dev (xfer_event 0x10008) 0 Some chan_mhi = None \<and>
   (\<exists>s'. xfer_rounds 1000 sample_dev 0 0 0x40 Some chan_mhi = Some s')"
proof -
  have "k < 4 \<Longrightarrow> k = 0 \<or> k = 1 \<or> k = 2 \<or> k = 3" for k :: nat by linarith
  then have "\<forall>k < length (tre_mem sample_chan). (0x2018::u64) \<noteq> ring_base (tre_ring sample_chan) + of_nat k * el_size (tre_ring sample_chan)"
    by (fastforce simp: sample_ring_def)
  then show ?thesis
    using bad_event_pointer_never_ends [OF sample_get sample_chan_ok(1), where event = "xfer_event 0x10008" and c = MHI_EV_CC_EOT
        and p = "0x2018" and b = sample_dev and remap = Some]
    by (simp add: mhi_to_virtual_def sample_ring_def xfer_event_def MHI_TRE_GET_EV_CODE_def) blast
qed

end
