(* ===== verification/MhiStartProps.thy ===== *)
theory MhiStartProps
  imports MhiEvent MhiChanProps
begin

text \<open>
  Starting a channel, over all the parts that take part in it: the command on the command ring, the completion the
  device reports for it, and the thread that waits for it.
\<close>

section \<open>Commands as the device reads them\<close>

lemma command_fields:
  "drop_bit 24 (push_bit 24 x OR push_bit 16 (18::u32)) AND 0xFF = x AND 0xFF"
  "drop_bit 16 (push_bit 24 x OR push_bit 16 (18::u32)) AND 0xFF = 18"
proof -
  have m: "(0xFF::u32) = mask 8" by (simp add: mask_eq_exp_minus_1)
  have "drop_bit 24 (push_bit 24 x) AND mask 8 = x AND mask 8" "drop_bit 16 (push_bit 24 x) AND (mask 8 :: u32) = 0"
    by (rule bit_word_eqI, auto simp: bit_simps)+
  moreover have "drop_bit 24 (push_bit 16 (18::u32)) = 0" "drop_bit 16 (push_bit 16 (18::u32)) = 18" "(18::u32) AND mask 8 = 18"
    by (simp_all add: mask_eq_exp_minus_1)
  ultimately show "drop_bit 24 (push_bit 24 x OR push_bit 16 (18::u32)) AND 0xFF = x AND 0xFF"
    "drop_bit 16 (push_bit 24 x OR push_bit 16 (18::u32)) AND 0xFF = 18"
    unfolding m drop_bit_or by (simp_all only: bit.conj_disj_distrib2 or.right_neutral or.left_neutral and_zero_eq zero_and_eq)
qed

lemma start_command:
  assumes "i < 256" "c = of_nat i" "dword1 tre = MHI_TRE_CMD_START_DWORD1 c"
  shows "MHI_TRE_GET_CMD_TYPE tre = MHI_CMD_TYPE_START" "unat (MHI_TRE_GET_CMD_CHID tre) = i"
proof -
  show "MHI_TRE_GET_CMD_TYPE tre = MHI_CMD_TYPE_START"
    using assms(3) command_fields(2) [of c] by (simp add: MHI_TRE_GET_CMD_TYPE_def MHI_TRE_CMD_START_DWORD1_def)
  have "MHI_TRE_GET_CMD_CHID tre = c AND 0xFF"
    using assms(3) command_fields(1) [of c] by (simp add: MHI_TRE_GET_CMD_CHID_def MHI_TRE_CMD_START_DWORD1_def)
  also have "unat \<dots> = i"
    using unat_and_pow2 [of 8 c] assms(1,2) by (simp add: unat_of_nat take_bit_eq_mod)
  finally show "unat (MHI_TRE_GET_CMD_CHID tre) = i" .
qed

section \<open>Room in a ring\<close>

lemma ring_pos_diff:
  assumes "ring_wf r n" "j \<le> k" "k \<le> n"
  shows "(ring_pos r k - ring_pos r j) div el_size r = of_nat (k - j)"
proof -
  have "ring_pos r k - ring_pos r j = of_nat (k - j) * el_size r"
    using assms(2) by (simp add: ring_pos_def of_nat_diff algebra_simps)
  moreover have "unat (of_nat (k - j) * el_size r) = (k - j) * unat (el_size r)" using assms by (intro unat_offset [OF assms(1)]) simp
  moreover have "0 < unat (el_size r)" using assms(1) by (simp add: ring_wf_def word_less_nat_alt)
  ultimately have "unat ((ring_pos r k - ring_pos r j) div el_size r) = k - j"
    by (simp add: unat_div)
  then show ?thesis by (metis of_nat_unat ucast_id)
qed

text \<open>The number of free elements that the code computes is the room that is left, one element being kept free.\<close>

lemma nr_avail:
  assumes "ring_wf r n" "n \<le> 2 ^ 31" "k < n" "w < n" "ring_rp r = ring_pos r k" "ring_wp r = ring_pos r w"
  shows "get_nr_avail_ring_elements r = int (n - 1 - (w + n - k) mod n)"
proof -
  have conv: "sint (ucast (of_nat m :: u64) :: u32) = int m" if "m < 2 ^ 31" for m
  proof -
    have "take_bit 64 m = m" using that by (simp add: take_bit_nat_eq_self)
    with that show ?thesis by (simp add: unsigned_of_nat signed_of_nat signed_take_bit_int_eq_self)
  qed
  have lt: "ring_wp r < ring_rp r \<longleftrightarrow> w < k"
    using ring_pos_le [OF assms(1), of k w] assms(3-6) by (simp add: not_le [symmetric])
  have base: "ring_base r = ring_pos r 0" by (simp add: ring_pos_def)
  show ?thesis
  proof (cases "w < k")
    case True
    then have "get_nr_avail_ring_elements r = sint (ucast (of_nat (k - w) - 1 :: u64) :: u32)"
      using lt assms ring_pos_diff [OF assms(1), of w k] by (simp add: get_nr_avail_ring_elements_def)
    also have "of_nat (k - w) - 1 = (of_nat (k - w - 1) :: u64)" using True by (simp add: of_nat_diff)
    also have "sint (ucast (of_nat (k - w - 1) :: u64) :: u32) = int (k - w - 1)" using assms(2,3) by (intro conv) linarith
    finally show ?thesis using True assms(3,4) by (simp add: ring_count)
  next
    case False
    then have "get_nr_avail_ring_elements r = sint (ucast (of_nat k + (of_nat (n - w) - 1) :: u64) :: u32)"
      using lt assms ring_pos_diff [OF assms(1), of 0 k] ring_pos_diff [OF assms(1), of w n] ring_end [OF assms(1)] base
      by (simp add: get_nr_avail_ring_elements_def)
    also have "of_nat k + (of_nat (n - w) - 1) = (of_nat (k + (n - w - 1)) :: u64)" using assms(4) by (simp add: of_nat_diff)
    also have "sint (ucast (of_nat (k + (n - w - 1)) :: u64) :: u32) = int (k + (n - w - 1))"
      using assms(2-4) False by (intro conv) linarith
    finally show ?thesis using False assms(3,4) by (simp add: ring_count)
  qed
qed

section \<open>The command and its completion\<close>

text \<open>An idle command ring of \<open>n\<close> elements whose pointers are at element \<open>k\<close>.\<close>

definition cmd_at :: "nat \<Rightarrow> nat \<Rightarrow> mhi_cmd \<Rightarrow> bool" where
  "cmd_at n k c \<longleftrightarrow> ring_wf (cmd_ring c) n \<and> length (cmd_mem c) = n \<and> 2 \<le> n \<and> n \<le> 2 ^ 31 \<and> k < n \<and>
     ring_rp (cmd_ring c) = ring_pos (cmd_ring c) k \<and> ring_wp (cmd_ring c) = ring_pos (cmd_ring c) k"

definition start_tre :: "u32 \<Rightarrow> mhi_tre" where
  "start_tre ch = \<lparr>tre_ptr = 0, dword0 = 0, dword1 = MHI_TRE_CMD_START_DWORD1 ch\<rparr>"

text \<open>The votes against runtime suspend that the log of calls leaves open.\<close>

definition votes :: "'h mhi_controller \<Rightarrow> int" where
  "votes s = int (count_list (call_log s) runtime_get) - int (count_list (call_log s) runtime_put)"

lemma votes_simps [simp]:
  "votes (call runtime_get s) = votes s + 1" "votes (call runtime_put s) = votes s - 1" "votes (set_chan i ch s) = votes s"
  "votes (set_cmd c s) = votes s" "votes (mhi_write_db b a wp s) = votes s" "votes (mhi_assert_dev_wake b f s) = votes s"
  "votes (call (kfree x) s) = votes s"
  by (simp_all add: votes_def call_def set_chan_def set_cmd_def mhi_write_db_def mhi_write_reg_def mhi_assert_dev_wake_def)

lemma cmds_simps [simp]:
  "mhi_cmds (call x s) = mhi_cmds s" "mhi_cmds (set_chan i ch s) = mhi_cmds s" "mhi_cmds (mhi_write_db b a wp s) = mhi_cmds s"
  "mhi_cmds (mhi_assert_dev_wake b f s) = mhi_cmds s" "mhi_cmds (set_cmd c s) = (mhi_cmds s)[0 := c]"
  "get_chan i (set_cmd c s) = get_chan i s" "pm_state (set_cmd c s) = pm_state s"
  by (simp_all add: call_def set_chan_def set_cmd_def mhi_write_db_def mhi_write_reg_def mhi_assert_dev_wake_def get_chan_def)

lemma send_start:
  assumes "mhi_cmds s \<noteq> []" "cmd_at n k (mhi_cmds s ! 0)" "get_chan i s = Some ch"
  shows "\<exists>s' x. mhi_send_cmd b (Some i) MHI_CMD_START_CHAN s = Some (0, s') \<and> get_chan i s' = Some ch \<and>
    mhi_cmds s' \<noteq> [] \<and> votes s' = votes s \<and>
    mhi_cmds s' ! 0 = (mhi_cmds s ! 0)\<lparr>cmd_mem := (cmd_mem (mhi_cmds s ! 0))[k := start_tre (chan ch)],
      cmd_ring := (cmd_ring (mhi_cmds s ! 0))\<lparr>ring_wp := ring_pos (cmd_ring (mhi_cmds s ! 0)) (Suc k mod n), ctxt_wp := x\<rparr>\<rparr>"
proof -
  define c where "c = mhi_cmds s ! 0"
  have at: "ring_wf (cmd_ring c) n" "length (cmd_mem c) = n" "2 \<le> n" "n \<le> 2 ^ 31" "k < n"
    "ring_rp (cmd_ring c) = ring_pos (cmd_ring c) k" "ring_wp (cmd_ring c) = ring_pos (cmd_ring c) k"
    using assms(2) by (simp_all add: cmd_at_def c_def)
  have "get_nr_avail_ring_elements (cmd_ring c) \<noteq> 0"
    using nr_avail [OF at(1,4,5,5,6,7)] at(3,5) by (simp add: ring_count)
  moreover have "ring_index (cmd_ring c) (length (cmd_mem c)) (ring_wp (cmd_ring c)) = Some k"
    using at ring_index_pos by simp
  moreover have "mhi_add_ring_element (cmd_ring c) = (cmd_ring c)\<lparr>ring_wp := ring_pos (cmd_ring c) (Suc k mod n)\<rparr>"
    using at add_ring_element by blast
  ultimately show ?thesis
    using assms(1,3) get_chan_nth [OF assms(3)]
    by (cases "MHI_DB_ACCESS_VALID (pm_state s)")
       (auto simp: mhi_send_cmd_def Let_def c_def [symmetric] command_tre_def start_tre_def mhi_ring_cmd_db_def
          intro!: exI [of _ "if MHI_DB_ACCESS_VALID (pm_state s) then iommu_base (cmd_ring c) +
            (ring_pos (cmd_ring c) (Suc k mod n) - ring_base (cmd_ring c)) else ctxt_wp (cmd_ring c)"])
qed

lemma completes_start:
  assumes "mhi_cmds s \<noteq> []" "mhi_cmds s ! 0 = c" "ring_wf (cmd_ring c) n" "length (cmd_mem c) = n" "k < n"
    "ring_rp (cmd_ring c) = ring_pos (cmd_ring c) k" "tre_ptr ev = mhi_to_physical (cmd_ring c) (ring_pos (cmd_ring c) k)"
    "cmd_mem c ! k = start_tre (of_nat i)" "i < 256" "get_chan i s = Some ch"
  shows "\<exists>s'. mhi_process_cmd_completion ev s = Some s' \<and>
    get_chan i s' = Some (ch\<lparr>ccs := MHI_TRE_GET_EV_CODE ev, completed := True\<rparr>) \<and> votes s' = votes s \<and>
    mhi_cmds s' \<noteq> [] \<and> mhi_cmds s' ! 0 = c\<lparr>cmd_ring := (cmd_ring c)\<lparr>ring_rp := ring_pos (cmd_ring c) (Suc k mod n)\<rparr>\<rparr>"
proof -
  have "mhi_to_virtual (cmd_ring c) (tre_ptr ev) = ring_pos (cmd_ring c) k"
    using assms(7) by (simp add: mhi_to_virtual_def mhi_to_physical_def)
  then have "ring_index (cmd_ring c) (length (cmd_mem c)) (mhi_to_virtual (cmd_ring c) (tre_ptr ev)) = Some k"
    using assms(3,4,5) ring_index_pos by simp
  moreover have "mhi_del_ring_element (cmd_ring c) = (cmd_ring c)\<lparr>ring_rp := ring_pos (cmd_ring c) (Suc k mod n)\<rparr>"
    using assms(3,5,6) by (rule del_ring_element)
  moreover have "MHI_TRE_GET_CMD_TYPE (start_tre (of_nat i)) = MHI_CMD_TYPE_START" "unat (MHI_TRE_GET_CMD_CHID (start_tre (of_nat i))) = i"
    using start_command [OF assms(9) refl, of "start_tre (of_nat i)"] by (simp_all add: start_tre_def)
  ultimately show ?thesis
    using assms(1,2,8,10) by (simp add: mhi_process_cmd_completion_def Let_def)
qed

section \<open>The channel\<close>

text \<open>The rings of a channel have one size, and the memory they are given lies below the end of the address space.\<close>

definition init_ok :: "(mhi_chan \<Rightarrow> u64 \<times> u64) \<Rightarrow> u64 \<Rightarrow> mhi_chan \<Rightarrow> bool" where
  "init_ok seg p ch \<longleftrightarrow> (let n = unat (elements (tre_ring ch)) in
     0 < n \<and> elements (buf_ring ch) = elements (tre_ring ch) \<and> length (tre_mem ch) = n \<and>
     unat (fst (seg ch)) + n * 16 < 2 ^ 64 \<and> unat p + n * 56 < 2 ^ 64)"

lemma init_chan:
  assumes "init_ok seg p ch"
  shows "\<exists>ch'. mhi_init_chan_ctxt seg (Some p) ch = (0, ch') \<and> chan_at (unat (elements (tre_ring ch))) 0 0 ch' \<and>
    chan ch' = chan ch \<and> ch_state ch' = ch_state ch \<and> offload_ch ch' = offload_ch ch \<and> pre_alloc ch' = pre_alloc ch"
  using assms
  by (cases "seg ch") (simp add: mhi_init_chan_ctxt_def init_ok_def Let_def chan_at_def ring_wf_def ring_pos_def mult.commute)

lemma reinit_simps [simp]:
  "get_chan i s = Some ch \<Longrightarrow> get_chan i (reinit_completion i s) = Some (ch\<lparr>completed := False\<rparr>)"
  "mhi_cmds (reinit_completion i s) = mhi_cmds s" "votes (reinit_completion i s) = votes s"
  "pm_state (reinit_completion i s) = pm_state s"
  using get_chan_nth [of i s ch] by (simp_all add: reinit_completion_def)

lemma deinit_state:
  "get_chan i s = Some ch \<Longrightarrow> \<exists>ch'. get_chan i (mhi_deinit_chan_ctxt i s) = Some ch' \<and> ch_state ch' = ch_state ch \<and>
     ring_base (tre_ring ch') = 0"
  using get_chan_nth [of i s ch] by (simp add: mhi_deinit_chan_ctxt_def Let_def)

lemma deinit_simps [simp]:
  "mhi_cmds (mhi_deinit_chan_ctxt i s) = mhi_cmds s" "votes (mhi_deinit_chan_ctxt i s) = votes s"
  by (simp_all add: mhi_deinit_chan_ctxt_def Let_def)

lemma chan_at_completion: "chan_at n r w (ch\<lparr>completed := x\<rparr>) = chan_at n r w ch" "chan_at n r w (ch\<lparr>ccs := y\<rparr>) = chan_at n r w ch"
  "chan_at n r w (ch\<lparr>ch_state := z\<rparr>) = chan_at n r w ch"
  by (simp_all add: chan_at_def)

text \<open>What the device does: it reports the completion \<open>ev\<close>, which the event ring hands on.\<close>

definition answers :: "mhi_tre \<Rightarrow> 'h mhi_controller \<Rightarrow> 'h mhi_controller" where
  "answers ev s = (case mhi_process_cmd_completion ev s of Some s' \<Rightarrow> s' | None \<Rightarrow> s)"

lemma start_waits:
  assumes "get_chan i s = Some ch" "i < 256" "chan ch = of_nat i" "mhi_cmds s \<noteq> []" "cmd_at n k (mhi_cmds s ! 0)"
    "tre_ptr ev = mhi_to_physical (cmd_ring (mhi_cmds s ! 0)) (ring_wp (cmd_ring (mhi_cmds s ! 0)))" "\<not> completed ch"
  shows "\<exists>s1 s2. mhi_send_cmd b (Some i) MHI_CMD_START_CHAN s = Some (0, s1) \<and> wait_completion (answers ev) i s1 = (True, s2) \<and>
    get_chan i s2 = Some (ch\<lparr>ccs := MHI_TRE_GET_EV_CODE ev, completed := False\<rparr>) \<and> votes s2 = votes s \<and> mhi_cmds s2 \<noteq> [] \<and>
    cmd_at n (Suc k mod n) (mhi_cmds s2 ! 0) \<and> cmd_mem (mhi_cmds s2 ! 0) ! k = start_tre (chan ch)"
proof -
  define c where "c = mhi_cmds s ! 0"
  have at: "ring_wf (cmd_ring c) n" "length (cmd_mem c) = n" "2 \<le> n" "n \<le> 2 ^ 31" "k < n"
    "ring_rp (cmd_ring c) = ring_pos (cmd_ring c) k" "ring_wp (cmd_ring c) = ring_pos (cmd_ring c) k"
    using assms(5) by (simp_all add: cmd_at_def c_def)
  obtain s1 x where s1: "mhi_send_cmd b (Some i) MHI_CMD_START_CHAN s = Some (0, s1)" "get_chan i s1 = Some ch" "mhi_cmds s1 \<noteq> []"
    "votes s1 = votes s" "mhi_cmds s1 ! 0 = c\<lparr>cmd_mem := (cmd_mem c)[k := start_tre (chan ch)],
      cmd_ring := (cmd_ring c)\<lparr>ring_wp := ring_pos (cmd_ring c) (Suc k mod n), ctxt_wp := x\<rparr>\<rparr>"
    using send_start [OF assms(4,5,1), of b] unfolding c_def by blast
  define c1 where "c1 = mhi_cmds s1 ! 0"
  have c1: "ring_wf (cmd_ring c1) n" "length (cmd_mem c1) = n" "ring_rp (cmd_ring c1) = ring_pos (cmd_ring c1) k"
    "ring_wp (cmd_ring c1) = ring_pos (cmd_ring c1) (Suc k mod n)" "cmd_mem c1 ! k = start_tre (of_nat i)"
    "tre_ptr ev = mhi_to_physical (cmd_ring c1) (ring_pos (cmd_ring c1) k)"
    using s1(5) at assms(3,6) by (simp_all add: c1_def c_def [symmetric] mhi_to_physical_def)
  obtain s2 where s2: "mhi_process_cmd_completion ev s1 = Some s2"
    "get_chan i s2 = Some (ch\<lparr>ccs := MHI_TRE_GET_EV_CODE ev, completed := True\<rparr>)" "votes s2 = votes s1" "mhi_cmds s2 \<noteq> []"
    "mhi_cmds s2 ! 0 = c1\<lparr>cmd_ring := (cmd_ring c1)\<lparr>ring_rp := ring_pos (cmd_ring c1) (Suc k mod n)\<rparr>\<rparr>"
    using completes_start [OF s1(3) c1_def [symmetric] c1(1,2) at(5) c1(3,6,5) assms(2) s1(2)] by blast
  have "wait_completion (answers ev) i s1 = (True, set_chan i (ch\<lparr>ccs := MHI_TRE_GET_EV_CODE ev, completed := False\<rparr>) s2)"
    using get_chan_nth [OF s1(2)] get_chan_nth [OF s2(2)] s2(1) assms(7)
    by (simp add: wait_completion_def wait_state_def wait_event_timeout_def answers_def)
  moreover have "cmd_at n (Suc k mod n) (mhi_cmds s2 ! 0)" "cmd_mem (mhi_cmds s2 ! 0) ! k = start_tre (chan ch)"
    using s2(5) c1 at assms(3) by (simp_all add: cmd_at_def)
  ultimately show ?thesis using s1(1,4) s2(2,3,4) by simp
qed

definition idle_chan :: mhi_chan where
  "idle_chan = sample_chan\<lparr>ch_state := MHI_CH_STATE_DISABLED\<rparr>"

definition idle_mhi :: "(u64 \<Rightarrow> u32) mhi_controller" where
  "idle_mhi = chan_mhi\<lparr>mhi_chans := [idle_chan],
     mhi_cmds := [\<lparr>cmd_ring = (sample_ring 0x4000 16)\<lparr>ring_wp := 0x4000, ring_rp := 0x4000\<rparr>,
       cmd_mem = replicate 4 \<lparr>tre_ptr = 0, dword0 = 0, dword1 = 0\<rparr>\<rparr>]\<rparr>"

definition success_event :: mhi_tre where
  "success_event = \<lparr>tre_ptr = 0x10000, dword0 = 0x01000000, dword1 = 0x00210000\<rparr>"

lemma idle_mhi_ok: "get_chan 0 idle_mhi = Some idle_chan" "cmd_at 4 0 (mhi_cmds idle_mhi ! 0)" "mhi_cmds idle_mhi \<noteq> []"
  "init_ok (\<lambda>_. (0x5000, 0x20000)) 0x6000 idle_chan"
  by (simp_all add: idle_mhi_def get_chan_def cmd_at_def sample_ring_def ring_wf_def ring_pos_def init_ok_def idle_chan_def sample_chan_def)

text \<open>
  C21. Starting a channel. When the device answers the command, the caller gets 0 exactly for an answer of success,
  and the channel is enabled with its rings empty and well formed; any other answer gives \<open>-EIO\<close> and leaves the
  channel disabled without rings. Either way the device was sent the start command for this very channel, the command
  ring is idle again, one element further, and the votes against runtime suspend are balanced. The channel is a
  disabled one of the host (not offloaded, its buffers not allocated by the driver) that the device's execution
  environment supports, the controller is in no error state, the command ring is idle, and memory can be allocated.
\<close>

theorem start_channel:
  assumes "get_chan i s = Some ch" "i < 256" "chan ch = of_nat i" "ch_state ch = MHI_CH_STATE_DISABLED" "\<not> offload_ch ch"
    "\<not> pre_alloc ch" "push_bit (unat (ee s)) 1 AND ucast (ee_mask ch) \<noteq> (0::u64)" "\<not> MHI_PM_IN_ERROR_STATE (pm_state s)"
    "mhi_cmds s \<noteq> []" "cmd_at n k (mhi_cmds s ! 0)" "init_ok seg p ch"
    "tre_ptr ev = mhi_to_physical (cmd_ring (mhi_cmds s ! 0)) (ring_wp (cmd_ring (mhi_cmds s ! 0)))" "env 0 = answers ev"
    "ok = (MHI_TRE_GET_EV_CODE ev = MHI_EV_CC_SUCCESS)"
  shows "\<exists>s' ch'. mhi_prepare_channel b env seg (Some p) bufs remap i s = Some (if ok then 0 else - EIO, s') \<and>
    get_chan i s' = Some ch' \<and> votes s' = votes s \<and>
    cmd_at n (Suc k mod n) (mhi_cmds s' ! 0) \<and> cmd_mem (mhi_cmds s' ! 0) ! k = start_tre (chan ch) \<and>
    (if ok then ch_state ch' = MHI_CH_STATE_ENABLED \<and> chan_ok ch' \<and> pending ch' = []
     else ch_state ch' = MHI_CH_STATE_DISABLED \<and> ring_base (tre_ring ch') = 0)"
proof -
  obtain ch1 where ch1: "mhi_init_chan_ctxt seg (Some p) ch = (0, ch1)" "chan_at (unat (elements (tre_ring ch))) 0 0 ch1"
    "chan ch1 = chan ch" "ch_state ch1 = ch_state ch" "offload_ch ch1 = offload_ch ch" "pre_alloc ch1 = pre_alloc ch"
    using init_chan [OF assms(11)] by blast
  define s0 where "s0 = call runtime_get (mhi_assert_dev_wake b False (reinit_completion i (set_chan i ch1 s)))"
  have s0: "get_chan i s0 = Some (ch1\<lparr>completed := False\<rparr>)" "mhi_cmds s0 = mhi_cmds s" "votes s0 = votes s + 1"
    using assms(1) by (simp_all add: s0_def)
  obtain s1 s2 where s1: "mhi_send_cmd b (Some i) MHI_CMD_START_CHAN s0 = Some (0, s1)" "wait_completion (env 0) i s1 = (True, s2)"
    and s2: "get_chan i s2 = Some (ch1\<lparr>ccs := MHI_TRE_GET_EV_CODE ev, completed := False\<rparr>)" "votes s2 = votes s0" "mhi_cmds s2 \<noteq> []"
      "cmd_at n (Suc k mod n) (mhi_cmds s2 ! 0)" "cmd_mem (mhi_cmds s2 ! 0) ! k = start_tre (chan ch)"
    using start_waits [OF s0(1) assms(2), of n k ev b] s0(2) assms(3,9,10,12,13) ch1(3) by auto
  have at: "chan_at (unat (elements (tre_ring ch))) 0 0 (ch1\<lparr>ccs := x, completed := y, ch_state := z\<rparr>)" for x y z
    using ch1(2) by (simp add: chan_at_completion)
  have nth: "mhi_chans (call runtime_put s2) ! i = ch1\<lparr>ccs := MHI_TRE_GET_EV_CODE ev, completed := False\<rparr>"
    "mhi_chans (set_chan i x (call runtime_put s2)) ! i = x" for x
    using get_chan_nth [of i "call runtime_put s2"] get_chan_nth [of i "set_chan i x (call runtime_put s2)"] s2(1) by simp_all
  have go: "mhi_prepare_channel b env seg (Some p) bufs remap i s =
      (if ok then Some (0, set_chan i ((mhi_chans s2 ! i)\<lparr>ch_state := MHI_CH_STATE_ENABLED\<rparr>) (call runtime_put s2))
       else Some (- EIO, mhi_deinit_chan_ctxt i (call runtime_put s2)))"
    using assms(1,4-8,14) ch1 s1 get_chan_nth [OF s2(1)]
    by (simp add: mhi_prepare_channel_def Let_def s0_def nth)
  show ?thesis
  proof (cases ok)
    case True
    with go s2 s0(3) ch1(2) chan_at_ok [OF at] chan_at_pending [OF at] get_chan_nth [OF s2(1)] show ?thesis
      by simp
  next
    case False
    obtain ch' where "get_chan i (mhi_deinit_chan_ctxt i (call runtime_put s2)) = Some ch'"
      "ch_state ch' = MHI_CH_STATE_DISABLED" "ring_base (tre_ring ch') = 0"
      using deinit_state [of i "call runtime_put s2"] s2(1) ch1(4) assms(4) by auto
    with go s2 s0(3) False show ?thesis by simp
  qed
qed

theorem start_channel_witness:
  "\<exists>s' ch'. mhi_prepare_channel sample_dev (\<lambda>_. answers success_event) (\<lambda>_. (0x5000, 0x20000)) (Some 0x6000) (\<lambda>_. None) Some 0 idle_mhi = Some (0, s') \<and>
     get_chan 0 s' = Some ch' \<and> ch_state ch' = MHI_CH_STATE_ENABLED \<and> pending ch' = []"
  using start_channel [OF idle_mhi_ok(1) _ _ _ _ _ _ _ idle_mhi_ok(3,2,4), where ev = success_event and ok = True and
      env = "\<lambda>_. answers success_event" and b = sample_dev and bufs = "\<lambda>_. None" and remap = Some]
  by (auto simp: idle_chan_def idle_mhi_def sample_chan_def chan_mhi_def sample_mhi_def MHI_PM_IN_ERROR_STATE_def success_event_def
      MHI_TRE_GET_EV_CODE_def mhi_to_physical_def sample_ring_def)

end
