(* ===== verification/Sipc.thy ===== *)
theory Sipc
  imports Prelude
begin

text \<open>
  The vocabulary of the shared-memory messages between host and modem,
  \<^verbatim>\<open>quectel_SRPD_PCIE/src/include/sipc.h\<close>: the 8-byte message, its types and flags, the channels and the
  table of the channels that are in use. Index 255 marks a channel that is not.
\<close>

section \<open>Messages\<close>

record smsg =
  channel :: u8
  msg_type :: u8
  flag :: u16
  msg_value :: u32

definition smsg_set :: "u8 \<Rightarrow> u8 \<Rightarrow> u16 \<Rightarrow> u32 \<Rightarrow> smsg" where
  "smsg_set c t f v = \<lparr>channel = c, msg_type = t, flag = f, msg_value = v\<rparr>"

abbreviation (input) SMSG_TYPE_NONE :: u8 where "SMSG_TYPE_NONE \<equiv> 0"
abbreviation (input) SMSG_TYPE_OPEN :: u8 where "SMSG_TYPE_OPEN \<equiv> 1"
abbreviation (input) SMSG_TYPE_CLOSE :: u8 where "SMSG_TYPE_CLOSE \<equiv> 2"
abbreviation (input) SMSG_TYPE_DATA :: u8 where "SMSG_TYPE_DATA \<equiv> 3"
abbreviation (input) SMSG_TYPE_EVENT :: u8 where "SMSG_TYPE_EVENT \<equiv> 4"
abbreviation (input) SMSG_TYPE_CMD :: u8 where "SMSG_TYPE_CMD \<equiv> 5"
abbreviation (input) SMSG_TYPE_DONE :: u8 where "SMSG_TYPE_DONE \<equiv> 6"
abbreviation (input) SMSG_TYPE_SMEM_ALLOC :: u8 where "SMSG_TYPE_SMEM_ALLOC \<equiv> 7"
abbreviation (input) SMSG_TYPE_SMEM_FREE :: u8 where "SMSG_TYPE_SMEM_FREE \<equiv> 8"
abbreviation (input) SMSG_TYPE_SMEM_DONE :: u8 where "SMSG_TYPE_SMEM_DONE \<equiv> 9"
abbreviation (input) SMSG_TYPE_FUNC_CALL :: u8 where "SMSG_TYPE_FUNC_CALL \<equiv> 10"
abbreviation (input) SMSG_TYPE_FUNC_RETURN :: u8 where "SMSG_TYPE_FUNC_RETURN \<equiv> 11"
abbreviation (input) SMSG_TYPE_DIE :: u8 where "SMSG_TYPE_DIE \<equiv> 12"
abbreviation (input) SMSG_TYPE_DFS :: u8 where "SMSG_TYPE_DFS \<equiv> 13"
abbreviation (input) SMSG_TYPE_DFS_RSP :: u8 where "SMSG_TYPE_DFS_RSP \<equiv> 14"
abbreviation (input) SMSG_TYPE_ASS_TRG :: u8 where "SMSG_TYPE_ASS_TRG \<equiv> 15"
abbreviation (input) SMSG_TYPE_HIGH_OFFSET :: u8 where "SMSG_TYPE_HIGH_OFFSET \<equiv> 16"
abbreviation (input) SMSG_TYPE_NR :: u8 where "SMSG_TYPE_NR \<equiv> 17"

abbreviation (input) SMSG_OPEN_MAGIC :: u16 where "SMSG_OPEN_MAGIC \<equiv> 0xBEEE"
abbreviation (input) SMSG_CLOSE_MAGIC :: u16 where "SMSG_CLOSE_MAGIC \<equiv> 0xEDDD"

section \<open>Channels\<close>

abbreviation (input) SMSG_CH_CTRL :: u8 where "SMSG_CH_CTRL \<equiv> 0"
abbreviation (input) SMSG_CH_COMM :: u8 where "SMSG_CH_COMM \<equiv> 1"
abbreviation (input) SMSG_CH_IMSBR_DATA :: u8 where "SMSG_CH_IMSBR_DATA \<equiv> 2"
abbreviation (input) SMSG_CH_IMSBR_CTRL :: u8 where "SMSG_CH_IMSBR_CTRL \<equiv> 3"
abbreviation (input) SMSG_CH_PIPE :: u8 where "SMSG_CH_PIPE \<equiv> 4"
abbreviation (input) SMSG_CH_PLOG :: u8 where "SMSG_CH_PLOG \<equiv> 5"
abbreviation (input) SMSG_CH_TTY :: u8 where "SMSG_CH_TTY \<equiv> 6"
abbreviation (input) SMSG_CH_DATA0 :: u8 where "SMSG_CH_DATA0 \<equiv> 7"
abbreviation (input) SMSG_CH_DATA1 :: u8 where "SMSG_CH_DATA1 \<equiv> 8"
abbreviation (input) SMSG_CH_DATA2 :: u8 where "SMSG_CH_DATA2 \<equiv> 9"
abbreviation (input) SMSG_CH_VBC :: u8 where "SMSG_CH_VBC \<equiv> 10"
abbreviation (input) SMSG_CH_PLAYBACK :: u8 where "SMSG_CH_PLAYBACK \<equiv> 11"
abbreviation (input) SMSG_CH_CAPTURE :: u8 where "SMSG_CH_CAPTURE \<equiv> 12"
abbreviation (input) SMSG_CH_MONITOR_AUDIO :: u8 where "SMSG_CH_MONITOR_AUDIO \<equiv> 13"
abbreviation (input) SMSG_CH_CTRL_VOIP :: u8 where "SMSG_CH_CTRL_VOIP \<equiv> 14"
abbreviation (input) SMSG_CH_PLAYBACK_VOIP :: u8 where "SMSG_CH_PLAYBACK_VOIP \<equiv> 15"
abbreviation (input) SMSG_CH_CAPTURE_VOIP :: u8 where "SMSG_CH_CAPTURE_VOIP \<equiv> 16"
abbreviation (input) SMSG_CH_MONITOR_VOIP :: u8 where "SMSG_CH_MONITOR_VOIP \<equiv> 17"
abbreviation (input) SMSG_CH_DATA3 :: u8 where "SMSG_CH_DATA3 \<equiv> 18"
abbreviation (input) SMSG_CH_DATA4 :: u8 where "SMSG_CH_DATA4 \<equiv> 19"
abbreviation (input) SMSG_CH_DATA5 :: u8 where "SMSG_CH_DATA5 \<equiv> 20"
abbreviation (input) SMSG_CH_DIAG :: u8 where "SMSG_CH_DIAG \<equiv> 21"
abbreviation (input) SMSG_CH_PM_CTRL :: u8 where "SMSG_CH_PM_CTRL \<equiv> 22"
abbreviation (input) SMSG_CH_DUAL_SIM_PLUG :: u8 where "SMSG_CH_DUAL_SIM_PLUG \<equiv> 23"
abbreviation (input) SMSG_CH_DATA6 :: u8 where "SMSG_CH_DATA6 \<equiv> 24"
abbreviation (input) SMSG_CH_DATA7 :: u8 where "SMSG_CH_DATA7 \<equiv> 25"
abbreviation (input) SMSG_CH_DATA8 :: u8 where "SMSG_CH_DATA8 \<equiv> 26"
abbreviation (input) SMSG_CH_DATA9 :: u8 where "SMSG_CH_DATA9 \<equiv> 27"
abbreviation (input) SMSG_CH_DATA10 :: u8 where "SMSG_CH_DATA10 \<equiv> 28"
abbreviation (input) SMSG_CH_DATA11 :: u8 where "SMSG_CH_DATA11 \<equiv> 29"
abbreviation (input) SMSG_CH_DATA12 :: u8 where "SMSG_CH_DATA12 \<equiv> 30"
abbreviation (input) SMSG_CH_DATA13 :: u8 where "SMSG_CH_DATA13 \<equiv> 31"
abbreviation (input) SMSG_CH_NV :: u8 where "SMSG_CH_NV \<equiv> 40"
abbreviation (input) SMSG_CH_DVFS :: u8 where "SMSG_CH_DVFS \<equiv> 41"
abbreviation (input) SMSG_CH_PMSYS_DBG :: u8 where "SMSG_CH_PMSYS_DBG \<equiv> 100"
abbreviation (input) SMSG_CH_COMM_SIPA :: u8 where "SMSG_CH_COMM_SIPA \<equiv> 120"
abbreviation (input) SMSG_CH_AGDSP_ACCESS :: u8 where "SMSG_CH_AGDSP_ACCESS \<equiv> 130"
abbreviation (input) SMSG_CH_PLAYBACK_DEEP :: u8 where "SMSG_CH_PLAYBACK_DEEP \<equiv> 131"
abbreviation (input) SMSG_CH_VOIP_DEEP :: u8 where "SMSG_CH_VOIP_DEEP \<equiv> 151"
abbreviation (input) INVALID_CHANEL_INDEX :: u8 where "INVALID_CHANEL_INDEX \<equiv> 255"

text \<open>The channel numbers of the table; the names beside them are for the log.\<close>

definition sipc_cfg :: "u8 list" where
  "sipc_cfg =
    [SMSG_CH_CTRL, SMSG_CH_COMM, SMSG_CH_PM_CTRL, SMSG_CH_PMSYS_DBG, SMSG_CH_DUAL_SIM_PLUG,
     SMSG_CH_PIPE, SMSG_CH_PLOG, SMSG_CH_DIAG, SMSG_CH_TTY, SMSG_CH_DATA0, SMSG_CH_DATA1, SMSG_CH_DATA2,
     SMSG_CH_DATA3, SMSG_CH_DATA4, SMSG_CH_DATA5, SMSG_CH_DATA6, SMSG_CH_DATA7, SMSG_CH_DATA8,
     SMSG_CH_DATA9, SMSG_CH_DATA10, SMSG_CH_DATA11, SMSG_CH_DATA12, SMSG_CH_DATA13, SMSG_CH_VBC,
     SMSG_CH_PLAYBACK, SMSG_CH_CAPTURE, SMSG_CH_MONITOR_AUDIO, SMSG_CH_AGDSP_ACCESS, SMSG_CH_CTRL_VOIP,
     SMSG_CH_PLAYBACK_VOIP, SMSG_CH_CAPTURE_VOIP, SMSG_CH_MONITOR_VOIP, SMSG_CH_PLAYBACK_DEEP,
     SMSG_CH_IMSBR_DATA, SMSG_CH_IMSBR_CTRL, SMSG_CH_VOIP_DEEP, SMSG_CH_DVFS, SMSG_CH_COMM_SIPA,
     SMSG_CH_NV]"

abbreviation (input) SMSG_VALID_CH_NR :: nat where "SMSG_VALID_CH_NR \<equiv> 39"

text \<open>The array \<open>channel2index\<close> as \<open>smsg_init_channel2index\<close> fills it.\<close>

definition channel2index :: "u8 \<Rightarrow> u8" where
  "channel2index i =
     (let j = length (takeWhile (\<lambda>c. c \<noteq> i) sipc_cfg) in
      if j = SMSG_VALID_CH_NR then INVALID_CHANEL_INDEX else of_nat j)"

definition sipc_channel2index :: "u8 \<Rightarrow> u8" where
  "sipc_channel2index c = channel2index c"

lemma length_sipc_cfg: "length sipc_cfg = 39"
  by (simp add: sipc_cfg_def)

lemma distinct_sipc_cfg: "distinct sipc_cfg"
  by (simp add: sipc_cfg_def)

lemma first_position:
  "j = length (takeWhile (\<lambda>c. c \<noteq> i) xs) \<Longrightarrow> (if i \<in> set xs then j < length xs \<and> xs ! j = i else j = length xs)"
  by (induction xs arbitrary: j) auto

lemma channel2index_valid:
  assumes "c \<in> set sipc_cfg"
  shows "unat (channel2index c) < 39" "sipc_cfg ! unat (channel2index c) = c" "channel2index c \<noteq> INVALID_CHANEL_INDEX"
proof -
  define j where "j = length (takeWhile (\<lambda>x. x \<noteq> c) sipc_cfg)"
  then have j: "j < 39" "sipc_cfg ! j = c" using first_position[OF j_def] assms by (simp_all add: length_sipc_cfg)
  then have e: "channel2index c = of_nat j" by (simp add: channel2index_def j_def [symmetric])
  have u: "unat (of_nat j :: u8) = j" using j(1) by (simp add: unat_of_nat take_bit_eq_mod)
  show "unat (channel2index c) < 39" "sipc_cfg ! unat (channel2index c) = c" using j u by (simp_all add: e)
  then show "channel2index c \<noteq> INVALID_CHANEL_INDEX" by (auto simp: unat_arith_simps)
qed

lemma channel2index_invalid: "c \<notin> set sipc_cfg \<Longrightarrow> channel2index c = INVALID_CHANEL_INDEX"
  using first_position[OF refl, of c sipc_cfg] by (simp add: channel2index_def length_sipc_cfg)

lemma channel2index_iff: "channel2index c = INVALID_CHANEL_INDEX \<longleftrightarrow> c \<notin> set sipc_cfg"
  using channel2index_valid(3) channel2index_invalid by blast

end
