(* ===== verification/Smsg.thy ===== *)
theory Smsg
  imports Sipc
begin

text \<open>
  The message layer between host and modem, \<^verbatim>\<open>quectel_SRPD_PCIE/src/sipc/smsg.c\<close>: two rings of messages in
  a shared page, one for each direction, a cache of received messages for every channel, and the operations that
  open a channel, send, receive and close. An address in the shared page is its offset from the start of the
  mapping; \<open>page\<close> gives the 32-bit word at an offset. Waiting is a parameter: what the other side, the interrupt
  handler and the other threads do meanwhile, with the result of the kernel function. \<open>None\<close> stands for an
  access out of bounds or to freed memory, for \<open>panic\<close>, and for a busy loop that nothing ends. The configuration
  is that of the Makefile: no mailbox, the host side of PCIe. The power manager is a parameter too: \<open>res\<close> is the
  result of a request for the memory.
\<close>

section \<open>State\<close>

abbreviation (input) ETIME :: int where "ETIME \<equiv> 62"

text \<open>The masks of \<^verbatim>\<open>linux/poll.h\<close>: \<open>POLLOUT | POLLWRNORM\<close> and \<open>POLLIN | POLLRDNORM\<close>.\<close>

abbreviation (input) POLL_OUT :: u32 where "POLL_OUT \<equiv> 0x104"
abbreviation (input) POLL_IN :: u32 where "POLL_IN \<equiv> 0x41"

abbreviation (input) CHAN_STATE_UNUSED :: u8 where "CHAN_STATE_UNUSED \<equiv> 0"
abbreviation (input) CHAN_STATE_CLIENT_OPENED :: u8 where "CHAN_STATE_CLIENT_OPENED \<equiv> 1"
abbreviation (input) CHAN_STATE_HOST_OPENED :: u8 where "CHAN_STATE_HOST_OPENED \<equiv> 2"
abbreviation (input) CHAN_STATE_OPENED :: u8 where "CHAN_STATE_OPENED \<equiv> 3"
abbreviation (input) CHAN_STATE_FREE :: u8 where "CHAN_STATE_FREE \<equiv> 4"

abbreviation (input) SMSG_CACHE_NR :: nat where "SMSG_CACHE_NR \<equiv> 256"

datatype sipc_base = SIPC_BASE_MBOX | SIPC_BASE_PCIE | SIPC_BASE_IPI
datatype smem_type = SMEM_LOCAL | SMEM_PCIE

record smsg_channel =
  wrptr :: u32
  rdptr :: u32
  caches :: "smsg list"

text \<open>Calls into the kernel and the power manager, latest first.\<close>

datatype smsg_call =
    Wake_up_rxwait nat
  | Request_rx_wakelock nat
  | Release_rx_wakelock nat
  | Release_tx_resource nat
  | Release_sipc_resource
  | Destroy_pms nat
  | Txirq_trigger smsg
  | Rxirq_clear
  | Register_irq
  | Set_irq_addr nat
  | Unregister_irq
  | Request_irq
  | Free_irq
  | Smem_free u32
  | Unmap_smem
  | Trash_resource
  | Init_resource

record smsg_ipc =
  registered :: bool
  ipc_client :: bool
  ipc_type :: sipc_base
  ipc_smem_type :: smem_type
  write_addr :: nat
  txbuf_addr :: nat
  txbuf_size :: u32
  txbuf_rdptr :: nat
  txbuf_wrptr :: nat
  rxbuf_addr :: nat
  rxbuf_size :: u32
  rxbuf_rdptr :: nat
  rxbuf_wrptr :: nat
  ring_base :: u32
  ring_size :: u32
  smsg_channels :: "smsg_channel option list"
  busy :: "u32 list"
  states :: "u8 list"
  page :: "nat \<Rightarrow> u32"
  wakeup_flag :: u8
  debug_enable :: bool
  smsg_calls :: "smsg_call list"

definition log_call :: "smsg_call \<Rightarrow> smsg_ipc \<Rightarrow> smsg_ipc" where
  "log_call c s = s\<lparr>smsg_calls := c # smsg_calls s\<rparr>"

definition set_smsg_channel :: "nat \<Rightarrow> smsg_channel option \<Rightarrow> smsg_ipc \<Rightarrow> smsg_ipc" where
  "set_smsg_channel i ch s = s\<lparr>smsg_channels := (smsg_channels s)[i := ch]\<rparr>"

definition set_chan_state :: "nat \<Rightarrow> u8 \<Rightarrow> smsg_ipc \<Rightarrow> smsg_ipc" where
  "set_chan_state i v s = s\<lparr>states := (states s)[i := v]\<rparr>"

definition busy_inc :: "nat \<Rightarrow> smsg_ipc \<Rightarrow> smsg_ipc" where
  "busy_inc i s = s\<lparr>busy := (busy s)[i := busy s ! i + 1]\<rparr>"

definition busy_dec :: "nat \<Rightarrow> smsg_ipc \<Rightarrow> smsg_ipc" where
  "busy_dec i s = s\<lparr>busy := (busy s)[i := busy s ! i - 1]\<rparr>"

text \<open>A loop that waits until no one uses the channel: it ends when no one does, and no one else runs here.\<close>

definition wait_unused :: "nat \<Rightarrow> smsg_ipc \<Rightarrow> smsg_ipc option" where
  "wait_unused i s = (if busy s ! i = 0 then Some s else None)"

section \<open>The wake-up flag\<close>

definition sipc_get_wakeup_flag :: "smsg_ipc \<Rightarrow> int" where
  "sipc_get_wakeup_flag s = uint (wakeup_flag s)"

definition sipc_set_wakeup_flag :: "smsg_ipc \<Rightarrow> smsg_ipc" where
  "sipc_set_wakeup_flag s = s\<lparr>wakeup_flag := 1\<rparr>"

definition sipc_clear_wakeup_flag :: "smsg_ipc \<Rightarrow> smsg_ipc" where
  "sipc_clear_wakeup_flag s = s\<lparr>wakeup_flag := 0\<rparr>"

definition smsg_wakeup_print :: "smsg_ipc \<Rightarrow> smsg_ipc" where
  "smsg_wakeup_print s = (if wakeup_flag s \<noteq> 0 then s\<lparr>wakeup_flag := 0\<rparr> else s)"

section \<open>Messages in the shared page\<close>

text \<open>A message is two words, the channel in the lowest byte of the first.\<close>

definition smsg_bl_cpoy_msg :: "nat \<Rightarrow> smsg \<Rightarrow> (nat \<Rightarrow> u32) \<Rightarrow> nat \<Rightarrow> u32" where
  "smsg_bl_cpoy_msg pos m p =
     p(pos := ucast (channel m) OR push_bit 8 (ucast (msg_type m)) OR push_bit 16 (ucast (flag m)), pos + 4 := msg_value m)"

definition read_msg :: "nat \<Rightarrow> (nat \<Rightarrow> u32) \<Rightarrow> smsg" where
  "read_msg pos p =
     \<lparr>channel = ucast (p pos), msg_type = ucast (drop_bit 8 (p pos)), flag = ucast (drop_bit 16 (p pos)),
      msg_value = p (pos + 4)\<rparr>"

text \<open>Writing one message into the ring for sending. The distance is compared without sign, as the size has none.\<close>

definition txbuf_put :: "smsg \<Rightarrow> int \<Rightarrow> smsg_ipc \<Rightarrow> int \<times> smsg_ipc" where
  "txbuf_put msg rval s =
     (let wr = page s (txbuf_wrptr s); rd = page s (txbuf_rdptr s) in
      if txbuf_size s \<le> wr - rd then (- EBUSY, s)
      else
        let txpos = unat (wr AND (txbuf_size s - 1)) * 8 + txbuf_addr s;
            p = smsg_bl_cpoy_msg txpos msg (page s);
            p = p(txbuf_wrptr s := p (txbuf_wrptr s) + 1) in
        (rval, s\<lparr>page := p\<rparr>))"

section \<open>Receiving interrupts\<close>

text \<open>The cache of a channel. Here the distance is compared with sign.\<close>

definition cache_put :: "smsg \<Rightarrow> smsg_channel \<Rightarrow> smsg_channel" where
  "cache_put msg ch =
     (if int SMSG_CACHE_NR \<le> sint (wrptr ch - rdptr ch) then ch
      else ch\<lparr>caches := (caches ch)[unat (wrptr ch AND 255) := msg], wrptr := wrptr ch + 1\<rparr>)"

definition deliver :: "nat \<Rightarrow> smsg \<Rightarrow> bool \<Rightarrow> smsg_ipc \<Rightarrow> smsg_ipc" where
  "deliver ch_index msg wake_lock s =
     (if SMSG_TYPE_NR \<le> msg_type msg then s
      else case smsg_channels s ! ch_index of
        None \<Rightarrow>
          if states s ! ch_index = CHAN_STATE_UNUSED \<and> msg_type msg = SMSG_TYPE_OPEN \<and> flag msg = SMSG_OPEN_MAGIC
          then set_chan_state ch_index CHAN_STATE_CLIENT_OPENED s else s
      | Some ch \<Rightarrow>
          let s = log_call (Wake_up_rxwait ch_index) (set_smsg_channel ch_index (Some (cache_put msg ch)) s) in
          if wake_lock then log_call (Request_rx_wakelock ch_index) s else s)"

text \<open>The index of the channel is used as it comes; \<open>None\<close> when the array has no such element.\<close>

definition smsg_msg_process :: "smsg \<Rightarrow> bool \<Rightarrow> smsg_ipc \<Rightarrow> smsg_ipc option" where
  "smsg_msg_process msg wake_lock s =
     (let s = smsg_wakeup_print s in
      if msg_type msg = SMSG_TYPE_DIE \<and> debug_enable s then None
      else
        let ch_index = unat (channel2index (channel msg)) in
        if length (busy s) \<le> ch_index then None
        else Some (busy_dec ch_index (deliver ch_index msg wake_lock (busy_inc ch_index s))))"

text \<open>\<open>peer n\<close> is what the other side does before the pointers are read again after the \<open>n\<close>-th message.\<close>

partial_function (option) process_loop :: "(nat \<Rightarrow> smsg_ipc \<Rightarrow> smsg_ipc) \<Rightarrow> nat \<Rightarrow> smsg_ipc \<Rightarrow> smsg_ipc option" where
  "process_loop peer n s =
     (let rd = page s (rxbuf_rdptr s) in
      if page s (rxbuf_wrptr s) = rd then Some s
      else do {
        let rxpos = unat (rd AND (rxbuf_size s - 1)) * 8 + rxbuf_addr s;
        s \<leftarrow> smsg_msg_process (read_msg rxpos (page s)) True s;
        let s = s\<lparr>page := (page s)(rxbuf_rdptr s := page s (rxbuf_rdptr s) + 1)\<rparr>;
        process_loop peer (Suc n) (peer n s) })"

text \<open>The result of the request for the memory is ignored, as in the source.\<close>

definition sipc_smem_release_resource :: "smsg_call \<Rightarrow> smsg_ipc \<Rightarrow> smsg_ipc" where
  "sipc_smem_release_resource c s = (if ipc_smem_type s \<noteq> SMEM_LOCAL then log_call c s else s)"

definition sipc_smem_request_resource :: "int \<Rightarrow> smsg_ipc \<Rightarrow> int" where
  "sipc_smem_request_resource res s = (if ipc_smem_type s = SMEM_LOCAL then 0 else res)"

definition sipc_process_all_msg :: "(nat \<Rightarrow> smsg_ipc \<Rightarrow> smsg_ipc) \<Rightarrow> smsg_ipc \<Rightarrow> smsg_ipc option" where
  "sipc_process_all_msg peer s = map_option (sipc_smem_release_resource Release_sipc_resource) (process_loop peer 0 s)"

definition smsg_irq_handler :: "bool \<Rightarrow> (nat \<Rightarrow> smsg_ipc \<Rightarrow> smsg_ipc) \<Rightarrow> smsg_ipc \<Rightarrow> smsg_ipc option" where
  "smsg_irq_handler rxirq_status peer s = sipc_process_all_msg peer (if rxirq_status then log_call Rxirq_clear s else s)"

section \<open>Sending\<close>

definition smsg_senddie :: "int \<Rightarrow> smsg_ipc \<Rightarrow> int \<times> smsg_ipc" where
  "smsg_senddie res s =
     (if \<not> registered s then (- ENODEV, s)
      else if ring_base s = 0 then (0, s)
      else if res < 0 then (res, s)
      else
        let msg = \<lparr>channel = SMSG_CH_CTRL, msg_type = SMSG_TYPE_DIE, flag = 0, msg_value = 0\<rparr>;
            (rval, s) = txbuf_put msg res s in
        (rval, log_call Release_sipc_resource (log_call (Txirq_trigger msg) s)))"

definition smsg_send :: "int \<Rightarrow> smsg \<Rightarrow> smsg_ipc \<Rightarrow> int \<times> smsg_ipc" where
  "smsg_send res msg s =
     (let ch_index = unat (channel2index (channel msg)) in
      if channel2index (channel msg) = INVALID_CHANEL_INDEX then (- EINVAL, s)
      else if \<not> registered s then (- ENODEV, s)
      else if smsg_channels s ! ch_index = None then (- ENODEV, s)
      else if states s ! ch_index \<noteq> CHAN_STATE_OPENED \<and> msg_type msg \<noteq> SMSG_TYPE_OPEN \<and> msg_type msg \<noteq> SMSG_TYPE_CLOSE
      then (- EINVAL, s)
      else if res < 0 then (res, s)
      else if ring_base s = 0 \<and> ipc_type s \<noteq> SIPC_BASE_MBOX then (- EINVAL, log_call (Release_tx_resource ch_index) s)
      else
        let (rval, s) = (if ring_base s \<noteq> 0 then txbuf_put msg res s else (res, s)) in
        (rval, log_call (Release_tx_resource ch_index) (log_call (Txirq_trigger msg) s)))"

definition smsg_open_ack :: "int \<Rightarrow> u8 \<Rightarrow> smsg_ipc \<Rightarrow> smsg_ipc" where
  "smsg_open_ack res c s = snd (smsg_send res (smsg_set c SMSG_TYPE_OPEN SMSG_OPEN_MAGIC 0) s)"

definition smsg_close_ack :: "int \<Rightarrow> u8 \<Rightarrow> smsg_ipc \<Rightarrow> smsg_ipc" where
  "smsg_close_ack res c s = snd (smsg_send res (smsg_set c SMSG_TYPE_CLOSE SMSG_CLOSE_MAGIC 0) s)"

section \<open>Receiving\<close>

definition cache_get :: "nat \<Rightarrow> int \<Rightarrow> smsg_ipc \<Rightarrow> (int \<times> smsg \<times> smsg_ipc) option" where
  "cache_get i rval s =
     (case smsg_channels s ! i of
        None \<Rightarrow> None
      | Some ch \<Rightarrow>
          let rd = unat (rdptr ch AND 255) in
          if rd < length (caches ch)
          then Some (rval, caches ch ! rd, busy_dec i (set_smsg_channel i (Some (ch\<lparr>rdptr := rdptr ch + 1\<rparr>)) s))
          else None)"

text \<open>
  \<open>wait\<close> is \<open>wait_event_interruptible\<close> for a negative timeout and \<open>wait_event_interruptible_timeout\<close> for a
  positive one, \<open>trylock\<close> the result of \<open>mutex_trylock\<close>.
\<close>

definition smsg_recv :: "bool \<Rightarrow> (smsg_ipc \<Rightarrow> int \<times> smsg_ipc) \<Rightarrow> smsg \<Rightarrow> int \<Rightarrow> smsg_ipc \<Rightarrow> (int \<times> smsg \<times> smsg_ipc) option" where
  "smsg_recv trylock wait msg timeout s =
     (let ch_index = unat (channel2index (channel msg)) in
      if channel2index (channel msg) = INVALID_CHANEL_INDEX then Some (- EINVAL, msg, s)
      else if \<not> registered s then Some (- ENODEV, msg, s)
      else
        let s = busy_inc ch_index s in
        case smsg_channels s ! ch_index of
          None \<Rightarrow> Some (- ENODEV, msg, busy_dec ch_index s)
        | Some ch \<Rightarrow>
            if timeout = 0 then
              if \<not> trylock then Some (- EBUSY, msg, busy_dec ch_index s)
              else if wrptr ch = rdptr ch then Some (- ENODATA, msg, busy_dec ch_index s)
              else cache_get ch_index 0 s
            else
              let (rval, s) = wait s in
              if rval < 0 then Some (rval, msg, busy_dec ch_index s)
              else if 0 < timeout \<and> rval = 0 then Some (- ETIME, msg, busy_dec ch_index s)
              else if states s ! ch_index = CHAN_STATE_FREE then Some (- EIO, msg, busy_dec ch_index s)
              else cache_get ch_index rval s)"

definition smsg_ch_wake_unlock :: "u8 \<Rightarrow> smsg_ipc \<Rightarrow> int \<times> smsg_ipc" where
  "smsg_ch_wake_unlock c s =
     (let ch_index = unat (channel2index c) in
      if channel2index c = INVALID_CHANEL_INDEX then (- EINVAL, s)
      else if \<not> registered s then (- ENODEV, s)
      else if smsg_channels s ! ch_index = None then (- ENODEV, s)
      else (0, log_call (Release_rx_wakelock ch_index) s))"

section \<open>Opening and closing a channel\<close>

definition open_failed :: "nat \<Rightarrow> int \<Rightarrow> smsg_ipc \<Rightarrow> (int \<times> smsg_ipc) option" where
  "open_failed i rval s =
     map_option (\<lambda>s. (rval, s)) (wait_unused i (busy_dec i (set_smsg_channel i None (set_chan_state i CHAN_STATE_UNUSED s))))"

definition open_done :: "nat \<Rightarrow> smsg_ipc \<Rightarrow> int \<times> smsg_ipc" where
  "open_done i s = (0, busy_dec i (set_chan_state i CHAN_STATE_OPENED s))"

text \<open>The loop that waits for the open message of the other side; \<open>wait n\<close> is the \<open>n\<close>-th wait.\<close>

partial_function (option) open_loop ::
    "(nat \<Rightarrow> bool) \<Rightarrow> (nat \<Rightarrow> smsg_ipc \<Rightarrow> int \<times> smsg_ipc) \<Rightarrow> u8 \<Rightarrow> int \<Rightarrow> nat \<Rightarrow> smsg_ipc \<Rightarrow> (int \<times> smsg_ipc) option" where
  "open_loop trylock wait c timeout n s = do {
     let i = unat (channel2index c);
     (rval, mrecv, s) \<leftarrow> smsg_recv (trylock n) (wait n) (smsg_set c 0 0 0) timeout s;
     if rval \<noteq> 0 then open_failed i rval s
     else if msg_type mrecv \<noteq> SMSG_TYPE_OPEN \<or> flag mrecv \<noteq> SMSG_OPEN_MAGIC
     then open_loop trylock wait c timeout (Suc n) s
     else Some (open_done i s) }"

definition smsg_ch_open ::
    "bool \<Rightarrow> int \<Rightarrow> (nat \<Rightarrow> bool) \<Rightarrow> (nat \<Rightarrow> smsg_ipc \<Rightarrow> int \<times> smsg_ipc) \<Rightarrow> u8 \<Rightarrow> int \<Rightarrow> smsg_ipc \<Rightarrow> (int \<times> smsg_ipc) option" where
  "smsg_ch_open mem res trylock wait c timeout s =
     (let i = unat (channel2index c) in
      if channel2index c = INVALID_CHANEL_INDEX then Some (- EINVAL, s)
      else if \<not> registered s then Some (- ENODEV, s)
      else if \<not> mem then Some (- ENOMEM, s)
      else
        let ch = \<lparr>wrptr = 0, rdptr = 0, caches = replicate SMSG_CACHE_NR \<lparr>channel = 0, msg_type = 0, flag = 0, msg_value = 0\<rparr>\<rparr>;
            s = set_smsg_channel i (Some ch) (s\<lparr>busy := (busy s)[i := 1]\<rparr>);
            (rval, s) = smsg_send res (smsg_set c SMSG_TYPE_OPEN SMSG_OPEN_MAGIC 0) s in
        if rval \<noteq> 0 then open_failed i rval s
        else if states s ! i = CHAN_STATE_CLIENT_OPENED then Some (open_done i s)
        else open_loop trylock wait c timeout 0 (set_chan_state i CHAN_STATE_HOST_OPENED s))"

definition smsg_ch_close :: "int \<Rightarrow> u8 \<Rightarrow> smsg_ipc \<Rightarrow> (int \<times> smsg_ipc) option" where
  "smsg_ch_close res c s =
     (let i = unat (channel2index c) in
      if channel2index c = INVALID_CHANEL_INDEX then Some (- EINVAL, s)
      else if \<not> registered s then None
      else if smsg_channels s ! i = None then Some (0, s)
      else do {
        let s = snd (smsg_send res (smsg_set c SMSG_TYPE_CLOSE SMSG_CLOSE_MAGIC 0) s);
        let s = log_call (Wake_up_rxwait i) (set_chan_state i CHAN_STATE_FREE s);
        s \<leftarrow> wait_unused i s;
        s \<leftarrow> (if smsg_channels s ! i = None then Some s
             else map_option (log_call (Destroy_pms i)) (wait_unused i (set_smsg_channel i None s)));
        Some (0, set_chan_state i CHAN_STATE_UNUSED s) })"

section \<open>Setting up\<close>

abbreviation (input) SMSG_TXBUF_ADDR :: nat where "SMSG_TXBUF_ADDR \<equiv> 0"
abbreviation (input) SMSG_TXBUF_SIZE :: nat where "SMSG_TXBUF_SIZE \<equiv> 1024"
abbreviation (input) SMSG_RXBUF_ADDR :: nat where "SMSG_RXBUF_ADDR \<equiv> SMSG_TXBUF_SIZE"
abbreviation (input) SMSG_RXBUF_SIZE :: nat where "SMSG_RXBUF_SIZE \<equiv> 1024"
abbreviation (input) SMSG_RINGHDR :: nat where "SMSG_RINGHDR \<equiv> SMSG_TXBUF_SIZE + SMSG_RXBUF_SIZE"
abbreviation (input) SMSG_TXBUF_RDPTR :: nat where "SMSG_TXBUF_RDPTR \<equiv> SMSG_RINGHDR + 0"
abbreviation (input) SMSG_TXBUF_WRPTR :: nat where "SMSG_TXBUF_WRPTR \<equiv> SMSG_RINGHDR + 4"
abbreviation (input) SMSG_RXBUF_RDPTR :: nat where "SMSG_RXBUF_RDPTR \<equiv> SMSG_RINGHDR + 8"
abbreviation (input) SMSG_RXBUF_WRPTR :: nat where "SMSG_RXBUF_WRPTR \<equiv> SMSG_RINGHDR + 12"
abbreviation (input) SMSG_RESERVE_BASE :: nat where "SMSG_RESERVE_BASE \<equiv> SMSG_RINGHDR + 1024"
abbreviation (input) SMSG_PCIE_WRPTR :: nat where "SMSG_PCIE_WRPTR \<equiv> SMSG_RESERVE_BASE + 0"

text \<open>Where the two rings lie. The client sends where the host receives.\<close>

definition ring_layout :: "smsg_ipc \<Rightarrow> smsg_ipc" where
  "ring_layout s =
     (if ipc_client s then
        s\<lparr>txbuf_size := of_nat (SMSG_RXBUF_SIZE div 8), txbuf_addr := SMSG_RXBUF_ADDR,
          txbuf_rdptr := SMSG_RXBUF_RDPTR, txbuf_wrptr := SMSG_RXBUF_WRPTR,
          rxbuf_size := of_nat (SMSG_TXBUF_SIZE div 8), rxbuf_addr := SMSG_TXBUF_ADDR,
          rxbuf_rdptr := SMSG_TXBUF_RDPTR, rxbuf_wrptr := SMSG_TXBUF_WRPTR, write_addr := SMSG_PCIE_WRPTR\<rparr>
      else
        s\<lparr>txbuf_size := of_nat (SMSG_TXBUF_SIZE div 8), txbuf_addr := SMSG_TXBUF_ADDR,
          txbuf_rdptr := SMSG_TXBUF_RDPTR, txbuf_wrptr := SMSG_TXBUF_WRPTR,
          rxbuf_size := of_nat (SMSG_RXBUF_SIZE div 8), rxbuf_addr := SMSG_RXBUF_ADDR,
          rxbuf_rdptr := SMSG_RXBUF_RDPTR, rxbuf_wrptr := SMSG_RXBUF_WRPTR, write_addr := SMSG_PCIE_WRPTR\<rparr>)"

text \<open>\<open>status\<close> and \<open>peer\<close> are what the explicit call of the interrupt handler finds.\<close>

definition smsg_ipc_init_smsg_irq_callback :: "bool \<Rightarrow> (nat \<Rightarrow> smsg_ipc \<Rightarrow> smsg_ipc) \<Rightarrow> smsg_ipc \<Rightarrow> smsg_ipc option" where
  "smsg_ipc_init_smsg_irq_callback status peer s =
     (case ipc_type s of
        SIPC_BASE_PCIE \<Rightarrow> Some (log_call (Set_irq_addr (write_addr s + 4)) (log_call Register_irq s))
      | SIPC_BASE_IPI \<Rightarrow> map_option (log_call Request_irq) (smsg_irq_handler status peer s)
      | SIPC_BASE_MBOX \<Rightarrow> Some s)"

text \<open>\<open>ret\<close> is the result of \<open>smem_init\<close>, \<open>base\<close> that of \<open>smem_alloc\<close>, \<open>mapped\<close> whether the mapping succeeds.\<close>

definition smsg_ipc_smem_init ::
    "int \<Rightarrow> u32 \<Rightarrow> bool \<Rightarrow> bool \<Rightarrow> (nat \<Rightarrow> smsg_ipc \<Rightarrow> smsg_ipc) \<Rightarrow> smsg_ipc \<Rightarrow> (int \<times> smsg_ipc) option" where
  "smsg_ipc_smem_init ret base mapped status peer s =
     (if ret \<noteq> 0 then Some (ret, s)
      else
        let s = (if ipc_type s \<noteq> SIPC_BASE_MBOX then s\<lparr>ring_base := base, ring_size := 0x1000\<rparr> else s) in
        if ring_base s \<noteq> 0 \<and> \<not> mapped then Some (- ENOMEM, log_call (Smem_free (ring_base s)) s\<lparr>ring_base := 0\<rparr>)
        else
          let s = (if ring_base s \<noteq> 0 then
                     ring_layout (if ipc_client s then s else s\<lparr>page := (\<lambda>a. if a < unat (ring_size s) then 0 else page s a)\<rparr>)
                   else s) in
          map_option (\<lambda>s. (0, s)) (smsg_ipc_init_smsg_irq_callback status peer s))"

definition smsg_ipc_create ::
    "int \<Rightarrow> u32 \<Rightarrow> bool \<Rightarrow> bool \<Rightarrow> (nat \<Rightarrow> smsg_ipc \<Rightarrow> smsg_ipc) \<Rightarrow> smsg_ipc \<Rightarrow> smsg_ipc option" where
  "smsg_ipc_create ret base mapped status peer s =
     (let s = s\<lparr>registered := True\<rparr>;
          s = (if ipc_type s = SIPC_BASE_PCIE then log_call Init_resource s else s) in
      if ipc_smem_type s \<noteq> SMEM_PCIE then map_option snd (smsg_ipc_smem_init ret base mapped status peer s) else Some s)"

definition smsg_ipc_destroy :: "smsg_ipc \<Rightarrow> smsg_ipc" where
  "smsg_ipc_destroy s =
     (let s = log_call (Smem_free (ring_base s)) (log_call Unmap_smem s);
          s = (if ipc_type s = SIPC_BASE_PCIE then log_call Trash_resource (log_call Unregister_irq s)
               else log_call Free_irq s) in
      s\<lparr>registered := False\<rparr>)"

end
