(* ===== verification/Sbuf.thy ===== *)
theory Sbuf
  imports Smsg
begin

text \<open>
  Byte streams in shared memory, \<^verbatim>\<open>quectel_SRPD_PCIE/src/sipc/sbuf.c\<close>: for each channel a block of memory with a
  header, in which every ring has the read and write counters of its two directions, and the buffers behind it. The
  host lays the block out and the client finds it. An address is an offset into the block: \<open>words\<close> are the 32-bit
  words of the header, \<open>bytes\<close> the bytes of the whole block. The state is that of one destination and one channel.
  As in \<open>Smsg\<close>, waiting and the other side are parameters, and \<open>None\<close> stands for an access out of bounds, a copy of a
  negative number of bytes (a very large one in C), or a division by zero.
\<close>

section \<open>State\<close>

abbreviation (input) SMSG_CMD_SBUF_INIT :: u16 where "SMSG_CMD_SBUF_INIT \<equiv> 1"
abbreviation (input) SMSG_DONE_SBUF_INIT :: u16 where "SMSG_DONE_SBUF_INIT \<equiv> 2"
abbreviation (input) SMSG_EVENT_SBUF_WRPTR :: u16 where "SMSG_EVENT_SBUF_WRPTR \<equiv> 1"
abbreviation (input) SMSG_EVENT_SBUF_RDPTR :: u16 where "SMSG_EVENT_SBUF_RDPTR \<equiv> 2"
abbreviation (input) SBUF_STATE_IDLE :: u32 where "SBUF_STATE_IDLE \<equiv> 0"
abbreviation (input) SBUF_STATE_READY :: u32 where "SBUF_STATE_READY \<equiv> 1"
abbreviation (input) SBUF_NOTIFY_READY :: int where "SBUF_NOTIFY_READY \<equiv> 0"
abbreviation (input) SBUF_NOTIFY_READ :: int where "SBUF_NOTIFY_READ \<equiv> 1"
abbreviation (input) SBUF_NOTIFY_WRITE :: int where "SBUF_NOTIFY_WRITE \<equiv> 2"
abbreviation (input) EFAULT :: int where "EFAULT \<equiv> 14"

record sbuf_ring_header_op =
  rx_rd_p :: nat
  rx_wt_p :: nat
  tx_rd_p :: nat
  tx_wt_p :: nat
  rx_size :: u32
  tx_size :: u32

record sbuf_ring =
  header_op :: sbuf_ring_header_op
  txbuf_virt :: nat
  rxbuf_virt :: nat
  need_wake_lock :: bool
  poll_mask :: u32
  has_handler :: bool

record sbuf_mgr =
  sbuf_channel :: u8
  force_send :: bool
  sbuf_state :: u32
  smem_addr :: u32
  smem_size :: u32
  smem_addr_debug :: u32
  dst_smem_addr :: u32
  ringnr :: u32
  rings :: "sbuf_ring list"
  thread_alive :: bool
  words :: "nat \<Rightarrow> u32"
  bytes :: "u8 list"

datatype sbuf_call =
    Notify nat int
  | Wake_tx nat
  | Wake_rx nat
  | Tx_wakelock nat
  | Rx_wakelock nat
  | Tx_wakelock_later nat
  | Rx_wakelock_later nat
  | Release_tx nat
  | Release_rx nat
  | Destroy_ring_pms nat
  | Stop_thread
  | Free_block u32 u32
  | Unmap_block

record sbuf_sys =
  ipc :: smsg_ipc
  mgr :: "sbuf_mgr option"
  smem_base :: u32
  dst_smem_base :: u32
  sbuf_calls :: "sbuf_call list"

definition sbuf_log :: "sbuf_call \<Rightarrow> sbuf_sys \<Rightarrow> sbuf_sys" where
  "sbuf_log c st = st\<lparr>sbuf_calls := c # sbuf_calls st\<rparr>"

definition set_mgr :: "sbuf_mgr \<Rightarrow> sbuf_sys \<Rightarrow> sbuf_sys" where
  "set_mgr m st = st\<lparr>mgr := Some m\<rparr>"

definition get_ring :: "nat \<Rightarrow> sbuf_mgr \<Rightarrow> sbuf_ring option" where
  "get_ring i m = (if i < length (rings m) then Some (rings m ! i) else None)"

definition set_ring :: "nat \<Rightarrow> sbuf_ring \<Rightarrow> sbuf_mgr \<Rightarrow> sbuf_mgr" where
  "set_ring i r m = m\<lparr>rings := (rings m)[i := r]\<rparr>"

definition set_poll :: "nat \<Rightarrow> (u32 \<Rightarrow> u32) \<Rightarrow> sbuf_mgr \<Rightarrow> sbuf_mgr" where
  "set_poll i f m = set_ring i ((rings m ! i)\<lparr>poll_mask := f (poll_mask (rings m ! i))\<rparr>) m"

text \<open>The counters of a ring, as this side sees them.\<close>

definition tx_wt :: "sbuf_ring \<Rightarrow> sbuf_mgr \<Rightarrow> u32" where "tx_wt r m = words m (tx_wt_p (header_op r))"
definition tx_rd :: "sbuf_ring \<Rightarrow> sbuf_mgr \<Rightarrow> u32" where "tx_rd r m = words m (tx_rd_p (header_op r))"
definition rx_wt :: "sbuf_ring \<Rightarrow> sbuf_mgr \<Rightarrow> u32" where "rx_wt r m = words m (rx_wt_p (header_op r))"
definition rx_rd :: "sbuf_ring \<Rightarrow> sbuf_mgr \<Rightarrow> u32" where "rx_rd r m = words m (rx_rd_p (header_op r))"

definition sbuf_has_data :: "sbuf_ring \<Rightarrow> bool \<Rightarrow> sbuf_mgr \<Rightarrow> smsg_ipc \<Rightarrow> bool" where
  "sbuf_has_data r tx m s =
     (if ipc_smem_type s = SMEM_LOCAL then
        if tx then tx_wt r m - tx_rd r m < tx_size (header_op r) else rx_wt r m \<noteq> rx_rd r m
      else if tx then poll_mask r AND POLL_OUT \<noteq> 0 else poll_mask r AND POLL_IN \<noteq> 0)"

section \<open>Laying out the block\<close>

abbreviation (input) header_size :: "u32 \<Rightarrow> nat" where "header_size bufnum \<equiv> 4 + 32 * unat bufnum"

text \<open>Where the fields of the \<open>i\<close>-th ring header lie.\<close>

abbreviation (input) hd_txbuf_addr :: "nat \<Rightarrow> nat" where "hd_txbuf_addr i \<equiv> 4 + 32 * i"
abbreviation (input) hd_txbuf_size :: "nat \<Rightarrow> nat" where "hd_txbuf_size i \<equiv> 4 + 32 * i + 4"
abbreviation (input) hd_txbuf_rdptr :: "nat \<Rightarrow> nat" where "hd_txbuf_rdptr i \<equiv> 4 + 32 * i + 8"
abbreviation (input) hd_txbuf_wrptr :: "nat \<Rightarrow> nat" where "hd_txbuf_wrptr i \<equiv> 4 + 32 * i + 12"
abbreviation (input) hd_rxbuf_addr :: "nat \<Rightarrow> nat" where "hd_rxbuf_addr i \<equiv> 4 + 32 * i + 16"
abbreviation (input) hd_rxbuf_size :: "nat \<Rightarrow> nat" where "hd_rxbuf_size i \<equiv> 4 + 32 * i + 20"
abbreviation (input) hd_rxbuf_rdptr :: "nat \<Rightarrow> nat" where "hd_rxbuf_rdptr i \<equiv> 4 + 32 * i + 24"
abbreviation (input) hd_rxbuf_wrptr :: "nat \<Rightarrow> nat" where "hd_rxbuf_wrptr i \<equiv> 4 + 32 * i + 28"

text \<open>What \<open>sbuf_comm_init\<close> and \<open>sbuf_pms_init\<close> do to a ring, whose other fields are still zero.\<close>

definition sbuf_pms_init :: "sbuf_ring \<Rightarrow> sbuf_ring" where
  "sbuf_pms_init r = r\<lparr>need_wake_lock := True\<rparr>"

definition sbuf_comm_init :: "sbuf_mgr \<Rightarrow> sbuf_mgr" where
  "sbuf_comm_init m = m\<lparr>rings := map (\<lambda>r. sbuf_pms_init (r\<lparr>poll_mask := POLL_OUT\<rparr>)) (rings m)\<rparr>"

definition host_ring :: "u32 \<Rightarrow> u32 \<Rightarrow> u32 \<Rightarrow> nat \<Rightarrow> sbuf_ring" where
  "host_ring bufnum txbufsize rxbufsize i =
     (let tx = header_size bufnum + unat ((txbufsize + rxbufsize) * of_nat i) in
      \<lparr>header_op = \<lparr>rx_rd_p = hd_rxbuf_rdptr i, rx_wt_p = hd_rxbuf_wrptr i, tx_rd_p = hd_txbuf_rdptr i,
         tx_wt_p = hd_txbuf_wrptr i, rx_size = rxbufsize, tx_size = txbufsize\<rparr>,
       txbuf_virt = tx, rxbuf_virt = tx + unat txbufsize, need_wake_lock = False, poll_mask = 0, has_handler = False\<rparr>)"

definition init_ring_header :: "u32 \<Rightarrow> u32 \<Rightarrow> u32 \<Rightarrow> nat \<Rightarrow> (nat \<Rightarrow> u32) \<Rightarrow> nat \<Rightarrow> u32" where
  "init_ring_header addr txbufsize rxbufsize i w =
     w(hd_txbuf_addr i := addr, hd_txbuf_size i := txbufsize, hd_txbuf_rdptr i := 0, hd_txbuf_wrptr i := 0,
       hd_rxbuf_addr i := addr + txbufsize, hd_rxbuf_size i := rxbufsize, hd_rxbuf_rdptr i := 0, hd_rxbuf_wrptr i := 0)"

text \<open>
  \<open>addr\<close> is the result of \<open>smem_alloc\<close>, \<open>block\<close> the memory that was mapped (\<open>None\<close> when mapping fails), \<open>mem\<close> says whether
  the rings are allocated and \<open>res\<close> is the result of the request for the memory.
\<close>

definition sbuf_host_init ::
    "u32 \<Rightarrow> ((nat \<Rightarrow> u32) \<times> u8 list) option \<Rightarrow> bool \<Rightarrow> int \<Rightarrow> u32 \<Rightarrow> u32 \<Rightarrow> u32 \<Rightarrow> sbuf_mgr \<Rightarrow> sbuf_sys \<Rightarrow>
     int \<times> sbuf_mgr \<times> sbuf_sys" where
  "sbuf_host_init addr block mem res bufnum txbufsize rxbufsize m st =
     (let hsize = of_nat (header_size bufnum) :: u32;
          size = hsize + (txbufsize + rxbufsize) * bufnum;
          m = m\<lparr>ringnr := bufnum, smem_size := size, smem_addr := addr\<rparr> in
      if addr = 0 then (- ENOMEM, m, st)
      else
        let m = m\<lparr>dst_smem_addr := addr - smem_base st + dst_smem_base st\<rparr> in
        case block of
          None \<Rightarrow> (- EFAULT, m, sbuf_log (Free_block addr size) st)
        | Some (w, b) \<Rightarrow>
            if \<not> mem then (- ENOMEM, m, sbuf_log Unmap_block (sbuf_log (Free_block addr size) st))
            else
              let rval = sipc_smem_request_resource res (ipc st) in
              if rval < 0 then (rval, m, sbuf_log Unmap_block (sbuf_log (Free_block addr size) st))
              else
                let w = fold (\<lambda>i. init_ring_header (dst_smem_addr m + hsize + (txbufsize + rxbufsize) * of_nat i)
                           txbufsize rxbufsize i) [0..<unat bufnum] (w(0 := bufnum));
                    m = m\<lparr>words := w, bytes := b, rings := map (host_ring bufnum txbufsize rxbufsize) [0..<unat bufnum]\<rparr> in
                (0, sbuf_comm_init m, st\<lparr>ipc := sipc_smem_release_resource Release_sipc_resource (ipc st)\<rparr>))"

text \<open>The client's rings: the host's read buffer is its write buffer.\<close>

definition client_ring :: "u32 \<Rightarrow> u32 \<Rightarrow> u32 \<Rightarrow> (nat \<Rightarrow> u32) \<Rightarrow> nat \<Rightarrow> sbuf_ring" where
  "client_ring bufnum txbufsize rxbufsize w i =
     (let rx = header_size bufnum + unat ((txbufsize + rxbufsize) * of_nat i) in
      \<lparr>header_op = \<lparr>rx_rd_p = hd_txbuf_rdptr i, rx_wt_p = hd_txbuf_wrptr i, tx_rd_p = hd_rxbuf_rdptr i,
         tx_wt_p = hd_rxbuf_wrptr i, rx_size = w (hd_txbuf_size i), tx_size = w (hd_rxbuf_size i)\<rparr>,
       txbuf_virt = rx + unat rxbufsize, rxbuf_virt = rx, need_wake_lock = False, poll_mask = 0, has_handler = False\<rparr>)"

text \<open>
  \<open>head\<close> says whether the header can be mapped, \<open>debug\<close> is the address of the memory the client allocates for itself. The
  failure path after the request frees the host's address, as in the source.
\<close>

definition sbuf_client_init ::
    "bool \<Rightarrow> u32 \<Rightarrow> ((nat \<Rightarrow> u32) \<times> u8 list) \<Rightarrow> bool \<Rightarrow> bool \<Rightarrow> int \<Rightarrow> sbuf_mgr \<Rightarrow> sbuf_sys \<Rightarrow> int \<times> sbuf_mgr \<times> sbuf_sys" where
  "sbuf_client_init head debug block mapped mem res m st =
     (if \<not> head then (- EFAULT, m, st)
      else
        let (w, b) = block;
            bufnum = w 0; txbufsize = w (hd_rxbuf_size 0); rxbufsize = w (hd_txbuf_size 0);
            size = of_nat (header_size bufnum) + (txbufsize + rxbufsize) * bufnum;
            m = m\<lparr>ringnr := bufnum, smem_size := size, smem_addr_debug := debug\<rparr>;
            st = sbuf_log Unmap_block st in
        if debug = 0 then (- ENOMEM, m, st)
        else if \<not> mapped then (- EFAULT, m, sbuf_log (Free_block debug size) st)
        else if \<not> mem then (- ENOMEM, m, sbuf_log Unmap_block (sbuf_log (Free_block debug size) st))
        else
          let rval = sipc_smem_request_resource res (ipc st) in
          if rval < 0 then (rval, m, sbuf_log Unmap_block (sbuf_log (Free_block (smem_addr m) size) st))
          else
            let m = m\<lparr>words := w, bytes := b, rings := map (client_ring bufnum txbufsize rxbufsize w) [0..<unat bufnum]\<rparr> in
            (0, sbuf_comm_init m, st\<lparr>ipc := sipc_smem_release_resource Release_sipc_resource (ipc st)\<rparr>))"

section \<open>Writing\<close>

text \<open>
  The loop of \<open>sbuf_write\<close>: \<open>left\<close> bytes are left of the buffer \<open>data\<close>. \<open>fault n\<close> says whether copying from user space
  fails in round \<open>n\<close> (then nothing is counted as written), \<open>peer n\<close> what the other side does after the round, \<open>res\<close>
  is the result of the power manager for the notification.
\<close>

definition copy_in :: "nat \<Rightarrow> u32 \<Rightarrow> nat \<Rightarrow> int \<Rightarrow> nat \<Rightarrow> u8 list \<Rightarrow> u8 list \<Rightarrow> u8 list option" where
  "copy_in virt tsize txpos txsize off data b =
     (let tail = int txpos + txsize - int (virt + unat tsize) in
      if txsize < 0 then None
      else if 0 < tail then
        if txsize < tail then None
        else Option.bind (memcpy b txpos data off (nat (txsize - tail)))
               (\<lambda>b. memcpy b virt data (off + nat (txsize - tail)) (nat tail))
      else memcpy b txpos data off (nat txsize))"

partial_function (option) write_loop ::
    "int \<Rightarrow> (nat \<Rightarrow> bool) \<Rightarrow> (nat \<Rightarrow> sbuf_sys \<Rightarrow> sbuf_sys) \<Rightarrow> nat \<Rightarrow> u8 list \<Rightarrow> nat \<Rightarrow> nat \<Rightarrow> int \<Rightarrow> int \<Rightarrow> sbuf_sys \<Rightarrow>
     (int \<times> int \<times> sbuf_sys) option" where
  "write_loop res fault peer bufid data n off left rval st = do {
     m \<leftarrow> mgr st;
     r \<leftarrow> get_ring bufid m;
     let op = header_op r;
     let used = tx_wt r m - tx_rd r m;
     if left = 0 \<or> tx_size op \<le> used \<or> sbuf_state m \<noteq> SBUF_STATE_READY then Some (rval, left, st)
     else if fault n then Some (- EFAULT, left, st)
     else do {
       let txpos = txbuf_virt r + unat (tx_wt r m mod tx_size op);
       let txsize = min (sint (tx_size op - used)) left;
       b \<leftarrow> copy_in (txbuf_virt r) (tx_size op) txpos txsize off data (bytes m);
       let m = m\<lparr>bytes := b, words := (words m)(tx_wt_p op := tx_wt r m + of_int txsize)\<rparr>;
       let mevt = smsg_set (sbuf_channel m) SMSG_TYPE_EVENT SMSG_EVENT_SBUF_WRPTR (of_nat bufid);
       let s = (if force_send m \<or> tx_wt r m - tx_rd r m = of_int txsize then snd (smsg_send res mevt (ipc st)) else ipc st);
       write_loop res fault peer bufid data (Suc n) (off + nat txsize) (left - txsize) rval
         (peer n (set_mgr m (st\<lparr>ipc := s\<rparr>))) } }"

definition release_ring :: "sbuf_call \<Rightarrow> sbuf_sys \<Rightarrow> sbuf_sys" where
  "release_ring c st = (if ipc_smem_type (ipc st) \<noteq> SMEM_LOCAL then sbuf_log c st else st)"

text \<open>The write mask of the ring follows whether there is room.\<close>

definition update_tx_mask :: "nat \<Rightarrow> sbuf_mgr \<Rightarrow> sbuf_mgr" where
  "update_tx_mask i m =
     (let r = rings m ! i in
      if tx_size (header_op r) \<le> tx_wt r m - tx_rd r m then set_poll i (\<lambda>p. p AND NOT POLL_OUT) m
      else set_poll i (\<lambda>p. p OR POLL_OUT) m)"

text \<open>
  What a full ring does with the timeout: \<open>wait\<close> is \<open>wait_event_interruptible\<close> or its variant with a timeout. The
  states and the result are those the code looks at.
\<close>

definition sbuf_wait :: "int \<Rightarrow> int \<Rightarrow> (sbuf_sys \<Rightarrow> int \<times> sbuf_sys) \<Rightarrow> sbuf_sys \<Rightarrow> (int \<times> sbuf_sys) option" where
  "sbuf_wait none timeout wait st =
     (if timeout = 0 then Some (none, st)
      else
        let (rval, st) = wait st in
        case mgr st of
          None \<Rightarrow> None
        | Some m \<Rightarrow>
            let rval = (if 0 < timeout \<and> rval = 0 then - ETIME else rval);
                rval = (if sbuf_state m = SBUF_STATE_IDLE then - EIO else rval) in
            Some (rval, st))"

text \<open>\<open>res k\<close> is the result of the \<open>k\<close>-th request to the power manager, the third being that of the notifications.\<close>

definition sbuf_write ::
    "bool \<Rightarrow> (nat \<Rightarrow> int) \<Rightarrow> (sbuf_sys \<Rightarrow> int \<times> sbuf_sys) \<Rightarrow> (nat \<Rightarrow> bool) \<Rightarrow> (nat \<Rightarrow> sbuf_sys \<Rightarrow> sbuf_sys) \<Rightarrow> u8 \<Rightarrow> nat \<Rightarrow>
     u8 list \<Rightarrow> u32 \<Rightarrow> int \<Rightarrow> sbuf_sys \<Rightarrow> (int \<times> sbuf_sys) option" where
  "sbuf_write trylock res wait fault peer c bufid data len timeout st =
     (if channel2index c = INVALID_CHANEL_INDEX then Some (- EINVAL, st)
      else case mgr st of
        None \<Rightarrow> Some (- ENODEV, st)
      | Some m \<Rightarrow>
          if sbuf_state m \<noteq> SBUF_STATE_READY then Some (- ENODEV, st)
          else do {
            r \<leftarrow> get_ring bufid m;
            let rval = sipc_smem_request_resource (res 0) (ipc st);
            if timeout = 0 \<and> \<not> trylock then Some (- EBUSY, st)
            else if rval < 0 then Some (rval, st)
            else do {
              let no_data = (tx_size (header_op r) \<le> tx_wt r m - tx_rd r m);
              let st = release_ring (Release_tx bufid) (set_mgr (update_tx_mask bufid m) st);
              (rval, st) \<leftarrow> (if no_data then sbuf_wait (- EBUSY) timeout wait st else Some (rval, st));
              if rval < 0 then Some (rval, st)
              else do {
                let rval = sipc_smem_request_resource (res 1) (ipc st);
                if rval < 0 then Some (rval, st)
                else do {
                  (rval, left, st) \<leftarrow> write_loop (res 2) fault peer bufid data 0 0 (sint len) rval st;
                  m \<leftarrow> mgr st;
                  r \<leftarrow> get_ring bufid m;
                  let st = release_ring (Release_tx bufid) (set_mgr (update_tx_mask bufid m) st);
                  let st = (if need_wake_lock r then sbuf_log (Tx_wakelock_later bufid) st else st);
                  Some (if len = of_int left then rval else sint (len - of_int left), st) } } } })"

section \<open>Reading\<close>

definition copy_out :: "nat \<Rightarrow> u32 \<Rightarrow> nat \<Rightarrow> int \<Rightarrow> u8 list \<Rightarrow> u8 list option" where
  "copy_out virt rsize rxpos rxsize b =
     (let tail = int rxpos + rxsize - int (virt + unat rsize);
          get = (\<lambda>pos k. if pos + k \<le> length b then Some (take k (drop pos b)) else None) in
      if rxsize < 0 then None
      else if 0 < tail then
        if rxsize < tail then None
        else Option.bind (get rxpos (nat (rxsize - tail))) (\<lambda>x. map_option (\<lambda>y. x @ y) (get virt (nat tail)))
      else get rxpos (nat rxsize))"

text \<open>The loop of \<open>sbuf_read\<close>: \<open>out\<close> is what was copied to the caller so far.\<close>

partial_function (option) read_loop ::
    "int \<Rightarrow> (nat \<Rightarrow> bool) \<Rightarrow> (nat \<Rightarrow> sbuf_sys \<Rightarrow> sbuf_sys) \<Rightarrow> nat \<Rightarrow> u8 list \<Rightarrow> nat \<Rightarrow> int \<Rightarrow> int \<Rightarrow> sbuf_sys \<Rightarrow>
     (int \<times> int \<times> u8 list \<times> sbuf_sys) option" where
  "read_loop res fault peer bufid out n left rval st = do {
     m \<leftarrow> mgr st;
     r \<leftarrow> get_ring bufid m;
     let op = header_op r;
     if left = 0 \<or> rx_wt r m = rx_rd r m \<or> sbuf_state m \<noteq> SBUF_STATE_READY then Some (rval, left, out, st)
     else if rx_size op = 0 then None
     else if fault n then Some (- EFAULT, left, out, st)
     else do {
       let rxpos = rxbuf_virt r + unat (rx_rd r m mod rx_size op);
       let rxsize = min (sint (rx_wt r m - rx_rd r m)) left;
       x \<leftarrow> copy_out (rxbuf_virt r) (rx_size op) rxpos rxsize (bytes m);
       let m = m\<lparr>words := (words m)(rx_rd_p op := rx_rd r m + of_int rxsize)\<rparr>;
       let mevt = smsg_set (sbuf_channel m) SMSG_TYPE_EVENT SMSG_EVENT_SBUF_RDPTR (of_nat bufid);
       let s = (if rx_wt r m - rx_rd r m = rx_size op - of_int rxsize then snd (smsg_send res mevt (ipc st)) else ipc st);
       read_loop res fault peer bufid (out @ x) (Suc n) (left - rxsize) rval (peer n (set_mgr m (st\<lparr>ipc := s\<rparr>))) } }"

definition update_rx_mask :: "nat \<Rightarrow> sbuf_mgr \<Rightarrow> sbuf_mgr" where
  "update_rx_mask i m =
     (let r = rings m ! i in
      if rx_wt r m = rx_rd r m then set_poll i (\<lambda>p. p AND NOT POLL_IN) m else set_poll i (\<lambda>p. p OR POLL_IN) m)"

definition sbuf_read ::
    "bool \<Rightarrow> (nat \<Rightarrow> int) \<Rightarrow> (sbuf_sys \<Rightarrow> int \<times> sbuf_sys) \<Rightarrow> (nat \<Rightarrow> bool) \<Rightarrow> (nat \<Rightarrow> sbuf_sys \<Rightarrow> sbuf_sys) \<Rightarrow> u8 \<Rightarrow> nat \<Rightarrow>
     u32 \<Rightarrow> int \<Rightarrow> sbuf_sys \<Rightarrow> (int \<times> u8 list \<times> sbuf_sys) option" where
  "sbuf_read trylock res wait fault peer c bufid len timeout st =
     (if channel2index c = INVALID_CHANEL_INDEX then Some (- EINVAL, [], st)
      else case mgr st of
        None \<Rightarrow> Some (- ENODEV, [], st)
      | Some m \<Rightarrow>
          if sbuf_state m \<noteq> SBUF_STATE_READY then Some (- ENODEV, [], st)
          else do {
            r \<leftarrow> get_ring bufid m;
            let rval = sipc_smem_request_resource (res 0) (ipc st);
            if timeout = 0 \<and> \<not> trylock then Some (- EBUSY, [], st)
            else if rval < 0 then Some (rval, [], st)
            else do {
              let no_data = (rx_wt r m = rx_rd r m);
              let st = release_ring (Release_rx bufid) (set_mgr (update_rx_mask bufid m) st);
              (rval, st) \<leftarrow> (if no_data then sbuf_wait (- ENODATA) timeout wait st else Some (rval, st));
              if rval < 0 then Some (rval, [], st)
              else do {
                let rval = sipc_smem_request_resource (res 1) (ipc st);
                if rval < 0 then Some (rval, [], st)
                else do {
                  (rval, left, out, st) \<leftarrow> read_loop (res 2) fault peer bufid [] 0 (sint len) rval st;
                  m \<leftarrow> mgr st;
                  r \<leftarrow> get_ring bufid m;
                  let st = release_ring (Release_rx bufid) (set_mgr (update_rx_mask bufid m) st);
                  let st = (if need_wake_lock r then sbuf_log (Rx_wakelock_later bufid) st else st);
                  Some (if len = of_int left then rval else sint (len - of_int left), out, st) } } } })"

section \<open>The thread of a channel\<close>

text \<open>Dropping what was not read: the read counters follow the write counters, and the masks are as at the start.\<close>

definition sbuf_skip_old_data :: "int \<Rightarrow> sbuf_sys \<Rightarrow> sbuf_sys option" where
  "sbuf_skip_old_data res st = do {
     m \<leftarrow> mgr st;
     if rings m = [] then None
     else if sipc_smem_request_resource res (ipc st) < 0 then Some st
     else
       let m = fold (\<lambda>i m. let op = header_op (rings m ! i) in
                  set_poll i (\<lambda>_. POLL_OUT) (m\<lparr>words := (words m)(rx_rd_p op := words m (rx_wt_p op))\<rparr>))
                [0..<unat (ringnr m)] m in
       Some (release_ring (Release_rx 0) (set_mgr m st)) }"

definition set_sbuf_state :: "u32 \<Rightarrow> sbuf_sys \<Rightarrow> sbuf_sys" where
  "set_sbuf_state v st = st\<lparr>mgr := map_option (\<lambda>m. m\<lparr>sbuf_state := v\<rparr>) (mgr st)\<rparr>"

definition notify :: "nat \<Rightarrow> int \<Rightarrow> sbuf_ring \<Rightarrow> sbuf_sys \<Rightarrow> sbuf_sys" where
  "notify i ev r st = (if has_handler r then sbuf_log (Notify i ev) st else st)"

text \<open>An event of the other side. Its ring number is used as it comes: the check only warns.\<close>

definition sbuf_event :: "smsg \<Rightarrow> sbuf_sys \<Rightarrow> sbuf_sys option" where
  "sbuf_event mrecv st = do {
     m \<leftarrow> mgr st;
     let i = unat (msg_value mrecv);
     r \<leftarrow> get_ring i m;
     Some (
       if flag mrecv = SMSG_EVENT_SBUF_RDPTR then
         let st = (if need_wake_lock r then sbuf_log (Tx_wakelock i) st else st);
             st = set_mgr (set_poll i (\<lambda>p. p OR POLL_OUT) m) st in
         notify i SBUF_NOTIFY_WRITE r (sbuf_log (Wake_tx i) st)
       else if flag mrecv = SMSG_EVENT_SBUF_WRPTR then
         let st = set_mgr (set_poll i (\<lambda>p. p OR POLL_IN) m) st;
             st = (if need_wake_lock r then sbuf_log (Rx_wakelock i) st else st) in
         notify i SBUF_NOTIFY_READ r (sbuf_log (Wake_rx i) st)
       else st) }"

text \<open>What the thread does with a message it received; \<open>res\<close> is the result of its requests to the power manager.\<close>

definition sbuf_thread_msg :: "int \<Rightarrow> smsg \<Rightarrow> sbuf_sys \<Rightarrow> sbuf_sys option" where
  "sbuf_thread_msg res mrecv st = do {
     m \<leftarrow> mgr st;
     let client = ipc_client (ipc st);
     if msg_type mrecv = SMSG_TYPE_OPEN then
       if client then Some st
       else do {
         st \<leftarrow> (if sbuf_state m = SBUF_STATE_READY
                then map_option (set_sbuf_state SBUF_STATE_IDLE) (sbuf_skip_old_data res st) else Some st);
         Some (st\<lparr>ipc := smsg_open_ack res (sbuf_channel m) (ipc st)\<rparr>) }
     else if msg_type mrecv = SMSG_TYPE_CLOSE then do {
       st \<leftarrow> sbuf_skip_old_data res st;
       Some (set_sbuf_state SBUF_STATE_IDLE (st\<lparr>ipc := smsg_close_ack res (sbuf_channel m) (ipc st)\<rparr>)) }
     else if msg_type mrecv = SMSG_TYPE_CMD then
       if client then Some st
       else if sbuf_state m = SBUF_STATE_IDLE \<and> flag mrecv = SMSG_CMD_SBUF_INIT then
         let mcmd = smsg_set (sbuf_channel m) SMSG_TYPE_DONE SMSG_DONE_SBUF_INIT (dst_smem_addr m);
             st = set_sbuf_state SBUF_STATE_READY (st\<lparr>ipc := snd (smsg_send res mcmd (ipc st))\<rparr>) in
         Some (fold (\<lambda>i. notify i SBUF_NOTIFY_READY (rings m ! i)) [0..<unat (ringnr m)] st)
       else Some st
     else if msg_type mrecv = SMSG_TYPE_EVENT then sbuf_event mrecv st
     else Some st }"

text \<open>One round of the thread's loop: \<open>wait\<close> is the wait of \<open>smsg_recv\<close>. A channel that is free is tried again later.\<close>

definition sbuf_thread_round :: "int \<Rightarrow> (smsg_ipc \<Rightarrow> int \<times> smsg_ipc) \<Rightarrow> sbuf_sys \<Rightarrow> sbuf_sys option" where
  "sbuf_thread_round res wait st = do {
     m \<leftarrow> mgr st;
     (rval, mrecv, s) \<leftarrow> smsg_recv True wait (smsg_set (sbuf_channel m) 0 0 0) (- 1) (ipc st);
     let st = st\<lparr>ipc := s\<rparr>;
     if rval = - EIO then Some st
     else do {
       st \<leftarrow> sbuf_thread_msg res mrecv st;
       Some (st\<lparr>ipc := snd (smsg_ch_wake_unlock (sbuf_channel m) (ipc st))\<rparr>) } }"

text \<open>The client waits for the answer to its command.\<close>

partial_function (option) wait_done :: "(nat \<Rightarrow> smsg_ipc \<Rightarrow> int \<times> smsg_ipc) \<Rightarrow> u8 \<Rightarrow> nat \<Rightarrow> smsg_ipc \<Rightarrow> (int \<times> smsg \<times> smsg_ipc) option" where
  "wait_done wait c n s = do {
     (rval, mrecv, s) \<leftarrow> smsg_recv True (wait n) (smsg_set c 0 0 0) (- 1) s;
     if rval \<noteq> 0 \<or> msg_type mrecv = SMSG_TYPE_DONE \<and> flag mrecv = SMSG_DONE_SBUF_INIT then Some (rval, mrecv, s)
     else wait_done wait c (Suc n) s }"

text \<open>
  The start of the thread: opening the channel and, for a client, finding the block. \<open>init m\<close> is \<open>sbuf_client_init\<close>
  with what it is given. The flag says whether the thread goes on to its loop.
\<close>

definition sbuf_thread_start ::
    "bool \<Rightarrow> int \<Rightarrow> (nat \<Rightarrow> smsg_ipc \<Rightarrow> int \<times> smsg_ipc) \<Rightarrow> (nat \<Rightarrow> smsg_ipc \<Rightarrow> int \<times> smsg_ipc) \<Rightarrow>
     (sbuf_mgr \<Rightarrow> sbuf_sys \<Rightarrow> int \<times> sbuf_mgr \<times> sbuf_sys) \<Rightarrow> sbuf_sys \<Rightarrow> (bool \<times> sbuf_sys) option" where
  "sbuf_thread_start mem res wait wait' init st = do {
     m \<leftarrow> mgr st;
     (rval, s) \<leftarrow> smsg_ch_open mem res (\<lambda>_. True) wait (sbuf_channel m) (- 1) (ipc st);
     let st = st\<lparr>ipc := s\<rparr>;
     if rval \<noteq> 0 then Some (False, set_mgr (m\<lparr>thread_alive := False\<rparr>) st)
     else if \<not> ipc_client s then Some (True, st)
     else do {
       let s = snd (smsg_send res (smsg_set (sbuf_channel m) SMSG_TYPE_CMD SMSG_CMD_SBUF_INIT 0) s);
       (rval, mrecv, s) \<leftarrow> wait_done wait' (sbuf_channel m) 0 s;
       let st = st\<lparr>ipc := s\<rparr>;
       if rval \<noteq> 0 then Some (False, set_mgr (m\<lparr>thread_alive := False\<rparr>) st)
       else
         let (ret, m, st) = init (m\<lparr>smem_addr := msg_value mrecv\<rparr>) st in
         if ret \<noteq> 0 then Some (False, set_mgr (m\<lparr>thread_alive := False\<rparr>) st)
         else Some (True, set_mgr (m\<lparr>sbuf_state := SBUF_STATE_READY\<rparr>) st) } }"

section \<open>Creating and destroying\<close>

text \<open>\<open>init\<close> is \<open>sbuf_host_init\<close> with what it is given, \<open>thread\<close> the result of \<open>kthread_create\<close>.\<close>

definition sbuf_create ::
    "bool \<Rightarrow> (sbuf_mgr \<Rightarrow> sbuf_sys \<Rightarrow> int \<times> sbuf_mgr \<times> sbuf_sys) \<Rightarrow> int \<Rightarrow> u8 \<Rightarrow> sbuf_sys \<Rightarrow> int \<times> sbuf_sys" where
  "sbuf_create mem init thread c st =
     (if channel2index c = INVALID_CHANEL_INDEX then (- EINVAL, st)
      else if \<not> registered (ipc st) then (- EINVAL, st)
      else if \<not> mem then (- ENOMEM, st)
      else
        let m = \<lparr>sbuf_channel = c,
                 force_send = (ipc_type (ipc st) = SIPC_BASE_PCIE \<and> ipc_smem_type (ipc st) = SMEM_LOCAL),
                 sbuf_state = SBUF_STATE_IDLE, smem_addr = 0, smem_size = 0, smem_addr_debug = 0, dst_smem_addr = 0,
                 ringnr = 0, rings = [], thread_alive = False, words = (\<lambda>_. 0), bytes = []\<rparr>;
            client = ipc_client (ipc st);
            (ret, m, st) = (if client then (0, m, st) else init m st) in
        if ret \<noteq> 0 then (ret, st)
        else if thread < 0 then
          (thread, if client then st else sbuf_log (Free_block (smem_addr m) (smem_size m)) (sbuf_log Unmap_block st))
        else (0, set_mgr (m\<lparr>thread_alive := True\<rparr>) st))"

definition sbuf_set_no_need_wake_lock :: "u8 \<Rightarrow> u32 \<Rightarrow> sbuf_sys \<Rightarrow> sbuf_sys" where
  "sbuf_set_no_need_wake_lock c bufnum st =
     (if channel2index c = INVALID_CHANEL_INDEX then st
      else case mgr st of
        None \<Rightarrow> st
      | Some m \<Rightarrow>
          if ringnr m \<le> bufnum then st
          else set_mgr (set_ring (unat bufnum) ((rings m ! unat bufnum)\<lparr>need_wake_lock := False\<rparr>) m) st)"

definition wake_all :: "sbuf_mgr \<Rightarrow> sbuf_sys \<Rightarrow> sbuf_sys" where
  "wake_all m st = fold (\<lambda>i st. sbuf_log (Wake_rx i) (sbuf_log (Wake_tx i) st)) [0..<length (rings m)] st"

definition sbuf_down :: "u8 \<Rightarrow> sbuf_sys \<Rightarrow> sbuf_sys" where
  "sbuf_down c st =
     (if channel2index c = INVALID_CHANEL_INDEX then st
      else case mgr st of
        None \<Rightarrow> st
      | Some m \<Rightarrow> wake_all m (set_mgr (m\<lparr>sbuf_state := SBUF_STATE_IDLE\<rparr>) st))"

text \<open>\<open>mapped\<close> says whether the block is mapped.\<close>

definition sbuf_destroy :: "int \<Rightarrow> bool \<Rightarrow> u8 \<Rightarrow> sbuf_sys \<Rightarrow> sbuf_sys option" where
  "sbuf_destroy res mapped c st =
     (if channel2index c = INVALID_CHANEL_INDEX then Some st
      else case mgr st of
        None \<Rightarrow> Some st
      | Some m \<Rightarrow> do {
          let st = set_mgr (m\<lparr>sbuf_state := SBUF_STATE_IDLE\<rparr>) st;
          (_, s) \<leftarrow> smsg_ch_close res c (ipc st);
          let st = st\<lparr>ipc := s\<rparr>;
          let st = (if thread_alive m then sbuf_log Stop_thread st else st);
          let st = fold (\<lambda>i st. sbuf_log (Destroy_ring_pms i) (sbuf_log (Wake_rx i) (sbuf_log (Wake_tx i) st)))
                [0..<length (rings m)] st;
          let st = (if mapped then sbuf_log Unmap_block st else st);
          let st = sbuf_log (Free_block (if ipc_client s then smem_addr_debug m else smem_addr m) (smem_size m)) st;
          Some (st\<lparr>mgr := None\<rparr>) })"

section \<open>Polling and status\<close>

definition sbuf_poll_wait :: "u8 \<Rightarrow> nat \<Rightarrow> sbuf_sys \<Rightarrow> u32 option" where
  "sbuf_poll_wait c bufid st =
     (if channel2index c = INVALID_CHANEL_INDEX then Some 0
      else case mgr st of
        None \<Rightarrow> Some 0
      | Some m \<Rightarrow>
          if sbuf_state m \<noteq> SBUF_STATE_READY then Some 0
          else map_option (\<lambda>r.
            (if sbuf_has_data r True m (ipc st) then POLL_OUT else 0) OR
            (if sbuf_has_data r False m (ipc st) then POLL_IN else 0)) (get_ring bufid m))"

definition sbuf_status :: "u8 \<Rightarrow> sbuf_sys \<Rightarrow> int" where
  "sbuf_status c st =
     (if channel2index c = INVALID_CHANEL_INDEX then - EINVAL
      else case mgr st of
        None \<Rightarrow> - ENODEV
      | Some m \<Rightarrow> if sbuf_state m \<noteq> SBUF_STATE_READY then - ENODEV else 0)"

definition sbuf_register_notifier :: "u8 \<Rightarrow> nat \<Rightarrow> sbuf_sys \<Rightarrow> (int \<times> sbuf_sys) option" where
  "sbuf_register_notifier c bufid st =
     (if channel2index c = INVALID_CHANEL_INDEX then Some (- EINVAL, st)
      else case mgr st of
        None \<Rightarrow> Some (- ENODEV, st)
      | Some m \<Rightarrow> do {
          r \<leftarrow> get_ring bufid m;
          let st = set_mgr (set_ring bufid (r\<lparr>has_handler := True\<rparr>) m) st;
          Some (0, if sbuf_state m = SBUF_STATE_READY then sbuf_log (Notify bufid SBUF_NOTIFY_READ) st else st) })"

end
