(* ===== verification/SmsgProps.thy ===== *)
theory SmsgProps
  imports Smsg Ring
begin

text \<open>
  Properties of the message layer: what a message is in the shared page, the rings and the caches as queues, and
  the messages on their way from the sender on one side to the receiver on the other.
\<close>

section \<open>Messages in the page\<close>

lemma read_cpoy: "read_msg pos (smsg_bl_cpoy_msg pos m p) = m"
proof -
  let ?w = "ucast (channel m) OR push_bit 8 (ucast (msg_type m)) OR push_bit 16 (ucast (flag m)) :: u32"
  have c: "ucast ?w = channel m"
    by (rule bit_eqI) (auto simp: bit_simps)
  have t: "ucast (drop_bit 8 ?w) = msg_type m"
    by (rule bit_eqI) (auto simp: bit_simps dest: bit_imp_le_length)
  have f: "ucast (drop_bit 16 ?w) = flag m"
    by (rule bit_eqI) (auto simp: bit_simps dest: bit_imp_le_length)
  show ?thesis using c t f by (simp add: read_msg_def smsg_bl_cpoy_msg_def)
qed

lemma read_msg_other:
  "q \<noteq> pos \<Longrightarrow> q \<noteq> pos + 4 \<Longrightarrow> q + 4 \<noteq> pos \<Longrightarrow> read_msg q (smsg_bl_cpoy_msg pos m p) = read_msg q p"
  by (simp add: read_msg_def smsg_bl_cpoy_msg_def)

lemma read_msg_upd: "q \<noteq> a \<Longrightarrow> q + 4 \<noteq> a \<Longrightarrow> read_msg q (p(a := v)) = read_msg q p"
  by (simp add: read_msg_def)

text \<open>The 128 cells of the ring at \<open>a\<close>, and the messages under way in it.\<close>

definition slots :: "nat \<Rightarrow> (nat \<Rightarrow> u32) \<Rightarrow> smsg list" where
  "slots a p = map (\<lambda>i. read_msg (i * 8 + a) p) [0..<128]"

definition pending :: "nat \<Rightarrow> nat \<Rightarrow> nat \<Rightarrow> (nat \<Rightarrow> u32) \<Rightarrow> smsg list" where
  "pending a rdp wrp p = ring_view (slots a p) (unat (p rdp)) (unat (p wrp - p rdp))"

definition tx_pending :: "smsg_ipc \<Rightarrow> smsg list" where
  "tx_pending s = pending (txbuf_addr s) (txbuf_rdptr s) (txbuf_wrptr s) (page s)"

definition rx_pending :: "smsg_ipc \<Rightarrow> smsg list" where
  "rx_pending s = pending (rxbuf_addr s) (rxbuf_rdptr s) (rxbuf_wrptr s) (page s)"

lemma length_slots [simp]: "length (slots a p) = 128"
  by (simp add: slots_def)

lemma slots_upd: "(\<And>i. i < 128 \<Longrightarrow> q \<noteq> i * 8 + a \<and> q \<noteq> i * 8 + a + 4) \<Longrightarrow> slots a (p(q := v)) = slots a p"
  unfolding slots_def by (intro map_cong refl read_msg_upd) (metis atLeastLessThan_iff set_upt)+

lemma slots_cpoy:
  assumes "k < 128"
  shows "slots a (smsg_bl_cpoy_msg (k * 8 + a) m p) = (slots a p)[k := m]"
proof (rule nth_equalityI)
  fix i assume "i < length (slots a (smsg_bl_cpoy_msg (k * 8 + a) m p))"
  then have i: "i < 128" by simp
  show "slots a (smsg_bl_cpoy_msg (k * 8 + a) m p) ! i = (slots a p)[k := m] ! i"
  proof (cases "i = k")
    case True
    with i show ?thesis by (simp add: slots_def read_cpoy)
  next
    case False
    then have "i * 8 + a \<noteq> k * 8 + a" "i * 8 + a \<noteq> k * 8 + a + 4" "i * 8 + a + 4 \<noteq> k * 8 + a" by presburger+
    with i False show ?thesis by (simp add: slots_def read_msg_other)
  qed
qed simp

text \<open>The page as \<open>smsg_ipc_smem_init\<close> lays it out.\<close>

definition laid_out :: "smsg_ipc \<Rightarrow> bool" where
  "laid_out s \<longleftrightarrow> ring_layout s = s"

lemma laid_out_iff:
  "laid_out s \<longleftrightarrow> txbuf_size s = 128 \<and> rxbuf_size s = 128 \<and> write_addr s = 3072 \<and>
     (if ipc_client s then txbuf_addr s = 1024 \<and> txbuf_rdptr s = 2056 \<and> txbuf_wrptr s = 2060 \<and>
        rxbuf_addr s = 0 \<and> rxbuf_rdptr s = 2048 \<and> rxbuf_wrptr s = 2052
      else txbuf_addr s = 0 \<and> txbuf_rdptr s = 2048 \<and> txbuf_wrptr s = 2052 \<and>
        rxbuf_addr s = 1024 \<and> rxbuf_rdptr s = 2056 \<and> rxbuf_wrptr s = 2060)"
  by (cases s) (auto simp: laid_out_def ring_layout_def)

lemma laid_out_host:
  "laid_out s \<Longrightarrow> \<not> ipc_client s \<Longrightarrow>
   txbuf_size s = 128 \<and> txbuf_addr s = 0 \<and> txbuf_rdptr s = 2048 \<and> txbuf_wrptr s = 2052 \<and>
   rxbuf_size s = 128 \<and> rxbuf_addr s = 1024 \<and> rxbuf_rdptr s = 2056 \<and> rxbuf_wrptr s = 2060"
  by (simp add: laid_out_iff)

lemma laid_out_client:
  "laid_out s \<Longrightarrow> ipc_client s \<Longrightarrow>
   txbuf_size s = 128 \<and> txbuf_addr s = 1024 \<and> txbuf_rdptr s = 2056 \<and> txbuf_wrptr s = 2060 \<and>
   rxbuf_size s = 128 \<and> rxbuf_addr s = 0 \<and> rxbuf_rdptr s = 2048 \<and> rxbuf_wrptr s = 2052"
  by (simp add: laid_out_iff)

lemma ring_layout_laid_out: "laid_out (ring_layout s)"
  by (cases s) (simp add: laid_out_def ring_layout_def)

text \<open>What the two rings have in common: distinct pointers outside both.\<close>

definition ring_at :: "nat \<Rightarrow> nat \<Rightarrow> nat \<Rightarrow> bool" where
  "ring_at a rdp wrp \<longleftrightarrow> a \<in> {0, 1024} \<and> rdp \<in> {2048..<3072} \<and> wrp \<in> {2048..<3072} \<and> rdp \<noteq> wrp"

lemma laid_out_rings:
  assumes "laid_out s"
  shows "ring_at (txbuf_addr s) (txbuf_rdptr s) (txbuf_wrptr s)" "ring_at (rxbuf_addr s) (rxbuf_rdptr s) (rxbuf_wrptr s)"
    "txbuf_size s = 128" "rxbuf_size s = 128"
  using laid_out_host[OF assms] laid_out_client[OF assms] by (cases "ipc_client s"; simp add: ring_at_def)+

lemma slots_pointer: "ring_at a rdp wrp \<Longrightarrow> q \<in> {2048..<3072} \<Longrightarrow> slots a (p(q := v)) = slots a p"
  by (rule slots_upd) (auto simp: ring_at_def)

lemma pow2_7: "(128::u32) = 2 ^ 7" "(127::u32) = 2 ^ 7 - 1" "(128::nat) = 2 ^ 7"
  by simp_all

lemma pow2_8: "(255::u32) = 2 ^ 8 - 1" "(256::nat) = 2 ^ 8"
  by simp_all

lemma mask_128: "unat ((w::u32) AND 127) < 128"
  using unat_and_pow2[of 7 w] by simp

section \<open>The ring for sending\<close>

lemma cpoy_pointer: "k < 128 \<Longrightarrow> a \<in> {0, 1024} \<Longrightarrow> 2048 \<le> q \<Longrightarrow> smsg_bl_cpoy_msg (k * 8 + a) m p q = p q"
  by (auto simp: smsg_bl_cpoy_msg_def)

lemma pending_put:
  fixes m :: smsg
  assumes r: "ring_at a rdp wrp" and room: "unat (p wrp - p rdp) < 128"
  defines "p1 \<equiv> smsg_bl_cpoy_msg (unat (p wrp AND 127) * 8 + a) m p"
  shows "pending a rdp wrp (p1(wrp := p1 wrp + 1)) = pending a rdp wrp p @ [m]"
    and "(p1(wrp := p1 wrp + 1)) rdp = p rdp" and "(p1(wrp := p1 wrp + 1)) wrp = p wrp + 1"
proof -
  have ptr: "p1 rdp = p rdp" "p1 wrp = p wrp"
    using r mask_128[of "p wrp"] unfolding p1_def by (auto simp: ring_at_def intro!: cpoy_pointer)
  with r show "(p1(wrp := p1 wrp + 1)) rdp = p rdp" "(p1(wrp := p1 wrp + 1)) wrp = p wrp + 1" by (simp_all add: ring_at_def)
  have sl: "slots a (p1(wrp := p1 wrp + 1)) = (slots a p)[unat (p wrp AND 127) := m]"
    using slots_pointer[OF r, of wrp p1] r mask_128[of "p wrp"] unfolding p1_def by (simp add: ring_at_def slots_cpoy)
  show "pending a rdp wrp (p1(wrp := p1 wrp + 1)) = pending a rdp wrp p @ [m]"
    unfolding pending_def sl using counter_put(1)[of 7 "slots a p" "p wrp" "p rdp" m] room r ptr by (simp add: ring_at_def)
qed

lemma length_pending [simp]: "length (pending a rdp wrp p) = unat (p wrp - p rdp)"
  by (simp add: pending_def)

lemma txbuf_put_room:
  assumes "laid_out s" "length (tx_pending s) < 128"
  shows "\<exists>p. txbuf_put m r s = (r, s\<lparr>page := p\<rparr>) \<and> tx_pending (s\<lparr>page := p\<rparr>) = tx_pending s @ [m]"
proof -
  note r = laid_out_rings[OF assms(1)]
  have n: "unat (page s (txbuf_wrptr s) - page s (txbuf_rdptr s)) < 128"
    using assms(2) by (simp add: tx_pending_def)
  then have "\<not> txbuf_size s \<le> page s (txbuf_wrptr s) - page s (txbuf_rdptr s)"
    using r(3) by (simp add: word_le_nat_alt)
  moreover define q where "q = smsg_bl_cpoy_msg (unat (page s (txbuf_wrptr s) AND 127) * 8 + txbuf_addr s) m (page s)"
  ultimately have "txbuf_put m r s = (r, s\<lparr>page := q(txbuf_wrptr s := q (txbuf_wrptr s) + 1)\<rparr>)"
    using r(3) by (simp add: txbuf_put_def Let_def)
  moreover have "tx_pending (s\<lparr>page := q(txbuf_wrptr s := q (txbuf_wrptr s) + 1)\<rparr>) = tx_pending s @ [m]"
    using pending_put(1)[OF r(1) n, of m] by (simp add: tx_pending_def q_def)
  ultimately show ?thesis by blast
qed

lemma txbuf_put_full: "laid_out s \<Longrightarrow> 128 \<le> length (tx_pending s) \<Longrightarrow> txbuf_put m r s = (- EBUSY, s)"
  using laid_out_rings(3)[of s] by (simp add: txbuf_put_def tx_pending_def word_le_nat_alt)

lemma smsg_send_states: "states (snd (smsg_send res m s)) = states s"
  by (simp add: smsg_send_def txbuf_put_def log_call_def Let_def)

definition can_send :: "u8 \<Rightarrow> smsg_ipc \<Rightarrow> bool" where
  "can_send c s \<longleftrightarrow> c \<in> set sipc_cfg \<and> registered s \<and> ring_base s \<noteq> 0 \<and>
     smsg_channels s ! unat (channel2index c) \<noteq> None \<and> states s ! unat (channel2index c) = CHAN_STATE_OPENED"

lemma smsg_send_ok:
  assumes "laid_out s" "channel m \<in> set sipc_cfg" "registered s" "ring_base s \<noteq> 0"
    and "smsg_channels s ! unat (channel2index (channel m)) \<noteq> None"
    and "states s ! unat (channel2index (channel m)) = CHAN_STATE_OPENED \<or> msg_type m = SMSG_TYPE_OPEN \<or> msg_type m = SMSG_TYPE_CLOSE"
    and "0 \<le> res" "length (tx_pending s) < 128"
  shows "\<exists>p l. smsg_send res m s = (res, s\<lparr>page := p, smsg_calls := l\<rparr>) \<and>
    tx_pending (s\<lparr>page := p, smsg_calls := l\<rparr>) = tx_pending s @ [m]"
proof -
  obtain p where p: "txbuf_put m res s = (res, s\<lparr>page := p\<rparr>)" "tx_pending (s\<lparr>page := p\<rparr>) = tx_pending s @ [m]"
    using txbuf_put_room[OF assms(1,8)] by blast
  let ?i = "unat (channel2index (channel m))"
  have "smsg_send res m s = (res, log_call (Release_tx_resource ?i) (log_call (Txirq_trigger m) (s\<lparr>page := p\<rparr>)))"
    using assms(2-7) p(1) channel2index_valid(3)[of "channel m"] by (auto simp: smsg_send_def Let_def)
  with p(2) show ?thesis by (auto simp: log_call_def tx_pending_def intro!: exI)
qed

lemma smsg_send_room:
  assumes "laid_out s" "can_send (channel m) s" "0 \<le> res" "length (tx_pending s) < 128"
  shows "\<exists>s'. smsg_send res m s = (res, s') \<and> laid_out s' \<and> (\<forall>c. can_send c s' = can_send c s) \<and>
    tx_pending s' = tx_pending s @ [m] \<and> ipc_client s' = ipc_client s"
proof -
  obtain p l where "smsg_send res m s = (res, s\<lparr>page := p, smsg_calls := l\<rparr>)"
      "tx_pending (s\<lparr>page := p, smsg_calls := l\<rparr>) = tx_pending s @ [m]"
    using smsg_send_ok[of s m res] assms by (auto simp: can_send_def)
  with assms(1) show ?thesis by (simp add: laid_out_iff can_send_def)
qed

text \<open>Sending a list of messages, as long as each is accepted.\<close>

primrec send_all :: "smsg list \<Rightarrow> smsg_ipc \<Rightarrow> smsg_ipc option" where
  "send_all [] s = Some s"
| "send_all (m # ms) s = (case smsg_send 0 m s of (r, s') \<Rightarrow> if r = 0 then send_all ms s' else None)"

lemma send_all_room:
  "laid_out s \<Longrightarrow> (\<And>m. m \<in> set ms \<Longrightarrow> can_send (channel m) s) \<Longrightarrow> length (tx_pending s) + length ms \<le> 128 \<Longrightarrow>
   \<exists>s'. send_all ms s = Some s' \<and> laid_out s' \<and> tx_pending s' = tx_pending s @ ms \<and> ipc_client s' = ipc_client s"
proof (induction ms arbitrary: s)
  case (Cons m ms)
  obtain s1 where s1: "smsg_send 0 m s = (0, s1)" "laid_out s1" "\<forall>c. can_send c s1 = can_send c s"
    "tx_pending s1 = tx_pending s @ [m]" "ipc_client s1 = ipc_client s"
    using smsg_send_room[of s m 0] Cons.prems by auto
  then show ?case using Cons.IH[of s1] Cons.prems by auto
qed simp

section \<open>The interrupt handler\<close>

text \<open>A reference for the loop: process the messages of a list in order.\<close>

primrec handle_all :: "smsg list \<Rightarrow> smsg_ipc \<Rightarrow> smsg_ipc option" where
  "handle_all [] s = Some s"
| "handle_all (m # ms) s = Option.bind (smsg_msg_process m True s) (handle_all ms)"

lemmas ipc_updates = log_call_def set_smsg_channel_def set_chan_state_def busy_inc_def busy_dec_def

text \<open>Processing a message leaves the page alone and does not look at it.\<close>

lemma process_frame:
  "smsg_msg_process m w s = Some t \<Longrightarrow>
   \<exists>f b ch st l. t = s\<lparr>wakeup_flag := f, busy := b, smsg_channels := ch, states := st, smsg_calls := l\<rparr>"
  by (cases s) (auto simp: smsg_msg_process_def smsg_wakeup_print_def deliver_def ipc_updates Let_def
    split: if_splits option.splits)

lemma process_page:
  "smsg_msg_process m w (s\<lparr>page := p\<rparr>) = map_option (\<lambda>t. t\<lparr>page := p\<rparr>) (smsg_msg_process m w s)"
  by (cases "smsg_channels s ! unat (channel2index (channel m))"; cases "wakeup_flag s = 0")
     (simp_all add: smsg_msg_process_def smsg_wakeup_print_def deliver_def ipc_updates Let_def)

lemma handle_page: "handle_all ms (s\<lparr>page := p\<rparr>) = map_option (\<lambda>t. t\<lparr>page := p\<rparr>) (handle_all ms s)"
proof (induction ms arbitrary: s)
  case (Cons m ms)
  then show ?case by (cases "smsg_msg_process m True s") (simp_all add: process_page)
qed simp

lemma pending_take:
  assumes r: "ring_at a rdp wrp" and ne: "p wrp \<noteq> p rdp"
  shows "pending a rdp wrp p = read_msg (unat (p rdp AND 127) * 8 + a) p # pending a rdp wrp (p(rdp := p rdp + 1))"
proof -
  have "slots a (p(rdp := p rdp + 1)) = slots a p" using slots_pointer[OF r, of rdp] r by (simp add: ring_at_def)
  then have rest: "pending a rdp wrp (p(rdp := p rdp + 1)) =
      ring_view (slots a p) (unat (p rdp + 1)) (unat (p wrp - (p rdp + 1)))"
    using r by (simp add: pending_def ring_at_def)
  have first: "slots a p ! unat (p rdp AND 127) = read_msg (unat (p rdp AND 127) * 8 + a) p"
    using mask_128[of "p rdp"] by (simp add: slots_def)
  have "ring_view (slots a p) (unat (p rdp)) (unat (p wrp - p rdp)) =
      slots a p ! unat (p rdp AND 127) # ring_view (slots a p) (unat (p rdp + 1)) (unat (p wrp - (p rdp + 1)))"
    using counter_get(1)[of 7 "slots a p" "p wrp" "p rdp"] ne by simp
  then show ?thesis unfolding rest first by (simp only: pending_def)
qed

lemma process_loop_idle:
  "laid_out s \<Longrightarrow> rx_pending s = ms \<Longrightarrow>
   process_loop (\<lambda>_ s. s) n s =
     map_option (\<lambda>t. t\<lparr>page := (page s)(rxbuf_rdptr s := page s (rxbuf_wrptr s))\<rparr>) (handle_all ms s)"
proof (induction ms arbitrary: s n)
  case Nil
  then have "page s (rxbuf_wrptr s) = page s (rxbuf_rdptr s)"
    by (metis length_pending list.size(3) rx_pending_def unat_sub_0)
  then show ?case by (subst process_loop.simps) (simp add: fun_upd_idem)
next
  case (Cons m ms)
  note r = laid_out_rings[OF Cons.prems(1)]
  let ?rd = "rxbuf_rdptr s" and ?wr = "rxbuf_wrptr s"
  have ne: "page s ?wr \<noteq> page s ?rd" using Cons.prems(2) by (auto simp: rx_pending_def pending_def)
  have take: "read_msg (unat (page s ?rd AND 127) * 8 + rxbuf_addr s) (page s) = m"
    "pending (rxbuf_addr s) ?rd ?wr ((page s)(?rd := page s ?rd + 1)) = ms"
    using pending_take[where p = "page s", OF r(2) ne] Cons.prems(2) by (simp_all add: rx_pending_def)
  show ?case
  proof (cases "smsg_msg_process m True s")
    case None
    then show ?thesis using ne take(1) r(4) by (subst process_loop.simps) (simp add: Let_def)
  next
    case (Some t)
    define t1 where "t1 = t\<lparr>page := (page s)(?rd := page s ?rd + 1)\<rparr>"
    obtain f b ch st l where t: "t = s\<lparr>wakeup_flag := f, busy := b, smsg_channels := ch, states := st, smsg_calls := l\<rparr>"
      using process_frame[OF Some] by blast
    have lt: "laid_out t1" using Cons.prems(1) by (simp add: t1_def t laid_out_iff)
    have rt: "rx_pending t1 = ms" using take(2) by (simp add: t1_def t rx_pending_def)
    have "process_loop (\<lambda>_ s. s) n s = process_loop (\<lambda>_ s. s) (Suc n) t1"
      using ne take(1) r(4) Some by (subst process_loop.simps) (simp add: Let_def t1_def t)
    also have "\<dots> = map_option (\<lambda>u. u\<lparr>page := (page t1)(rxbuf_rdptr t1 := page t1 (rxbuf_wrptr t1))\<rparr>) (handle_all ms t1)"
      by (rule Cons.IH[OF lt rt])
    also have "handle_all ms t1 = map_option (\<lambda>u. u\<lparr>page := (page s)(?rd := page s ?rd + 1)\<rparr>) (handle_all ms t)"
      unfolding t1_def by (rule handle_page)
    finally have "process_loop (\<lambda>_ s. s) n s = map_option (\<lambda>u. u\<lparr>page := (page t1)(rxbuf_rdptr t1 := page t1 (rxbuf_wrptr t1))\<rparr>)
        (handle_all ms t)"
      by (simp only: option.map_comp comp_def) simp
    moreover have "(page t1)(rxbuf_rdptr t1 := page t1 (rxbuf_wrptr t1)) = (page s)(?rd := page s ?wr)"
      using r(2) by (simp add: t1_def t ring_at_def)
    ultimately show ?thesis using Some by (simp only: handle_all.simps Option.bind.bind_lunit)
  qed
qed

section \<open>The cache of a channel\<close>

definition cache_ok :: "smsg_channel \<Rightarrow> bool" where
  "cache_ok ch \<longleftrightarrow> length (caches ch) = 256 \<and> unat (wrptr ch - rdptr ch) \<le> 256"

definition cached :: "smsg_channel \<Rightarrow> smsg list" where
  "cached ch = ring_view (caches ch) (unat (rdptr ch)) (unat (wrptr ch - rdptr ch))"

lemma sint_small:
  assumes "unat (x::u32) \<le> 256"
  shows "256 \<le> sint x \<longleftrightarrow> 256 \<le> unat x"
proof -
  have u: "int (unat x) = uint x" by simp
  with assms have "uint x \<le> 256" by linarith
  moreover have "- 2147483648 \<le> uint x" by (rule order_trans [OF _ uint_ge_0]) simp
  ultimately have "sint x = uint x" unfolding sint_uint by (subst signed_take_bit_int_eq_self) simp_all
  with u show ?thesis by linarith
qed

lemma cache_put_room:
  assumes "cache_ok ch" "length (cached ch) < 256"
  shows "cache_ok (cache_put m ch)" "cached (cache_put m ch) = cached ch @ [m]"
proof -
  have n: "unat (wrptr ch - rdptr ch) < 256" using assms(2) by (simp add: cached_def)
  then have put: "cache_put m ch = ch\<lparr>caches := (caches ch)[unat (wrptr ch AND 255) := m], wrptr := wrptr ch + 1\<rparr>"
    by (simp add: cache_put_def sint_small)
  have l: "length (caches ch) = 2 ^ 8" using assms(1) by (simp add: cache_ok_def)
  note c = counter_put[of 8 "caches ch" "wrptr ch" "rdptr ch"]
  show "cache_ok (cache_put m ch)" using assms(1) n c(2) l by (simp add: put cache_ok_def)
  show "cached (cache_put m ch) = cached ch @ [m]" using n c(1)[of m] l by (simp add: put cached_def)
qed

lemma cache_put_full: "cache_ok ch \<Longrightarrow> length (cached ch) = 256 \<Longrightarrow> cache_put m ch = ch"
  by (simp add: cached_def cache_put_def sint_small)

text \<open>The cache as a queue of 256 messages: the interrupt handler puts, \<open>smsg_recv\<close> takes.\<close>

definition cache_enq :: "smsg_channel \<Rightarrow> smsg \<Rightarrow> smsg_channel option" where
  "cache_enq ch m = (if cache_put m ch = ch then None else Some (cache_put m ch))"

definition cache_deq :: "smsg_channel \<Rightarrow> (smsg \<times> smsg_channel) option" where
  "cache_deq ch =
     (if wrptr ch = rdptr ch then None
      else Some (caches ch ! unat (rdptr ch AND 255), ch\<lparr>rdptr := rdptr ch + 1\<rparr>))"

lemma cached_take:
  assumes "cache_ok ch" "wrptr ch \<noteq> rdptr ch"
  shows "cached ch = caches ch ! unat (rdptr ch AND 255) # cached (ch\<lparr>rdptr := rdptr ch + 1\<rparr>)"
    "cache_ok (ch\<lparr>rdptr := rdptr ch + 1\<rparr>)" "unat (rdptr ch AND 255) < length (caches ch)"
proof -
  have l: "length (caches ch) = 2 ^ 8" using assms(1) by (simp add: cache_ok_def)
  note c = counter_get[of 8 "caches ch" "wrptr ch" "rdptr ch"]
  show "cached ch = caches ch ! unat (rdptr ch AND 255) # cached (ch\<lparr>rdptr := rdptr ch + 1\<rparr>)"
    using c(1) l assms(2) by (simp add: cached_def)
  show "cache_ok (ch\<lparr>rdptr := rdptr ch + 1\<rparr>)" using c(2) l assms by (simp add: cache_ok_def)
  show "unat (rdptr ch AND 255) < length (caches ch)" using c(3) l assms(2) by simp
qed

lemma cached_empty: "cached ch = [] \<longleftrightarrow> wrptr ch = rdptr ch"
proof -
  have "cached ch = [] \<longleftrightarrow> length (cached ch) = 0" by simp
  also have "\<dots> \<longleftrightarrow> wrptr ch = rdptr ch" by (simp add: cached_def unat_sub_0)
  finally show ?thesis .
qed

interpretation smsg_cache: bounded_queue cache_enq cache_deq cache_ok cached "\<lambda>_. 256"
proof unfold_locales
  fix ch :: smsg_channel and m :: smsg and ms
  assume ok: "cache_ok ch"
  show "length (cached ch) \<le> 256" using ok by (simp add: cached_def cache_ok_def)
  show "length (cached ch) = 256 \<Longrightarrow> cache_enq ch m = None" using ok by (simp add: cache_enq_def cache_put_full)
  show "cached ch = [] \<Longrightarrow> cache_deq ch = None" by (simp add: cached_empty cache_deq_def)
  show "\<exists>q'. cache_enq ch m = Some q' \<and> cache_ok q' \<and> cached q' = cached ch @ [m] \<and> (256::nat) = 256"
    if "length (cached ch) < 256"
  proof -
    have "cache_put m ch \<noteq> ch" using cache_put_room(2)[OF ok that, of m] by (auto dest: arg_cong [where f = cached])
    with cache_put_room[OF ok that, of m] show ?thesis by (simp add: cache_enq_def)
  qed
  show "\<exists>q'. cache_deq ch = Some (m, q') \<and> cache_ok q' \<and> cached q' = ms \<and> (256::nat) = 256" if "cached ch = m # ms"
    using cached_take[OF ok] that cached_empty[of ch] by (auto simp: cache_deq_def)
qed

section \<open>From the page into the caches\<close>

definition ipc_wf :: "smsg_ipc \<Rightarrow> bool" where
  "ipc_wf s \<longleftrightarrow> length (busy s) = 39 \<and> length (states s) = 39 \<and> length (smsg_channels s) = 39"

text \<open>What the cache of the channel \<open>c\<close> holds, for a channel that is there.\<close>

definition holds :: "u8 \<Rightarrow> smsg list \<Rightarrow> smsg_ipc \<Rightarrow> bool" where
  "holds c ms s \<longleftrightarrow> (\<exists>ch. smsg_channels s ! unat (channel2index c) = Some ch \<and> cache_ok ch \<and> cached ch = ms)"

lemma index_inj:
  "c \<in> set sipc_cfg \<Longrightarrow> d \<in> set sipc_cfg \<Longrightarrow> unat (channel2index c) = unat (channel2index d) \<longleftrightarrow> c = d"
  by (metis channel2index_valid(2))

definition sane :: "smsg_ipc \<Rightarrow> smsg \<Rightarrow> bool" where
  "sane s m \<longleftrightarrow> channel m \<in> set sipc_cfg \<and> msg_type m < SMSG_TYPE_NR \<and> (msg_type m = SMSG_TYPE_DIE \<longrightarrow> \<not> debug_enable s)"

lemma process_wf: "smsg_msg_process m w s = Some t \<Longrightarrow> ipc_wf s \<Longrightarrow> ipc_wf t"
  by (auto simp: smsg_msg_process_def smsg_wakeup_print_def deliver_def ipc_updates Let_def ipc_wf_def
    split: if_splits option.splits)

lemma process_into_cache:
  assumes wf: "ipc_wf s" and sane: "sane s m" and c: "c \<in> set sipc_cfg" and h: "holds c ms s"
    and room: "channel m = c \<Longrightarrow> length ms < 256"
  shows "\<exists>t. smsg_msg_process m w s = Some t \<and> ipc_wf t \<and> registered t = registered s \<and> debug_enable t = debug_enable s \<and>
    holds c (ms @ (if channel m = c then [m] else [])) t"
proof -
  let ?i = "unat (channel2index (channel m))" and ?c = "unat (channel2index c)"
  have i: "?i < 39" "?c < 39" using sane c channel2index_valid(1) by (simp_all add: sane_def)
  have ne: "channel m \<noteq> c \<Longrightarrow> ?i \<noteq> ?c" using index_inj sane c by (simp add: sane_def)
  from h obtain ch where ch: "smsg_channels s ! ?c = Some ch" "cache_ok ch" "cached ch = ms" by (auto simp: holds_def)
  define u where "u = busy_inc ?i (smsg_wakeup_print s)"
  have u: "smsg_channels u = smsg_channels s" "length (busy u) = length (busy s)" "debug_enable u = debug_enable s"
    "registered u = registered s" "length (states u) = length (states s)"
    by (simp_all add: u_def busy_inc_def smsg_wakeup_print_def)
  define t where "t = busy_dec ?i (deliver ?i m w u)"
  have p: "smsg_msg_process m w s = Some t"
    using wf sane i by (auto simp: smsg_msg_process_def Let_def u_def t_def ipc_wf_def sane_def smsg_wakeup_print_def)
  have chans: "smsg_channels t = (case smsg_channels s ! ?i of None \<Rightarrow> smsg_channels s
      | Some ch \<Rightarrow> (smsg_channels s)[?i := Some (cache_put m ch)])"
    using sane u(1) linorder_not_le[of 17 "msg_type m"]
    by (simp add: t_def deliver_def ipc_updates sane_def Let_def split: option.split)
  have "holds c (ms @ (if channel m = c then [m] else [])) t"
  proof (cases "channel m = c")
    case True
    with ch cache_put_room[OF ch(2)] room wf i show ?thesis by (simp add: holds_def chans ipc_wf_def)
  next
    case False
    with ne ch show ?thesis by (auto simp: holds_def chans split: option.split)
  qed
  moreover have "registered t = registered s" "debug_enable t = debug_enable s"
    using u by (auto simp: t_def deliver_def ipc_updates Let_def split: option.split)
  ultimately show ?thesis using p process_wf[OF p wf] by blast
qed

lemma handle_all_into_cache:
  "ipc_wf s \<Longrightarrow> \<forall>m\<in>set l. sane s m \<Longrightarrow> c \<in> set sipc_cfg \<Longrightarrow> holds c ms s \<Longrightarrow>
   length ms + length (filter (\<lambda>m. channel m = c) l) \<le> 256 \<Longrightarrow>
   \<exists>t. handle_all l s = Some t \<and> ipc_wf t \<and> registered t = registered s \<and> holds c (ms @ filter (\<lambda>m. channel m = c) l) t"
proof (induction l arbitrary: s ms)
  case (Cons m l)
  have m: "sane s m" and room: "channel m = c \<Longrightarrow> length ms < 256" using Cons.prems(2,5) by simp_all
  obtain t where t: "smsg_msg_process m True s = Some t" "ipc_wf t" "registered t = registered s"
      "debug_enable t = debug_enable s" "holds c (ms @ (if channel m = c then [m] else [])) t"
    using process_into_cache[OF Cons.prems(1) m Cons.prems(3,4) room] by blast
  moreover have "\<forall>m\<in>set l. sane t m" using Cons.prems(2) t(4) by (simp add: sane_def)
  ultimately show ?case
    using Cons.IH[of t "ms @ (if channel m = c then [m] else [])"] Cons.prems by (cases "channel m = c") auto
qed simp

section \<open>Receiving\<close>

lemma recv_takes:
  assumes "ipc_wf s" "registered s" "c \<in> set sipc_cfg" "holds c (m # ms) s"
  shows "\<exists>t. smsg_recv True w (smsg_set c 0 0 0) 0 s = Some (0, m, t) \<and> ipc_wf t \<and> registered t \<and> holds c ms t"
proof -
  let ?i = "unat (channel2index c)"
  from assms(4) obtain ch where ch: "smsg_channels s ! ?i = Some ch" "cache_ok ch" "cached ch = m # ms"
    by (auto simp: holds_def)
  then have ne: "wrptr ch \<noteq> rdptr ch" using cached_empty[of ch] by auto
  note take = cached_take[OF ch(2) ne]
  note i = channel2index_valid[OF assms(3)]
  define t where "t = busy_dec ?i (set_smsg_channel ?i (Some (ch\<lparr>rdptr := rdptr ch + 1\<rparr>)) (busy_inc ?i s))"
  have "smsg_recv True w (smsg_set c 0 0 0) 0 s = Some (0, m, t)"
    using assms(2) ch i(3) ne take(1,3)
    by (simp add: smsg_recv_def smsg_set_def cache_get_def busy_inc_def Let_def t_def)
  moreover have "ipc_wf t" "registered t" using assms(1,2) by (simp_all add: t_def ipc_wf_def ipc_updates)
  moreover have "holds c ms t"
    using assms(1) i(1) take(1,2) ch(3) by (simp add: t_def holds_def ipc_wf_def ipc_updates)
  ultimately show ?thesis by blast
qed

lemma recv_waits:
  assumes "timeout < 0 \<and> k = 0 \<or> 0 < timeout \<and> 0 < k" "registered s" "c \<in> set sipc_cfg"
    and "smsg_channels s ! unat (channel2index c) = Some ch0"
    and "wait (busy_inc (unat (channel2index c)) s) = (k, v)" "states v ! unat (channel2index c) \<noteq> CHAN_STATE_FREE"
    and "smsg_channels v ! unat (channel2index c) = Some ch" "cache_ok ch" "cached ch = m # ms"
  shows "smsg_recv b wait (smsg_set c 0 0 0) timeout s =
    Some (k, m, busy_dec (unat (channel2index c)) (set_smsg_channel (unat (channel2index c)) (Some (ch\<lparr>rdptr := rdptr ch + 1\<rparr>)) v))"
proof -
  have ne: "wrptr ch \<noteq> rdptr ch" using cached_empty[of ch] assms(9) by auto
  note take = cached_take[OF assms(8) ne]
  have b: "registered (busy_inc (unat (channel2index c)) s)" "smsg_channels (busy_inc (unat (channel2index c)) s) = smsg_channels s"
    using assms(2) by (simp_all add: busy_inc_def)
  show ?thesis
    using assms(1,2,4-7,9) b channel2index_valid(3)[OF assms(3)] take(1,3)
    by (auto simp: smsg_recv_def smsg_set_def cache_get_def Let_def)
qed

text \<open>Receiving \<open>n\<close> messages without waiting.\<close>

primrec recv_all :: "nat \<Rightarrow> u8 \<Rightarrow> smsg_ipc \<Rightarrow> (smsg list \<times> smsg_ipc) option" where
  "recv_all 0 c s = Some ([], s)"
| "recv_all (Suc n) c s = do {
     (r, m, s) \<leftarrow> smsg_recv True (\<lambda>s. (0, s)) (smsg_set c 0 0 0) 0 s;
     (ms, s) \<leftarrow> (if r = 0 then recv_all n c s else None);
     Some (m # ms, s) }"

lemma recv_all_takes:
  "ipc_wf s \<Longrightarrow> registered s \<Longrightarrow> c \<in> set sipc_cfg \<Longrightarrow> holds c ms s \<Longrightarrow>
   \<exists>t. recv_all (length ms) c s = Some (ms, t) \<and> ipc_wf t \<and> registered t \<and> holds c [] t"
proof (induction ms arbitrary: s)
  case (Cons m ms)
  then obtain t where t: "smsg_recv True (\<lambda>s. (0, s)) (smsg_set c 0 0 0) 0 s = Some (0, m, t)" "ipc_wf t" "registered t"
      "holds c ms t"
    using recv_takes by blast
  with Cons.IH[of t] Cons.prems(3) show ?case by auto
qed auto

section \<open>Properties\<close>

text \<open>One side and the other of the same page, and what a receiver needs to start with.\<close>

definition ends_of :: "smsg_ipc \<Rightarrow> smsg_ipc \<Rightarrow> bool" where
  "ends_of s r \<longleftrightarrow> laid_out s \<and> laid_out r \<and> ipc_client r = (\<not> ipc_client s)"

lemma pending_swap: "ends_of s r \<Longrightarrow> rx_pending (r\<lparr>page := page s\<rparr>) = tx_pending s"
  using laid_out_host[of s] laid_out_client[of s] laid_out_host[of r] laid_out_client[of r]
  by (cases "ipc_client s") (simp_all add: ends_of_def rx_pending_def tx_pending_def)

text \<open>Two ends of a page for the witnesses, with every channel in the state \<open>st\<close> and all caches empty.\<close>

definition no_msgs :: smsg_channel where
  "no_msgs = \<lparr>wrptr = 0, rdptr = 0, caches = replicate 256 \<lparr>channel = 0, msg_type = 0, flag = 0, msg_value = 0\<rparr>\<rparr>"

definition ex_ipc :: "bool \<Rightarrow> u8 \<Rightarrow> smsg_ipc" where
  "ex_ipc cl st = ring_layout \<lparr>registered = True, ipc_client = cl, ipc_type = SIPC_BASE_PCIE, ipc_smem_type = SMEM_LOCAL,
     write_addr = 0, txbuf_addr = 0, txbuf_size = 0, txbuf_rdptr = 0, txbuf_wrptr = 0,
     rxbuf_addr = 0, rxbuf_size = 0, rxbuf_rdptr = 0, rxbuf_wrptr = 0, ring_base = 0x1000, ring_size = 0x1000,
     smsg_channels = replicate 39 (Some no_msgs), busy = replicate 39 0, states = replicate 39 st,
     page = (\<lambda>a. if a = 2048 \<or> a = 2052 then 0xFFFFFFFF else 0), wakeup_flag = 0, debug_enable = False, smsg_calls = []\<rparr>"

lemma ex_ipc_simps [simp]:
  "registered (ex_ipc cl st)" "ipc_client (ex_ipc cl st) = cl" "ring_base (ex_ipc cl st) = 0x1000"
  "smsg_channels (ex_ipc cl st) = replicate 39 (Some no_msgs)" "states (ex_ipc cl st) = replicate 39 st"
  "busy (ex_ipc cl st) = replicate 39 0" "laid_out (ex_ipc cl st)" "debug_enable (ex_ipc cl st) = False"
  by (simp_all add: ex_ipc_def ring_layout_laid_out) (simp_all add: ring_layout_def)

lemma ex_ipc_ok [simp]:
  "ipc_wf (ex_ipc cl st)" "c \<in> set sipc_cfg \<Longrightarrow> holds c [] (ex_ipc cl st)"
  "tx_pending (ex_ipc cl st) = []" "c \<in> set sipc_cfg \<Longrightarrow> can_send c (ex_ipc cl CHAN_STATE_OPENED)"
  using channel2index_valid(1)[of c]
  by (simp_all add: ipc_wf_def holds_def can_send_def cache_ok_def cached_def no_msgs_def)
     (simp add: tx_pending_def pending_def ex_ipc_def ring_layout_def)

text \<open>
  C10. Messages arrive. Up to 128 messages sent on open channels, with the ring empty at first, are all accepted;
  the other side's interrupt handler takes them out of the shared page, and the receiver of a channel gets exactly
  the messages of its channel, in the order they were sent, with none left in the ring. Host and client are the
  two sides in either role, and the counters may wrap around. The messages are of channels and types that exist, and
  none reports the death of the other side while debugging is on, upon which the receiver panics (\<open>sane\<close>).
\<close>

theorem messages_arrive:
  assumes "ends_of s r" and "tx_pending s = []" and "length ms \<le> 128" and "\<forall>m\<in>set ms. can_send (channel m) s"
    and "ipc_wf r" "registered r" "c \<in> set sipc_cfg" "holds c [] r" and "\<forall>m\<in>set ms. sane r m"
  shows "\<exists>s' r' r''. send_all ms s = Some s' \<and>
    smsg_irq_handler status (\<lambda>_ s. s) (r\<lparr>page := page s'\<rparr>) = Some r' \<and> tx_pending (s'\<lparr>page := page r'\<rparr>) = [] \<and>
    recv_all (length (filter (\<lambda>m. channel m = c) ms)) c r' = Some (filter (\<lambda>m. channel m = c) ms, r'') \<and> holds c [] r''"
proof -
  obtain s' where s': "send_all ms s = Some s'" "laid_out s'" "tx_pending s' = ms" "ipc_client s' = ipc_client s"
    using send_all_room[of s ms] assms(1-4) by (auto simp: ends_of_def)
  have e: "ends_of s' r" using assms(1) s'(2,4) by (simp add: ends_of_def)
  define q where "q = (if status then log_call Rxirq_clear (r\<lparr>page := page s'\<rparr>) else r\<lparr>page := page s'\<rparr>)"
  have q: "laid_out q" "rx_pending q = ms" "ipc_wf q" "registered q" "holds c [] q" "\<forall>m\<in>set ms. sane q m"
      "page q = page s'" "ends_of s' q"
    using e pending_swap[OF e] s'(3) assms(5,6,8,9)
    by (auto simp: q_def ends_of_def laid_out_iff rx_pending_def log_call_def ipc_wf_def holds_def sane_def)
  obtain t where t: "handle_all ms q = Some t" "ipc_wf t" "registered t" "holds c (filter (\<lambda>m. channel m = c) ms) t"
    using handle_all_into_cache[OF q(3,6) assms(7) q(5)] q(4) assms(3) le_trans[OF length_filter_le[of "\<lambda>m. channel m = c" ms]]
    by auto
  define u where "u = sipc_smem_release_resource Release_sipc_resource
      (t\<lparr>page := (page q)(rxbuf_rdptr q := page q (rxbuf_wrptr q))\<rparr>)"
  have "smsg_irq_handler status (\<lambda>_ s. s) (r\<lparr>page := page s'\<rparr>) = Some u"
    using process_loop_idle[OF q(1,2), of 0] t(1) by (simp add: smsg_irq_handler_def sipc_process_all_msg_def q_def [symmetric] u_def)
  moreover have u: "ipc_wf u" "registered u" "holds c (filter (\<lambda>m. channel m = c) ms) u"
      "page u = (page q)(rxbuf_rdptr q := page q (rxbuf_wrptr q))"
    using t by (simp_all add: u_def sipc_smem_release_resource_def log_call_def ipc_wf_def holds_def)
  moreover have "tx_pending (s'\<lparr>page := page u\<rparr>) = []"
    using q(8) u(4) laid_out_rings(1)[OF s'(2)] laid_out_host[of s'] laid_out_client[of s'] laid_out_host[of q] laid_out_client[of q]
    by (cases "ipc_client q") (auto simp: ends_of_def tx_pending_def pending_def)
  moreover obtain v where "recv_all (length (filter (\<lambda>m. channel m = c) ms)) c u = Some (filter (\<lambda>m. channel m = c) ms, v)" "holds c [] v"
    using recv_all_takes[OF u(1,2) assms(7) u(3)] by blast
  ultimately show ?thesis using s'(1) by blast
qed

lemma in_cfg: "0 \<in> set sipc_cfg" "1 \<in> set sipc_cfg" "channel2index 0 = 0" "channel2index 1 = 1"
  by (simp_all add: sipc_cfg_def channel2index_def)

theorem messages_arrive_witness:
  "\<exists>s' r' r''. send_all [smsg_set 0 3 7 8, smsg_set 1 4 9 10, smsg_set 0 5 11 12] (ex_ipc False 3) = Some s' \<and>
     smsg_irq_handler True (\<lambda>_ s. s) ((ex_ipc True 3)\<lparr>page := page s'\<rparr>) = Some r' \<and>
     recv_all 2 0 r' = Some ([smsg_set 0 3 7 8, smsg_set 0 5 11 12], r'')"
proof -
  let ?ms = "[smsg_set 0 3 7 8, smsg_set 1 4 9 10, smsg_set 0 5 11 12]"
  have f: "filter (\<lambda>m. channel m = 0) ?ms = [smsg_set 0 3 7 8, smsg_set 0 5 11 12]" by (simp add: smsg_set_def)
  have "\<exists>s' r' r''. send_all ?ms (ex_ipc False 3) = Some s' \<and>
      smsg_irq_handler True (\<lambda>_ s. s) ((ex_ipc True 3)\<lparr>page := page s'\<rparr>) = Some r' \<and> tx_pending (s'\<lparr>page := page r'\<rparr>) = [] \<and>
      recv_all (length (filter (\<lambda>m. channel m = 0) ?ms)) 0 r' = Some (filter (\<lambda>m. channel m = 0) ?ms, r'') \<and> holds 0 [] r''"
    by (rule messages_arrive) (use in_cfg in \<open>auto simp: ends_of_def smsg_set_def sane_def\<close>)
  moreover have "length [smsg_set 0 3 7 8, smsg_set 0 5 11 12] = 2" by simp
  ultimately show ?thesis unfolding f by metis
qed

text \<open>
  The interrupt handler processes what is in the ring, once and in order: with the other side idle, the loop is
  the processing of the list of messages under way, whatever their channels, and its read counter ends at the write
  counter. A message that stops the handler stops the list.
\<close>

theorem handler_in_order:
  assumes "laid_out s"
  shows "process_loop (\<lambda>_ s. s) n s =
    map_option (\<lambda>t. t\<lparr>page := (page s)(rxbuf_rdptr s := page s (rxbuf_wrptr s))\<rparr>) (handle_all (rx_pending s) s)"
  by (rule process_loop_idle [OF assms refl])

theorem handler_in_order_witness:
  "process_loop (\<lambda>_ s. s) 0 (ex_ipc True 3) =
     map_option (\<lambda>t. t\<lparr>page := (page (ex_ipc True 3))(rxbuf_rdptr (ex_ipc True 3) := page (ex_ipc True 3) (rxbuf_wrptr (ex_ipc True 3)))\<rparr>)
       (handle_all (rx_pending (ex_ipc True 3)) (ex_ipc True 3))"
  by (rule handler_in_order) simp

text \<open>
  C38. A message from the other side can take the receiver down: it is processed without an access out of bounds
  exactly when its channel is in the table and it does not report a crash under the debug option.
\<close>

theorem bad_channel_out_of_bounds:
  assumes "ipc_wf s"
  shows "smsg_msg_process m w s = None \<longleftrightarrow>
    channel m \<notin> set sipc_cfg \<or> msg_type m = SMSG_TYPE_DIE \<and> debug_enable s"
proof -
  have "length (busy s) \<le> unat (channel2index (channel m)) \<longleftrightarrow> channel m \<notin> set sipc_cfg"
    using assms channel2index_valid(1)[of "channel m"] channel2index_invalid[of "channel m"] by (auto simp: ipc_wf_def)
  then show ?thesis by (auto simp: smsg_msg_process_def Let_def smsg_wakeup_print_def)
qed

theorem bad_channel_out_of_bounds_witness: "smsg_msg_process (smsg_set 200 3 0 0) True (ex_ipc False 3) = None"
proof -
  have "200 \<notin> set sipc_cfg" by (simp add: sipc_cfg_def)
  then show ?thesis using bad_channel_out_of_bounds[of "ex_ipc False 3" "smsg_set 200 3 0 0" True] by (simp add: smsg_set_def)
qed

lemma recv_timeout_not_0: "0 < timeout \<Longrightarrow> smsg_recv b w m timeout s \<noteq> Some (0, m', t)"
  by (auto simp: smsg_recv_def cache_get_def Let_def split: option.split prod.split)

lemma open_failed_result: "open_failed i r s = Some (r', t) \<Longrightarrow> r' = r"
  by (auto simp: open_failed_def)

text \<open>A receive with a timeout returns the time that is left, so an open that has to wait never returns 0.\<close>

lemma open_with_timeout_not_0:
  assumes "0 < timeout" "states s ! unat (channel2index c) \<noteq> CHAN_STATE_CLIENT_OPENED"
  shows "smsg_ch_open mem res trylock wait c timeout s \<noteq> Some (0, t)"
proof -
  let ?i = "unat (channel2index c)"
  have loop: "open_loop trylock wait c timeout 0 u \<noteq> Some (0, t)" for u
    using recv_timeout_not_0[OF assms(1)]
    by (subst open_loop.simps) (auto simp: Let_def Option.bind_eq_Some_conv split: if_splits dest!: open_failed_result)
  define u where "u = set_smsg_channel ?i (Some \<lparr>wrptr = 0, rdptr = 0, caches = replicate 256 \<lparr>channel = 0, msg_type = 0, flag = 0, msg_value = 0\<rparr>\<rparr>)
        (s\<lparr>busy := (busy s)[?i := 1]\<rparr>)"
  obtain r v where send: "smsg_send res (smsg_set c SMSG_TYPE_OPEN SMSG_OPEN_MAGIC 0) u = (r, v)" by (rule prod.exhaust)
  have "states u = states s" by (simp add: u_def set_smsg_channel_def)
  then have "states v ! ?i \<noteq> CHAN_STATE_CLIENT_OPENED" using smsg_send_states[of res _ u] send assms(2) by (metis snd_conv)
  moreover have "open_failed ?i r v \<noteq> Some (0, t)" if "r \<noteq> 0" using that open_failed_result by blast
  ultimately show ?thesis
    using loop send by (simp add: smsg_ch_open_def Let_def u_def [symmetric])
qed

lemma process_states:
  "smsg_msg_process m w s = Some t \<Longrightarrow> smsg_channels s ! unat (channel2index (channel m)) \<noteq> None \<Longrightarrow> states t = states s"
  by (auto simp: smsg_msg_process_def smsg_wakeup_print_def deliver_def ipc_updates Let_def split: if_splits)

lemma process_busy: "smsg_msg_process m w s = Some t \<Longrightarrow> busy t = busy s"
  by (auto simp: smsg_msg_process_def smsg_wakeup_print_def deliver_def ipc_updates Let_def split: if_splits option.splits)

text \<open>The open message of a channel, and what the wait of \<open>smsg_ch_open\<close> does when that of the other side comes.\<close>

definition open_msg :: "u8 \<Rightarrow> smsg" where
  "open_msg c = smsg_set c SMSG_TYPE_OPEN SMSG_OPEN_MAGIC 0"

definition peer_opens :: "u8 \<Rightarrow> int \<Rightarrow> nat \<Rightarrow> smsg_ipc \<Rightarrow> int \<times> smsg_ipc" where
  "peer_opens c k n u = (k, case smsg_msg_process (open_msg c) True u of None \<Rightarrow> u | Some v \<Rightarrow> v)"

lemma open_msg_fields [simp]:
  "channel (open_msg c) = c" "msg_type (open_msg c) = 1" "flag (open_msg c) = 0xBEEE"
  by (simp_all add: open_msg_def smsg_set_def)

definition can_open :: "u8 \<Rightarrow> smsg_ipc \<Rightarrow> bool" where
  "can_open c s \<longleftrightarrow> laid_out s \<and> ipc_wf s \<and> registered s \<and> ring_base s \<noteq> 0 \<and> c \<in> set sipc_cfg \<and> length (tx_pending s) < 128"

lemma open_sends:
  assumes "can_open c s"
  defines "i \<equiv> unat (channel2index c)"
  shows "\<exists>u. smsg_ch_open True 0 trylock wait c timeout s =
      (if states s ! i = CHAN_STATE_CLIENT_OPENED then Some (open_done i u)
       else open_loop trylock wait c timeout 0 (set_chan_state i CHAN_STATE_HOST_OPENED u)) \<and>
    ipc_wf u \<and> registered u \<and> states u = states s \<and> holds c [] u \<and> busy u ! i = 1 \<and>
    tx_pending u = tx_pending s @ [open_msg c]"
proof -
  from assms(1) have a: "laid_out s" "ipc_wf s" "registered s" "ring_base s \<noteq> 0" "c \<in> set sipc_cfg" "length (tx_pending s) < 128"
    by (simp_all add: can_open_def)
  note i = channel2index_valid[OF a(5), folded i_def]
  define s0 where "s0 = set_smsg_channel i (Some no_msgs) (s\<lparr>busy := (busy s)[i := 1]\<rparr>)"
  have ch: "cache_ok no_msgs" "cached no_msgs = []" by (simp_all add: no_msgs_def cache_ok_def cached_def)
  have s0: "laid_out s0" "tx_pending s0 = tx_pending s" "ipc_wf s0" "registered s0" "states s0 = states s"
      "smsg_channels s0 ! i = Some no_msgs" "ring_base s0 = ring_base s" "busy s0 ! i = 1"
    using a(1-3) i by (simp_all add: s0_def set_smsg_channel_def laid_out_iff tx_pending_def ipc_wf_def)
  obtain p l where send: "smsg_send 0 (open_msg c) s0 = (0, s0\<lparr>page := p, smsg_calls := l\<rparr>)"
      "tx_pending (s0\<lparr>page := p, smsg_calls := l\<rparr>) = tx_pending s @ [open_msg c]"
    using smsg_send_ok[of s0 "open_msg c" 0] s0 a(4-6) by (auto simp: i_def)
  show ?thesis
  proof (intro exI conjI)
    show "smsg_ch_open True 0 trylock wait c timeout s =
      (if states s ! i = CHAN_STATE_CLIENT_OPENED then Some (open_done i (s0\<lparr>page := p, smsg_calls := l\<rparr>))
       else open_loop trylock wait c timeout 0 (set_chan_state i CHAN_STATE_HOST_OPENED (s0\<lparr>page := p, smsg_calls := l\<rparr>)))"
      using a(3) i(3) send(1) s0(5) by (simp add: smsg_ch_open_def Let_def no_msgs_def s0_def open_msg_def i_def)
  qed (use s0 ch send(2) in \<open>simp_all add: ipc_wf_def holds_def i_def\<close>)
qed

lemma open_receives:
  assumes "can_open c s" "states s ! unat (channel2index c) = CHAN_STATE_UNUSED"
    and k: "timeout < 0 \<and> k = 0 \<or> 0 < timeout \<and> 0 < k"
  defines "i \<equiv> unat (channel2index c)"
  shows "\<exists>x. smsg_ch_open True 0 trylock (peer_opens c k) c timeout s =
      (if k = 0 then Some (open_done i x) else open_failed i k x) \<and>
    ipc_wf x \<and> holds c [] x \<and> busy x ! i = 1 \<and> tx_pending x = tx_pending s @ [open_msg c]"
proof -
  have c: "c \<in> set sipc_cfg" using assms(1) by (simp add: can_open_def)
  note i = channel2index_valid[OF c, folded i_def]
  obtain u0 where u0: "smsg_ch_open True 0 trylock (peer_opens c k) c timeout s =
      open_loop trylock (peer_opens c k) c timeout 0 (set_chan_state i CHAN_STATE_HOST_OPENED u0)"
      "ipc_wf u0" "registered u0" "holds c [] u0" "busy u0 ! i = 1" "tx_pending u0 = tx_pending s @ [open_msg c]"
    using open_sends[OF assms(1), of trylock "peer_opens c k" timeout] assms(2) by (auto simp: i_def)
  define u1 where "u1 = set_chan_state i CHAN_STATE_HOST_OPENED u0"
  define u where "u = busy_inc i u1"
  have u: "ipc_wf u" "states u ! i = CHAN_STATE_HOST_OPENED" "holds c [] u" "busy u ! i = 2"
      "registered u1" "tx_pending u = tx_pending u0" "sane u (open_msg c)"
    using u0(2-5) i(1) c by (auto simp: u1_def u_def ipc_updates ipc_wf_def holds_def tx_pending_def sane_def)
  from u0(4) obtain ch0 where ch0: "smsg_channels u1 ! i = Some ch0" "smsg_channels u ! i = Some ch0"
    by (auto simp: holds_def u1_def u_def ipc_updates i_def)
  obtain v where v: "smsg_msg_process (open_msg c) True u = Some v" "ipc_wf v" "holds c [open_msg c] v"
    using process_into_cache[OF u(1,7) c u(3)] by auto
  have same: "states v = states u" "busy v = busy u" "tx_pending v = tx_pending u"
    using process_states[OF v(1)] process_busy[OF v(1)] process_frame[OF v(1)] ch0(2)
    by (auto simp: i_def tx_pending_def)
  obtain ch where ch: "smsg_channels v ! i = Some ch" "cache_ok ch" "cached ch = [open_msg c]"
    using v(3) by (auto simp: holds_def i_def)
  then have ne: "wrptr ch \<noteq> rdptr ch" using cached_empty[of ch] by auto
  note take = cached_take[OF ch(2) ne]
  define x where "x = busy_dec i (set_smsg_channel i (Some (ch\<lparr>rdptr := rdptr ch + 1\<rparr>)) v)"
  have w: "peer_opens c k 0 (busy_inc (unat (channel2index c)) u1) = (k, v)"
    using v(1) by (simp add: peer_opens_def u_def i_def)
  have "smsg_recv (trylock 0) (peer_opens c k 0) (smsg_set c 0 0 0) timeout u1 = Some (k, open_msg c, x)"
    unfolding x_def i_def
    by (rule recv_waits [where wait = "peer_opens c k 0", OF k u(5) c ch0(1)[unfolded i_def] w _ ch[unfolded i_def]])
       (use u(2) same in \<open>simp add: i_def\<close>)
  then have "open_loop trylock (peer_opens c k) c timeout 0 u1 = (if k = 0 then Some (open_done i x) else open_failed i k x)"
    by (subst open_loop.simps) (simp add: Let_def i_def)
  moreover have "ipc_wf x" "holds c [] x" "busy x ! i = 1" "tx_pending x = tx_pending s @ [open_msg c]"
    using v(2) i(1) take(1,2) ch(3) same u(4,6) u0(6)
    by (simp_all add: x_def ipc_updates holds_def tx_pending_def ipc_wf_def i_def)
  ultimately show ?thesis using u0(1) by (auto simp: u1_def)
qed

text \<open>
  C34. Opening a channel with a positive timeout fails although the other side opens it in time: when its open message
  comes with \<open>k\<close> ticks left, \<open>smsg_ch_open\<close> returns \<open>k\<close>, not 0, the channel is freed and its state is unused again,
  while the own open message is on its way. The header promises 0 on success and a negative value on failure.
\<close>

theorem open_with_timeout_fails:
  assumes "can_open c s" "states s ! unat (channel2index c) = CHAN_STATE_UNUSED" "0 < timeout" "0 < k"
  shows "\<exists>t. smsg_ch_open True 0 trylock (peer_opens c k) c timeout s = Some (k, t) \<and>
    smsg_channels t ! unat (channel2index c) = None \<and> states t ! unat (channel2index c) = CHAN_STATE_UNUSED \<and>
    tx_pending t = tx_pending s @ [open_msg c]"
proof -
  let ?i = "unat (channel2index c)"
  have i: "?i < 39" using assms(1) channel2index_valid(1) by (simp add: can_open_def)
  obtain x where "smsg_ch_open True 0 trylock (peer_opens c k) c timeout s = open_failed ?i k x"
      "ipc_wf x" "busy x ! ?i = 1" "tx_pending x = tx_pending s @ [open_msg c]"
    using open_receives[OF assms(1,2), of timeout k trylock] assms(3,4) by auto
  with i show ?thesis by (simp add: open_failed_def wait_unused_def ipc_updates ipc_wf_def tx_pending_def)
qed

theorem open_with_timeout_fails_witness:
  "\<exists>t. smsg_ch_open True 0 (\<lambda>_. True) (peer_opens 0 7) 0 100 (ex_ipc False 0) = Some (7, t) \<and> smsg_channels t ! 0 = None"
  using open_with_timeout_fails[of 0 "ex_ipc False 0" 100 7 "\<lambda>_. True"] in_cfg by (auto simp: can_open_def)

text \<open>
  C19. The two sides meet in an open channel. When the open message of the other side came before, or comes while
  \<open>smsg_ch_open\<close> waits without a time limit, the call returns 0, the channel is open with an empty cache, and the
  own open message is the last one on its way to the other side.
\<close>

theorem open_handshake:
  assumes "can_open c s" "timeout < 0"
    and "states s ! unat (channel2index c) \<in> {CHAN_STATE_UNUSED, CHAN_STATE_CLIENT_OPENED}"
  shows "\<exists>t. smsg_ch_open True 0 trylock (peer_opens c 0) c timeout s = Some (0, t) \<and>
    states t ! unat (channel2index c) = CHAN_STATE_OPENED \<and> holds c [] t \<and> busy t ! unat (channel2index c) = 0 \<and>
    tx_pending t = tx_pending s @ [open_msg c]"
proof -
  let ?i = "unat (channel2index c)"
  have i: "?i < 39" using assms(1) channel2index_valid(1) by (simp add: can_open_def)
  have "\<exists>x. smsg_ch_open True 0 trylock (peer_opens c 0) c timeout s = Some (open_done ?i x) \<and>
      ipc_wf x \<and> holds c [] x \<and> busy x ! ?i = 1 \<and> tx_pending x = tx_pending s @ [open_msg c]"
  proof (cases "states s ! ?i = CHAN_STATE_UNUSED")
    case True
    then show ?thesis using open_receives[OF assms(1) True, of timeout 0 trylock] assms(2) by simp
  next
    case False
    then show ?thesis using open_sends[OF assms(1), of trylock "peer_opens c 0" timeout] assms(3) by auto
  qed
  then obtain x where "smsg_ch_open True 0 trylock (peer_opens c 0) c timeout s = Some (open_done ?i x)"
      "ipc_wf x" "holds c [] x" "busy x ! ?i = 1" "tx_pending x = tx_pending s @ [open_msg c]" by blast
  with i show ?thesis by (simp add: open_done_def ipc_updates ipc_wf_def holds_def tx_pending_def)
qed

theorem open_handshake_witness:
  "\<exists>t. smsg_ch_open True 0 (\<lambda>_. True) (peer_opens 0 0) 0 (- 1) (ex_ipc False 0) = Some (0, t) \<and> states t ! 0 = CHAN_STATE_OPENED"
  using open_handshake[of 0 "ex_ipc False 0" "- 1" "\<lambda>_. True"] in_cfg by (auto simp: can_open_def)

end
