(* ===== verification/SbufProps.thy ===== *)
theory SbufProps
  imports Sbuf SmsgProps
begin

text \<open>
  Properties of the byte streams: what the ring between the two counters holds, that a write appends to it and a read
  takes from it across the end of the buffer and the wrap-around of the counters, that the client finds the rings the
  host laid out, and what happens when the other side's counters are not what they should be.
\<close>

section \<open>The stream in a ring\<close>

text \<open>The bytes of the ring at \<open>virt\<close> from the read counter to the write counter.\<close>

definition stream :: "nat \<Rightarrow> u32 \<Rightarrow> u32 \<Rightarrow> u32 \<Rightarrow> u8 list \<Rightarrow> u8 list" where
  "stream virt tsize rd wt b = ring_view (take (unat tsize) (drop virt b)) (unat rd) (unat (wt - rd))"

definition ring_sane :: "nat \<Rightarrow> u32 \<Rightarrow> u32 \<Rightarrow> u32 \<Rightarrow> u8 list \<Rightarrow> bool" where
  "ring_sane virt tsize rd wt b \<longleftrightarrow>
     (\<exists>k<31. tsize = 2 ^ k) \<and> virt + unat tsize \<le> length b \<and> unat (wt - rd) \<le> unat tsize"

lemma ring_saneE:
  assumes "ring_sane virt tsize rd wt b"
  obtains k where "k < 31" "tsize = 2 ^ k" "unat tsize = 2 ^ k" "virt + 2 ^ k \<le> length b" "unat (wt - rd) \<le> 2 ^ k"
    "(2::nat) ^ k < 2147483648"
proof -
  from assms obtain k where k: "k < 31" "tsize = 2 ^ k" "virt + unat tsize \<le> length b" "unat (wt - rd) \<le> unat tsize"
    by (auto simp: ring_sane_def)
  then have "unat tsize = 2 ^ k" using unat_pow2[of k] by simp
  moreover have "(2::nat) ^ k < 2 ^ 31" using k(1) by (intro power_strict_increasing) simp_all
  ultimately show ?thesis using that[of k] k by simp
qed

lemma copy_in_spec:
  assumes sz: "sz = unat tsize" "pos < sz" "virt + sz \<le> length b" and t: "t \<le> sz" "off + t \<le> length data"
  shows "\<exists>b'. copy_in virt tsize (virt + pos) (int t) off data b = Some b' \<and> length b' = length b \<and>
    (\<forall>j<t. b' ! (virt + (pos + j) mod sz) = data ! (off + j)) \<and>
    (\<forall>i<length b. (\<forall>j<t. i \<noteq> virt + (pos + j) mod sz) \<longrightarrow> b' ! i = b ! i)"
proof (cases "pos + t \<le> sz")
  case True
  then obtain b' where b': "memcpy b (virt + pos) data off t = Some b'"
    using sz(3) t(2) by (simp add: memcpy_def)
  have nt: "(0 < int (virt + pos) + int t - int (virt + unat tsize)) = False"
    by (simp only: eq_False) (use True sz(1) in linarith)
  have "copy_in virt tsize (virt + pos) (int t) off data b = Some b'"
    using b' unfolding copy_in_def Let_def nt by simp
  moreover have "b' ! (virt + (pos + j) mod sz) = data ! (off + j)" if "j < t" for j
    using memcpy_nth[OF b', of "virt + pos + j"] that True sz by (simp add: add.assoc)
  moreover have "b' ! i = b ! i" if "i < length b" "\<forall>j<t. i \<noteq> virt + (pos + j) mod sz" for i
  proof -
    have "\<not> (virt + pos \<le> i \<and> i < virt + pos + t)"
    proof
      assume i: "virt + pos \<le> i \<and> i < virt + pos + t"
      then obtain j where j: "i = virt + pos + j" "j < t" by (metis le_iff_add nat_add_left_cancel_less)
      then have "(pos + j) mod sz = pos + j" using True by simp
      with that(2) j show False by (metis add.assoc)
    qed
    with memcpy_nth[OF b' that(1)] show ?thesis by auto
  qed
  ultimately show ?thesis using memcpy_length[OF b'] by blast
next
  case False
  define h where "h = sz - pos"
  have h: "h < t" "pos + h = sz" "0 < h" "t - h \<le> sz" "t - h < pos \<or> t - h = pos" using False sz(2) t(1) by (auto simp: h_def)
  obtain b1 where b1: "memcpy b (virt + pos) data off h = Some b1"
    using h sz(3) t(2) by (simp add: memcpy_def)
  note l1 = memcpy_length[OF b1]
  have "virt + (t - h) \<le> length b1" "off + h + (t - h) \<le> length data" using h sz(3) t(2) l1 by linarith+
  then obtain b' where b': "memcpy b1 virt data (off + h) (t - h) = Some b'"
    unfolding memcpy_def by (metis (no_types, lifting))
  note l' = memcpy_length[OF b']
  have tail: "int (virt + pos) + int t - int (virt + unat tsize) = int (t - h)"
    using h sz(1) by linarith
  have "copy_in virt tsize (virt + pos) (int t) off data b = Some b'"
    using h b1 b' by (simp only: copy_in_def Let_def tail) (simp add: of_nat_diff nat_diff_distrib')
  moreover have "b' ! (virt + (pos + j) mod sz) = data ! (off + j)" if "j < t" for j
  proof (cases "j < h")
    case True
    with h have m: "(pos + j) mod sz = pos + j" by simp
    have "b' ! (virt + (pos + j)) = b1 ! (virt + (pos + j))"
      using memcpy_nth[OF b', of "virt + (pos + j)"] True h sz(3) l1 by auto
    then show ?thesis using memcpy_nth[OF b1, of "virt + (pos + j)"] True h sz(3) m by simp
  next
    case False
    then have e: "pos + j = (j - h) + sz" using h by simp
    have "j - h < sz" using that h by linarith
    then have m: "(pos + j) mod sz = j - h" unfolding e by simp
    have "virt + (j - h) < length b1" "virt \<le> virt + (j - h) \<and> virt + (j - h) < virt + (t - h)"
        "off + h + (virt + (j - h) - virt) = off + j"
      using False that h sz(3) l1 by linarith+
    then show ?thesis using memcpy_nth[OF b', of "virt + (j - h)"] by (simp only: m if_True simp_thms)
  qed
  moreover have "b' ! i = b ! i" if "i < length b" "\<forall>j<t. i \<noteq> virt + (pos + j) mod sz" for i
  proof -
    have "\<not> (virt + pos \<le> i \<and> i < virt + pos + h)"
    proof
      assume i: "virt + pos \<le> i \<and> i < virt + pos + h"
      then obtain j where j: "i = virt + pos + j" "j < h" by (metis le_iff_add nat_add_left_cancel_less)
      then have "(pos + j) mod sz = pos + j" "j < t" using h by simp_all
      with that(2) j show False by (metis add.assoc)
    qed
    moreover have "\<not> (virt \<le> i \<and> i < virt + (t - h))"
    proof
      assume i: "virt \<le> i \<and> i < virt + (t - h)"
      then have j: "h + (i - virt) < t" "pos + (h + (i - virt)) = (i - virt) + sz" "i - virt < sz" using h by linarith+
      have "(i - virt + sz) mod sz = i - virt" using j(3) by (simp only: mod_add_self2 mod_less)
      then have "i = virt + (pos + (h + (i - virt))) mod sz" using i unfolding j(2) by linarith
      with that(2) j(1) show False by blast
    qed
    ultimately show ?thesis using memcpy_nth[OF b', of i] memcpy_nth[OF b1, of i] that(1) l1 by auto
  qed
  ultimately show ?thesis using l1 l' by auto
qed

lemma copy_out_spec:
  assumes sz: "sz = unat rsize" "pos < sz" "virt + sz \<le> length b" and t: "t \<le> sz"
  shows "copy_out virt rsize (virt + pos) (int t) b = Some (ring_view (take sz (drop virt b)) pos t)"
proof (cases "pos + t \<le> sz")
  case True
  have "take t (drop (virt + pos) b) = ring_view (take sz (drop virt b)) pos t"
  proof (rule nth_equalityI)
    fix i assume "i < length (take t (drop (virt + pos) b))"
    then show "take t (drop (virt + pos) b) ! i = ring_view (take sz (drop virt b)) pos t ! i"
      using True sz(3) by (simp add: ring_view_def add.assoc)
  qed (use True sz(3) in simp)
  moreover have nt: "(0 < int (virt + pos) + int t - int (virt + unat rsize)) = False"
    by (simp only: eq_False) (use True sz(1) in linarith)
  ultimately show ?thesis using True sz unfolding copy_out_def Let_def nt by simp
next
  case False
  define h where "h = sz - pos"
  have h: "h < t" "pos + h = sz" "t - h \<le> sz" using False sz(2) t(1) by (auto simp: h_def)
  have tail: "int (virt + pos) + int t - int (virt + unat rsize) = int (t - h)"
    using h sz(1) by linarith
  have "take h (drop (virt + pos) b) @ take (t - h) (drop virt b) = ring_view (take sz (drop virt b)) pos t"
  proof (rule nth_equalityI)
    fix i assume "i < length (take h (drop (virt + pos) b) @ take (t - h) (drop virt b))"
    then have i: "i < t" using h by simp
    show "(take h (drop (virt + pos) b) @ take (t - h) (drop virt b)) ! i = ring_view (take sz (drop virt b)) pos t ! i"
    proof (cases "i < h")
      case True
      with h i sz(3) show ?thesis by (simp add: ring_view_def nth_append add.assoc)
    next
      case False
      then have e: "pos + i = (i - h) + sz" "i - h < sz" using h i by simp_all
      have "(pos + i) mod sz = i - h" unfolding e(1) using e(2) by simp
      with h i sz(3) False e(2) show ?thesis by (simp add: ring_view_def nth_append)
    qed
  qed (use h sz(3) in simp)
  then show ?thesis
    using h sz(3) by (simp only: copy_out_def Let_def tail) (simp add: of_nat_diff nat_diff_distrib')
qed

section \<open>Writing\<close>

text \<open>A ring of this side, for sending and for receiving.\<close>

definition tx_sane :: "sbuf_ring \<Rightarrow> sbuf_mgr \<Rightarrow> bool" where
  "tx_sane r m \<longleftrightarrow> ring_sane (txbuf_virt r) (tx_size (header_op r)) (tx_rd r m) (tx_wt r m) (bytes m) \<and>
     tx_wt_p (header_op r) \<noteq> tx_rd_p (header_op r)"

definition tx_stream :: "sbuf_ring \<Rightarrow> sbuf_mgr \<Rightarrow> u8 list" where
  "tx_stream r m = stream (txbuf_virt r) (tx_size (header_op r)) (tx_rd r m) (tx_wt r m) (bytes m)"

definition rx_sane :: "sbuf_ring \<Rightarrow> sbuf_mgr \<Rightarrow> bool" where
  "rx_sane r m \<longleftrightarrow> ring_sane (rxbuf_virt r) (rx_size (header_op r)) (rx_rd r m) (rx_wt r m) (bytes m) \<and>
     rx_wt_p (header_op r) \<noteq> rx_rd_p (header_op r)"

definition rx_stream :: "sbuf_ring \<Rightarrow> sbuf_mgr \<Rightarrow> u8 list" where
  "rx_stream r m = stream (rxbuf_virt r) (rx_size (header_op r)) (rx_rd r m) (rx_wt r m) (bytes m)"

lemma length_stream [simp]: "length (stream virt tsize rd wt b) = unat (wt - rd)"
  by (simp add: stream_def)

text \<open>What a copy of \<open>t\<close> bytes at the write counter, and the counter's step, do to the stream.\<close>

lemma unat_add_small: "unat (x::u32) + t < 4294967296 \<Longrightarrow> unat (x + of_nat t) = unat x + t"
  by (simp add: unat_word_ariths unat_of_nat take_bit_eq_mod)

lemma stream_append:
  assumes "k < 31" "unat tsize = 2 ^ k" "virt + 2 ^ k \<le> length b" "unat (wt - rd) + t \<le> 2 ^ k" "off + t \<le> length data"
    and "length b' = length b" "\<forall>j<t. b' ! (virt + (unat wt mod 2 ^ k + j) mod 2 ^ k) = data ! (off + j)"
    and "\<forall>i<length b. (\<forall>j<t. i \<noteq> virt + (unat wt mod 2 ^ k + j) mod 2 ^ k) \<longrightarrow> b' ! i = b ! i"
  shows "stream virt tsize rd (wt + of_nat t) b' = stream virt tsize rd wt b @ take t (drop off data)"
    "unat (wt + of_nat t - rd) = unat (wt - rd) + t"
proof -
  have "(2::nat) ^ k < 2 ^ 31" using assms(1) by (intro power_strict_increasing) simp_all
  then have small: "unat (wt - rd) + t < 4294967296" using assms(4) by simp
  have e: "wt + of_nat t - rd = (wt - rd) + of_nat t" by simp
  show n: "unat (wt + of_nat t - rd) = unat (wt - rd) + t" unfolding e by (rule unat_add_small [OF small])
  let ?a = "take (2 ^ k) (drop virt b)" and ?a' = "take (2 ^ k) (drop virt b')"
  have l: "length ?a = 2 ^ k" "length ?a' = 2 ^ k" using assms(3,6) by simp_all
  have w: "(unat rd + unat (wt - rd)) mod 2 ^ k = unat wt mod 2 ^ k" using unat_counter[of k rd wt] assms(1) by simp
  have pos: "(unat wt mod 2 ^ k + j) mod 2 ^ k = (unat rd + unat (wt - rd) + j) mod 2 ^ k" for j
    unfolding w[symmetric] by (simp add: mod_simps)
  have nth': "?a' ! (q mod 2 ^ k) = b' ! (virt + q mod 2 ^ k)" for q using assms(3,6) by simp
  have nth: "?a ! (q mod 2 ^ k) = b ! (virt + q mod 2 ^ k)" for q using assms(3) by simp
  have "ring_view ?a' (unat rd) (unat (wt - rd) + t) = ring_view ?a (unat rd) (unat (wt - rd)) @ take t (drop off data)"
  proof (rule ring_view_append)
    fix i assume i: "i < unat (wt - rd)"
    have "b' ! (virt + (unat rd + i) mod 2 ^ k) = b ! (virt + (unat rd + i) mod 2 ^ k)"
    proof -
      have "virt + (unat rd + i) mod 2 ^ k \<noteq> virt + (unat wt mod 2 ^ k + j) mod 2 ^ k" if "j < t" for j
        using ring_pos_inj[of "unat rd" i "2 ^ k" "unat (wt - rd) + j"] that i assms(4) pos[of j] by (auto simp: add.assoc)
      moreover have "virt + (unat rd + i) mod 2 ^ k < length b"
        using assms(3) mod_less_divisor[of "2 ^ k" "unat rd + i", OF zero_less_power [OF zero_less_numeral]] by linarith
      ultimately show ?thesis using assms(8) by blast
    qed
    then show "?a' ! ((unat rd + i) mod length ?a) = ?a ! ((unat rd + i) mod length ?a)" unfolding l nth nth' .
  next
    fix j assume j: "j < t"
    have "b' ! (virt + (unat rd + unat (wt - rd) + j) mod 2 ^ k) = data ! (off + j)"
      using assms(7) j by (simp only: pos [symmetric])
    moreover have "drop off data ! j = data ! (off + j)" using assms(5) j by simp
    ultimately show "?a' ! ((unat rd + unat (wt - rd) + j) mod length ?a) = drop off data ! j" unfolding l nth' by simp
  qed (use l assms(4,5) in simp_all)
  then show "stream virt tsize rd (wt + of_nat t) b' = stream virt tsize rd wt b @ take t (drop off data)"
    by (simp only: stream_def n assms(2))
qed

lemma sint_nat:
  assumes "n < 2147483648"
  shows "sint (of_nat n :: u32) = int n"
proof -
  have "uint (of_nat n :: u32) = int n" using assms by (simp add: unsigned_of_nat take_bit_nat_eq_self)
  then show ?thesis unfolding sint_uint using assms by (subst signed_take_bit_int_eq_self) simp_all
qed

text \<open>One round of the loop writes what fits, and the next round ends it: either nothing is left or the ring is full.\<close>

lemma write_round:
  assumes m: "mgr st = Some m" "get_ring i m = Some r" "sbuf_state m = SBUF_STATE_READY" and ok: "tx_sane r m"
    and left: "off + left \<le> length data" and peer: "peer = (\<lambda>_ st. st)" and fault: "fault = (\<lambda>_. False)"
  defines "t \<equiv> min (unat (tx_size (header_op r)) - unat (tx_wt r m - tx_rd r m)) left"
  assumes t: "0 < t"
  shows "\<exists>m' st'. write_loop res fault peer i data n off (int left) rval st =
      write_loop res fault peer i data (Suc n) (off + t) (int (left - t)) rval st' \<and>
    mgr st' = Some m' \<and> rings m' = rings m \<and> sbuf_state m' = SBUF_STATE_READY \<and> tx_sane r m' \<and>
    tx_stream r m' = tx_stream r m @ take t (drop off data) \<and> length (bytes m') = length (bytes m) \<and>
    words m' = (words m)(tx_wt_p (header_op r) := tx_wt r m + of_nat t) \<and>
    ipc_smem_type (ipc st') = ipc_smem_type (ipc st)"
proof -
  let ?op = "header_op r" and ?used = "tx_wt r m - tx_rd r m"
  from ok have sane: "ring_sane (txbuf_virt r) (tx_size ?op) (tx_rd r m) (tx_wt r m) (bytes m)"
    and ne: "tx_wt_p ?op \<noteq> tx_rd_p ?op" by (simp_all add: tx_sane_def)
  from sane obtain k where k: "k < 31" "tx_size ?op = 2 ^ k" "unat (tx_size ?op) = 2 ^ k" "txbuf_virt r + 2 ^ k \<le> length (bytes m)"
      "unat ?used \<le> 2 ^ k" "(2::nat) ^ k < 2147483648" by (rule ring_saneE)
  have t2: "t \<le> 2 ^ k" "unat ?used + t \<le> 2 ^ k" "off + t \<le> length data" "t \<le> left" "left \<noteq> 0"
    using t k(3,5) left by (auto simp: t_def)
  have lt: "\<not> tx_size ?op \<le> ?used" using t k(3) by (simp add: t_def word_le_nat_alt)
  have free: "sint (tx_size ?op - ?used) = int (2 ^ k - unat ?used)"
  proof -
    have "tx_size ?op - ?used = of_nat (2 ^ k - unat ?used)"
      using k(3,5) by (simp add: of_nat_diff flip: k(2))
    then show ?thesis using k(6) by (simp only: sint_nat)
  qed
  have min: "min (sint (tx_size ?op - ?used)) (int left) = int t"
    unfolding free t_def k(3) by (simp only: of_nat_min)
  define pos where "pos = unat (tx_wt r m) mod 2 ^ k"
  have pos: "unat (tx_wt r m mod tx_size ?op) = pos" "pos < 2 ^ k" by (simp_all add: pos_def unat_mod k(3))
  obtain b where b: "copy_in (txbuf_virt r) (tx_size ?op) (txbuf_virt r + pos) (int t) off data (bytes m) = Some b"
      "length b = length (bytes m)"
      "\<forall>j<t. b ! (txbuf_virt r + (pos + j) mod 2 ^ k) = data ! (off + j)"
      "\<forall>i<length (bytes m). (\<forall>j<t. i \<noteq> txbuf_virt r + (pos + j) mod 2 ^ k) \<longrightarrow> b ! i = bytes m ! i"
    using copy_in_spec[of "2 ^ k" "tx_size ?op" pos "txbuf_virt r" "bytes m" t off data] k(3,4) pos(2) t2 by auto
  define m' where "m' = m\<lparr>bytes := b, words := (words m)(tx_wt_p ?op := tx_wt r m + of_nat t)\<rparr>"
  have wt: "tx_wt r m' = tx_wt r m + of_nat t" "tx_rd r m' = tx_rd r m" using ne by (simp_all add: m'_def tx_wt_def tx_rd_def)
  note app = stream_append[OF k(1,3,4) t2(2,3) b(2) b(3)[unfolded pos_def] b(4)[unfolded pos_def]]
  define s where "s = (if force_send m' \<or> tx_wt r m' - tx_rd r m' = of_nat t
      then snd (smsg_send res (smsg_set (sbuf_channel m') SMSG_TYPE_EVENT SMSG_EVENT_SBUF_WRPTR (of_nat i)) (ipc st)) else ipc st)"
  have fs: "force_send m' = force_send m" "st\<lparr>ipc := ipc st\<rparr> = st" by (simp_all add: m'_def)
  have "write_loop res fault peer i data n off (int left) rval st =
      write_loop res fault peer i data (Suc n) (off + t) (int (left - t)) rval (set_mgr m' (st\<lparr>ipc := s\<rparr>))"
    using m t2(4,5) lt b(1) fs
    by (subst write_loop.simps) (simp add: Let_def min pos(1) fault peer of_nat_diff m'_def [symmetric] s_def)
  moreover have "tx_sane r m'"
    using ok k app(2) t2(2) b(2) unfolding tx_sane_def ring_sane_def wt by (auto simp: m'_def)
  moreover have "tx_stream r m' = tx_stream r m @ take t (drop off data)"
    unfolding tx_stream_def wt app(1)[symmetric] by (simp add: m'_def)
  moreover have "ipc_smem_type s = ipc_smem_type (ipc st)"
    by (simp add: s_def smsg_send_def txbuf_put_def log_call_def Let_def)
  ultimately show ?thesis
    using m(3) b(2) by (intro exI[of _ m'] exI[of _ "set_mgr m' (st\<lparr>ipc := s\<rparr>)"]) (simp add: set_mgr_def m'_def)
qed

lemma write_loop_idle:
  assumes m: "mgr st = Some m" "get_ring i m = Some r" "sbuf_state m = SBUF_STATE_READY" and ok: "tx_sane r m"
    and left: "left \<le> length data"
  defines "t \<equiv> min (unat (tx_size (header_op r)) - unat (tx_wt r m - tx_rd r m)) left"
  shows "\<exists>m' st'. write_loop res (\<lambda>_. False) (\<lambda>_ st. st) i data 0 0 (int left) rval st = Some (rval, int (left - t), st') \<and>
    mgr st' = Some m' \<and> rings m' = rings m \<and> tx_sane r m' \<and> tx_stream r m' = tx_stream r m @ take t data \<and>
    length (bytes m') = length (bytes m) \<and> words m' = (words m)(tx_wt_p (header_op r) := tx_wt r m + of_nat t) \<and>
    ipc_smem_type (ipc st') = ipc_smem_type (ipc st)"
proof (cases "t = 0")
  case True
  then have "left = 0 \<or> tx_size (header_op r) \<le> tx_wt r m - tx_rd r m" by (auto simp: t_def word_le_nat_alt)
  then have "write_loop res (\<lambda>_. False) (\<lambda>_ st. st) i data 0 0 (int left) rval st = Some (rval, int left, st)"
    using m by (subst write_loop.simps) (auto simp: Let_def)
  with True m ok show ?thesis by (auto simp: tx_wt_def)
next
  case False
  obtain m' st' where w: "write_loop res (\<lambda>_. False) (\<lambda>_ st. st) i data 0 0 (int left) rval st =
      write_loop res (\<lambda>_. False) (\<lambda>_ st. st) i data (Suc 0) (0 + t) (int (left - t)) rval st'"
    "mgr st' = Some m'" "rings m' = rings m" "sbuf_state m' = SBUF_STATE_READY" "tx_sane r m'"
    "tx_stream r m' = tx_stream r m @ take t (drop 0 data)" "length (bytes m') = length (bytes m)"
    "words m' = (words m)(tx_wt_p (header_op r) := tx_wt r m + of_nat t)" "ipc_smem_type (ipc st') = ipc_smem_type (ipc st)"
    using write_round[OF m ok, of 0 left data "\<lambda>_ st. st" "\<lambda>_. False" res 0 rval] left False
    unfolding t_def by auto
  have "length (tx_stream r m') = length (tx_stream r m) + t" using w(6) left by (simp add: t_def)
  then have used: "unat (tx_wt r m' - tx_rd r m') = unat (tx_wt r m - tx_rd r m) + t" by (simp add: tx_stream_def)
  have "left - t = 0 \<or> tx_size (header_op r) \<le> tx_wt r m' - tx_rd r m'"
    unfolding word_le_nat_alt used by (auto simp: t_def min_def)
  moreover have "get_ring i m' = Some r" using m(2) w(3) by (simp add: get_ring_def split: if_splits)
  ultimately have "write_loop res (\<lambda>_. False) (\<lambda>_ st. st) i data (Suc 0) (0 + t) (int (left - t)) rval st' = Some (rval, int (left - t), st')"
    using w(2,4) by (subst write_loop.simps) (auto simp: Let_def)
  with w show ?thesis by auto
qed

lemma set_poll_fields [simp]:
  "words (set_poll i f m) = words m" "bytes (set_poll i f m) = bytes m" "sbuf_state (set_poll i f m) = sbuf_state m"
  "length (rings (set_poll i f m)) = length (rings m)"
  by (simp_all add: set_poll_def set_ring_def)

lemma set_poll_ring:
  "get_ring i m = Some r \<Longrightarrow> \<exists>q. get_ring i (set_poll i f m) = Some (r\<lparr>poll_mask := q\<rparr>)"
  by (auto simp: set_poll_def set_ring_def get_ring_def split: if_splits)

lemma update_tx_mask:
  assumes "get_ring i m = Some r"
  shows "\<exists>q. get_ring i (update_tx_mask i m) = Some (r\<lparr>poll_mask := q\<rparr>)" "words (update_tx_mask i m) = words m"
    "bytes (update_tx_mask i m) = bytes m" "sbuf_state (update_tx_mask i m) = sbuf_state m"
  using set_poll_ring[OF assms] by (simp_all add: update_tx_mask_def Let_def)

lemma update_rx_mask:
  assumes "get_ring i m = Some r"
  shows "\<exists>q. get_ring i (update_rx_mask i m) = Some (r\<lparr>poll_mask := q\<rparr>)" "words (update_rx_mask i m) = words m"
    "bytes (update_rx_mask i m) = bytes m" "sbuf_state (update_rx_mask i m) = sbuf_state m"
  using set_poll_ring[OF assms] by (simp_all add: update_rx_mask_def Let_def)

lemma release_ring_fields [simp]: "mgr (release_ring c st) = mgr st" "ipc (release_ring c st) = ipc st"
  by (simp_all add: release_ring_def sbuf_log_def)

lemma set_mgr_fields [simp]: "mgr (set_mgr m st) = Some m" "ipc (set_mgr m st) = ipc st"
  by (simp_all add: set_mgr_def)

lemma tx_poll [simp]:
  "tx_wt (r\<lparr>poll_mask := q\<rparr>) m = tx_wt r m" "tx_rd (r\<lparr>poll_mask := q\<rparr>) m = tx_rd r m"
  "tx_sane (r\<lparr>poll_mask := q\<rparr>) m = tx_sane r m" "tx_stream (r\<lparr>poll_mask := q\<rparr>) m = tx_stream r m"
  by (simp_all add: tx_wt_def tx_rd_def tx_sane_def tx_stream_def)

lemma tx_cong:
  assumes "words m' = words m" "bytes m' = bytes m"
  shows "tx_wt r m' = tx_wt r m" "tx_rd r m' = tx_rd r m" "tx_sane r m' = tx_sane r m" "tx_stream r m' = tx_stream r m"
  using assms by (simp_all add: tx_wt_def tx_rd_def tx_sane_def tx_stream_def)

lemma rx_poll [simp]:
  "rx_wt (r\<lparr>poll_mask := q\<rparr>) m = rx_wt r m" "rx_rd (r\<lparr>poll_mask := q\<rparr>) m = rx_rd r m"
  "rx_sane (r\<lparr>poll_mask := q\<rparr>) m = rx_sane r m" "rx_stream (r\<lparr>poll_mask := q\<rparr>) m = rx_stream r m"
  by (simp_all add: rx_wt_def rx_rd_def rx_sane_def rx_stream_def)

lemma rx_cong:
  assumes "words m' = words m" "bytes m' = bytes m"
  shows "rx_wt r m' = rx_wt r m" "rx_rd r m' = rx_rd r m" "rx_sane r m' = rx_sane r m" "rx_stream r m' = rx_stream r m"
  using assms by (simp_all add: rx_wt_def rx_rd_def rx_sane_def rx_stream_def)

text \<open>What a caller of the channel needs: the channel in the table, the block ready, the ring there, the memory granted.\<close>

definition usable :: "u8 \<Rightarrow> nat \<Rightarrow> (nat \<Rightarrow> int) \<Rightarrow> sbuf_ring \<Rightarrow> sbuf_mgr \<Rightarrow> sbuf_sys \<Rightarrow> bool" where
  "usable c i res r m st \<longleftrightarrow> c \<in> set sipc_cfg \<and> mgr st = Some m \<and> get_ring i m = Some r \<and> sbuf_state m = SBUF_STATE_READY \<and>
     (ipc_smem_type (ipc st) = SMEM_LOCAL \<or> 0 \<le> res 0 \<and> 0 \<le> res 1)"

lemma request_ok:
  "usable c i res r m st \<Longrightarrow> ipc_smem_type s = ipc_smem_type (ipc st) \<Longrightarrow> k < 2 \<Longrightarrow> \<not> sipc_smem_request_resource (res k) s < 0"
  by (auto simp: usable_def sipc_smem_request_resource_def less_2_cases_iff)

text \<open>The result of a call that has moved \<open>t\<close> of \<open>len\<close> bytes.\<close>

lemma count_result:
  assumes "unat (len::u32) < 2147483648" "0 < t" "t \<le> unat len"
  shows "len \<noteq> of_int (int (unat len - t))" "sint (len - of_int (int (unat len - t))) = int t"
proof -
  have e: "of_int (int (unat len - t)) = len - of_nat t" using assms(3) by (simp add: of_nat_diff)
  have "unat (of_nat t :: u32) = t" using assms by (simp add: unat_of_nat take_bit_eq_mod)
  then have "(of_nat t :: u32) \<noteq> 0" using assms(2) by (metis neq0_conv unat_0)
  then show "len \<noteq> of_int (int (unat len - t))" unfolding e by simp
  show "sint (len - of_int (int (unat len - t))) = int t" unfolding e using sint_nat[of t] assms by simp
qed

text \<open>
  For the witnesses: one ring of 8 bytes each way, the read counter of the first direction shortly before it wraps around
  and its write counter at \<open>wt\<close>. Every byte of the block is its own address.
\<close>

definition ex_mgr :: sbuf_mgr where
  "ex_mgr = \<lparr>sbuf_channel = 0, force_send = False, sbuf_state = SBUF_STATE_READY, smem_addr = 0, smem_size = 0,
     smem_addr_debug = 0, dst_smem_addr = 0, ringnr = 0, rings = [], thread_alive = True, words = (\<lambda>_. 0), bytes = []\<rparr>"

definition ex_sys :: "bool \<Rightarrow> sbuf_mgr \<Rightarrow> sbuf_sys" where
  "ex_sys cl m = \<lparr>ipc = ex_ipc cl 3, mgr = Some m, smem_base = 0, dst_smem_base = 0, sbuf_calls = []\<rparr>"

lemma ex_local: "sipc_smem_request_resource k (ipc (ex_sys cl m)) = 0"
  by (simp add: ex_sys_def sipc_smem_request_resource_def ex_ipc_def ring_layout_def)

definition wrap_words :: "u32 \<Rightarrow> nat \<Rightarrow> u32" where
  "wrap_words wt a = (if a = 12 then 0xFFFFFFFD else if a = 16 then wt else if a = 8 \<or> a = 24 then 8 else if a = 0 then 1 else 0)"

definition wrap_mgr :: "bool \<Rightarrow> u32 \<Rightarrow> sbuf_mgr" where
  "wrap_mgr cl wt = ex_mgr\<lparr>ringnr := 1, rings := [if cl then client_ring 1 8 8 (wrap_words wt) 0 else host_ring 1 8 8 0],
     words := wrap_words wt, bytes := map of_nat [0..<52]\<rparr>"

lemma wrap_usable: "usable 0 0 (\<lambda>_. 0) (rings (wrap_mgr cl wt) ! 0) (wrap_mgr cl wt) (ex_sys cl (wrap_mgr cl wt))"
  by (simp add: usable_def wrap_mgr_def ex_sys_def ex_mgr_def get_ring_def in_cfg)

lemma wrap_ring:
  "tx_size (header_op (rings (wrap_mgr False wt) ! 0)) = 8" "tx_wt (rings (wrap_mgr False wt) ! 0) (wrap_mgr False wt) = wt"
  "tx_rd (rings (wrap_mgr False wt) ! 0) (wrap_mgr False wt) = 0xFFFFFFFD"
  "rx_size (header_op (rings (wrap_mgr True wt) ! 0)) = 8" "rx_wt (rings (wrap_mgr True wt) ! 0) (wrap_mgr True wt) = wt"
  "rx_rd (rings (wrap_mgr True wt) ! 0) (wrap_mgr True wt) = 0xFFFFFFFD"
  by (simp_all add: wrap_mgr_def host_ring_def client_ring_def wrap_words_def tx_wt_def tx_rd_def rx_wt_def rx_rd_def)

lemma wrap_sane:
  assumes "unat (wt - 0xFFFFFFFD) \<le> 8"
  shows "tx_sane (rings (wrap_mgr False wt) ! 0) (wrap_mgr False wt)" "rx_sane (rings (wrap_mgr True wt) ! 0) (wrap_mgr True wt)"
proof -
  have "\<exists>k<31. (8::u32) = 2 ^ k" by (intro exI[of _ 3]) simp
  then show "tx_sane (rings (wrap_mgr False wt) ! 0) (wrap_mgr False wt)" "rx_sane (rings (wrap_mgr True wt) ! 0) (wrap_mgr True wt)"
    using assms by (simp_all only: tx_sane_def rx_sane_def ring_sane_def wrap_ring)
      (simp_all add: wrap_mgr_def host_ring_def client_ring_def)
qed

lemma write_call:
  assumes "usable c i res r m st" and "tx_sane r m" and "unat (tx_wt r m - tx_rd r m) < unat (tx_size (header_op r))"
    and "0 < unat len" "unat len \<le> length data" "unat len < 2147483648"
  defines "t \<equiv> min (unat (tx_size (header_op r)) - unat (tx_wt r m - tx_rd r m)) (unat len)"
  shows "\<exists>st' m' q. sbuf_write True res wait (\<lambda>_. False) (\<lambda>_ st. st) c i data len timeout st = Some (int t, st') \<and>
    mgr st' = Some m' \<and> get_ring i m' = Some (r\<lparr>poll_mask := q\<rparr>) \<and> tx_sane r m' \<and> tx_stream r m' = tx_stream r m @ take t data \<and>
    length (bytes m') = length (bytes m) \<and> words m' = (words m)(tx_wt_p (header_op r) := tx_wt r m + of_nat t)"
proof -
  from assms(1) have u: "c \<in> set sipc_cfg" "mgr st = Some m" "get_ring i m = Some r" "sbuf_state m = SBUF_STATE_READY"
    by (simp_all add: usable_def)
  note u1 = update_tx_mask[OF u(3)]
  then obtain q1 where q1: "get_ring i (update_tx_mask i m) = Some (r\<lparr>poll_mask := q1\<rparr>)" by blast
  define st1 where "st1 = release_ring (Release_tx i) (set_mgr (update_tx_mask i m) st)"
  have st1: "mgr st1 = Some (update_tx_mask i m)" "ipc st1 = ipc st" by (simp_all add: st1_def)
  note cong = tx_cong[OF u1(2,3)]
  define rv where "rv = sipc_smem_request_resource (res (Suc 0)) (ipc st)"
  obtain m2 st2 where w: "write_loop (res 2) (\<lambda>_. False) (\<lambda>_ st. st) i data 0 0 (int (unat len)) rv st1 =
      Some (rv, int (unat len - t), st2)" "mgr st2 = Some m2" "rings m2 = rings (update_tx_mask i m)" "tx_sane r m2"
      "tx_stream r m2 = tx_stream r m @ take t data" "length (bytes m2) = length (bytes m)"
      "words m2 = (words m)(tx_wt_p (header_op r) := tx_wt r m + of_nat t)" "ipc_smem_type (ipc st2) = ipc_smem_type (ipc st)"
    using write_loop_idle[OF st1(1) q1, of "unat len" data "res 2" rv] u(4) u1(2-4) assms(2,5) st1(2)
    by (auto simp: t_def cong)
  have g2: "get_ring i m2 = Some (r\<lparr>poll_mask := q1\<rparr>)" using q1 unfolding get_ring_def w(3) .
  then obtain q2 where q2: "get_ring i (update_tx_mask i m2) = Some (r\<lparr>poll_mask := q2\<rparr>)"
    using update_tx_mask(1)[OF g2] by auto
  note u2 = update_tx_mask(2,3)[OF g2]
  have t: "0 < t" "t \<le> unat len" using assms(3,4) by (simp_all add: t_def)
  have s: "sint len = int (unat len)" using sint_nat[of "unat len"] assms(6) by simp
  have room: "\<not> tx_size (header_op r) \<le> tx_wt r m - tx_rd r m" using assms(3) by (simp add: word_le_nat_alt)
  have r0: "\<not> sipc_smem_request_resource (res 0) (ipc st) < 0" "\<not> rv < 0"
    using request_ok[OF assms(1) refl, of 0] request_ok[OF assms(1) refl, of 1] by (simp_all add: rv_def)
  define st3 where "st3 = (let st = release_ring (Release_tx i) (set_mgr (update_tx_mask i m2) st2) in
      if need_wake_lock r then sbuf_log (Tx_wakelock_later i) st else st)"
  have m3: "mgr st3 = Some (update_tx_mask i m2)" by (simp add: st3_def Let_def sbuf_log_def)
  have "sbuf_write True res wait (\<lambda>_. False) (\<lambda>_ st. st) c i data len timeout st = Some (int t, st3)"
    using u channel2index_valid(3)[OF u(1)] room r0 w(1,2) g2 count_result[OF assms(6) t]
    by (simp add: sbuf_write_def Let_def st1_def [symmetric] st1(2) s rv_def [symmetric] st3_def)
  with m3 q2 w(4-7) u2 tx_cong[OF u2] show ?thesis by auto
qed

text \<open>
  C12. Writing appends to the stream of a ring whose size is a power of two below 2^31 (\<open>tx_sane\<close>): with the other side
  idle and room in the ring, \<open>sbuf_write\<close> returns how many bytes it has written, as many as fit, and exactly these bytes,
  in their order, are behind those that were there, across the end of the buffer and, for such a size, the wrap-around of
  the counter. Only the write counter of this ring moves. The size is a condition on the configuration that the code
  does not check. The channel is ready, its memory can be requested, the buffer lies inside the memory, the counters are
  no further apart than the ring is long, and the length is not zero, below 2^31 and within the caller's data.
\<close>

theorem sbuf_write_appends:
  assumes "usable c i res r m st" and "tx_sane r m" and "unat (tx_wt r m - tx_rd r m) < unat (tx_size (header_op r))"
    and "0 < unat len" "unat len \<le> length data" "unat len < 2147483648"
  defines "t \<equiv> min (unat (tx_size (header_op r)) - unat (tx_wt r m - tx_rd r m)) (unat len)"
  shows "\<exists>st' m' q. sbuf_write True res wait (\<lambda>_. False) (\<lambda>_ st. st) c i data len timeout st = Some (int t, st') \<and>
    mgr st' = Some m' \<and> get_ring i m' = Some (r\<lparr>poll_mask := q\<rparr>) \<and> tx_sane r m' \<and> tx_stream r m' = tx_stream r m @ take t data \<and>
    length (bytes m') = length (bytes m) \<and> words m' = (words m)(tx_wt_p (header_op r) := tx_wt r m + of_nat t)"
  unfolding t_def by (rule write_call [OF assms(1-6)])

theorem sbuf_write_appends_witness:
  "\<exists>st' m'. sbuf_write True (\<lambda>_. 0) (\<lambda>st. (0, st)) (\<lambda>_. False) (\<lambda>_ st. st) 0 0 [1, 2, 3, 4, 5, 6, 7, 8, 9] 9 0
      (ex_sys False (wrap_mgr False 0xFFFFFFFF)) = Some (6, st') \<and> mgr st' = Some m' \<and>
     tx_stream (rings (wrap_mgr False 0xFFFFFFFF) ! 0) m' =
       tx_stream (rings (wrap_mgr False 0xFFFFFFFF) ! 0) (wrap_mgr False 0xFFFFFFFF) @ [1, 2, 3, 4, 5, 6]"
proof -
  have p: "tx_sane (rings (wrap_mgr False 0xFFFFFFFF) ! 0) (wrap_mgr False 0xFFFFFFFF)" by (rule wrap_sane) simp
  show ?thesis
    using sbuf_write_appends[OF wrap_usable p, of 9 "[1, 2, 3, 4, 5, 6, 7, 8, 9]" "\<lambda>st. (0, st)" 0] by (simp add: wrap_ring) blast
qed

section \<open>Reading\<close>

lemma stream_drop:
  assumes "k < 31" "unat tsize = 2 ^ k" "virt + 2 ^ k \<le> length b" "t \<le> unat (wt - rd)"
  shows "stream virt tsize (rd + of_nat t) wt b = drop t (stream virt tsize rd wt b)"
    "ring_view (take (2 ^ k) (drop virt b)) (unat rd mod 2 ^ k) t = take t (stream virt tsize rd wt b)"
    "unat (wt - (rd + of_nat t)) = unat (wt - rd) - t"
proof -
  let ?a = "take (2 ^ k) (drop virt b)"
  have l: "length ?a = 2 ^ k" using assms(3) by simp
  have e: "wt - (rd + of_nat t) = of_nat (unat (wt - rd) - t)" using assms(4) by (simp add: of_nat_diff)
  have "unat (wt - rd) < 4294967296" using unsigned_less[of "wt - rd", where 'a = nat] by simp
  then show n: "unat (wt - (rd + of_nat t)) = unat (wt - rd) - t"
    unfolding e by (simp add: unat_of_nat take_bit_eq_mod)
  have t32: "unat (of_nat t :: u32) = t"
    using assms(4) unsigned_less[of "wt - rd", where 'a = nat] by (simp add: unat_of_nat take_bit_eq_mod)
  have "unat (rd + of_nat t) mod 2 ^ k = (unat rd + t) mod 2 ^ k"
    using unat_add_mod[of k rd "of_nat t"] assms(1) t32 by simp
  then have "ring_view ?a (unat (rd + of_nat t)) (unat (wt - rd) - t) = ring_view ?a (unat rd + t) (unat (wt - rd) - t)"
    by (intro ring_view_cong) (simp only: l)
  moreover have split: "ring_view ?a (unat rd) (unat (wt - rd)) =
      ring_view ?a (unat rd) t @ ring_view ?a (unat rd + t) (unat (wt - rd) - t)"
    using ring_view_split[of ?a "unat rd" t "unat (wt - rd) - t"] assms(4) by simp
  then have "drop t (ring_view ?a (unat rd) (unat (wt - rd))) = ring_view ?a (unat rd + t) (unat (wt - rd) - t)" by simp
  ultimately show "stream virt tsize (rd + of_nat t) wt b = drop t (stream virt tsize rd wt b)"
    by (simp only: stream_def n assms(2))
  have "ring_view ?a (unat rd mod 2 ^ k) t = ring_view ?a (unat rd) t"
    by (rule ring_view_cong) (simp only: l mod_mod_trivial)
  moreover have "take t (ring_view ?a (unat rd) (unat (wt - rd))) = ring_view ?a (unat rd) t" unfolding split by simp
  ultimately show "ring_view ?a (unat rd mod 2 ^ k) t = take t (stream virt tsize rd wt b)"
    by (simp only: stream_def assms(2))
qed

lemma read_round:
  fixes left :: nat
  assumes m: "mgr st = Some m" "get_ring i m = Some r" "sbuf_state m = SBUF_STATE_READY" and ok: "rx_sane r m"
  defines "t \<equiv> min (unat (rx_wt r m - rx_rd r m)) left"
  assumes t: "0 < t"
  shows "\<exists>m' st'. read_loop res (\<lambda>_. False) (\<lambda>_ st. st) i out n (int left) rval st =
      read_loop res (\<lambda>_. False) (\<lambda>_ st. st) i (out @ take t (rx_stream r m)) (Suc n) (int (left - t)) rval st' \<and>
    mgr st' = Some m' \<and> rings m' = rings m \<and> sbuf_state m' = SBUF_STATE_READY \<and> rx_sane r m' \<and>
    rx_stream r m' = drop t (rx_stream r m) \<and> bytes m' = bytes m \<and>
    words m' = (words m)(rx_rd_p (header_op r) := rx_rd r m + of_nat t) \<and> ipc_smem_type (ipc st') = ipc_smem_type (ipc st)"
proof -
  let ?op = "header_op r" and ?used = "rx_wt r m - rx_rd r m"
  from ok have sane: "ring_sane (rxbuf_virt r) (rx_size ?op) (rx_rd r m) (rx_wt r m) (bytes m)"
    and ne: "rx_wt_p ?op \<noteq> rx_rd_p ?op" by (simp_all add: rx_sane_def)
  from sane obtain k where k: "k < 31" "rx_size ?op = 2 ^ k" "unat (rx_size ?op) = 2 ^ k" "rxbuf_virt r + 2 ^ k \<le> length (bytes m)"
      "unat ?used \<le> 2 ^ k" "(2::nat) ^ k < 2147483648" by (rule ring_saneE)
  have t2: "t \<le> 2 ^ k" "t \<le> unat ?used" "t \<le> left" "left \<noteq> 0" "rx_wt r m \<noteq> rx_rd r m"
    using t k(5) by (auto simp: t_def)
  have "sint (of_nat (unat ?used) :: u32) = int (unat ?used)" by (rule sint_nat) (use k(5,6) in linarith)
  then have si: "sint ?used = int (unat ?used)" by simp
  have min: "min (sint ?used) (int left) = int t" unfolding si t_def by (simp only: of_nat_min)
  have nz: "rx_size ?op \<noteq> 0" using k(3) by (metis power_not_zero unat_0 zero_neq_numeral)
  define pos where "pos = unat (rx_rd r m) mod 2 ^ k"
  have pos: "unat (rx_rd r m mod rx_size ?op) = pos" "pos < 2 ^ k" by (simp_all add: pos_def unat_mod k(3))
  note d = stream_drop[OF k(1,3,4) t2(2)]
  have co: "copy_out (rxbuf_virt r) (rx_size ?op) (rxbuf_virt r + pos) (int t) (bytes m) = Some (take t (rx_stream r m))"
    using copy_out_spec[of "2 ^ k" "rx_size ?op" pos "rxbuf_virt r" "bytes m" t] k(3,4) pos(2) t2(1) d(2)
    by (simp add: pos_def rx_stream_def)
  define m' where "m' = m\<lparr>words := (words m)(rx_rd_p ?op := rx_rd r m + of_nat t)\<rparr>"
  have rd: "rx_rd r m' = rx_rd r m + of_nat t" "rx_wt r m' = rx_wt r m" using ne by (simp_all add: m'_def rx_wt_def rx_rd_def)
  define s where "s = (if rx_wt r m' - rx_rd r m' = rx_size ?op - of_nat t
      then snd (smsg_send res (smsg_set (sbuf_channel m') SMSG_TYPE_EVENT SMSG_EVENT_SBUF_RDPTR (of_nat i)) (ipc st)) else ipc st)"
  have fs: "st\<lparr>ipc := ipc st\<rparr> = st" by simp
  have "read_loop res (\<lambda>_. False) (\<lambda>_ st. st) i out n (int left) rval st =
      read_loop res (\<lambda>_. False) (\<lambda>_ st. st) i (out @ take t (rx_stream r m)) (Suc n) (int (left - t)) rval (set_mgr m' (st\<lparr>ipc := s\<rparr>))"
    using m t2(3-5) co nz fs
    by (subst read_loop.simps) (simp add: Let_def min pos(1) of_nat_diff m'_def [symmetric] s_def)
  moreover have "rx_sane r m'"
    using ok k d(3) unfolding rx_sane_def ring_sane_def rd by (auto simp: m'_def)
  moreover have "rx_stream r m' = drop t (rx_stream r m)"
    unfolding rx_stream_def rd d(1)[symmetric] by (simp add: m'_def)
  moreover have "ipc_smem_type s = ipc_smem_type (ipc st)"
    by (simp add: s_def smsg_send_def txbuf_put_def log_call_def Let_def)
  ultimately show ?thesis
    using m(3) by (intro exI[of _ m'] exI[of _ "set_mgr m' (st\<lparr>ipc := s\<rparr>)"]) (simp add: m'_def)
qed

lemma read_loop_idle:
  fixes left :: nat
  assumes m: "mgr st = Some m" "get_ring i m = Some r" "sbuf_state m = SBUF_STATE_READY" and ok: "rx_sane r m"
  defines "t \<equiv> min (unat (rx_wt r m - rx_rd r m)) left"
  shows "\<exists>m' st'. read_loop res (\<lambda>_. False) (\<lambda>_ st. st) i [] 0 (int left) rval st =
      Some (rval, int (left - t), take t (rx_stream r m), st') \<and>
    mgr st' = Some m' \<and> rings m' = rings m \<and> rx_sane r m' \<and> rx_stream r m' = drop t (rx_stream r m) \<and> bytes m' = bytes m \<and>
    words m' = (words m)(rx_rd_p (header_op r) := rx_rd r m + of_nat t) \<and> ipc_smem_type (ipc st') = ipc_smem_type (ipc st)"
proof (cases "t = 0")
  case True
  then have "left = 0 \<or> rx_wt r m = rx_rd r m" by (auto simp: t_def min_def unat_sub_0 split: if_splits)
  then have "read_loop res (\<lambda>_. False) (\<lambda>_ st. st) i [] 0 (int left) rval st = Some (rval, int left, [], st)"
    using m by (subst read_loop.simps) (auto simp: Let_def)
  with True m ok show ?thesis by (auto simp: rx_rd_def)
next
  case False
  obtain m' st' where w: "read_loop res (\<lambda>_. False) (\<lambda>_ st. st) i [] 0 (int left) rval st =
      read_loop res (\<lambda>_. False) (\<lambda>_ st. st) i ([] @ take t (rx_stream r m)) (Suc 0) (int (left - t)) rval st'"
    "mgr st' = Some m'" "rings m' = rings m" "sbuf_state m' = SBUF_STATE_READY" "rx_sane r m'"
    "rx_stream r m' = drop t (rx_stream r m)" "bytes m' = bytes m"
    "words m' = (words m)(rx_rd_p (header_op r) := rx_rd r m + of_nat t)" "ipc_smem_type (ipc st') = ipc_smem_type (ipc st)"
    using read_round[OF m ok, of left res "[]" 0 rval] False unfolding t_def by auto
  have "length (rx_stream r m') = length (rx_stream r m) - t" using w(6) by simp
  then have used: "unat (rx_wt r m' - rx_rd r m') = unat (rx_wt r m - rx_rd r m) - t" by (simp add: rx_stream_def)
  have "left - t = 0 \<or> rx_wt r m' = rx_rd r m'"
    unfolding unat_sub_0 [symmetric] used by (auto simp: t_def min_def)
  moreover have "get_ring i m' = Some r" using m(2) w(3) by (simp add: get_ring_def split: if_splits)
  ultimately have "read_loop res (\<lambda>_. False) (\<lambda>_ st. st) i ([] @ take t (rx_stream r m)) (Suc 0) (int (left - t)) rval st' =
      Some (rval, int (left - t), take t (rx_stream r m), st')"
    using w(2,4) by (subst read_loop.simps) (auto simp: Let_def)
  with w show ?thesis by auto
qed

text \<open>What \<open>sbuf_read\<close> does before and after its loop, when there is something to read.\<close>

lemma read_start:
  assumes "usable c i res r m st" and ne: "rx_wt r m \<noteq> rx_rd r m" and len: "0 < unat len" "unat len < 2147483648"
  shows "\<exists>st1 q k s. sbuf_read True res wait (\<lambda>_. False) (\<lambda>_ st. st) c i len timeout st =
      Option.bind (read_loop (res 2) (\<lambda>_. False) (\<lambda>_ st. st) i [] 0 (int (unat len)) k st1)
        (\<lambda>(rval, left, out, st). Option.bind (mgr st) (\<lambda>m. map_option (\<lambda>r::sbuf_ring.
          (if len = of_int left then rval else sint (len - of_int left), out, s r m st)) (get_ring i m))) \<and>
    mgr st1 = Some (update_rx_mask i m) \<and> get_ring i (update_rx_mask i m) = Some (r\<lparr>poll_mask := q\<rparr>) \<and>
    (\<forall>r m st. mgr (s r m st) = Some (update_rx_mask i m))"
proof -
  from assms(1) have u: "c \<in> set sipc_cfg" "mgr st = Some m" "get_ring i m = Some r" "sbuf_state m = SBUF_STATE_READY"
    by (simp_all add: usable_def)
  obtain q where q: "get_ring i (update_rx_mask i m) = Some (r\<lparr>poll_mask := q\<rparr>)" using update_rx_mask(1)[OF u(3)] by blast
  define st1 where "st1 = release_ring (Release_rx i) (set_mgr (update_rx_mask i m) st)"
  have st1: "mgr st1 = Some (update_rx_mask i m)" "ipc st1 = ipc st" by (simp_all add: st1_def)
  define rv where "rv = sipc_smem_request_resource (res (Suc 0)) (ipc st)"
  have s: "sint len = int (unat len)" using sint_nat[of "unat len"] len(2) by simp
  have r0: "\<not> sipc_smem_request_resource (res 0) (ipc st) < 0" "\<not> rv < 0"
    using request_ok[OF assms(1) refl, of 0] request_ok[OF assms(1) refl, of 1] by (simp_all add: rv_def)
  define fin where "fin = (\<lambda>(r::sbuf_ring) m st. let st = release_ring (Release_rx i) (set_mgr (update_rx_mask i m) st) in
      if need_wake_lock r then sbuf_log (Rx_wakelock_later i) st else st)"
  have "sbuf_read True res wait (\<lambda>_. False) (\<lambda>_ st. st) c i len timeout st =
      Option.bind (read_loop (res 2) (\<lambda>_. False) (\<lambda>_ st. st) i [] 0 (int (unat len)) rv st1)
        (\<lambda>(rval, left, out, st). Option.bind (mgr st) (\<lambda>m. map_option (\<lambda>r::sbuf_ring.
          (if len = of_int left then rval else sint (len - of_int left), out, fin r m st)) (get_ring i m)))"
    using u channel2index_valid(3)[OF u(1)] ne r0
    by (simp add: sbuf_read_def Let_def st1_def [symmetric] st1(2) s rv_def [symmetric] fin_def map_option_bind map_conv_bind_option comp_def)
  moreover have "\<forall>r m st. mgr (fin r m st) = Some (update_rx_mask i m)" by (simp add: fin_def Let_def sbuf_log_def)
  ultimately show ?thesis using st1(1) q by blast
qed

lemma read_call:
  assumes "usable c i res r m st" and "rx_sane r m" and "rx_wt r m \<noteq> rx_rd r m" and "0 < unat len" "unat len < 2147483648"
  defines "t \<equiv> min (unat (rx_wt r m - rx_rd r m)) (unat len)"
  shows "\<exists>st' m' q. sbuf_read True res wait (\<lambda>_. False) (\<lambda>_ st. st) c i len timeout st =
      Some (int t, take t (rx_stream r m), st') \<and>
    mgr st' = Some m' \<and> get_ring i m' = Some (r\<lparr>poll_mask := q\<rparr>) \<and> rx_sane r m' \<and> rx_stream r m' = drop t (rx_stream r m) \<and>
    bytes m' = bytes m \<and> words m' = (words m)(rx_rd_p (header_op r) := rx_rd r m + of_nat t)"
proof -
  from assms(1) have u: "c \<in> set sipc_cfg" "mgr st = Some m" "get_ring i m = Some r" "sbuf_state m = SBUF_STATE_READY"
    by (simp_all add: usable_def)
  note u1 = update_rx_mask[OF u(3)]
  note cong = rx_cong[OF u1(2,3)]
  obtain st1 q1 rv s where rd: "sbuf_read True res wait (\<lambda>_. False) (\<lambda>_ st. st) c i len timeout st =
      Option.bind (read_loop (res 2) (\<lambda>_. False) (\<lambda>_ st. st) i [] 0 (int (unat len)) rv st1)
        (\<lambda>(rval, left, out, st). Option.bind (mgr st) (\<lambda>m. map_option (\<lambda>r::sbuf_ring.
          (if len = of_int left then rval else sint (len - of_int left), out, s r m st)) (get_ring i m)))"
      "mgr st1 = Some (update_rx_mask i m)" "get_ring i (update_rx_mask i m) = Some (r\<lparr>poll_mask := q1\<rparr>)"
      "\<forall>r m st. mgr (s r m st) = Some (update_rx_mask i m)"
    using read_start[OF assms(1,3-5)] by blast
  obtain m2 st2 where w: "read_loop (res 2) (\<lambda>_. False) (\<lambda>_ st. st) i [] 0 (int (unat len)) rv st1 =
      Some (rv, int (unat len - t), take t (rx_stream r m), st2)" "mgr st2 = Some m2" "rings m2 = rings (update_rx_mask i m)"
      "rx_sane r m2" "rx_stream r m2 = drop t (rx_stream r m)" "bytes m2 = bytes m"
      "words m2 = (words m)(rx_rd_p (header_op r) := rx_rd r m + of_nat t)"
    using read_loop_idle[OF rd(2,3), where left = "unat len" and res = "res 2" and rval = rv] u(4) u1(2-4) assms(2)
    by (auto simp: t_def cong)
  have g2: "get_ring i m2 = Some (r\<lparr>poll_mask := q1\<rparr>)" using rd(3) unfolding get_ring_def w(3) .
  then obtain q2 where q2: "get_ring i (update_rx_mask i m2) = Some (r\<lparr>poll_mask := q2\<rparr>)"
    using update_rx_mask(1)[OF g2] by auto
  note u2 = update_rx_mask(2,3)[OF g2]
  have t: "0 < t" "t \<le> unat len" using assms(3,4) unat_sub_0[of "rx_wt r m" "rx_rd r m"] by (auto simp: t_def intro: ccontr)
  have "sbuf_read True res wait (\<lambda>_. False) (\<lambda>_ st. st) c i len timeout st =
      Some (int t, take t (rx_stream r m), s (r\<lparr>poll_mask := q1\<rparr>) m2 st2)"
    unfolding rd(1) w(1) using w(2) g2 count_result[OF assms(5) t] by simp
  with rd(4) q2 w(4-7) u2 rx_cong[OF u2] show ?thesis by auto
qed

text \<open>
  C13. Reading takes from the front of the stream of a ring whose size is a power of two below 2^31 (\<open>rx_sane\<close>): with the
  other side idle and something in the ring, \<open>sbuf_read\<close> returns as many bytes as are asked for and there, the oldest first,
  and the rest stays. Only the read counter of this ring moves. The size is a condition on the configuration that the
  code does not check. The channel is ready, its memory can be requested, the buffer lies inside the memory, the counters
  are no further apart than the ring is long, and the length asked for is not zero and below 2^31.
\<close>

theorem sbuf_read_takes:
  assumes "usable c i res r m st" and "rx_sane r m" and "rx_wt r m \<noteq> rx_rd r m" and "0 < unat len" "unat len < 2147483648"
  defines "t \<equiv> min (unat (rx_wt r m - rx_rd r m)) (unat len)"
  shows "\<exists>st' m' q. sbuf_read True res wait (\<lambda>_. False) (\<lambda>_ st. st) c i len timeout st =
      Some (int t, take t (rx_stream r m), st') \<and>
    mgr st' = Some m' \<and> get_ring i m' = Some (r\<lparr>poll_mask := q\<rparr>) \<and> rx_sane r m' \<and> rx_stream r m' = drop t (rx_stream r m) \<and>
    bytes m' = bytes m \<and> words m' = (words m)(rx_rd_p (header_op r) := rx_rd r m + of_nat t)"
  unfolding t_def by (rule read_call [OF assms(1-5)])

theorem sbuf_read_takes_witness:
  "\<exists>st'. sbuf_read True (\<lambda>_. 0) (\<lambda>st. (0, st)) (\<lambda>_. False) (\<lambda>_ st. st) 0 0 4 0 (ex_sys True (wrap_mgr True 2)) =
     Some (4, [41, 42, 43, 36], st')"
proof -
  let ?r = "rings (wrap_mgr True 2) ! 0" and ?m = "wrap_mgr True 2"
  have p: "rx_sane ?r ?m" "rx_wt ?r ?m \<noteq> rx_rd ?r ?m" by (rule wrap_sane, simp) (simp add: wrap_ring)
  have v: "rxbuf_virt ?r = 36" "bytes ?m = map of_nat [0..<52]" by (simp_all add: wrap_mgr_def client_ring_def)
  have "take 4 (rx_stream ?r ?m) = [41, 42, 43, 36]"
    by (simp add: rx_stream_def stream_def ring_view_def wrap_ring v upt_rec)
  then show ?thesis
    using sbuf_read_takes[OF wrap_usable[of True 2] p, of 4 "\<lambda>st. (0, st)" 0] by (simp add: wrap_ring) blast
qed

end
