(* ===== verification/SbufLinkProps.thy ===== *)
theory SbufLinkProps
  imports SbufProps
begin

text \<open>
  The two sides of a byte stream together: the block the host lays out and the client finds in it, a write on one side
  followed by a read on the other, and a read whose write counter was set too far by the other side.
\<close>

section \<open>The block\<close>

text \<open>Two descriptions of one ring, from either side.\<close>

definition mirrors :: "sbuf_ring \<Rightarrow> sbuf_ring \<Rightarrow> bool" where
  "mirrors r r' \<longleftrightarrow>
     rx_rd_p (header_op r') = tx_rd_p (header_op r) \<and> rx_wt_p (header_op r') = tx_wt_p (header_op r) \<and>
     tx_rd_p (header_op r') = rx_rd_p (header_op r) \<and> tx_wt_p (header_op r') = rx_wt_p (header_op r) \<and>
     rx_size (header_op r') = tx_size (header_op r) \<and> tx_size (header_op r') = rx_size (header_op r) \<and>
     rxbuf_virt r' = txbuf_virt r \<and> txbuf_virt r' = rxbuf_virt r"

text \<open>Sizes with which the block is as large as the arithmetic in 32 bits says.\<close>

definition fits :: "u32 \<Rightarrow> u32 \<Rightarrow> u32 \<Rightarrow> bool" where
  "fits bufnum t r \<longleftrightarrow> 0 < unat bufnum \<and> header_size bufnum + (unat t + unat r) * unat bufnum < 4294967296"

lemma unat_small: "n < 4294967296 \<Longrightarrow> unat (of_nat n :: u32) = n"
  by (simp add: unat_of_nat take_bit_eq_mod)

lemma fits_offset:
  assumes "fits bufnum t r" "i \<le> unat bufnum"
  shows "unat ((t + r) * of_nat i) = (unat t + unat r) * i"
proof -
  have "(unat t + unat r) * i \<le> (unat t + unat r) * unat bufnum" using assms(2) by (rule mult_le_mono2)
  moreover have "(unat t + unat r) * unat bufnum < 4294967296" using assms(1) unfolding fits_def by linarith
  ultimately have "(unat t + unat r) * i < 4294967296" by linarith
  moreover have "(t + r) * of_nat i = of_nat ((unat t + unat r) * i)" by simp
  ultimately show ?thesis by (simp only: unat_small)
qed

lemma init_header_frame: "a < 4 + 32 * i \<or> 4 + 32 * i + 32 \<le> a \<Longrightarrow> init_ring_header x t r i w a = w a"
  by (auto simp: init_ring_header_def)

lemma headers_written:
  "j < n \<Longrightarrow> 4 + 32 * j \<le> a \<Longrightarrow> a < 4 + 32 * j + 32 \<Longrightarrow>
   \<exists>w'. fold (\<lambda>i. init_ring_header (x i) t r i) [0..<n] w a = init_ring_header (x j) t r j w' a"
proof (induction n)
  case (Suc n)
  then show ?case
  proof (cases "j = n")
    case False
    then have "j < n" "a < 4 + 32 * n" using Suc.prems by simp_all
    with Suc show ?thesis by (simp add: init_header_frame)
  qed auto
qed simp

lemma headers_before: "a < 4 \<Longrightarrow> fold (\<lambda>i. init_ring_header (x i) t r i) [0..<n] w a = w a"
  by (induction n) (simp_all add: init_header_frame)

lemma header_fields:
  fixes x :: "nat \<Rightarrow> u32" and t r :: u32 and w :: "nat \<Rightarrow> u32"
  assumes "j < n"
  defines "w' \<equiv> fold (\<lambda>i. init_ring_header (x i) t r i) [0..<n] w"
  shows "w' (hd_txbuf_size j) = t" "w' (hd_rxbuf_size j) = r" "w' (hd_txbuf_rdptr j) = 0" "w' (hd_txbuf_wrptr j) = 0"
    "w' (hd_rxbuf_rdptr j) = 0" "w' (hd_rxbuf_wrptr j) = 0"
proof -
  have at: "\<exists>v. w' (4 + 32 * j + d) = init_ring_header (x j) t r j v (4 + 32 * j + d)" if "d < 32" for d
    unfolding w'_def using headers_written[OF assms(1), of "4 + 32 * j + d"] that by simp
  show "w' (hd_txbuf_size j) = t" "w' (hd_rxbuf_size j) = r" "w' (hd_txbuf_rdptr j) = 0" "w' (hd_txbuf_wrptr j) = 0"
    "w' (hd_rxbuf_rdptr j) = 0" "w' (hd_rxbuf_wrptr j) = 0"
    using at[of 4] at[of 20] at[of 8] at[of 12] at[of 24] at[of 28] by (auto simp: init_ring_header_def)
qed

text \<open>
  C18. The client finds the host's rings. When the host has laid out the block, with sizes that do not overflow, the client
  reads the same number of rings and the same block size from it, its ring \<open>i\<close> is the host's ring \<open>i\<close> with the two
  directions exchanged, and every ring is empty in both; all buffers lie behind the header and inside the block, and no
  two of them overlap.
\<close>

theorem client_mirrors_host:
  fixes w :: "nat \<Rightarrow> u32" and m m' :: sbuf_mgr
  assumes "fits bufnum t r" and "header_size bufnum + (unat t + unat r) * unat bufnum \<le> length b" and "addr \<noteq> 0" "debug \<noteq> 0"
    and "\<not> sipc_smem_request_resource res (ipc st) < 0" "\<not> sipc_smem_request_resource res' (ipc st') < 0"
  defines "mh \<equiv> fst (snd (sbuf_host_init addr (Some (w, b)) True res bufnum t r m st))"
  defines "mc \<equiv> fst (snd (sbuf_client_init True debug (words mh, bytes mh) True True res' m' st'))"
  shows "fst (sbuf_host_init addr (Some (w, b)) True res bufnum t r m st) = 0 \<and>
    fst (sbuf_client_init True debug (words mh, bytes mh) True True res' m' st') = 0 \<and>
    ringnr mc = bufnum \<and> smem_size mc = smem_size mh \<and> unat (smem_size mh) \<le> length (bytes mh) \<and>
    (\<forall>i<unat bufnum. \<exists>rh rc. get_ring i mh = Some rh \<and> get_ring i mc = Some rc \<and> mirrors rh rc \<and>
       tx_stream rh mh = [] \<and> rx_stream rh mh = [] \<and> header_size bufnum \<le> txbuf_virt rh \<and>
       txbuf_virt rh + unat t = rxbuf_virt rh \<and> rxbuf_virt rh + unat r \<le> unat (smem_size mh) \<and>
       (\<forall>j rj. i < j \<longrightarrow> get_ring j mh = Some rj \<longrightarrow> rxbuf_virt rh + unat r \<le> txbuf_virt rj))"
proof -
  let ?n = "unat bufnum"
  define w' where "w' = fold (\<lambda>i. init_ring_header (addr - smem_base st + dst_smem_base st + of_nat (header_size bufnum) + (t + r) * of_nat i)
    t r i) [0..<?n] (w(0 := bufnum))"
  have host: "fst (sbuf_host_init addr (Some (w, b)) True res bufnum t r m st) = 0"
      "words mh = w'" "bytes mh = b" "smem_size mh = of_nat (header_size bufnum) + (t + r) * bufnum"
      "rings mh = map (\<lambda>i. sbuf_pms_init ((host_ring bufnum t r i)\<lparr>poll_mask := POLL_OUT\<rparr>)) [0..<?n]"
    using assms(3,5) by (simp_all add: mh_def sbuf_host_init_def Let_def sbuf_comm_init_def w'_def comp_def)
  have n: "0 < ?n" using assms(1) by (simp add: fits_def)
  have w0: "w' 0 = bufnum" unfolding w'_def by (simp add: headers_before)
  note hf = header_fields[where x = "\<lambda>i. addr - smem_base st + dst_smem_base st + of_nat (header_size bufnum) + (t + r) * of_nat i"
      and w = "w(0 := bufnum)" and t = t and r = r and n = ?n, folded w'_def]
  have client: "fst (sbuf_client_init True debug (words mh, bytes mh) True True res' m' st') = 0"
      "ringnr mc = bufnum" "smem_size mc = smem_size mh"
      "rings mc = map (\<lambda>i. sbuf_pms_init ((client_ring bufnum r t w' i)\<lparr>poll_mask := POLL_OUT\<rparr>)) [0..<?n]"
    using assms(4,6) hf(1,2)[OF n] w0
    by (simp_all add: mc_def host sbuf_client_init_def Let_def sbuf_comm_init_def sbuf_log_def comp_def add.commute)
  have size: "unat (smem_size mh) = header_size bufnum + (unat t + unat r) * ?n"
  proof -
    have "smem_size mh = of_nat (header_size bufnum + (unat t + unat r) * ?n)" by (simp add: host(4))
    then show ?thesis using assms(1) by (simp only: fits_def unat_small)
  qed
  have each: "\<exists>rh rc. get_ring i mh = Some rh \<and> get_ring i mc = Some rc \<and> mirrors rh rc \<and>
       tx_stream rh mh = [] \<and> rx_stream rh mh = [] \<and> header_size bufnum \<le> txbuf_virt rh \<and>
       txbuf_virt rh + unat t = rxbuf_virt rh \<and> rxbuf_virt rh + unat r \<le> unat (smem_size mh) \<and>
       (\<forall>j rj. i < j \<longrightarrow> get_ring j mh = Some rj \<longrightarrow> rxbuf_virt rh + unat r \<le> txbuf_virt rj)" if i: "i < ?n" for i
  proof -
    define rh where "rh = sbuf_pms_init ((host_ring bufnum t r i)\<lparr>poll_mask := POLL_OUT\<rparr>)"
    define rc where "rc = sbuf_pms_init ((client_ring bufnum r t w' i)\<lparr>poll_mask := POLL_OUT\<rparr>)"
    have g: "get_ring i mh = Some rh" "get_ring i mc = Some rc" using i by (simp_all add: get_ring_def host client rh_def rc_def)
    have off: "unat ((t + r) * of_nat j) = (unat t + unat r) * j" if "j \<le> ?n" for j by (rule fits_offset [OF assms(1) that])
    have mir: "mirrors rh rc"
      using hf[OF i] by (simp add: mirrors_def rh_def rc_def host_ring_def client_ring_def sbuf_pms_init_def Let_def add.commute)
    have empty: "tx_stream rh mh = []" "rx_stream rh mh = []"
      using hf[OF i] by (simp_all add: rh_def host_ring_def sbuf_pms_init_def Let_def tx_stream_def rx_stream_def stream_def
        tx_wt_def tx_rd_def rx_wt_def rx_rd_def host)
    have pos: "txbuf_virt rh = header_size bufnum + (unat t + unat r) * i" "rxbuf_virt rh = txbuf_virt rh + unat t"
      using off[of i] i by (simp_all add: rh_def host_ring_def sbuf_pms_init_def Let_def)
    have next': "(unat t + unat r) * i + unat t + unat r \<le> (unat t + unat r) * j" if "i < j" for j
      using mult_le_mono2[of "Suc i" j "unat t + unat r"] that by simp
    have later: "rxbuf_virt rh + unat r \<le> txbuf_virt rj" if "i < j" "get_ring j mh = Some rj" for j rj
    proof -
      have "j < ?n" "rj = sbuf_pms_init ((host_ring bufnum t r j)\<lparr>poll_mask := POLL_OUT\<rparr>)"
        using that(2) by (auto simp: get_ring_def host split: if_splits)
      then have "txbuf_virt rj = header_size bufnum + (unat t + unat r) * j"
        using off[of j] by (simp add: host_ring_def sbuf_pms_init_def Let_def)
      with next'[OF that(1)] show ?thesis by (simp add: pos)
    qed
    have "rxbuf_virt rh + unat r \<le> unat (smem_size mh)" using next'[of ?n] i by (simp add: pos size)
    with g mir empty pos later show ?thesis by auto
  qed
  show ?thesis using host client size each assms(2) by auto
qed

text \<open>Two rings of 8 and 16 bytes each way, laid out in a block of 116 bytes.\<close>

theorem client_mirrors_host_witness:
  "\<exists>mh mc. fst (snd (sbuf_host_init 64 (Some (\<lambda>_. 0, replicate 116 0)) True 0 2 8 16 ex_mgr (ex_sys False ex_mgr))) = mh \<and>
     fst (snd (sbuf_client_init True 64 (words mh, bytes mh) True True 0 ex_mgr (ex_sys True ex_mgr))) = mc \<and>
     (\<exists>rh rc. get_ring 1 mh = Some rh \<and> get_ring 1 mc = Some rc \<and> mirrors rh rc)"
proof -
  have p: "fits 2 8 16" "header_size 2 + (unat (8::u32) + unat (16::u32)) * unat (2::u32) \<le> length (replicate 116 (0::u8))"
    "(64::u32) \<noteq> 0" "\<not> sipc_smem_request_resource 0 (ipc (ex_sys False ex_mgr)) < 0"
    "\<not> sipc_smem_request_resource 0 (ipc (ex_sys True ex_mgr)) < 0" "1 < unat (2::u32)"
    by (simp_all add: fits_def ex_local)
  show ?thesis
    using client_mirrors_host[OF p(1,2,3,3,4,5), where w = "\<lambda>_. 0" and m = ex_mgr and m' = ex_mgr] p(6) by blast
qed

section \<open>From one side to the other\<close>

lemma mirrors_streams:
  assumes "mirrors r r'" "words m' = words m" "bytes m' = bytes m"
  shows "rx_stream r' m' = tx_stream r m" "rx_sane r' m' = tx_sane r m" "rx_wt r' m' = tx_wt r m" "rx_rd r' m' = tx_rd r m"
  using assms by (simp_all add: mirrors_def rx_stream_def tx_stream_def rx_sane_def tx_sane_def rx_wt_def rx_rd_def tx_wt_def tx_rd_def)

text \<open>
  C11. What one side writes the other reads, on a ring whose size is a power of two below 2^31. With the ring of the
  reader mirroring that of the writer in the same memory, a write that fits is accepted whole, and a read of everything
  there gives the bytes that were under way and then those written, unchanged and in order; nothing is left. The counters
  may stand anywhere, no further apart than the ring is long, and wrap around. The size is a condition on the
  configuration that the code does not check: for other sizes the positions jump when a counter wraps. Both sides are
  ready, their shared memory can be requested, the buffer lies inside the memory, and the two calls do not interleave.
\<close>

theorem stream_crosses:
  assumes "usable c i res r m st" "usable c i res' r' m' st'" "mirrors r r'" and "tx_sane r m"
    and "length (tx_stream r m) + length data \<le> unat (tx_size (header_op r))" "0 < length data"
  shows "\<exists>st1 m1. sbuf_write True res wait (\<lambda>_. False) (\<lambda>_ st. st) c i data (of_nat (length data)) timeout st =
      Some (int (length data), st1) \<and> mgr st1 = Some m1 \<and>
    (\<exists>st2 m2. sbuf_read True res' wait' (\<lambda>_. False) (\<lambda>_ st. st) c i (of_nat (length (tx_stream r m) + length data)) timeout'
        (st'\<lparr>mgr := Some (m'\<lparr>words := words m1, bytes := bytes m1\<rparr>)\<rparr>) =
      Some (int (length (tx_stream r m) + length data), tx_stream r m @ data, st2) \<and>
      mgr st2 = Some m2 \<and> rx_stream r' m2 = [])"
proof -
  let ?u = "unat (tx_wt r m - tx_rd r m)" and ?l = "length data"
  from assms(4) obtain k where k: "unat (tx_size (header_op r)) = 2 ^ k" "(2::nat) ^ k < 2147483648"
    unfolding tx_sane_def by (auto elim: ring_saneE)
  have u: "length (tx_stream r m) = ?u" by (simp add: tx_stream_def)
  have l: "?u + ?l \<le> 2 ^ k" "?u + ?l < 2147483648" using assms(5) k u by linarith+
  have ul: "unat (of_nat ?l :: u32) = ?l" "unat (of_nat (?u + ?l) :: u32) = ?u + ?l"
    by (rule unat_small, use l(2) in linarith)+
  have room: "?u < unat (tx_size (header_op r))" "0 < unat (of_nat ?l :: u32)" "unat (of_nat ?l :: u32) \<le> length data"
      "unat (of_nat ?l :: u32) < 2147483648"
    using l k(1) assms(6) ul(1) by linarith+
  have min: "min (unat (tx_size (header_op r)) - ?u) (unat (of_nat ?l :: u32)) = ?l" unfolding ul(1) k(1) using l(1) by linarith
  obtain st1 m1 q where w: "sbuf_write True res wait (\<lambda>_. False) (\<lambda>_ st. st) c i data (of_nat ?l) timeout st = Some (int ?l, st1)"
      "mgr st1 = Some m1" "tx_sane r m1" "tx_stream r m1 = tx_stream r m @ data"
    using write_call[OF assms(1,4) room, of wait timeout] unfolding min by auto
  define mr where "mr = m'\<lparr>words := words m1, bytes := bytes m1\<rparr>"
  define sr where "sr = st'\<lparr>mgr := Some mr\<rparr>"
  have mr: "words mr = words m1" "bytes mr = bytes m1" by (simp_all add: mr_def)
  note x = mirrors_streams[OF assms(3) mr]
  have "get_ring i mr = get_ring i m'" "sbuf_state mr = sbuf_state m'" by (simp_all add: mr_def get_ring_def)
  then have us: "usable c i res' r' mr sr" using assms(2) by (simp add: usable_def sr_def)
  have n: "unat (tx_wt r m1 - tx_rd r m1) = ?u + ?l"
    using arg_cong[OF w(4), of length] u by (simp add: tx_stream_def)
  then have ne: "rx_wt r' mr \<noteq> rx_rd r' mr" unfolding x using assms(6) by auto
  have len: "0 < unat (of_nat (?u + ?l) :: u32)" "unat (of_nat (?u + ?l) :: u32) < 2147483648"
    unfolding ul(2) using assms(6) l(2) by linarith+
  have all: "take (?u + ?l) (tx_stream r m @ data) = tx_stream r m @ data" "drop (?u + ?l) (tx_stream r m @ data) = []"
    using u by simp_all
  obtain st2 m2 where "sbuf_read True res' wait' (\<lambda>_. False) (\<lambda>_ st. st) c i (of_nat (?u + ?l)) timeout' sr =
      Some (int (?u + ?l), tx_stream r m @ data, st2)" "mgr st2 = Some m2" "rx_stream r' m2 = []"
    using read_call[OF us _ ne len, of wait' timeout'] w(3) unfolding n ul(2) x w(4) by (auto simp only: min.idem all)
  with w(1,2) show ?thesis unfolding u sr_def mr_def by blast
qed

lemma wrap_mirrors: "mirrors (rings (wrap_mgr False wt) ! 0) (rings (wrap_mgr True wt) ! 0)"
  by (simp add: mirrors_def wrap_mgr_def host_ring_def client_ring_def wrap_words_def)

lemma wrap_empty: "tx_stream (rings (wrap_mgr False 0xFFFFFFFD) ! 0) (wrap_mgr False 0xFFFFFFFD) = []"
  by (simp add: tx_stream_def stream_def wrap_ring)

theorem stream_crosses_witness:
  "\<exists>st1 m1 st2. sbuf_write True (\<lambda>_. 0) (\<lambda>st. (0, st)) (\<lambda>_. False) (\<lambda>_ st. st) 0 0 [1, 2, 3, 4, 5] 5 0 (ex_sys False (wrap_mgr False 0xFFFFFFFD)) =
      Some (5, st1) \<and> mgr st1 = Some m1 \<and>
     sbuf_read True (\<lambda>_. 0) (\<lambda>st. (0, st)) (\<lambda>_. False) (\<lambda>_ st. st) 0 0 5 0
       ((ex_sys True (wrap_mgr True 0xFFFFFFFD))\<lparr>mgr := Some ((wrap_mgr True 0xFFFFFFFD)\<lparr>words := words m1, bytes := bytes m1\<rparr>)\<rparr>) =
      Some (5, [1, 2, 3, 4, 5], st2)"
proof -
  have p: "length (tx_stream (rings (wrap_mgr False 0xFFFFFFFD) ! 0) (wrap_mgr False 0xFFFFFFFD)) + length [1, 2, 3, 4, 5 :: u8]
      \<le> unat (tx_size (header_op (rings (wrap_mgr False 0xFFFFFFFD) ! 0)))" "0 < length [1, 2, 3, 4, 5 :: u8]"
    by (simp_all add: wrap_empty wrap_ring)
  have ws: "tx_sane (rings (wrap_mgr False 0xFFFFFFFD) ! 0) (wrap_mgr False 0xFFFFFFFD)" by (rule wrap_sane) simp
  have n: "int (length [1, 2, 3, 4, 5 :: u8]) = 5" "(of_nat (length [1, 2, 3, 4, 5 :: u8]) :: u32) = 5"
    "length (tx_stream (rings (wrap_mgr False 0xFFFFFFFD) ! 0) (wrap_mgr False 0xFFFFFFFD)) + length [1, 2, 3, 4, 5 :: u8] = length [1, 2, 3, 4, 5 :: u8]"
    by (simp_all add: wrap_empty)
  show ?thesis
    using stream_crosses[OF wrap_usable wrap_usable wrap_mirrors ws p, of "\<lambda>st. (0, st)" 0 "\<lambda>st. (0, st)" 0]
    unfolding n wrap_empty by auto
qed

section \<open>Counters that are not sane\<close>

lemma sint_neg:
  assumes "2147483648 \<le> unat (x::u32)"
  shows "sint x < 0"
proof (rule ccontr)
  assume "\<not> sint x < 0"
  moreover have "sint x < 2147483648" using sint_lt[of x] by simp
  ultimately have "uint x = sint x" unfolding uint_sint by (simp add: take_bit_int_eq_self)
  moreover have "uint x = int (unat x)" by simp
  ultimately show False using assms \<open>sint x < 2147483648\<close> by linarith
qed

text \<open>
  C36. A read trusts the write counter of the other side. When it is further ahead than the ring is large, the overrun is
  only logged: a \<open>sbuf_read\<close> that asks for exactly the distance returns all of it, and what it hands out after the end of the ring is taken from the
  start of the buffer on, past its end into the memory behind it. When the distance is negative as a signed number, the
  read copies a negative number of bytes.
\<close>

theorem sbuf_read_overruns:
  assumes u: "usable c i res r m st" and d: "rx_wt r m \<noteq> rx_rd r m" "0 < unat len" "unat len < 2147483648"
    and sz: "0 < unat (rx_size (header_op r))" "rx_wt_p (header_op r) \<noteq> rx_rd_p (header_op r)"
  defines "n \<equiv> unat (rx_wt r m - rx_rd r m)" and "sz \<equiv> unat (rx_size (header_op r))"
  defines "pos \<equiv> unat (rx_rd r m) mod sz" and "v \<equiv> rxbuf_virt r"
  shows "(2147483648 \<le> n \<longrightarrow> sbuf_read True res wait (\<lambda>_. False) (\<lambda>_ st. st) c i len timeout st = None) \<and>
    (sz < n \<and> n = unat len \<and> v + sz \<le> length (bytes m) \<and> v + pos + n - sz \<le> length (bytes m) \<longrightarrow>
      (\<exists>st'. sbuf_read True res wait (\<lambda>_. False) (\<lambda>_ st. st) c i len timeout st =
        Some (int n, take (sz - pos) (drop (v + pos) (bytes m)) @ take (pos + n - sz) (drop v (bytes m)), st')))"
proof -
  obtain st1 q k s where rd: "sbuf_read True res wait (\<lambda>_. False) (\<lambda>_ st. st) c i len timeout st =
      Option.bind (read_loop (res 2) (\<lambda>_. False) (\<lambda>_ st. st) i [] 0 (int (unat len)) k st1)
        (\<lambda>(rval, left, out, st). Option.bind (mgr st) (\<lambda>m. map_option (\<lambda>r::sbuf_ring.
          (if len = of_int left then rval else sint (len - of_int left), out, s r m st)) (get_ring i m)))"
      "mgr st1 = Some (update_rx_mask i m)" "get_ring i (update_rx_mask i m) = Some (r\<lparr>poll_mask := q\<rparr>)"
    using read_start[OF u d] by blast
  have g: "get_ring i m = Some r" "sbuf_state m = SBUF_STATE_READY" using u by (simp_all add: usable_def)
  note um = update_rx_mask(2-4)[OF g(1)]
  note cong = rx_cong[OF um(1,2)]
  have nz: "rx_size (header_op r) \<noteq> 0" using sz(1) by auto
  have p: "unat (rx_rd r m mod rx_size (header_op r)) = pos" by (simp add: unat_mod pos_def sz_def)
  have l: "int (unat len) \<noteq> 0" using d(2) by linarith
  let ?x = "min (sint (rx_wt r m - rx_rd r m)) (int (unat len))"
  have "read_loop (res 2) (\<lambda>_. False) (\<lambda>_ st. st) i [] 0 (int (unat len)) k st1 = None"
    if "copy_out v (rx_size (header_op r)) (v + pos) ?x (bytes m) = None"
    using that rd(2,3) nz l d(1) g(2) um by (subst read_loop.simps) (simp add: Let_def cong p v_def)
  moreover have "copy_out v (rx_size (header_op r)) (v + pos) ?x (bytes m) = None" if "2147483648 \<le> n"
  proof -
    have "sint (rx_wt r m - rx_rd r m) < 0" using that unfolding n_def by (rule sint_neg)
    then have "?x < 0" by (simp add: min_less_iff_disj)
    then show ?thesis by (simp add: copy_out_def)
  qed
  ultimately have neg: "2147483648 \<le> n \<longrightarrow> sbuf_read True res wait (\<lambda>_. False) (\<lambda>_ st. st) c i len timeout st = None"
    using rd(1) by simp
  have "\<exists>st'. sbuf_read True res wait (\<lambda>_. False) (\<lambda>_ st. st) c i len timeout st =
        Some (int n, take (sz - pos) (drop (v + pos) (bytes m)) @ take (pos + n - sz) (drop v (bytes m)), st')"
    if h: "sz < n" "n = unat len" "v + sz \<le> length (bytes m)" "v + pos + n - sz \<le> length (bytes m)"
  proof -
    define out where "out = take (sz - pos) (drop (v + pos) (bytes m)) @ take (pos + n - sz) (drop v (bytes m))"
    have posl: "pos < sz" using assms(5) by (simp add: pos_def sz_def)
    have "(of_nat n :: u32) = rx_wt r m - rx_rd r m" by (simp add: n_def)
    then have si: "sint (rx_wt r m - rx_rd r m) = int n" using sint_nat[of n] d(3) h(2) by metis
    have x: "?x = int n" unfolding si h(2) [symmetric] by (rule min.idem)
    have tail: "int (v + pos) + int n - int (v + unat (rx_size (header_op r))) = int (pos + n - sz)"
      using posl h(1) unfolding sz_def by linarith
    have parts: "int n - int (pos + n - sz) = int (sz - pos)" "\<not> int n < int (pos + n - sz)" "0 < int (pos + n - sz)"
      using posl h(1) by linarith+
    have fit: "v + pos + (sz - pos) \<le> length (bytes m)" "v + (pos + n - sz) \<le> length (bytes m)" using posl h(1,3,4) by linarith+
    have co: "copy_out v (rx_size (header_op r)) (v + pos) (int n) (bytes m) = Some out"
      unfolding copy_out_def Let_def tail parts(1) nat_int using parts(2,3) fit by (simp only: if_False if_True out_def) simp
    have wt: "rx_rd r m + of_nat n = rx_wt r m" by (simp add: n_def)
    define mu where "mu = update_rx_mask i m"
    define m2 where "m2 = mu\<lparr>words := (words m)(rx_rd_p (header_op r) := rx_rd r m + of_nat n)\<rparr>"
    have end': "rx_wt r m2 = rx_rd r m2" using sz(2) wt um(1) by (simp add: m2_def mu_def rx_wt_def rx_rd_def)
    have "rings m2 = rings (update_rx_mask i m)" by (simp add: m2_def mu_def)
    then have m2: "get_ring i m2 = Some (r\<lparr>poll_mask := q\<rparr>)" using rd(3) by (simp only: get_ring_def)
    have ll: "int (unat len) = int n" using h(2) by simp
    define s2 where "s2 = (if rx_wt r m2 - rx_rd r m2 = rx_size (header_op r) - of_nat n
        then snd (smsg_send (res 2) (smsg_set (sbuf_channel m2) SMSG_TYPE_EVENT SMSG_EVENT_SBUF_RDPTR (of_nat i)) (ipc st1)) else ipc st1)"
    have fs: "st1\<lparr>ipc := ipc st1\<rparr> = st1" by simp
    have "read_loop (res 2) (\<lambda>_. False) (\<lambda>_ st. st) i [] 0 (int n) k st1 =
        read_loop (res 2) (\<lambda>_. False) (\<lambda>_ st. st) i out (Suc 0) 0 k (set_mgr m2 (st1\<lparr>ipc := s2\<rparr>))"
      using rd(2,3)[folded mu_def] nz l d(1) g(2) um[folded mu_def] co x fs unfolding ll
      by (subst read_loop.simps) (simp add: Let_def cong[folded mu_def] p v_def m2_def [symmetric] s2_def)
    also have "\<dots> = Some (k, 0, out, set_mgr m2 (st1\<lparr>ipc := s2\<rparr>))"
      using m2 by (subst read_loop.simps) (simp add: Let_def)
    finally have "sbuf_read True res wait (\<lambda>_. False) (\<lambda>_ st. st) c i len timeout st =
        Some (int n, out, s (r\<lparr>poll_mask := q\<rparr>) m2 (set_mgr m2 (st1\<lparr>ipc := s2\<rparr>)))"
      using rd(1) m2 count_result[OF d(3), of n] d(2) h(2) by (simp add: ll)
    then show ?thesis unfolding out_def by blast
  qed
  with neg show ?thesis by blast
qed

text \<open>Of the 12 bytes of this read, the last is the first byte of the buffer for the other direction.\<close>

theorem sbuf_read_overruns_witness:
  "\<exists>st'. sbuf_read True (\<lambda>_. 0) (\<lambda>st. (0, st)) (\<lambda>_. False) (\<lambda>_ st. st) 0 0 12 0 (ex_sys True (wrap_mgr True 9)) =
     Some (12, [41, 42, 43, 36, 37, 38, 39, 40, 41, 42, 43, 44], st')"
proof -
  let ?r = "rings (wrap_mgr True 9) ! 0" and ?m = "wrap_mgr True 9"
  have f: "rx_size (header_op ?r) = 8" "rx_wt ?r ?m = 9" "rx_rd ?r ?m = 0xFFFFFFFD" "rxbuf_virt ?r = 36"
      "rx_wt_p (header_op ?r) \<noteq> rx_rd_p (header_op ?r)" "bytes ?m = map of_nat [0..<52]"
    by (simp_all add: wrap_mgr_def client_ring_def wrap_words_def rx_wt_def rx_rd_def)
  have b: "take 3 (drop 41 (map of_nat [0..<52])) @ take 9 (drop 36 (map of_nat [0..<52])) =
      ([41, 42, 43, 36, 37, 38, 39, 40, 41, 42, 43, 44] :: u8 list)"
    by (simp add: upt_rec)
  have p: "rx_wt ?r ?m \<noteq> rx_rd ?r ?m" "0 < unat (12::u32)" "unat (12::u32) < 2147483648" "0 < unat (rx_size (header_op ?r))"
    by (simp_all add: f)
  show ?thesis
    using sbuf_read_overruns[OF wrap_usable[of True 9] p f(5), of "\<lambda>st. (0, st)" 0] unfolding f by (simp add: b)
qed

end
