(* ===== verification/SipaConn.thy ===== *)
theory SipaConn
  imports SipaProbe SmsgProps
begin

text \<open>
  The message layer below SIPA: its probe, \<^verbatim>\<open>sipc/sipc.c\<close> (without device tree), and the thread that shakes hands with
  the modem over it, \<^verbatim>\<open>sipa/sipa_dele_cmn.c\<close>. \<open>ipcs\<close> is the array of the message layers by processor; an entry that is
  not registered is a null pointer. With one property: which processor the acknowledgements go to.
\<close>

section \<open>Probing the message layer\<close>

abbreviation (input) SIPC_ID_AP :: u8 where "SIPC_ID_AP \<equiv> 0"
abbreviation (input) SIPC_ID_MINIAP :: u8 where "SIPC_ID_MINIAP \<equiv> 1"

text \<open>The destination, and the fields of the message layer that the configuration sets.\<close>

definition sipc_parse_dt :: "smsg_ipc \<Rightarrow> int \<times> u8 \<times> smsg_ipc" where
  "sipc_parse_dt s =
     (let s = s\<lparr>ipc_type := SIPC_BASE_PCIE, ipc_smem_type := SMEM_LOCAL\<rparr> in
      if \<not> ipc_client s \<and> ipc_smem_type s \<noteq> SMEM_LOCAL then (- EINVAL, 1, s)
      else if ipc_client s \<and> ipc_smem_type s \<noteq> SMEM_PCIE then (- EINVAL, 1, s)
      else (0, 1, s))"

definition fresh_ipc :: smsg_ipc where
  "fresh_ipc = \<lparr>registered = False, ipc_client = False, ipc_type = SIPC_BASE_MBOX, ipc_smem_type = SMEM_LOCAL,
     write_addr = 0, txbuf_addr = 0, txbuf_size = 0, txbuf_rdptr = 0, txbuf_wrptr = 0,
     rxbuf_addr = 0, rxbuf_size = 0, rxbuf_rdptr = 0, rxbuf_wrptr = 0, ring_base = 0, ring_size = 0,
     smsg_channels = replicate SMSG_VALID_CH_NR None, busy = replicate SMSG_VALID_CH_NR 0,
     states = replicate SMSG_VALID_CH_NR 0, page = (\<lambda>_. 0), wakeup_flag = 0, debug_enable = False, smsg_calls = []\<rparr>"

text \<open>\<open>mem\<close> says whether the structure is allocated; the other arguments go to \<open>smsg_ipc_create\<close>.\<close>

definition sipc_probe ::
    "bool \<Rightarrow> int \<Rightarrow> u32 \<Rightarrow> bool \<Rightarrow> (u8 \<Rightarrow> smsg_ipc) \<Rightarrow> (int \<times> (u8 \<Rightarrow> smsg_ipc)) option" where
  "sipc_probe mem ret base mapped ipcs =
     (if \<not> mem then Some (- ENOMEM, ipcs)
      else
        let (r, dst, s) = sipc_parse_dt fresh_ipc in
        if r \<noteq> 0 then Some (- ENODEV, ipcs)
        else map_option (\<lambda>s. (0, ipcs(dst := s))) (smsg_ipc_create ret base mapped False (\<lambda>_ s. s) s))"

section \<open>The handshake with the modem\<close>

abbreviation (input) SMSG_FLG_DELE_REQUEST :: u16 where "SMSG_FLG_DELE_REQUEST \<equiv> 1"

definition on_ipc :: "u8 \<Rightarrow> (smsg_ipc \<Rightarrow> smsg_ipc) \<Rightarrow> (u8 \<Rightarrow> smsg_ipc) \<Rightarrow> u8 \<Rightarrow> smsg_ipc" where
  "on_ipc d f ipcs = ipcs(d := f (ipcs d))"

definition sipa_dele_start_req_work :: "int \<Rightarrow> (u8 \<Rightarrow> smsg_ipc) \<Rightarrow> int \<times> (u8 \<Rightarrow> smsg_ipc)" where
  "sipa_dele_start_req_work res ipcs =
     (let msg = smsg_set SMSG_CH_COMM_SIPA SMSG_TYPE_CMD SMSG_FLG_DELE_REQUEST 0;
          (r, s) = smsg_send res msg (ipcs SIPC_ID_MINIAP) in
      (r, ipcs(SIPC_ID_MINIAP := s)))"

text \<open>Asking until the request is sent; \<open>timeout\<close> starts at 500, \<open>res\<close> gives the results of the power manager.\<close>

fun request_loop :: "(nat \<Rightarrow> int) \<Rightarrow> nat \<Rightarrow> (u8 \<Rightarrow> smsg_ipc) \<Rightarrow> u8 \<Rightarrow> smsg_ipc" where
  "request_loop res timeout ipcs =
     (let (r, ipcs) = sipa_dele_start_req_work (res timeout) ipcs in
      if r = 0 then ipcs else case timeout of 0 \<Rightarrow> ipcs | Suc n \<Rightarrow> request_loop res n ipcs)"

text \<open>
  One message in the loop of \<open>conn_thread\<close>. The result of mapping the registers is ignored, as in the source.
\<close>

definition conn_thread_msg ::
    "'h mmio \<Rightarrow> u64 option \<Rightarrow> int \<Rightarrow> smsg \<Rightarrow> 'h sipa_core \<times> (u8 \<Rightarrow> smsg_ipc) \<Rightarrow> ('h sipa_core \<times> (u8 \<Rightarrow> smsg_ipc)) option" where
  "conn_thread_msg m virt_reg_addr res msg = (\<lambda>(s, ipcs).
     if msg_type msg = SMSG_TYPE_OPEN then Some (s, on_ipc SIPC_ID_AP (smsg_open_ack res SMSG_CH_COMM_SIPA) ipcs)
     else if msg_type msg = SMSG_TYPE_CLOSE then Some (s, on_ipc SIPC_ID_AP (smsg_close_ack res SMSG_CH_COMM_SIPA) ipcs)
     else if msg_type msg = SMSG_TYPE_DONE then
       map_option (\<lambda>s. (s\<lparr>remote_ready := True\<rparr>, ipcs))
         (sipa_nic_check_flow_ctrl
           (sipa_sender_open_cmn_fifo m
             (sipa_receiver_open_cmn_fifo m (snd (sipa_init_cmn_fifo_reg_addr virt_reg_addr s)))))
     else Some (s, ipcs))"

text \<open>One round of the loop: \<open>wait\<close> is the wait of \<open>smsg_recv\<close>. A channel that is free is tried again later.\<close>

definition conn_thread_round ::
    "'h mmio \<Rightarrow> u64 option \<Rightarrow> int \<Rightarrow> (smsg_ipc \<Rightarrow> int \<times> smsg_ipc) \<Rightarrow> 'h sipa_core \<times> (u8 \<Rightarrow> smsg_ipc) \<Rightarrow>
     ('h sipa_core \<times> (u8 \<Rightarrow> smsg_ipc)) option" where
  "conn_thread_round m virt_reg_addr res wait = (\<lambda>(s, ipcs). do {
     (ret, mrecv, c) \<leftarrow> smsg_recv True wait (smsg_set SMSG_CH_COMM_SIPA 0 0 0) (- 1) (ipcs SIPC_ID_MINIAP);
     let ipcs = ipcs(SIPC_ID_MINIAP := c);
     if ret = - EIO \<or> ret = - ENODEV then Some (s, ipcs) else conn_thread_msg m virt_reg_addr res mrecv (s, ipcs) })"

text \<open>The start of the thread, before its loop.\<close>

definition conn_thread_start ::
    "bool \<Rightarrow> int \<Rightarrow> (nat \<Rightarrow> int) \<Rightarrow> (nat \<Rightarrow> smsg_ipc \<Rightarrow> int \<times> smsg_ipc) \<Rightarrow> (u8 \<Rightarrow> smsg_ipc) \<Rightarrow> (int \<times> (u8 \<Rightarrow> smsg_ipc)) option" where
  "conn_thread_start mem res req wait ipcs = do {
     (ret, s) \<leftarrow> smsg_ch_open mem res (\<lambda>_. True) wait SMSG_CH_COMM_SIPA (- 1) (ipcs SIPC_ID_MINIAP);
     let ipcs = ipcs(SIPC_ID_MINIAP := s);
     Some (ret, if ret \<noteq> 0 then ipcs else request_loop req 500 ipcs) }"

section \<open>Where the acknowledgements go\<close>

lemma probe_registers:
  assumes "sipc_probe True ret base mapped ipcs = Some (0, ipcs')"
  shows "registered (ipcs' SIPC_ID_MINIAP)" "d \<noteq> SIPC_ID_MINIAP \<Longrightarrow> ipcs' d = ipcs d"
  using assms
  by (auto simp: sipc_probe_def sipc_parse_dt_def fresh_ipc_def smsg_ipc_create_def smsg_ipc_smem_init_def
    smsg_ipc_init_smsg_irq_callback_def ring_layout_def log_call_def Let_def split: if_splits)

lemma send_unregistered: "\<not> registered s \<Longrightarrow> snd (smsg_send res msg s) = s"
  by (simp add: smsg_send_def Let_def)

text \<open>
  C35. The acknowledgements of the handshake are lost. The probe registers one message layer, that of the modem's
  processor, over which the thread opens its channel and receives; when the modem sends an open or a close message on it,
  the thread acknowledges to another processor, which has no message layer: nothing at all is sent.
\<close>

theorem acks_are_lost:
  assumes "sipc_probe True ret base mapped ipcs = Some (0, ipcs')" and "\<not> registered (ipcs SIPC_ID_AP)"
    and "msg_type msg \<in> {SMSG_TYPE_OPEN, SMSG_TYPE_CLOSE}"
  shows "registered (ipcs' SIPC_ID_MINIAP) \<and> conn_thread_msg m virt res msg (s, ipcs') = Some (s, ipcs')"
proof -
  have "\<not> registered (ipcs' SIPC_ID_AP)" using probe_registers(2)[OF assms(1), of SIPC_ID_AP] assms(2) by simp
  then show ?thesis
    using assms(3) probe_registers(1)[OF assms(1)]
    by (auto simp: conn_thread_msg_def on_ipc_def smsg_open_ack_def smsg_close_ack_def send_unregistered)
qed

theorem acks_are_lost_witness:
  "\<exists>ipcs'. sipc_probe True 0 0x1000 True (\<lambda>_. fresh_ipc) = Some (0, ipcs') \<and>
     (\<forall>s. conn_thread_msg ram None 0 (open_msg SMSG_CH_COMM_SIPA) (s, ipcs') = Some (s, ipcs'))"
proof -
  obtain ipcs' where p: "sipc_probe True 0 0x1000 True (\<lambda>_. fresh_ipc) = Some (0, ipcs')"
    by (simp add: sipc_probe_def sipc_parse_dt_def fresh_ipc_def smsg_ipc_create_def smsg_ipc_smem_init_def
      smsg_ipc_init_smsg_irq_callback_def ring_layout_def log_call_def Let_def)
  have f: "\<not> registered fresh_ipc" "msg_type (open_msg SMSG_CH_COMM_SIPA) \<in> {SMSG_TYPE_OPEN, SMSG_TYPE_CLOSE}"
    by (simp_all add: fresh_ipc_def)
  from acks_are_lost[OF p f] p show ?thesis by blast
qed

end
