(* ===== verification/Sblock.thy ===== *)
theory Sblock
  imports Smsg
begin

text \<open>
  Blocks in shared memory, \<^verbatim>\<open>quectel_SRPD_PCIE/src/sipc/sblock.c\<close>: for each channel an area with a fixed number of blocks
  in either direction. Per direction there are two rings of block addresses: the pool of the free blocks, from which the
  sender takes and into which the receiver gives back, and the ring of the blocks that are sent. The host lays the area
  out, the client finds it with the two directions exchanged. An address is an offset into the area, a 32-bit number as
  in the rings; \<open>words\<close> gives the 32-bit word at an offset. The state is that of one destination and one channel, on a
  64-bit machine. As in \<open>Smsg\<close>, waiting, the power manager and the other side are parameters, and \<open>None\<close> stands for an
  access out of bounds or through a null pointer, or a division by zero.
\<close>

section \<open>State\<close>

abbreviation (input) SMSG_CMD_SBLOCK_INIT :: u16 where "SMSG_CMD_SBLOCK_INIT \<equiv> 1"
abbreviation (input) SMSG_DONE_SBLOCK_INIT :: u16 where "SMSG_DONE_SBLOCK_INIT \<equiv> 2"
abbreviation (input) SMSG_EVENT_SBLOCK_SEND :: u16 where "SMSG_EVENT_SBLOCK_SEND \<equiv> 1"
abbreviation (input) SMSG_EVENT_SBLOCK_RELEASE :: u16 where "SMSG_EVENT_SBLOCK_RELEASE \<equiv> 2"
abbreviation (input) SBLOCK_STATE_IDLE :: u32 where "SBLOCK_STATE_IDLE \<equiv> 0"
abbreviation (input) SBLOCK_STATE_READY :: u32 where "SBLOCK_STATE_READY \<equiv> 1"
abbreviation (input) SBLOCK_BLK_STATE_DONE :: int where "SBLOCK_BLK_STATE_DONE \<equiv> 0"
abbreviation (input) SBLOCK_BLK_STATE_PENDING :: int where "SBLOCK_BLK_STATE_PENDING \<equiv> 1"
abbreviation (input) SBLOCK_NOTIFY_GET :: int where "SBLOCK_NOTIFY_GET \<equiv> 1"
abbreviation (input) SBLOCK_NOTIFY_RECV :: int where "SBLOCK_NOTIFY_RECV \<equiv> 2"
abbreviation (input) SBLOCK_NOTIFY_OPEN :: int where "SBLOCK_NOTIFY_OPEN \<equiv> 8"
abbreviation (input) SBLOCK_NOTIFY_CLOSE :: int where "SBLOCK_NOTIFY_CLOSE \<equiv> 16"
abbreviation (input) SBLOCK_NOTIFY_OPEN_FAILED :: int where "SBLOCK_NOTIFY_OPEN_FAILED \<equiv> 32"
abbreviation (input) SBLOCK_ALIGN_BYTES :: u32 where "SBLOCK_ALIGN_BYTES \<equiv> 8"
abbreviation (input) EPROTO :: int where "EPROTO \<equiv> 71"
abbreviation (input) ENOTSUPP :: int where "ENOTSUPP \<equiv> 524"

record sblock =
  addr :: u32
  blk_length :: u32

record sblock_ring_header_op =
  tx_rd_p :: nat
  tx_wt_p :: nat
  rx_rd_p :: nat
  rx_wt_p :: nat
  tx_addr :: u32
  tx_count :: u32
  tx_size :: u32
  tx_blks :: u32
  rx_addr :: u32
  rx_count :: u32
  rx_size :: u32
  rx_blks :: u32

record sblock_header_op =
  ringhd_op :: sblock_ring_header_op
  poolhd_op :: sblock_ring_header_op

text \<open>\<open>header_op\<close> is \<open>None\<close> while its pointers are null.\<close>

record sblock_ring =
  header_op :: "sblock_header_op option"
  txblk_virt :: u32
  rxblk_virt :: u32
  r_txblks :: u32
  r_rxblks :: u32
  p_txblks :: u32
  p_rxblks :: u32
  poll_mask :: u32
  txrecord :: "int list"
  rxrecord :: "int list"
  yell :: int

record sblock_mgr =
  sblock_channel :: u8
  pre_cfg :: bool
  sblock_state :: u32
  mapped :: bool
  smem_addr :: u32
  smem_addr_debug :: u32
  smem_size :: u32
  dst_smem_addr :: u32
  stored_smem_addr :: u32
  txblksz :: u32
  rxblksz :: u32
  txblknum :: u32
  rxblknum :: u32
  ring :: sblock_ring
  thread_alive :: bool
  has_handler :: bool
  words :: "nat \<Rightarrow> u32"

datatype sblock_call =
    Notify int
  | Wake_get
  | Wake_recv
  | Release_tx
  | Release_rx
  | Stop_thread
  | Free_block u32 u32
  | Unmap_block
  | Kfree_txrecord
  | Kfree_rxrecord
  | Create_pms
  | Destroy_pms

record sblock_sys =
  ipc :: smsg_ipc
  mgr :: "sblock_mgr option"
  smem_base :: u32
  dst_smem_base :: u32
  sblock_calls :: "sblock_call list"

definition sblock_log :: "sblock_call \<Rightarrow> sblock_sys \<Rightarrow> sblock_sys" where
  "sblock_log c st = st\<lparr>sblock_calls := c # sblock_calls st\<rparr>"

definition set_sblock :: "sblock_mgr \<Rightarrow> sblock_sys \<Rightarrow> sblock_sys" where
  "set_sblock m st = st\<lparr>mgr := Some m\<rparr>"

definition set_word :: "nat \<Rightarrow> u32 \<Rightarrow> sblock_mgr \<Rightarrow> sblock_mgr" where
  "set_word a v m = m\<lparr>words := (words m)(a := v)\<rparr>"

definition sblock_set_state :: "u32 \<Rightarrow> sblock_sys \<Rightarrow> sblock_sys" where
  "sblock_set_state v st = st\<lparr>mgr := map_option (\<lambda>m. m\<lparr>sblock_state := v\<rparr>) (mgr st)\<rparr>"

definition sblock_set_ipc :: "smsg_ipc \<Rightarrow> sblock_sys \<Rightarrow> sblock_sys" where
  "sblock_set_ipc s st = st\<lparr>ipc := s\<rparr>"

text \<open>Releasing the memory does something only where it is remote.\<close>

definition release_smem :: "sblock_call \<Rightarrow> sblock_sys \<Rightarrow> sblock_sys" where
  "release_smem c st = (if ipc_smem_type (ipc st) \<noteq> SMEM_LOCAL then sblock_log c st else st)"

definition sblock_notify :: "int \<Rightarrow> sblock_sys \<Rightarrow> sblock_sys" where
  "sblock_notify ev st =
     (case mgr st of Some m \<Rightarrow> if has_handler m then sblock_log (Notify ev) st else st | None \<Rightarrow> st)"

definition sblock_poll :: "u32 \<Rightarrow> bool \<Rightarrow> sblock_mgr \<Rightarrow> sblock_mgr" where
  "sblock_poll bits on m =
     m\<lparr>ring := (ring m)\<lparr>poll_mask := (if on then poll_mask (ring m) OR bits else poll_mask (ring m) AND NOT bits)\<rparr>\<rparr>"

section \<open>Positions\<close>

definition sblock_get_index :: "u32 \<Rightarrow> u32 \<Rightarrow> u32 option" where
  "sblock_get_index x y = (if y = 0 then None else Some (x div y))"

definition sblock_get_ringpos :: "u32 \<Rightarrow> u32 \<Rightarrow> u32 option" where
  "sblock_get_ringpos x y =
     (if y \<noteq> 0 \<and> y AND (y - 1) = 0 then Some (x AND (y - 1)) else if y = 0 then None else Some (x mod y))"

text \<open>The entries of a ring are pairs of words, an address and a length.\<close>

definition blk_at :: "u32 \<Rightarrow> u32 \<Rightarrow> nat" where
  "blk_at base pos = unat base + 8 * unat pos"

definition put_blk :: "u32 \<Rightarrow> u32 \<Rightarrow> u32 \<Rightarrow> u32 \<Rightarrow> (nat \<Rightarrow> u32) \<Rightarrow> nat \<Rightarrow> u32" where
  "put_blk base pos a l w = w(blk_at base pos := a, blk_at base pos + 4 := l)"

definition set_record :: "u32 \<Rightarrow> int \<Rightarrow> int list \<Rightarrow> int list option" where
  "set_record i v xs = (if unat i < length xs then Some (xs[unat i := v]) else None)"

definition mark_tx :: "u32 \<Rightarrow> int \<Rightarrow> sblock_mgr \<Rightarrow> sblock_mgr option" where
  "mark_tx a v m = do {
     index \<leftarrow> sblock_get_index (a - txblk_virt (ring m)) (txblksz m);
     xs \<leftarrow> set_record index v (txrecord (ring m));
     Some (m\<lparr>ring := (ring m)\<lparr>txrecord := xs\<rparr>\<rparr>) }"

definition mark_rx :: "u32 \<Rightarrow> int \<Rightarrow> sblock_mgr \<Rightarrow> sblock_mgr option" where
  "mark_rx a v m = do {
     index \<leftarrow> sblock_get_index (a - rxblk_virt (ring m)) (rxblksz m);
     xs \<leftarrow> set_record index v (rxrecord (ring m));
     Some (m\<lparr>ring := (ring m)\<lparr>rxrecord := xs\<rparr>\<rparr>) }"

section \<open>Laying out the area\<close>

text \<open>A header is twelve words, \<open>b\<close> where it begins: the fields for sending, then those for receiving.\<close>

abbreviation (input) hd_txblk_addr :: "nat \<Rightarrow> nat" where "hd_txblk_addr b \<equiv> b"
abbreviation (input) hd_txblk_count :: "nat \<Rightarrow> nat" where "hd_txblk_count b \<equiv> b + 4"
abbreviation (input) hd_txblk_size :: "nat \<Rightarrow> nat" where "hd_txblk_size b \<equiv> b + 8"
abbreviation (input) hd_txblk_blks :: "nat \<Rightarrow> nat" where "hd_txblk_blks b \<equiv> b + 12"
abbreviation (input) hd_txblk_rdptr :: "nat \<Rightarrow> nat" where "hd_txblk_rdptr b \<equiv> b + 16"
abbreviation (input) hd_txblk_wrptr :: "nat \<Rightarrow> nat" where "hd_txblk_wrptr b \<equiv> b + 20"
abbreviation (input) hd_rxblk_addr :: "nat \<Rightarrow> nat" where "hd_rxblk_addr b \<equiv> b + 24"
abbreviation (input) hd_rxblk_count :: "nat \<Rightarrow> nat" where "hd_rxblk_count b \<equiv> b + 28"
abbreviation (input) hd_rxblk_size :: "nat \<Rightarrow> nat" where "hd_rxblk_size b \<equiv> b + 32"
abbreviation (input) hd_rxblk_blks :: "nat \<Rightarrow> nat" where "hd_rxblk_blks b \<equiv> b + 36"
abbreviation (input) hd_rxblk_rdptr :: "nat \<Rightarrow> nat" where "hd_rxblk_rdptr b \<equiv> b + 40"
abbreviation (input) hd_rxblk_wrptr :: "nat \<Rightarrow> nat" where "hd_rxblk_wrptr b \<equiv> b + 44"
abbreviation (input) ringhd :: nat where "ringhd \<equiv> 0"
abbreviation (input) poolhd :: nat where "poolhd \<equiv> 48"
abbreviation (input) sblock_hsize :: u32 where "sblock_hsize \<equiv> 96"

definition align_up :: "u32 \<Rightarrow> u32" where
  "align_up x = (x + (SBLOCK_ALIGN_BYTES - 1)) AND NOT (SBLOCK_ALIGN_BYTES - 1)"

definition sblock_smem_size :: "u32 \<Rightarrow> u32 \<Rightarrow> u32 \<Rightarrow> u32 \<Rightarrow> u32" where
  "sblock_smem_size txnum txsize rxnum rxsize =
     sblock_hsize + txnum * txsize + rxnum * rxsize + (txnum + rxnum) * 8 + (txnum + rxnum) * 8"

text \<open>The host writes both headers. \<open>stored\<close> is what addresses in the area are relative to.\<close>

definition init_ringhd :: "u32 \<Rightarrow> u32 \<Rightarrow> u32 \<Rightarrow> u32 \<Rightarrow> u32 \<Rightarrow> (nat \<Rightarrow> u32) \<Rightarrow> nat \<Rightarrow> u32" where
  "init_ringhd stored txnum txsize rxnum rxsize w =
     (let txa = stored + sblock_hsize; txb = txa + txnum * txsize + rxnum * rxsize in
      w(hd_txblk_addr ringhd := txa, hd_txblk_count ringhd := txnum, hd_txblk_size ringhd := txsize,
        hd_txblk_rdptr ringhd := 0, hd_txblk_wrptr ringhd := 0, hd_txblk_blks ringhd := txb,
        hd_rxblk_addr ringhd := txa + txnum * txsize, hd_rxblk_count ringhd := rxnum, hd_rxblk_size ringhd := rxsize,
        hd_rxblk_rdptr ringhd := 0, hd_rxblk_wrptr ringhd := 0, hd_rxblk_blks ringhd := txb + txnum * 8))"

definition init_poolhd :: "u32 \<Rightarrow> u32 \<Rightarrow> u32 \<Rightarrow> u32 \<Rightarrow> u32 \<Rightarrow> (nat \<Rightarrow> u32) \<Rightarrow> nat \<Rightarrow> u32" where
  "init_poolhd stored txnum txsize rxnum rxsize w =
     (let txb = w (hd_rxblk_blks ringhd) + rxnum * 8 in
      w(hd_txblk_addr poolhd := stored + sblock_hsize, hd_txblk_count poolhd := txnum, hd_txblk_size poolhd := txsize,
        hd_txblk_rdptr poolhd := 0, hd_txblk_wrptr poolhd := 0, hd_txblk_blks poolhd := txb,
        hd_rxblk_addr poolhd := w (hd_txblk_addr ringhd) + txnum * txsize, hd_rxblk_count poolhd := rxnum,
        hd_rxblk_size poolhd := rxsize, hd_rxblk_rdptr poolhd := 0, hd_rxblk_wrptr poolhd := 0,
        hd_rxblk_blks poolhd := txb + txnum * 8))"

text \<open>One round of the loops that fill a pool: \<open>base\<close> is where its entries lie, \<open>wt\<close> its write counter.\<close>

definition init_pool_entry :: "u32 \<Rightarrow> nat \<Rightarrow> u32 \<Rightarrow> u32 \<Rightarrow> nat \<Rightarrow> (nat \<Rightarrow> u32) \<Rightarrow> nat \<Rightarrow> u32" where
  "init_pool_entry base wt a sz i w =
     (let w = put_blk base (of_nat i) (a + of_nat i * sz) sz w in w(wt := w wt + 1))"

definition host_header_op :: "nat \<Rightarrow> (nat \<Rightarrow> u32) \<Rightarrow> sblock_ring_header_op" where
  "host_header_op b w =
     \<lparr>tx_rd_p = hd_txblk_rdptr b, tx_wt_p = hd_txblk_wrptr b, rx_rd_p = hd_rxblk_rdptr b, rx_wt_p = hd_rxblk_wrptr b,
      tx_addr = w (hd_txblk_addr b), tx_count = w (hd_txblk_count b), tx_size = w (hd_txblk_size b), tx_blks = w (hd_txblk_blks b),
      rx_addr = w (hd_rxblk_addr b), rx_count = w (hd_rxblk_count b), rx_size = w (hd_rxblk_size b), rx_blks = w (hd_rxblk_blks b)\<rparr>"

definition sblock_host_ring :: "u32 \<Rightarrow> (nat \<Rightarrow> u32) \<Rightarrow> sblock_ring \<Rightarrow> sblock_ring" where
  "sblock_host_ring stored w r =
     r\<lparr>txblk_virt := w (hd_txblk_addr ringhd) - stored, r_txblks := w (hd_txblk_blks ringhd) - stored,
       rxblk_virt := w (hd_rxblk_addr ringhd) - stored, r_rxblks := w (hd_rxblk_blks ringhd) - stored,
       p_txblks := w (hd_txblk_blks poolhd) - stored, p_rxblks := w (hd_rxblk_blks poolhd) - stored\<rparr>"

text \<open>
  \<open>base\<close> is the result of \<open>smem_alloc\<close>, \<open>block\<close> the memory that was mapped (\<open>None\<close> when mapping fails), \<open>txmem\<close> and \<open>rxmem\<close>
  say whether the two records are allocated, and \<open>res\<close> is the result of the request for the memory.
\<close>

definition sblock_host_init ::
    "u32 \<Rightarrow> (nat \<Rightarrow> u32) option \<Rightarrow> bool \<Rightarrow> bool \<Rightarrow> int \<Rightarrow> u32 \<Rightarrow> u32 \<Rightarrow> u32 \<Rightarrow> u32 \<Rightarrow> sblock_mgr \<Rightarrow> sblock_sys \<Rightarrow>
     int \<times> sblock_mgr \<times> sblock_sys" where
  "sblock_host_init base block txmem rxmem res txnum txsize rxnum rxsize m st =
     (let txsize = align_up txsize; rxsize = align_up rxsize;
          size = sblock_smem_size txnum txsize rxnum rxsize;
          m = m\<lparr>txblksz := txsize, rxblksz := rxsize, txblknum := txnum, rxblknum := rxnum, smem_size := size, smem_addr := base\<rparr> in
      if base = 0 then (- ENOMEM, m, st)
      else
        let stored = base - smem_base st + dst_smem_base st;
            m = m\<lparr>dst_smem_addr := stored, stored_smem_addr := stored\<rparr> in
        case block of
          None \<Rightarrow> (- ENOMEM, m, sblock_log (Free_block base size) st)
        | Some w \<Rightarrow>
            let failed = (\<lambda>st. sblock_log (Free_block base size) (sblock_log Unmap_block st)) in
            if \<not> txmem then (- ENOMEM, m, failed st)
            else if \<not> rxmem then (- ENOMEM, m, failed (sblock_log Kfree_txrecord st))
            else
              let rval = sipc_smem_request_resource res (ipc st) in
              if rval < 0 then (rval, m, failed (sblock_log Kfree_txrecord (sblock_log Kfree_rxrecord st)))
              else
                let w = init_poolhd stored txnum txsize rxnum rxsize (init_ringhd stored txnum txsize rxnum rxsize w);
                    r = sblock_host_ring stored w (ring m);
                    w = fold (init_pool_entry (p_txblks r) (hd_txblk_wrptr poolhd) (w (hd_txblk_addr poolhd)) txsize) [0..<unat txnum] w;
                    w = fold (init_pool_entry (p_rxblks r) (hd_rxblk_wrptr poolhd) (w (hd_rxblk_addr poolhd)) rxsize) [0..<unat rxnum] w;
                    r = r\<lparr>header_op := Some \<lparr>ringhd_op = host_header_op ringhd w, poolhd_op = host_header_op poolhd w\<rparr>,
                          txrecord := replicate (unat txnum) SBLOCK_BLK_STATE_DONE,
                          rxrecord := replicate (unat rxnum) SBLOCK_BLK_STATE_DONE, poll_mask := POLL_OUT\<rparr> in
                (0, m\<lparr>mapped := True, words := w, ring := r\<rparr>,
                 sblock_set_ipc (sipc_smem_release_resource Release_sipc_resource (ipc st)) st))"

text \<open>The client exchanges the two directions.\<close>

definition client_header_op :: "nat \<Rightarrow> (nat \<Rightarrow> u32) \<Rightarrow> sblock_ring_header_op" where
  "client_header_op b w =
     \<lparr>tx_rd_p = hd_rxblk_rdptr b, tx_wt_p = hd_rxblk_wrptr b, rx_rd_p = hd_txblk_rdptr b, rx_wt_p = hd_txblk_wrptr b,
      tx_addr = w (hd_rxblk_addr b), tx_count = w (hd_rxblk_count b), tx_size = w (hd_rxblk_size b), tx_blks = w (hd_rxblk_blks b),
      rx_addr = w (hd_txblk_addr b), rx_count = w (hd_txblk_count b), rx_size = w (hd_txblk_size b), rx_blks = w (hd_txblk_blks b)\<rparr>"

definition sblock_client_ring :: "u32 \<Rightarrow> (nat \<Rightarrow> u32) \<Rightarrow> sblock_ring \<Rightarrow> sblock_ring" where
  "sblock_client_ring stored w r =
     r\<lparr>header_op := Some \<lparr>ringhd_op = client_header_op ringhd w, poolhd_op = client_header_op poolhd w\<rparr>,
       txblk_virt := w (hd_rxblk_addr ringhd) - stored, rxblk_virt := w (hd_txblk_addr ringhd) - stored,
       r_txblks := w (hd_rxblk_blks ringhd) - stored, r_rxblks := w (hd_txblk_blks ringhd) - stored,
       p_txblks := w (hd_rxblk_blks poolhd) - stored, p_rxblks := w (hd_txblk_blks poolhd) - stored\<rparr>"

text \<open>
  \<open>head\<close> and \<open>ok\<close> say whether the header and then the area can be mapped, \<open>w\<close> is what they hold, \<open>debug\<close> the address of
  the memory the client allocates for itself; \<open>mapped\<close> stands for a mapping address that is not null. A failure path
  frees the record for sending and not that for receiving, and leaves the addresses as they are, as in the source.
\<close>

definition sblock_client_init ::
    "bool \<Rightarrow> u32 \<Rightarrow> (nat \<Rightarrow> u32) \<Rightarrow> bool \<Rightarrow> bool \<Rightarrow> bool \<Rightarrow> int \<Rightarrow> sblock_mgr \<Rightarrow> sblock_sys \<Rightarrow> int \<times> sblock_mgr \<times> sblock_sys" where
  "sblock_client_init head debug w ok txmem rxmem res m st =
     (if \<not> head then (- ENOMEM, m\<lparr>mapped := False\<rparr>, st)
      else
        let txnum = w (hd_rxblk_count ringhd); txsize = w (hd_rxblk_size ringhd);
            rxnum = w (hd_txblk_count ringhd); rxsize = w (hd_txblk_size ringhd);
            size = sblock_smem_size txnum txsize rxnum rxsize;
            m = m\<lparr>mapped := True, txblksz := txsize, rxblksz := rxsize, txblknum := txnum, rxblknum := rxnum, smem_size := size,
                  smem_addr_debug := debug\<rparr>;
            st = sblock_log Unmap_block st in
        if debug = 0 then (- ENOMEM, m, st)
        else
          let stored = smem_addr m; m = m\<lparr>stored_smem_addr := stored\<rparr>;
              failed = (\<lambda>st. sblock_log (Free_block debug size) (sblock_log Unmap_block st)) in
          if \<not> ok then (- ENOMEM, m\<lparr>mapped := False\<rparr>, sblock_log (Free_block debug size) st)
          else if \<not> txmem then (- ENOMEM, m, failed st)
          else
            let m = m\<lparr>ring := (ring m)\<lparr>txrecord := replicate (unat txnum) 0\<rparr>\<rparr> in
            if \<not> rxmem then (- ENOMEM, m, failed (sblock_log Kfree_txrecord st))
            else
              let m = m\<lparr>ring := (ring m)\<lparr>rxrecord := replicate (unat rxnum) 0\<rparr>\<rparr>;
                  rval = sipc_smem_request_resource res (ipc st) in
              if rval < 0 then (rval, m, failed (sblock_log Kfree_txrecord st))
              else
                (0, m\<lparr>words := w, ring := sblock_client_ring stored w (ring m)\<rparr>,
                 sblock_set_ipc (sipc_smem_release_resource Release_sipc_resource (ipc st)) st))"

section \<open>Waiting\<close>

text \<open>The counters, as this side sees them.\<close>

definition pool_rd :: "sblock_header_op \<Rightarrow> sblock_mgr \<Rightarrow> u32" where "pool_rd op m = words m (tx_rd_p (poolhd_op op))"
definition pool_wt :: "sblock_header_op \<Rightarrow> sblock_mgr \<Rightarrow> u32" where "pool_wt op m = words m (tx_wt_p (poolhd_op op))"
definition recv_rd :: "sblock_header_op \<Rightarrow> sblock_mgr \<Rightarrow> u32" where "recv_rd op m = words m (rx_rd_p (ringhd_op op))"
definition recv_wt :: "sblock_header_op \<Rightarrow> sblock_mgr \<Rightarrow> u32" where "recv_wt op m = words m (rx_wt_p (ringhd_op op))"

definition sblock_has_data :: "bool \<Rightarrow> sblock_sys \<Rightarrow> bool option" where
  "sblock_has_data tx st = do {
     m \<leftarrow> mgr st;
     if ipc_smem_type (ipc st) = SMEM_LOCAL then do {
       op \<leftarrow> header_op (ring m);
       Some (if tx then pool_rd op m \<noteq> pool_wt op m else recv_wt op m \<noteq> recv_rd op m) }
     else Some (poll_mask (ring m) AND (if tx then POLL_OUT else POLL_IN) \<noteq> 0) }"

text \<open>
  What ends a wait. For a block to send, waiting without a timeout also ends when the channel goes down; with a timeout the
  code compares the pointer to the channel, not its state. For a block to receive the state is not looked at.
\<close>

definition get_wait_cond :: "int \<Rightarrow> sblock_sys \<Rightarrow> bool option" where
  "get_wait_cond timeout st = do {
     d \<leftarrow> sblock_has_data True st;
     m \<leftarrow> mgr st;
     Some (d \<or> timeout < 0 \<and> sblock_state m = SBLOCK_STATE_IDLE) }"

definition receive_wait_cond :: "sblock_sys \<Rightarrow> bool option" where
  "receive_wait_cond st = sblock_has_data False st"

text \<open>
  \<open>wait cond\<close> is \<open>wait_event_interruptible\<close>, or its variant with a timeout, for the condition \<open>cond\<close>: what the rest of
  the system does meanwhile, and the result.
\<close>

type_synonym sblock_wait = "(sblock_sys \<Rightarrow> bool option) \<Rightarrow> sblock_sys \<Rightarrow> int \<times> sblock_sys"

definition sblock_wait_data :: "(sblock_sys \<Rightarrow> bool option) \<Rightarrow> int \<Rightarrow> sblock_wait \<Rightarrow> sblock_sys \<Rightarrow> (int \<times> sblock_sys) option" where
  "sblock_wait_data cond timeout wait st =
     (if timeout = 0 then Some (- ENODATA, st)
      else
        let (rval, st) = wait cond st in
        case mgr st of
          None \<Rightarrow> None
        | Some m \<Rightarrow>
            let rval = (if 0 < timeout \<and> rval = 0 then - ETIME else rval);
                rval = (if sblock_state m = SBLOCK_STATE_IDLE then - EIO else rval) in
            Some (rval, st))"

section \<open>Blocks for sending\<close>

text \<open>Taking the first block of the pool. The whole entry is trusted.\<close>

definition get_block :: "int \<Rightarrow> sblock \<Rightarrow> sblock_sys \<Rightarrow> (int \<times> sblock \<times> sblock_sys) option" where
  "get_block rval blk st = do {
     m \<leftarrow> mgr st;
     op \<leftarrow> header_op (ring m);
     if pool_rd op m \<noteq> pool_wt op m \<and> sblock_state m = SBLOCK_STATE_READY then do {
       txpos \<leftarrow> sblock_get_ringpos (pool_rd op m) (tx_count (poolhd_op op));
       let a = words m (blk_at (p_txblks (ring m)) txpos) - stored_smem_addr m;
       let m = set_word (tx_rd_p (poolhd_op op)) (pool_rd op m + 1) m;
       m \<leftarrow> mark_tx a SBLOCK_BLK_STATE_PENDING m;
       Some (rval, \<lparr>addr = a, blk_length = tx_size (poolhd_op op)\<rparr>, set_sblock m st) }
     else Some (if sblock_state m = SBLOCK_STATE_READY then - EAGAIN else - EIO, blk, release_smem Release_tx st) }"

definition sblock_get ::
    "(nat \<Rightarrow> int) \<Rightarrow> sblock_wait \<Rightarrow> u8 \<Rightarrow> sblock \<Rightarrow> int \<Rightarrow> sblock_sys \<Rightarrow> (int \<times> sblock \<times> sblock_sys) option" where
  "sblock_get res wait c blk timeout st =
     (if channel2index c = INVALID_CHANEL_INDEX then Some (- EINVAL, blk, st)
      else case mgr st of
        None \<Rightarrow> Some (- ENODEV, blk, st)
      | Some m \<Rightarrow>
          if sblock_state m \<noteq> SBLOCK_STATE_READY then Some (- EIO, blk, st)
          else do {
            op \<leftarrow> header_op (ring m);
            let rval = sipc_smem_request_resource (res 0) (ipc st);
            if rval < 0 then Some (rval, blk, st)
            else do {
              let no_data = (pool_rd op m = pool_wt op m);
              let st = release_smem Release_tx (set_sblock (sblock_poll POLL_OUT (\<not> no_data) m) st);
              (rval, st) \<leftarrow> (if no_data then sblock_wait_data (get_wait_cond timeout) timeout wait st else Some (rval, st));
              if rval < 0 then Some (rval, blk, st)
              else do {
                let rval = sipc_smem_request_resource (res 1) (ipc st);
                if rval < 0 then Some (rval, blk, st)
                else do {
                  (rval, blk, st) \<leftarrow> get_block rval blk st;
                  m \<leftarrow> mgr st;
                  op \<leftarrow> header_op (ring m);
                  Some (rval, blk, set_sblock (sblock_poll POLL_OUT (pool_wt op m \<noteq> pool_rd op m) m) st) } } } })"

text \<open>Giving a block back unsent: it becomes the first of the pool again.\<close>

definition sblock_put :: "u8 \<Rightarrow> sblock \<Rightarrow> sblock_sys \<Rightarrow> sblock_sys option" where
  "sblock_put c blk st =
     (if channel2index c = INVALID_CHANEL_INDEX then Some st
      else case mgr st of
        None \<Rightarrow> Some st
      | Some m \<Rightarrow> do {
          op \<leftarrow> header_op (ring m);
          let rd = pool_rd op m - 1;
          txpos \<leftarrow> sblock_get_ringpos rd (tx_count (poolhd_op op));
          let m = m\<lparr>words := put_blk (p_txblks (ring m)) txpos (addr blk + stored_smem_addr m) (tx_size (poolhd_op op)) (words m)\<rparr>;
          let m = set_word (tx_rd_p (poolhd_op op)) rd m;
          let st = (if sint (pool_wt op m - pool_rd op m) = 1 then sblock_log Wake_get st else st);
          m \<leftarrow> mark_tx (addr blk) SBLOCK_BLK_STATE_DONE m;
          Some (release_smem Release_tx (set_sblock (sblock_poll POLL_OUT True m) st)) })"

text \<open>Sending a block; \<open>yll\<close> says whether the other side is told now. \<open>res\<close> is the power manager's result for the message.\<close>

definition sblock_send_ex :: "int \<Rightarrow> u8 \<Rightarrow> sblock \<Rightarrow> bool \<Rightarrow> sblock_sys \<Rightarrow> (int \<times> sblock_sys) option" where
  "sblock_send_ex res c blk yll st =
     (if channel2index c = INVALID_CHANEL_INDEX then Some (- EINVAL, st)
      else case mgr st of
        None \<Rightarrow> Some (- ENODEV, st)
      | Some m \<Rightarrow>
          if sblock_state m \<noteq> SBLOCK_STATE_READY then Some (- EIO, st)
          else do {
            op \<leftarrow> header_op (ring m);
            let wt = tx_wt_p (ringhd_op op);
            txpos \<leftarrow> sblock_get_ringpos (words m wt) (tx_count (ringhd_op op));
            let m = m\<lparr>words := put_blk (r_txblks (ring m)) txpos (addr blk + stored_smem_addr m) (blk_length blk) (words m)\<rparr>;
            let m = set_word wt (words m wt + 1) m;
            let m = (if \<not> yll \<and> yell (ring m) = 0 \<and> sint (words m wt - words m (tx_rd_p (ringhd_op op))) = 1
                     then m\<lparr>ring := (ring m)\<lparr>yell := 1\<rparr>\<rparr> else m);
            m \<leftarrow> mark_tx (addr blk) SBLOCK_BLK_STATE_DONE m;
            let st = release_smem Release_tx (set_sblock m st);
            Some (if yll then
                    let (rval, s) = smsg_send res (smsg_set c SMSG_TYPE_EVENT SMSG_EVENT_SBLOCK_SEND 0) (ipc st) in
                    (rval, sblock_set_ipc s st)
                  else (0, st)) })"

definition sblock_send :: "int \<Rightarrow> u8 \<Rightarrow> sblock \<Rightarrow> sblock_sys \<Rightarrow> (int \<times> sblock_sys) option" where
  "sblock_send res c blk st = sblock_send_ex res c blk True st"

definition sblock_send_prepare :: "int \<Rightarrow> u8 \<Rightarrow> sblock \<Rightarrow> sblock_sys \<Rightarrow> (int \<times> sblock_sys) option" where
  "sblock_send_prepare res c blk st = sblock_send_ex res c blk False st"

definition sblock_send_finish :: "(nat \<Rightarrow> int) \<Rightarrow> u8 \<Rightarrow> sblock_sys \<Rightarrow> (int \<times> sblock_sys) option" where
  "sblock_send_finish res c st =
     (if channel2index c = INVALID_CHANEL_INDEX then Some (- EINVAL, st)
      else case mgr st of
        None \<Rightarrow> Some (- ENODEV, st)
      | Some m \<Rightarrow>
          if sblock_state m \<noteq> SBLOCK_STATE_READY then Some (- EIO, st)
          else do {
            op \<leftarrow> header_op (ring m);
            let rval = sipc_smem_request_resource (res 0) (ipc st);
            if rval \<noteq> 0 then Some (rval, st)
            else
              let (rval, s) =
                    (if words m (tx_wt_p (ringhd_op op)) \<noteq> words m (tx_rd_p (ringhd_op op))
                     then smsg_send (res 1) (smsg_set c SMSG_TYPE_EVENT SMSG_EVENT_SBLOCK_SEND 0) (ipc st) else (rval, ipc st)) in
              Some (rval, release_smem Release_tx (sblock_set_ipc s st)) })"

section \<open>Blocks that arrive\<close>

definition receive_block :: "int \<Rightarrow> sblock \<Rightarrow> sblock_sys \<Rightarrow> (int \<times> sblock \<times> sblock_sys) option" where
  "receive_block rval blk st = do {
     m \<leftarrow> mgr st;
     op \<leftarrow> header_op (ring m);
     if recv_wt op m \<noteq> recv_rd op m \<and> sblock_state m = SBLOCK_STATE_READY then do {
       rxpos \<leftarrow> sblock_get_ringpos (recv_rd op m) (rx_count (ringhd_op op));
       let a = words m (blk_at (r_rxblks (ring m)) rxpos) - stored_smem_addr m;
       let l = words m (blk_at (r_rxblks (ring m)) rxpos + 4);
       let m = set_word (rx_rd_p (ringhd_op op)) (recv_rd op m + 1) m;
       m \<leftarrow> mark_rx a SBLOCK_BLK_STATE_PENDING m;
       Some (rval, \<lparr>addr = a, blk_length = l\<rparr>, set_sblock m st) }
     else Some (if sblock_state m = SBLOCK_STATE_READY then - EAGAIN else - EIO, blk, release_smem Release_rx st) }"

definition sblock_receive ::
    "(nat \<Rightarrow> int) \<Rightarrow> sblock_wait \<Rightarrow> u8 \<Rightarrow> sblock \<Rightarrow> int \<Rightarrow> sblock_sys \<Rightarrow> (int \<times> sblock \<times> sblock_sys) option" where
  "sblock_receive res wait c blk timeout st =
     (if channel2index c = INVALID_CHANEL_INDEX then Some (- EINVAL, blk, st)
      else case mgr st of
        None \<Rightarrow> Some (- ENODEV, blk, st)
      | Some m \<Rightarrow>
          if sblock_state m \<noteq> SBLOCK_STATE_READY then Some (- EIO, blk, st)
          else do {
            op \<leftarrow> header_op (ring m);
            let rval = sipc_smem_request_resource (res 0) (ipc st);
            if rval < 0 then Some (rval, blk, st)
            else do {
              let no_data = (recv_wt op m = recv_rd op m);
              let st = release_smem Release_rx (set_sblock (sblock_poll POLL_IN (\<not> no_data) m) st);
              (rval, st) \<leftarrow> (if no_data then sblock_wait_data receive_wait_cond timeout wait st else Some (rval, st));
              if rval < 0 then Some (rval, blk, st)
              else do {
                let rval = sipc_smem_request_resource (res 1) (ipc st);
                if rval < 0 then Some (rval, blk, st)
                else do {
                  (rval, blk, st) \<leftarrow> receive_block rval blk st;
                  m \<leftarrow> mgr st;
                  op \<leftarrow> header_op (ring m);
                  Some (rval, blk, set_sblock (sblock_poll POLL_IN (recv_wt op m \<noteq> recv_rd op m) m) st) } } } })"

definition sblock_release :: "int \<Rightarrow> u8 \<Rightarrow> sblock \<Rightarrow> sblock_sys \<Rightarrow> (int \<times> sblock_sys) option" where
  "sblock_release res c blk st =
     (if channel2index c = INVALID_CHANEL_INDEX then Some (- EINVAL, st)
      else case mgr st of
        None \<Rightarrow> Some (- ENODEV, st)
      | Some m \<Rightarrow>
          if sblock_state m \<noteq> SBLOCK_STATE_READY then Some (- ENODEV, st)
          else do {
            op \<leftarrow> header_op (ring m);
            let wt = rx_wt_p (poolhd_op op);
            rxpos \<leftarrow> sblock_get_ringpos (words m wt) (rx_count (poolhd_op op));
            let m = m\<lparr>words := put_blk (p_rxblks (ring m)) rxpos (addr blk + stored_smem_addr m) (rx_size (poolhd_op op)) (words m)\<rparr>;
            let m = set_word wt (words m wt + 1) m;
            let send_event = (sint (words m wt - words m (rx_rd_p (poolhd_op op))) = 1);
            m \<leftarrow> mark_rx (addr blk) SBLOCK_BLK_STATE_DONE m;
            let st = release_smem Release_rx (set_sblock m st);
            Some (0, if send_event
                     then sblock_set_ipc (snd (smsg_send res (smsg_set c SMSG_TYPE_EVENT SMSG_EVENT_SBLOCK_RELEASE 0) (ipc st))) st
                     else st) })"

section \<open>Counts and status\<close>

definition sblock_get_arrived_count :: "int \<Rightarrow> u8 \<Rightarrow> sblock_sys \<Rightarrow> (int \<times> sblock_sys) option" where
  "sblock_get_arrived_count res c st =
     (if channel2index c = INVALID_CHANEL_INDEX then Some (- EINVAL, st)
      else case mgr st of
        None \<Rightarrow> Some (- ENODEV, st)
      | Some m \<Rightarrow>
          if sblock_state m \<noteq> SBLOCK_STATE_READY then Some (- ENODEV, st)
          else do {
            op \<leftarrow> header_op (ring m);
            let rval = sipc_smem_request_resource res (ipc st);
            Some (if rval < 0 then (rval, st) else (sint (recv_wt op m - recv_rd op m), release_smem Release_rx st)) })"

definition sblock_get_free_count :: "int \<Rightarrow> u8 \<Rightarrow> sblock_sys \<Rightarrow> (int \<times> sblock_sys) option" where
  "sblock_get_free_count res c st =
     (if channel2index c = INVALID_CHANEL_INDEX then Some (- EINVAL, st)
      else case mgr st of
        None \<Rightarrow> Some (- ENODEV, st)
      | Some m \<Rightarrow>
          if sblock_state m \<noteq> SBLOCK_STATE_READY then Some (- ENODEV, st)
          else do {
            op \<leftarrow> header_op (ring m);
            let rval = sipc_smem_request_resource res (ipc st);
            Some (if rval < 0 then (rval, st) else (sint (pool_wt op m - pool_rd op m), release_smem Release_tx st)) })"

definition sblock_poll_wait :: "u8 \<Rightarrow> sblock_sys \<Rightarrow> u32 option" where
  "sblock_poll_wait c st =
     (if channel2index c = INVALID_CHANEL_INDEX then Some 0
      else case mgr st of
        None \<Rightarrow> Some 0
      | Some m \<Rightarrow>
          if sblock_state m \<noteq> SBLOCK_STATE_READY then Some 0
          else do {
            tx \<leftarrow> sblock_has_data True st;
            rx \<leftarrow> sblock_has_data False st;
            Some ((if tx then POLL_OUT else 0) OR (if rx then POLL_IN else 0)) })"

definition sblock_query :: "u8 \<Rightarrow> sblock_sys \<Rightarrow> int" where
  "sblock_query c st =
     (if channel2index c = INVALID_CHANEL_INDEX then - EINVAL
      else case mgr st of
        None \<Rightarrow> - ENODEV
      | Some m \<Rightarrow> if sblock_state m \<noteq> SBLOCK_STATE_READY then - EINVAL else 0)"

text \<open>\<open>paddr\<close> says whether the caller gave a place for the address.\<close>

definition sblock_get_smem_cp_addr :: "bool \<Rightarrow> u8 \<Rightarrow> sblock_sys \<Rightarrow> int + u32" where
  "sblock_get_smem_cp_addr paddr c st =
     (if \<not> paddr then Inl (- EINVAL)
      else if channel2index c = INVALID_CHANEL_INDEX then Inl (- ENODEV)
      else case mgr st of None \<Rightarrow> Inl (- ENODEV) | Some m \<Rightarrow> Inr (dst_smem_addr m))"

definition sblock_register_notifier :: "u8 \<Rightarrow> sblock_sys \<Rightarrow> int \<times> sblock_sys" where
  "sblock_register_notifier c st =
     (if channel2index c = INVALID_CHANEL_INDEX then (- EINVAL, st)
      else case mgr st of
        None \<Rightarrow> (- ENODEV, st)
      | Some m \<Rightarrow> if has_handler m then (- EBUSY, st) else (0, set_sblock (m\<lparr>has_handler := True\<rparr>) st))"

section \<open>Recovery\<close>

text \<open>
  The loop that refills a pool, over the indices that are left: every block that is not pending is written to the next
  entry, \<open>j\<close>, counted from the start of the ring, and the write counter at \<open>wt\<close> moves on. The blocks begin at \<open>a\<close>.
\<close>

fun refill :: "int list \<Rightarrow> u32 \<Rightarrow> nat \<Rightarrow> u32 \<Rightarrow> u32 \<Rightarrow> nat list \<Rightarrow> nat \<Rightarrow> (nat \<Rightarrow> u32) \<Rightarrow> (nat \<Rightarrow> u32) option" where
  "refill records base wt a sz [] j w = Some w"
| "refill records base wt a sz (i # is) j w =
     (if length records \<le> i then None
      else if records ! i = SBLOCK_BLK_STATE_DONE then
        let w = put_blk base (of_nat j) (of_nat i * sz + a) sz w in
        refill records base wt a sz is (Suc j) (w(wt := w wt + 1))
      else refill records base wt a sz is j w)"

definition sblock_recover :: "int \<Rightarrow> u8 \<Rightarrow> sblock_sys \<Rightarrow> (int \<times> sblock_sys) option" where
  "sblock_recover res c st =
     (if channel2index c = INVALID_CHANEL_INDEX then Some (- EINVAL, st)
      else case mgr st of
        None \<Rightarrow> Some (- ENODEV, st)
      | Some m \<Rightarrow> do {
          let m = m\<lparr>sblock_state := SBLOCK_STATE_IDLE\<rparr>;
          let st = sblock_log Wake_recv (sblock_log Wake_get (set_sblock m st));
          let rval = sipc_smem_request_resource res (ipc st);
          if rval < 0 then Some (rval, st)
          else do {
            op \<leftarrow> header_op (ring m);
            let r = ring m;
            let rop = ringhd_op op;
            let pop = poolhd_op op;
            let w = words m;
            let w = w(tx_wt_p rop := w (tx_rd_p rop));
            let w = w(tx_rd_p pop := w (tx_wt_p pop));
            w \<leftarrow> refill (txrecord r) (p_txblks r) (tx_wt_p pop) (tx_addr pop) (txblksz m) [0..<unat (tx_count pop)] 0 w;
            let w = w(rx_rd_p rop := w (rx_wt_p rop));
            let w = w(rx_wt_p pop := w (rx_rd_p pop));
            w \<leftarrow> refill (rxrecord r) (p_rxblks r) (rx_wt_p pop) (rx_addr pop) (rxblksz m) [0..<unat (rx_count pop)] 0 w;
            Some (0, release_smem Release_rx (set_sblock (sblock_poll POLL_OUT True (m\<lparr>words := w\<rparr>)) st)) } })"

section \<open>The thread of a channel\<close>

definition sblock_event :: "smsg \<Rightarrow> sblock_sys \<Rightarrow> sblock_sys option" where
  "sblock_event mrecv st = do {
     m \<leftarrow> mgr st;
     Some (
       if flag mrecv = SMSG_EVENT_SBLOCK_SEND then
         sblock_notify SBLOCK_NOTIFY_RECV (sblock_log Wake_recv (set_sblock (sblock_poll POLL_IN True m) st))
       else if flag mrecv = SMSG_EVENT_SBLOCK_RELEASE then
         sblock_notify SBLOCK_NOTIFY_GET (sblock_log Wake_get (set_sblock (sblock_poll POLL_OUT True m) st))
       else st) }"

text \<open>
  What the thread does with a message it received. The flag is its variable \<open>recovery\<close>: whether an open message is that of
  a side that starts again. \<open>res\<close> is the result of its requests to the power manager.
\<close>

definition sblock_thread_msg :: "int \<Rightarrow> smsg \<Rightarrow> bool \<Rightarrow> sblock_sys \<Rightarrow> (bool \<times> sblock_sys) option" where
  "sblock_thread_msg res mrecv recovery st = do {
     m \<leftarrow> mgr st;
     let c = sblock_channel m;
     if msg_type mrecv = SMSG_TYPE_OPEN then do {
       st \<leftarrow> (if recovery then map_option snd (sblock_recover res c (sblock_notify SBLOCK_NOTIFY_CLOSE st)) else Some st);
       let st = sblock_set_ipc (smsg_open_ack res c (ipc st)) st;
       Some (recovery, if pre_cfg m then sblock_set_state SBLOCK_STATE_READY st else st) }
     else if msg_type mrecv = SMSG_TYPE_CLOSE then
       let st = sblock_set_ipc (smsg_close_ack res c (ipc st)) st in
       Some (recovery, sblock_set_state SBLOCK_STATE_IDLE (sblock_notify SBLOCK_NOTIFY_CLOSE st))
     else if msg_type mrecv = SMSG_TYPE_CMD then
       if pre_cfg m then Some (recovery, st)
       else
         let mcmd = smsg_set c SMSG_TYPE_DONE SMSG_DONE_SBLOCK_INIT (dst_smem_addr m);
             st = sblock_set_ipc (snd (smsg_send res mcmd (ipc st))) st in
         Some (True, sblock_notify SBLOCK_NOTIFY_OPEN (sblock_set_state SBLOCK_STATE_READY st))
     else if msg_type mrecv = SMSG_TYPE_EVENT then map_option (\<lambda>st. (recovery, st)) (sblock_event mrecv st)
     else Some (recovery, st) }"

text \<open>One round of the thread's loop: \<open>wait\<close> is the wait of \<open>smsg_recv\<close>.\<close>

definition sblock_thread_round ::
    "int \<Rightarrow> (smsg_ipc \<Rightarrow> int \<times> smsg_ipc) \<Rightarrow> bool \<Rightarrow> sblock_sys \<Rightarrow> (bool \<times> sblock_sys) option" where
  "sblock_thread_round res wait recovery st = do {
     m \<leftarrow> mgr st;
     (rval, mrecv, s) \<leftarrow> smsg_recv True wait (smsg_set (sblock_channel m) 0 0 0) (- 1) (ipc st);
     let st = sblock_set_ipc s st;
     if rval = - EIO \<or> rval = - ENODEV then Some (recovery, st)
     else sblock_thread_msg res mrecv recovery st }"

text \<open>The client waits for the answer to its command.\<close>

partial_function (option) sblock_wait_done ::
    "(nat \<Rightarrow> smsg_ipc \<Rightarrow> int \<times> smsg_ipc) \<Rightarrow> u8 \<Rightarrow> nat \<Rightarrow> smsg_ipc \<Rightarrow> (int \<times> smsg \<times> smsg_ipc) option" where
  "sblock_wait_done wait c n s = do {
     (rval, mrecv, s) \<leftarrow> smsg_recv True (wait n) (smsg_set c 0 0 0) (- 1) s;
     if rval \<noteq> 0 \<or> msg_type mrecv = SMSG_TYPE_DONE \<and> flag mrecv = SMSG_DONE_SBLOCK_INIT then Some (rval, mrecv, s)
     else sblock_wait_done wait c (Suc n) s }"

text \<open>
  The start of the thread: opening the channel and, for a client, finding the area. \<open>init\<close> is \<open>sblock_client_init\<close> with
  what it is given. The result is the value the thread ends with, or the variable \<open>recovery\<close> with which its loop begins.
\<close>

definition sblock_thread_start ::
    "bool \<Rightarrow> int \<Rightarrow> (nat \<Rightarrow> smsg_ipc \<Rightarrow> int \<times> smsg_ipc) \<Rightarrow> (nat \<Rightarrow> smsg_ipc \<Rightarrow> int \<times> smsg_ipc) \<Rightarrow>
     (sblock_mgr \<Rightarrow> sblock_sys \<Rightarrow> int \<times> sblock_mgr \<times> sblock_sys) \<Rightarrow> sblock_sys \<Rightarrow> ((int + bool) \<times> sblock_sys) option" where
  "sblock_thread_start mem res wait wait' init st = do {
     m \<leftarrow> mgr st;
     let c = sblock_channel m;
     (rval, s) \<leftarrow> smsg_ch_open mem res (\<lambda>_. True) wait c (- 1) (ipc st);
     let st = sblock_set_ipc s st;
     if rval \<noteq> 0 then Some (Inl rval, if pre_cfg m then sblock_notify SBLOCK_NOTIFY_OPEN_FAILED st else st)
     else do {
       let st = (if pre_cfg m then sblock_notify SBLOCK_NOTIFY_OPEN (sblock_set_state SBLOCK_STATE_READY st) else st);
       if \<not> ipc_client s then Some (Inr (pre_cfg m), st)
       else do {
         let s = snd (smsg_send res (smsg_set c SMSG_TYPE_CMD SMSG_CMD_SBLOCK_INIT 0) s);
         (rval, mrecv, s) \<leftarrow> sblock_wait_done wait' c 0 s;
         let st = sblock_set_ipc s st;
         m \<leftarrow> mgr st;
         if rval \<noteq> 0 then Some (Inl rval, set_sblock (m\<lparr>thread_alive := False\<rparr>) st)
         else
           let (ret, m, st) = init (m\<lparr>smem_addr := msg_value mrecv\<rparr>) st in
           if ret \<noteq> 0 then Some (Inl 0, set_sblock (m\<lparr>thread_alive := False\<rparr>) st)
           else Some (Inr (pre_cfg m), sblock_notify SBLOCK_NOTIFY_OPEN (set_sblock (m\<lparr>sblock_state := SBLOCK_STATE_READY\<rparr>) st)) } } }"

section \<open>Creating and destroying\<close>

text \<open>\<open>mem1\<close> and \<open>mem2\<close> say whether the two structures are allocated, \<open>init\<close> is \<open>sblock_host_init\<close> with what it is given.\<close>

definition sblock_mgr_create ::
    "bool \<Rightarrow> bool \<Rightarrow> (sblock_mgr \<Rightarrow> sblock_sys \<Rightarrow> int \<times> sblock_mgr \<times> sblock_sys) \<Rightarrow> u8 \<Rightarrow> bool \<Rightarrow> sblock_sys \<Rightarrow>
     int \<times> sblock_mgr option \<times> sblock_sys" where
  "sblock_mgr_create mem1 mem2 init c pre st =
     (if \<not> registered (ipc st) then (- EINVAL, None, st)
      else if \<not> mem1 \<or> \<not> mem2 then (- ENOMEM, None, st)
      else
        let r = \<lparr>header_op = None, txblk_virt = 0, rxblk_virt = 0, r_txblks = 0, r_rxblks = 0, p_txblks = 0, p_rxblks = 0,
                 poll_mask = 0, txrecord = [], rxrecord = [], yell = 0\<rparr>;
            m = \<lparr>sblock_channel = c, pre_cfg = pre, sblock_state = SBLOCK_STATE_IDLE, mapped = False, smem_addr = 0,
                 smem_addr_debug = 0, smem_size = 0, dst_smem_addr = 0, stored_smem_addr = 0, txblksz = 0, rxblksz = 0,
                 txblknum = 0, rxblknum = 0, ring = r, thread_alive = False, has_handler = False, words = (\<lambda>_. 0)\<rparr>;
            (ret, m, st) = (if ipc_client (ipc st) then (0, m, st) else init m st) in
        if ret \<noteq> 0 then (ret, None, st) else (0, Some m, sblock_log Create_pms st))"

text \<open>What the two ways to create a channel do alike; \<open>thread\<close> is the result of \<open>kthread_create\<close>.\<close>

definition start_channel :: "int \<Rightarrow> int \<times> sblock_mgr option \<times> sblock_sys \<Rightarrow> int \<times> sblock_sys" where
  "start_channel thread = (\<lambda>(result, m, st).
     case m of
       None \<Rightarrow> (result, st)
     | Some m \<Rightarrow>
         if thread < 0 then
           (thread, if ipc_client (ipc st) then st
                    else sblock_log Kfree_rxrecord (sblock_log Kfree_txrecord
                           (sblock_log (Free_block (smem_addr m) (smem_size m)) (sblock_log Unmap_block st))))
         else (0, set_sblock (m\<lparr>thread_alive := True\<rparr>) st))"

definition sblock_destroy :: "int \<Rightarrow> u8 \<Rightarrow> sblock_sys \<Rightarrow> sblock_sys option" where
  "sblock_destroy res c st =
     (if channel2index c = INVALID_CHANEL_INDEX then Some st
      else case mgr st of
        None \<Rightarrow> Some st
      | Some m \<Rightarrow> do {
          let st = sblock_set_state SBLOCK_STATE_IDLE st;
          (_, s) \<leftarrow> smsg_ch_close res c (ipc st);
          let st = sblock_set_ipc s st;
          let st = (if thread_alive m then sblock_log Stop_thread st else st);
          let st = sblock_log Wake_get (sblock_log Wake_recv (sblock_log Destroy_pms st));
          let st = sblock_log Kfree_rxrecord (sblock_log Kfree_txrecord st);
          let st = (if mapped m then sblock_log Unmap_block st else st);
          let st = sblock_log (Free_block (if ipc_client s then smem_addr_debug m else smem_addr m) (smem_size m)) st;
          Some (st\<lparr>mgr := None\<rparr>) })"

text \<open>\<open>handler\<close> says whether the caller gave a handler and its data.\<close>

definition sblock_create_ex ::
    "bool \<Rightarrow> bool \<Rightarrow> (sblock_mgr \<Rightarrow> sblock_sys \<Rightarrow> int \<times> sblock_mgr \<times> sblock_sys) \<Rightarrow> int \<Rightarrow> int \<Rightarrow> u8 \<Rightarrow> bool \<Rightarrow> sblock_sys \<Rightarrow>
     (int \<times> sblock_sys) option" where
  "sblock_create_ex mem1 mem2 init thread res c handler st =
     (if channel2index c = INVALID_CHANEL_INDEX then Some (- EINVAL, st)
      else
        let (result, st) = start_channel thread (sblock_mgr_create mem1 mem2 init c False st) in
        if result \<noteq> 0 \<or> \<not> handler then Some (result, st)
        else
          let (result, st) = sblock_register_notifier c st in
          if result < 0 then map_option (\<lambda>st. (result, st)) (sblock_destroy res c st) else Some (result, st))"

definition sblock_create ::
    "bool \<Rightarrow> bool \<Rightarrow> (sblock_mgr \<Rightarrow> sblock_sys \<Rightarrow> int \<times> sblock_mgr \<times> sblock_sys) \<Rightarrow> int \<Rightarrow> int \<Rightarrow> u8 \<Rightarrow> sblock_sys \<Rightarrow>
     (int \<times> sblock_sys) option" where
  "sblock_create mem1 mem2 init thread res c st = sblock_create_ex mem1 mem2 init thread res c False st"

definition sblock_pcfg_create ::
    "bool \<Rightarrow> bool \<Rightarrow> (sblock_mgr \<Rightarrow> sblock_sys \<Rightarrow> int \<times> sblock_mgr \<times> sblock_sys) \<Rightarrow> int \<Rightarrow> u8 \<Rightarrow> sblock_sys \<Rightarrow> int \<times> sblock_sys" where
  "sblock_pcfg_create mem1 mem2 init thread c st =
     (if channel2index c = INVALID_CHANEL_INDEX then (- EINVAL, st)
      else start_channel thread (sblock_mgr_create mem1 mem2 init c True st))"

definition sblock_pcfg_open :: "bool \<Rightarrow> int \<Rightarrow> u8 \<Rightarrow> sblock_sys \<Rightarrow> int \<times> sblock_sys" where
  "sblock_pcfg_open notifier thread c st =
     (if \<not> notifier then (- EINVAL, st)
      else if channel2index c = INVALID_CHANEL_INDEX then (- ENODEV, st)
      else case mgr st of
        None \<Rightarrow> (- ENODEV, st)
      | Some m \<Rightarrow>
          if \<not> pre_cfg m then (- EINVAL, st)
          else if thread_alive m then (- EPROTO, st)
          else if thread < 0 then (- EBUSY, st)
          else (0, set_sblock (m\<lparr>thread_alive := True, has_handler := True\<rparr>) st))"

definition sblock_close :: "u8 \<Rightarrow> int" where
  "sblock_close c = - ENOTSUPP"

definition sblock_down :: "u8 \<Rightarrow> sblock_sys \<Rightarrow> sblock_sys" where
  "sblock_down c st =
     (if channel2index c = INVALID_CHANEL_INDEX then st
      else case mgr st of
        None \<Rightarrow> st
      | Some m \<Rightarrow> sblock_log Wake_get (sblock_log Wake_recv (set_sblock (m\<lparr>sblock_state := SBLOCK_STATE_IDLE\<rparr>) st)))"

end
