(* ===== verification/SblockProps.thy ===== *)
theory SblockProps
  imports Sblock Ring
begin

text \<open>
  Properties of the blocks: the list that a ring of the area holds and what each operation does to it, and the invariant
  of the two sides together: every block is in exactly one place, whatever the two sides do in whatever order.
\<close>

section \<open>A ring in memory\<close>

text \<open>Two counters and a number of entries, and where they lie.\<close>

record mring =
  rdp :: nat
  wtp :: nat
  mbase :: u32
  mcount :: u32

definition entries :: "(nat \<Rightarrow> u32) \<Rightarrow> nat \<Rightarrow> nat \<Rightarrow> (u32 \<times> u32) list" where
  "entries w b n = map (\<lambda>i. (w (b + 8 * i), w (b + 8 * i + 4))) [0..<n]"

definition view :: "mring \<Rightarrow> (nat \<Rightarrow> u32) \<Rightarrow> (u32 \<times> u32) list" where
  "view q w = ring_view (entries w (unat (mbase q)) (unat (mcount q))) (unat (w (rdp q))) (unat (w (wtp q) - w (rdp q)))"

definition cells :: "mring \<Rightarrow> nat set" where
  "cells q = {rdp q, wtp q} \<union> {unat (mbase q)..<unat (mbase q) + 8 * unat (mcount q)}"

definition mring_ok :: "mring \<Rightarrow> bool" where
  "mring_ok q \<longleftrightarrow> (\<exists>k<32. mcount q = 2 ^ k) \<and> rdp q \<noteq> wtp q \<and>
     rdp q \<notin> {unat (mbase q)..<unat (mbase q) + 8 * unat (mcount q)} \<and>
     wtp q \<notin> {unat (mbase q)..<unat (mbase q) + 8 * unat (mcount q)}"

lemma length_entries [simp]: "length (entries w b n) = n"
  by (simp add: entries_def)

lemma length_view: "length (view q w) = unat (w (wtp q) - w (rdp q))"
  by (simp add: view_def)

lemma entries_cong: "(\<And>a. b \<le> a \<Longrightarrow> a < b + 8 * n \<Longrightarrow> w' a = w a) \<Longrightarrow> entries w' b n = entries w b n"
  by (simp add: entries_def)

lemma view_cong:
  assumes "\<And>a. a \<in> cells q \<Longrightarrow> w' a = w a"
  shows "view q w' = view q w"
  using assms entries_cong[of "unat (mbase q)" "unat (mcount q)" w' w] by (simp add: view_def cells_def)

lemma entries_put:
  assumes "unat pos < n"
  shows "entries (put_blk b pos a l w) (unat b) n = (entries w (unat b) n)[unat pos := (a, l)]"
proof (rule nth_equalityI)
  fix i assume "i < length (entries (put_blk b pos a l w) (unat b) n)"
  then have i: "i < n" by simp
  have ne: "unat b + 8 * i + 4 \<noteq> unat b + 8 * unat pos" "unat b + 8 * i \<noteq> unat b + 8 * unat pos + 4" by presburger+
  show "entries (put_blk b pos a l w) (unat b) n ! i = (entries w (unat b) n)[unat pos := (a, l)] ! i"
    using i ne by (cases "i = unat pos") (auto simp: entries_def put_blk_def blk_at_def nth_list_update)
qed simp

lemma put_blk_other:
  assumes "unat pos < n" "x \<notin> {unat b..<unat b + 8 * n}"
  shows "put_blk b pos a l w x = w x"
  using assms by (auto simp: put_blk_def blk_at_def)

lemma ringpos_pow2:
  assumes "k < 32"
  shows "sblock_get_ringpos x (2 ^ k) = Some (x AND (2 ^ k - 1))"
proof -
  have "unat ((2::u32) ^ k AND (2 ^ k - 1)) = 0" using assms by (simp add: unat_and_pow2 unat_pow2)
  then have "(2::u32) ^ k AND (2 ^ k - 1) = 0" by (simp add: unsigned_eq_0_iff)
  moreover have "(2::u32) ^ k \<noteq> 0"
  proof
    assume "(2::u32) ^ k = 0"
    with unat_pow2[OF assms] have "(0::nat) = 2 ^ k" by (metis unsigned_0)
    then show False by simp
  qed
  ultimately show ?thesis by (simp add: sblock_get_ringpos_def)
qed

lemma mring_okE:
  assumes "mring_ok q"
  obtains k where "k < 32" "mcount q = 2 ^ k" "unat (mcount q) = 2 ^ k" "rdp q \<noteq> wtp q"
    "rdp q \<notin> {unat (mbase q)..<unat (mbase q) + 8 * 2 ^ k}" "wtp q \<notin> {unat (mbase q)..<unat (mbase q) + 8 * 2 ^ k}"
    "\<forall>x::u32. unat (x AND (2 ^ k - 1)) < (2::nat) ^ k"
proof -
  from assms obtain k where k: "k < 32" "mcount q = 2 ^ k" by (auto simp: mring_ok_def)
  then have "unat (mcount q) = 2 ^ k" by (simp only: unat_pow2)
  moreover have "\<forall>x::u32. unat (x AND (2 ^ k - 1)) < (2::nat) ^ k" using k(1) by (simp add: unat_and_pow2)
  ultimately show ?thesis using k assms by (intro that[of k]) (simp_all only: mring_ok_def simp_thms)
qed

text \<open>What is written at the write counter comes last, what is read at the read counter was first.\<close>

lemma view_push:
  assumes "mring_ok q" "length (view q w) < unat (mcount q)"
  obtains pos where "sblock_get_ringpos (w (wtp q)) (mcount q) = Some pos" "unat pos < unat (mcount q)"
    "put_blk (mbase q) pos a l w (wtp q) = w (wtp q)" "put_blk (mbase q) pos a l w (rdp q) = w (rdp q)"
    "view q ((put_blk (mbase q) pos a l w)(wtp q := w (wtp q) + 1)) = view q w @ [(a, l)]"
    "\<And>x. x \<notin> cells q \<Longrightarrow> ((put_blk (mbase q) pos a l w)(wtp q := w (wtp q) + 1)) x = w x"
proof -
  from assms(1) obtain k where k: "k < 32" "mcount q = 2 ^ k" "unat (mcount q) = 2 ^ k" "rdp q \<noteq> wtp q"
      "rdp q \<notin> {unat (mbase q)..<unat (mbase q) + 8 * 2 ^ k}" "wtp q \<notin> {unat (mbase q)..<unat (mbase q) + 8 * 2 ^ k}"
      "\<forall>x::u32. unat (x AND (2 ^ k - 1)) < (2::nat) ^ k" by (rule mring_okE)
  let ?pos = "w (wtp q) AND (2 ^ k - 1)" and ?r = "w (rdp q)" and ?w = "w (wtp q)" and ?b = "unat (mbase q)"
  let ?w' = "(put_blk (mbase q) ?pos a l w)(wtp q := ?w + 1)"
  have o: "put_blk (mbase q) ?pos a l w x = w x" if "x \<notin> {?b..<?b + 8 * 2 ^ k}" for x
    using put_blk_other[of _ "2 ^ k", OF k(7)[rule_format, of "w (wtp q)"] that] .
  have e: "entries ?w' ?b (2 ^ k) = (entries w ?b (2 ^ k))[unat ?pos := (a, l)]"
    using entries_put[OF k(7)[rule_format]] entries_cong[of ?b "2 ^ k" ?w' "put_blk (mbase q) ?pos a l w"] k(6) by force
  have lt: "unat (?w - ?r) < 2 ^ k" using assms(2) k(3) by (simp add: length_view)
  have "view q ?w' = ring_view ((entries w ?b (2 ^ k))[unat ?pos := (a, l)]) (unat ?r) (unat (?w + 1 - ?r))"
    using e k(3,4) o[OF k(5)] by (simp add: view_def)
  also have "\<dots> = view q w @ [(a, l)]"
    using counter_put(1)[OF k(1) length_entries lt] by (simp add: view_def k(3))
  finally show ?thesis
    using that[of ?pos] ringpos_pow2[OF k(1)] k o[OF k(5)] o[OF k(6)] o by (auto simp: cells_def)
qed

lemma view_pop:
  assumes "mring_ok q" "w (wtp q) \<noteq> w (rdp q)"
  obtains pos where "sblock_get_ringpos (w (rdp q)) (mcount q) = Some pos"
    "view q w = (w (blk_at (mbase q) pos), w (blk_at (mbase q) pos + 4)) # view q (w(rdp q := w (rdp q) + 1))"
proof -
  from assms(1) obtain k where k: "k < 32" "mcount q = 2 ^ k" "unat (mcount q) = 2 ^ k" "rdp q \<noteq> wtp q"
      "rdp q \<notin> {unat (mbase q)..<unat (mbase q) + 8 * 2 ^ k}" "wtp q \<notin> {unat (mbase q)..<unat (mbase q) + 8 * 2 ^ k}"
      "\<forall>x::u32. unat (x AND (2 ^ k - 1)) < (2::nat) ^ k" by (rule mring_okE)
  let ?pos = "w (rdp q) AND (2 ^ k - 1)" and ?b = "unat (mbase q)"
  have e: "entries (w(rdp q := w (rdp q) + 1)) ?b (2 ^ k) = entries w ?b (2 ^ k)"
    using entries_cong[of ?b "2 ^ k" "w(rdp q := w (rdp q) + 1)" w] k(5) by force
  have n: "entries w ?b (2 ^ k) ! unat ?pos = (w (blk_at (mbase q) ?pos), w (blk_at (mbase q) ?pos + 4))"
    using k(7)[rule_format, of "w (rdp q)"] by (simp add: entries_def blk_at_def)
  have "view q w = (w (blk_at (mbase q) ?pos), w (blk_at (mbase q) ?pos + 4)) # view q (w(rdp q := w (rdp q) + 1))"
    using counter_get(1)[OF k(1) _ assms(2), of "entries w ?b (2 ^ k)"] n e k(3,4) by (simp add: view_def)
  then show ?thesis using that[of ?pos] ringpos_pow2[OF k(1)] k(2) by simp
qed

text \<open>What is written in front of the read counter comes first.\<close>

lemma counter_unget:
  fixes r w :: u32
  assumes "k < 32" "length a = 2 ^ k" "unat (w - r) < 2 ^ k"
  shows "ring_view (a[unat ((r - 1) AND (2 ^ k - 1)) := x]) (unat (r - 1)) (unat (w - (r - 1))) = x # ring_view a (unat r) (unat (w - r))"
proof -
  let ?p = "unat ((r - 1) AND (2 ^ k - 1))" and ?n = "unat (w - r)"
  have p: "?p = unat (r - 1) mod 2 ^ k" using assms(1) by (simp add: unat_and_pow2)
  then have pl: "?p < length a" using assms(2) by simp
  have "(2::nat) ^ k < 2 ^ 32" using assms(1) by (intro power_strict_increasing) simp_all
  then have lt: "?n + 1 < 4294967296" using assms(3) by simp
  have ne: "w \<noteq> r - 1"
  proof
    assume "w = r - 1"
    then have "w - r = - 1" by simp
    moreover have "unat (- 1 :: u32) = 4294967295" by (simp add: unsigned_minus_1_eq_mask mask_eq_exp_minus_1)
    ultimately show False using lt by simp
  qed
  let ?a = "a[?p := x]"
  have "ring_view ?a (unat (r - 1)) (unat (w - (r - 1))) = ?a ! ?p # ring_view ?a (unat r) ?n"
    using counter_get(1)[OF assms(1), of ?a w "r - 1"] assms(2) ne by simp
  moreover have "ring_view ?a (unat r) ?n = ring_view a (unat r) ?n"
  proof -
    have "(unat r + i) mod 2 ^ k \<noteq> ?p" if "i < ?n" for i
    proof
      assume "(unat r + i) mod 2 ^ k = ?p"
      moreover have "unat r mod 2 ^ k = Suc (unat (r - 1)) mod 2 ^ k" using unat_add_mod[of k "r - 1" 1] assms(1) by simp
      then have "(unat r + i) mod 2 ^ k = (unat (r - 1) + Suc i) mod 2 ^ k"
        by (metis add_Suc_right add_Suc mod_add_left_eq)
      ultimately have "(unat (r - 1) + Suc i) mod 2 ^ k = (unat (r - 1) + 0) mod 2 ^ k" using p by simp
      then show False using ring_pos_inj[of "unat (r - 1)" "Suc i" "2 ^ k" 0] that assms(3) by simp
    qed
    then have "\<forall>i<?n. ?p \<noteq> (unat r + i) mod 2 ^ k" by metis
    then show ?thesis using assms(2) by (auto simp: ring_view_def)
  qed
  ultimately show ?thesis using pl by simp
qed

lemma view_unpop:
  assumes "mring_ok q" "length (view q w) < unat (mcount q)"
  obtains pos where "sblock_get_ringpos (w (rdp q) - 1) (mcount q) = Some pos"
    "put_blk (mbase q) pos a l w (wtp q) = w (wtp q)" "put_blk (mbase q) pos a l w (rdp q) = w (rdp q)"
    "view q ((put_blk (mbase q) pos a l w)(rdp q := w (rdp q) - 1)) = (a, l) # view q w"
    "\<And>x. x \<notin> cells q \<Longrightarrow> ((put_blk (mbase q) pos a l w)(rdp q := w (rdp q) - 1)) x = w x"
proof -
  from assms(1) obtain k where k: "k < 32" "mcount q = 2 ^ k" "unat (mcount q) = 2 ^ k" "rdp q \<noteq> wtp q"
      "rdp q \<notin> {unat (mbase q)..<unat (mbase q) + 8 * 2 ^ k}" "wtp q \<notin> {unat (mbase q)..<unat (mbase q) + 8 * 2 ^ k}"
      "\<forall>x::u32. unat (x AND (2 ^ k - 1)) < (2::nat) ^ k" by (rule mring_okE)
  let ?r = "w (rdp q)" and ?w = "w (wtp q)" and ?b = "unat (mbase q)"
  let ?pos = "(?r - 1) AND (2 ^ k - 1)"
  let ?w' = "(put_blk (mbase q) ?pos a l w)(rdp q := ?r - 1)"
  note pos = k(7)[rule_format, of "?r - 1"]
  have o: "put_blk (mbase q) ?pos a l w x = w x" if "x \<notin> {?b..<?b + 8 * 2 ^ k}" for x
    by (rule put_blk_other[OF pos that])
  have e: "entries ?w' ?b (2 ^ k) = (entries w ?b (2 ^ k))[unat ?pos := (a, l)]"
    using entries_put[OF pos] entries_cong[of ?b "2 ^ k" ?w' "put_blk (mbase q) ?pos a l w"] k(5) by force
  have lt: "unat (?w - ?r) < 2 ^ k" using assms(2) k(3) by (simp add: length_view)
  have "view q ?w' = ring_view ((entries w ?b (2 ^ k))[unat ?pos := (a, l)]) (unat (?r - 1)) (unat (?w - (?r - 1)))"
    using e k(3,4) o[OF k(6)] by (simp add: view_def)
  also have "\<dots> = (a, l) # view q w"
    using counter_unget[OF k(1) length_entries lt] by (simp add: view_def k(3))
  finally show ?thesis
    using that[of ?pos] ringpos_pow2[OF k(1)] k o[OF k(5)] o[OF k(6)] o by (auto simp: cells_def)
qed

section \<open>One direction\<close>

text \<open>
  The pool and the ring of sent blocks of one direction, where its blocks begin, how large they are, and what the stored
  addresses are relative to.
\<close>

record lane =
  pool :: mring
  sent :: mring
  blk0 :: u32
  bsize :: u32
  origin :: u32

definition lane_cells :: "lane \<Rightarrow> nat set" where
  "lane_cells l = cells (pool l) \<union> cells (sent l)"

definition lane_n :: "lane \<Rightarrow> nat" where
  "lane_n l = unat (mcount (pool l))"

definition lane_ok :: "lane \<Rightarrow> bool" where
  "lane_ok l \<longleftrightarrow> mring_ok (pool l) \<and> mring_ok (sent l) \<and> mcount (sent l) = mcount (pool l) \<and>
     cells (pool l) \<inter> cells (sent l) = {} \<and> 0 < unat (bsize l) \<and> lane_n l * unat (bsize l) < 4294967296"

text \<open>Where block \<open>i\<close> begins, and the address that the rings have for it.\<close>

definition blk_start :: "lane \<Rightarrow> nat \<Rightarrow> u32" where
  "blk_start l i = blk0 l + of_nat i * bsize l"

definition stored :: "lane \<Rightarrow> nat \<Rightarrow> u32" where
  "stored l i = blk_start l i + origin l"

text \<open>In how many places a block is: the pool, the sender, the ring, the receiver.\<close>

definition places :: "lane \<Rightarrow> (nat \<Rightarrow> u32) \<Rightarrow> int list \<Rightarrow> int list \<Rightarrow> nat \<Rightarrow> nat" where
  "places l w tx rx i =
     count_list (map fst (view (pool l) w)) (stored l i) + of_bool (tx ! i = SBLOCK_BLK_STATE_PENDING) +
     count_list (map fst (view (sent l) w)) (stored l i) + of_bool (rx ! i = SBLOCK_BLK_STATE_PENDING)"

definition lane_inv :: "lane \<Rightarrow> (nat \<Rightarrow> u32) \<Rightarrow> int list \<Rightarrow> int list \<Rightarrow> bool" where
  "lane_inv l w tx rx \<longleftrightarrow> lane_ok l \<and> length tx = lane_n l \<and> length rx = lane_n l \<and>
     (\<forall>i<lane_n l. places l w tx rx i = 1) \<and>
     fst ` set (view (pool l) w) \<subseteq> stored l ` {..<lane_n l} \<and> fst ` set (view (sent l) w) \<subseteq> stored l ` {..<lane_n l}"

lemma mult_small:
  assumes "lane_ok l" "i < lane_n l"
  shows "unat (of_nat i * bsize l) = i * unat (bsize l)" "unat (of_nat i :: u32) = i"
proof -
  have "lane_n l < 4294967296" unfolding lane_n_def using unsigned_less[of "mcount (pool l)", where 'a = nat] by simp
  with assms(2) show i: "unat (of_nat i :: u32) = i" by (simp add: unat_of_nat take_bit_eq_mod)
  have "i * unat (bsize l) \<le> lane_n l * unat (bsize l)" using assms(2) by (intro mult_le_mono1) simp
  then have "i * unat (bsize l) < 4294967296" using assms(1) unfolding lane_ok_def by linarith
  then show "unat (of_nat i * bsize l) = i * unat (bsize l)" by (simp add: unat_word_ariths i)
qed

lemma blk_index:
  assumes "lane_ok l" "i < lane_n l"
  shows "sblock_get_index (blk_start l i - blk0 l) (bsize l) = Some (of_nat i)"
proof -
  have b: "0 < unat (bsize l)" using assms(1) by (simp add: lane_ok_def)
  then have "bsize l \<noteq> 0" by auto
  moreover have "of_nat i * bsize l div bsize l = of_nat i"
  proof (rule word_unat_eq_iff[THEN iffD2])
    show "unat (of_nat i * bsize l div bsize l) = unat (of_nat i :: u32)"
      using mult_small[OF assms] b by (simp add: unat_div)
  qed
  ultimately show ?thesis by (simp add: sblock_get_index_def blk_start_def)
qed

lemma stored_inj:
  assumes "lane_ok l" "i < lane_n l" "j < lane_n l" "stored l i = stored l j"
  shows "i = j"
proof -
  have "of_nat i * bsize l = of_nat j * bsize l" using assms(4) by (simp add: stored_def blk_start_def)
  then have "i * unat (bsize l) = j * unat (bsize l)" using mult_small(1) assms(1-3) by metis
  then show ?thesis using assms(1) by (simp add: lane_ok_def)
qed

text \<open>A list of elements of a family, none twice and one missing, is shorter than the family.\<close>

lemma one_missing:
  fixes f :: "nat \<Rightarrow> 'a"
  assumes "set xs \<subseteq> f ` {..<n}" "inj_on f {..<n}" "\<And>j. j < n \<Longrightarrow> count_list xs (f j) \<le> 1" "i < n" "count_list xs (f i) = 0"
  shows "length xs < n"
proof -
  have "length xs = sum (count_list xs) (f ` {..<n})" using sum_count_set[OF assms(1)] by simp
  also have "\<dots> = (\<Sum>j<n. count_list xs (f j))" using assms(2) by (simp add: sum.reindex)
  also have "\<dots> < (\<Sum>j<n. 1)"
    using assms(3,4,5) by (intro sum_strict_mono_ex1) force+
  finally show ?thesis by simp
qed

lemma inj_stored: "lane_ok l \<Longrightarrow> inj_on (stored l) {..<lane_n l}"
  using stored_inj by (auto simp: inj_on_def)

lemma lane_room:
  assumes "lane_inv l w tx rx" "i < lane_n l" "tx ! i = SBLOCK_BLK_STATE_PENDING \<or> rx ! i = SBLOCK_BLK_STATE_PENDING"
  shows "length (view (pool l) w) < unat (mcount (pool l))" "length (view (sent l) w) < unat (mcount (sent l))"
proof -
  have p: "places l w tx rx j = 1" if "j < lane_n l" for j using assms(1) that by (simp add: lane_inv_def)
  have z: "count_list (map fst (view (pool l) w)) (stored l i) = 0" "count_list (map fst (view (sent l) w)) (stored l i) = 0"
    using p[OF assms(2)] assms(3) unfolding places_def by (auto simp: of_bool_def split: if_splits)
  have le: "count_list (map fst (view (pool l) w)) (stored l j) \<le> 1" "count_list (map fst (view (sent l) w)) (stored l j) \<le> 1"
    if "j < lane_n l" for j using p[OF that] unfolding places_def by linarith+
  have i: "inj_on (stored l) {..<lane_n l}" "mcount (sent l) = mcount (pool l)"
    using assms(1) inj_stored by (auto simp: lane_inv_def lane_ok_def)
  show "length (view (pool l) w) < unat (mcount (pool l))" "length (view (sent l) w) < unat (mcount (sent l))"
    using one_missing[of "map fst (view (pool l) w)" "stored l" "lane_n l" i, OF _ i(1) le(1) assms(2) z(1)]
      one_missing[of "map fst (view (sent l) w)" "stored l" "lane_n l" i, OF _ i(1) le(2) assms(2) z(2)] assms(1) i(2)
    by (simp_all add: lane_inv_def lane_n_def)
qed

text \<open>The five moves of a block from one place to the next.\<close>

lemma places_other:
  assumes "lane_ok l" "i < lane_n l" "j < lane_n l" "i \<noteq> j"
  shows "stored l i \<noteq> stored l j"
  using stored_inj[OF assms(1-3)] assms(4) by blast

lemma move_get:
  assumes "lane_inv l w tx rx" "view (pool l) w = e # es" "view (pool l) w' = es" "view (sent l) w' = view (sent l) w"
  obtains i where "i < lane_n l" "fst e = stored l i" "lane_inv l w' (tx[i := SBLOCK_BLK_STATE_PENDING]) rx"
proof -
  note d = assms(1)[unfolded lane_inv_def]
  obtain i where i: "i < lane_n l" "fst e = stored l i" using d assms(2) by auto
  have "places l w' (tx[i := SBLOCK_BLK_STATE_PENDING]) rx j = 1" if "j < lane_n l" for j
    using d that i assms(2-4) places_other[of l i j] by (cases "j = i") (auto simp: places_def nth_list_update of_bool_def split: if_splits)
  then have "lane_inv l w' (tx[i := SBLOCK_BLK_STATE_PENDING]) rx" using d assms(2-4) by (simp add: lane_inv_def)
  with i show ?thesis by (rule that)
qed

lemma move_put:
  assumes "lane_inv l w tx rx" "i < lane_n l" "tx ! i = SBLOCK_BLK_STATE_PENDING"
    "view (pool l) w' = (stored l i, len) # view (pool l) w" "view (sent l) w' = view (sent l) w"
  shows "lane_inv l w' (tx[i := SBLOCK_BLK_STATE_DONE]) rx"
proof -
  note d = assms(1)[unfolded lane_inv_def]
  have "places l w' (tx[i := SBLOCK_BLK_STATE_DONE]) rx j = 1" if "j < lane_n l" for j
    using d that assms(2-5) places_other[of l i j] by (cases "j = i") (auto simp: places_def nth_list_update of_bool_def split: if_splits)
  then show ?thesis using d assms(2,4,5) by (simp add: lane_inv_def)
qed

lemma move_send:
  assumes "lane_inv l w tx rx" "i < lane_n l" "tx ! i = SBLOCK_BLK_STATE_PENDING"
    "view (sent l) w' = view (sent l) w @ [(stored l i, len)]" "view (pool l) w' = view (pool l) w"
  shows "lane_inv l w' (tx[i := SBLOCK_BLK_STATE_DONE]) rx"
proof -
  note d = assms(1)[unfolded lane_inv_def]
  have "places l w' (tx[i := SBLOCK_BLK_STATE_DONE]) rx j = 1" if "j < lane_n l" for j
    using d that assms(2-5) places_other[of l i j] by (cases "j = i") (auto simp: places_def nth_list_update of_bool_def split: if_splits)
  then show ?thesis using d assms(2,4,5) by (simp add: lane_inv_def)
qed

lemma move_receive:
  assumes "lane_inv l w tx rx" "view (sent l) w = e # es" "view (sent l) w' = es" "view (pool l) w' = view (pool l) w"
  obtains i where "i < lane_n l" "fst e = stored l i" "lane_inv l w' tx (rx[i := SBLOCK_BLK_STATE_PENDING])"
proof -
  note d = assms(1)[unfolded lane_inv_def]
  obtain i where i: "i < lane_n l" "fst e = stored l i" using d assms(2) by auto
  have "places l w' tx (rx[i := SBLOCK_BLK_STATE_PENDING]) j = 1" if "j < lane_n l" for j
    using d that i assms(2-4) places_other[of l i j] by (cases "j = i") (auto simp: places_def nth_list_update of_bool_def split: if_splits)
  then have "lane_inv l w' tx (rx[i := SBLOCK_BLK_STATE_PENDING])" using d assms(2-4) by (simp add: lane_inv_def)
  with i show ?thesis by (rule that)
qed

lemma move_release:
  assumes "lane_inv l w tx rx" "i < lane_n l" "rx ! i = SBLOCK_BLK_STATE_PENDING"
    "view (pool l) w' = view (pool l) w @ [(stored l i, len)]" "view (sent l) w' = view (sent l) w"
  shows "lane_inv l w' tx (rx[i := SBLOCK_BLK_STATE_DONE])"
proof -
  note d = assms(1)[unfolded lane_inv_def]
  have "places l w' tx (rx[i := SBLOCK_BLK_STATE_DONE]) j = 1" if "j < lane_n l" for j
    using d that assms(2-5) places_other[of l i j] by (cases "j = i") (auto simp: places_def nth_list_update of_bool_def split: if_splits)
  then show ?thesis using d assms(2,4,5) by (simp add: lane_inv_def)
qed

end
