(* ===== verification/SblockOpProps.thy ===== *)
theory SblockOpProps
  imports SblockProps
begin

text \<open>
  The two directions as a manager sees them, and what each operation on blocks does to the lists of the direction that it
  concerns: every call on a block that is held runs through, moves the block, and leaves all other memory alone.
\<close>

section \<open>The operations\<close>

definition tx_lane :: "sblock_header_op \<Rightarrow> sblock_mgr \<Rightarrow> lane" where
  "tx_lane op m =
     \<lparr>pool = \<lparr>rdp = tx_rd_p (poolhd_op op), wtp = tx_wt_p (poolhd_op op), mbase = p_txblks (ring m), mcount = tx_count (poolhd_op op)\<rparr>,
      sent = \<lparr>rdp = tx_rd_p (ringhd_op op), wtp = tx_wt_p (ringhd_op op), mbase = r_txblks (ring m), mcount = tx_count (ringhd_op op)\<rparr>,
      blk0 = txblk_virt (ring m), bsize = txblksz m, origin = stored_smem_addr m\<rparr>"

definition rx_lane :: "sblock_header_op \<Rightarrow> sblock_mgr \<Rightarrow> lane" where
  "rx_lane op m =
     \<lparr>pool = \<lparr>rdp = rx_rd_p (poolhd_op op), wtp = rx_wt_p (poolhd_op op), mbase = p_rxblks (ring m), mcount = rx_count (poolhd_op op)\<rparr>,
      sent = \<lparr>rdp = rx_rd_p (ringhd_op op), wtp = rx_wt_p (ringhd_op op), mbase = r_rxblks (ring m), mcount = rx_count (ringhd_op op)\<rparr>,
      blk0 = rxblk_virt (ring m), bsize = rxblksz m, origin = stored_smem_addr m\<rparr>"

text \<open>What no operation on blocks changes.\<close>

definition same_setup :: "sblock_mgr \<Rightarrow> sblock_mgr \<Rightarrow> bool" where
  "same_setup m m' \<longleftrightarrow> header_op (ring m') = header_op (ring m) \<and>
     txblk_virt (ring m') = txblk_virt (ring m) \<and> rxblk_virt (ring m') = rxblk_virt (ring m) \<and>
     r_txblks (ring m') = r_txblks (ring m) \<and> r_rxblks (ring m') = r_rxblks (ring m) \<and>
     p_txblks (ring m') = p_txblks (ring m) \<and> p_rxblks (ring m') = p_rxblks (ring m) \<and>
     txblksz m' = txblksz m \<and> rxblksz m' = rxblksz m \<and> stored_smem_addr m' = stored_smem_addr m"

lemma same_lanes: "same_setup m m' \<Longrightarrow> tx_lane op m' = tx_lane op m \<and> rx_lane op m' = rx_lane op m"
  by (simp add: same_setup_def tx_lane_def rx_lane_def)

text \<open>A change that concerns one direction, the one in which this side sends or that in which it receives.\<close>

definition tx_moves :: "sblock_header_op \<Rightarrow> sblock_mgr \<Rightarrow> sblock_mgr \<Rightarrow> bool" where
  "tx_moves op m m' \<longleftrightarrow> same_setup m m' \<and> rxrecord (ring m') = rxrecord (ring m) \<and>
     (\<forall>x. x \<notin> lane_cells (tx_lane op m) \<longrightarrow> words m' x = words m x) \<and>
     (\<forall>rx. lane_inv (tx_lane op m) (words m) (txrecord (ring m)) rx \<longrightarrow>
       lane_inv (tx_lane op m) (words m') (txrecord (ring m')) rx)"

definition rx_moves :: "sblock_header_op \<Rightarrow> sblock_mgr \<Rightarrow> sblock_mgr \<Rightarrow> bool" where
  "rx_moves op m m' \<longleftrightarrow> same_setup m m' \<and> txrecord (ring m') = txrecord (ring m) \<and>
     (\<forall>x. x \<notin> lane_cells (rx_lane op m) \<longrightarrow> words m' x = words m x) \<and>
     (\<forall>tx. lane_inv (rx_lane op m) (words m) tx (rxrecord (ring m)) \<longrightarrow>
       lane_inv (rx_lane op m) (words m') tx (rxrecord (ring m')))"

lemma setup_trans: "same_setup m m' \<Longrightarrow> same_setup m' m'' \<Longrightarrow> same_setup m m''"
  by (simp add: same_setup_def)

lemma lane_moves_trans:
  assumes "same_setup m m'"
  shows "tx_moves op m m' \<Longrightarrow> tx_moves op m' m'' \<Longrightarrow> tx_moves op m m''"
    "rx_moves op m m' \<Longrightarrow> rx_moves op m' m'' \<Longrightarrow> rx_moves op m m''"
  using same_lanes[OF assms, of op] setup_trans[OF assms] by (simp_all add: tx_moves_def rx_moves_def)

text \<open>What the operations change: the memory and a record, and the mask and the flag beside them.\<close>

definition upd_tx :: "(nat \<Rightarrow> u32) \<Rightarrow> int list \<Rightarrow> int \<Rightarrow> sblock_mgr \<Rightarrow> sblock_mgr" where
  "upd_tx w xs y m = m\<lparr>words := w, ring := (ring m)\<lparr>txrecord := xs, yell := y\<rparr>\<rparr>"

definition upd_rx :: "(nat \<Rightarrow> u32) \<Rightarrow> int list \<Rightarrow> sblock_mgr \<Rightarrow> sblock_mgr" where
  "upd_rx w xs m = m\<lparr>words := w, ring := (ring m)\<lparr>rxrecord := xs\<rparr>\<rparr>"

lemma upd_simps [simp]:
  "words (upd_tx w xs y m) = w" "txrecord (ring (upd_tx w xs y m)) = xs" "rxrecord (ring (upd_tx w xs y m)) = rxrecord (ring m)"
  "sblock_state (upd_tx w xs y m) = sblock_state m" "header_op (ring (upd_tx w xs y m)) = header_op (ring m)"
  "words (upd_rx w xs m) = w" "txrecord (ring (upd_rx w xs m)) = txrecord (ring m)" "rxrecord (ring (upd_rx w xs m)) = xs"
  "sblock_state (upd_rx w xs m) = sblock_state m" "header_op (ring (upd_rx w xs m)) = header_op (ring m)"
  by (simp_all add: upd_tx_def upd_rx_def)

lemma poll_simps [simp]:
  "words (sblock_poll b p m) = words m" "header_op (ring (sblock_poll b p m)) = header_op (ring m)"
  "txrecord (ring (sblock_poll b p m)) = txrecord (ring m)" "rxrecord (ring (sblock_poll b p m)) = rxrecord (ring m)"
  "sblock_state (sblock_poll b p m) = sblock_state m" "sblock_channel (sblock_poll b p m) = sblock_channel m"
  by (simp_all add: sblock_poll_def)

lemma same_setups [simp]:
  "same_setup m m" "same_setup m (upd_tx w xs y m)" "same_setup m (upd_rx w xs m)" "same_setup m (sblock_poll b p m') = same_setup m m'"
  "same_setup m (m\<lparr>sblock_state := s\<rparr>)"
  by (simp_all add: same_setup_def upd_tx_def upd_rx_def sblock_poll_def)

lemma lane_upd [simp]:
  "tx_lane op (upd_tx w xs y m) = tx_lane op m" "rx_lane op (upd_tx w xs y m) = rx_lane op m"
  "tx_lane op (upd_rx w xs m) = tx_lane op m" "rx_lane op (upd_rx w xs m) = rx_lane op m"
  "tx_lane op (sblock_poll b p m) = tx_lane op m" "rx_lane op (sblock_poll b p m) = rx_lane op m"
  "tx_lane op (m\<lparr>sblock_state := s\<rparr>) = tx_lane op m" "rx_lane op (m\<lparr>sblock_state := s\<rparr>) = rx_lane op m"
  using same_lanes same_setups by metis+

lemma quiet_moves:
  "tx_moves op m m" "rx_moves op m m" "tx_moves op m (sblock_poll b p m)" "rx_moves op m (sblock_poll b p m)"
  "tx_moves op m (m\<lparr>sblock_state := s\<rparr>)" "rx_moves op m (m\<lparr>sblock_state := s\<rparr>)"
  by (simp_all add: tx_moves_def rx_moves_def)

lemma lane_simps [simp]:
  "rdp (pool (tx_lane op m)) = tx_rd_p (poolhd_op op)" "wtp (pool (tx_lane op m)) = tx_wt_p (poolhd_op op)"
  "mbase (pool (tx_lane op m)) = p_txblks (ring m)" "mcount (pool (tx_lane op m)) = tx_count (poolhd_op op)"
  "rdp (sent (tx_lane op m)) = tx_rd_p (ringhd_op op)" "wtp (sent (tx_lane op m)) = tx_wt_p (ringhd_op op)"
  "mbase (sent (tx_lane op m)) = r_txblks (ring m)" "mcount (sent (tx_lane op m)) = tx_count (ringhd_op op)"
  "rdp (pool (rx_lane op m)) = rx_rd_p (poolhd_op op)" "wtp (pool (rx_lane op m)) = rx_wt_p (poolhd_op op)"
  "mbase (pool (rx_lane op m)) = p_rxblks (ring m)" "mcount (pool (rx_lane op m)) = rx_count (poolhd_op op)"
  "rdp (sent (rx_lane op m)) = rx_rd_p (ringhd_op op)" "wtp (sent (rx_lane op m)) = rx_wt_p (ringhd_op op)"
  "mbase (sent (rx_lane op m)) = r_rxblks (ring m)" "mcount (sent (rx_lane op m)) = rx_count (ringhd_op op)"
  by (simp_all add: tx_lane_def rx_lane_def)

lemma origin_simps [simp]: "origin (tx_lane op m) = stored_smem_addr m" "origin (rx_lane op m) = stored_smem_addr m"
  by (simp_all add: tx_lane_def rx_lane_def)

lemma mark_tx_block:
  assumes "lane_ok (tx_lane op m)" "i < lane_n (tx_lane op m)" "length (txrecord (ring m)) = lane_n (tx_lane op m)"
  shows "mark_tx (blk_start (tx_lane op m) i) v (m\<lparr>words := w\<rparr>) = Some (upd_tx w ((txrecord (ring m))[i := v]) (yell (ring m)) m)"
    "mark_tx (blk_start (tx_lane op m) i) v (m\<lparr>words := w, ring := (ring m)\<lparr>yell := y\<rparr>\<rparr>) = Some (upd_tx w ((txrecord (ring m))[i := v]) y m)"
  using blk_index[OF assms(1,2)] mult_small(2)[OF assms(1,2)] assms(2,3)
  by (simp_all add: mark_tx_def set_record_def tx_lane_def upd_tx_def)

lemma mark_rx_block:
  assumes "lane_ok (rx_lane op m)" "i < lane_n (rx_lane op m)" "length (rxrecord (ring m)) = lane_n (rx_lane op m)"
  shows "mark_rx (blk_start (rx_lane op m) i) v (m\<lparr>words := w\<rparr>) = Some (upd_rx w ((rxrecord (ring m))[i := v]) m)"
  using blk_index[OF assms(1,2)] mult_small(2)[OF assms(1,2)] assms(2,3)
  by (simp add: mark_rx_def set_record_def rx_lane_def upd_rx_def)

text \<open>A block that one of the two sides has taken and not yet passed on.\<close>

definition holds_tx :: "sblock_header_op \<Rightarrow> sblock_mgr \<Rightarrow> nat \<Rightarrow> u32 \<Rightarrow> bool" where
  "holds_tx op m i a \<longleftrightarrow> i < lane_n (tx_lane op m) \<and> a = blk_start (tx_lane op m) i \<and> txrecord (ring m) ! i = SBLOCK_BLK_STATE_PENDING"

definition holds_rx :: "sblock_header_op \<Rightarrow> sblock_mgr \<Rightarrow> nat \<Rightarrow> u32 \<Rightarrow> bool" where
  "holds_rx op m i a \<longleftrightarrow> i < lane_n (rx_lane op m) \<and> a = blk_start (rx_lane op m) i \<and> rxrecord (ring m) ! i = SBLOCK_BLK_STATE_PENDING"

text \<open>A change inside the pool leaves the ring alone, and the other way round.\<close>

lemma lane_apart:
  assumes "lane_ok l"
  shows "(\<And>x. x \<notin> cells (pool l) \<Longrightarrow> w' x = w x) \<Longrightarrow> view (sent l) w' = view (sent l) w"
    "(\<And>x. x \<notin> cells (sent l) \<Longrightarrow> w' x = w x) \<Longrightarrow> view (pool l) w' = view (pool l) w"
  using assms by (auto simp: lane_ok_def intro!: view_cong)

lemma view_nonempty: "view q w = e # es \<Longrightarrow> w (wtp q) \<noteq> w (rdp q)"
  using length_view[of q w] by auto

lemma get_block_first:
  assumes m: "mgr st = Some m" "header_op (ring m) = Some op" "sblock_state m = SBLOCK_STATE_READY"
    and ok: "lane_ok (tx_lane op m)" "length (txrecord (ring m)) = lane_n (tx_lane op m)"
    and ne: "view (pool (tx_lane op m)) (words m) = (stored (tx_lane op m) i, x) # es" and i: "i < lane_n (tx_lane op m)"
  defines "w' \<equiv> (words m)(tx_rd_p (poolhd_op op) := pool_rd op m + 1)"
  shows "get_block rval blk st = Some (rval, \<lparr>addr = blk_start (tx_lane op m) i, blk_length = tx_size (poolhd_op op)\<rparr>,
      set_sblock (upd_tx w' ((txrecord (ring m))[i := SBLOCK_BLK_STATE_PENDING]) (yell (ring m)) m) st)"
    "view (pool (tx_lane op m)) w' = es"
proof -
  let ?l = "tx_lane op m" and ?w = "words m"
  have q: "mring_ok (pool ?l)" using ok(1) by (simp add: lane_ok_def)
  have nz: "pool_rd op m \<noteq> pool_wt op m" using view_nonempty[OF ne] by (simp add: pool_rd_def pool_wt_def)
  obtain pos where pos: "sblock_get_ringpos (pool_rd op m) (tx_count (poolhd_op op)) = Some pos"
      "stored ?l i = ?w (blk_at (p_txblks (ring m)) pos)" and v: "view (pool ?l) w' = es"
    using view_pop[OF q view_nonempty[OF ne]] ne by (auto simp: pool_rd_def w'_def)
  have a: "?w (blk_at (p_txblks (ring m)) pos) - stored_smem_addr m = blk_start ?l i"
    using pos(2) by (simp add: stored_def flip: pos(2))
  have "mark_tx (blk_start ?l i) SBLOCK_BLK_STATE_PENDING (m\<lparr>words := w'\<rparr>) =
      Some (upd_tx w' ((txrecord (ring m))[i := SBLOCK_BLK_STATE_PENDING]) (yell (ring m)) m)"
    using mark_tx_block(1) ok i by simp
  then show "get_block rval blk st = Some (rval, \<lparr>addr = blk_start (tx_lane op m) i, blk_length = tx_size (poolhd_op op)\<rparr>,
      set_sblock (upd_tx w' ((txrecord (ring m))[i := SBLOCK_BLK_STATE_PENDING]) (yell (ring m)) m) st)"
    using m nz pos(1) a by (simp add: get_block_def Let_def set_word_def w'_def)
  show "view (pool ?l) w' = es" by (rule v)
qed

lemma get_block_spec:
  assumes m: "mgr st = Some m" "header_op (ring m) = Some op" "sblock_state m = SBLOCK_STATE_READY"
    and inv: "lane_inv (tx_lane op m) (words m) (txrecord (ring m)) rx"
    and ne: "view (pool (tx_lane op m)) (words m) = e # es"
  obtains i m' where "get_block rval blk st = Some (rval, \<lparr>addr = blk_start (tx_lane op m) i, blk_length = tx_size (poolhd_op op)\<rparr>, set_sblock m' st)"
    "fst e = stored (tx_lane op m) i" "tx_moves op m m'" "holds_tx op m' i (blk_start (tx_lane op m) i)"
    "view (pool (tx_lane op m)) (words m') = es" "view (sent (tx_lane op m)) (words m') = view (sent (tx_lane op m)) (words m)"
    "txrecord (ring m') = (txrecord (ring m))[i := SBLOCK_BLK_STATE_PENDING]" "sblock_state m' = sblock_state m"
proof -
  let ?l = "tx_lane op m" and ?w = "words m" and ?w' = "(words m)(tx_rd_p (poolhd_op op) := pool_rd op m + 1)"
  note d = inv[unfolded lane_inv_def]
  then have ok: "lane_ok ?l" "length (txrecord (ring m)) = lane_n ?l" by simp_all
  obtain i x where i: "i < lane_n ?l" "e = (stored ?l i, x)" using d ne by (cases e) auto
  note first = get_block_first[OF m ok ne[unfolded i(2)] i(1)]
  have s: "view (sent ?l) ?w' = view (sent ?l) ?w" by (rule lane_apart(1)[OF ok(1)]) (auto simp: cells_def)
  let ?m' = "upd_tx ?w' ((txrecord (ring m))[i := SBLOCK_BLK_STATE_PENDING]) (yell (ring m)) m"
  have "tx_moves op m ?m'"
  proof -
    have "lane_inv ?l ?w' ((txrecord (ring m))[i := SBLOCK_BLK_STATE_PENDING]) rx'"
      if "lane_inv ?l ?w (txrecord (ring m)) rx'" for rx'
      using move_get[OF that ne first(2) s] stored_inj[OF ok(1) _ i(1)] i(2) by (metis fst_conv)
    then show ?thesis by (auto simp: tx_moves_def lane_cells_def cells_def)
  qed
  moreover have "holds_tx op ?m' i (blk_start ?l i)" using i(1) d by (simp add: holds_tx_def)
  ultimately show ?thesis using that[of i ?m'] i(2) first s by simp
qed

lemma receive_block_spec:
  assumes m: "mgr st = Some m" "header_op (ring m) = Some op" "sblock_state m = SBLOCK_STATE_READY"
    and inv: "lane_inv (rx_lane op m) (words m) tx (rxrecord (ring m))"
    and ne: "view (sent (rx_lane op m)) (words m) = e # es"
  obtains i m' where "receive_block rval blk st = Some (rval, \<lparr>addr = blk_start (rx_lane op m) i, blk_length = snd e\<rparr>, set_sblock m' st)"
    "fst e = stored (rx_lane op m) i" "rx_moves op m m'" "holds_rx op m' i (blk_start (rx_lane op m) i)"
    "view (sent (rx_lane op m)) (words m') = es" "view (pool (rx_lane op m)) (words m') = view (pool (rx_lane op m)) (words m)"
    "rxrecord (ring m') = (rxrecord (ring m))[i := SBLOCK_BLK_STATE_PENDING]" "sblock_state m' = sblock_state m"
proof -
  let ?l = "rx_lane op m" and ?w = "words m"
  note d = inv[unfolded lane_inv_def]
  then have ok: "lane_ok ?l" "mring_ok (sent ?l)" by (simp_all add: lane_ok_def)
  have nz: "recv_wt op m \<noteq> recv_rd op m" using view_nonempty[OF ne] by (simp add: recv_rd_def recv_wt_def)
  let ?w' = "?w(rx_rd_p (ringhd_op op) := recv_rd op m + 1)"
  obtain pos where pos: "sblock_get_ringpos (recv_rd op m) (rx_count (ringhd_op op)) = Some pos"
      "e = (?w (blk_at (r_rxblks (ring m)) pos), ?w (blk_at (r_rxblks (ring m)) pos + 4))" "view (sent ?l) ?w' = es"
    using view_pop[OF ok(2) view_nonempty[OF ne]] ne by (auto simp: recv_rd_def)
  have s: "view (pool ?l) ?w' = view (pool ?l) ?w" by (rule lane_apart(2)[OF ok(1)]) (auto simp: cells_def)
  obtain i where i: "i < lane_n ?l" "fst e = stored ?l i" using d ne by auto
  let ?m' = "upd_rx ?w' ((rxrecord (ring m))[i := SBLOCK_BLK_STATE_PENDING]) m"
  have a: "?w (blk_at (r_rxblks (ring m)) pos) - stored_smem_addr m = blk_start ?l i"
    using i(2) pos(2) by (simp add: stored_def)
  have "mark_rx (blk_start ?l i) SBLOCK_BLK_STATE_PENDING (m\<lparr>words := ?w'\<rparr>) = Some ?m'"
    using mark_rx_block ok(1) i(1) d by simp
  then have "receive_block rval blk st = Some (rval, \<lparr>addr = blk_start ?l i, blk_length = snd e\<rparr>, set_sblock ?m' st)"
    using m nz pos(1) a pos(2) by (simp add: receive_block_def Let_def set_word_def)
  moreover have "rx_moves op m ?m'"
  proof -
    have "lane_inv ?l ?w' tx' ((rxrecord (ring m))[i := SBLOCK_BLK_STATE_PENDING])"
      if "lane_inv ?l ?w tx' (rxrecord (ring m))" for tx'
      using move_receive[OF that ne pos(3) s] stored_inj[OF ok(1) _ i(1)] i(2) by metis
    then show ?thesis by (auto simp: rx_moves_def lane_cells_def cells_def)
  qed
  moreover have "holds_rx op ?m' i (blk_start ?l i)" using i(1) d by (simp add: holds_rx_def)
  ultimately show ?thesis using that[of i ?m'] i(2) pos(3) s by simp
qed

text \<open>A state in which the channel is set up, and what logging and releasing leave of it.\<close>

definition set_up :: "u8 \<Rightarrow> sblock_header_op \<Rightarrow> sblock_mgr \<Rightarrow> sblock_sys \<Rightarrow> bool" where
  "set_up c op m st \<longleftrightarrow> channel2index c \<noteq> INVALID_CHANEL_INDEX \<and> mgr st = Some m \<and> header_op (ring m) = Some op"

lemma sys_simps [simp]:
  "mgr (sblock_log x st) = mgr st" "mgr (release_smem x st) = mgr st" "mgr (set_sblock m st) = Some m" "mgr (sblock_set_ipc s st) = mgr st"
  "ipc (sblock_log x st) = ipc st" "ipc (release_smem x st) = ipc st" "ipc (set_sblock m st) = ipc st" "ipc (sblock_set_ipc s st) = s"
  by (simp_all add: sblock_log_def release_smem_def set_sblock_def sblock_set_ipc_def)

lemma put_spec:
  assumes up: "set_up c op m st" and inv: "lane_inv (tx_lane op m) (words m) (txrecord (ring m)) rx"
    and held: "holds_tx op m i (addr blk)"
  obtains m' st' where "sblock_put c blk st = Some st'" "mgr st' = Some m'" "tx_moves op m m'" "sblock_state m' = sblock_state m"
    "view (pool (tx_lane op m)) (words m') = (stored (tx_lane op m) i, tx_size (poolhd_op op)) # view (pool (tx_lane op m)) (words m)"
    "view (sent (tx_lane op m)) (words m') = view (sent (tx_lane op m)) (words m)"
    "txrecord (ring m') = (txrecord (ring m))[i := SBLOCK_BLK_STATE_DONE]"
proof -
  let ?l = "tx_lane op m" and ?w = "words m" and ?a = "addr blk + stored_smem_addr m"
  note d = inv[unfolded lane_inv_def]
  then have ok: "lane_ok ?l" "mring_ok (pool ?l)" by (simp_all add: lane_ok_def)
  have i: "i < lane_n ?l" "addr blk = blk_start ?l i" "txrecord (ring m) ! i = SBLOCK_BLK_STATE_PENDING"
    using held by (simp_all add: holds_tx_def)
  have a: "?a = stored ?l i" using i(2) by (simp add: stored_def)
  note room = lane_room(1)[OF inv i(1) disjI1[OF i(3)]]
  obtain pos where pos: "sblock_get_ringpos (pool_rd op m - 1) (tx_count (poolhd_op op)) = Some pos"
    and o: "put_blk (p_txblks (ring m)) pos ?a (tx_size (poolhd_op op)) ?w (tx_wt_p (poolhd_op op)) = pool_wt op m"
    and v: "view (pool ?l) ((put_blk (p_txblks (ring m)) pos ?a (tx_size (poolhd_op op)) ?w)(tx_rd_p (poolhd_op op) := pool_rd op m - 1)) =
        (?a, tx_size (poolhd_op op)) # view (pool ?l) ?w"
    and out: "\<And>x. x \<notin> cells (pool ?l) \<Longrightarrow>
        ((put_blk (p_txblks (ring m)) pos ?a (tx_size (poolhd_op op)) ?w)(tx_rd_p (poolhd_op op) := pool_rd op m - 1)) x = ?w x"
    by (rule view_unpop[OF ok(2) room, of ?a "tx_size (poolhd_op op)"]) (auto simp: pool_rd_def pool_wt_def)
  define w' where "w' = (put_blk (p_txblks (ring m)) pos ?a (tx_size (poolhd_op op)) ?w)(tx_rd_p (poolhd_op op) := pool_rd op m - 1)"
  note v = v[folded w'_def] and out = out[folded w'_def]
  have s: "view (sent ?l) w' = view (sent ?l) ?w" by (rule lane_apart(1)[OF ok(1) out])
  let ?m' = "upd_tx w' ((txrecord (ring m))[i := SBLOCK_BLK_STATE_DONE]) (yell (ring m)) m"
  have "mark_tx (blk_start ?l i) SBLOCK_BLK_STATE_DONE (m\<lparr>words := w'\<rparr>) = Some ?m'"
    using mark_tx_block(1) ok(1) i(1) d by simp
  then obtain st' where "sblock_put c blk st = Some st'" "mgr st' = Some (sblock_poll POLL_OUT True ?m')"
    using up pos i(2) by (simp add: sblock_put_def set_up_def Let_def set_word_def w'_def)
  moreover have "tx_moves op m (sblock_poll POLL_OUT True ?m')"
    using move_put[OF _ i(1) i(3) _ s] v a out by (auto simp: tx_moves_def lane_cells_def)
  ultimately show ?thesis using that v s a by simp
qed

lemma send_spec:
  assumes up: "set_up c op m st" and ready: "sblock_state m = SBLOCK_STATE_READY"
    and inv: "lane_inv (tx_lane op m) (words m) (txrecord (ring m)) rx" and held: "holds_tx op m i (addr blk)"
  obtains m' rval st' where "sblock_send_ex res c blk yll st = Some (rval, st')" "mgr st' = Some m'" "tx_moves op m m'"
    "sblock_state m' = sblock_state m"
    "view (sent (tx_lane op m)) (words m') = view (sent (tx_lane op m)) (words m) @ [(stored (tx_lane op m) i, blk_length blk)]"
    "view (pool (tx_lane op m)) (words m') = view (pool (tx_lane op m)) (words m)"
    "txrecord (ring m') = (txrecord (ring m))[i := SBLOCK_BLK_STATE_DONE]"
    "rval = (if yll then fst (smsg_send res (smsg_set c SMSG_TYPE_EVENT SMSG_EVENT_SBLOCK_SEND 0) (ipc st)) else 0)"
    "ipc st' = (if yll then snd (smsg_send res (smsg_set c SMSG_TYPE_EVENT SMSG_EVENT_SBLOCK_SEND 0) (ipc st)) else ipc st)"
proof -
  let ?l = "tx_lane op m" and ?w = "words m" and ?a = "addr blk + stored_smem_addr m"
  note d = inv[unfolded lane_inv_def]
  then have ok: "lane_ok ?l" "mring_ok (sent ?l)" by (simp_all add: lane_ok_def)
  have i: "i < lane_n ?l" "addr blk = blk_start ?l i" "txrecord (ring m) ! i = SBLOCK_BLK_STATE_PENDING"
    using held by (simp_all add: holds_tx_def)
  have a: "?a = stored ?l i" using i(2) by (simp add: stored_def)
  note room = lane_room(2)[OF inv i(1) disjI1[OF i(3)]]
  let ?wt = "tx_wt_p (ringhd_op op)"
  obtain pos where pos: "sblock_get_ringpos (?w ?wt) (tx_count (ringhd_op op)) = Some pos"
    and o: "put_blk (r_txblks (ring m)) pos ?a (blk_length blk) ?w ?wt = ?w ?wt"
    and v: "view (sent ?l) ((put_blk (r_txblks (ring m)) pos ?a (blk_length blk) ?w)(?wt := ?w ?wt + 1)) = view (sent ?l) ?w @ [(?a, blk_length blk)]"
    and out: "\<And>x. x \<notin> cells (sent ?l) \<Longrightarrow> ((put_blk (r_txblks (ring m)) pos ?a (blk_length blk) ?w)(?wt := ?w ?wt + 1)) x = ?w x"
    by (rule view_push[OF ok(2) room, of ?a "blk_length blk"]) auto
  define w' where "w' = (put_blk (r_txblks (ring m)) pos ?a (blk_length blk) ?w)(?wt := ?w ?wt + 1)"
  note v = v[folded w'_def] and out = out[folded w'_def]
  have s: "view (pool ?l) w' = view (pool ?l) ?w" by (rule lane_apart(2)[OF ok(1) out])
  define y where "y = (if \<not> yll \<and> yell (ring m) = 0 \<and> sint (w' ?wt - w' (tx_rd_p (ringhd_op op))) = 1 then 1 else yell (ring m))"
  let ?m' = "upd_tx w' ((txrecord (ring m))[i := SBLOCK_BLK_STATE_DONE]) y m"
  have "mark_tx (blk_start ?l i) SBLOCK_BLK_STATE_DONE (m\<lparr>words := w'\<rparr>) = Some (upd_tx w' ((txrecord (ring m))[i := SBLOCK_BLK_STATE_DONE]) (yell (ring m)) m)"
    "mark_tx (blk_start ?l i) SBLOCK_BLK_STATE_DONE (m\<lparr>words := w', ring := (ring m)\<lparr>yell := 1\<rparr>\<rparr>) = Some (upd_tx w' ((txrecord (ring m))[i := SBLOCK_BLK_STATE_DONE]) 1 m)"
    using mark_tx_block ok(1) i(1) d by simp_all
  note mark = this[unfolded w'_def]
  let ?s = "smsg_send res (smsg_set c SMSG_TYPE_EVENT SMSG_EVENT_SBLOCK_SEND 0) (ipc st)"
  let ?st = "release_smem Release_tx (set_sblock ?m' st)"
  have "sblock_send_ex res c blk yll st = Some (if yll then (fst ?s, sblock_set_ipc (snd ?s) ?st) else (0, ?st))"
    using up ready pos i(2) mark o
    by (simp add: sblock_send_ex_def set_up_def Let_def set_word_def w'_def y_def split_def)
  moreover have "tx_moves op m ?m'"
    using move_send[OF _ i(1) i(3) _ s] v a out by (auto simp: tx_moves_def lane_cells_def)
  ultimately show ?thesis
    using that[of "if yll then fst ?s else 0" "if yll then sblock_set_ipc (snd ?s) ?st else ?st" ?m'] v s a by (cases yll) simp_all
qed

lemma release_spec:
  assumes up: "set_up c op m st" and ready: "sblock_state m = SBLOCK_STATE_READY"
    and inv: "lane_inv (rx_lane op m) (words m) tx (rxrecord (ring m))" and held: "holds_rx op m i (addr blk)"
  obtains m' st' where "sblock_release res c blk st = Some (0, st')" "mgr st' = Some m'" "rx_moves op m m'" "sblock_state m' = sblock_state m"
    "view (pool (rx_lane op m)) (words m') = view (pool (rx_lane op m)) (words m) @ [(stored (rx_lane op m) i, rx_size (poolhd_op op))]"
    "view (sent (rx_lane op m)) (words m') = view (sent (rx_lane op m)) (words m)"
    "rxrecord (ring m') = (rxrecord (ring m))[i := SBLOCK_BLK_STATE_DONE]"
proof -
  let ?l = "rx_lane op m" and ?w = "words m" and ?a = "addr blk + stored_smem_addr m"
  note d = inv[unfolded lane_inv_def]
  then have ok: "lane_ok ?l" "mring_ok (pool ?l)" by (simp_all add: lane_ok_def)
  have i: "i < lane_n ?l" "addr blk = blk_start ?l i" "rxrecord (ring m) ! i = SBLOCK_BLK_STATE_PENDING"
    using held by (simp_all add: holds_rx_def)
  have a: "?a = stored ?l i" using i(2) by (simp add: stored_def)
  note room = lane_room(1)[OF inv i(1) disjI2[OF i(3)]]
  let ?wt = "rx_wt_p (poolhd_op op)" and ?sz = "rx_size (poolhd_op op)"
  obtain pos where pos: "sblock_get_ringpos (?w ?wt) (rx_count (poolhd_op op)) = Some pos"
    and o: "put_blk (p_rxblks (ring m)) pos ?a ?sz ?w ?wt = ?w ?wt"
    and v: "view (pool ?l) ((put_blk (p_rxblks (ring m)) pos ?a ?sz ?w)(?wt := ?w ?wt + 1)) = view (pool ?l) ?w @ [(?a, ?sz)]"
    and out: "\<And>x. x \<notin> cells (pool ?l) \<Longrightarrow> ((put_blk (p_rxblks (ring m)) pos ?a ?sz ?w)(?wt := ?w ?wt + 1)) x = ?w x"
    by (rule view_push[OF ok(2) room, of ?a ?sz]) auto
  define w' where "w' = (put_blk (p_rxblks (ring m)) pos ?a ?sz ?w)(?wt := ?w ?wt + 1)"
  note v = v[folded w'_def] and out = out[folded w'_def]
  have s: "view (sent ?l) w' = view (sent ?l) ?w" by (rule lane_apart(1)[OF ok(1) out])
  let ?m' = "upd_rx w' ((rxrecord (ring m))[i := SBLOCK_BLK_STATE_DONE]) m"
  have "mark_rx (blk_start ?l i) SBLOCK_BLK_STATE_DONE (m\<lparr>words := w'\<rparr>) = Some ?m'"
    using mark_rx_block ok(1) i(1) d by simp
  then obtain st' where "sblock_release res c blk st = Some (0, st')" "mgr st' = Some ?m'"
    using up ready pos i(2) o by (simp add: sblock_release_def set_up_def Let_def set_word_def w'_def)
  moreover have "rx_moves op m ?m'"
    using move_release[OF _ i(1) i(3) _ s] v a out by (auto simp: rx_moves_def lane_cells_def)
  ultimately show ?thesis using that[of st' ?m'] v s a by simp
qed

text \<open>
  A call runs through: whatever it finds, it does not leave the memory, and it changes the one direction only. Here waiting
  leaves the state as it is, whatever its result; what the other side does meanwhile comes before or after.
\<close>

definition runs_tx :: "sblock_header_op \<Rightarrow> sblock_mgr \<Rightarrow> sblock_sys \<Rightarrow> bool" where
  "runs_tx op m st' \<longleftrightarrow> (\<exists>m'. mgr st' = Some m' \<and> tx_moves op m m' \<and> header_op (ring m') = Some op)"

definition runs_rx :: "sblock_header_op \<Rightarrow> sblock_mgr \<Rightarrow> sblock_sys \<Rightarrow> bool" where
  "runs_rx op m st' \<longleftrightarrow> (\<exists>m'. mgr st' = Some m' \<and> rx_moves op m m' \<and> header_op (ring m') = Some op)"

lemma moves_keep: "tx_moves op m m' \<Longrightarrow> header_op (ring m') = header_op (ring m)" "rx_moves op m m' \<Longrightarrow> header_op (ring m') = header_op (ring m)"
  by (simp_all add: tx_moves_def rx_moves_def same_setup_def)

lemma runs_self:
  assumes "mgr st' = Some m" "header_op (ring m) = Some op"
  shows "runs_tx op m st'" "runs_rx op m st'"
  using assms quiet_moves(1,2) by (auto simp: runs_tx_def runs_rx_def)

lemma get_block_runs:
  assumes "mgr st = Some m" "header_op (ring m) = Some op" "lane_inv (tx_lane op m) (words m) (txrecord (ring m)) rx"
  shows "\<exists>rv blk' st'. get_block rval blk st = Some (rv, blk', st') \<and> runs_tx op m st'"
proof (cases "pool_rd op m \<noteq> pool_wt op m \<and> sblock_state m = SBLOCK_STATE_READY")
  case True
  then have "view (pool (tx_lane op m)) (words m) \<noteq> []"
    using length_view[of "pool (tx_lane op m)" "words m"] unat_sub_0 by (auto simp: pool_rd_def pool_wt_def)
  then obtain e es where e: "view (pool (tx_lane op m)) (words m) = e # es" by (auto simp: neq_Nil_conv)
  obtain i m' where "get_block rval blk st = Some (rval, \<lparr>addr = blk_start (tx_lane op m) i, blk_length = tx_size (poolhd_op op)\<rparr>, set_sblock m' st)"
      "tx_moves op m m'"
    using get_block_spec[OF assms(1,2) conjunct2[OF True] assms(3) e, of rval blk thesis] by blast
  then show ?thesis using moves_keep(1)[of op m m'] assms(2) by (auto simp: runs_tx_def)
next
  case False
  then have "get_block rval blk st = Some (if sblock_state m = SBLOCK_STATE_READY then - EAGAIN else - EIO, blk, release_smem Release_tx st)"
    using assms(1,2) unfolding get_block_def by (simp only: Option.bind.simps if_False)
  then show ?thesis using runs_self(1)[of "release_smem Release_tx st" m op] assms(1,2) by auto
qed

lemma wait_still:
  assumes "mgr st = Some m"
  shows "\<exists>k. sblock_wait_data cond timeout (\<lambda>_ st. (v, st)) st = Some (k, st)"
  using assms by (cases "timeout = 0") (simp_all add: sblock_wait_data_def Let_def)

lemma get_runs:
  assumes up: "set_up c op m st" and inv: "lane_inv (tx_lane op m) (words m) (txrecord (ring m)) rx"
  shows "\<exists>rv blk' st'. sblock_get res (\<lambda>_ st. (v, st)) c blk timeout st = Some (rv, blk', st') \<and> runs_tx op m st'"
proof -
  have m: "channel2index c \<noteq> INVALID_CHANEL_INDEX" "mgr st = Some m" "header_op (ring m) = Some op" using up by (simp_all add: set_up_def)
  note self = runs_self(1)[of _ m op, OF _ m(3)]
  show ?thesis
  proof (cases "sblock_state m = SBLOCK_STATE_READY \<and> \<not> sipc_smem_request_resource (res 0) (ipc st) < 0")
    case False
    then show ?thesis using m self by (auto simp: sblock_get_def Let_def)
  next
    case True
    define no_data where "no_data = (pool_rd op m = pool_wt op m)"
    define m1 where "m1 = sblock_poll POLL_OUT (\<not> no_data) m"
    define st1 where "st1 = release_smem Release_tx (set_sblock m1 st)"
    have m1: "mgr st1 = Some m1" "header_op (ring m1) = Some op" "tx_moves op m m1" "same_setup m m1"
      using m(3) quiet_moves by (simp_all add: st1_def m1_def)
    have i1: "ipc st1 = ipc st" by (simp add: st1_def)
    have r1: "runs_tx op m st1" using m1 by (auto simp: runs_tx_def)
    have inv1: "lane_inv (tx_lane op m1) (words m1) (txrecord (ring m1)) rx" using inv by (simp add: m1_def)
    obtain k where w: "(if no_data then sblock_wait_data (get_wait_cond timeout) timeout (\<lambda>_ st. (v, st)) st1
        else Some (sipc_smem_request_resource (res 0) (ipc st), st1)) = Some (k, st1)"
      using wait_still[OF m1(1)] by (metis (full_types))
    obtain rv blk' st2 where g: "get_block (sipc_smem_request_resource (res 1) (ipc st)) blk st1 = Some (rv, blk', st2)" "runs_tx op m1 st2"
      using get_block_runs[OF m1(1,2) inv1] by blast
    then obtain m2 where m2: "mgr st2 = Some m2" "tx_moves op m1 m2" "header_op (ring m2) = Some op" by (auto simp: runs_tx_def)
    let ?st3 = "set_sblock (sblock_poll POLL_OUT (pool_wt op m2 \<noteq> pool_rd op m2) m2) st2"
    have "tx_moves op m (sblock_poll POLL_OUT (pool_wt op m2 \<noteq> pool_rd op m2) m2)"
      using lane_moves_trans(1)[OF m1(4,3) m2(2)] lane_moves_trans(1)[OF _ _ quiet_moves(3)] by (simp add: tx_moves_def)
    then have r3: "runs_tx op m ?st3" using m2(3) by (simp add: runs_tx_def)
    have "sblock_get res (\<lambda>_ st. (v, st)) c blk timeout st =
        Option.bind (if no_data then sblock_wait_data (get_wait_cond timeout) timeout (\<lambda>_ st. (v, st)) st1
            else Some (sipc_smem_request_resource (res 0) (ipc st), st1))
          (\<lambda>(rval, st). if rval < 0 then Some (rval, blk, st)
            else if sipc_smem_request_resource (res 1) (ipc st) < 0 then Some (sipc_smem_request_resource (res 1) (ipc st), blk, st)
            else Option.bind (get_block (sipc_smem_request_resource (res 1) (ipc st)) blk st) (\<lambda>(rval, blk, st).
              Option.bind (mgr st) (\<lambda>m. Option.bind (header_op (ring m)) (\<lambda>op.
                Some (rval, blk, set_sblock (sblock_poll POLL_OUT (pool_wt op m \<noteq> pool_rd op m) m) st)))))"
      using m True unfolding sblock_get_def no_data_def m1_def st1_def Let_def by simp
    also have "\<dots> = (if k < 0 then Some (k, blk, st1)
         else if sipc_smem_request_resource (res 1) (ipc st) < 0 then Some (sipc_smem_request_resource (res 1) (ipc st), blk, st1)
         else Some (rv, blk', ?st3))"
      unfolding w using g(1) m2 i1 by simp
    finally show ?thesis using r1 r3 by auto
  qed
qed

lemma receive_block_runs:
  assumes "mgr st = Some m" "header_op (ring m) = Some op" "lane_inv (rx_lane op m) (words m) tx (rxrecord (ring m))"
  shows "\<exists>rv blk' st'. receive_block rval blk st = Some (rv, blk', st') \<and> runs_rx op m st'"
proof (cases "recv_wt op m \<noteq> recv_rd op m \<and> sblock_state m = SBLOCK_STATE_READY")
  case True
  then have "view (sent (rx_lane op m)) (words m) \<noteq> []"
    using length_view[of "sent (rx_lane op m)" "words m"] unat_sub_0 by (auto simp: recv_rd_def recv_wt_def)
  then obtain e es where e: "view (sent (rx_lane op m)) (words m) = e # es" by (auto simp: neq_Nil_conv)
  obtain i m' where "receive_block rval blk st = Some (rval, \<lparr>addr = blk_start (rx_lane op m) i, blk_length = snd e\<rparr>, set_sblock m' st)"
      "rx_moves op m m'"
    using receive_block_spec[OF assms(1,2) conjunct2[OF True] assms(3) e, of rval blk thesis] by blast
  then show ?thesis using moves_keep(2)[of op m m'] assms(2) by (auto simp: runs_rx_def)
next
  case False
  then have "receive_block rval blk st = Some (if sblock_state m = SBLOCK_STATE_READY then - EAGAIN else - EIO, blk, release_smem Release_rx st)"
    using assms(1,2) unfolding receive_block_def by (simp only: Option.bind.simps if_False)
  then show ?thesis using runs_self(2)[of "release_smem Release_rx st" m op] assms(1,2) by auto
qed

lemma receive_runs:
  assumes up: "set_up c op m st" and inv: "lane_inv (rx_lane op m) (words m) tx (rxrecord (ring m))"
  shows "\<exists>rv blk' st'. sblock_receive res (\<lambda>_ st. (v, st)) c blk timeout st = Some (rv, blk', st') \<and> runs_rx op m st'"
proof -
  have m: "channel2index c \<noteq> INVALID_CHANEL_INDEX" "mgr st = Some m" "header_op (ring m) = Some op" using up by (simp_all add: set_up_def)
  note self = runs_self(2)[of _ m op, OF _ m(3)]
  show ?thesis
  proof (cases "sblock_state m = SBLOCK_STATE_READY \<and> \<not> sipc_smem_request_resource (res 0) (ipc st) < 0")
    case False
    then show ?thesis using m self by (auto simp: sblock_receive_def Let_def)
  next
    case True
    define no_data where "no_data = (recv_wt op m = recv_rd op m)"
    define m1 where "m1 = sblock_poll POLL_IN (\<not> no_data) m"
    define st1 where "st1 = release_smem Release_rx (set_sblock m1 st)"
    have m1: "mgr st1 = Some m1" "header_op (ring m1) = Some op" "rx_moves op m m1" "same_setup m m1"
      using m(3) quiet_moves by (simp_all add: st1_def m1_def)
    have i1: "ipc st1 = ipc st" by (simp add: st1_def)
    have r1: "runs_rx op m st1" using m1 by (auto simp: runs_rx_def)
    have inv1: "lane_inv (rx_lane op m1) (words m1) tx (rxrecord (ring m1))" using inv by (simp add: m1_def)
    obtain k where w: "(if no_data then sblock_wait_data receive_wait_cond timeout (\<lambda>_ st. (v, st)) st1
        else Some (sipc_smem_request_resource (res 0) (ipc st), st1)) = Some (k, st1)"
      using wait_still[OF m1(1)] by (metis (full_types))
    obtain rv blk' st2 where g: "receive_block (sipc_smem_request_resource (res 1) (ipc st)) blk st1 = Some (rv, blk', st2)" "runs_rx op m1 st2"
      using receive_block_runs[OF m1(1,2) inv1] by blast
    then obtain m2 where m2: "mgr st2 = Some m2" "rx_moves op m1 m2" "header_op (ring m2) = Some op" by (auto simp: runs_rx_def)
    let ?st3 = "set_sblock (sblock_poll POLL_IN (recv_wt op m2 \<noteq> recv_rd op m2) m2) st2"
    have "rx_moves op m (sblock_poll POLL_IN (recv_wt op m2 \<noteq> recv_rd op m2) m2)"
      using lane_moves_trans(2)[OF m1(4,3) m2(2)] lane_moves_trans(2)[OF _ _ quiet_moves(4)] by (simp add: rx_moves_def)
    then have r3: "runs_rx op m ?st3" using m2(3) by (simp add: runs_rx_def)
    have "sblock_receive res (\<lambda>_ st. (v, st)) c blk timeout st =
        Option.bind (if no_data then sblock_wait_data receive_wait_cond timeout (\<lambda>_ st. (v, st)) st1
            else Some (sipc_smem_request_resource (res 0) (ipc st), st1))
          (\<lambda>(rval, st). if rval < 0 then Some (rval, blk, st)
            else if sipc_smem_request_resource (res 1) (ipc st) < 0 then Some (sipc_smem_request_resource (res 1) (ipc st), blk, st)
            else Option.bind (receive_block (sipc_smem_request_resource (res 1) (ipc st)) blk st) (\<lambda>(rval, blk, st).
              Option.bind (mgr st) (\<lambda>m. Option.bind (header_op (ring m)) (\<lambda>op.
                Some (rval, blk, set_sblock (sblock_poll POLL_IN (recv_wt op m \<noteq> recv_rd op m) m) st)))))"
      using m True unfolding sblock_receive_def no_data_def m1_def st1_def Let_def by simp
    also have "\<dots> = (if k < 0 then Some (k, blk, st1)
         else if sipc_smem_request_resource (res 1) (ipc st) < 0 then Some (sipc_smem_request_resource (res 1) (ipc st), blk, st1)
         else Some (rv, blk', ?st3))"
      unfolding w using g(1) m2 i1 by simp
    finally show ?thesis using r1 r3 by auto
  qed
qed

text \<open>With a block there, a call takes the first one at once.\<close>

lemma get_at_once:
  assumes up: "set_up c op m st" and ready: "sblock_state m = SBLOCK_STATE_READY" and ne: "pool_rd op m \<noteq> pool_wt op m"
    and res: "\<And>k. \<not> sipc_smem_request_resource (res k) (ipc st) < 0"
  defines "m1 \<equiv> sblock_poll POLL_OUT True m"
  defines "st1 \<equiv> release_smem Release_tx (set_sblock m1 st)"
  assumes g: "get_block (sipc_smem_request_resource (res 1) (ipc st)) blk st1 = Some (rv, blk', st2)" "mgr st2 = Some m2" "header_op (ring m2) = Some op"
  shows "sblock_get res wait c blk timeout st = Some (rv, blk', set_sblock (sblock_poll POLL_OUT (pool_wt op m2 \<noteq> pool_rd op m2) m2) st2)"
proof -
  have "channel2index c \<noteq> INVALID_CHANEL_INDEX" "mgr st = Some m" "header_op (ring m) = Some op" "ipc st1 = ipc st"
    using up by (simp_all add: set_up_def st1_def)
  then show ?thesis
    using ready ne res[of 0] res[of 1] g unfolding sblock_get_def Let_def by (simp flip: m1_def st1_def)
qed

lemma receive_at_once:
  assumes up: "set_up c op m st" and ready: "sblock_state m = SBLOCK_STATE_READY" and ne: "recv_wt op m \<noteq> recv_rd op m"
    and res: "\<And>k. \<not> sipc_smem_request_resource (res k) (ipc st) < 0"
  defines "m1 \<equiv> sblock_poll POLL_IN True m"
  defines "st1 \<equiv> release_smem Release_rx (set_sblock m1 st)"
  assumes g: "receive_block (sipc_smem_request_resource (res 1) (ipc st)) blk st1 = Some (rv, blk', st2)" "mgr st2 = Some m2" "header_op (ring m2) = Some op"
  shows "sblock_receive res wait c blk timeout st = Some (rv, blk', set_sblock (sblock_poll POLL_IN (recv_wt op m2 \<noteq> recv_rd op m2) m2) st2)"
proof -
  have "channel2index c \<noteq> INVALID_CHANEL_INDEX" "mgr st = Some m" "header_op (ring m) = Some op" "ipc st1 = ipc st"
    using up by (simp_all add: set_up_def st1_def)
  then show ?thesis
    using ready ne res[of 0] res[of 1] g unfolding sblock_receive_def Let_def by (simp flip: m1_def st1_def)
qed

lemma get_takes:
  assumes up: "set_up c op m st" and ready: "sblock_state m = SBLOCK_STATE_READY"
    and inv: "lane_inv (tx_lane op m) (words m) (txrecord (ring m)) rx" and ne: "view (pool (tx_lane op m)) (words m) = e # es"
    and res: "\<And>k. \<not> sipc_smem_request_resource (res k) (ipc st) < 0"
  obtains i m' st' where
    "sblock_get res wait c blk timeout st =
       Some (sipc_smem_request_resource (res 1) (ipc st), \<lparr>addr = blk_start (tx_lane op m) i, blk_length = tx_size (poolhd_op op)\<rparr>, st')"
    "mgr st' = Some m'" "ipc st' = ipc st" "sblock_state m' = SBLOCK_STATE_READY"
    "fst e = stored (tx_lane op m) i" "tx_moves op m m'" "holds_tx op m' i (blk_start (tx_lane op m) i)"
    "view (pool (tx_lane op m)) (words m') = es" "view (sent (tx_lane op m)) (words m') = view (sent (tx_lane op m)) (words m)"
    "txrecord (ring m') = (txrecord (ring m))[i := SBLOCK_BLK_STATE_PENDING]"
proof -
  let ?m1 = "sblock_poll POLL_OUT True m" and ?st1 = "release_smem Release_tx (set_sblock (sblock_poll POLL_OUT True m) st)"
  have h: "header_op (ring m) = Some op" and d: "pool_rd op m \<noteq> pool_wt op m"
    using up view_nonempty[OF ne] by (simp_all add: set_up_def pool_rd_def pool_wt_def)
  have m1: "mgr ?st1 = Some ?m1" "header_op (ring ?m1) = Some op" "sblock_state ?m1 = SBLOCK_STATE_READY"
      "lane_inv (tx_lane op ?m1) (words ?m1) (txrecord (ring ?m1)) rx" "view (pool (tx_lane op ?m1)) (words ?m1) = e # es"
    using h ready inv ne by simp_all
  obtain i m2 where g: "get_block (sipc_smem_request_resource (res 1) (ipc st)) blk ?st1 =
      Some (sipc_smem_request_resource (res 1) (ipc st), \<lparr>addr = blk_start (tx_lane op m) i, blk_length = tx_size (poolhd_op op)\<rparr>, set_sblock m2 ?st1)"
    "fst e = stored (tx_lane op m) i" "tx_moves op ?m1 m2" "holds_tx op m2 i (blk_start (tx_lane op m) i)"
    "view (pool (tx_lane op m)) (words m2) = es" "view (sent (tx_lane op m)) (words m2) = view (sent (tx_lane op m)) (words m)"
    "txrecord (ring m2) = (txrecord (ring m))[i := SBLOCK_BLK_STATE_PENDING]" "sblock_state m2 = SBLOCK_STATE_READY"
    by (rule get_block_spec[OF m1(1-5), where rval = "sipc_smem_request_resource (res 1) (ipc st)" and blk = blk]) (use m1(3) in simp)
  have h2: "header_op (ring m2) = Some op" using moves_keep(1)[OF g(3)] h by simp
  let ?m3 = "sblock_poll POLL_OUT (pool_wt op m2 \<noteq> pool_rd op m2) m2"
  have "mgr (set_sblock m2 ?st1) = Some m2" by simp
  note get_at_once[where res = res and wait = wait and timeout = timeout, OF up ready d res g(1) this h2]
  moreover have "tx_moves op m ?m3"
    using lane_moves_trans(1)[OF _ _ g(3), of m] lane_moves_trans(1)[OF _ _ quiet_moves(3), of m m2] quiet_moves(3)[of op m]
    by (simp add: tx_moves_def)
  moreover have "holds_tx op ?m3 i (blk_start (tx_lane op m) i)" using g(4) by (simp add: holds_tx_def)
  ultimately show ?thesis using that[of i "set_sblock ?m3 (set_sblock m2 ?st1)" ?m3] g by simp
qed

lemma receive_takes:
  assumes up: "set_up c op m st" and ready: "sblock_state m = SBLOCK_STATE_READY"
    and inv: "lane_inv (rx_lane op m) (words m) tx (rxrecord (ring m))" and ne: "view (sent (rx_lane op m)) (words m) = e # es"
    and res: "\<And>k. \<not> sipc_smem_request_resource (res k) (ipc st) < 0"
  obtains i m' st' where
    "sblock_receive res wait c blk timeout st =
       Some (sipc_smem_request_resource (res 1) (ipc st), \<lparr>addr = blk_start (rx_lane op m) i, blk_length = snd e\<rparr>, st')"
    "mgr st' = Some m'" "ipc st' = ipc st" "sblock_state m' = SBLOCK_STATE_READY"
    "fst e = stored (rx_lane op m) i" "rx_moves op m m'" "holds_rx op m' i (blk_start (rx_lane op m) i)"
    "view (sent (rx_lane op m)) (words m') = es" "view (pool (rx_lane op m)) (words m') = view (pool (rx_lane op m)) (words m)"
    "rxrecord (ring m') = (rxrecord (ring m))[i := SBLOCK_BLK_STATE_PENDING]"
proof -
  let ?m1 = "sblock_poll POLL_IN True m" and ?st1 = "release_smem Release_rx (set_sblock (sblock_poll POLL_IN True m) st)"
  have h: "header_op (ring m) = Some op" and d: "recv_wt op m \<noteq> recv_rd op m"
    using up view_nonempty[OF ne] by (simp_all add: set_up_def recv_rd_def recv_wt_def)
  have m1: "mgr ?st1 = Some ?m1" "header_op (ring ?m1) = Some op" "sblock_state ?m1 = SBLOCK_STATE_READY"
      "lane_inv (rx_lane op ?m1) (words ?m1) tx (rxrecord (ring ?m1))" "view (sent (rx_lane op ?m1)) (words ?m1) = e # es"
    using h ready inv ne by simp_all
  obtain i m2 where g: "receive_block (sipc_smem_request_resource (res 1) (ipc st)) blk ?st1 =
      Some (sipc_smem_request_resource (res 1) (ipc st), \<lparr>addr = blk_start (rx_lane op m) i, blk_length = snd e\<rparr>, set_sblock m2 ?st1)"
    "fst e = stored (rx_lane op m) i" "rx_moves op ?m1 m2" "holds_rx op m2 i (blk_start (rx_lane op m) i)"
    "view (sent (rx_lane op m)) (words m2) = es" "view (pool (rx_lane op m)) (words m2) = view (pool (rx_lane op m)) (words m)"
    "rxrecord (ring m2) = (rxrecord (ring m))[i := SBLOCK_BLK_STATE_PENDING]" "sblock_state m2 = SBLOCK_STATE_READY"
    by (rule receive_block_spec[OF m1(1-5), where rval = "sipc_smem_request_resource (res 1) (ipc st)" and blk = blk]) (use m1(3) in simp)
  have h2: "header_op (ring m2) = Some op" using moves_keep(2)[OF g(3)] h by simp
  let ?m3 = "sblock_poll POLL_IN (recv_wt op m2 \<noteq> recv_rd op m2) m2"
  have "mgr (set_sblock m2 ?st1) = Some m2" by simp
  note receive_at_once[where res = res and wait = wait and timeout = timeout, OF up ready d res g(1) this h2]
  moreover have "rx_moves op m ?m3"
    using lane_moves_trans(2)[OF _ _ g(3), of m] lane_moves_trans(2)[OF _ _ quiet_moves(4), of m m2] quiet_moves(4)[of op m]
    by (simp add: rx_moves_def)
  moreover have "holds_rx op ?m3 i (blk_start (rx_lane op m) i)" using g(4) by (simp add: holds_rx_def)
  ultimately show ?thesis using that[of i "set_sblock ?m3 (set_sblock m2 ?st1)" ?m3] g by simp
qed

end
