(* ===== verification/SblockLinkProps.thy ===== *)
theory SblockLinkProps
  imports SblockOpProps
begin

text \<open>
  Host and client side by side on one memory: the invariant that links them, the steps either may take, and that every step
  of one side keeps the invariant. \<open>SblockInitProps\<close> shows that it holds at the start, \<open>SblockFlowProps\<close> draws the conclusions.
\<close>

section \<open>The two sides together\<close>

text \<open>
  Both sides see the same memory, each side's direction for sending is the other's for receiving, and in both directions
  every block is in exactly one place.
\<close>

definition linked :: "lane \<Rightarrow> lane \<Rightarrow> sblock_sys \<Rightarrow> sblock_sys \<Rightarrow> bool" where
  "linked l l' a b \<longleftrightarrow> (\<exists>ma mb opa opb. mgr a = Some ma \<and> mgr b = Some mb \<and>
     header_op (ring ma) = Some opa \<and> header_op (ring mb) = Some opb \<and> words mb = words ma \<and>
     tx_lane opa ma = l \<and> rx_lane opa ma = l' \<and> tx_lane opb mb = l' \<and> rx_lane opb mb = l \<and>
     lane_cells l \<inter> lane_cells l' = {} \<and>
     lane_inv l (words ma) (txrecord (ring ma)) (rxrecord (ring mb)) \<and>
     lane_inv l' (words ma) (txrecord (ring mb)) (rxrecord (ring ma)))"

lemma linkedE:
  assumes "linked l l' a b"
  obtains ma mb opa opb where "mgr a = Some ma" "mgr b = Some mb" "header_op (ring ma) = Some opa" "header_op (ring mb) = Some opb"
    "words mb = words ma" "tx_lane opa ma = l" "rx_lane opa ma = l'" "tx_lane opb mb = l'" "rx_lane opb mb = l"
    "lane_cells l \<inter> lane_cells l' = {}" "lane_inv l (words ma) (txrecord (ring ma)) (rxrecord (ring mb))"
    "lane_inv l' (words ma) (txrecord (ring mb)) (rxrecord (ring ma))"
  using assms unfolding linked_def by blast

lemma linked_sym: "linked l l' a b \<Longrightarrow> linked l' l b a"
  by (erule linkedE) (simp add: linked_def Int_commute)

text \<open>The other side sees what this side wrote.\<close>

definition see :: "sblock_sys \<Rightarrow> sblock_sys \<Rightarrow> sblock_sys" where
  "see a b = (case mgr a of None \<Rightarrow> b | Some ma \<Rightarrow> b\<lparr>mgr := map_option (\<lambda>m. m\<lparr>words := words ma\<rparr>) (mgr b)\<rparr>)"

lemma lane_words [simp]: "tx_lane op (m\<lparr>words := w\<rparr>) = tx_lane op m" "rx_lane op (m\<lparr>words := w\<rparr>) = rx_lane op m"
  by (simp_all add: tx_lane_def rx_lane_def)

lemma inv_frame:
  assumes "lane_inv l w tx rx" "\<And>x. x \<in> lane_cells l \<Longrightarrow> w' x = w x"
  shows "lane_inv l w' tx rx"
proof -
  have "view (pool l) w' = view (pool l) w" "view (sent l) w' = view (sent l) w"
    using assms(2) by (auto simp: lane_cells_def intro!: view_cong)
  then show ?thesis using assms(1) by (simp add: lane_inv_def places_def)
qed

lemma linked_step:
  assumes "linked l l' a b" and step: "\<And>m op. mgr a = Some m \<Longrightarrow> header_op (ring m) = Some op \<Longrightarrow> runs_tx op m a' \<or> runs_rx op m a'"
  shows "linked l l' a' (see a' b)"
proof -
  obtain ma mb opa opb where l: "mgr a = Some ma" "mgr b = Some mb" "header_op (ring ma) = Some opa" "header_op (ring mb) = Some opb"
      "words mb = words ma" "tx_lane opa ma = l" "rx_lane opa ma = l'" "tx_lane opb mb = l'" "rx_lane opb mb = l"
    and dis: "lane_cells l \<inter> lane_cells l' = {}"
    and inv: "lane_inv l (words ma) (txrecord (ring ma)) (rxrecord (ring mb))" "lane_inv l' (words ma) (txrecord (ring mb)) (rxrecord (ring ma))"
    using assms(1) by (rule linkedE)
  obtain m' where m': "mgr a' = Some m'" "header_op (ring m') = Some opa" "tx_moves opa ma m' \<or> rx_moves opa ma m'"
    using step[OF l(1,3)] by (auto simp: runs_tx_def runs_rx_def)
  then have "same_setup ma m'" by (auto simp: tx_moves_def rx_moves_def)
  note lanes = same_lanes[OF this, of opa]
  have "lane_inv l (words m') (txrecord (ring m')) (rxrecord (ring mb)) \<and> lane_inv l' (words m') (txrecord (ring mb)) (rxrecord (ring m'))"
    using m'(3)
  proof
    assume t: "tx_moves opa ma m'"
    then have o: "words m' x = words ma x" if "x \<in> lane_cells l'" for x
      using that dis l(6) unfolding tx_moves_def by blast
    have "lane_inv l' (words m') (txrecord (ring mb)) (rxrecord (ring ma))" by (rule inv_frame[OF inv(2) o])
    then show ?thesis using t inv(1) l(6) by (simp add: tx_moves_def)
  next
    assume t: "rx_moves opa ma m'"
    then have o: "words m' x = words ma x" if "x \<in> lane_cells l" for x
      using that dis l(7) unfolding rx_moves_def by blast
    have "lane_inv l (words m') (txrecord (ring ma)) (rxrecord (ring mb))" by (rule inv_frame[OF inv(1) o])
    then show ?thesis using t inv(2) l(7) by (simp add: rx_moves_def)
  qed
  then show ?thesis unfolding linked_def
    using l m'(1,2) lanes dis
    by (intro exI[of _ m'] exI[of _ "mb\<lparr>words := words m'\<rparr>"] exI[of _ opa] exI[of _ opb]) (simp add: see_def)
qed

text \<open>
  What one side may do: any call, where a block that is put back, sent or released is one that the side holds, and any
  message that is not the start of a recovery. A call that waits is seen from when it wakes up: what the other side does
  meanwhile are steps before it.
\<close>

inductive side_step :: "sblock_sys \<Rightarrow> sblock_sys \<Rightarrow> bool" where
  step_get: "sblock_get res (\<lambda>_ st. (v, st)) c blk timeout a = Some (rv, blk', a') \<Longrightarrow> side_step a a'"
| step_put: "mgr a = Some m \<Longrightarrow> header_op (ring m) = Some op \<Longrightarrow> holds_tx op m i (addr blk) \<Longrightarrow>
    sblock_put c blk a = Some a' \<Longrightarrow> side_step a a'"
| step_send: "mgr a = Some m \<Longrightarrow> header_op (ring m) = Some op \<Longrightarrow> holds_tx op m i (addr blk) \<Longrightarrow>
    sblock_send_ex r c blk yll a = Some (rv, a') \<Longrightarrow> side_step a a'"
| step_finish: "sblock_send_finish res c a = Some (rv, a') \<Longrightarrow> side_step a a'"
| step_receive: "sblock_receive res (\<lambda>_ st. (v, st)) c blk timeout a = Some (rv, blk', a') \<Longrightarrow> side_step a a'"
| step_release: "mgr a = Some m \<Longrightarrow> header_op (ring m) = Some op \<Longrightarrow> holds_rx op m i (addr blk) \<Longrightarrow>
    sblock_release r c blk a = Some (rv, a') \<Longrightarrow> side_step a a'"
| step_message: "\<not> (recovery \<and> msg_type msg = SMSG_TYPE_OPEN) \<Longrightarrow> sblock_thread_msg r msg recovery a = Some (recovery', a') \<Longrightarrow>
    side_step a a'"
| step_down: "side_step a (sblock_down c a)"

inductive pair_step :: "sblock_sys \<times> sblock_sys \<Rightarrow> sblock_sys \<times> sblock_sys \<Rightarrow> bool" where
  this_side: "side_step a a' \<Longrightarrow> pair_step (a, b) (a', see a' b)"
| other_side: "side_step b b' \<Longrightarrow> pair_step (a, b) (see b' a, b')"

text \<open>What only sends messages, wakes threads or changes the state of the channel.\<close>

lemma runs_quiet:
  assumes "mgr st' = Some m'" "m' = m \<or> (\<exists>b p. m' = sblock_poll b p m) \<or> (\<exists>s. m' = m\<lparr>sblock_state := s\<rparr>)" "header_op (ring m) = Some op"
  shows "runs_tx op m st'"
  using assms quiet_moves[of op m] by (auto simp: runs_tx_def)

lemma notify_mgr [simp]: "mgr (sblock_notify ev st) = mgr st" "ipc (sblock_notify ev st) = ipc st"
  by (simp_all add: sblock_notify_def split: option.split)

lemma message_runs:
  assumes "\<not> (recovery \<and> msg_type msg = SMSG_TYPE_OPEN)" "sblock_thread_msg r msg recovery a = Some (recovery', a')"
    and "mgr a = Some m" "header_op (ring m) = Some op"
  shows "runs_tx op m a'"
proof -
  have "\<exists>m'. mgr a' = Some m' \<and> (m' = m \<or> (\<exists>b p. m' = sblock_poll b p m) \<or> (\<exists>s. m' = m\<lparr>sblock_state := s\<rparr>))"
    using assms(1-3) unfolding sblock_thread_msg_def sblock_event_def
    by (auto simp: Let_def sblock_set_state_def split: if_splits) (metis sblock_mgr.surjective)+
  then show ?thesis using runs_quiet assms(4) by blast
qed

lemma side_step_runs:
  assumes "side_step a a'" and m: "mgr a = Some m" "header_op (ring m) = Some op"
    and inv: "lane_inv (tx_lane op m) (words m) (txrecord (ring m)) rx" "lane_inv (rx_lane op m) (words m) tx (rxrecord (ring m))"
  shows "runs_tx op m a' \<or> runs_rx op m a'"
  using assms(1)
proof cases
  case (step_get res v c blk timeout rv blk')
  show ?thesis
  proof (cases "channel2index c = INVALID_CHANEL_INDEX")
    case False
    then show ?thesis using get_runs[of c op m a rx res v blk timeout] m inv(1) step_get by (auto simp: set_up_def)
  qed (use step_get m runs_self in \<open>simp add: sblock_get_def\<close>)
next
  case (step_put m' op' i blk c)
  then have e: "m' = m" "op' = op" using m by simp_all
  show ?thesis
  proof (cases "channel2index c = INVALID_CHANEL_INDEX")
    case False
    then have up: "set_up c op m a" using m by (simp add: set_up_def)
    obtain m1 where "mgr a' = Some m1" "tx_moves op m m1"
      using put_spec[OF up inv(1) step_put(3)[unfolded e], of thesis] step_put(4) by auto
    then show ?thesis using moves_keep(1) m(2) by (auto simp: runs_tx_def)
  qed (use step_put m runs_self in \<open>simp add: sblock_put_def\<close>)
next
  case (step_send m' op' i blk r c yll rv)
  then have e: "m' = m" "op' = op" using m by simp_all
  show ?thesis
  proof (cases "channel2index c \<noteq> INVALID_CHANEL_INDEX \<and> sblock_state m = SBLOCK_STATE_READY")
    case True
    then have up: "set_up c op m a" using m by (simp add: set_up_def)
    obtain m1 where "mgr a' = Some m1" "tx_moves op m m1"
      using send_spec[OF up conjunct2[OF True] inv(1) step_send(3)[unfolded e], of r yll thesis] step_send(4) by auto
    then show ?thesis using moves_keep(1) m(2) by (auto simp: runs_tx_def)
  next
    case False
    then have "a' = a" using step_send(4) m(1) by (cases "channel2index c = INVALID_CHANEL_INDEX") (simp_all add: sblock_send_ex_def)
    then show ?thesis using runs_self m by simp
  qed
next
  case (step_finish res c rv)
  then have "mgr a' = Some m"
    using m by (auto simp: sblock_send_finish_def Let_def split: if_splits prod.splits)
  then show ?thesis using runs_self(1) m(2) by blast
next
  case (step_receive res v c blk timeout rv blk')
  show ?thesis
  proof (cases "channel2index c = INVALID_CHANEL_INDEX")
    case False
    then show ?thesis using receive_runs[of c op m a tx res v blk timeout] m inv(2) step_receive by (auto simp: set_up_def)
  qed (use step_receive m runs_self in \<open>simp add: sblock_receive_def\<close>)
next
  case (step_release m' op' i blk r c rv)
  then have e: "m' = m" "op' = op" using m by simp_all
  show ?thesis
  proof (cases "channel2index c \<noteq> INVALID_CHANEL_INDEX \<and> sblock_state m = SBLOCK_STATE_READY")
    case True
    then have up: "set_up c op m a" using m by (simp add: set_up_def)
    obtain m1 where "mgr a' = Some m1" "rx_moves op m m1"
      using release_spec[OF up conjunct2[OF True] inv(2) step_release(3)[unfolded e], of r thesis] step_release(4) by auto
    then show ?thesis using moves_keep(2) m(2) by (auto simp: runs_rx_def)
  next
    case False
    then have "a' = a" using step_release(4) m(1) by (cases "channel2index c = INVALID_CHANEL_INDEX") (simp_all add: sblock_release_def)
    then show ?thesis using runs_self m by simp
  qed
next
  case (step_message recovery msg r recovery')
  then show ?thesis using message_runs m by blast
next
  case (step_down c)
  have "mgr (sblock_down c a) = Some m \<or> mgr (sblock_down c a) = Some (m\<lparr>sblock_state := SBLOCK_STATE_IDLE\<rparr>)"
    using m(1) by (simp add: sblock_down_def)
  then have "runs_tx op m (sblock_down c a)" using runs_quiet[OF _ _ m(2)] by blast
  then show ?thesis using step_down by simp
qed

lemma linked_keeps:
  assumes "side_step a a'" "linked l l' a b"
  shows "linked l l' a' (see a' b)"
proof (rule linked_step[OF assms(2)])
  fix m op assume m: "mgr a = Some m" "header_op (ring m) = Some op"
  with assms(2) have "\<exists>rx. lane_inv (tx_lane op m) (words m) (txrecord (ring m)) rx" "\<exists>tx. lane_inv (rx_lane op m) (words m) tx (rxrecord (ring m))"
    unfolding linked_def by auto
  then show "runs_tx op m a' \<or> runs_rx op m a'" using side_step_runs[OF assms(1) m] by blast
qed

lemma linked_reach: "pair_step\<^sup>*\<^sup>* p q \<Longrightarrow> linked l l' (fst p) (snd p) \<Longrightarrow> linked l l' (fst q) (snd q)"
proof (induction rule: rtranclp_induct)
  case (step q r)
  from step.hyps(2) step.IH[OF step.prems] show ?case
    by cases (auto intro: linked_keeps linked_sym)
qed simp

text \<open>What no step changes: the set-up of either side and the memory outside the rings.\<close>

definition kept :: "lane \<Rightarrow> lane \<Rightarrow> sblock_mgr \<Rightarrow> sblock_mgr \<Rightarrow> bool" where
  "kept l l' m m' \<longleftrightarrow> same_setup m m' \<and> (\<forall>x. x \<notin> lane_cells l \<union> lane_cells l' \<longrightarrow> words m' x = words m x)"

lemma kept_trans: "kept l l' m m' \<Longrightarrow> kept l l' m' m'' \<Longrightarrow> kept l l' m m''"
  by (auto simp: kept_def intro: setup_trans)

lemma step_kept:
  assumes "side_step a a'" "linked l l' a b" "mgr a = Some m"
  shows "\<exists>m'. mgr a' = Some m' \<and> kept l l' m m'"
proof -
  obtain op where op: "header_op (ring m) = Some op" "tx_lane op m = l" "rx_lane op m = l'"
      "\<exists>rx. lane_inv (tx_lane op m) (words m) (txrecord (ring m)) rx" "\<exists>tx. lane_inv (rx_lane op m) (words m) tx (rxrecord (ring m))"
    using assms(2,3) unfolding linked_def by auto
  then have "runs_tx op m a' \<or> runs_rx op m a'" using side_step_runs[OF assms(1,3)] by blast
  then show ?thesis using op(2,3) by (auto simp: kept_def runs_tx_def runs_rx_def tx_moves_def rx_moves_def)
qed

lemma see_kept:
  assumes "linked l l' a b" "mgr a = Some m" "mgr a' = Some m'" "kept l l' m m'" "mgr b = Some n"
  shows "\<exists>n'. mgr (see a' b) = Some n' \<and> kept l l' n n'"
  using assms by (auto simp: linked_def see_def kept_def same_setup_def)

lemma kept_reach:
  assumes "pair_step\<^sup>*\<^sup>* p q" "linked l l' (fst p) (snd p)" "mgr (fst p) = Some m"
  shows "\<exists>m'. mgr (fst q) = Some m' \<and> kept l l' m m'"
  using assms(1)
proof (induction rule: rtranclp_induct)
  case base
  then show ?case using assms(3) by (simp add: kept_def)
next
  case (step q r)
  have l: "linked l l' (fst q) (snd q)" using linked_reach[OF step.hyps(1) assms(2)] .
  obtain m1 n1 where m1: "mgr (fst q) = Some m1" "kept l l' m m1" "mgr (snd q) = Some n1" using step.IH l by (auto simp: linked_def)
  from step.hyps(2) have "\<exists>m'. mgr (fst r) = Some m' \<and> kept l l' m1 m'"
  proof cases
    case (this_side a a' b)
    then show ?thesis using step_kept l m1(1) by auto
  next
    case (other_side b b' a)
    have ls: "linked l' l b a" "mgr b = Some n1" "mgr a = Some m1" using linked_sym[OF l] m1 other_side by simp_all
    obtain n2 where n2: "mgr b' = Some n2" "kept l' l n1 n2" using step_kept[OF other_side(3) ls(1,2)] by blast
    show ?thesis using see_kept[OF ls(1,2) n2 ls(3)] other_side by (auto simp: kept_def Un_commute)
  qed
  then show ?case using m1(2) kept_trans by blast
qed

end
