(* ===== verification/SblockInitProps.thy ===== *)
theory SblockInitProps
  imports SblockLinkProps
begin

text \<open>
  How the host lays out the area and the client finds it: the headers, the full pools, and that the two sides are linked.
\<close>

section \<open>The start\<close>

text \<open>Filling the pool.\<close>

lemma fill_view:
  fixes a sz :: u32
  assumes q: "mring_ok q" and w0: "w (rdp q) = 0" "w (wtp q) = 0" and k: "k \<le> unat (mcount q)"
  defines "fill \<equiv> \<lambda>k. fold (init_pool_entry (mbase q) (wtp q) a sz) [0..<k] w"
  shows "view q (fill k) = map (\<lambda>i. (a + of_nat i * sz, sz)) [0..<k] \<and> fill k (wtp q) = of_nat k \<and> (\<forall>x. x \<notin> cells q \<longrightarrow> fill k x = w x)"
  using k
proof (induction k)
  case 0
  then show ?case using w0 by (simp add: fill_def view_def)
next
  case (Suc k)
  let ?w = "fill k" and ?a = "a + of_nat k * sz"
  have IH: "view q ?w = map (\<lambda>i. (a + of_nat i * sz, sz)) [0..<k]" "?w (wtp q) = of_nat k" "\<And>x. x \<notin> cells q \<Longrightarrow> ?w x = w x"
    using Suc by simp_all
  then have room: "length (view q ?w) < unat (mcount q)" using Suc.prems by simp
  obtain pos where pos: "sblock_get_ringpos (?w (wtp q)) (mcount q) = Some pos"
      "put_blk (mbase q) pos ?a sz ?w (wtp q) = ?w (wtp q)"
      "view q ((put_blk (mbase q) pos ?a sz ?w)(wtp q := ?w (wtp q) + 1)) = view q ?w @ [(?a, sz)]"
      "\<And>x. x \<notin> cells q \<Longrightarrow> ((put_blk (mbase q) pos ?a sz ?w)(wtp q := ?w (wtp q) + 1)) x = ?w x"
    using view_push[OF q room, of "?a" sz thesis] by metis
  obtain K where K: "K < 32" "mcount q = 2 ^ K" "unat (mcount q) = 2 ^ K" using q by (rule mring_okE)
  have kl: "k < 2 ^ K" using Suc.prems K(3) by simp
  have "(2::nat) ^ K < 2 ^ 32" using K(1) by (intro power_strict_increasing) simp_all
  then have "unat (of_nat k :: u32) = k" using kl by (simp add: unat_of_nat take_bit_eq_mod)
  then have "unat ((of_nat k :: u32) AND (2 ^ K - 1)) = unat (of_nat k :: u32)" using kl K(1) by (simp add: unat_and_pow2)
  then have "(of_nat k :: u32) AND (2 ^ K - 1) = of_nat k" by (rule word_unat_eq_iff[THEN iffD2])
  then have "pos = of_nat k" using pos(1) IH(2) K by (simp add: ringpos_pow2)
  then have "fill (Suc k) = (put_blk (mbase q) pos ?a sz ?w)(wtp q := ?w (wtp q) + 1)"
    using pos(2) by (simp add: fill_def init_pool_entry_def Let_def)
  then have "view q (fill (Suc k)) = view q ?w @ [(?a, sz)]" "\<And>x. x \<notin> cells q \<Longrightarrow> fill (Suc k) x = ?w x"
      "fill (Suc k) (wtp q) = ?w (wtp q) + 1"
    using pos(3,4) by (simp_all only: fun_upd_same)
  then show ?case using IH by simp
qed

lemma count_list_distinct: "distinct xs \<Longrightarrow> count_list xs x = of_bool (x \<in> set xs)"
  by (induction xs) auto

text \<open>A full pool and an empty ring, with no block taken.\<close>

lemma inv_start:
  assumes ok: "lane_ok l" and pool: "view (pool l) w = map (\<lambda>i. (stored l i, sz)) [0..<lane_n l]" and sent: "view (sent l) w = []"
    and rec: "tx = replicate (lane_n l) SBLOCK_BLK_STATE_DONE" "rx = replicate (lane_n l) SBLOCK_BLK_STATE_DONE"
  shows "lane_inv l w tx rx"
proof -
  have "map fst (view (pool l) w) = map (stored l) [0..<lane_n l]" using pool by simp
  moreover have "distinct (map (stored l) [0..<lane_n l])" using inj_stored[OF ok] by (simp add: distinct_map atLeast0LessThan)
  ultimately have "places l w tx rx i = 1" if "i < lane_n l" for i
    using that sent rec by (auto simp: places_def count_list_distinct)
  then show ?thesis using ok pool sent rec by (auto simp: lane_inv_def)
qed

text \<open>The sizes for which the area fits into 32-bit addresses.\<close>

definition sblock_fits :: "u32 \<Rightarrow> u32 \<Rightarrow> u32 \<Rightarrow> u32 \<Rightarrow> bool" where
  "sblock_fits txnum txsize rxnum rxsize \<longleftrightarrow>
     (\<exists>k<32. txnum = 2 ^ k) \<and> (\<exists>k<32. rxnum = 2 ^ k) \<and> 0 < unat (align_up txsize) \<and> 0 < unat (align_up rxsize) \<and>
     96 + unat txnum * unat (align_up txsize) + unat rxnum * unat (align_up rxsize) + 16 * (unat txnum + unat rxnum) < 4294967296"

lemma unat_eqI: "x = of_nat n \<Longrightarrow> n < 4294967296 \<Longrightarrow> unat (x::u32) = n"
  by (simp add: unat_of_nat take_bit_eq_mod)

text \<open>The two directions as the host lays them out, from the host to the client and back.\<close>

definition lane_down :: "u32 \<Rightarrow> u32 \<Rightarrow> u32 \<Rightarrow> u32 \<Rightarrow> u32 \<Rightarrow> lane" where
  "lane_down org txnum ts rxnum rs =
     (let rt = 96 + txnum * ts + rxnum * rs in
      \<lparr>pool = \<lparr>rdp = 64, wtp = 68, mbase = rt + txnum * 8 + rxnum * 8, mcount = txnum\<rparr>,
       sent = \<lparr>rdp = 16, wtp = 20, mbase = rt, mcount = txnum\<rparr>, blk0 = 96, bsize = ts, origin = org\<rparr>)"

definition lane_up :: "u32 \<Rightarrow> u32 \<Rightarrow> u32 \<Rightarrow> u32 \<Rightarrow> u32 \<Rightarrow> lane" where
  "lane_up org txnum ts rxnum rs =
     (let rt = 96 + txnum * ts + rxnum * rs in
      \<lparr>pool = \<lparr>rdp = 88, wtp = 92, mbase = rt + txnum * 8 + rxnum * 8 + txnum * 8, mcount = rxnum\<rparr>,
       sent = \<lparr>rdp = 40, wtp = 44, mbase = rt + txnum * 8, mcount = rxnum\<rparr>, blk0 = 96 + txnum * ts, bsize = rs, origin = org\<rparr>)"

lemma lanes_ok:
  fixes org :: u32
  assumes fits: "sblock_fits txnum txsize rxnum rxsize" and ts: "ts = align_up txsize" and rs: "rs = align_up rxsize"
  defines "l1 \<equiv> lane_down org txnum ts rxnum rs" and "l2 \<equiv> lane_up org txnum ts rxnum rs"
  shows "lane_ok l1" "lane_ok l2" "lane_n l1 = unat txnum" "lane_n l2 = unat rxnum" "lane_cells l1 \<inter> lane_cells l2 = {}"
    "\<And>x. x < 96 \<Longrightarrow> x \<notin> {64, 68} \<Longrightarrow> x \<notin> cells (pool l1)" "\<And>x. x < 96 \<Longrightarrow> x \<notin> {88, 92} \<Longrightarrow> x \<notin> cells (pool l2)"
    "\<And>x. x < 96 \<Longrightarrow> x \<notin> {16, 20, 40, 44, 64, 68, 88, 92} \<Longrightarrow> x \<notin> lane_cells l1 \<union> lane_cells l2"
proof -
  define n where "n = unat txnum"
  define n' where "n' = unat rxnum"
  define b where "b = 96 + n * unat ts + n' * unat rs"
  have f: "\<exists>k<32. txnum = 2 ^ k" "\<exists>k<32. rxnum = 2 ^ k" "0 < unat ts" "0 < unat rs" "b + 16 * (n + n') < 4294967296" "96 \<le> b"
      "n * unat ts < 4294967296" "n' * unat rs < 4294967296"
    using fits by (simp_all add: sblock_fits_def ts rs b_def n_def n'_def)
  note ldefs = l1_def l2_def lane_down_def lane_up_def Let_def
  have p: "rdp (pool l1) = 64" "wtp (pool l1) = 68" "mcount (pool l1) = txnum" "rdp (sent l1) = 16" "wtp (sent l1) = 20" "mcount (sent l1) = txnum"
      "rdp (pool l2) = 88" "wtp (pool l2) = 92" "mcount (pool l2) = rxnum" "rdp (sent l2) = 40" "wtp (sent l2) = 44" "mcount (sent l2) = rxnum"
      "bsize l1 = ts" "bsize l2 = rs"
    by (simp_all add: ldefs)
  have bs: "unat (mbase (sent l1)) = b" "unat (mbase (sent l2)) = b + 8 * n" "unat (mbase (pool l1)) = b + 8 * n + 8 * n'"
      "unat (mbase (pool l2)) = b + 16 * n + 8 * n'"
    using f(5) by (intro unat_eqI; simp add: ldefs b_def n_def n'_def)+
  note defs = lane_cells_def cells_def lane_n_def
  show "lane_ok l1" "lane_ok l2" "lane_n l1 = unat txnum" "lane_n l2 = unat rxnum"
    using f by (auto simp: lane_ok_def mring_ok_def defs p bs simp flip: n_def n'_def)
  show "lane_cells l1 \<inter> lane_cells l2 = {}" "\<And>x. x < 96 \<Longrightarrow> x \<notin> {64, 68} \<Longrightarrow> x \<notin> cells (pool l1)"
    "\<And>x. x < 96 \<Longrightarrow> x \<notin> {88, 92} \<Longrightarrow> x \<notin> cells (pool l2)"
    "\<And>x. x < 96 \<Longrightarrow> x \<notin> {16, 20, 40, 44, 64, 68, 88, 92} \<Longrightarrow> x \<notin> lane_cells l1 \<union> lane_cells l2"
    using f(5,6) by (auto simp: defs p bs simp flip: n_def n'_def)
qed

text \<open>What the two initialisations leave in the area and in the two managers.\<close>

definition header_done :: "lane \<Rightarrow> lane \<Rightarrow> u32 \<Rightarrow> (nat \<Rightarrow> u32) \<Rightarrow> bool" where
  "header_done l1 l2 org w \<longleftrightarrow>
     w 0 = blk0 l1 + org \<and> w 4 = mcount (sent l1) \<and> w 8 = bsize l1 \<and> w 12 = mbase (sent l1) + org \<and>
     w 24 = blk0 l2 + org \<and> w 28 = mcount (sent l2) \<and> w 32 = bsize l2 \<and> w 36 = mbase (sent l2) + org \<and>
     w 52 = mcount (pool l1) \<and> w 60 = mbase (pool l1) + org \<and> w 76 = mcount (pool l2) \<and> w 84 = mbase (pool l2) + org"

definition layout_done :: "lane \<Rightarrow> lane \<Rightarrow> u32 \<Rightarrow> (nat \<Rightarrow> u32) \<Rightarrow> bool" where
  "layout_done l1 l2 org w \<longleftrightarrow> header_done l1 l2 org w \<and> w 68 = mcount (pool l1) \<and> w 92 = mcount (pool l2) \<and>
     view (sent l1) w = [] \<and> view (sent l2) w = [] \<and>
     view (pool l1) w = map (\<lambda>i. (stored l1 i, bsize l1)) [0..<lane_n l1] \<and>
     view (pool l2) w = map (\<lambda>i. (stored l2 i, bsize l2)) [0..<lane_n l2]"

lemma host_layout:
  assumes fits: "sblock_fits txnum txsize rxnum rxsize"
    and host: "sblock_host_init base (Some w) True True res txnum txsize rxnum rxsize m st = (0, mh, sth)"
  defines "org \<equiv> base - smem_base st + dst_smem_base st"
  defines "l1 \<equiv> lane_down org txnum (align_up txsize) rxnum (align_up rxsize)"
    and "l2 \<equiv> lane_up org txnum (align_up txsize) rxnum (align_up rxsize)"
  obtains op where "layout_done l1 l2 org (words mh)" "dst_smem_addr mh = org" "header_op (ring mh) = Some op"
    "tx_lane op mh = l1" "rx_lane op mh = l2"
    "txrecord (ring mh) = replicate (lane_n l1) 0" "rxrecord (ring mh) = replicate (lane_n l2) 0"
    "tx_addr (poolhd_op op) = blk0 l1 + org" "rx_addr (poolhd_op op) = blk0 l2 + org"
    "\<And>x. 96 \<le> x \<Longrightarrow> x \<notin> lane_cells l1 \<union> lane_cells l2 \<Longrightarrow> words mh x = w x"
proof -
  define ts where "ts = align_up txsize"
  define rs where "rs = align_up rxsize"
  have l: "l1 = lane_down org txnum ts rxnum rs" "l2 = lane_up org txnum ts rxnum rs" by (simp_all add: l1_def l2_def ts_def rs_def)
  note ok = lanes_ok[OF fits ts_def rs_def, where org = org, folded l]
  note ldefs = lane_down_def lane_up_def Let_def
  define w1 where "w1 = init_poolhd org txnum ts rxnum rs (init_ringhd org txnum ts rxnum rs w)"
  have w1: "w1 0 = blk0 l1 + org" "w1 4 = txnum" "w1 8 = ts" "w1 12 = mbase (sent l1) + org" "w1 16 = 0" "w1 20 = 0"
      "w1 24 = blk0 l2 + org" "w1 28 = rxnum" "w1 32 = rs" "w1 36 = mbase (sent l2) + org" "w1 40 = 0" "w1 44 = 0"
      "w1 48 = blk0 l1 + org" "w1 52 = txnum" "w1 60 = mbase (pool l1) + org" "w1 64 = 0" "w1 68 = 0"
      "w1 72 = blk0 l2 + org" "w1 76 = rxnum" "w1 84 = mbase (pool l2) + org" "w1 88 = 0" "w1 92 = 0"
    by (simp_all add: w1_def init_poolhd_def init_ringhd_def l ldefs)
  define w2 where "w2 = fold (init_pool_entry (mbase (pool l1)) 68 (blk0 l1 + org) ts) [0..<unat txnum] w1"
  define w3 where "w3 = fold (init_pool_entry (mbase (pool l2)) 92 (blk0 l2 + org) rs) [0..<unat rxnum] w2"
  have p: "rdp (pool l1) = 64" "wtp (pool l1) = 68" "mcount (pool l1) = txnum" "rdp (pool l2) = 88" "wtp (pool l2) = 92" "mcount (pool l2) = rxnum"
    by (simp_all add: l ldefs)
  have v2: "view (pool l1) w2 = map (\<lambda>i. (blk0 l1 + org + of_nat i * ts, ts)) [0..<unat txnum]" "\<And>x. x \<notin> cells (pool l1) \<Longrightarrow> w2 x = w1 x" "w2 68 = txnum"
    using fill_view[of "pool l1" w1 "unat txnum" "blk0 l1 + org" ts] ok(1) w1 p by (simp_all add: lane_ok_def w2_def)
  have h2: "w2 72 = blk0 l2 + org" "w2 88 = 0" "w2 92 = 0" using v2(2) ok(6) w1 by simp_all
  then have v3: "view (pool l2) w3 = map (\<lambda>i. (blk0 l2 + org + of_nat i * rs, rs)) [0..<unat rxnum]" "\<And>x. x \<notin> cells (pool l2) \<Longrightarrow> w3 x = w2 x" "w3 92 = rxnum"
    using fill_view[of "pool l2" w2 "unat rxnum" "blk0 l2 + org" rs] ok(2) p by (simp_all add: lane_ok_def w3_def)
  have h3: "w3 x = w1 x" if "x < 96" "x \<notin> {64, 68, 88, 92}" for x using v2(2)[of x] v3(2)[of x] that ok(6,7) by simp
  have c3: "w3 68 = txnum" using v2(3) v3(2)[of 68] ok(7) by simp
  have hm: "words mh = w3 \<and> dst_smem_addr mh = org \<and> stored_smem_addr mh = org \<and> txblksz mh = ts \<and> rxblksz mh = rs \<and>
      txrecord (ring mh) = replicate (unat txnum) 0 \<and> rxrecord (ring mh) = replicate (unat rxnum) 0 \<and>
      header_op (ring mh) = Some \<lparr>ringhd_op = host_header_op 0 w3, poolhd_op = host_header_op 48 w3\<rparr> \<and>
      txblk_virt (ring mh) = blk0 l1 \<and> rxblk_virt (ring mh) = blk0 l2 \<and> r_txblks (ring mh) = mbase (sent l1) \<and>
      r_rxblks (ring mh) = mbase (sent l2) \<and> p_txblks (ring mh) = mbase (pool l1) \<and> p_rxblks (ring mh) = mbase (pool l2)"
    using host unfolding sblock_host_init_def Let_def sblock_host_ring_def
    by (auto simp: w1 h2 simp flip: ts_def rs_def org_def w1_def w2_def w3_def split: if_splits)
  have "w1 x = w x" if "96 \<le> x" for x using that by (simp add: w1_def init_poolhd_def init_ringhd_def Let_def)
  then have "words mh x = w x" if "96 \<le> x" "x \<notin> lane_cells l1 \<union> lane_cells l2" for x
    using that hm v2(2)[of x] v3(2)[of x] by (simp add: lane_cells_def)
  moreover define op where "op = \<lparr>ringhd_op = host_header_op 0 w3, poolhd_op = host_header_op 48 w3\<rparr>"
  have "tx_lane op mh = l1" "rx_lane op mh = l2"
    using hm by (simp_all add: tx_lane_def rx_lane_def op_def host_header_op_def w1 h3) (simp_all add: l ldefs)
  moreover have "layout_done l1 l2 org w3"
  proof -
    have "view (pool l1) w3 = view (pool l1) w2" using v3(2) ok(5) by (intro view_cong) (auto simp: lane_cells_def)
    moreover have "blk0 l1 + org + of_nat i * ts = stored l1 i" "blk0 l2 + org + of_nat i * rs = stored l2 i" for i
      by (simp_all add: stored_def blk_start_def l ldefs algebra_simps)
    ultimately have "view (pool l1) w3 = map (\<lambda>i. (stored l1 i, ts)) [0..<lane_n l1]" "view (pool l2) w3 = map (\<lambda>i. (stored l2 i, rs)) [0..<lane_n l2]"
      using v2(1) v3(1) ok(3,4) by simp_all
    then show ?thesis by (simp add: layout_done_def header_done_def w1 h3 c3 v3(3) p) (simp add: l ldefs view_def w1 h3)
  qed
  ultimately show ?thesis using that[of op] hm ok(3,4) by (simp add: op_def host_header_op_def w1 h3)
qed

lemma client_layout:
  assumes client: "sblock_client_init True debug w True True True res m st = (0, mc, stc)"
    and l: "header_done l1 l2 (smem_addr m) w" "lane_n l1 = unat txnum" "lane_n l2 = unat rxnum"
      "l1 = lane_down (smem_addr m) txnum ts rxnum rs" "l2 = lane_up (smem_addr m) txnum ts rxnum rs"
  obtains op where "words mc = w" "header_op (ring mc) = Some op" "tx_lane op mc = l2" "rx_lane op mc = l1"
    "txrecord (ring mc) = replicate (lane_n l2) 0" "rxrecord (ring mc) = replicate (lane_n l1) 0"
proof -
  note ldefs = lane_down_def lane_up_def Let_def
  have h: "w 0 = blk0 l1 + smem_addr m" "w 4 = txnum" "w 8 = ts" "w 12 = mbase (sent l1) + smem_addr m"
      "w 24 = blk0 l2 + smem_addr m" "w 28 = rxnum" "w 32 = rs" "w 36 = mbase (sent l2) + smem_addr m"
      "w 52 = txnum" "w 60 = mbase (pool l1) + smem_addr m" "w 76 = rxnum" "w 84 = mbase (pool l2) + smem_addr m"
    using l(1) unfolding header_done_def by (simp_all add: l(4,5) ldefs)
  have hc: "words mc = w \<and> stored_smem_addr mc = smem_addr m \<and> txblksz mc = rs \<and> rxblksz mc = ts \<and>
      txrecord (ring mc) = replicate (unat rxnum) 0 \<and> rxrecord (ring mc) = replicate (unat txnum) 0 \<and>
      header_op (ring mc) = Some \<lparr>ringhd_op = client_header_op 0 w, poolhd_op = client_header_op 48 w\<rparr> \<and>
      txblk_virt (ring mc) = blk0 l2 \<and> rxblk_virt (ring mc) = blk0 l1 \<and> r_txblks (ring mc) = mbase (sent l2) \<and>
      r_rxblks (ring mc) = mbase (sent l1) \<and> p_txblks (ring mc) = mbase (pool l2) \<and> p_rxblks (ring mc) = mbase (pool l1)"
    using client unfolding sblock_client_init_def Let_def sblock_client_ring_def by (auto simp: h split: if_splits)
  define op where "op = \<lparr>ringhd_op = client_header_op 0 w, poolhd_op = client_header_op 48 w\<rparr>"
  have "tx_lane op mc = l2" "rx_lane op mc = l1"
    using hc by (simp_all add: tx_lane_def rx_lane_def op_def client_header_op_def h) (simp_all add: l(4,5) ldefs)
  then show ?thesis using that[of op] hc l(2,3) by (simp add: op_def)
qed

lemma init_linked:
  assumes fits: "sblock_fits txnum txsize rxnum rxsize"
    and host: "sblock_host_init base (Some w) True True res txnum txsize rxnum rxsize m st = (0, mh, sth)"
    and client: "sblock_client_init True debug (words mh) True True True res' m' st' = (0, mc, stc)"
    and told: "smem_addr m' = dst_smem_addr mh"
  defines "org \<equiv> base - smem_base st + dst_smem_base st"
  defines "l1 \<equiv> lane_down org txnum (align_up txsize) rxnum (align_up rxsize)"
    and "l2 \<equiv> lane_up org txnum (align_up txsize) rxnum (align_up rxsize)"
  shows "linked l1 l2 (set_sblock mh sth) (set_sblock mc stc)" "lane_n l1 = unat txnum" "lane_n l2 = unat rxnum"
proof -
  note ok = lanes_ok[OF fits refl refl, where org = org, folded l1_def l2_def]
  obtain opa where a: "layout_done l1 l2 org (words mh)" "dst_smem_addr mh = org" "header_op (ring mh) = Some opa"
      "tx_lane opa mh = l1" "rx_lane opa mh = l2" "txrecord (ring mh) = replicate (lane_n l1) 0" "rxrecord (ring mh) = replicate (lane_n l2) 0"
    using host_layout[OF fits host, folded org_def, folded l1_def l2_def] by blast
  obtain opb where c: "words mc = words mh" "header_op (ring mc) = Some opb" "tx_lane opb mc = l2" "rx_lane opb mc = l1"
      "txrecord (ring mc) = replicate (lane_n l2) 0" "rxrecord (ring mc) = replicate (lane_n l1) 0"
    using client_layout[OF client, of l1 l2 txnum rxnum "align_up txsize" "align_up rxsize"] told a(1,2) ok(3,4) l1_def l2_def by (auto simp: layout_done_def)
  have "lane_inv l1 (words mh) (replicate (lane_n l1) 0) (replicate (lane_n l1) 0)" "lane_inv l2 (words mh) (replicate (lane_n l2) 0) (replicate (lane_n l2) 0)"
    using inv_start[OF ok(1), of "words mh" "bsize l1"] inv_start[OF ok(2), of "words mh" "bsize l2"] a(1) by (simp_all add: layout_done_def)
  then show "linked l1 l2 (set_sblock mh sth) (set_sblock mc stc)" unfolding linked_def
    using a c ok(5) by (intro exI[of _ mh] exI[of _ mc] exI[of _ opa] exI[of _ opb]) simp
  show "lane_n l1 = unat txnum" "lane_n l2 = unat rxnum" by (rule ok(3), rule ok(4))
qed

end
