(* ===== verification/SblockRefillProps.thy ===== *)
theory SblockRefillProps
  imports SblockInitProps
begin

text \<open>
  What a recovery does to the pools: the loop that refills one, the list it holds afterwards, and the two cases that matter,
  no block held and one block held. \<open>SblockRecoverProps\<close> draws the conclusions.
\<close>

section \<open>Refilling a pool\<close>

text \<open>The blocks that are not pending, and the entries the loop writes for them.\<close>

definition done_blks :: "int list \<Rightarrow> nat list" where
  "done_blks records = filter (\<lambda>i. records ! i = SBLOCK_BLK_STATE_DONE) [0..<length records]"

definition refilled :: "u32 \<Rightarrow> u32 \<Rightarrow> nat list \<Rightarrow> (u32 \<times> u32) list" where
  "refilled a sz is = map (\<lambda>i. (of_nat i * sz + a, sz)) is"

lemma refill_runs:
  assumes "\<forall>i\<in>set is. i < length records" "j + length (filter (\<lambda>i. records ! i = SBLOCK_BLK_STATE_DONE) is) \<le> n" "n \<le> 4294967296"
    and wt: "wt \<notin> {unat b..<unat b + 8 * n}"
  shows "\<exists>w'. refill records b wt a sz is j w = Some w' \<and>
    entries w' (unat b) n = take j (entries w (unat b) n) @ refilled a sz (filter (\<lambda>i. records ! i = SBLOCK_BLK_STATE_DONE) is) @
      drop (j + length (filter (\<lambda>i. records ! i = SBLOCK_BLK_STATE_DONE) is)) (entries w (unat b) n) \<and>
    w' wt = w wt + of_nat (length (filter (\<lambda>i. records ! i = SBLOCK_BLK_STATE_DONE) is)) \<and>
    (\<forall>x. x \<noteq> wt \<longrightarrow> x \<notin> {unat b..<unat b + 8 * n} \<longrightarrow> w' x = w x)"
  using assms(1,2)
proof (induction "is" arbitrary: j w)
  case Nil
  then show ?case by (simp add: refilled_def)
next
  case (Cons i "is")
  show ?case
  proof (cases "records ! i = SBLOCK_BLK_STATE_DONE")
    case False
    then show ?thesis using Cons by simp
  next
    case True
    let ?f = "filter (\<lambda>i. records ! i = SBLOCK_BLK_STATE_DONE) is" and ?e = "(of_nat i * sz + a, sz)"
    let ?w1 = "put_blk b (of_nat j) (of_nat i * sz + a) sz w"
    define w2 where "w2 = ?w1(wt := ?w1 wt + 1)"
    have j: "j < n" "unat (of_nat j :: u32) = j" "Suc j + length ?f \<le> n"
      using Cons.prems(2) True assms(3) by (simp_all add: unat_of_nat take_bit_eq_mod)
    have o: "?w1 x = w x" if "x \<notin> {unat b..<unat b + 8 * n}" for x
      using put_blk_other[OF _ that] j by simp
    have "entries w2 (unat b) n = entries ?w1 (unat b) n" using wt by (intro entries_cong) (auto simp: w2_def)
    also have "\<dots> = (entries w (unat b) n)[j := ?e]" using entries_put[of "of_nat j" n b] j by simp
    finally have e: "entries w2 (unat b) n = (entries w (unat b) n)[j := ?e]" .
    then have "take (Suc j) (entries w2 (unat b) n) = take j (entries w (unat b) n) @ [?e]"
      "drop (Suc j + length ?f) (entries w2 (unat b) n) = drop (Suc j + length ?f) (entries w (unat b) n)"
      using j by (simp_all add: take_Suc_conv_app_nth)
    moreover obtain w' where "refill records b wt a sz is (Suc j) w2 = Some w'"
      "entries w' (unat b) n = take (Suc j) (entries w2 (unat b) n) @ refilled a sz ?f @ drop (Suc j + length ?f) (entries w2 (unat b) n)"
      "w' wt = w2 wt + of_nat (length ?f)" "\<forall>x. x \<noteq> wt \<longrightarrow> x \<notin> {unat b..<unat b + 8 * n} \<longrightarrow> w' x = w2 x"
      using Cons.IH[of "Suc j" w2] Cons.prems(1) j(3) by auto
    moreover have "refill records b wt a sz (i # is) j w = refill records b wt a sz is (Suc j) w2"
      using True Cons.prems(1) by (simp add: Let_def w2_def not_le)
    moreover have "w2 wt = w wt + 1" "\<forall>x. x \<noteq> wt \<longrightarrow> x \<notin> {unat b..<unat b + 8 * n} \<longrightarrow> w2 x = w x"
      using o o[OF wt] by (simp_all add: w2_def)
    ultimately show ?thesis using True by (simp add: refilled_def)
  qed
qed

text \<open>A pool whose two counters are equal, refilled.\<close>

lemma refill_pool:
  assumes q: "mring_ok q" and n: "length records = unat (mcount q)" and c: "w (wtp q) = w (rdp q)"
  obtains w' where "refill records (mbase q) (wtp q) a sz [0..<unat (mcount q)] 0 w = Some w'" "\<And>x. x \<notin> cells q \<Longrightarrow> w' x = w x"
    "view q w' = ring_view (refilled a sz (done_blks records) @ drop (length (done_blks records)) (entries w (unat (mbase q)) (unat (mcount q))))
      (unat (w (rdp q))) (length (done_blks records))"
proof -
  let ?n = "unat (mcount q)" and ?b = "unat (mbase q)"
  obtain k where k: "k < 32" "?n = 2 ^ k" "rdp q \<noteq> wtp q" "rdp q \<notin> {?b..<?b + 8 * ?n}" "wtp q \<notin> {?b..<?b + 8 * ?n}"
    using q by (elim mring_okE) metis
  have "(2::nat) ^ k < 2 ^ 32" using k(1) by (intro power_strict_increasing) simp_all
  then have n32: "?n < 4294967296" using k(2) by simp
  have len: "length (done_blks records) \<le> ?n" unfolding done_blks_def n[symmetric] using length_filter_le[of _ "[0..<length records]"] by simp
  have d: "filter (\<lambda>i. records ! i = SBLOCK_BLK_STATE_DONE) [0..<?n] = done_blks records" by (simp add: done_blks_def n)
  obtain w' where w': "refill records (mbase q) (wtp q) a sz [0..<?n] 0 w = Some w'"
      "entries w' ?b ?n = refilled a sz (done_blks records) @ drop (length (done_blks records)) (entries w ?b ?n)"
      "w' (wtp q) = w (wtp q) + of_nat (length (done_blks records))"
      "\<forall>x. x \<noteq> wtp q \<longrightarrow> x \<notin> {?b..<?b + 8 * ?n} \<longrightarrow> w' x = w x"
    using refill_runs[of "[0..<?n]" records 0 ?n "wtp q" "mbase q" a sz w] k(5) n len n32 by (auto simp: d)
  have r: "w' (rdp q) = w (rdp q)" using w'(4) k(3,4) by auto
  have "unat (of_nat (length (done_blks records)) :: u32) = length (done_blks records)"
    using len n32 by (simp add: unat_of_nat take_bit_eq_mod)
  then have "unat (w' (wtp q) - w' (rdp q)) = length (done_blks records)" by (simp add: w'(3) r c)
  then have "view q w' = ring_view (refilled a sz (done_blks records) @ drop (length (done_blks records)) (entries w ?b ?n))
      (unat (w (rdp q))) (length (done_blks records))"
    by (simp add: view_def w'(2) r)
  with w'(1,4) show ?thesis by (intro that) (auto simp: cells_def)
qed

section \<open>What a recovery does\<close>

text \<open>The list a pool holds afterwards: as many entries as there are free blocks, from its counter on.\<close>

definition rebuilt :: "mring \<Rightarrow> (nat \<Rightarrow> u32) \<Rightarrow> u32 \<Rightarrow> u32 \<Rightarrow> u32 \<Rightarrow> int list \<Rightarrow> (u32 \<times> u32) list" where
  "rebuilt q w c a sz records =
     ring_view (refilled a sz (done_blks records) @ drop (length (done_blks records)) (entries w (unat (mbase q)) (unat (mcount q))))
       (unat c) (length (done_blks records))"

text \<open>One direction: its counters have been made equal, and the loop runs.\<close>

lemma lane_rebuilt:
  assumes ok: "lane_ok l" and n: "length records = lane_n l"
    and c: "w1 (rdp (pool l)) = c" "w1 (wtp (pool l)) = c" "w1 (rdp (sent l)) = w1 (wtp (sent l))"
    and same: "\<And>x. x \<in> lane_cells l \<Longrightarrow> x \<notin> {rdp (pool l), wtp (pool l), rdp (sent l), wtp (sent l)} \<Longrightarrow> w1 x = w x"
  obtains w' where "refill records (mbase (pool l)) (wtp (pool l)) a sz [0..<lane_n l] 0 w1 = Some w'"
    "\<And>x. x \<notin> cells (pool l) \<Longrightarrow> w' x = w1 x" "view (pool l) w' = rebuilt (pool l) w c a sz records" "view (sent l) w' = []"
proof -
  let ?q = "pool l"
  have q: "mring_ok ?q" and apart: "cells ?q \<inter> cells (sent l) = {}" using ok by (simp_all add: lane_ok_def)
  have "x \<in> lane_cells l \<and> x \<notin> {rdp (pool l), wtp (pool l), rdp (sent l), wtp (sent l)}"
    if "x \<in> {unat (mbase ?q)..<unat (mbase ?q) + 8 * unat (mcount ?q)}" for x
  proof -
    have "x \<in> cells ?q" "x \<noteq> rdp ?q" "x \<noteq> wtp ?q" using that q by (auto simp: cells_def mring_ok_def)
    moreover have "rdp (sent l) \<in> cells (sent l)" "wtp (sent l) \<in> cells (sent l)" by (simp_all add: cells_def)
    ultimately show ?thesis using apart by (auto simp: lane_cells_def)
  qed
  then have e: "entries w1 (unat (mbase ?q)) (unat (mcount ?q)) = entries w (unat (mbase ?q)) (unat (mcount ?q))"
    using same by (intro entries_cong) simp
  obtain w' where w': "refill records (mbase ?q) (wtp ?q) a sz [0..<unat (mcount ?q)] 0 w1 = Some w'" "\<And>x. x \<notin> cells ?q \<Longrightarrow> w' x = w1 x"
    "view ?q w' = rebuilt ?q w c a sz records"
    using refill_pool[OF q, of records w1 a sz] n c e by (auto simp: rebuilt_def lane_n_def)
  have "view (sent l) w' = view (sent l) w1" by (rule lane_apart(1)[OF ok w'(2)])
  moreover have "view (sent l) w1 = []" using c(3) by (simp add: view_def)
  ultimately show ?thesis using that w' by (simp add: lane_n_def)
qed

lemma recover_spec:
  assumes up: "set_up c op m st" and ok: "lane_ok (tx_lane op m)" "lane_ok (rx_lane op m)"
    and dis: "lane_cells (tx_lane op m) \<inter> lane_cells (rx_lane op m) = {}"
    and len: "length (txrecord (ring m)) = lane_n (tx_lane op m)" "length (rxrecord (ring m)) = lane_n (rx_lane op m)"
    and res: "\<not> sipc_smem_request_resource res (ipc st) < 0"
  obtains m' st' where "sblock_recover res c st = Some (0, st')" "mgr st' = Some m'" "ipc st' = ipc st" "same_setup m m'"
    "txrecord (ring m') = txrecord (ring m)" "rxrecord (ring m') = rxrecord (ring m)"
    "\<And>x. x \<notin> lane_cells (tx_lane op m) \<union> lane_cells (rx_lane op m) \<Longrightarrow> words m' x = words m x"
    "view (sent (tx_lane op m)) (words m') = []" "view (sent (rx_lane op m)) (words m') = []"
    "view (pool (tx_lane op m)) (words m') =
       rebuilt (pool (tx_lane op m)) (words m) (pool_wt op m) (tx_addr (poolhd_op op)) (txblksz m) (txrecord (ring m))"
    "view (pool (rx_lane op m)) (words m') =
       rebuilt (pool (rx_lane op m)) (words m) (words m (rx_rd_p (poolhd_op op))) (rx_addr (poolhd_op op)) (rxblksz m) (rxrecord (ring m))"
proof -
  let ?t = "tx_lane op m" and ?r = "rx_lane op m" and ?rop = "ringhd_op op" and ?pop = "poolhd_op op" and ?w = "words m"
  have up': "channel2index c \<noteq> INVALID_CHANEL_INDEX" "mgr st = Some m" "header_op (ring m) = Some op" using up by (simp_all add: set_up_def)
  have mem: "tx_rd_p ?pop \<in> cells (pool ?t)" "tx_wt_p ?pop \<in> cells (pool ?t)" "rx_rd_p ?pop \<in> cells (pool ?r)" "rx_wt_p ?pop \<in> cells (pool ?r)"
      "tx_rd_p ?rop \<in> cells (sent ?t)" "tx_wt_p ?rop \<in> cells (sent ?t)" "rx_rd_p ?rop \<in> cells (sent ?r)" "rx_wt_p ?rop \<in> cells (sent ?r)"
    by (simp_all add: cells_def)
  have ne: "tx_rd_p ?pop \<noteq> tx_wt_p ?pop" "tx_rd_p ?rop \<noteq> tx_wt_p ?rop" "rx_rd_p ?pop \<noteq> rx_wt_p ?pop" "rx_rd_p ?rop \<noteq> rx_wt_p ?rop"
      "cells (pool ?t) \<inter> cells (sent ?t) = {}" "cells (pool ?r) \<inter> cells (sent ?r) = {}"
    using ok by (simp_all add: lane_ok_def mring_ok_def)
  have neq: "x \<noteq> y" if "x \<in> A" "y \<in> B" "A \<inter> B = {}" for x y :: nat and A B using that by blast
  have out: "x \<notin> cells (pool ?t) \<and> x \<notin> cells (sent ?t)" if "x \<in> lane_cells ?r" for x using that dis by (auto simp: lane_cells_def)
  have out': "x \<notin> cells (pool ?r) \<and> x \<notin> cells (sent ?r)" if "x \<in> lane_cells ?t" for x using that dis by (auto simp: lane_cells_def)
  define w1 where "w1 = ?w(tx_wt_p ?rop := ?w (tx_rd_p ?rop))"
  define w2 where "w2 = w1(tx_rd_p ?pop := w1 (tx_wt_p ?pop))"
  have d: "tx_wt_p ?pop \<noteq> tx_wt_p ?rop" "tx_rd_p ?pop \<noteq> tx_wt_p ?rop" "tx_rd_p ?pop \<noteq> tx_rd_p ?rop"
    "rx_wt_p ?pop \<noteq> rx_wt_p ?rop" "rx_wt_p ?pop \<noteq> rx_rd_p ?rop" "rx_rd_p ?pop \<noteq> rx_rd_p ?rop"
    by (rule neq[OF mem(2,6) ne(5)] neq[OF mem(1,6) ne(5)] neq[OF mem(1,5) ne(5)] neq[OF mem(4,8) ne(6)] neq[OF mem(4,7) ne(6)] neq[OF mem(3,7) ne(6)])+
  have w2: "w2 (tx_rd_p ?pop) = pool_wt op m" "w2 (tx_wt_p ?pop) = pool_wt op m" "w2 (tx_rd_p ?rop) = w2 (tx_wt_p ?rop)"
    using ne(1,2) d by (simp_all add: w1_def w2_def pool_wt_def)
  have w2s: "w2 x = ?w x" if "x \<noteq> tx_wt_p ?rop" "x \<noteq> tx_rd_p ?pop" for x using that by (simp add: w1_def w2_def)
  obtain w3 where w3: "refill (txrecord (ring m)) (p_txblks (ring m)) (tx_wt_p ?pop) (tx_addr ?pop) (txblksz m) [0..<lane_n ?t] 0 w2 = Some w3"
      "\<And>x. x \<notin> cells (pool ?t) \<Longrightarrow> w3 x = w2 x"
      "view (pool ?t) w3 = rebuilt (pool ?t) ?w (pool_wt op m) (tx_addr ?pop) (txblksz m) (txrecord (ring m))" "view (sent ?t) w3 = []"
    by (rule lane_rebuilt[OF ok(1) len(1), of w2 "pool_wt op m" ?w "tx_addr ?pop" "txblksz m"]) (use w2 w2s in auto)
  have w3r: "w3 x = ?w x" if "x \<in> lane_cells ?r" for x
    using out[OF that] mem(1,6) w3(2)[of x] w2s[of x] by metis
  define w4 where "w4 = w3(rx_rd_p ?rop := w3 (rx_wt_p ?rop))"
  define w5 where "w5 = w4(rx_wt_p ?pop := w4 (rx_rd_p ?pop))"
  have w5: "w5 (rx_rd_p ?pop) = ?w (rx_rd_p ?pop)" "w5 (rx_wt_p ?pop) = ?w (rx_rd_p ?pop)" "w5 (rx_rd_p ?rop) = w5 (rx_wt_p ?rop)"
    using ne(3,4) d mem w3r by (simp_all add: w4_def w5_def lane_cells_def)
  have w5s: "w5 x = w3 x" if "x \<noteq> rx_rd_p ?rop" "x \<noteq> rx_wt_p ?pop" for x using that by (simp add: w4_def w5_def)
  obtain w6 where w6: "refill (rxrecord (ring m)) (p_rxblks (ring m)) (rx_wt_p ?pop) (rx_addr ?pop) (rxblksz m) [0..<lane_n ?r] 0 w5 = Some w6"
      "\<And>x. x \<notin> cells (pool ?r) \<Longrightarrow> w6 x = w5 x"
      "view (pool ?r) w6 = rebuilt (pool ?r) ?w (?w (rx_rd_p ?pop)) (rx_addr ?pop) (rxblksz m) (rxrecord (ring m))" "view (sent ?r) w6 = []"
    by (rule lane_rebuilt[OF ok(2) len(2), of w5 "?w (rx_rd_p ?pop)" ?w "rx_addr ?pop" "rxblksz m"]) (use w5 w5s w3r in auto)
  have w6t: "w6 x = w3 x" if "x \<in> lane_cells ?t" for x
    using out'[OF that] mem(4,7) w6(2)[of x] w5s[of x] by metis
  then have v: "view (pool ?t) w6 = view (pool ?t) w3" "view (sent ?t) w6 = view (sent ?t) w3"
    by (intro view_cong; simp only: lane_cells_def Un_iff simp_thms)+
  have frame: "w6 x = ?w x" if "x \<notin> lane_cells ?t \<union> lane_cells ?r" for x
  proof -
    have x: "x \<notin> cells (pool ?t)" "x \<notin> cells (sent ?t)" "x \<notin> cells (pool ?r)" "x \<notin> cells (sent ?r)"
      using that by (simp_all add: lane_cells_def)
    then have "x \<noteq> tx_wt_p ?rop" "x \<noteq> tx_rd_p ?pop" "x \<noteq> rx_rd_p ?rop" "x \<noteq> rx_wt_p ?pop" using mem(1,4,6,7) by metis+
    then show ?thesis using w6(2)[OF x(3)] w5s w3(2)[OF x(1)] w2s by simp
  qed
  let ?m' = "sblock_poll POLL_OUT True (m\<lparr>sblock_state := SBLOCK_STATE_IDLE, words := w6\<rparr>)"
  let ?st' = "release_smem Release_rx (set_sblock ?m' (sblock_log Wake_recv (sblock_log Wake_get (set_sblock (m\<lparr>sblock_state := SBLOCK_STATE_IDLE\<rparr>) st))))"
  have n: "lane_n ?t = unat (tx_count ?pop)" "lane_n ?r = unat (rx_count ?pop)" by (simp_all add: lane_n_def)
  have "sblock_recover res c st = Some (0, ?st')"
    using up' res w3(1)[unfolded n] w6(1)[unfolded n]
    by (simp add: sblock_recover_def Let_def del: fun_upd_apply flip: w1_def w2_def w4_def w5_def)
  moreover have "same_setup m ?m'" by (simp add: same_setup_def sblock_poll_def)
  ultimately show ?thesis using that[of ?st' ?m'] v w3(3,4) w6(3,4) frame by simp
qed

section \<open>With nothing held\<close>

lemma ring_view_rotate: "ring_view xs s (length xs) = rotate s xs"
  by (rule nth_equalityI) (auto simp: ring_view_def nth_rotate)

text \<open>When no block is pending, the pool is the list of all blocks, turned by the counter.\<close>

lemma rebuilt_free:
  assumes ok: "lane_ok l" and a: "a = blk0 l + origin l" and rec: "records = replicate (lane_n l) SBLOCK_BLK_STATE_DONE"
  shows "rebuilt (pool l) w c a (bsize l) records = rotate (unat c) (map (\<lambda>i. (stored l i, bsize l)) [0..<lane_n l])"
proof -
  have "done_blks records = [0..<lane_n l]" by (simp add: done_blks_def rec)
  moreover have "refilled a (bsize l) is = map (\<lambda>i. (stored l i, bsize l)) is" for "is"
    by (simp add: refilled_def a stored_def blk_start_def algebra_simps)
  ultimately show ?thesis
    using ring_view_rotate[of "map (\<lambda>i. (stored l i, bsize l)) [0..<lane_n l]" "unat c"] by (simp add: rebuilt_def lane_n_def)
qed

lemma inv_free:
  assumes ok: "lane_ok l" and pool: "view (pool l) w = rotate k (map (\<lambda>i. (stored l i, sz)) [0..<lane_n l])" and sent: "view (sent l) w = []"
  shows "lane_inv l w (replicate (lane_n l) SBLOCK_BLK_STATE_DONE) (replicate (lane_n l) SBLOCK_BLK_STATE_DONE)"
proof -
  have p: "map fst (view (pool l) w) = rotate k (map (stored l) [0..<lane_n l])" unfolding pool rotate_map [symmetric] by (simp add: comp_def)
  have "distinct (map (stored l) [0..<lane_n l])" using inj_stored[OF ok] by (simp add: distinct_map atLeast0LessThan)
  then have "places l w (replicate (lane_n l) 0) (replicate (lane_n l) 0) i = 1" if "i < lane_n l" for i
    using that sent by (auto simp: places_def count_list_distinct p)
  moreover have "fst ` set (view (pool l) w) = set (map fst (view (pool l) w))" by simp
  ultimately show ?thesis using ok sent unfolding lane_inv_def p by auto
qed

section \<open>With a block held\<close>

lemma map_ring_view: "xs \<noteq> [] \<Longrightarrow> map f (ring_view xs s k) = ring_view (map f xs) s k"
  by (simp add: ring_view_def)

text \<open>A ring of which one entry is left out, the one in front of the counter.\<close>

lemma ring_view_but_one:
  assumes n: "length xs = n" "0 < n" "distinct xs" and r: "s mod n \<noteq> 0"
  shows "distinct (ring_view xs s (n - 1))" "set (ring_view xs s (n - 1)) = set xs - {xs ! (s mod n - 1)}"
proof -
  have "(s + (n - 1)) mod n = ((n - 1) + s mod n) mod n" by (simp add: add.commute mod_add_left_eq)
  also have "(n - 1) + s mod n = n + (s mod n - 1)" using r n(2) by simp
  also have "(n + (s mod n - 1)) mod n = s mod n - 1" using n(2) mod_less_divisor[OF n(2), of s] by (simp add: less_imp_diff_less)
  finally have p: "(s + (n - 1)) mod n = s mod n - 1" .
  have "ring_view xs s (n - 1) @ [xs ! (s mod n - 1)] = ring_view xs s ((n - 1) + 1)"
    unfolding ring_view_split using n(1) p by (simp add: ring_view_def)
  then have e: "ring_view xs s (n - 1) @ [xs ! (s mod n - 1)] = rotate s xs"
    using ring_view_rotate[of xs s] n(1,2) by simp
  have "distinct (ring_view xs s (n - 1) @ [xs ! (s mod n - 1)])" unfolding e using n(3) by simp
  moreover have "set (ring_view xs s (n - 1) @ [xs ! (s mod n - 1)]) = set xs" unfolding e by simp
  ultimately show "distinct (ring_view xs s (n - 1))" "set (ring_view xs s (n - 1)) = set xs - {xs ! (s mod n - 1)}" by auto
qed

lemma done_but_one:
  assumes "length records = n" "i < n" "records ! i \<noteq> SBLOCK_BLK_STATE_DONE" "\<forall>j<n. j \<noteq> i \<longrightarrow> records ! j = SBLOCK_BLK_STATE_DONE"
  shows "length (done_blks records) = n - 1" "distinct (done_blks records)" "set (done_blks records) = {..<n} - {i}"
proof -
  have "done_blks records = removeAll i [0..<n]"
    using assms unfolding done_blks_def removeAll_filter_not_eq by (intro filter_cong) auto
  moreover have "removeAll i [0..<n] = remove1 i [0..<n]" by (simp add: distinct_remove1_removeAll)
  ultimately show "length (done_blks records) = n - 1" "distinct (done_blks records)" "set (done_blks records) = {..<n} - {i}"
    using assms(2) by (auto simp: length_remove1)
qed

text \<open>The pool after a recovery while block \<open>i\<close> is held, when the last entry of the ring is that block's: it is in, another one is not.\<close>

lemma rebuilt_held:
  assumes ok: "lane_ok l" and a: "a = blk0 l + origin l" and rec: "length records = lane_n l" "i < lane_n l" "records ! i \<noteq> SBLOCK_BLK_STATE_DONE"
      "\<forall>j<lane_n l. j \<noteq> i \<longrightarrow> records ! j = SBLOCK_BLK_STATE_DONE"
    and off: "unat c mod lane_n l \<noteq> 0" and old: "w (blk_at (mbase (pool l)) (of_nat (lane_n l - 1))) = stored l i"
  obtains j where "j < lane_n l" "j \<noteq> i" "distinct (map fst (rebuilt (pool l) w c a (bsize l) records))"
    "fst ` set (rebuilt (pool l) w c a (bsize l) records) = stored l ` {..<lane_n l} - {stored l j}"
proof -
  let ?n = "lane_n l" and ?d = "done_blks records"
  let ?E = "entries w (unat (mbase (pool l))) ?n"
  note d = done_but_one[OF rec]
  have n: "0 < ?n" "?n < 4294967296" using rec(2) unsigned_less[of "mcount (pool l)", where 'a = nat] by (simp_all add: lane_n_def)
  then have "unat (of_nat (?n - 1) :: u32) = ?n - 1" by (intro unat_eqI) simp_all
  then have last: "drop (?n - 1) ?E = [(stored l i, w (unat (mbase (pool l)) + 8 * (?n - 1) + 4))]"
    using n(1) old by (intro nth_equalityI) (simp_all add: entries_def blk_at_def)
  define F where "F = map (stored l) ?d @ [stored l i]"
  have "map fst (refilled a (bsize l) ?d) = map (stored l) ?d" by (simp add: refilled_def a stored_def blk_start_def algebra_simps)
  then have F: "map fst (refilled a (bsize l) ?d @ drop (length ?d) ?E) = F" unfolding d(1) last map_append by (simp add: F_def)
  have "map fst (rebuilt (pool l) w c a (bsize l) records) = ring_view F (unat c) (?n - 1)"
    unfolding rebuilt_def lane_n_def[symmetric] d(1) F[symmetric, unfolded d(1)] last by (rule map_ring_view) simp
  moreover have lenF: "length F = ?n" using d(1) n(1) by (simp add: F_def)
  moreover have setF: "set F = stored l ` {..<?n}" using d(3) rec(2) by (auto simp: F_def)
  then have "distinct F" using lenF inj_stored[OF ok] by (intro card_distinct) (simp add: card_image)
  ultimately have v: "distinct (map fst (rebuilt (pool l) w c a (bsize l) records))"
    "fst ` set (rebuilt (pool l) w c a (bsize l) records) = stored l ` {..<?n} - {F ! (unat c mod ?n - 1)}"
    using ring_view_but_one[OF _ n(1) _ off, of F] setF by (simp_all flip: set_map)
  have k: "unat c mod ?n - 1 < length ?d" using off mod_less_divisor[OF n(1), of "unat c"] d(1) by linarith
  then have "F ! (unat c mod ?n - 1) = stored l (?d ! (unat c mod ?n - 1))" "?d ! (unat c mod ?n - 1) \<in> {..<?n} - {i}"
    using d(3) nth_mem[OF k] by (simp_all add: F_def nth_append)
  then show ?thesis using v that by auto
qed

end
