(* ===== verification/SblockFlowProps.thy ===== *)
theory SblockFlowProps
  imports SblockInitProps SmsgProps
begin

text \<open>
  What the invariant of the two sides gives: no block is lost or in two places, a block goes from the pool to the other side
  and back, and the calls stay inside the area.
\<close>

section \<open>An example\<close>

text \<open>Two blocks of eight bytes in either direction.\<close>

definition new_mgr :: sblock_mgr where
  "new_mgr =
     \<lparr>sblock_channel = 0, pre_cfg = False, sblock_state = SBLOCK_STATE_READY, mapped = False, smem_addr = 0x1000,
      smem_addr_debug = 0, smem_size = 0, dst_smem_addr = 0, stored_smem_addr = 0, txblksz = 0, rxblksz = 0, txblknum = 0, rxblknum = 0,
      ring = \<lparr>header_op = None, txblk_virt = 0, rxblk_virt = 0, r_txblks = 0, r_rxblks = 0, p_txblks = 0, p_rxblks = 0,
              poll_mask = 0, txrecord = [], rxrecord = [], yell = 0\<rparr>,
      thread_alive = True, has_handler = False, words = (\<lambda>_. 0)\<rparr>"

definition new_sys :: "bool \<Rightarrow> sblock_sys" where
  "new_sys client = \<lparr>ipc = ex_ipc client CHAN_STATE_OPENED, mgr = None, smem_base = 0, dst_smem_base = 0, sblock_calls = []\<rparr>"

definition host_start :: "int \<times> sblock_mgr \<times> sblock_sys" where
  "host_start = sblock_host_init 0x1000 (Some (\<lambda>_. 0)) True True 0 2 8 2 8 new_mgr (new_sys False)"

definition host_mgr :: sblock_mgr where "host_mgr = fst (snd host_start)"
definition host_sys :: sblock_sys where "host_sys = snd (snd host_start)"

definition client_start :: "int \<times> sblock_mgr \<times> sblock_sys" where
  "client_start = sblock_client_init True 0x1000 (words host_mgr) True True True 0 new_mgr (new_sys True)"

definition client_mgr :: sblock_mgr where "client_mgr = fst (snd client_start)"
definition client_sys :: sblock_sys where "client_sys = snd (snd client_start)"

lemma new_local: "sipc_smem_request_resource k (ipc (new_sys cl)) = 0" "ipc_smem_type (ipc (new_sys cl)) = SMEM_LOCAL"
  by (simp_all add: new_sys_def sipc_smem_request_resource_def ex_ipc_def ring_layout_def)

lemma example_start:
  "sblock_fits 2 8 2 8"
  "sblock_host_init 0x1000 (Some (\<lambda>_. 0)) True True 0 2 8 2 8 new_mgr (new_sys False) = (0, host_mgr, host_sys)"
  "sblock_client_init True 0x1000 (words host_mgr) True True True 0 new_mgr (new_sys True) = (0, client_mgr, client_sys)"
  "smem_addr new_mgr = dst_smem_addr host_mgr"
  "sblock_state host_mgr = SBLOCK_STATE_READY" "sblock_state client_mgr = SBLOCK_STATE_READY"
  "sipc_smem_request_resource k (ipc host_sys) = 0" "sipc_smem_request_resource k (ipc client_sys) = 0"
proof -
  have a: "align_up 8 = 8" by (simp add: align_up_def)
  show "sblock_fits 2 8 2 8"
    unfolding sblock_fits_def a by (intro conjI exI[of _ 1]) simp_all
  have h: "fst host_start = 0"
    using new_local(1)[of 0 False] by (simp add: host_start_def sblock_host_init_def Let_def)
  then show "sblock_host_init 0x1000 (Some (\<lambda>_. 0)) True True 0 2 8 2 8 new_mgr (new_sys False) = (0, host_mgr, host_sys)"
    unfolding host_mgr_def host_sys_def host_start_def by (simp add: prod_eq_iff)
  have "fst client_start = 0"
    using new_local(1)[of 0 True] by (simp add: client_start_def sblock_client_init_def Let_def sblock_log_def)
  then show "sblock_client_init True 0x1000 (words host_mgr) True True True 0 new_mgr (new_sys True) = (0, client_mgr, client_sys)"
    unfolding client_mgr_def client_sys_def client_start_def by (simp add: prod_eq_iff)
  show "smem_addr new_mgr = dst_smem_addr host_mgr" "sblock_state host_mgr = SBLOCK_STATE_READY"
    using new_local(1)[of 0 False] by (simp_all add: host_mgr_def host_start_def sblock_host_init_def Let_def new_mgr_def new_sys_def sblock_host_ring_def)
  show "sblock_state client_mgr = SBLOCK_STATE_READY"
    using new_local(1)[of 0 True] by (simp add: client_mgr_def client_start_def sblock_client_init_def Let_def new_mgr_def sblock_log_def)
  show "sipc_smem_request_resource k (ipc host_sys) = 0" "sipc_smem_request_resource k (ipc client_sys) = 0"
    using new_local(1)[of 0 False] new_local(1)[of 0 True]
    by (simp_all add: new_local host_sys_def host_start_def sblock_host_init_def Let_def client_sys_def client_start_def sblock_client_init_def
        sblock_log_def sblock_set_ipc_def sipc_smem_release_resource_def log_call_def sipc_smem_request_resource_def split: if_splits)
qed

abbreviation ex_down :: lane where "ex_down \<equiv> lane_down 0x1000 2 8 2 8"
abbreviation ex_up :: lane where "ex_up \<equiv> lane_up 0x1000 2 8 2 8"

lemma example_linked:
  "linked ex_down ex_up (set_sblock host_mgr host_sys) (set_sblock client_mgr client_sys)"
  "view (pool ex_down) (words host_mgr) = [(stored ex_down 0, 8), (stored ex_down 1, 8)]" "view (sent ex_down) (words host_mgr) = []"
proof -
  have a: "align_up 8 = 8" "(0x1000::u32) - smem_base (new_sys False) + dst_smem_base (new_sys False) = 0x1000"
    by (simp_all add: align_up_def new_sys_def)
  show "linked ex_down ex_up (set_sblock host_mgr host_sys) (set_sblock client_mgr client_sys)"
    using init_linked(1)[OF example_start(1-4)] unfolding a .
  have "layout_done ex_down ex_up 0x1000 (words host_mgr)"
    by (rule host_layout[OF example_start(1,2)]) (simp add: a)
  then show "view (pool ex_down) (words host_mgr) = [(stored ex_down 0, 8), (stored ex_down 1, 8)]" "view (sent ex_down) (words host_mgr) = []"
    by (simp_all add: layout_done_def lane_n_def lane_down_def Let_def upt_rec)
qed

lemma example_get:
  obtains blk a where "sblock_get (\<lambda>_. 0) (\<lambda>_ st. (0, st)) 0 \<lparr>addr = 0, blk_length = 0\<rparr> 0 (set_sblock host_mgr host_sys) = Some (0, blk, a)"
    "addr blk + 0x1000 = stored ex_down 0" "pair_step (set_sblock host_mgr host_sys, set_sblock client_mgr client_sys) (a, see a (set_sblock client_mgr client_sys))"
proof -
  obtain op rx where m: "header_op (ring host_mgr) = Some op" "tx_lane op host_mgr = ex_down"
      "lane_inv ex_down (words host_mgr) (txrecord (ring host_mgr)) rx"
    using example_linked(1) by (elim linkedE) auto
  have up: "set_up 0 op host_mgr (set_sblock host_mgr host_sys)" using m(1) in_cfg by (simp add: set_up_def)
  have r: "\<And>k. \<not> sipc_smem_request_resource ((\<lambda>_. 0) k) (ipc (set_sblock host_mgr host_sys)) < 0" using example_start(7) by simp
  obtain i a where g: "sblock_get (\<lambda>_. 0) (\<lambda>_ st. (0, st)) 0 \<lparr>addr = 0, blk_length = 0\<rparr> 0 (set_sblock host_mgr host_sys) =
      Some (0, \<lparr>addr = blk_start ex_down i, blk_length = tx_size (poolhd_op op)\<rparr>, a)" "stored ex_down 0 = stored ex_down i"
    by (rule get_takes[OF up example_start(5) _ _ r, unfolded m(2), OF m(3) example_linked(2), where wait = "\<lambda>_ st. (0, st)" and timeout = 0
        and blk = "\<lparr>addr = 0, blk_length = 0\<rparr>"]) (use example_start(7) in auto)
  then show ?thesis
    using that[of "\<lparr>addr = blk_start ex_down i, blk_length = tx_size (poolhd_op op)\<rparr>" a] step_get[OF g(1)]
    by (auto simp: stored_def lane_down_def intro: this_side)
qed

section \<open>No block is lost\<close>

lemma linked_places:
  assumes "linked l l' a b"
  shows "\<exists>ma mb. mgr a = Some ma \<and> mgr b = Some mb \<and> words mb = words ma \<and>
    (\<forall>i<lane_n l. places l (words ma) (txrecord (ring ma)) (rxrecord (ring mb)) i = 1) \<and>
    (\<forall>i<lane_n l'. places l' (words ma) (txrecord (ring mb)) (rxrecord (ring ma)) i = 1)"
  using assms by (elim linkedE) (simp add: lane_inv_def)

text \<open>
  C14. No block is lost and none is in two places. After the host has laid out the area, for numbers of blocks that
  are powers of two, and the client has found it, the two sides may do what they like in any order, as long as a side
  sends, puts back or releases only blocks it holds, and neither starts a recovery: in both directions every block is
  at every moment in exactly one of the pool, the sender's hands, the ring and the receiver's hands.
\<close>

theorem blocks_conserved:
  assumes fits: "sblock_fits txnum txsize rxnum rxsize"
    and host: "sblock_host_init base (Some w) True True res txnum txsize rxnum rxsize m st = (0, mh, sth)"
    and client: "sblock_client_init True debug (words mh) True True True res' m' st' = (0, mc, stc)"
    and told: "smem_addr m' = dst_smem_addr mh"
    and reach: "pair_step\<^sup>*\<^sup>* (set_sblock mh sth, set_sblock mc stc) (a, b)"
  defines "org \<equiv> base - smem_base st + dst_smem_base st"
  defines "down \<equiv> lane_down org txnum (align_up txsize) rxnum (align_up rxsize)"
    and "up \<equiv> lane_up org txnum (align_up txsize) rxnum (align_up rxsize)"
  shows "\<exists>ma mb. mgr a = Some ma \<and> mgr b = Some mb \<and> words mb = words ma \<and>
    (\<forall>i<unat txnum. places down (words ma) (txrecord (ring ma)) (rxrecord (ring mb)) i = 1) \<and>
    (\<forall>i<unat rxnum. places up (words ma) (txrecord (ring mb)) (rxrecord (ring ma)) i = 1)"
proof -
  note start = init_linked[OF fits host client told, folded org_def, folded down_def up_def]
  have "linked down up a b" using linked_reach[OF reach, of down up] start(1) by simp
  then show ?thesis using linked_places start(2,3) by metis
qed

text \<open>After the first block is taken.\<close>

theorem blocks_conserved_witness:
  "\<exists>blk a ma mb. sblock_get (\<lambda>_. 0) (\<lambda>_ st. (0, st)) 0 \<lparr>addr = 0, blk_length = 0\<rparr> 0 (set_sblock host_mgr host_sys) = Some (0, blk, a) \<and>
     mgr a = Some ma \<and> mgr (see a (set_sblock client_mgr client_sys)) = Some mb \<and>
     (\<forall>i<2. places ex_down (words ma) (txrecord (ring ma)) (rxrecord (ring mb)) i = 1)"
proof -
  obtain blk a where g: "sblock_get (\<lambda>_. 0) (\<lambda>_ st. (0, st)) 0 \<lparr>addr = 0, blk_length = 0\<rparr> 0 (set_sblock host_mgr host_sys) = Some (0, blk, a)"
      "pair_step (set_sblock host_mgr host_sys, set_sblock client_mgr client_sys) (a, see a (set_sblock client_mgr client_sys))"
    using example_get by blast
  have n: "align_up 8 = 8" "(0x1000::u32) - smem_base (new_sys False) + dst_smem_base (new_sys False) = 0x1000" "unat (2::u32) = 2"
    by (simp_all add: align_up_def new_sys_def)
  from blocks_conserved[OF example_start(1-4) r_into_rtranclp[of pair_step, OF g(2)]] show ?thesis using g(1) unfolding n by blast
qed

section \<open>The way of a block\<close>

lemma runs_here:
  assumes "mgr a = Some m" "header_op (ring m) = Some op" "mgr a' = Some m'"
  shows "tx_moves op m m' \<Longrightarrow> runs_tx op m a'" "rx_moves op m m' \<Longrightarrow> runs_rx op m a'"
  using assms moves_keep by (auto simp: runs_tx_def runs_rx_def)

text \<open>
  C15. A block goes round. A block that one side takes from the pool and sends, with a length it chose, is the one that the
  other side receives, at the same place of the area and with that length; when the other side releases it, it is the last
  of the pool, and the ring is empty again.
\<close>

theorem block_goes_round:
  assumes l: "linked l l' a b" and m: "mgr a = Some ma" "mgr b = Some mb" "channel2index c \<noteq> INVALID_CHANEL_INDEX"
    and ready: "sblock_state ma = SBLOCK_STATE_READY" "sblock_state mb = SBLOCK_STATE_READY"
    and pool: "view (pool l) (words ma) = e # es" and sent: "view (sent l) (words ma) = []"
    and res: "\<And>k. \<not> sipc_smem_request_resource (res k) (ipc a) < 0" "\<And>k. \<not> sipc_smem_request_resource (res' k) (ipc b) < 0"
  shows "\<exists>r1 blk a1 r2 a2 r3 b1 b2 m' sz.
    sblock_get res wait c buf timeout a = Some (r1, blk, a1) \<and> 0 \<le> r1 \<and> fst e = addr blk + origin l \<and>
    sblock_send r c (blk\<lparr>blk_length := len\<rparr>) a1 = Some (r2, a2) \<and>
    sblock_receive res' wait' c buf timeout' (see a2 (see a1 b)) = Some (r3, blk\<lparr>blk_length := len\<rparr>, b1) \<and> 0 \<le> r3 \<and>
    sblock_release r' c (blk\<lparr>blk_length := len\<rparr>) b1 = Some (0, b2) \<and>
    mgr b2 = Some m' \<and> view (pool l) (words m') = es @ [(fst e, sz)] \<and> view (sent l) (words m') = []"
proof -
  obtain op op' where h: "header_op (ring ma) = Some op" "header_op (ring mb) = Some op'" "tx_lane op ma = l" "rx_lane op' mb = l"
      "lane_inv l (words ma) (txrecord (ring ma)) (rxrecord (ring mb))"
    using l m by (elim linkedE) auto
  have upa: "set_up c op ma a" using m h by (simp add: set_up_def)
  obtain i m1 a1 where g: "sblock_get res wait c buf timeout a =
        Some (sipc_smem_request_resource (res 1) (ipc a), \<lparr>addr = blk_start l i, blk_length = tx_size (poolhd_op op)\<rparr>, a1)"
      "mgr a1 = Some m1" "ipc a1 = ipc a" "sblock_state m1 = SBLOCK_STATE_READY" "fst e = stored l i" "tx_moves op ma m1"
      "holds_tx op m1 i (blk_start l i)" "view (pool l) (words m1) = es" "view (sent l) (words m1) = view (sent l) (words ma)"
      "txrecord (ring m1) = (txrecord (ring ma))[i := SBLOCK_BLK_STATE_PENDING]"
    by (rule get_takes[OF upa ready(1) _ _ res(1), unfolded h(3), OF h(5) pool])
  have l1: "linked l l' a1 (see a1 b)"
    using runs_here(1)[OF m(1) h(1) g(2,6)] m h by (intro linked_step[OF l]) auto
  let ?blk = "\<lparr>addr = blk_start l i, blk_length = len\<rparr>"
  have h1: "header_op (ring m1) = Some op" "tx_lane op m1 = l"
    using moves_keep(1)[OF g(6)] same_lanes[of ma m1 op] g(6) h by (simp_all add: tx_moves_def)
  then have upa1: "set_up c op m1 a1" using g(2) m by (simp add: set_up_def)
  have inv1: "lane_inv (tx_lane op m1) (words m1) (txrecord (ring m1)) (rxrecord (ring mb))"
    using g(6) h by (simp add: tx_moves_def h1(2))
  have held: "holds_tx op m1 i (addr ?blk)" using g(7) by simp
  obtain m2 r2 a2 where s: "sblock_send_ex r c ?blk True a1 = Some (r2, a2)" "mgr a2 = Some m2" "tx_moves op m1 m2"
      "view (sent l) (words m2) = [(stored l i, len)]" "view (pool l) (words m2) = es"
    by (rule send_spec[OF upa1 g(4) inv1 held, where res = r and yll = True]) (use g(8,9) sent h1(2) in auto)
  have l2: "linked l l' a2 (see a2 (see a1 b))"
    using runs_here(1)[OF g(2) h1(1) s(2,3)] g(2) h1 by (intro linked_step[OF l1]) auto
  let ?mb = "mb\<lparr>words := words m2\<rparr>" and ?b = "see a2 (see a1 b)"
  have b: "mgr ?b = Some ?mb" "ipc ?b = ipc b" using m(2) g(2) s(2) by (simp_all add: see_def)
  have upb: "set_up c op' ?mb ?b" using b m(3) h(2) by (simp add: set_up_def)
  have rb: "sblock_state ?mb = SBLOCK_STATE_READY" "rx_lane op' ?mb = l" using ready(2) h(4) by simp_all
  have invb: "lane_inv (rx_lane op' ?mb) (words ?mb) (txrecord (ring m2)) (rxrecord (ring ?mb))"
    using l2 b(1) s(2) h(4) by (elim linkedE) simp
  have sentb: "view (sent (rx_lane op' ?mb)) (words ?mb) = [(stored l i, len)]" using s(4) rb(2) by simp
  have resb: "\<And>k. \<not> sipc_smem_request_resource (res' k) (ipc ?b) < 0" using res(2) b(2) by simp
  obtain j m3 b1 where v: "sblock_receive res' wait' c buf timeout' ?b =
        Some (sipc_smem_request_resource (res' 1) (ipc b), \<lparr>addr = blk_start l j, blk_length = len\<rparr>, b1)"
      "mgr b1 = Some m3" "sblock_state m3 = SBLOCK_STATE_READY" "stored l i = stored l j" "rx_moves op' ?mb m3" "holds_rx op' m3 j (blk_start l j)"
      "view (sent l) (words m3) = []" "view (pool l) (words m3) = es"
    by (rule receive_takes[where res = res' and wait = wait' and blk = buf and timeout = timeout', OF upb rb(1) invb sentb resb]) (use s(5) rb(2) b(2) in auto)
  have h3: "header_op (ring m3) = Some op'" "rx_lane op' m3 = l"
    using moves_keep(2)[OF v(5)] same_lanes[of ?mb m3 op'] v(5) h rb(2) by (simp_all add: rx_moves_def)
  have ij: "i = j"
    using stored_inj[of l i j] v(4,6) g(7) h1(2) h3(2) h(5) by (simp add: holds_tx_def holds_rx_def lane_inv_def)
  have upb1: "set_up c op' m3 b1" using v(2) m(3) h3(1) by (simp add: set_up_def)
  have invb1: "lane_inv (rx_lane op' m3) (words m3) (txrecord (ring m2)) (rxrecord (ring m3))"
    using v(5) invb by (simp add: rx_moves_def h3(2) h(4))
  have heldb: "holds_rx op' m3 j (addr ?blk)" using v(6) ij by simp
  obtain m4 b2 where "sblock_release r' c ?blk b1 = Some (0, b2)" "mgr b2 = Some m4"
      "view (pool l) (words m4) = es @ [(stored l j, rx_size (poolhd_op op'))]" "view (sent l) (words m4) = []"
    by (rule release_spec[OF upb1 v(3) invb1 heldb, where res = r']) (use v(7,8) h3(2) in auto)
  then show ?thesis
    using g(1,5) s(1) v(1) ij res(1)[of 1] res(2)[of 1] by (auto simp: sblock_send_def stored_def not_less)
qed

theorem block_goes_round_witness:
  "\<exists>r1 blk a1 r2 a2 r3 b1 b2.
     sblock_get (\<lambda>_. 0) (\<lambda>_ st. (0, st)) 0 \<lparr>addr = 0, blk_length = 0\<rparr> 0 (set_sblock host_mgr host_sys) = Some (r1, blk, a1) \<and>
     sblock_send 0 0 (blk\<lparr>blk_length := 5\<rparr>) a1 = Some (r2, a2) \<and>
     sblock_receive (\<lambda>_. 0) (\<lambda>_ st. (0, st)) 0 \<lparr>addr = 0, blk_length = 0\<rparr> 0 (see a2 (see a1 (set_sblock client_mgr client_sys))) =
       Some (r3, blk\<lparr>blk_length := 5\<rparr>, b1) \<and>
     sblock_release 0 0 (blk\<lparr>blk_length := 5\<rparr>) b1 = Some (0, b2)"
proof -
  have p: "mgr (set_sblock host_mgr host_sys) = Some host_mgr" "mgr (set_sblock client_mgr client_sys) = Some client_mgr"
      "channel2index 0 \<noteq> INVALID_CHANEL_INDEX" using in_cfg by simp_all
  have r: "\<And>k. \<not> sipc_smem_request_resource ((\<lambda>_. 0) k) (ipc (set_sblock host_mgr host_sys)) < 0"
      "\<And>k. \<not> sipc_smem_request_resource ((\<lambda>_. 0) k) (ipc (set_sblock client_mgr client_sys)) < 0"
    using example_start(7,8) by simp_all
  from block_goes_round[OF example_linked(1) p example_start(5,6) example_linked(2,3) r, of "\<lambda>_ st. (0, st)" "\<lparr>addr = 0, blk_length = 0\<rparr>" 0 0 5
      "\<lambda>_ st. (0, st)" 0 0]
  show ?thesis by blast
qed

section \<open>Inside the area\<close>

text \<open>A call returns, and of the memory it writes only cells of \<open>A\<close>.\<close>

definition call_ok :: "nat set \<Rightarrow> sblock_sys \<Rightarrow> sblock_sys option \<Rightarrow> bool" where
  "call_ok A a res \<longleftrightarrow> (\<exists>a' m m'. res = Some a' \<and> mgr a = Some m \<and> mgr a' = Some m' \<and> (\<forall>x. x \<notin> A \<longrightarrow> words m' x = words m x))"

definition calls_safe :: "nat set \<Rightarrow> sblock_sys \<Rightarrow> bool" where
  "calls_safe A a \<longleftrightarrow>
     (\<forall>res v c blk timeout. call_ok A a (map_option (snd \<circ> snd) (sblock_get res (\<lambda>_ st. (v, st)) c blk timeout a)) \<and>
       call_ok A a (map_option (snd \<circ> snd) (sblock_receive res (\<lambda>_ st. (v, st)) c blk timeout a))) \<and>
     (\<forall>m op i c blk r yll. mgr a = Some m \<and> header_op (ring m) = Some op \<longrightarrow>
       (holds_tx op m i (addr blk) \<longrightarrow> call_ok A a (sblock_put c blk a) \<and> call_ok A a (map_option snd (sblock_send_ex r c blk yll a))) \<and>
       (holds_rx op m i (addr blk) \<longrightarrow> call_ok A a (map_option snd (sblock_release r c blk a))))"

lemma step_call_ok:
  assumes "linked l l' a b" "side_step a a'"
  shows "call_ok (lane_cells l \<union> lane_cells l') a (Some a')"
proof -
  obtain m where "mgr a = Some m" using assms(1) by (elim linkedE)
  then show ?thesis using step_kept[OF assms(2,1)] by (auto simp: call_ok_def kept_def)
qed

lemma linked_safe:
  assumes l: "linked l l' a b"
  shows "calls_safe (lane_cells l \<union> lane_cells l') a"
proof -
  obtain m op rx tx where m: "mgr a = Some m" "header_op (ring m) = Some op"
    and inv: "lane_inv (tx_lane op m) (words m) (txrecord (ring m)) rx" "lane_inv (rx_lane op m) (words m) tx (rxrecord (ring m))"
    using l by (elim linkedE) blast
  note ok = step_call_ok[OF l]
  have get: "sblock_get res (\<lambda>_ st. (v, st)) c blk timeout a \<noteq> None" for res v c blk timeout
    using get_runs[of c op m a rx res v blk timeout] inv(1) m by (cases "channel2index c = INVALID_CHANEL_INDEX") (auto simp: set_up_def sblock_get_def)
  have receive: "sblock_receive res (\<lambda>_ st. (v, st)) c blk timeout a \<noteq> None" for res v c blk timeout
    using receive_runs[of c op m a tx res v blk timeout] inv(2) m by (cases "channel2index c = INVALID_CHANEL_INDEX") (auto simp: set_up_def sblock_receive_def)
  have put: "sblock_put c blk a \<noteq> None" if "holds_tx op m i (addr blk)" for c blk i
  proof (cases "channel2index c = INVALID_CHANEL_INDEX")
    case False
    then have "set_up c op m a" using m by (simp add: set_up_def)
    from put_spec[OF this inv(1) that] show ?thesis by auto
  qed (simp add: sblock_put_def)
  have send: "sblock_send_ex r c blk yll a \<noteq> None" if "holds_tx op m i (addr blk)" for r c blk yll i
  proof (cases "channel2index c \<noteq> INVALID_CHANEL_INDEX \<and> sblock_state m = SBLOCK_STATE_READY")
    case True
    then have "set_up c op m a" using m by (simp add: set_up_def)
    then show ?thesis by (rule send_spec[OF _ conjunct2[OF True] inv(1) that, where res = r and yll = yll]) simp
  qed (use m in \<open>auto simp: sblock_send_ex_def\<close>)
  have release: "sblock_release r c blk a \<noteq> None" if "holds_rx op m i (addr blk)" for r c blk i
  proof (cases "channel2index c \<noteq> INVALID_CHANEL_INDEX \<and> sblock_state m = SBLOCK_STATE_READY")
    case True
    then have "set_up c op m a" using m by (simp add: set_up_def)
    then show ?thesis by (rule release_spec[OF _ conjunct2[OF True] inv(2) that, where res = r]) simp
  qed (use m in \<open>auto simp: sblock_release_def\<close>)
  have "call_ok (lane_cells l \<union> lane_cells l') a (map_option (snd \<circ> snd) (sblock_get res (\<lambda>_ st. (v, st)) c blk timeout a))"
      "call_ok (lane_cells l \<union> lane_cells l') a (map_option (snd \<circ> snd) (sblock_receive res (\<lambda>_ st. (v, st)) c blk timeout a))" for res v c blk timeout
    using get[of res v c blk timeout] receive[of res v c blk timeout] step_get[of res v c blk timeout a] step_receive[of res v c blk timeout a]
    by (auto intro: ok)
  moreover have "call_ok (lane_cells l \<union> lane_cells l') a (sblock_put c blk a)"
      "call_ok (lane_cells l \<union> lane_cells l') a (map_option snd (sblock_send_ex r c blk yll a))" if "holds_tx op m i (addr blk)" for c blk r yll i
    using put[OF that, of c] send[OF that, of r c yll] step_put[OF m that, of c] step_send[OF m that, of r c yll] by (auto intro: ok)
  moreover have "call_ok (lane_cells l \<union> lane_cells l') a (map_option snd (sblock_release r c blk a))" if "holds_rx op m i (addr blk)" for c blk r i
    using release[OF that, of r c] step_release[OF m that, of r c] by (auto intro: ok)
  ultimately show ?thesis using m unfolding calls_safe_def by auto
qed

text \<open>The bytes of block \<open>i\<close>.\<close>

definition blk_bytes :: "lane \<Rightarrow> nat \<Rightarrow> nat set" where
  "blk_bytes l i = {unat (blk_start l i)..<unat (blk_start l i) + unat (bsize l)}"

lemma lane_places:
  assumes fits: "sblock_fits txnum txsize rxnum rxsize" and ts: "ts = align_up txsize" and rs: "rs = align_up rxsize"
  defines "area \<equiv> unat (sblock_smem_size txnum ts rxnum rs)"
  shows "lane_cells (lane_down org txnum ts rxnum rs) \<union> lane_cells (lane_up org txnum ts rxnum rs)
      \<subseteq> {16..<96} \<union> {96 + unat txnum * unat ts + unat rxnum * unat rs..<area}"
    "\<And>i. i < unat txnum \<Longrightarrow> blk_bytes (lane_down org txnum ts rxnum rs) i = {96 + i * unat ts..<96 + Suc i * unat ts}"
    "\<And>i. i < unat rxnum \<Longrightarrow> blk_bytes (lane_up org txnum ts rxnum rs) i =
      {96 + unat txnum * unat ts + i * unat rs..<96 + unat txnum * unat ts + Suc i * unat rs}"
proof -
  define n where "n = unat txnum"
  define n' where "n' = unat rxnum"
  have f: "96 + n * unat ts + n' * unat rs + 16 * (n + n') < 4294967296"
    using fits by (simp add: sblock_fits_def ts rs n_def n'_def)
  note ldefs = lane_down_def lane_up_def Let_def
  have sz: "area = 96 + n * unat ts + n' * unat rs + 16 * (n + n')"
    unfolding area_def using f by (intro unat_eqI) (simp_all add: sblock_smem_size_def n_def n'_def algebra_simps)
  have bs: "unat (96 + txnum * ts + rxnum * rs) = 96 + n * unat ts + n' * unat rs"
      "unat (96 + txnum * ts + rxnum * rs + txnum * 8) = 96 + n * unat ts + n' * unat rs + 8 * n"
      "unat (96 + txnum * ts + rxnum * rs + txnum * 8 + rxnum * 8) = 96 + n * unat ts + n' * unat rs + 8 * n + 8 * n'"
      "unat (96 + txnum * ts + rxnum * rs + txnum * 8 + rxnum * 8 + txnum * 8) = 96 + n * unat ts + n' * unat rs + 16 * n + 8 * n'"
    using f by (intro unat_eqI; simp add: n_def n'_def)+
  show "lane_cells (lane_down org txnum ts rxnum rs) \<union> lane_cells (lane_up org txnum ts rxnum rs)
      \<subseteq> {16..<96} \<union> {96 + unat txnum * unat ts + unat rxnum * unat rs..<area}"
    unfolding lane_cells_def cells_def ldefs lane.select_convs mring.select_convs bs sz n_def [symmetric] n'_def [symmetric]
    by auto
  show "blk_bytes (lane_down org txnum ts rxnum rs) i = {96 + i * unat ts..<96 + Suc i * unat ts}" if "i < unat txnum" for i
  proof -
    have "i * unat ts \<le> n * unat ts" using that by (simp add: n_def)
    then have "96 + i * unat ts < 4294967296" using f by linarith
    then have "unat (96 + of_nat i * ts) = 96 + i * unat ts" by (intro unat_eqI) simp_all
    then show ?thesis by (simp add: blk_bytes_def blk_start_def ldefs add_ac)
  qed
  show "blk_bytes (lane_up org txnum ts rxnum rs) i =
      {96 + unat txnum * unat ts + i * unat rs..<96 + unat txnum * unat ts + Suc i * unat rs}" if "i < unat rxnum" for i
  proof -
    have "i * unat rs \<le> n' * unat rs" using that by (simp add: n'_def)
    then have "96 + n * unat ts + i * unat rs < 4294967296" using f by linarith
    then have "unat (96 + txnum * ts + of_nat i * rs) = 96 + n * unat ts + i * unat rs" by (intro unat_eqI) (simp_all add: n_def)
    then show ?thesis by (simp add: blk_bytes_def blk_start_def ldefs n_def add_ac)
  qed
qed

text \<open>
  C16. The calls stay inside the area, for numbers of blocks that are powers of two, block sizes that are not zero and an
  area that fits into 32-bit addresses (\<open>sblock_fits\<close>; the code checks none of this). In every state that the two sides can
  reach from the start, as long as a side sends, puts back or releases only blocks that it holds and neither starts a
  recovery: taking and receiving, and putting back, sending and releasing a block that the side holds, return without an
  access out of bounds or a division by zero, and of the shared memory they write nothing but the cells of the counters
  in the header and of the rings and pools behind the blocks (\<open>lane_cells\<close>); nothing behind the allocated area has changed
  since before the host laid it out. All these cells lie within the size that was allocated, so do the blocks, and no
  two blocks share a byte with each other or with these cells.
\<close>

theorem blocks_stay_inside:
  assumes fits: "sblock_fits txnum txsize rxnum rxsize"
    and host: "sblock_host_init base (Some w) True True res txnum txsize rxnum rxsize m st = (0, mh, sth)"
    and client: "sblock_client_init True debug (words mh) True True True res' m' st' = (0, mc, stc)"
    and told: "smem_addr m' = dst_smem_addr mh"
    and reach: "pair_step\<^sup>*\<^sup>* (set_sblock mh sth, set_sblock mc stc) (a, b)"
  defines "org \<equiv> base - smem_base st + dst_smem_base st"
  defines "down \<equiv> lane_down org txnum (align_up txsize) rxnum (align_up rxsize)"
    and "up \<equiv> lane_up org txnum (align_up txsize) rxnum (align_up rxsize)"
  shows "calls_safe (lane_cells down \<union> lane_cells up) a \<and> calls_safe (lane_cells down \<union> lane_cells up) b \<and>
    (\<exists>ma. mgr a = Some ma \<and> (\<forall>x. unat (smem_size mh) \<le> x \<longrightarrow> words ma x = w x)) \<and>
    lane_cells down \<union> lane_cells up \<subseteq> {..<unat (smem_size mh)} \<and>
    (\<forall>i<unat txnum. blk_bytes down i \<inter> (lane_cells down \<union> lane_cells up) = {} \<and> blk_bytes down i \<subseteq> {..<unat (smem_size mh)} \<and>
      (\<forall>j<unat txnum. i \<noteq> j \<longrightarrow> blk_bytes down i \<inter> blk_bytes down j = {}) \<and>
      (\<forall>j<unat rxnum. blk_bytes down i \<inter> blk_bytes up j = {})) \<and>
    (\<forall>i<unat rxnum. blk_bytes up i \<inter> (lane_cells down \<union> lane_cells up) = {} \<and> blk_bytes up i \<subseteq> {..<unat (smem_size mh)} \<and>
      (\<forall>j<unat rxnum. i \<noteq> j \<longrightarrow> blk_bytes up i \<inter> blk_bytes up j = {}))"
proof -
  let ?ts = "align_up txsize" and ?rs = "align_up rxsize"
  note start = init_linked(1)[OF fits host client told, folded org_def, folded down_def up_def]
  have l: "linked down up a b" using linked_reach[OF reach, of down up] start by simp
  have size: "smem_size mh = sblock_smem_size txnum ?ts rxnum ?rs"
    using host by (auto simp: sblock_host_init_def Let_def split: if_splits)
  note p = lane_places[OF fits refl refl, where org = org, folded down_def up_def]
  define n where "n = unat txnum"
  define n' where "n' = unat rxnum"
  have total: "unat (smem_size mh) = 96 + n * unat ?ts + n' * unat ?rs + 16 * (n + n')"
    unfolding size using fits
    by (intro unat_eqI) (simp_all add: sblock_fits_def sblock_smem_size_def n_def n'_def algebra_simps)
  have step: "Suc i * k \<le> j * k" if "i < j" for i j k :: nat using that by (intro mult_le_mono1) simp
  have apart: "{x + i * k..<x + Suc i * k} \<inter> {x + j * k..<x + Suc j * k} = {}" if "i \<noteq> j" for x i j k :: nat
    using step[of i j k] step[of j i k] that by (cases "i < j") auto
  have below: "{x + i * k..<x + Suc i * k} \<subseteq> {x..<x + n * k}" if "i < n" for x i k n :: nat
    using step[of i n k] that by auto
  have d: "blk_bytes down i \<subseteq> {96..<96 + n * unat ?ts}" if "i < n" for i
    using p(2)[of i] below[of i n 96 "unat ?ts"] that by (simp add: n_def)
  have u: "blk_bytes up i \<subseteq> {96 + n * unat ?ts..<96 + n * unat ?ts + n' * unat ?rs}" if "i < n'" for i
    using p(3)[of i] below[of i n' "96 + n * unat ?ts" "unat ?rs"] that by (simp add: n_def n'_def)
  have dd: "blk_bytes down i \<inter> blk_bytes down j = {}" if "i < n" "j < n" "i \<noteq> j" for i j
    using p(2)[of i] p(2)[of j] apart[OF that(3), of 96 "unat ?ts"] that(1,2) by (simp add: n_def)
  have uu: "blk_bytes up i \<inter> blk_bytes up j = {}" if "i < n'" "j < n'" "i \<noteq> j" for i j
    using p(3)[of i] p(3)[of j] apart[OF that(3), of "96 + n * unat ?ts" "unat ?rs"] that(1,2) by (simp add: n_def n'_def)
  have c: "lane_cells down \<union> lane_cells up \<subseteq> {16..<96} \<union> {96 + n * unat ?ts + n' * unat ?rs..<unat (smem_size mh)}"
    using p(1) by (simp add: size n_def n'_def)
  let ?A = "{96..<96 + n * unat ?ts}" and ?B = "{96 + n * unat ?ts..<96 + n * unat ?ts + n' * unat ?rs}" and ?S = "{..<unat (smem_size mh)}"
  have gaps: "(?A \<union> ?B) \<inter> ({16..<96} \<union> {96 + n * unat ?ts + n' * unat ?rs..<unat (smem_size mh)}) = {}" "?A \<inter> ?B = {}" "?A \<union> ?B \<subseteq> ?S"
    "{16..<96} \<union> {96 + n * unat ?ts + n' * unat ?rs..<unat (smem_size mh)} \<subseteq> ?S"
    using total by auto
  have "lane_cells down \<union> lane_cells up \<subseteq> ?S" using c gaps(4) by blast
  moreover have "blk_bytes down i \<inter> (lane_cells down \<union> lane_cells up) = {}" "blk_bytes down i \<subseteq> ?S"
      "j < n' \<Longrightarrow> blk_bytes down i \<inter> blk_bytes up j = {}" if "i < n" for i j
    using d[OF that] u[of j] c gaps by blast+
  moreover have "blk_bytes up i \<inter> (lane_cells down \<union> lane_cells up) = {}" "blk_bytes up i \<subseteq> ?S" if "i < n'" for i
    using u[OF that] c gaps by blast+
  moreover have "\<exists>ma. mgr a = Some ma \<and> (\<forall>x. unat (smem_size mh) \<le> x \<longrightarrow> words ma x = w x)"
  proof -
    obtain ma where ma: "mgr a = Some ma" "kept down up mh ma" using kept_reach[OF reach, of down up mh] start by auto
    have "words mh x = w x" if "96 \<le> x" "x \<notin> lane_cells down \<union> lane_cells up" for x
      using host_layout[OF fits host, folded org_def, folded down_def up_def] that by metis
    moreover have "96 \<le> x \<and> x \<notin> lane_cells down \<union> lane_cells up" if "unat (smem_size mh) \<le> x" for x
      using that c total by auto
    ultimately show ?thesis using ma by (auto simp: kept_def)
  qed
  ultimately show ?thesis
    using linked_safe[OF l] linked_safe[OF linked_sym[OF l]] dd uu unfolding n_def n'_def by (simp add: Un_commute)
qed

theorem blocks_stay_inside_witness:
  "\<exists>blk a. sblock_get (\<lambda>_. 0) (\<lambda>_ st. (0, st)) 0 \<lparr>addr = 0, blk_length = 0\<rparr> 0 (set_sblock host_mgr host_sys) = Some (0, blk, a) \<and>
     calls_safe (lane_cells ex_down \<union> lane_cells ex_up) a \<and> lane_cells ex_down \<union> lane_cells ex_up \<subseteq> {..<unat (smem_size host_mgr)} \<and> blk_bytes ex_down 0 \<inter> blk_bytes ex_up 1 = {}"
proof -
  obtain blk a where g: "sblock_get (\<lambda>_. 0) (\<lambda>_ st. (0, st)) 0 \<lparr>addr = 0, blk_length = 0\<rparr> 0 (set_sblock host_mgr host_sys) = Some (0, blk, a)"
      "pair_step (set_sblock host_mgr host_sys, set_sblock client_mgr client_sys) (a, see a (set_sblock client_mgr client_sys))"
    using example_get by blast
  have n: "align_up 8 = 8" "(0x1000::u32) - smem_base (new_sys False) + dst_smem_base (new_sys False) = 0x1000" "unat (2::u32) = 2"
    by (simp_all add: align_up_def new_sys_def)
  from blocks_stay_inside[OF example_start(1-4) r_into_rtranclp[of pair_step, OF g(2)]] show ?thesis using g(1) unfolding n by force
qed

end
