(* ===== verification/SblockRecoverProps.thy ===== *)
theory SblockRecoverProps
  imports SblockRefillProps SblockFlowProps "HOL-Library.Multiset"
begin

text \<open>
  What a restart of the client leaves: with nothing held on the host every block is free again and the two sides are linked
  as at the start; with a block held on the host the pool can come out wrong.
\<close>

section \<open>A restart\<close>

lemma header_kept:
  assumes "sblock_fits txnum txsize rxnum rxsize" "ts = align_up txsize" "rs = align_up rxsize"
    and "kept (lane_down org txnum ts rxnum rs) (lane_up org txnum ts rxnum rs) m m'"
    and "header_done (lane_down org txnum ts rxnum rs) (lane_up org txnum ts rxnum rs) org (words m)"
  shows "header_done (lane_down org txnum ts rxnum rs) (lane_up org txnum ts rxnum rs) org (words m')"
proof -
  have "words m' x = words m x" if "x < 96" "x \<notin> {16, 20, 40, 44, 64, 68, 88, 92}" for x
    using lanes_ok(8)[OF assms(1,2,3) that] assms(4) unfolding kept_def by blast
  then show ?thesis using assms(5) by (simp add: header_done_def)
qed

lemma recover_frees:
  assumes l: "linked l l' a b" and ma: "mgr a = Some ma" "header_op (ring ma) = Some op"
    and free: "txrecord (ring ma) = replicate (lane_n l) 0" "rxrecord (ring ma) = replicate (lane_n l') 0"
    and base: "tx_addr (poolhd_op op) = blk0 l + origin l" "rx_addr (poolhd_op op) = blk0 l' + origin l'"
    and rec: "sblock_recover res c a = Some (0, a')" "mgr a' = Some ma'"
  shows "kept l l' ma ma'" "txrecord (ring ma') = replicate (lane_n l) 0" "rxrecord (ring ma') = replicate (lane_n l') 0"
    "\<exists>k. view (pool l) (words ma') = rotate k (map (\<lambda>i. (stored l i, bsize l)) [0..<lane_n l])"
    "\<exists>k. view (pool l') (words ma') = rotate k (map (\<lambda>i. (stored l' i, bsize l')) [0..<lane_n l'])"
    "view (sent l) (words ma') = []" "view (sent l') (words ma') = []"
proof -
  have lanes: "tx_lane op ma = l" "rx_lane op ma = l'" "lane_ok l" "lane_ok l'" "lane_cells l \<inter> lane_cells l' = {}"
    using l ma by (auto simp: linked_def lane_inv_def)
  have b: "bsize l = txblksz ma" "bsize l' = rxblksz ma" using lanes(1,2) by (auto simp: tx_lane_def rx_lane_def)
  have c: "channel2index c \<noteq> INVALID_CHANEL_INDEX" "\<not> sipc_smem_request_resource res (ipc a) < 0"
    using rec(1) ma by (auto simp: sblock_recover_def Let_def sblock_log_def set_sblock_def split: if_splits)
  then have up: "set_up c op ma a" using ma by (simp add: set_up_def)
  have n: "length (txrecord (ring ma)) = lane_n (tx_lane op ma)" "length (rxrecord (ring ma)) = lane_n (rx_lane op ma)"
    using free lanes by simp_all
  obtain m' st' where m': "sblock_recover res c a = Some (0, st')" "mgr st' = Some m'" "same_setup ma m'"
      "txrecord (ring m') = txrecord (ring ma)" "rxrecord (ring m') = rxrecord (ring ma)"
      "\<And>x. x \<notin> lane_cells l \<union> lane_cells l' \<Longrightarrow> words m' x = words ma x" "view (sent l) (words m') = []" "view (sent l') (words m') = []"
      "view (pool l) (words m') = rebuilt (pool l) (words ma) (pool_wt op ma) (tx_addr (poolhd_op op)) (txblksz ma) (txrecord (ring ma))"
      "view (pool l') (words m') =
         rebuilt (pool l') (words ma) (words ma (rx_rd_p (poolhd_op op))) (rx_addr (poolhd_op op)) (rxblksz ma) (rxrecord (ring ma))"
    by (rule recover_spec[OF up _ _ _ n c(2), unfolded lanes(1,2)]) (use lanes in auto)
  have "m' = ma'" using m'(1,2) rec by simp
  then show "kept l l' ma ma'" "txrecord (ring ma') = replicate (lane_n l) 0" "rxrecord (ring ma') = replicate (lane_n l') 0"
    "view (sent l) (words ma') = []" "view (sent l') (words ma') = []"
    "\<exists>k. view (pool l) (words ma') = rotate k (map (\<lambda>i. (stored l i, bsize l)) [0..<lane_n l])"
    "\<exists>k. view (pool l') (words ma') = rotate k (map (\<lambda>i. (stored l' i, bsize l')) [0..<lane_n l'])"
    using m'(3-8) free m'(9,10)[unfolded free base b[symmetric]] rebuilt_free[OF lanes(3) refl refl] rebuilt_free[OF lanes(4) refl refl]
    by (auto simp: kept_def)
qed

lemma mset_turned: "mset (rotate k xs) = mset xs"
proof -
  have "mset (rotate k xs) = mset (take (k mod length xs) xs @ drop (k mod length xs) xs)"
    unfolding rotate_drop_take mset_append by (rule add.commute)
  then show ?thesis by (simp only: append_take_drop_id)
qed

lemma restart_linked:
  assumes fits: "sblock_fits txnum txsize rxnum rxsize"
    and host: "sblock_host_init base (Some w) True True res txnum txsize rxnum rxsize m st = (0, mh, sth)"
    and client: "sblock_client_init True debug (words mh) True True True res' m' st' = (0, mc, stc)"
    and told: "smem_addr m' = dst_smem_addr mh"
    and reach: "pair_step\<^sup>*\<^sup>* (set_sblock mh sth, set_sblock mc stc) (a, b)"
    and free: "mgr a = Some ma" "txrecord (ring ma) = replicate (unat txnum) SBLOCK_BLK_STATE_DONE"
      "rxrecord (ring ma) = replicate (unat rxnum) SBLOCK_BLK_STATE_DONE"
    and rec: "sblock_recover res2 c a = Some (0, a')" "mgr a' = Some ma'"
    and again: "sblock_client_init True debug' (words ma') True True True res3 m2 st2 = (0, mc', stc')" "smem_addr m2 = dst_smem_addr mh"
  defines "org \<equiv> base - smem_base st + dst_smem_base st"
  defines "l1 \<equiv> lane_down org txnum (align_up txsize) rxnum (align_up rxsize)"
    and "l2 \<equiv> lane_up org txnum (align_up txsize) rxnum (align_up rxsize)"
  shows "linked l1 l2 a' (set_sblock mc' stc')" "lane_n l1 = unat txnum" "lane_n l2 = unat rxnum"
    "mset (map fst (view (pool l1) (words ma'))) = mset (map (stored l1) [0..<unat txnum])" "view (sent l1) (words ma') = []"
    "mset (map fst (view (pool l2) (words ma'))) = mset (map (stored l2) [0..<unat rxnum])" "view (sent l2) (words ma') = []"
proof -
  note ok = lanes_ok[OF fits refl refl, where org = org, folded l1_def l2_def]
  note start = init_linked[OF fits host client told, folded org_def, folded l1_def l2_def]
  obtain op where h: "layout_done l1 l2 org (words mh)" "dst_smem_addr mh = org" "header_op (ring mh) = Some op"
      "tx_lane op mh = l1" "rx_lane op mh = l2" "tx_addr (poolhd_op op) = blk0 l1 + org" "rx_addr (poolhd_op op) = blk0 l2 + org"
    using host_layout[OF fits host, folded org_def, folded l1_def l2_def] by blast
  have l: "linked l1 l2 a b" using linked_reach[OF reach, of l1 l2] start(1) by simp
  have k: "kept l1 l2 mh ma" using kept_reach[OF reach, of l1 l2 mh] start(1) free(1) by auto
  then have op: "header_op (ring ma) = Some op" using h(3) by (simp add: kept_def same_setup_def)
  have org: "origin l1 = org" "origin l2 = org" by (simp_all add: l1_def l2_def lane_down_def lane_up_def Let_def)
  note r = recover_frees[OF l free(1) op _ _ _ _ rec, unfolded start(2,3) org, OF free(2,3) h(6,7)]
  have l': "lane_ok l1" "lane_ok l2" "lane_n l1 = unat txnum" "lane_n l2 = unat rxnum" "lane_cells l1 \<inter> lane_cells l2 = {}"
    using ok(1-5) by simp_all
  have hd: "header_done l1 l2 org (words ma')"
    using header_kept[OF fits refl refl, where org = org, folded l1_def l2_def, OF kept_trans[OF k r(1)]] h(1) by (simp add: layout_done_def)
  obtain opb where c: "words mc' = words ma'" "header_op (ring mc') = Some opb" "tx_lane opb mc' = l2" "rx_lane opb mc' = l1"
      "txrecord (ring mc') = replicate (lane_n l2) 0" "rxrecord (ring mc') = replicate (lane_n l1) 0"
    using client_layout[OF again(1), of l1 l2 txnum rxnum "align_up txsize" "align_up rxsize"] again(2) hd h(2) l'(3,4) l1_def l2_def by auto
  have "same_setup mh ma'" using kept_trans[OF k r(1)] by (simp add: kept_def)
  then have host': "header_op (ring ma') = Some op" "tx_lane op ma' = l1" "rx_lane op ma' = l2"
    using same_lanes[of mh ma' op] h(3-5) by (simp_all add: same_setup_def)
  have "lane_inv l1 (words ma') (replicate (lane_n l1) 0) (replicate (lane_n l1) 0)" "lane_inv l2 (words ma') (replicate (lane_n l2) 0) (replicate (lane_n l2) 0)"
    using inv_free[OF l'(1) _ r(6)] inv_free[OF l'(2) _ r(7)] r(4,5) unfolding l'(3,4) by blast+
  then show "linked l1 l2 a' (set_sblock mc' stc')" unfolding linked_def
    using host' rec(2) c l'(3-5) r(2,3) by (intro exI[of _ ma'] exI[of _ mc'] exI[of _ op] exI[of _ opb]) simp
  show "lane_n l1 = unat txnum" "lane_n l2 = unat rxnum" using l'(3,4) by simp_all
  have turned: "mset (map fst (rotate k (map (\<lambda>i. (f i, sz)) [0..<n]))) = mset (map f [0..<n])" for k n sz and f :: "nat \<Rightarrow> u32"
    by (simp add: rotate_map [symmetric] comp_def mset_turned)
  show "mset (map fst (view (pool l1) (words ma'))) = mset (map (stored l1) [0..<unat txnum])"
    "mset (map fst (view (pool l2) (words ma'))) = mset (map (stored l2) [0..<unat rxnum])"
    using r(4,5) turned by auto
  show "view (sent l1) (words ma') = []" "view (sent l2) (words ma') = []" by (rule r(6), rule r(7))
qed

text \<open>
  C17. A restart frees all blocks. When the client starts again and the host, holding no block, recovers its pools, both
  pools hold every block exactly once and both rings are empty; and when the client has then found the area again, no
  block is lost or in two places, whatever the two sides do from there on.
\<close>

theorem restart_frees_all:
  assumes fits: "sblock_fits txnum txsize rxnum rxsize"
    and host: "sblock_host_init base (Some w) True True res txnum txsize rxnum rxsize m st = (0, mh, sth)"
    and client: "sblock_client_init True debug (words mh) True True True res' m' st' = (0, mc, stc)"
    and told: "smem_addr m' = dst_smem_addr mh"
    and reach: "pair_step\<^sup>*\<^sup>* (set_sblock mh sth, set_sblock mc stc) (a, b)"
    and free: "mgr a = Some ma" "txrecord (ring ma) = replicate (unat txnum) SBLOCK_BLK_STATE_DONE"
      "rxrecord (ring ma) = replicate (unat rxnum) SBLOCK_BLK_STATE_DONE"
    and rec: "sblock_recover res2 c a = Some (0, a')" "mgr a' = Some ma'"
    and again: "sblock_client_init True debug' (words ma') True True True res3 m2 st2 = (0, mc', stc')" "smem_addr m2 = dst_smem_addr mh"
  defines "org \<equiv> base - smem_base st + dst_smem_base st"
  defines "down \<equiv> lane_down org txnum (align_up txsize) rxnum (align_up rxsize)"
    and "up \<equiv> lane_up org txnum (align_up txsize) rxnum (align_up rxsize)"
  shows "mset (map fst (view (pool down) (words ma'))) = mset (map (stored down) [0..<unat txnum]) \<and> view (sent down) (words ma') = [] \<and>
    mset (map fst (view (pool up) (words ma'))) = mset (map (stored up) [0..<unat rxnum]) \<and> view (sent up) (words ma') = [] \<and>
    (\<forall>a2 b2. pair_step\<^sup>*\<^sup>* (a', set_sblock mc' stc') (a2, b2) \<longrightarrow>
      (\<exists>na nb. mgr a2 = Some na \<and> mgr b2 = Some nb \<and> words nb = words na \<and>
        (\<forall>i<unat txnum. places down (words na) (txrecord (ring na)) (rxrecord (ring nb)) i = 1) \<and>
        (\<forall>i<unat rxnum. places up (words na) (txrecord (ring nb)) (rxrecord (ring na)) i = 1)))"
proof -
  note r = restart_linked[OF fits host client told reach free rec again, folded org_def, folded down_def up_def]
  have "linked down up a2 b2" if "pair_step\<^sup>*\<^sup>* (a', set_sblock mc' stc') (a2, b2)" for a2 b2
    using linked_reach[OF that, of down up] r(1) by simp
  then show ?thesis using r(4-7) linked_places[of down up, unfolded r(2,3)] by blast
qed

lemma client_again: "fst (sblock_client_init True 0x1000 w True True True 0 new_mgr (new_sys True)) = 0"
  using new_local(1)[of 0 True] by (simp add: sblock_client_init_def Let_def sblock_log_def)

lemma recover_ends:
  assumes l: "linked l l' a b" and m: "mgr a = Some ma" and c: "channel2index c \<noteq> INVALID_CHANEL_INDEX"
    and res: "\<not> sipc_smem_request_resource res (ipc a) < 0"
  obtains a' ma' where "sblock_recover res c a = Some (0, a')" "mgr a' = Some ma'"
proof -
  obtain op where "set_up c op ma a" "lane_ok (tx_lane op ma)" "lane_ok (rx_lane op ma)"
      "lane_cells (tx_lane op ma) \<inter> lane_cells (rx_lane op ma) = {}" "length (txrecord (ring ma)) = lane_n (tx_lane op ma)"
      "length (rxrecord (ring ma)) = lane_n (rx_lane op ma)"
    using l m c by (elim linkedE) (auto simp: set_up_def lane_inv_def)
  from recover_spec[OF this res] that show ?thesis by metis
qed

theorem restart_frees_all_witness:
  "\<exists>a' ma'. sblock_recover 0 0 (set_sblock host_mgr host_sys) = Some (0, a') \<and> mgr a' = Some ma' \<and>
     mset (map fst (view (pool ex_down) (words ma'))) = {#stored ex_down 0, stored ex_down 1#}"
proof -
  have n: "align_up 8 = 8" "(0x1000::u32) - smem_base (new_sys False) + dst_smem_base (new_sys False) = 0x1000"
    by (simp_all add: align_up_def new_sys_def)
  have two: "lane_n ex_down = 2" "lane_n ex_up = 2" by (simp_all add: lane_n_def lane_down_def lane_up_def)
  have "txrecord (ring host_mgr) = replicate 2 0 \<and> rxrecord (ring host_mgr) = replicate 2 0"
    by (rule host_layout[OF example_start(1,2)]) (simp add: n two)
  then have free: "txrecord (ring host_mgr) = replicate (unat (2::u32)) 0" "rxrecord (ring host_mgr) = replicate (unat (2::u32)) 0" by simp_all
  obtain a' ma' where r: "sblock_recover 0 0 (set_sblock host_mgr host_sys) = Some (0, a')" "mgr a' = Some ma'"
    by (rule recover_ends[OF example_linked(1), of host_mgr 0 0]) (use in_cfg example_start(7) in auto)
  obtain mc' stc' where c: "sblock_client_init True 0x1000 (words ma') True True True 0 new_mgr (new_sys True) = (0, mc', stc')"
    using client_again[of "words ma'"] by (metis prod.collapse)
  have "mgr (set_sblock host_mgr host_sys) = Some host_mgr" by simp
  from restart_frees_all[OF example_start(1-4) rtranclp.rtrancl_refl this free r c example_start(4)] show ?thesis
    using r by (auto simp: n upt_rec)
qed

section \<open>A block held over a recovery\<close>

text \<open>
  C37. Recovery can hand out a block that is held. It writes the free blocks to the first entries of the ring, but they are
  read from the counter on. If one block is held, the counter is not at the first entry and the last entry still has the
  address of that block (as when one block of two has gone round and the other is held), then the held block is in the pool
  as well, in two places, and a free one is in none: it is lost.
\<close>

theorem recovery_duplicates_held:
  assumes l: "linked l l' a b" and m: "mgr a = Some ma" "header_op (ring ma) = Some op" "tx_addr (poolhd_op op) = blk0 l + origin l"
    and held: "holds_tx op ma i x" "\<forall>j<lane_n l. j \<noteq> i \<longrightarrow> txrecord (ring ma) ! j = SBLOCK_BLK_STATE_DONE"
    and off: "unat (pool_wt op ma) mod lane_n l \<noteq> 0" and old: "words ma (blk_at (p_txblks (ring ma)) (of_nat (lane_n l - 1))) = stored l i"
    and rec: "sblock_recover res c a = Some (0, a')" "mgr a' = Some ma'"
  shows "places l (words ma') (txrecord (ring ma')) (replicate (lane_n l) SBLOCK_BLK_STATE_DONE) i = 2 \<and>
    (\<exists>j<lane_n l. places l (words ma') (txrecord (ring ma')) (replicate (lane_n l) SBLOCK_BLK_STATE_DONE) j = 0)"
proof -
  have lanes: "tx_lane op ma = l" "rx_lane op ma = l'" "lane_ok l" "lane_ok l'" "lane_cells l \<inter> lane_cells l' = {}"
      "length (txrecord (ring ma)) = lane_n l" "length (rxrecord (ring ma)) = lane_n l'"
    using l m by (auto simp: linked_def lane_inv_def)
  have s: "mbase (pool l) = p_txblks (ring ma)" "bsize l = txblksz ma" using lanes(1) by (auto simp: tx_lane_def)
  have i: "i < lane_n l" "txrecord (ring ma) ! i = SBLOCK_BLK_STATE_PENDING" using held(1) lanes(1) by (simp_all add: holds_tx_def)
  have c: "channel2index c \<noteq> INVALID_CHANEL_INDEX" "\<not> sipc_smem_request_resource res (ipc a) < 0"
    using rec(1) m by (auto simp: sblock_recover_def Let_def sblock_log_def set_sblock_def split: if_splits)
  then have up: "set_up c op ma a" using m by (simp add: set_up_def)
  obtain m' st' where m': "sblock_recover res c a = Some (0, st')" "mgr st' = Some m'" "txrecord (ring m') = txrecord (ring ma)"
      "view (sent l) (words m') = []"
      "view (pool l) (words m') = rebuilt (pool l) (words ma) (pool_wt op ma) (tx_addr (poolhd_op op)) (txblksz ma) (txrecord (ring ma))"
    by (rule recover_spec[OF up _ _ _ _ _ c(2), unfolded lanes(1,2)]) (use lanes in auto)
  have same: "m' = ma'" using m'(1,2) rec by simp
  let ?v = "rebuilt (pool l) (words ma) (pool_wt op ma) (tx_addr (poolhd_op op)) (bsize l) (txrecord (ring ma))"
  obtain j where j: "j < lane_n l" "j \<noteq> i" "distinct (map fst ?v)" "fst ` set ?v = stored l ` {..<lane_n l} - {stored l j}"
    by (rule rebuilt_held[OF lanes(3) m(3) lanes(6) i(1) _ held(2) off, where w = "words ma"]) (use old s i in auto)
  have "stored l j \<noteq> stored l i" using places_other[OF lanes(3) j(1) i(1) j(2)] .
  then have "places l (words ma') (txrecord (ring ma')) (replicate (lane_n l) 0) i = 2" "places l (words ma') (txrecord (ring ma')) (replicate (lane_n l) 0) j = 0"
    using m'(3-5) j held(2) i unfolding same s(2)[symmetric] by (auto simp: places_def count_list_distinct)
  then show ?thesis using j(1) by blast
qed

text \<open>Two blocks: the first has gone round, the second is held.\<close>

definition held_mgr :: sblock_mgr where
  "held_mgr = host_mgr\<lparr>words := (words host_mgr)(64 := 2, 68 := 3), ring := (ring host_mgr)\<lparr>txrecord := [0, 1]\<rparr>\<rparr>"

definition held_peer :: sblock_mgr where
  "held_peer = client_mgr\<lparr>words := (words host_mgr)(64 := 2, 68 := 3)\<rparr>"

lemma example_held:
  obtains op where "linked ex_down ex_up (set_sblock held_mgr host_sys) (set_sblock held_peer client_sys)"
    "header_op (ring held_mgr) = Some op" "tx_addr (poolhd_op op) = blk0 ex_down + origin ex_down"
    "holds_tx op held_mgr 1 (blk_start ex_down 1)" "unat (pool_wt op held_mgr) mod 2 = 1"
    "words held_mgr (blk_at (p_txblks (ring held_mgr)) 1) = stored ex_down 1"
proof -
  have a: "align_up 8 = 8" "(0x1000::u32) - smem_base (new_sys False) + dst_smem_base (new_sys False) = 0x1000"
    by (simp_all add: align_up_def new_sys_def)
  let ?w = "words host_mgr" and ?w' = "(words host_mgr)(64 := 2, 68 := 3)"
  obtain op where op: "header_op (ring host_mgr) = Some op" "tx_lane op host_mgr = ex_down" "rx_lane op host_mgr = ex_up"
      "tx_addr (poolhd_op op) = blk0 ex_down + 0x1000" "layout_done ex_down ex_up 0x1000 ?w"
    by (rule host_layout[OF example_start(1,2)]) (simp add: a)
  obtain opb where b: "header_op (ring client_mgr) = Some opb" "words client_mgr = ?w" "tx_lane opb client_mgr = ex_up" "rx_lane opb client_mgr = ex_down"
      "lane_cells ex_down \<inter> lane_cells ex_up = {}" "lane_inv ex_down ?w (txrecord (ring host_mgr)) (rxrecord (ring client_mgr))"
      "lane_inv ex_up ?w (txrecord (ring client_mgr)) (rxrecord (ring host_mgr))"
    using example_linked(1) by (elim linkedE) auto
  have ok: "lane_ok ex_down" "lane_n ex_down = 2" "length (rxrecord (ring client_mgr)) = 2" using b(6) by (simp_all add: lane_inv_def lane_n_def lane_down_def)
  have e: "entries ?w' (unat (mbase (pool ex_down))) 2 = entries ?w (unat (mbase (pool ex_down))) 2"
    by (rule entries_cong) (simp add: lane_down_def)
  have n: "unat (mcount (pool ex_down)) = 2" "rdp (pool ex_down) = 64" "wtp (pool ex_down) = 68" by (simp_all add: lane_down_def)
  let ?E = "entries ?w (unat (mbase (pool ex_down))) 2"
  have mc: "mcount (pool ex_down) = 2" by (simp add: lane_down_def)
  then have w68: "?w 68 = 2" using op(5) by (simp add: layout_done_def)
  then have "unat (2 - ?w 64) = 2" using length_view[of "pool ex_down" ?w] n example_linked(2) by simp
  then have "2 - ?w 64 = 2" by (intro word_unat_eq_iff[THEN iffD2]) simp
  then have w64: "?w 64 = 0" by simp
  have "view (pool ex_down) ?w = ?E"
    using n w64 w68 by (simp add: view_def ring_view_def upt_rec) (simp add: entries_def upt_rec)
  then have 0: "?E = [(stored ex_down 0, 8), (stored ex_down 1, 8)]" using example_linked(2) by simp
  have v: "view (pool ex_down) ?w' = [(stored ex_down 0, 8)]"
    using 0 n e by (simp add: view_def ring_view_def)
  have s: "view (sent ex_down) ?w' = []" 
    using example_linked(3) lane_apart(1)[OF ok(1), of ?w' ?w] n by (simp add: cells_def)
  have up: "lane_inv ex_up ?w' (txrecord (ring client_mgr)) (rxrecord (ring host_mgr))"
  proof (rule inv_frame[OF b(7)])
    fix x assume x: "x \<in> lane_cells ex_up"
    have "64 \<in> lane_cells ex_down" "68 \<in> lane_cells ex_down" using n by (simp_all add: lane_cells_def cells_def)
    then have "x \<noteq> 64" "x \<noteq> 68" using x b(5) by blast+
    then show "?w' x = ?w x" by simp
  qed
  have rx: "rxrecord (ring client_mgr) ! 0 \<noteq> 1" "rxrecord (ring client_mgr) ! 1 \<noteq> 1"
    using b(6) ok(2) example_linked(2) by (auto simp: lane_inv_def places_def of_bool_def less_2_cases_iff split: if_splits)
  have ne: "stored ex_down 0 \<noteq> stored ex_down 1" using places_other[OF ok(1), of 0 1] ok(2) by simp
  have "places ex_down ?w' [0, 1] (rxrecord (ring client_mgr)) i = 1" if "i < 2" for i
    using that v s rx ne by (auto simp: places_def less_2_cases_iff)
  then have "lane_inv ex_down ?w' [0, 1] (rxrecord (ring client_mgr))"
    using ok v s by (auto simp: lane_inv_def)
  moreover have h: "header_op (ring held_mgr) = Some op" "header_op (ring held_peer) = Some opb" "words held_mgr = ?w'" "words held_peer = ?w'"
      "txrecord (ring held_mgr) = [0, 1]" "rxrecord (ring held_peer) = rxrecord (ring client_mgr)"
      "rxrecord (ring held_mgr) = rxrecord (ring host_mgr)" "txrecord (ring held_peer) = txrecord (ring client_mgr)"
      "same_setup host_mgr held_mgr" "same_setup client_mgr held_peer"
    using op(1) b(1) by (simp_all add: held_mgr_def held_peer_def same_setup_def)
  moreover have t: "tx_lane op held_mgr = ex_down" "rx_lane op held_mgr = ex_up" "tx_lane opb held_peer = ex_up" "rx_lane opb held_peer = ex_down"
    using same_lanes[OF h(9)] same_lanes[OF h(10)] op b by simp_all
  ultimately have "linked ex_down ex_up (set_sblock held_mgr host_sys) (set_sblock held_peer client_sys)"
    unfolding linked_def using b(5) up by (intro exI[of _ held_mgr] exI[of _ held_peer] exI[of _ op] exI[of _ opb]) simp
  moreover have "tx_addr (poolhd_op op) = blk0 ex_down + origin ex_down" using op(4) by (simp add: lane_down_def)
  moreover have "holds_tx op held_mgr 1 (blk_start ex_down 1)" using ok(2) h(5) t(1) by (simp add: holds_tx_def)
  moreover have q: "tx_wt_p (poolhd_op op) = 68" "p_txblks (ring held_mgr) = mbase (pool ex_down)"
    using lane_simps(2,3)[of op held_mgr] unfolding t(1) n(3) by simp_all
  moreover have "words held_mgr (blk_at (mbase (pool ex_down)) 1) = stored ex_down 1"
  proof -
    have "words held_mgr (blk_at (mbase (pool ex_down)) 1) = fst (entries (words held_mgr) (unat (mbase (pool ex_down))) 2 ! 1)"
      by (simp add: entries_def blk_at_def)
    then show ?thesis unfolding h(3) e 0 by simp
  qed
  ultimately show ?thesis using that[of op] h(1,3) by (simp add: pool_wt_def)
qed

theorem recovery_duplicates_held_witness:
  "\<exists>a' ma'. sblock_recover 0 0 (set_sblock held_mgr host_sys) = Some (0, a') \<and> mgr a' = Some ma' \<and>
     places ex_down (words ma') (txrecord (ring ma')) [0, 0] 1 = 2"
proof -
  have two: "lane_n ex_down = 2" by (simp add: lane_n_def lane_down_def)
  obtain op where h: "linked ex_down ex_up (set_sblock held_mgr host_sys) (set_sblock held_peer client_sys)"
    "header_op (ring held_mgr) = Some op" "tx_addr (poolhd_op op) = blk0 ex_down + origin ex_down"
    "holds_tx op held_mgr 1 (blk_start ex_down 1)" "unat (pool_wt op held_mgr) mod 2 = 1"
    "words held_mgr (blk_at (p_txblks (ring held_mgr)) 1) = stored ex_down 1" by (rule example_held)
  obtain a' ma' where r: "sblock_recover 0 0 (set_sblock held_mgr host_sys) = Some (0, a')" "mgr a' = Some ma'"
    by (rule recover_ends[OF h(1), of held_mgr 0 0]) (use in_cfg example_start(7) in auto)
  have m: "mgr (set_sblock held_mgr host_sys) = Some held_mgr" by simp
  have o: "\<forall>j<lane_n ex_down. j \<noteq> 1 \<longrightarrow> txrecord (ring held_mgr) ! j = SBLOCK_BLK_STATE_DONE"
      "unat (pool_wt op held_mgr) mod lane_n ex_down \<noteq> 0"
      "words held_mgr (blk_at (p_txblks (ring held_mgr)) (of_nat (lane_n ex_down - 1))) = stored ex_down 1"
    using h(5,6) by (auto simp: two held_mgr_def less_2_cases_iff)
  from recovery_duplicates_held[OF h(1) m h(2,3,4) o r] show ?thesis using r by (auto simp: two numeral_2_eq_2)
qed

end
