(* ===== verification/Spec2Isabelle.thy ===== *)
theory Spec2Isabelle
  imports SipaSenderProps SipaFreeProps SipaFifoProps SipaReceiverProps SipaIrqProps SipaProbeProps SipaConfigProps
    SmsPduProps MhiPmProps MhiStartProps SbufLinkProps SipaConn SblockRecoverProps
begin

text \<open>
  A verification development for the C code of 5G-Modem-Support, the kernel drivers and tools that connect
  an OpenWrt router to a 5G modem. Four programs are modelled. One is the data path of the driver for
  modems on a PCIe bus, SIPA (\<^verbatim>\<open>src/quectel_SRPD_PCIE/src/sipa/\<close>): packets travel between the router and the
  modem in rings of descriptors in shared memory, one pair of rings (FIFO block) per direction, governed by
  memory-mapped registers. Below it lies SIPC (\<^verbatim>\<open>src/quectel_SRPD_PCIE/src/sipc/\<close>), messages, byte streams and blocks
  between the two processors in shared memory, over which SIPA shakes hands with the modem. The third is the host side of the Modem Host Interface bus
  (\<^verbatim>\<open>src/quectel_MHI/src/core/\<close>), which brings such a modem up and down and moves its buffers. The fourth is the text-message
  codec of the AT command tool
  (\<^verbatim>\<open>src/sendat/src/\<close>).

  The parts and their theories, from the registers up.

  \<^item> \<open>Prelude\<close>: machine integers, errno values, memory-mapped registers as a parameter (\<open>mmio\<close>, with the
    contract \<open>mmio_ok\<close>: a written bit that the driver owns stays written, everything else may change at
    any access), copies between arrays. \<open>Ring\<close>, \<open>RxRing\<close>, \<open>RecvArray\<close>: rings seen as lists, and the
    interface \<open>bounded_queue\<close>, interpreted on the array of posted buffers, on the rings of an MHI channel and on the cache of a message channel.
  \<^item> \<open>SipaPhy\<close>, \<open>SipaPhyCtl\<close> (\<^verbatim>\<open>sipa_phy_v0/sipa_fifo_phy.h\<close>): one definition per register accessor, with the
    accessor's name. \<open>SipaRegs\<close>: the interfaces \<open>bit_field\<close>, \<open>checked_field\<close> and \<open>disjoint_fields\<close>, each
    interpreted on the accessors.
  \<^item> \<open>SipaCore\<close> (\<^verbatim>\<open>sipa_core.h\<close>), \<open>SipaFifoHal\<close> and \<open>SipaFifoRing\<close> (\<^verbatim>\<open>sipa_phy_v0/sipa_common_fifo_hal.c\<close>): the
    operations on a FIFO block, in a state monad over the device and the table of blocks.
  \<^item> \<open>SipaState\<close>: the state above the FIFO layer, extending the record of the FIFO layer. Socket buffers,
    list heads and interface pointers are abstract; calls of callbacks and buffers given back to the
    kernel are logged.
  \<^item> \<open>SipaSender\<close> (\<^verbatim>\<open>sipa_skb_send.c\<close>), \<open>SipaReceiver\<close> (\<^verbatim>\<open>sipa_skb_recv.c\<close>), \<open>SipaNic\<close> (\<^verbatim>\<open>sipa_nic.c\<close>),
    \<open>SipaIrq\<close> (\<^verbatim>\<open>sipa_phy_v0/sipa_fifo_irq_hal.c\<close> and the receive side of \<^verbatim>\<open>sipa_dummy.c\<close>), \<open>SipaProbe\<close>
    (\<^verbatim>\<open>sipa_core.c\<close>), \<open>SipaConn\<close> (\<^verbatim>\<open>sipa_dele_cmn.c\<close>): one definition per function, with the function's name; a loop body or a
    piece of a long function that has a definition of its own is listed in the manifest with its lines.
  \<^item> \<open>MhiCore\<close> (\<^verbatim>\<open>mhi_internal.h\<close>, \<^verbatim>\<open>mhi_main.c\<close>): the controller, its registers, doorbells and ring pointers; \<open>MhiPm\<close>
    (\<^verbatim>\<open>mhi_pm.c\<close>): power states, reset, suspend and resume. Where an operation releases its lock or waits, the
    argument \<open>env\<close> says what the other threads and the device do. A failed \<open>MHI_ASSERT\<close> is the warning it is without
    \<open>CONFIG_MHI_DEBUG\<close>. \<open>MhiChan\<close> and \<open>MhiEvent\<close> (\<^verbatim>\<open>mhi_main.c\<close>): the
    channels with their two rings, commands, and the event rings with their interrupt handlers; a pointer of the
    device is followed as the code does, \<open>None\<close> where that leaves a ring or never ends.
  \<^item> \<open>Sipc\<close> (\<^verbatim>\<open>include/sipc.h\<close>), \<open>Smsg\<close> (\<^verbatim>\<open>sipc/smsg.c\<close>): messages in two rings of one shared page, a cache for every
    channel, opening and closing a channel. \<open>Sbuf\<close> (\<^verbatim>\<open>sipc/sbuf.c\<close>): byte streams in a block that the host lays out and
    the client finds, with the thread that handles their messages. \<open>Sblock\<close> (\<^verbatim>\<open>sipc/sblock.c\<close>): blocks of fixed
    size that change hands, in each direction a pool of the free ones and a ring of the sent ones. Addresses are offsets into the shared memory; the
    other side and the waiting are arguments, and putting two states with one memory side by side gives both ends.
  \<^item> \<open>SmsCodec\<close> (\<^verbatim>\<open>sendat/src/pdu.c\<close>, \<^verbatim>\<open>ucs2_to_utf8.c\<close>): septet packing, the GSM alphabet, telephone numbers and
    UTF-8; \<open>SmsPdu\<close> (\<^verbatim>\<open>pdu.c\<close>, \<^verbatim>\<open>pdu_decoder.c\<close>): whole messages. An array is a list with a bounds check at every
    access, so \<open>None\<close> is an access outside it.

  Conventions. An operation that cannot get stuck is a state transformer or a \<open>State_Monad\<close> action. An
  operation that can follow a null pointer, leave an array or spin on a lock returns an \<open>option\<close>, \<open>None\<close>
  for each of these, and the theorems prove that it is not \<open>None\<close>. What the kernel decides (allocation,
  DMA mapping, thread creation) is an argument. What the device may write into shared memory while the
  code polls it is the argument \<open>poll\<close>, any function that keeps the length of the ring. Two operations of
  one component run one after the other; the locks that ensure this are modelled only where the code
  can return with one held (\<open>nic_lock\<close>). The receive poll can run for ever, so it takes fuel; the only
  theorem about its fuel says that none is enough.

  What the theorems show.

  \<^item> \<open>SipaSenderProps\<close>, \<open>SipaFreeProps\<close>: the sender's invariant \<open>sender_ok\<close> (free list and sending list
    partition the cache, credits never exceed the free entries, the rings are as long as their depths),
    kept by sending and freeing; what each of the two does to lists, credits and descriptors; the two
    ways in which the code loses credits or keeps a lock.
  \<^item> \<open>SipaReceiverProps\<close>, \<open>RecvArray\<close>: the array of posted buffers is a queue across the wrap-around of its
    counters; every posted buffer is delivered or freed, and posted and missing buffers add up.
  \<^item> \<open>SipaFifoProps\<close>, \<open>RxRing\<close>: opening programs the device as configured, and zeroes the transmit write pointer on a
    device that loads it when told (\<open>loads_tx_wptr\<close>); writing descriptors appends to the
    list the ring holds, across the end of the ring.
  \<^item> \<open>SipaIrqProps\<close>, \<open>SipaProbeProps\<close>, \<open>SipaConfigProps\<close>: interrupts are acknowledged exactly, the probe
    establishes the invariants, interfaces have one owner, register fields are independent, and the
    functions whose error tests are wrong.
  \<^item> \<open>SipaFrames\<close>: which parts of the state the FIFO operations leave alone.
  \<^item> \<open>MhiPmProps\<close>: the documented power-state transitions as a relation; the table implements it, every operation
    keeps to it, a shutdown ends in the disabled state, and what a suspend that times out leaves behind.
  \<^item> \<open>MhiChanProps\<close>: the rings of a channel are a bounded queue of buffers (an interpretation of \<open>bounded_queue\<close>);
    queueing appends, an event hands back the buffers up to the one it names, a reset hands back all of them, and
    an event whose pointer lies below the end of the ring, but at none of its elements, never ends (one behind the
    end is taken for the first element). \<open>MhiStartProps\<close>: starting a channel, through
    the command ring, the completion and the waiting thread.
  \<^item> \<open>SmsgProps\<close>: messages sent on one side are received on the other, each channel its own and in order, across the
    wrap-around of the counters; the interrupt handler is the processing of the list under way; how two sides open
    a channel, why a timeout makes that fail, and which messages take the receiver down. The cache of a channel is a
    \<open>bounded_queue\<close>.
  \<^item> \<open>SbufProps\<close>, \<open>SbufLinkProps\<close>: writing appends to the stream in the ring and reading takes from it, for rings
    whose size is a power of two below 2^31, which the code does not check; the client's rings mirror the host's; what one side writes the other reads; and what
    a read hands out when the other side's counter is too far ahead. \<open>SipaConn\<close>: the acknowledgements of SIPA's
    handshake go to a processor that has no message layer.
  \<^item> \<open>SblockProps\<close>: a ring of entries in shared memory as a list, and the five ways in which a block changes hands, on
    the four places it can be in. \<open>SblockOpProps\<close>: which of them every operation makes, for either side.
    \<open>SblockLinkProps\<close>: the two sides over one memory as a step relation, and the invariant of all reachable pairs.
    \<open>SblockInitProps\<close>: the invariant holds when the area has been laid out and found. \<open>SblockFlowProps\<close>: no block is lost
    or in two places, a block sent is the one received, and of the memory the calls write only the counters, rings and
    pools inside the area, for numbers of blocks that are powers of two, block sizes that are not zero and an area that
    fits into 32 bits, as long as neither side recovers. \<open>SblockRefillProps\<close>, \<open>SblockRecoverProps\<close>: what a recovery
    leaves; with nothing held all blocks are free again and the two sides linked anew, with a block held it can be handed
    out a second time.
  \<^item> \<open>SmsSeptetProps\<close>, \<open>SmsTextProps\<close>: each encoder of the SMS codec against its decoder, bit by bit for the
    septets and by value for UTF-8. \<open>SmsPduProps\<close>: how long the arrays of the callers have to be for encoding
    and decoding to stay inside them, and that one of them is too short.

  Not modelled: the other SIPA files (\<^verbatim>\<open>sipa_eth.c\<close>, \<^verbatim>\<open>sipa_debugfs.c\<close>: registration and printing), header
  rewriting in \<^verbatim>\<open>sipa_dummy.c\<close>, the big-endian variants, log output, the pipes and pools of \<^verbatim>\<open>sipc/\<close>
  (\<^verbatim>\<open>spipe.c\<close>, \<^verbatim>\<open>spool.c\<close>, \<^verbatim>\<open>smem.c\<close>), the PCIe and power management glue, the devices on top of the MHI bus and its second vendor copy, the USB drivers, the serial
  port handling of \<^verbatim>\<open>sendat.c\<close> and the other user-space tools; the manifest lists each with the reason.
\<close>

end
